(* ===== verification/Prelude.thy ===== *)
theory Prelude
  imports Main "HOL-Library.AList" "HOL-Library.Char_ord" "HOL-Library.List_Lexorder"
    "HOL-Library.Product_Lexorder" "HOL-Library.Word" "HOL-Library.Multiset"
begin

text \<open>
  Shared vocabulary of the development: Python exceptions as values, the two result
  monads (a pure one for code that only reads, a state-passing one for code that writes
  a store and may raise afterwards), insertion-ordered dictionaries, the string methods
  the services use and aware/naive datetimes.  The lemmas collected in \<open>res_simps\<close>,
  \<open>st_simps\<close> and \<open>dict_simps\<close> carry the component proofs.

  Text is modelled over \<^typ>\<open>char\<close> and is exact for ASCII: on a character above 127 the
  case and white-space methods act as the identity, and encoding to UTF-8 is the identity.
\<close>

named_theorems res_simps \<open>inversion of the pure result monad\<close>
named_theorems st_simps \<open>inversion of the stateful result monad\<close>
named_theorems dict_simps \<open>dictionary lookup after update\<close>

section \<open>Exceptions\<close>

text \<open>
  The exception classes the modelled code raises; \<open>exc_isa\<close> is the subclass relation an
  \<^verbatim>\<open>except\<close> clause tests.
\<close>

datatype exc =
    ValueError | TypeError | KeyError | LookupError | PermissionError | RuntimeError
  | OverflowError | UnicodeError | JSONDecodeError | InvalidSignature | CanonicalizationError
  | IdempotencyConflictError | QuoteAlreadyAcceptedError | UttNotFoundError
  | NoEligibleRouteError | PlanNotExecutableError
  | ExecutionPlanNotFoundError | RttNotFoundError | ConcurrentPlanUpdateError
  | ExecutionPlanConflictError
  | SubmissionNotDispatchableError | SubmissionNotFoundError
  | ConcurrentSubmissionUpdateError | ProjectionEventConflictError
  | SettlementConflictError | CallbackPayloadConflictError
  | TransactionProjectionNotFoundError | TransactionAccessDeniedError
  | AccessTokenError | ApiRateLimitExceededError
  | InstitutionTransportError | NotImplementedError | EnvelopeIntegrityError | InvalidTag
  | ZeroDivisionError | OtherException

datatype error = Raise exc string

fun exc_of :: "error \<Rightarrow> exc" where
  "exc_of (Raise c _) = c"

fun exc_super :: "exc \<Rightarrow> exc option" where
  "exc_super CanonicalizationError = Some ValueError"
| "exc_super UnicodeError = Some ValueError"
| "exc_super JSONDecodeError = Some ValueError"
| "exc_super KeyError = Some LookupError"
| "exc_super UttNotFoundError = Some LookupError"
| "exc_super ExecutionPlanNotFoundError = Some LookupError"
| "exc_super RttNotFoundError = Some LookupError"
| "exc_super SubmissionNotFoundError = Some LookupError"
| "exc_super TransactionProjectionNotFoundError = Some LookupError"
| "exc_super TransactionAccessDeniedError = Some PermissionError"
| "exc_super IdempotencyConflictError = Some RuntimeError"
| "exc_super QuoteAlreadyAcceptedError = Some RuntimeError"
| "exc_super NoEligibleRouteError = Some RuntimeError"
| "exc_super PlanNotExecutableError = Some RuntimeError"
| "exc_super ConcurrentPlanUpdateError = Some RuntimeError"
| "exc_super ExecutionPlanConflictError = Some RuntimeError"
| "exc_super SubmissionNotDispatchableError = Some RuntimeError"
| "exc_super ConcurrentSubmissionUpdateError = Some RuntimeError"
| "exc_super ProjectionEventConflictError = Some RuntimeError"
| "exc_super SettlementConflictError = Some RuntimeError"
| "exc_super CallbackPayloadConflictError = Some RuntimeError"
| "exc_super AccessTokenError = Some PermissionError"
| "exc_super ApiRateLimitExceededError = Some RuntimeError"
| "exc_super InstitutionTransportError = Some RuntimeError"
| "exc_super NotImplementedError = Some RuntimeError"
| "exc_super EnvelopeIntegrityError = Some PermissionError"
| "exc_super _ = None"

definition exc_isa :: "exc \<Rightarrow> exc \<Rightarrow> bool" where
  "exc_isa c d \<longleftrightarrow> c = d \<or> exc_super c = Some d"

section \<open>Results and stateful results\<close>

type_synonym 'a res = "error + 'a"

text \<open>A stateful operation returns its result and the state it leaves, also when it raises.\<close>

type_synonym ('s, 'a) st = "'s \<Rightarrow> 'a res \<times> 's"

definition rbind :: "'a res \<Rightarrow> ('a \<Rightarrow> 'b res) \<Rightarrow> 'b res" where
  "rbind m f = (case m of Inl e \<Rightarrow> Inl e | Inr x \<Rightarrow> f x)"

definition guard_res :: "bool \<Rightarrow> exc \<Rightarrow> string \<Rightarrow> unit res" where
  \<comment> \<open>\<^verbatim>\<open>if bad: raise c(msg)\<close>\<close>
  "guard_res bad c msg = (if bad then Inl (Raise c msg) else Inr ())"

definition sret :: "'a \<Rightarrow> ('s, 'a) st" where
  "sret x s = (Inr x, s)"

definition sbind :: "('s, 'a) st \<Rightarrow> ('a \<Rightarrow> ('s, 'b) st) \<Rightarrow> ('s, 'b) st" where
  "sbind m f s = (case m s of (Inl e, s') \<Rightarrow> (Inl e, s') | (Inr x, s') \<Rightarrow> f x s')"

definition slift :: "'a res \<Rightarrow> ('s, 'a) st" where
  "slift r s = (r, s)"

definition sget :: "('s \<Rightarrow> 'a res) \<Rightarrow> ('s, 'a) st" where
  \<comment> \<open>a read-only operation on the state\<close>
  "sget f s = (f s, s)"

fun rmap :: "('a \<Rightarrow> 'b res) \<Rightarrow> 'a list \<Rightarrow> 'b list res" where
  "rmap f [] = Inr []"
| "rmap f (x # xs) = rbind (f x) (\<lambda>y. rbind (rmap f xs) (\<lambda>ys. Inr (y # ys)))"

fun rforall :: "('a \<Rightarrow> unit res) \<Rightarrow> 'a list \<Rightarrow> unit res" where
  \<comment> \<open>a loop of checks, the first failure raised\<close>
  "rforall f [] = Inr ()"
| "rforall f (x # xs) = rbind (f x) (\<lambda>_. rforall f xs)"

lemma rbind_Inr [simp, res_simps]: "rbind (Inr x) f = f x"
  by (simp add: rbind_def)

lemma rbind_Inl [simp, res_simps]: "rbind (Inl e) f = Inl e"
  by (simp add: rbind_def)

lemma rbind_eq_Inr [res_simps]: "rbind m f = Inr y \<longleftrightarrow> (\<exists>x. m = Inr x \<and> f x = Inr y)"
  by (cases m) auto

lemma rbind_eq_Inl [res_simps]:
  "rbind m f = Inl e \<longleftrightarrow> m = Inl e \<or> (\<exists>x. m = Inr x \<and> f x = Inl e)"
  by (cases m) auto

lemma rbind_InrE: "rbind m f = Inr y \<Longrightarrow> (\<And>x. m = Inr x \<Longrightarrow> f x = Inr y \<Longrightarrow> P) \<Longrightarrow> P"
  by (cases m) auto

lemma rbind_assoc: "rbind (rbind m f) g = rbind m (\<lambda>x. rbind (f x) g)"
  by (cases m) auto

lemma rbind_cong [fundef_cong]:
  "m = m' \<Longrightarrow> (\<And>x. m' = Inr x \<Longrightarrow> f x = f' x) \<Longrightarrow> rbind m f = rbind m' f'"
  by (cases m') auto

lemma guard_res_eq_Inr [res_simps]: "guard_res b c m = Inr u \<longleftrightarrow> \<not> b"
  by (simp add: guard_res_def)

lemma guard_res_eq_Inl [res_simps]: "guard_res b c m = Inl e \<longleftrightarrow> b \<and> e = Raise c m"
  by (auto simp: guard_res_def)

lemma guard_res_False [simp]: "guard_res False c m = Inr ()"
  by (simp add: guard_res_def)

lemma guard_res_True [simp]: "guard_res True c m = Inl (Raise c m)"
  by (simp add: guard_res_def)

lemma sret_eq [st_simps]: "sret x s = (r, s') \<longleftrightarrow> r = Inr x \<and> s' = s"
  by (auto simp: sret_def)

lemma slift_eq [st_simps]: "slift m s = (r, s') \<longleftrightarrow> m = r \<and> s' = s"
  by (auto simp: slift_def)

lemma sget_eq [st_simps]: "sget f s = (r, s') \<longleftrightarrow> f s = r \<and> s' = s"
  by (auto simp: sget_def)

lemma sbind_eq_Inr [st_simps]:
  "sbind m f s = (Inr y, s') \<longleftrightarrow> (\<exists>x t. m s = (Inr x, t) \<and> f x t = (Inr y, s'))"
  by (auto simp: sbind_def split: prod.splits sum.splits)

lemma sbind_eq_Inl [st_simps]:
  "sbind m f s = (Inl e, s') \<longleftrightarrow>
     m s = (Inl e, s') \<or> (\<exists>x t. m s = (Inr x, t) \<and> f x t = (Inl e, s'))"
  by (auto simp: sbind_def split: prod.splits sum.splits)

lemma sbindE:
  assumes "sbind m f s = (r, s')"
  obtains e where "m s = (Inl e, s')" "r = Inl e" | x t where "m s = (Inr x, t)" "f x t = (r, s')"
  using assms by (auto simp: sbind_def split: prod.splits sum.splits)

lemma sbind_step: "m s = (Inr x, t) \<Longrightarrow> sbind m f s = f x t"
  by (simp add: sbind_def)

lemma rmap_eq_Inr: "rmap f xs = Inr ys \<longleftrightarrow> list_all2 (\<lambda>x y. f x = Inr y) xs ys"
proof (induction xs arbitrary: ys)
  case (Cons x xs)
  then show ?case by (cases ys) (auto simp: res_simps)
qed auto

lemma rforall_eq_Inr [res_simps]: "rforall f xs = Inr u \<longleftrightarrow> (\<forall>x\<in>set xs. f x = Inr ())"
  by (induction xs) (auto simp: res_simps)

section \<open>Insertion-ordered dictionaries\<close>

text \<open>
  A \<^verbatim>\<open>dict\<close> is an association list in insertion order: assignment to a present key
  replaces the value in place, a new key is appended (\<^const>\<open>AList.update\<close>).
\<close>

type_synonym ('k, 'v) dict = "('k \<times> 'v) list"

abbreviation dict_get :: "('k, 'v) dict \<Rightarrow> 'k \<Rightarrow> 'v option" where
  "dict_get d k \<equiv> map_of d k"

abbreviation dict_set :: "'k \<Rightarrow> 'v \<Rightarrow> ('k, 'v) dict \<Rightarrow> ('k, 'v) dict" where
  "dict_set k v d \<equiv> AList.update k v d"

abbreviation dict_has :: "('k, 'v) dict \<Rightarrow> 'k \<Rightarrow> bool" where
  "dict_has d k \<equiv> map_of d k \<noteq> None"

abbreviation dict_ok :: "('k, 'v) dict \<Rightarrow> bool" where
  "dict_ok d \<equiv> distinct (map fst d)"

declare map_of_eq_Some_iff [simp del] Some_eq_map_of_iff [simp del]

lemma dict_get_set [simp, dict_simps]:
  "dict_get (dict_set k v d) k' = (if k' = k then Some v else dict_get d k')"
  by (simp add: update_conv)

lemma dict_ok_set [simp, intro]: "dict_ok d \<Longrightarrow> dict_ok (dict_set k v d)"
  by (rule distinct_update)

lemma dict_set_fresh: "dict_get d k = None \<Longrightarrow> dict_set k v d = d @ [(k, v)]"
  by (induction d) (auto split: if_splits)

lemma dict_values_iff: "dict_ok d \<Longrightarrow> (k, v) \<in> set d \<longleftrightarrow> dict_get d k = Some v"
  by (auto intro: map_of_SomeD)

section \<open>String methods\<close>

definition is_space :: "char \<Rightarrow> bool" where
  "is_space c \<longleftrightarrow> (let n = (of_char c :: nat) in (9 \<le> n \<and> n \<le> 13) \<or> (28 \<le> n \<and> n \<le> 32))"

definition upper_char :: "char \<Rightarrow> char" where
  "upper_char c = (let n = (of_char c :: nat) in if 97 \<le> n \<and> n \<le> 122 then char_of (n - 32) else c)"

definition lower_char :: "char \<Rightarrow> char" where
  "lower_char c = (let n = (of_char c :: nat) in if 65 \<le> n \<and> n \<le> 90 then char_of (n + 32) else c)"

definition upper :: "string \<Rightarrow> string" where
  "upper s = map upper_char s"

definition lower :: "string \<Rightarrow> string" where
  "lower s = map lower_char s"

definition strip :: "string \<Rightarrow> string" where
  "strip s = rev (dropWhile is_space (rev (dropWhile is_space s)))"

definition is_digit :: "char \<Rightarrow> bool" where
  "is_digit c \<longleftrightarrow> (let n = (of_char c :: nat) in 48 \<le> n \<and> n \<le> 57)"

definition starts_with :: "string \<Rightarrow> string \<Rightarrow> bool" where
  "starts_with s p \<longleftrightarrow> take (length p) s = p"

lemma upper_char_idem [simp]: "upper_char (upper_char c) = upper_char c"
proof -
  have "(of_char c :: nat) < 256" by simp
  then show ?thesis
    by (auto simp: upper_char_def Let_def)
qed

lemma upper_idem [simp]: "upper (upper s) = upper s"
  by (simp add: upper_def comp_def)

lemma length_upper [simp]: "length (upper s) = length s"
  by (simp add: upper_def)

lemma strip_Nil [simp]: "strip [] = []"
  by (simp add: strip_def)

lemma dropWhile_rev_end: "dropWhile P xs \<noteq> [] \<Longrightarrow> \<not> P (hd (dropWhile P xs))"
  by (rule hd_dropWhile)

lemma strip_hd_last:
  assumes "strip s \<noteq> []"
  shows "\<not> is_space (hd (strip s))" and "\<not> is_space (last (strip s))"
proof -
  let ?d = "dropWhile is_space s"
  let ?e = "dropWhile is_space (rev ?d)"
  have ne: "?e \<noteq> []" using assms by (simp add: strip_def)
  then show "\<not> is_space (last (strip s))"
    using hd_dropWhile [OF ne] by (simp add: strip_def last_rev)
  obtain p where p: "rev ?d = p @ ?e" using takeWhile_dropWhile_id by metis
  then have "?d = rev ?e @ rev p" by (metis rev_append rev_rev_ident)
  moreover have dn: "?d \<noteq> []" using ne by (metis dropWhile.simps(1) rev.simps(1))
  ultimately have "hd (rev ?e) = hd ?d" using ne by (metis hd_append2 rev_is_Nil_conv)
  then show "\<not> is_space (hd (strip s))"
    using hd_dropWhile [OF dn] by (simp add: strip_def)
qed

lemma strip_id:
  assumes "s = [] \<or> (\<not> is_space (hd s) \<and> \<not> is_space (last s))"
  shows "strip s = s"
proof (cases s)
  case (Cons a t)
  then have "dropWhile is_space s = s" using assms by simp
  moreover have "dropWhile is_space (rev s) = rev s"
    using assms Cons by (cases "rev s") (auto simp: hd_rev [symmetric] simp del: hd_rev)
  ultimately show ?thesis by (simp add: strip_def)
qed simp

lemma strip_idem [simp]: "strip (strip s) = strip s"
  by (rule strip_id) (use strip_hd_last in blast)

section \<open>Datetimes\<close>

text \<open>
  A datetime is an instant in microseconds.  \<open>Aware t\<close> carries its UTC instant;
  \<open>Naive t\<close> has no time zone and \<open>t\<close> is its wall-clock reading.
\<close>

datatype datetime = Aware int | Naive int

type_synonym instant = int

definition usec :: "int \<Rightarrow> int" where
  \<comment> \<open>\<^verbatim>\<open>timedelta(seconds=n)\<close>\<close>
  "usec n = n * 1000000"

definition epoch :: "instant \<Rightarrow> int" where
  \<comment> \<open>\<^verbatim>\<open>int(instant.timestamp())\<close>: seconds, truncated towards zero\<close>
  "epoch t = (if 0 \<le> t then t div 1000000 else - ((- t) div 1000000))"

definition from_epoch :: "int \<Rightarrow> instant" where
  \<comment> \<open>\<^verbatim>\<open>datetime.fromtimestamp(n, tz=timezone.utc)\<close>\<close>
  "from_epoch n = n * 1000000"

lemma epoch_from_epoch [simp]: "epoch (from_epoch n) = n"
proof (cases "0 \<le> n")
  case False
  then have "- (n * 1000000) div 1000000 = - n" by simp
  with False show ?thesis by (simp add: epoch_def from_epoch_def)
qed (simp add: epoch_def from_epoch_def)

lemma epoch_mono: "s \<le> t \<Longrightarrow> epoch s \<le> epoch t"
  unfolding epoch_def by (smt (verit) zdiv_mono1 pos_imp_zdiv_nonneg_iff)

definition require_aware :: "string \<Rightarrow> datetime \<Rightarrow> instant res" where
  "require_aware name value =
     (case value of Aware t \<Rightarrow> Inr t
      | Naive _ \<Rightarrow> Inl (Raise ValueError (name @ '' must be timezone-aware'')))"

lemma require_aware_Aware [simp]: "require_aware n (Aware t) = Inr t"
  by (simp add: require_aware_def)

lemma require_aware_Inr [res_simps]: "require_aware n v = Inr t \<longleftrightarrow> v = Aware t"
  by (cases v) (auto simp: require_aware_def)

end
