(* ===== verification/Canonical_Json.thy ===== *)
theory Canonical_Json
  imports Prelude
begin

text \<open>
  The values that cross the signing boundary and their canonical serialization
  (\<^verbatim>\<open>railone_crypto/canonical_json.py\<close>): validation of the strict JSON subset,
  materialization of immutable containers, and \<^verbatim>\<open>json.dumps\<close> with sorted keys, compact
  separators and \<^verbatim>\<open>ensure_ascii=False\<close>.  The main results: the encoding does not depend
  on the order of object keys, and it is injective up to that order, so equal bytes (and a
  signature over them) stand for one value.
\<close>

section \<open>Python values\<close>

text \<open>
  \<open>PyFloat (Some n)\<close> is the float equal to the integer \<open>n\<close>, \<open>PyFloat None\<close> any other
  float.  \<open>PyDict\<close> is any \<^verbatim>\<open>Mapping\<close> in iteration order, \<open>PyOther\<close> a value of a type the
  encoder does not know, by its type name.
\<close>

datatype pyval =
    PyNone
  | PyBool bool
  | PyInt int
  | PyFloat "int option"
  | PyStr string
  | PyBytes string
  | PyList "pyval list"
  | PyTuple "pyval list"
  | PyDict "(pyval \<times> pyval) list"
  | PyOther string

fun type_name :: "pyval \<Rightarrow> string" where
  "type_name PyNone = ''NoneType''"
| "type_name (PyBool _) = ''bool''"
| "type_name (PyInt _) = ''int''"
| "type_name (PyFloat _) = ''float''"
| "type_name (PyStr _) = ''str''"
| "type_name (PyBytes _) = ''bytes''"
| "type_name (PyList _) = ''list''"
| "type_name (PyTuple _) = ''tuple''"
| "type_name (PyDict _) = ''dict''"
| "type_name (PyOther n) = n"

section \<open>Decimal rendering\<close>

fun show_nat :: "nat \<Rightarrow> string" where
  "show_nat n = (if n < 10 then [char_of (48 + n)]
                 else show_nat (n div 10) @ [char_of (48 + n mod 10)])"

declare show_nat.simps [simp del]

definition show_int :: "int \<Rightarrow> string" where
  "show_int i = (if i < 0 then CHR ''-'' # show_nat (nat (- i)) else show_nat (nat i))"

section \<open>Validation\<close>

fun validate :: "pyval \<Rightarrow> string \<Rightarrow> unit res"
  and validate_items :: "(pyval \<times> pyval) list \<Rightarrow> string \<Rightarrow> unit res"
  and validate_seq :: "pyval list \<Rightarrow> string \<Rightarrow> nat \<Rightarrow> unit res" where
  "validate (PyFloat _) path =
     Inl (Raise CanonicalizationError
       (''floating-point value is forbidden at '' @ path @ ''; use integer minor units''))"
| "validate (PyStr _) path = Inr ()"
| "validate (PyInt _) path = Inr ()"
| "validate (PyBool _) path = Inr ()"
| "validate PyNone path = Inr ()"
| "validate (PyDict kvs) path = validate_items kvs path"
| "validate (PyList vs) path = validate_seq vs path 0"
| "validate (PyTuple vs) path = validate_seq vs path 0"
| "validate (PyBytes b) path =
     Inl (Raise CanonicalizationError (''unsupported value of type bytes at '' @ path))"
| "validate (PyOther n) path =
     Inl (Raise CanonicalizationError (''unsupported value of type '' @ n @ '' at '' @ path))"
| "validate_items [] path = Inr ()"
| "validate_items ((k, v) # kvs) path =
     (case k of
        PyStr s \<Rightarrow> rbind (validate v (path @ ''.'' @ s)) (\<lambda>_. validate_items kvs path)
      | _ \<Rightarrow> Inl (Raise CanonicalizationError (''JSON object key must be a string at '' @ path)))"
| "validate_seq [] path i = Inr ()"
| "validate_seq (v # vs) path i =
     rbind (validate v (path @ ''['' @ show_nat i @ '']'')) (\<lambda>_. validate_seq vs path (Suc i))"

fun materialize :: "pyval \<Rightarrow> pyval"
  and materialize_items :: "(pyval \<times> pyval) list \<Rightarrow> (pyval \<times> pyval) list"
  and materialize_seq :: "pyval list \<Rightarrow> pyval list" where
  "materialize (PyDict kvs) = PyDict (materialize_items kvs)"
| "materialize (PyList vs) = PyList (materialize_seq vs)"
| "materialize (PyTuple vs) = PyList (materialize_seq vs)"
| "materialize v = v"
| "materialize_items [] = []"
| "materialize_items ((k, v) # kvs) = (k, materialize v) # materialize_items kvs"
| "materialize_seq [] = []"
| "materialize_seq (v # vs) = materialize v # materialize_seq vs"

section \<open>Serialization\<close>

definition hex_digit :: "nat \<Rightarrow> char" where
  "hex_digit n = (if n < 10 then char_of (48 + n) else char_of (87 + n))"

text \<open>\<^verbatim>\<open>json.encoder.ESCAPE\<close>: quote, backslash and the control characters below 32.\<close>

definition escape_char :: "char \<Rightarrow> string" where
  "escape_char c =
     (if c = CHR 0x22 then [CHR 0x5C, CHR 0x22]
      else if c = CHR 0x5C then [CHR 0x5C, CHR 0x5C]
      else if c = CHR 0x08 then [CHR 0x5C, CHR ''b'']
      else if c = CHR 0x0C then [CHR 0x5C, CHR ''f'']
      else if c = CHR 0x0A then [CHR 0x5C, CHR ''n'']
      else if c = CHR 0x0D then [CHR 0x5C, CHR ''r'']
      else if c = CHR 0x09 then [CHR 0x5C, CHR ''t'']
      else if (of_char c :: nat) < 32 then
        [CHR 0x5C, CHR ''u'', CHR ''0'', CHR ''0'',
         hex_digit (of_char c div 16), hex_digit (of_char c mod 16)]
      else [c])"

definition quote :: "string \<Rightarrow> string" where
  "quote s = CHR 0x22 # concat (map escape_char s) @ [CHR 0x22]"

fun join_comma :: "string list \<Rightarrow> string" where
  "join_comma [] = []"
| "join_comma [s] = s"
| "join_comma (s # t # ss) = s @ CHR '','' # join_comma (t # ss)"

text \<open>
  \<^verbatim>\<open>json.dumps(..., sort_keys=True, separators=(",", ":"))\<close>; \<^const>\<open>None\<close> where it raises
  \<^verbatim>\<open>TypeError\<close> (an unsupported value) or where sorting meets keys that are not text.
  Floats never reach it: validation rejects them first.
\<close>

fun json_dumps :: "pyval \<Rightarrow> string option"
  and dump_items :: "(pyval \<times> pyval) list \<Rightarrow> (string \<times> string) list option"
  and dump_seq :: "pyval list \<Rightarrow> string list option" where
  "json_dumps PyNone = Some ''null''"
| "json_dumps (PyBool b) = Some (if b then ''true'' else ''false'')"
| "json_dumps (PyInt i) = Some (show_int i)"
| "json_dumps (PyStr s) = Some (quote s)"
| "json_dumps (PyList vs) =
     map_option (\<lambda>ss. ''['' @ join_comma ss @ '']'') (dump_seq vs)"
| "json_dumps (PyTuple vs) =
     map_option (\<lambda>ss. ''['' @ join_comma ss @ '']'') (dump_seq vs)"
| "json_dumps (PyDict kvs) =
     map_option (\<lambda>its. ''{'' @
       join_comma (map (\<lambda>(k, s). quote k @ '':'' @ s) (sort_key fst its)) @ ''}'')
       (dump_items kvs)"
| "json_dumps _ = None"
| "dump_items [] = Some []"
| "dump_items ((k, v) # kvs) =
     (case k of
        PyStr s \<Rightarrow> (case json_dumps v of
            None \<Rightarrow> None
          | Some t \<Rightarrow> map_option (\<lambda>r. (s, t) # r) (dump_items kvs))
      | _ \<Rightarrow> None)"
| "dump_seq [] = Some []"
| "dump_seq (v # vs) =
     (case json_dumps v of
        None \<Rightarrow> None
      | Some t \<Rightarrow> map_option (\<lambda>r. t # r) (dump_seq vs))"

definition canonical_json_bytes :: "pyval \<Rightarrow> string res" where
  "canonical_json_bytes value =
     rbind (validate value ''$'') (\<lambda>_.
       case json_dumps (materialize value) of
         None \<Rightarrow> Inl (Raise CanonicalizationError ''Object is not JSON serializable'')
       | Some encoded \<Rightarrow> Inr encoded)"

text \<open>An object literal with text keys.\<close>

definition obj :: "(string \<times> pyval) list \<Rightarrow> pyval" where
  "obj kvs = PyDict (map (\<lambda>(k, v). (PyStr k, v)) kvs)"

section \<open>The accepted subset\<close>

fun plain :: "pyval \<Rightarrow> bool"
  and plain_items :: "(pyval \<times> pyval) list \<Rightarrow> bool"
  and plain_seq :: "pyval list \<Rightarrow> bool" where
  "plain (PyFloat _) = False"
| "plain (PyBytes _) = False"
| "plain (PyOther _) = False"
| "plain (PyDict kvs) = plain_items kvs"
| "plain (PyList vs) = plain_seq vs"
| "plain (PyTuple vs) = plain_seq vs"
| "plain _ = True"
| "plain_items [] = True"
| "plain_items ((k, v) # kvs) = ((\<exists>s. k = PyStr s) \<and> plain v \<and> plain_items kvs)"
| "plain_seq [] = True"
| "plain_seq (v # vs) = (plain v \<and> plain_seq vs)"

lemma validate_iff_plain:
  "(validate v p = Inr ()) = plain v"
  "(validate_items kvs p = Inr ()) = plain_items kvs"
  "(validate_seq vs p i = Inr ()) = plain_seq vs"
  by (induction v p and kvs p and vs p i rule: validate_validate_items_validate_seq.induct)
     (auto simp: res_simps split: pyval.splits)

lemma validate_raises:
  "validate v p = Inl e \<Longrightarrow> \<exists>msg. e = Raise CanonicalizationError msg"
  "validate_items kvs p = Inl e \<Longrightarrow> \<exists>msg. e = Raise CanonicalizationError msg"
  "validate_seq vs p i = Inl e \<Longrightarrow> \<exists>msg. e = Raise CanonicalizationError msg"
  by (induction v p and kvs p and vs p i rule: validate_validate_items_validate_seq.induct)
     (auto simp: res_simps split: pyval.splits)

lemma plain_materialize:
  "plain v \<Longrightarrow> plain (materialize v)"
  "plain_items kvs \<Longrightarrow> plain_items (materialize_items kvs)"
  "plain_seq vs \<Longrightarrow> plain_seq (materialize_seq vs)"
  by (induction v and kvs and vs rule: plain_plain_items_plain_seq.induct) auto

lemma plain_dumps:
  "plain v \<Longrightarrow> \<exists>t. json_dumps v = Some t"
  "plain_items kvs \<Longrightarrow> \<exists>t. dump_items kvs = Some t"
  "plain_seq vs \<Longrightarrow> \<exists>t. dump_seq vs = Some t"
  by (induction v and kvs and vs rule: plain_plain_items_plain_seq.induct) force+


section \<open>The abstract value and its rendering\<close>

text \<open>
  \<open>canon\<close> forgets what the encoder forgets: the kind of a sequence and the order of object
  keys.  \<open>flat\<close> renders the abstract value without sorting.
\<close>

datatype json =
    JNull | JBool bool | JInt int | JStr string | JArr "json list" | JObj "(string \<times> json) list"

fun canon :: "pyval \<Rightarrow> json"
  and canon_items :: "(pyval \<times> pyval) list \<Rightarrow> (string \<times> json) list"
  and canon_seq :: "pyval list \<Rightarrow> json list" where
  "canon (PyBool b) = JBool b"
| "canon (PyInt i) = JInt i"
| "canon (PyStr s) = JStr s"
| "canon (PyList vs) = JArr (canon_seq vs)"
| "canon (PyTuple vs) = JArr (canon_seq vs)"
| "canon (PyDict kvs) = JObj (sort_key fst (canon_items kvs))"
| "canon _ = JNull"
| "canon_items [] = []"
| "canon_items ((k, v) # kvs) =
     ((case k of PyStr s \<Rightarrow> s | _ \<Rightarrow> []), canon v) # canon_items kvs"
| "canon_seq [] = []"
| "canon_seq (v # vs) = canon v # canon_seq vs"

fun flat :: "json \<Rightarrow> string"
  and flat_items :: "(string \<times> json) list \<Rightarrow> string list"
  and flat_seq :: "json list \<Rightarrow> string list" where
  "flat JNull = ''null''"
| "flat (JBool b) = (if b then ''true'' else ''false'')"
| "flat (JInt i) = show_int i"
| "flat (JStr s) = quote s"
| "flat (JArr vs) = ''['' @ join_comma (flat_seq vs) @ '']''"
| "flat (JObj kvs) = ''{'' @ join_comma (flat_items kvs) @ ''}''"
| "flat_items [] = []"
| "flat_items ((k, v) # kvs) = (quote k @ '':'' @ flat v) # flat_items kvs"
| "flat_seq [] = []"
| "flat_seq (v # vs) = flat v # flat_seq vs"

lemma sort_key_map_snd:
  "sort_key fst (map (\<lambda>(k, v). (k, f v)) xs) = map (\<lambda>(k, v). (k, f v)) (sort_key fst xs)"
proof -
  have ins: "insort_key fst (k, f v) (map (\<lambda>(k, v). (k, f v)) ys)
      = map (\<lambda>(k, v). (k, f v)) (insort_key fst (k, v) ys)" for k v ys
    by (induction ys) auto
  show ?thesis by (induction xs) (auto simp: ins)
qed

lemma flat_items_map: "flat_items kvs = map (\<lambda>(k, s). quote k @ '':'' @ s) (map (\<lambda>(k, v). (k, flat v)) kvs)"
  by (induction kvs) auto

lemma flat_items_sort:
  "flat_items (sort_key fst kvs)
   = map (\<lambda>(k, s). quote k @ '':'' @ s) (sort_key fst (map (\<lambda>(k, v). (k, flat v)) kvs))"
  by (simp only: flat_items_map sort_key_map_snd)

lemma flat_seq_map: "flat_seq vs = map flat vs"
  by (induction vs) auto

lemma dumps_flat:
  "plain v \<Longrightarrow> json_dumps (materialize v) = Some (flat (canon v))"
  "plain_items kvs \<Longrightarrow>
     dump_items (materialize_items kvs) = Some (map (\<lambda>(k, v). (k, flat v)) (canon_items kvs))"
  "plain_seq vs \<Longrightarrow> dump_seq (materialize_seq vs) = Some (flat_seq (canon_seq vs))"
  by (induction v and kvs and vs rule: plain_plain_items_plain_seq.induct)
     (auto simp: flat_items_sort)

lemma canonical_plain: "plain v \<Longrightarrow> canonical_json_bytes v = Inr (flat (canon v))"
  using validate_iff_plain(1) [of v "''$''"] by (simp add: canonical_json_bytes_def dumps_flat)

lemma canonical_Inr: "canonical_json_bytes v = Inr b \<longleftrightarrow> plain v \<and> b = flat (canon v)"
  using validate_iff_plain(1) [of v "''$''"]
  by (cases "plain v") (auto simp: canonical_json_bytes_def dumps_flat rbind_eq_Inr)

section \<open>Injectivity of the rendering\<close>

subsection \<open>Numbers\<close>

lemma digit_char [simp]: "(n :: nat) < 10 \<Longrightarrow> is_digit (char_of (48 + n))"
  by (simp add: is_digit_def Let_def)

lemma show_nat_digits: "list_all is_digit (show_nat n)"
proof (induction n rule: show_nat.induct)
  case (1 n)
  then show ?case by (subst show_nat.simps) simp
qed

lemma show_nat_nonempty [simp]: "show_nat n \<noteq> []"
  by (subst show_nat.simps) simp

definition value_of_digits :: "string \<Rightarrow> nat" where
  "value_of_digits s = foldl (\<lambda>a c. 10 * a + (of_char c - 48)) 0 s"

lemma value_show_nat [simp]: "value_of_digits (show_nat n) = n"
proof (induction n rule: show_nat.induct)
  case (1 n)
  show ?case
  proof (cases "n < 10")
    case True
    then show ?thesis by (subst show_nat.simps) (simp add: value_of_digits_def)
  next
    case False
    with "1.IH" have ih: "value_of_digits (show_nat (n div 10)) = n div 10" by simp
    have "value_of_digits (show_nat n) = 10 * value_of_digits (show_nat (n div 10)) + n mod 10"
      using False by (subst show_nat.simps) (simp add: value_of_digits_def)
    then show ?thesis using ih by simp
  qed
qed

lemma show_nat_inj [simp]: "show_nat m = show_nat n \<longleftrightarrow> m = n"
  using value_show_nat by metis

definition stops :: "(char \<Rightarrow> bool) \<Rightarrow> string \<Rightarrow> bool" where
  \<comment> \<open>the text is empty or its first character is outside \<open>P\<close>\<close>
  "stops P r \<longleftrightarrow> (case r of [] \<Rightarrow> True | c # _ \<Rightarrow> \<not> P c)"

lemma span_unique:
  assumes "list_all P a" "list_all P b" "stops P r" "stops P s" "a @ r = b @ s"
  shows "a = b \<and> r = s"
proof -
  have tw: "takeWhile P (x @ y) = x" if "list_all P x" "stops P y" for x y
    using that by (induction x) (auto simp: stops_def split: list.splits)
  have "takeWhile P (a @ r) = a" "takeWhile P (b @ s) = b"
    using assms(1-4) by (simp_all add: tw)
  with assms(5) show ?thesis by simp
qed

lemma show_nat_not_minus: "show_nat n = c # t \<Longrightarrow> c \<noteq> CHR ''-''"
  using show_nat_digits [of n] by (auto simp: is_digit_def)

lemma show_int_split:
  assumes "stops is_digit r" "stops is_digit s" "show_int i @ r = show_int j @ s"
  shows "i = j \<and> r = s"
proof -
  have key: "nat a = nat b \<and> r = s" if "show_nat (nat a) @ r = show_nat (nat b) @ s" for a b :: int
    using span_unique [OF show_nat_digits show_nat_digits assms(1,2) that] by simp
  have ne: "show_nat (nat a) @ r \<noteq> CHR ''-'' # t" for a :: int and r t
  proof (cases "show_nat (nat a)")
    case (Cons c u)
    then show ?thesis using show_nat_not_minus by auto
  qed simp
  consider "i < 0" "j < 0" | "i < 0" "0 \<le> j" | "0 \<le> i" "j < 0" | "0 \<le> i" "0 \<le> j" by linarith
  then show ?thesis
  proof cases
    case 1
    then show ?thesis using assms(3) key [of "- i" "- j"] by (auto simp: show_int_def)
  next
    case 2
    then show ?thesis using assms(3) ne [of j s] by (auto simp: show_int_def dest: sym)
  next
    case 3
    then show ?thesis using assms(3) ne [of i r] by (auto simp: show_int_def)
  next
    case 4
    then show ?thesis using assms(3) key [of i j] by (auto simp: show_int_def)
  qed
qed

subsection \<open>Text\<close>

definition hex_value :: "char \<Rightarrow> nat" where
  "hex_value c = (let n = of_char c in if n < 58 then n - 48 else n - 87)"

lemma hex_value_digit [simp]: "n < 16 \<Longrightarrow> hex_value (hex_digit n) = n"
  by (auto simp: hex_value_def hex_digit_def)

definition unescape :: "char \<Rightarrow> char" where
  "unescape e = (if e = CHR ''b'' then CHR 0x08 else if e = CHR ''f'' then CHR 0x0C
     else if e = CHR ''n'' then CHR 0x0A else if e = CHR ''r'' then CHR 0x0D
     else if e = CHR ''t'' then CHR 0x09 else e)"

lemma escape_char_cases:
  obtains (self) "escape_char c = [c]" "c \<noteq> CHR 0x22" "c \<noteq> CHR 0x5C"
  | (short) e where "escape_char c = [CHR 0x5C, e]" "e \<noteq> CHR ''u''" "c = unescape e"
  | (hex) h l where "escape_char c = [CHR 0x5C, CHR ''u'', CHR ''0'', CHR ''0'', h, l]"
      "c = char_of (16 * hex_value h + hex_value l)"
proof -
  let ?n = "of_char c :: nat"
  let ?short = "{CHR 0x22, CHR 0x5C, CHR 0x08, CHR 0x0C, CHR 0x0A, CHR 0x0D, CHR 0x09}"
  consider "c \<in> ?short" | "c \<notin> ?short" "?n < 32" | "c \<notin> ?short" "32 \<le> ?n" by linarith
  then show thesis
  proof cases
    case 1
    have "\<exists>e. escape_char c = [CHR 0x5C, e] \<and> e \<noteq> CHR ''u'' \<and> c = unescape e"
      using 1 by (auto simp: escape_char_def unescape_def)
    then show thesis using short by blast
  next
    case 2
    then have "escape_char c = [CHR 0x5C, CHR ''u'', CHR ''0'', CHR ''0'',
        hex_digit (?n div 16), hex_digit (?n mod 16)]"
      by (simp add: escape_char_def)
    moreover have "?n div 16 < 16" using 2 by simp
    ultimately show thesis by (intro hex) (auto simp: mult.commute)
  next
    case 3
    then show thesis by (intro self) (auto simp: escape_char_def)
  qed
qed

lemma escape_char_split:
  assumes "escape_char c @ r = escape_char d @ s"
  shows "c = d \<and> r = s"
  using assms by (rule_tac escape_char_cases [of c]; rule_tac escape_char_cases [of d]) auto

lemma escape_char_no_quote: "escape_char c @ r \<noteq> CHR 0x22 # s"
  by (rule escape_char_cases [of c]) auto

lemma quote_split: "quote a @ r = quote b @ s \<Longrightarrow> a = b \<and> r = s"
  unfolding quote_def
proof (induction a arbitrary: b)
  case Nil
  then show ?case
    by (cases b) (auto simp: escape_char_no_quote [THEN not_sym])
next
  case (Cons c a)
  show ?case
  proof (cases b)
    case Nil
    with Cons.prems show ?thesis by (auto simp: escape_char_no_quote)
  next
    case (Cons d b')
    with Cons.prems have "c = d" and "concat (map escape_char a) @ [CHR 0x22] @ r
        = concat (map escape_char b') @ [CHR 0x22] @ s"
      using escape_char_split by fastforce+
    with Cons.IH [of b'] Cons show ?thesis by simp
  qed
qed

subsection \<open>Values\<close>

definition num_char :: "char \<Rightarrow> bool" where
  "num_char c \<longleftrightarrow> is_digit c \<or> c = CHR ''-''"

lemma num_char_simps [simp]:
  "\<not> num_char (CHR ''n'')" "\<not> num_char (CHR ''t'')" "\<not> num_char (CHR ''f'')"
  "\<not> num_char (CHR 0x22)" "\<not> num_char (CHR ''['')" "\<not> num_char (CHR ''{'')"
  "\<not> num_char (CHR '']'')" "\<not> num_char (CHR ''}'')" "\<not> num_char (CHR '','')"
  by (simp_all add: num_char_def is_digit_def)

lemma show_int_first: "show_int i @ r = c # t \<Longrightarrow> num_char c"
proof (cases "i < 0")
  case False
  assume "show_int i @ r = c # t"
  with False obtain u where "show_nat (nat i) = c # u"
    by (cases "show_nat (nat i)") (auto simp: show_int_def)
  with show_nat_digits [of "nat i"] show ?thesis by (simp add: num_char_def)
qed (auto simp: show_int_def num_char_def)

lemma quote_first: "quote s = CHR 0x22 # tl (quote s)"
  by (simp add: quote_def)

lemma flat_first_closing: "flat v @ r = c # t \<Longrightarrow> c \<noteq> CHR '']'' \<and> c \<noteq> CHR ''}'' \<and> c \<noteq> CHR '',''"
proof (cases v)
  case (JInt i)
  moreover assume "flat v @ r = c # t"
  ultimately have "num_char c" using show_int_first by auto
  then show ?thesis by auto
qed (auto simp: quote_def split: if_splits)

lemma join_comma_Cons:
  "join_comma (s # ss) = s @ (if ss = [] then [] else CHR '','' # join_comma ss)"
  by (cases ss) auto

abbreviation open_end :: "string \<Rightarrow> bool" where
  "open_end r \<equiv> stops num_char r"

lemma stops_digit: "open_end r \<Longrightarrow> stops is_digit r"
  by (auto simp: stops_def num_char_def split: list.splits)

definition decodes :: "json \<Rightarrow> bool" where
  \<comment> \<open>the rendering of the value can be read back off any text that follows it\<close>
  "decodes v \<longleftrightarrow> (\<forall>w r s. open_end r \<longrightarrow> open_end s \<longrightarrow> flat v @ r = flat w @ s \<longrightarrow> v = w \<and> r = s)"

lemma decodesD: "decodes v \<Longrightarrow> flat v @ r = flat w @ s \<Longrightarrow> open_end r \<Longrightarrow> open_end s \<Longrightarrow> v = w \<and> r = s"
  by (auto simp: decodes_def)

lemma open_end_simps [simp]: "open_end (c # r) \<longleftrightarrow> \<not> num_char c" "open_end []"
  by (simp_all add: stops_def)

lemma flat_seq_split:
  assumes "\<forall>v\<in>set vs. decodes v"
    and "join_comma (flat_seq vs) @ CHR '']'' # r = join_comma (flat_seq ws) @ CHR '']'' # s"
  shows "vs = ws \<and> r = s"
  using assms
proof (induction vs arbitrary: ws)
  case Nil
  then show ?case
    by (cases ws) (auto simp: join_comma_Cons dest: sym flat_first_closing)
next
  case (Cons v vs)
  define tail where "tail xs q = (if xs = [] then [] else CHR '','' # join_comma (flat_seq xs)) @ CHR '']'' # q"
    for xs q
  have open_tail: "open_end (tail xs q)" for xs q by (simp add: tail_def)
  have unf: "join_comma (flat_seq (x # xs)) @ CHR '']'' # q = flat x @ tail xs q" for x xs q
    by (cases xs) (simp_all add: join_comma_Cons tail_def)
  show ?case
  proof (cases ws)
    case Nil
    with Cons.prems(2) have "flat v @ tail vs r = CHR '']'' # s"
      by (simp add: unf del: flat_seq.simps(2))
    then show ?thesis using flat_first_closing by blast
  next
    case (Cons w ws')
    with Cons.prems(2) have "flat v @ tail vs r = flat w @ tail ws' s" by (simp add: unf del: flat_seq.simps(2))
    with Cons.prems(1) open_tail have vw: "v = w" and t: "tail vs r = tail ws' s"
      using decodesD by fastforce+
    from t have "join_comma (flat_seq vs) @ CHR '']'' # r = join_comma (flat_seq ws') @ CHR '']'' # s"
      by (auto simp: tail_def split: if_splits)
    with Cons.IH [of ws'] Cons.prems(1) vw Cons show ?thesis by simp
  qed
qed

lemma flat_items_split:
  assumes "\<forall>v\<in>snd ` set vs. decodes v"
    and "join_comma (flat_items vs) @ CHR ''}'' # r = join_comma (flat_items ws) @ CHR ''}'' # s"
  shows "vs = ws \<and> r = s"
  using assms
proof (induction vs arbitrary: ws)
  case Nil
  then show ?case by (cases ws) (auto simp: join_comma_Cons quote_def)
next
  case (Cons kv vs)
  obtain k v where kv: "kv = (k, v)" by force
  define tail where "tail xs q = (if xs = [] then [] else CHR '','' # join_comma (flat_items xs)) @ CHR ''}'' # q"
    for xs q
  have open_tail: "open_end (tail xs q)" for xs q by (simp add: tail_def)
  have ne: "flat_items xs = [] \<longleftrightarrow> xs = []" for xs by (cases xs) auto
  have unf: "join_comma (flat_items ((k, x) # xs)) @ CHR ''}'' # q = quote k @ CHR '':'' # flat x @ tail xs q"
    for k x xs q by (simp add: join_comma_Cons tail_def ne)
  show ?case
  proof (cases ws)
    case Nil
    with Cons.prems(2) kv show ?thesis by (simp add: join_comma_Cons quote_def)
  next
    case (Cons lw ws')
    obtain l w where lw: "lw = (l, w)" by force
    from Cons.prems(2) Cons kv lw
    have q: "quote k @ CHR '':'' # flat v @ tail vs r = quote l @ CHR '':'' # flat w @ tail ws' s"
      by (simp add: unf del: flat_items.simps(2))
    from quote_split [OF q] have kl: "k = l" and f: "flat v @ tail vs r = flat w @ tail ws' s" by auto
    with Cons.prems(1) kv open_tail have vw: "v = w" and t: "tail vs r = tail ws' s"
      using decodesD by fastforce+
    from t have "join_comma (flat_items vs) @ CHR ''}'' # r = join_comma (flat_items ws') @ CHR ''}'' # s"
      by (auto simp: tail_def split: if_splits)
    with Cons.IH [of ws'] Cons.prems(1) vw kl kv lw Cons show ?thesis by simp
  qed
qed

lemma decodesI: "(\<And>w r s. open_end r \<Longrightarrow> open_end s \<Longrightarrow> flat v @ r = flat w @ s \<Longrightarrow> v = w \<and> r = s) \<Longrightarrow> decodes v"
  by (auto simp: decodes_def)

lemma all_decode: "decodes v"
proof (induction v)
  case JNull
  show ?case by (rule decodesI, case_tac w)
      (auto simp: quote_def dest!: sym [THEN show_int_first] split: if_splits)
next
  case (JBool b)
  show ?case by (rule decodesI, case_tac w)
      (auto simp: quote_def dest!: sym [THEN show_int_first] split: if_splits)
next
  case (JInt i)
  show ?case
  proof (rule decodesI)
    fix w r s assume o: "open_end r" "open_end s" and e: "flat (JInt i) @ r = flat w @ s"
    show "JInt i = w \<and> r = s"
    proof (cases w)
      case (JInt j)
      with e have "show_int i @ r = show_int j @ s" by simp
      from show_int_split [OF stops_digit [OF o(1)] stops_digit [OF o(2)] this] JInt
      show ?thesis by simp
    qed (use e in \<open>auto simp: quote_def dest!: show_int_first split: if_splits\<close>)
  qed
next
  case (JStr x)
  show ?case
  proof (rule decodesI)
    fix w r s assume e: "flat (JStr x) @ r = flat w @ s"
    show "JStr x = w \<and> r = s"
    proof (cases w)
      case (JStr y)
      with e have "quote x @ r = quote y @ s" by simp
      from quote_split [OF this] JStr show ?thesis by simp
    qed (use e in \<open>auto simp: quote_def dest!: sym [THEN show_int_first] split: if_splits\<close>)
  qed
next
  case (JArr vs)
  then have vs: "\<forall>v\<in>set vs. decodes v" by simp
  show ?case
  proof (rule decodesI)
    fix w r s assume e: "flat (JArr vs) @ r = flat w @ s"
    show "JArr vs = w \<and> r = s"
    proof (cases w)
      case (JArr ws)
      with e have "join_comma (flat_seq vs) @ CHR '']'' # r = join_comma (flat_seq ws) @ CHR '']'' # s" by simp
      from flat_seq_split [OF vs this] JArr show ?thesis by simp
    qed (use e in \<open>auto simp: quote_def dest!: sym [THEN show_int_first] split: if_splits\<close>)
  qed
next
  case (JObj kvs)
  then have vs: "\<forall>v\<in>snd ` set kvs. decodes v" by (force simp: snds.simps)
  show ?case
  proof (rule decodesI)
    fix w r s assume e: "flat (JObj kvs) @ r = flat w @ s"
    show "JObj kvs = w \<and> r = s"
    proof (cases w)
      case (JObj ws)
      with e have "join_comma (flat_items kvs) @ CHR ''}'' # r = join_comma (flat_items ws) @ CHR ''}'' # s" by simp
      from flat_items_split [OF vs this] JObj show ?thesis by simp
    qed (use e in \<open>auto simp: quote_def dest!: sym [THEN show_int_first] split: if_splits\<close>)
  qed
qed

lemma flat_inj [simp]: "flat v = flat w \<longleftrightarrow> v = w"
  using decodesD [OF all_decode, of v "[]" w "[]"] by auto

section \<open>Results\<close>

lemma canonical_same_bytes:
  assumes "canonical_json_bytes v = Inr b"
  shows "canonical_json_bytes w = Inr b \<longleftrightarrow> plain w \<and> canon w = canon v"
  using assms by (auto simp: canonical_Inr)

lemma plain_items_set: "plain_items kvs \<longleftrightarrow> (\<forall>(k, v)\<in>set kvs. (\<exists>s. k = PyStr s) \<and> plain v)"
  by (induction kvs) auto

lemma canon_items_map:
  "canon_items kvs = map (\<lambda>(k, v). ((case k of PyStr s \<Rightarrow> s | _ \<Rightarrow> []), canon v)) kvs"
  by (induction kvs) auto

lemma sort_key_fst_permute:
  assumes "mset xs = mset ys" "distinct (map fst xs)"
  shows "sort_key fst xs = sort_key fst ys"
proof -
  have dy: "distinct (map fst ys)"
    using assms by (metis mset_map mset_eq_imp_distinct_iff)
  have set: "set (sort_key fst ys) = set xs" using assms(1) by (metis set_sort set_mset_mset)
  have "mset (map fst (sort_key fst ys)) = mset (map fst ys)" by simp
  then have ds: "distinct (map fst (sort_key fst ys))"
    using dy mset_eq_imp_distinct_iff by blast
  have one: "filter (\<lambda>x. fst k = fst x) zs = [k]" if "k \<in> set zs" "distinct (map fst zs)" for k zs
    using that by (induction zs) (auto simp: filter_empty_conv rev_image_eqI)
  show ?thesis
  proof (rule properties_for_sort_key)
    show "mset (sort_key fst ys) = mset xs" using assms(1) by simp
    show "filter (\<lambda>x. fst k = fst x) (sort_key fst ys) = filter (\<lambda>x. fst k = fst x) xs"
      if "k \<in> set (sort_key fst ys)" for k
      using one [OF that ds] one [of k xs] that assms(2) set by simp
    show "sorted (map fst (sort_key fst ys))" by simp
  qed
qed

lemma canon_permute:
  assumes "plain_items kvs" "distinct (map fst kvs)" "mset kvs' = mset kvs"
  shows "plain_items kvs'" and "canon (PyDict kvs') = canon (PyDict kvs)"
proof -
  show "plain_items kvs'"
    using assms(1) mset_eq_setD [OF assms(3)] by (simp add: plain_items_set)
  have key: "inj_on (\<lambda>k. case k of PyStr s \<Rightarrow> s | _ \<Rightarrow> []) (fst ` set kvs)"
    using assms(1) by (auto simp: plain_items_set inj_on_def split: pyval.splits)
  have "map fst (canon_items kvs) = map (\<lambda>k. case k of PyStr s \<Rightarrow> s | _ \<Rightarrow> []) (map fst kvs)"
    by (simp add: canon_items_map case_prod_beta comp_def)
  then have "distinct (map fst (canon_items kvs))"
    using assms(2) key by (simp only: distinct_map set_map)
  moreover have "mset (canon_items kvs) = mset (canon_items kvs')"
    using assms(3) by (simp add: canon_items_map)
  ultimately show "canon (PyDict kvs') = canon (PyDict kvs)"
    using sort_key_fst_permute by fastforce
qed

text \<open>
  Two values with the same canonical bytes are the same JSON value: they agree up to the
  order of object keys and the list/tuple distinction.  Content identifiers and signatures
  computed over the bytes therefore stand for one payload.
\<close>

theorem canonical_injective:
  assumes "canonical_json_bytes v = Inr b" "canonical_json_bytes w = Inr b"
  shows "canon v = canon w"
  using assms by (simp add: canonical_Inr)

theorem canonical_injective_witness:
  "canon (obj [(''a'', PyInt 1), (''b'', PyTuple [PyNone])]) = canon (obj [(''b'', PyList [PyNone]), (''a'', PyInt 1)])"
proof (rule canonical_injective)
  show "canonical_json_bytes (obj [(''a'', PyInt 1), (''b'', PyTuple [PyNone])])
    = Inr (flat (canon (obj [(''a'', PyInt 1), (''b'', PyTuple [PyNone])])))"
    by (rule canonical_plain) (simp add: obj_def)
  show "canonical_json_bytes (obj [(''b'', PyList [PyNone]), (''a'', PyInt 1)])
    = Inr (flat (canon (obj [(''a'', PyInt 1), (''b'', PyTuple [PyNone])])))"
    by (subst canonical_plain) (simp_all add: obj_def)
qed

text \<open>
  The canonical bytes do not depend on the insertion order of an object's keys: any
  permutation of the items encodes to the same bytes.
\<close>

theorem canonical_key_order:
  assumes "canonical_json_bytes (PyDict kvs) = Inr b" "distinct (map fst kvs)" "mset kvs' = mset kvs"
  shows "canonical_json_bytes (PyDict kvs') = Inr b"
  using assms canon_permute [of kvs kvs'] by (simp add: canonical_Inr)

theorem canonical_key_order_witness:
  "canonical_json_bytes (PyDict [(PyStr ''b'', PyInt 2), (PyStr ''a'', PyBool True)])
   = canonical_json_bytes (PyDict [(PyStr ''a'', PyBool True), (PyStr ''b'', PyInt 2)])"
proof -
  let ?k = "[(PyStr ''a'', PyBool True), (PyStr ''b'', PyInt 2)]"
  have "canonical_json_bytes (PyDict ?k) = Inr (flat (canon (PyDict ?k)))"
    by (rule canonical_plain) simp
  from canonical_key_order [OF this, of "[(PyStr ''b'', PyInt 2), (PyStr ''a'', PyBool True)]"] this
  show ?thesis by simp
qed

text \<open>
  The encoder accepts exactly the strict subset: it returns bytes iff no float, byte
  string, unknown object or non-text key occurs anywhere, and every refusal is a
  \<^verbatim>\<open>CanonicalizationError\<close>.
\<close>

theorem canonical_accepts_iff:
  "if plain v then \<exists>b. canonical_json_bytes v = Inr b
   else \<exists>msg. canonical_json_bytes v = Inl (Raise CanonicalizationError msg)"
proof (cases "plain v")
  case False
  then obtain e where e: "validate v ''$'' = Inl e"
    using validate_iff_plain(1) [of v "''$''"] by (cases "validate v ''$''") auto
  then have "canonical_json_bytes v = Inl e" by (simp add: canonical_json_bytes_def)
  with validate_raises(1) [OF e] False show ?thesis by auto
qed (simp add: canonical_plain)

end
