(* ===== verification/Sha256.thy ===== *)
theory Sha256
  imports Canonical_Json
begin

text \<open>
  The digests of the standard library the code uses: \<^verbatim>\<open>hashlib.sha256\<close> (FIPS 180-4) over
  32-bit words, its lower-case \<^verbatim>\<open>hexdigest\<close>, and the content identifiers every service
  derives from the canonical bytes of a payload.
\<close>

unbundle bit_operations_syntax

type_synonym u32 = "32 word"

text \<open>
  The constants of the standard: the first 32 bits of the fractional parts of the cube roots
  of the first 64 primes and of the square roots of the first 8, computed by integer roots
  found bit by bit from the most significant one.
\<close>

fun root_search :: "nat \<Rightarrow> nat \<Rightarrow> nat \<Rightarrow> nat \<Rightarrow> nat" where
  "root_search k n 0 acc = acc"
| "root_search k n (Suc b) acc =
     root_search k n b (if (acc + 2 ^ b) ^ k \<le> n then acc + 2 ^ b else acc)"

definition sha_primes :: "nat list" where
  "sha_primes = filter (\<lambda>n. \<forall>d\<in>set [2..<n]. n mod d \<noteq> 0) [2..<312]"

definition sha_K :: "u32 list" where
  "sha_K = map (\<lambda>p. of_nat (root_search 3 (p * 2 ^ 96) 36 0)) sha_primes"

definition sha_H :: "u32 list" where
  "sha_H = map (\<lambda>p. of_nat (root_search 2 (p * 2 ^ 64) 36 0)) (take 8 sha_primes)"

definition rotr :: "nat \<Rightarrow> u32 \<Rightarrow> u32" where
  "rotr n w = drop_bit n w OR push_bit (32 - n) w"

definition big_endian :: "nat \<Rightarrow> nat \<Rightarrow> nat list" where
  \<comment> \<open>\<open>k\<close> bytes of \<open>n\<close>, most significant first\<close>
  "big_endian k n = map (\<lambda>i. (n div 256 ^ (k - 1 - i)) mod 256) [0..<k]"

definition sha_pad :: "nat list \<Rightarrow> nat list" where
  "sha_pad m = m @ [128] @ replicate ((119 - length m mod 64) mod 64) 0 @ big_endian 8 (8 * length m)"

fun sha_words :: "nat list \<Rightarrow> u32 list" where
  "sha_words (a # b # c # d # r) = of_nat (((a * 256 + b) * 256 + c) * 256 + d) # sha_words r"
| "sha_words _ = []"

fun sha_blocks :: "nat \<Rightarrow> u32 list \<Rightarrow> u32 list list" where
  "sha_blocks 0 ws = []"
| "sha_blocks (Suc n) ws = take 16 ws # sha_blocks n (drop 16 ws)"

definition sha_sigma0 :: "u32 \<Rightarrow> u32" where
  "sha_sigma0 x = rotr 7 x XOR rotr 18 x XOR drop_bit 3 x"

definition sha_sigma1 :: "u32 \<Rightarrow> u32" where
  "sha_sigma1 x = rotr 17 x XOR rotr 19 x XOR drop_bit 10 x"

definition sha_schedule :: "u32 list \<Rightarrow> u32 list" where
  "sha_schedule ws = foldl (\<lambda>w t. w @ [sha_sigma1 (w ! (t - 2)) + w ! (t - 7) + sha_sigma0 (w ! (t - 15)) + w ! (t - 16)])
     ws [16..<64]"

type_synonym sha_state = "u32 \<times> u32 \<times> u32 \<times> u32 \<times> u32 \<times> u32 \<times> u32 \<times> u32"

fun sha_round :: "sha_state \<Rightarrow> u32 \<times> u32 \<Rightarrow> sha_state" where
  "sha_round (a, b, c, d, e, f, g, h) (k, w) =
     (let s1 = rotr 6 e XOR rotr 11 e XOR rotr 25 e;
          ch = (e AND f) XOR (NOT e AND g);
          t1 = h + s1 + ch + k + w;
          s0 = rotr 2 a XOR rotr 13 a XOR rotr 22 a;
          maj = (a AND b) XOR (a AND c) XOR (b AND c)
      in (t1 + (s0 + maj), a, b, c, d + t1, e, f, g))"

fun sha_add :: "sha_state \<Rightarrow> sha_state \<Rightarrow> sha_state" where
  "sha_add (a, b, c, d, e, f, g, h) (a', b', c', d', e', f', g', h') =
     (a + a', b + b', c + c', d + d', e + e', f + f', g + g', h + h')"

definition sha_compress :: "sha_state \<Rightarrow> u32 list \<Rightarrow> sha_state" where
  "sha_compress st block = sha_add st (foldl sha_round st (zip sha_K (sha_schedule block)))"

fun sha_list :: "sha_state \<Rightarrow> u32 list" where
  "sha_list (a, b, c, d, e, f, g, h) = [a, b, c, d, e, f, g, h]"

definition sha_init :: sha_state where
  "sha_init = (sha_H ! 0, sha_H ! 1, sha_H ! 2, sha_H ! 3, sha_H ! 4, sha_H ! 5, sha_H ! 6, sha_H ! 7)"

definition sha256_bytes :: "string \<Rightarrow> nat list" where
  \<comment> \<open>\<^verbatim>\<open>hashlib.sha256(m).digest()\<close>\<close>
  "sha256_bytes m =
     (let ws = sha_words (sha_pad (map of_char m));
          st = foldl sha_compress sha_init (sha_blocks (length ws div 16) ws)
      in concat (map (\<lambda>w. big_endian 4 (unat w)) (sha_list st)))"

definition hex_of_bytes :: "nat list \<Rightarrow> string" where
  "hex_of_bytes bs = concat (map (\<lambda>b. [hex_digit (b div 16), hex_digit (b mod 16)]) bs)"

definition sha256_hex :: "string \<Rightarrow> string" where
  \<comment> \<open>\<^verbatim>\<open>hashlib.sha256(m).hexdigest()\<close>\<close>
  "sha256_hex m = hex_of_bytes (sha256_bytes m)"

text \<open>
  \<^verbatim>\<open>hashlib.sha256(canonical_json_bytes(payload)).hexdigest()\<close>, raised errors included, and the
  identifier \<^verbatim>\<open>f"{prefix}-{digest.upper()[:32]}"\<close> built from it in every service.
\<close>

definition payload_digest :: "pyval \<Rightarrow> string res" where
  "payload_digest v = rbind (canonical_json_bytes v) (\<lambda>b. Inr (sha256_hex b))"

definition content_id :: "string \<Rightarrow> pyval \<Rightarrow> string res" where
  "content_id prefix payload =
     rbind (payload_digest payload) (\<lambda>d. Inr (prefix @ ''-'' @ take 32 (upper d)))"

lemma length_big_endian [simp]: "length (big_endian k n) = k"
  by (simp add: big_endian_def)

lemma big_endian_byte: "b \<in> set (big_endian k n) \<Longrightarrow> b < 256"
  by (auto simp: big_endian_def)

lemma sha_list_8: "\<exists>a b c d e f g h. sha_list st = [a, b, c, d, e, f, g, h]"
  by (cases st) auto

lemma length_sha256_bytes [simp]: "length (sha256_bytes m) = 32"
proof -
  let ?st = "foldl sha_compress sha_init (sha_blocks (length (sha_words (sha_pad (map of_char m))) div 16)
    (sha_words (sha_pad (map of_char m))))"
  obtain a b c d e f g h where "sha_list ?st = [a, b, c, d, e, f, g, h]" using sha_list_8 by metis
  then show ?thesis by (simp add: sha256_bytes_def Let_def)
qed

lemma sha256_bytes_range: "b \<in> set (sha256_bytes m) \<Longrightarrow> b < 256"
  by (auto simp: sha256_bytes_def Let_def dest: big_endian_byte)

lemma length_hex_of_bytes [simp]: "length (hex_of_bytes bs) = 2 * length bs"
  by (induction bs) (auto simp: hex_of_bytes_def)

lemma length_sha256_hex [simp]: "length (sha256_hex m) = 64"
  by (simp add: sha256_hex_def)

lemma content_id_Inr: "content_id p v = Inr i \<Longrightarrow> plain v \<and> length i = length p + 33 \<and> take (length p) i = p"
  by (auto simp: content_id_def payload_digest_def res_simps canonical_Inr)

lemma hex_digit_not_space: "n < 16 \<Longrightarrow> \<not> is_space (upper_char (hex_digit n))"
  by (auto simp: hex_digit_def upper_char_def is_space_def Let_def)

lemma hex_of_bytes_not_space:
  "\<forall>b\<in>set bs. b < 256 \<Longrightarrow> c \<in> set (upper (hex_of_bytes bs)) \<Longrightarrow> \<not> is_space c"
  by (auto simp: hex_of_bytes_def upper_def hex_digit_not_space)

lemma strip_ends:
  assumes "\<not> is_space c" "\<not> is_space d"
  shows "strip (c # cs @ [d]) = c # cs @ [d]"
  using assms by (simp add: strip_def)

lemma content_id_trimmed:
  assumes "content_id (c # cs) v = Inr i" "\<not> is_space c"
  shows "strip i = i"
proof -
  obtain b where i: "i = c # cs @ ''-'' @ take 32 (upper (sha256_hex b))"
    using assms(1) by (auto simp: content_id_def payload_digest_def rbind_eq_Inr)
  let ?t = "take 32 (upper (sha256_hex b))"
  have "?t \<noteq> []" by (simp flip: length_0_conv)
  then have t: "?t = butlast ?t @ [last ?t]" "last ?t \<in> set ?t" by simp_all
  have "last ?t \<in> set (upper (sha256_hex b))" using t(2) by (rule in_set_takeD)
  then have "\<not> is_space (last ?t)"
    unfolding sha256_hex_def by (rule hex_of_bytes_not_space [rotated]) (simp add: sha256_bytes_range)
  from strip_ends [OF assms(2) this, of "cs @ ''-'' @ butlast ?t"] t(1) show ?thesis
    by (simp add: i)
qed

end
