(* ===== verification/Base64url.thy ===== *)
theory Base64url
  imports Prelude
begin

text \<open>
  Unpadded URL-safe base64 as \<^verbatim>\<open>signature_service.py\<close> uses it: encoding strips the
  padding, decoding restores it and calls \<^verbatim>\<open>base64.urlsafe_b64decode\<close>, whose lenient
  reader (\<^verbatim>\<open>binascii.a2b_base64\<close>) skips characters outside the alphabet.  Byte strings are
  texts over \<^typ>\<open>char\<close>.
\<close>

section \<open>Alphabet\<close>

definition b64_char :: "nat \<Rightarrow> char" where
  "b64_char v =
     (if v < 26 then char_of (65 + v) else if v < 52 then char_of (71 + v)
      else if v < 62 then char_of (v - 4) else if v = 62 then CHR ''-'' else CHR ''_'')"

definition b64_value :: "char \<Rightarrow> nat option" where
  "b64_value c = (let n = of_char c in
     if 65 \<le> n \<and> n \<le> 90 then Some (n - 65)
     else if 97 \<le> n \<and> n \<le> 122 then Some (n - 71)
     else if 48 \<le> n \<and> n \<le> 57 then Some (n + 4)
     else if c = CHR ''-'' \<or> c = CHR ''+'' then Some 62
     else if c = CHR ''_'' \<or> c = CHR ''/'' then Some 63
     else None)"

section \<open>Encoding and decoding\<close>

fun b64_digits :: "nat list \<Rightarrow> nat list" where
  "b64_digits [] = []"
| "b64_digits [a] = [a div 4, (a mod 4) * 16]"
| "b64_digits [a, b] = [a div 4, (a mod 4) * 16 + b div 16, (b mod 16) * 4]"
| "b64_digits (a # b # c # r) =
     a div 4 # ((a mod 4) * 16 + b div 16) # ((b mod 16) * 4 + c div 64) # (c mod 64) # b64_digits r"

definition b64url_encode :: "string \<Rightarrow> string" where
  "b64url_encode value = map b64_char (b64_digits (map of_char value))"

text \<open>The reader keeps its position in the quad, the pending bits and the padding seen.\<close>

fun a2b_base64 :: "string \<Rightarrow> nat \<Rightarrow> nat \<Rightarrow> nat \<Rightarrow> nat list option" where
  "a2b_base64 [] quad left pads = (if quad = 0 then Some [] else None)"
| "a2b_base64 (ch # cs) quad left pads =
     (if ch = CHR ''='' then
        (if 2 \<le> quad then
           (if 4 \<le> quad + Suc pads then Some [] else a2b_base64 cs quad left (Suc pads))
         else a2b_base64 cs quad left pads)
      else
        (case b64_value ch of
           None \<Rightarrow> a2b_base64 cs quad left pads
         | Some v \<Rightarrow>
             (if quad = 0 then a2b_base64 cs 1 v 0
              else if quad = 1 then
                map_option (\<lambda>r. (left * 4 + v div 16) # r) (a2b_base64 cs 2 (v mod 16) 0)
              else if quad = 2 then
                map_option (\<lambda>r. (left * 16 + v div 4) # r) (a2b_base64 cs 3 (v mod 4) 0)
              else map_option (\<lambda>r. (left * 64 + v) # r) (a2b_base64 cs 0 0 0))))"

definition b64_padding :: "nat \<Rightarrow> string" where
  \<comment> \<open>\<^verbatim>\<open>"=" * (-len(value) % 4)\<close>\<close>
  "b64_padding n = replicate ((4 - n mod 4) mod 4) (CHR ''='')"

definition b64url_decode :: "string \<Rightarrow> string res" where
  "b64url_decode value =
     (case a2b_base64 (value @ b64_padding (length value)) 0 0 0 of
        None \<Rightarrow> Inl (Raise ValueError ''Incorrect padding'')
      | Some bs \<Rightarrow> Inr (map char_of bs))"

section \<open>Round trip\<close>

lemma b64_value_char [simp]: "v < 64 \<Longrightarrow> b64_value (b64_char v) = Some v"
  by (auto simp: b64_value_def b64_char_def Let_def)

lemma b64_char_not_pad [simp]: "v < 64 \<Longrightarrow> b64_char v \<noteq> CHR ''=''"
  using b64_value_char [of v] by (auto simp: b64_value_def)

lemma b64_padding_step: "b64_padding (Suc (Suc (Suc (Suc n)))) = b64_padding n"
proof -
  have "Suc (Suc (Suc (Suc n))) mod 4 = n mod 4" by presburger
  then show ?thesis by (simp add: b64_padding_def)
qed

lemma packed_split:
  fixes m x k :: nat
  assumes "x < k"
  shows "(m * k + x) div k = m" and "(m * k + x) mod k = x"
  using assms by auto

lemma byte_halves:
  fixes b :: nat
  assumes "b < 256"
  shows "b div 4 < 64" "b div 16 < 16" "b div 64 < 4"
  using assms by auto

lemma digit_bounds:
  fixes a b c :: nat
  assumes "a < 256" "b < 256" "c < 256"
  shows "a div 4 < 64" "(a mod 4) * 16 + b div 16 < 64" "(b mod 16) * 4 + c div 64 < 64"
    "(a mod 4) * 16 < 64" "(b mod 16) * 4 < 64"
proof -
  have "a mod 4 \<le> 3" "b mod 16 \<le> 15" by (simp_all add: less_Suc_eq_le [symmetric])
  then show "(a mod 4) * 16 + b div 16 < 64" "(b mod 16) * 4 + c div 64 < 64"
    "(a mod 4) * 16 < 64" "(b mod 16) * 4 < 64"
    using byte_halves [OF assms(2)] byte_halves [OF assms(3)] by linarith+
qed (simp add: byte_halves assms)

lemma replicate_2: "replicate 2 x = [x, x]"
  by (simp add: numeral_2_eq_2)

lemma a2b_digits:
  assumes "\<forall>b\<in>set bs. b < 256"
  shows "a2b_base64 (map b64_char (b64_digits bs) @ b64_padding (length (b64_digits bs))) 0 0 0 = Some bs"
  using assms
proof (induction bs rule: b64_digits.induct)
  case 1
  then show ?case by (simp add: b64_padding_def)
next
  case (2 a)
  then have a: "a < 256" by simp
  show ?case using digit_bounds [OF a a a]
    by (simp add: b64_padding_def replicate_2)
next
  case (3 a b)
  then have ab: "a < 256" "b < 256" by auto
  show ?case using digit_bounds [OF ab(1,2,2)] byte_halves [OF ab(2)]
    by (simp add: b64_padding_def packed_split)
next
  case (4 a b c r)
  then have abc: "a < 256" "b < 256" "c < 256" and r: "\<forall>b\<in>set r. b < 256" by auto
  show ?case
    using "4.IH" [OF r] digit_bounds [OF abc] byte_halves [OF abc(2)] byte_halves [OF abc(3)]
    by (simp add: b64_padding_step packed_split)
qed

lemma b64url_roundtrip [simp]: "b64url_decode (b64url_encode value) = Inr value"
proof -
  have "\<forall>b\<in>set (map of_char value). b < (256::nat)" by auto
  from a2b_digits [OF this] show ?thesis
    by (simp add: b64url_decode_def b64url_encode_def comp_def)
qed

end
