(* ===== verification/Key_Provider.thy ===== *)
theory Key_Provider
  imports Prelude
begin

text \<open>
  Signing-key life cycle (\<^verbatim>\<open>railone_crypto/key_provider.py\<close>): key records with their
  validity window, and the in-memory Ed25519 provider.  The Ed25519 primitives come from
  the third-party \<^verbatim>\<open>cryptography\<close> package and the host's local time zone from the
  operating system; both are fields of a \<open>platform\<close> record every operation that needs
  them takes as an argument.
\<close>

section \<open>Platform\<close>

record platform =
  ed_public :: "string \<Rightarrow> string"                    \<comment> \<open>raw public key of a private key\<close>
  ed_sign :: "string \<Rightarrow> string \<Rightarrow> string"            \<comment> \<open>private key, message\<close>
  ed_verify :: "string \<Rightarrow> string \<Rightarrow> string \<Rightarrow> bool"   \<comment> \<open>public key, signature, message\<close>
  local_to_utc :: "int \<Rightarrow> int"                       \<comment> \<open>local wall clock to UTC\<close>

definition astimezone_utc :: "platform \<Rightarrow> datetime \<Rightarrow> instant" where
  \<comment> \<open>\<^verbatim>\<open>value.astimezone(timezone.utc)\<close>; a naive value is read as local time\<close>
  "astimezone_utc P d = (case d of Aware t \<Rightarrow> t | Naive t \<Rightarrow> local_to_utc P t)"

definition ed25519_correct :: "platform \<Rightarrow> bool" where
  \<comment> \<open>documented behaviour of the primitives: a genuine signature verifies, public keys have 32 bytes\<close>
  "ed25519_correct P \<longleftrightarrow>
     (\<forall>sk m. ed_verify P (ed_public P sk) (ed_sign P sk m) m) \<and> (\<forall>sk. length (ed_public P sk) = 32)"

section \<open>Key records\<close>

datatype key_purpose =
    QUOTE_SIGNING | EXECUTION_SIGNING | IDENTITY_SIGNING | SETTLEMENT_SIGNING
  | REPLAY_SIGNING | ACCESS_TOKEN_SIGNING | API_AUDIT_SIGNING

datatype key_status = KEY_ACTIVE | KEY_RETIRED | KEY_REVOKED

record key_record =
  kr_key_id :: string
  kr_owner_id :: string
  kr_purpose :: key_purpose
  kr_public_key :: string
  kr_status :: key_status
  kr_not_before :: instant
  kr_not_after :: instant
  kr_created_at :: instant
  kr_rotation_parent_id :: "string option"
  kr_revoked_at :: "instant option"
  kr_revocation_reason :: "string option"

definition key_record_post_init ::
  "key_record \<Rightarrow> datetime \<Rightarrow> datetime \<Rightarrow> datetime \<Rightarrow> key_record res" where
  \<comment> \<open>\<^verbatim>\<open>__post_init__\<close> on a record whose three timestamps are given as datetimes\<close>
  "key_record_post_init r not_before not_after created_at =
     rbind (require_aware ''not_before'' not_before) (\<lambda>nb.
     rbind (require_aware ''not_after'' not_after) (\<lambda>na.
     rbind (require_aware ''created_at'' created_at) (\<lambda>ca.
     rbind (guard_res (na \<le> nb) ValueError ''not_after must be later than not_before'') (\<lambda>_.
     rbind (guard_res (length (kr_public_key r) \<noteq> 32) ValueError
              ''Ed25519 public key must contain 32 raw bytes'') (\<lambda>_.
     rbind (guard_res (kr_status r = KEY_REVOKED \<and> kr_revoked_at r = None) ValueError
              ''revoked keys require revoked_at'') (\<lambda>_.
     Inr (r\<lparr>kr_not_before := nb, kr_not_after := na, kr_created_at := ca\<rparr>)))))))"

definition permits_signing_at :: "key_record \<Rightarrow> instant \<Rightarrow> bool" where
  "permits_signing_at r t \<longleftrightarrow>
     kr_status r = KEY_ACTIVE \<and> kr_not_before r \<le> t \<and> t < kr_not_after r"

section \<open>The in-memory provider\<close>

record key_provider =
  kp_records :: "(string, key_record) dict"
  kp_private_keys :: "(string, string) dict"

definition key_provider_init :: key_provider where
  "key_provider_init = \<lparr>kp_records = [], kp_private_keys = []\<rparr>"

definition get_key_record :: "key_provider \<Rightarrow> string \<Rightarrow> key_record option" where
  "get_key_record ks key_id = dict_get (kp_records ks) key_id"

text \<open>\<open>sk\<close> is the freshly generated private key, \<open>now\<close> the clock reading.\<close>

definition kp_generate ::
  "platform \<Rightarrow> string \<Rightarrow> string \<Rightarrow> key_purpose \<Rightarrow> datetime \<Rightarrow> datetime \<Rightarrow> string option \<Rightarrow>
   string \<Rightarrow> instant \<Rightarrow> (key_provider, key_record) st" where
  "kp_generate P key_id owner_id purpose not_before not_after parent sk now ks =
     (if dict_has (kp_records ks) key_id
      then (Inl (Raise ValueError (''duplicate key_id: '' @ key_id)), ks)
      else
        (case key_record_post_init
                \<lparr>kr_key_id = key_id, kr_owner_id = owner_id, kr_purpose = purpose,
                 kr_public_key = ed_public P sk, kr_status = KEY_ACTIVE,
                 kr_not_before = 0, kr_not_after = 0, kr_created_at = 0,
                 kr_rotation_parent_id = parent, kr_revoked_at = None,
                 kr_revocation_reason = None\<rparr>
                (Aware (astimezone_utc P not_before)) (Aware (astimezone_utc P not_after)) (Aware now) of
           Inl e \<Rightarrow> (Inl e, ks)
         | Inr r \<Rightarrow>
             (Inr r, ks\<lparr>kp_records := dict_set key_id r (kp_records ks),
                        kp_private_keys := dict_set key_id sk (kp_private_keys ks)\<rparr>)))"

definition kp_sign :: "platform \<Rightarrow> key_provider \<Rightarrow> string \<Rightarrow> string \<Rightarrow> string res" where
  "kp_sign P ks key_id message =
     (case dict_get (kp_private_keys ks) key_id of
        None \<Rightarrow> Inl (Raise KeyError (''signing key not found: '' @ key_id))
      | Some sk \<Rightarrow> Inr (ed_sign P sk message))"

definition require_record :: "key_provider \<Rightarrow> string \<Rightarrow> key_record res" where
  "require_record ks key_id =
     (case get_key_record ks key_id of
        None \<Rightarrow> Inl (Raise KeyError (''key record not found: '' @ key_id))
      | Some r \<Rightarrow> Inr r)"

definition kp_replace :: "string \<Rightarrow> key_record \<Rightarrow> key_provider \<Rightarrow> key_provider" where
  \<comment> \<open>store the updated record and forget the private key (\<^verbatim>\<open>pop(key_id, None)\<close>)\<close>
  "kp_replace key_id r ks =
     ks\<lparr>kp_records := dict_set key_id r (kp_records ks),
        kp_private_keys := AList.delete key_id (kp_private_keys ks)\<rparr>"

definition kp_retire :: "string \<Rightarrow> (key_provider, key_record) st" where
  "kp_retire key_id ks =
     (case require_record ks key_id of
        Inl e \<Rightarrow> (Inl e, ks)
      | Inr r \<Rightarrow> (let u = r\<lparr>kr_status := KEY_RETIRED\<rparr> in (Inr u, kp_replace key_id u ks)))"

definition kp_revoke ::
  "platform \<Rightarrow> string \<Rightarrow> string \<Rightarrow> datetime \<Rightarrow> (key_provider, key_record) st" where
  "kp_revoke P key_id reason revoked_at ks =
     (if strip reason = [] then (Inl (Raise ValueError ''revocation reason is required''), ks)
      else (case require_record ks key_id of
        Inl e \<Rightarrow> (Inl e, ks)
      | Inr r \<Rightarrow>
          (let u = r\<lparr>kr_status := KEY_REVOKED,
                     kr_revoked_at := Some (astimezone_utc P revoked_at),
                     kr_revocation_reason := Some reason\<rparr>
           in (Inr u, kp_replace key_id u ks))))"

section \<open>Invariant\<close>

text \<open>
  Every stored record is filed under its own id, has a non-empty window and a 32-byte key;
  a private key is held exactly for the active records, and it is the one the record's
  public key belongs to.
\<close>

definition key_wf :: "key_record \<Rightarrow> bool" where
  "key_wf r \<longleftrightarrow> kr_not_before r < kr_not_after r \<and> length (kr_public_key r) = 32 \<and>
     (kr_status r = KEY_REVOKED \<longrightarrow> kr_revoked_at r \<noteq> None)"

definition kp_inv :: "platform \<Rightarrow> key_provider \<Rightarrow> bool" where
  "kp_inv P ks \<longleftrightarrow>
     dict_ok (kp_records ks) \<and> dict_ok (kp_private_keys ks) \<and>
     (\<forall>k r. dict_get (kp_records ks) k = Some r \<longrightarrow> kr_key_id r = k \<and> key_wf r \<and>
        (kr_status r = KEY_ACTIVE \<longrightarrow> dict_has (kp_private_keys ks) k)) \<and>
     (\<forall>k sk. dict_get (kp_private_keys ks) k = Some sk \<longrightarrow>
        (\<exists>r. dict_get (kp_records ks) k = Some r \<and> kr_status r = KEY_ACTIVE \<and>
             kr_public_key r = ed_public P sk))"

lemmas kp_defs = kp_inv_def key_wf_def get_key_record_def require_record_def kp_replace_def

lemma kp_inv_init [simp]: "kp_inv P key_provider_init"
  by (simp add: kp_defs key_provider_init_def)

lemma kp_generate_inv:
  assumes "kp_inv P ks" "kp_generate P k ow pu nb na par sk now ks = (r, ks')"
  shows "kp_inv P ks'"
  using assms unfolding kp_generate_def
  by (auto simp: kp_defs key_record_post_init_def res_simps split: if_splits sum.splits)

lemma kp_retire_inv:
  assumes "kp_inv P ks" "kp_retire k ks = (r, ks')"
  shows "kp_inv P ks'"
  using assms unfolding kp_retire_def
  by (auto simp: kp_defs Let_def delete_conv' distinct_delete split: if_splits sum.splits option.splits)

lemma kp_revoke_inv:
  assumes "kp_inv P ks" "kp_revoke P k reason at ks = (r, ks')"
  shows "kp_inv P ks'"
  using assms unfolding kp_revoke_def
  by (auto simp: kp_defs Let_def delete_conv' distinct_delete split: if_splits sum.splits option.splits)

lemma kp_inv_public:
  assumes "kp_inv P ks" "get_key_record ks k = Some r" "dict_get (kp_private_keys ks) k = Some sk"
  shows "kr_public_key r = ed_public P sk" and "kr_status r = KEY_ACTIVE"
  using assms by (fastforce simp: kp_defs)+

lemma kp_inv_active_signs:
  assumes "kp_inv P ks" "get_key_record ks k = Some r" "kr_status r = KEY_ACTIVE"
  obtains sk where "dict_get (kp_private_keys ks) k = Some sk" "kr_public_key r = ed_public P sk"
proof -
  from assms obtain sk where "dict_get (kp_private_keys ks) k = Some sk" by (force simp: kp_defs)
  with assms kp_inv_public that show thesis by blast
qed

section \<open>A concrete platform for examples\<close>

text \<open>
  Signing with the identity and comparing on verification satisfies the documented law; the
  example provider holds one key per purpose the services need.
\<close>

definition demo_platform :: platform where
  "demo_platform = \<lparr>ed_public = (\<lambda>_. replicate 32 (CHR ''k'')), ed_sign = (\<lambda>_ m. m),
     ed_verify = (\<lambda>_ s m. s = m), local_to_utc = (\<lambda>t. t)\<rparr>"

definition demo_key :: "string \<Rightarrow> key_purpose \<Rightarrow> key_record" where
  "demo_key kid purpose = \<lparr>kr_key_id = kid, kr_owner_id = ''railone'', kr_purpose = purpose,
     kr_public_key = replicate 32 (CHR ''k''), kr_status = KEY_ACTIVE, kr_not_before = 0,
     kr_not_after = from_epoch 2000000000, kr_created_at = 0, kr_rotation_parent_id = None,
     kr_revoked_at = None, kr_revocation_reason = None\<rparr>"

definition demo_keys :: key_provider where
  "demo_keys = \<lparr>kp_records = [(''kq'', demo_key ''kq'' QUOTE_SIGNING), (''ke'', demo_key ''ke'' EXECUTION_SIGNING)],
     kp_private_keys = [(''kq'', ''sq''), (''ke'', ''se'')]\<rparr>"

lemma demo_correct [simp]: "ed25519_correct demo_platform"
  by (simp add: ed25519_correct_def demo_platform_def)

lemma demo_platform_simps [simp]:
  "ed_verify demo_platform p s m \<longleftrightarrow> s = m" "ed_sign demo_platform k m = m"
  "ed_public demo_platform k = replicate 32 (CHR ''k'')"
  by (simp_all add: demo_platform_def)

lemma demo_keys_get [simp]:
  "get_key_record demo_keys ''kq'' = Some (demo_key ''kq'' QUOTE_SIGNING)"
  "get_key_record demo_keys ''ke'' = Some (demo_key ''ke'' EXECUTION_SIGNING)"
  "dict_get (kp_private_keys demo_keys) ''kq'' = Some ''sq''"
  "dict_get (kp_private_keys demo_keys) ''ke'' = Some ''se''"
  by (simp_all add: demo_keys_def get_key_record_def)

lemma demo_key_simps [simp]:
  "kr_key_id (demo_key k p) = k" "kr_purpose (demo_key k p) = p" "kr_not_before (demo_key k p) = 0"
  "kr_not_after (demo_key k p) = from_epoch 2000000000" "kr_status (demo_key k p) = KEY_ACTIVE"
  "kr_owner_id (demo_key k p) = ''railone''" "kr_public_key (demo_key k p) = replicate 32 (CHR ''k'')"
  by (simp_all add: demo_key_def)

lemma astimezone_Aware [simp]: "astimezone_utc P (Aware t) = t"
  by (simp add: astimezone_utc_def)

lemma demo_keys_inv [simp]: "kp_inv demo_platform demo_keys"
  by (auto simp: kp_defs demo_keys_def demo_key_def from_epoch_def split: if_splits)

end
