(* ===== verification/Signature_Service.thy ===== *)
theory Signature_Service
  imports Sha256 Base64url Key_Provider
begin

text \<open>
  Domain-separated Ed25519 signatures over canonical payloads
  (\<^verbatim>\<open>railone_crypto/signature_service.py\<close>): artifact types and the key purpose each one
  needs, the signature envelope, signing and verification with every rejection reason.
\<close>

section \<open>Reading Python mappings\<close>

definition pget :: "pyval \<Rightarrow> string \<Rightarrow> pyval option" where
  "pget d k = (case d of PyDict kvs \<Rightarrow> map_of kvs (PyStr k) | _ \<Rightarrow> None)"

definition py_get :: "pyval \<Rightarrow> string \<Rightarrow> pyval" where
  \<comment> \<open>\<^verbatim>\<open>d.get(k)\<close>\<close>
  "py_get d k = (case pget d k of None \<Rightarrow> PyNone | Some v \<Rightarrow> v)"

definition py_item :: "pyval \<Rightarrow> string \<Rightarrow> pyval res" where
  \<comment> \<open>\<^verbatim>\<open>d[k]\<close>\<close>
  "py_item d k =
     (case d of
        PyDict kvs \<Rightarrow> (case map_of kvs (PyStr k) of None \<Rightarrow> Inl (Raise KeyError k) | Some v \<Rightarrow> Inr v)
      | _ \<Rightarrow> Inl (Raise TypeError (type_name d @ '' indices must be integers'')))"

definition as_int :: "pyval \<Rightarrow> int option" where
  \<comment> \<open>\<^verbatim>\<open>isinstance(v, int)\<close>: booleans are integers\<close>
  "as_int v = (case v of PyInt i \<Rightarrow> Some i | PyBool b \<Rightarrow> Some (of_bool b) | _ \<Rightarrow> None)"

definition strict_int :: "pyval \<Rightarrow> int option" where
  \<comment> \<open>\<^verbatim>\<open>isinstance(v, int) and not isinstance(v, bool)\<close>\<close>
  "strict_int v = (case v of PyInt i \<Rightarrow> Some i | _ \<Rightarrow> None)"

definition equals_int :: "pyval \<Rightarrow> int \<Rightarrow> bool" where
  \<comment> \<open>\<^verbatim>\<open>v == n\<close>\<close>
  "equals_int v n =
     (case v of PyInt i \<Rightarrow> i = n | PyBool b \<Rightarrow> of_bool b = n | PyFloat (Some i) \<Rightarrow> i = n | _ \<Rightarrow> False)"

definition int_operand :: "pyval \<Rightarrow> int res" where
  \<comment> \<open>an operand of an order comparison with an integer\<close>
  "int_operand v = (case as_int v of Some i \<Rightarrow> Inr i
     | None \<Rightarrow> Inl (Raise TypeError ''unorderable types''))"

definition merge_obj :: "(string \<times> pyval) list \<Rightarrow> pyval \<Rightarrow> pyval" where
  \<comment> \<open>\<^verbatim>\<open>{**prefix, **core}\<close> where the prefix keys are not in the core\<close>
  "merge_obj kvs d = (case d of PyDict its \<Rightarrow> PyDict (map (\<lambda>(k, v). (PyStr k, v)) kvs @ its) | _ \<Rightarrow> d)"

text \<open>
  \<^verbatim>\<open>datetime.fromtimestamp(n, tz=timezone.utc)\<close>: a year outside 1..9999 is a \<^verbatim>\<open>ValueError\<close>,
  a value the platform's \<^verbatim>\<open>time_t\<close> conversion cannot hold an \<^verbatim>\<open>OverflowError\<close> (or an
  \<^verbatim>\<open>OSError\<close>, likewise no \<^verbatim>\<open>ValueError\<close>).
\<close>

definition fromtimestamp :: "int \<Rightarrow> instant res" where
  "fromtimestamp n =
     (if n < - 67768040609740800 \<or> n > 67768036191676799
      then Inl (Raise OverflowError ''timestamp out of range for platform time_t'')
      else if n < - 62135596800 \<or> n > 253402300799
      then Inl (Raise ValueError ''year is out of range'')
      else Inr (from_epoch n))"

section \<open>Artifacts\<close>

datatype artifact_type =
    QUOTE | UTT | RTT | ETK_S | ETK_R | EXECUTION_EVENT | IDENTITY_ATTESTATION
  | SETTLEMENT_EVIDENCE | REPLAY_CHECKPOINT | API_REQUEST_AUDIT
  | INSTITUTION_CAPABILITY_MANIFEST | PARTNER_CERTIFICATION_REPORT

fun artifact_value :: "artifact_type \<Rightarrow> string" where
  "artifact_value QUOTE = ''railone.quote''"
| "artifact_value UTT = ''railone.utt''"
| "artifact_value RTT = ''railone.rtt''"
| "artifact_value ETK_S = ''railone.etk_s''"
| "artifact_value ETK_R = ''railone.etk_r''"
| "artifact_value EXECUTION_EVENT = ''railone.execution_event''"
| "artifact_value IDENTITY_ATTESTATION = ''railone.identity_attestation''"
| "artifact_value SETTLEMENT_EVIDENCE = ''railone.settlement_evidence''"
| "artifact_value REPLAY_CHECKPOINT = ''railone.replay_checkpoint''"
| "artifact_value API_REQUEST_AUDIT = ''railone.api_request_audit''"
| "artifact_value INSTITUTION_CAPABILITY_MANIFEST = ''railone.institution_capability_manifest''"
| "artifact_value PARTNER_CERTIFICATION_REPORT = ''railone.partner_certification_report''"

definition all_artifact_types :: "artifact_type list" where
  "all_artifact_types =
     [QUOTE, UTT, RTT, ETK_S, ETK_R, EXECUTION_EVENT, IDENTITY_ATTESTATION, SETTLEMENT_EVIDENCE,
      REPLAY_CHECKPOINT, API_REQUEST_AUDIT, INSTITUTION_CAPABILITY_MANIFEST,
      PARTNER_CERTIFICATION_REPORT]"

definition artifact_of :: "pyval \<Rightarrow> artifact_type option" where
  \<comment> \<open>\<^verbatim>\<open>ArtifactType(value)\<close>, \<^const>\<open>None\<close> where it raises\<close>
  "artifact_of v = find (\<lambda>a. v = PyStr (artifact_value a)) all_artifact_types"

fun purpose_by_artifact :: "artifact_type \<Rightarrow> key_purpose" where
  "purpose_by_artifact QUOTE = QUOTE_SIGNING"
| "purpose_by_artifact UTT = EXECUTION_SIGNING"
| "purpose_by_artifact RTT = EXECUTION_SIGNING"
| "purpose_by_artifact ETK_S = EXECUTION_SIGNING"
| "purpose_by_artifact ETK_R = EXECUTION_SIGNING"
| "purpose_by_artifact EXECUTION_EVENT = EXECUTION_SIGNING"
| "purpose_by_artifact IDENTITY_ATTESTATION = IDENTITY_SIGNING"
| "purpose_by_artifact SETTLEMENT_EVIDENCE = SETTLEMENT_SIGNING"
| "purpose_by_artifact REPLAY_CHECKPOINT = REPLAY_SIGNING"
| "purpose_by_artifact API_REQUEST_AUDIT = API_AUDIT_SIGNING"
| "purpose_by_artifact INSTITUTION_CAPABILITY_MANIFEST = EXECUTION_SIGNING"
| "purpose_by_artifact PARTNER_CERTIFICATION_REPORT = EXECUTION_SIGNING"

section \<open>Envelopes\<close>

fun freeze :: "pyval \<Rightarrow> pyval"
  and freeze_items :: "(pyval \<times> pyval) list \<Rightarrow> (pyval \<times> pyval) list"
  and freeze_seq :: "pyval list \<Rightarrow> pyval list" where
  "freeze (PyDict kvs) = PyDict (freeze_items kvs)"
| "freeze (PyList vs) = PyTuple (freeze_seq vs)"
| "freeze (PyTuple vs) = PyTuple (freeze_seq vs)"
| "freeze v = v"
| "freeze_items [] = []"
| "freeze_items ((k, v) # kvs) = (k, freeze v) # freeze_items kvs"
| "freeze_seq [] = []"
| "freeze_seq (v # vs) = freeze v # freeze_seq vs"

fun thaw :: "pyval \<Rightarrow> pyval"
  and thaw_items :: "(pyval \<times> pyval) list \<Rightarrow> (pyval \<times> pyval) list"
  and thaw_seq :: "pyval list \<Rightarrow> pyval list" where
  "thaw (PyDict kvs) = PyDict (thaw_items kvs)"
| "thaw (PyTuple vs) = PyList (thaw_seq vs)"
| "thaw v = v"
| "thaw_items [] = []"
| "thaw_items ((k, v) # kvs) = (k, thaw v) # thaw_items kvs"
| "thaw_seq [] = []"
| "thaw_seq (v # vs) = thaw v # thaw_seq vs"

record envelope =
  env_protected :: pyval
  env_payload :: pyval
  env_signature :: string

definition mk_envelope :: "pyval \<Rightarrow> pyval \<Rightarrow> string \<Rightarrow> envelope" where
  "mk_envelope protected payload signature =
     \<lparr>env_protected = freeze protected, env_payload = freeze payload, env_signature = signature\<rparr>"

definition envelope_to_dict :: "envelope \<Rightarrow> pyval" where
  "envelope_to_dict e = obj [(''protected'', thaw (env_protected e)),
     (''payload'', thaw (env_payload e)), (''signature'', PyStr (env_signature e))]"

definition envelope_from_dict :: "pyval \<Rightarrow> envelope res" where
  "envelope_from_dict value =
     (case py_get value ''protected'' of
        PyDict p \<Rightarrow>
          (case py_get value ''payload'' of
             PyDict q \<Rightarrow>
               (case py_get value ''signature'' of
                  PyStr s \<Rightarrow>
                    (if s = [] then Inl (Raise ValueError ''signature must be a non-empty string'')
                     else Inr (mk_envelope (PyDict p) (PyDict q) s))
                | _ \<Rightarrow> Inl (Raise ValueError ''signature must be a non-empty string''))
           | _ \<Rightarrow> Inl (Raise ValueError ''payload must be an object''))
      | _ \<Rightarrow> Inl (Raise ValueError ''protected header must be an object''))"

section \<open>Signing\<close>

definition domain_prefix :: string where
  "domain_prefix = ''RAILONE-SIGNED-ARTIFACT-V1'' @ [CHR 0x00]"

definition signing_input :: "pyval \<Rightarrow> pyval \<Rightarrow> string res" where
  "signing_input protected payload =
     rbind (canonical_json_bytes (obj [(''protected'', protected), (''payload'', payload)]))
       (\<lambda>b. Inr (domain_prefix @ b))"

definition protected_header :: "key_record \<Rightarrow> artifact_type \<Rightarrow> instant \<Rightarrow> string \<Rightarrow> pyval" where
  "protected_header r typ instant payload_hash = obj
     [(''alg'', PyStr ''EdDSA''), (''crv'', PyStr ''Ed25519''), (''kid'', PyStr (kr_key_id r)),
      (''iss'', PyStr (kr_owner_id r)), (''typ'', PyStr (artifact_value typ)), (''v'', PyInt 1),
      (''iat'', PyInt (epoch instant)), (''payload_sha256'', PyStr payload_hash)]"

definition sign_artifact ::
  "platform \<Rightarrow> key_provider \<Rightarrow> artifact_type \<Rightarrow> pyval \<Rightarrow> string \<Rightarrow> datetime \<Rightarrow> envelope res" where
  "sign_artifact P ks typ payload key_id issued_at =
     (let instant = astimezone_utc P issued_at in
      case get_key_record ks key_id of
        None \<Rightarrow> Inl (Raise KeyError (''unknown signing key: '' @ key_id))
      | Some r \<Rightarrow>
          rbind (guard_res (kr_purpose r \<noteq> purpose_by_artifact typ) PermissionError
                   (''key purpose cannot sign '' @ artifact_value typ)) (\<lambda>_.
          rbind (guard_res (\<not> permits_signing_at r instant) PermissionError
                   ''key is not active for the requested issue time'') (\<lambda>_.
          rbind (payload_digest payload) (\<lambda>payload_hash.
          let protected = protected_header r typ instant payload_hash in
          rbind (signing_input protected payload) (\<lambda>inp.
          rbind (kp_sign P ks key_id inp) (\<lambda>signature.
          Inr (mk_envelope protected payload (b64url_encode signature))))))))"

section \<open>Verification\<close>

record verification_result =
  vr_valid :: bool
  vr_reason :: string
  vr_key_id :: "string option"
  vr_artifact_type :: "artifact_type option"

definition rejected :: "string \<Rightarrow> string option \<Rightarrow> artifact_type option \<Rightarrow> verification_result" where
  "rejected reason kid typ =
     \<lparr>vr_valid = False, vr_reason = reason, vr_key_id = kid, vr_artifact_type = typ\<rparr>"

text \<open>
  The body of the \<^verbatim>\<open>try\<close> block: an early return is a result, an exception an error; the
  handler turns \<^verbatim>\<open>InvalidSignature\<close>, \<^verbatim>\<open>ValueError\<close> and \<^verbatim>\<open>TypeError\<close> into
  \<^verbatim>\<open>SIGNATURE_INVALID\<close> and lets everything else escape.
\<close>

definition verify_body ::
  "platform \<Rightarrow> key_provider \<Rightarrow> envelope \<Rightarrow> artifact_type option \<Rightarrow> bool \<Rightarrow> verification_result res" where
  "verify_body P ks env expected accept_revoked =
     (let protected = env_protected env in
      if py_get protected ''alg'' \<noteq> PyStr ''EdDSA'' \<or> py_get protected ''crv'' \<noteq> PyStr ''Ed25519''
      then Inr (rejected ''UNSUPPORTED_ALGORITHM'' None None)
      else if \<not> equals_int (py_get protected ''v'') 1
      then Inr (rejected ''UNSUPPORTED_SIGNATURE_VERSION'' None None)
      else case py_get protected ''kid'' of
        PyStr kid \<Rightarrow>
         (if kid = [] then Inr (rejected ''KEY_ID_MISSING'' None None)
          else case artifact_of (py_get protected ''typ'') of
            None \<Rightarrow> Inr (rejected ''ARTIFACT_TYPE_INVALID'' (Some kid) None)
          | Some typ \<Rightarrow>
             if expected \<noteq> None \<and> expected \<noteq> Some typ
             then Inr (rejected ''ARTIFACT_TYPE_MISMATCH'' (Some kid) (Some typ))
             else case get_key_record ks kid of
               None \<Rightarrow> Inr (rejected ''KEY_NOT_FOUND'' (Some kid) (Some typ))
             | Some r \<Rightarrow>
                if PyStr (kr_owner_id r) \<noteq> py_get protected ''iss''
                then Inr (rejected ''ISSUER_MISMATCH'' (Some kid) (Some typ))
                else if kr_purpose r \<noteq> purpose_by_artifact typ
                then Inr (rejected ''KEY_PURPOSE_MISMATCH'' (Some kid) (Some typ))
                else if kr_status r = KEY_REVOKED \<and> \<not> accept_revoked
                then Inr (rejected ''KEY_REVOKED'' (Some kid) (Some typ))
                else case as_int (py_get protected ''iat'') of
                  None \<Rightarrow> Inr (rejected ''ISSUED_AT_INVALID'' (Some kid) (Some typ))
                | Some iat \<Rightarrow>
                   rbind (fromtimestamp iat) (\<lambda>issued_at.
                   if \<not> (kr_not_before r \<le> issued_at \<and> issued_at < kr_not_after r)
                   then Inr (rejected ''KEY_NOT_VALID_AT_ISSUANCE'' (Some kid) (Some typ))
                   else rbind (payload_digest (env_payload env)) (\<lambda>actual_hash.
                   if py_get protected ''payload_sha256'' \<noteq> PyStr actual_hash
                   then Inr (rejected ''PAYLOAD_HASH_MISMATCH'' (Some kid) (Some typ))
                   else rbind (guard_res (length (kr_public_key r) \<noteq> 32) ValueError
                                ''An Ed25519 public key is 32 bytes long'') (\<lambda>_.
                   rbind (b64url_decode (env_signature env)) (\<lambda>signature.
                   rbind (signing_input protected (env_payload env)) (\<lambda>inp.
                   if ed_verify P (kr_public_key r) signature inp
                   then Inr \<lparr>vr_valid = True, vr_reason = ''VALID'', vr_key_id = Some kid,
                              vr_artifact_type = Some typ\<rparr>
                   else Inl (Raise InvalidSignature ''''))))))
          )
      | _ \<Rightarrow> Inr (rejected ''KEY_ID_MISSING'' None None))"

definition verify_artifact ::
  "platform \<Rightarrow> key_provider \<Rightarrow> envelope \<Rightarrow> artifact_type option \<Rightarrow> bool \<Rightarrow> verification_result res" where
  "verify_artifact P ks env expected accept_revoked =
     (case verify_body P ks env expected accept_revoked of
        Inr v \<Rightarrow> Inr v
      | Inl e \<Rightarrow>
          if exc_isa (exc_of e) InvalidSignature \<or> exc_isa (exc_of e) ValueError \<or>
             exc_isa (exc_of e) TypeError
          then Inr (rejected ''SIGNATURE_INVALID'' None None)
          else Inl e)"

section \<open>Freezing changes no canonical value\<close>

lemma canon_freeze:
  "canon (freeze v) = canon v"
  "canon_items (freeze_items kvs) = canon_items kvs"
  "canon_seq (freeze_seq vs) = canon_seq vs"
  by (induction v and kvs and vs rule: freeze_freeze_items_freeze_seq.induct) auto

lemma plain_freeze:
  "plain (freeze v) = plain v"
  "plain_items (freeze_items kvs) = plain_items kvs"
  "plain_seq (freeze_seq vs) = plain_seq vs"
  by (induction v and kvs and vs rule: freeze_freeze_items_freeze_seq.induct) auto

lemma freeze_idem:
  "freeze (freeze v) = freeze v"
  "freeze_items (freeze_items kvs) = freeze_items kvs"
  "freeze_seq (freeze_seq vs) = freeze_seq vs"
  by (induction v and kvs and vs rule: freeze_freeze_items_freeze_seq.induct) auto

lemma freeze_thaw_freeze:
  "freeze (thaw (freeze v)) = freeze v"
  "freeze_items (thaw_items (freeze_items kvs)) = freeze_items kvs"
  "freeze_seq (thaw_seq (freeze_seq vs)) = freeze_seq vs"
  by (induction v and kvs and vs rule: freeze_freeze_items_freeze_seq.induct) auto

lemma canonical_cong:
  "plain v = plain w \<Longrightarrow> canon v = canon w \<Longrightarrow> plain v \<Longrightarrow> canonical_json_bytes v = canonical_json_bytes w"
  by (simp add: canonical_plain)

lemma payload_digest_Inr [res_simps]:
  "payload_digest v = Inr h \<longleftrightarrow> plain v \<and> h = sha256_hex (flat (canon v))"
  by (auto simp: payload_digest_def rbind_eq_Inr canonical_Inr)

lemma signing_input_Inr [res_simps]:
  "signing_input p q = Inr b \<longleftrightarrow> plain p \<and> plain q \<and>
     b = domain_prefix @ flat (JObj [(''payload'', canon q), (''protected'', canon p)])"
  by (auto simp: signing_input_def rbind_eq_Inr canonical_Inr obj_def)

lemma plain_protected_header [simp]: "plain (protected_header r typ t h)"
  by (simp add: protected_header_def obj_def)

lemma freeze_protected_header [simp]: "freeze (protected_header r typ t h) = protected_header r typ t h"
  by (simp add: protected_header_def obj_def)

lemma protected_header_get [simp]:
  "py_get (protected_header r typ t h) ''alg'' = PyStr ''EdDSA''"
  "py_get (protected_header r typ t h) ''crv'' = PyStr ''Ed25519''"
  "py_get (protected_header r typ t h) ''v'' = PyInt 1"
  "py_get (protected_header r typ t h) ''kid'' = PyStr (kr_key_id r)"
  "py_get (protected_header r typ t h) ''iss'' = PyStr (kr_owner_id r)"
  "py_get (protected_header r typ t h) ''typ'' = PyStr (artifact_value typ)"
  "py_get (protected_header r typ t h) ''iat'' = PyInt (epoch t)"
  "py_get (protected_header r typ t h) ''payload_sha256'' = PyStr h"
  by (simp_all add: protected_header_def obj_def py_get_def pget_def)

lemma artifact_value_inj [simp]: "artifact_value a = artifact_value b \<longleftrightarrow> a = b"
  by (cases a; cases b) auto

lemma artifact_of_value [simp]: "artifact_of (PyStr (artifact_value a)) = Some a"
  by (cases a) (simp_all add: artifact_of_def all_artifact_types_def)

lemma artifact_of_Some: "artifact_of v = Some a \<Longrightarrow> v = PyStr (artifact_value a)"
  by (auto simp: artifact_of_def find_Some_iff)

lemma as_int_simps [simp]: "as_int (PyInt i) = Some i" "as_int (PyBool b) = Some (of_bool b)"
  by (simp_all add: as_int_def)

lemma equals_int_PyInt [simp]: "equals_int (PyInt i) n \<longleftrightarrow> i = n"
  by (simp add: equals_int_def)

section \<open>What a produced and an accepted envelope guarantee\<close>

lemma sign_artifactD:
  assumes "sign_artifact P ks typ payload kid at = Inr env"
  obtains r h inp sk where "get_key_record ks kid = Some r" "kr_purpose r = purpose_by_artifact typ"
    "permits_signing_at r (astimezone_utc P at)" "plain payload"
    "h = sha256_hex (flat (canon payload))"
    "env_protected env = protected_header r typ (astimezone_utc P at) h"
    "env_payload env = freeze payload" "signing_input (env_protected env) payload = Inr inp"
    "dict_get (kp_private_keys ks) kid = Some sk"
    "env_signature env = b64url_encode (ed_sign P sk inp)"
  using assms
  by (auto simp: sign_artifact_def Let_def res_simps mk_envelope_def kp_sign_def split: option.splits)

definition accepted_envelope ::
  "platform \<Rightarrow> key_provider \<Rightarrow> envelope \<Rightarrow> bool \<Rightarrow> artifact_type \<Rightarrow> key_record \<Rightarrow> int \<Rightarrow> bool" where
  \<comment> \<open>everything an accepted signature establishes, as one declarative predicate\<close>
  "accepted_envelope P ks env accept_revoked typ r iat \<longleftrightarrow>
     (\<exists>kid sig. py_get (env_protected env) ''kid'' = PyStr kid \<and> get_key_record ks kid = Some r \<and>
        b64url_decode (env_signature env) = Inr sig \<and>
        ed_verify P (kr_public_key r) sig
          (domain_prefix @ flat (JObj [(''payload'', canon (env_payload env)),
                                        (''protected'', canon (env_protected env))]))) \<and>
     plain (env_payload env) \<and> plain (env_protected env) \<and>
     py_get (env_protected env) ''typ'' = PyStr (artifact_value typ) \<and>
     py_get (env_protected env) ''iss'' = PyStr (kr_owner_id r) \<and>
     kr_purpose r = purpose_by_artifact typ \<and>
     (kr_status r = KEY_REVOKED \<longrightarrow> accept_revoked) \<and>
     as_int (py_get (env_protected env) ''iat'') = Some iat \<and>
     kr_not_before r \<le> from_epoch iat \<and> from_epoch iat < kr_not_after r \<and>
     py_get (env_protected env) ''payload_sha256''
       = PyStr (sha256_hex (flat (canon (env_payload env))))"

lemma rejected_invalid [simp]: "\<not> vr_valid (rejected a b c)"
  by (simp add: rejected_def)

lemma fromtimestamp_Inr: "fromtimestamp n = Inr t \<Longrightarrow> t = from_epoch n"
  by (auto simp: fromtimestamp_def split: if_splits)

lemma verify_valid_body:
  assumes "verify_artifact P ks env expected ar = Inr v" "vr_valid v"
  shows "verify_body P ks env expected ar = Inr v"
  using assms by (auto simp: verify_artifact_def split: sum.splits if_splits)

lemma verify_accepted:
  assumes "verify_artifact P ks env expected ar = Inr v" "vr_valid v"
  obtains ty r iat where "accepted_envelope P ks env ar ty r iat"
    "expected = None \<or> expected = Some ty" "vr_artifact_type v = Some ty"
proof -
  from verify_valid_body [OF assms] assms(2) show thesis
    unfolding verify_body_def Let_def
    by (auto split: if_splits pyval.splits option.splits simp: res_simps accepted_envelope_def
          dest!: fromtimestamp_Inr artifact_of_Some intro!: that)
qed

lemma kp_inv_key_id: "kp_inv P ks \<Longrightarrow> get_key_record ks k = Some r \<Longrightarrow> kr_key_id r = k"
  by (auto simp: kp_defs)

lemma epoch_le: "0 \<le> t \<Longrightarrow> from_epoch (epoch t) \<le> t"
  by (simp add: epoch_def from_epoch_def)

lemma epoch_range:
  assumes "0 \<le> t" "t < from_epoch 253402300800"
  shows "fromtimestamp (epoch t) = Inr (from_epoch (epoch t))"
proof -
  have "0 \<le> epoch t" "epoch t < 253402300800"
    using assms by (auto simp: epoch_def from_epoch_def pos_imp_zdiv_nonneg_iff)
  then show ?thesis by (simp add: fromtimestamp_def)
qed

definition artifact_bytes :: "pyval \<Rightarrow> pyval \<Rightarrow> string" where
  \<comment> \<open>the signed bytes as a function of the abstract values\<close>
  "artifact_bytes protected payload = domain_prefix @
     flat (JObj [(''payload'', canon payload), (''protected'', canon protected)])"

lemma signing_input_bytes: "signing_input p q = Inr b \<longleftrightarrow> plain p \<and> plain q \<and> b = artifact_bytes p q"
  by (simp add: signing_input_Inr artifact_bytes_def)

lemma artifact_bytes_freeze [simp]: "artifact_bytes p (freeze q) = artifact_bytes p q"
  by (simp add: artifact_bytes_def canon_freeze)

lemma artifact_bytes_inj: "artifact_bytes p q = artifact_bytes p' q' \<longleftrightarrow> canon p = canon p' \<and> canon q = canon q'"
proof -
  have "artifact_bytes p q = artifact_bytes p' q' \<longleftrightarrow>
      JObj [(''payload'', canon q), (''protected'', canon p)] = JObj [(''payload'', canon q'), (''protected'', canon p')]"
    unfolding artifact_bytes_def by (simp only: same_append_eq flat_inj)
  then show ?thesis by auto
qed

lemma verify_signed_body:
  \<comment> \<open>the verifier's path on a freshly signed envelope\<close>
  assumes "kp_inv P ks" "sign_artifact P ks ty payload kid at = Inr env" "kid \<noteq> []"
    and "get_key_record ks kid = Some r" "dict_get (kp_private_keys ks) kid = Some sk"
    and "t = astimezone_utc P at" "0 \<le> t" "t < from_epoch 253402300800"
  shows "verify_body P ks env (Some ty) False =
    (if kr_not_before r \<le> from_epoch (epoch t) \<and> from_epoch (epoch t) < kr_not_after r
     then (if ed_verify P (kr_public_key r) (ed_sign P sk (artifact_bytes (env_protected env) payload))
                (artifact_bytes (env_protected env) payload)
       then Inr \<lparr>vr_valid = True, vr_reason = ''VALID'', vr_key_id = Some kid, vr_artifact_type = Some ty\<rparr>
       else Inl (Raise InvalidSignature []))
     else Inr (rejected ''KEY_NOT_VALID_AT_ISSUANCE'' (Some kid) (Some ty)))"
proof -
  from assms(2) obtain r' h inp sk' where s: "get_key_record ks kid = Some r'"
    "kr_purpose r' = purpose_by_artifact ty" "permits_signing_at r' t" "plain payload"
    "h = sha256_hex (flat (canon payload))" "env_protected env = protected_header r' ty t h"
    "env_payload env = freeze payload" "signing_input (env_protected env) payload = Inr inp"
    "dict_get (kp_private_keys ks) kid = Some sk'"
    "env_signature env = b64url_encode (ed_sign P sk' inp)"
    unfolding assms(6) by (rule sign_artifactD)
  have r': "r' = r" and sk: "sk' = sk" using s(1,9) assms(4,5) by simp_all
  have kid: "kr_key_id r = kid" and len: "length (kr_public_key r) = 32"
    using assms(1,4) by (auto simp: kp_defs)
  have status: "kr_status r \<noteq> KEY_REVOKED" using s(3) r' by (simp add: permits_signing_at_def)
  have inp: "inp = artifact_bytes (protected_header r ty t h) payload"
    using s(6,8) r' by (simp add: signing_input_bytes)
  have si: "signing_input (protected_header r ty t h) (freeze payload) = Inr inp"
    using s(4) by (simp add: signing_input_bytes plain_freeze inp)
  have dig: "payload_digest (freeze payload) = Inr h"
    using s(4,5) by (simp add: payload_digest_Inr plain_freeze canon_freeze)
  show ?thesis
    unfolding verify_body_def Let_def s(6,7,10) r' sk protected_header_get inp [symmetric]
    using assms(3) assms(4) s(2) kid len status si dig epoch_range [OF assms(7,8)]
    by (simp add: r' fromtimestamp_Inr)
qed

lemma signed_envelope_verifies:
  assumes "ed25519_correct P" "kp_inv P ks" "sign_artifact P ks ty payload kid at = Inr env" "kid \<noteq> []"
    and "get_key_record ks kid = Some r" "kr_not_before r \<le> from_epoch (epoch (astimezone_utc P at))"
    and "0 \<le> astimezone_utc P at" "astimezone_utc P at < from_epoch 253402300800"
  shows "verify_artifact P ks env (Some ty) False =
    Inr \<lparr>vr_valid = True, vr_reason = ''VALID'', vr_key_id = Some kid, vr_artifact_type = Some ty\<rparr>"
proof -
  from assms(3) obtain r' where r': "get_key_record ks kid = Some r'" "permits_signing_at r' (astimezone_utc P at)"
    by (rule sign_artifactD)
  then have act: "kr_status r = KEY_ACTIVE" and lt: "astimezone_utc P at < kr_not_after r"
    using assms(5) by (auto simp: permits_signing_at_def)
  obtain sk where sk: "dict_get (kp_private_keys ks) kid = Some sk" "kr_public_key r = ed_public P sk"
    using kp_inv_active_signs [OF assms(2,5) act] by metis
  have "from_epoch (epoch (astimezone_utc P at)) < kr_not_after r"
    using epoch_le [OF assms(7)] lt by linarith
  with verify_signed_body [OF assms(2,3,4,5) sk(1) refl assms(7,8)] assms(1,6) sk(2)
  show ?thesis by (simp add: verify_artifact_def ed25519_correct_def)
qed

section \<open>Properties\<close>

text \<open>
  C5. What an accepted signature means: if verification reports the envelope valid, the named
  key exists, belongs to the issuer, has exactly the purpose of the artifact type, is not
  revoked (unless a historical audit asked for it), the issue time lies in the key's window,
  the payload hash in the header is the hash of this payload, and Ed25519 verified the
  domain-separated bytes of exactly this header and payload.  The type is the expected one.
\<close>

theorem verify_artifact_sound:
  assumes "verify_artifact P ks env expected ar = Inr v" "vr_valid v"
  shows "\<exists>ty r iat. accepted_envelope P ks env ar ty r iat \<and> (expected = None \<or> expected = Some ty)
    \<and> vr_artifact_type v = Some ty"
  using assms by (rule verify_accepted) blast

text \<open>
  Round trip: an envelope produced by the signing service verifies as valid for its own
  artifact type, for every provider state reached through the key operations, provided the
  second in which it was issued lies inside the key's window (see the next property) and the
  time is representable.
\<close>

theorem sign_then_verify:
  assumes "ed25519_correct P" "kp_inv P ks" "sign_artifact P ks ty payload kid at = Inr env" "kid \<noteq> []"
    and "get_key_record ks kid = Some r" "kr_not_before r \<le> from_epoch (epoch (astimezone_utc P at))"
    and "0 \<le> astimezone_utc P at" "astimezone_utc P at < from_epoch 253402300800"
  shows "verify_artifact P ks env (Some ty) False =
    Inr \<lparr>vr_valid = True, vr_reason = ''VALID'', vr_key_id = Some kid, vr_artifact_type = Some ty\<rparr>"
  using assms by (rule signed_envelope_verifies)

lemma sign_artifact_ok:
  assumes "get_key_record ks kid = Some r" "kr_purpose r = purpose_by_artifact ty"
    and "permits_signing_at r (astimezone_utc P at)" "plain payload"
    and "dict_get (kp_private_keys ks) kid = Some sk"
  obtains env where "sign_artifact P ks ty payload kid at = Inr env"
proof -
  have "payload_digest payload = Inr (sha256_hex (flat (canon payload)))"
    using assms(4) by (simp add: payload_digest_Inr)
  moreover have "signing_input (protected_header r ty t h) payload
      = Inr (artifact_bytes (protected_header r ty t h) payload)" for t h
    using assms(4) by (simp add: signing_input_bytes)
  ultimately show thesis
    using assms that by (simp add: sign_artifact_def kp_sign_def Let_def)
qed

theorem sign_then_verify_witness:
  "\<exists>env. sign_artifact demo_platform demo_keys QUOTE (obj [(''amount_minor'', PyInt 5)]) ''kq'' (Aware 7000000) = Inr env
     \<and> verify_artifact demo_platform demo_keys env (Some QUOTE) False =
       Inr \<lparr>vr_valid = True, vr_reason = ''VALID'', vr_key_id = Some ''kq'', vr_artifact_type = Some QUOTE\<rparr>"
proof -
  obtain env where e: "sign_artifact demo_platform demo_keys QUOTE (obj [(''amount_minor'', PyInt 5)]) ''kq'' (Aware 7000000) = Inr env"
    by (rule sign_artifact_ok [of demo_keys "''kq''"])
       (auto simp: obj_def from_epoch_def permits_signing_at_def)
  show ?thesis using e sign_then_verify [OF demo_correct demo_keys_inv e, of "demo_key ''kq'' QUOTE_SIGNING"]
    by (simp add: from_epoch_def epoch_def)
qed

theorem verify_artifact_sound_witness:
  "\<exists>env r iat. accepted_envelope demo_platform demo_keys env False UTT r iat"
proof -
  obtain env where e: "sign_artifact demo_platform demo_keys UTT (obj [(''utt_id'', PyStr ''U'')]) ''ke'' (Aware 7000000) = Inr env"
    by (rule sign_artifact_ok [of demo_keys "''ke''"])
       (auto simp: obj_def from_epoch_def permits_signing_at_def)
  have b: "verify_body demo_platform demo_keys env (Some UTT) False
    = Inr \<lparr>vr_valid = True, vr_reason = ''VALID'', vr_key_id = Some ''ke'', vr_artifact_type = Some UTT\<rparr>"
    using verify_signed_body [OF demo_keys_inv e, of "demo_key ''ke'' EXECUTION_SIGNING" "''se''" 7000000]
    by (simp add: from_epoch_def epoch_def)
  then have "verify_artifact demo_platform demo_keys env (Some UTT) False
    = Inr \<lparr>vr_valid = True, vr_reason = ''VALID'', vr_key_id = Some ''ke'', vr_artifact_type = Some UTT\<rparr>"
    by (simp add: verify_artifact_def)
  from verify_artifact_sound [OF this] show ?thesis by auto
qed

text \<open>
  Sub-second gap between signer and verifier: the signer tests the exact instant against
  the key's window but records whole seconds, so an artifact signed within the second in which
  the key becomes valid, but after its \<^verbatim>\<open>not_before\<close> fraction, is signed and then rejected as
  \<^verbatim>\<open>KEY_NOT_VALID_AT_ISSUANCE\<close>.
\<close>

theorem sign_verify_subsecond_gap:
  assumes "kp_inv P ks" "sign_artifact P ks ty payload kid at = Inr env" "kid \<noteq> []"
    and "get_key_record ks kid = Some r" "from_epoch (epoch (astimezone_utc P at)) < kr_not_before r"
    and "0 \<le> astimezone_utc P at" "astimezone_utc P at < from_epoch 253402300800"
  shows "verify_artifact P ks env (Some ty) False =
    Inr (rejected ''KEY_NOT_VALID_AT_ISSUANCE'' (Some kid) (Some ty))"
proof -
  from assms(2) obtain sk where sk: "dict_get (kp_private_keys ks) kid = Some sk"
    by (rule sign_artifactD)
  from verify_signed_body [OF assms(1,2,3,4) sk refl assms(6,7)] assms(5)
  show ?thesis by (simp add: verify_artifact_def)
qed

definition late_key :: key_record where
  "late_key = (demo_key ''kq'' QUOTE_SIGNING)\<lparr>kr_not_before := 7500000\<rparr>"

definition late_keys :: key_provider where
  "late_keys = \<lparr>kp_records = [(''kq'', late_key)], kp_private_keys = [(''kq'', ''sq'')]\<rparr>"

theorem sign_verify_subsecond_gap_witness:
  "\<exists>env. sign_artifact demo_platform late_keys QUOTE (obj [(''amount_minor'', PyInt 5)]) ''kq'' (Aware 7600000) = Inr env
     \<and> verify_artifact demo_platform late_keys env (Some QUOTE) False =
       Inr (rejected ''KEY_NOT_VALID_AT_ISSUANCE'' (Some ''kq'') (Some QUOTE))"
proof -
  let ?p = "obj [(''amount_minor'', PyInt 5)]"
  have g: "get_key_record late_keys ''kq'' = Some late_key" by (simp add: late_keys_def get_key_record_def)
  have inv: "kp_inv demo_platform late_keys"
    by (auto simp: kp_defs late_keys_def late_key_def demo_key_def from_epoch_def split: if_splits)
  have plain: "plain ?p" by (simp add: obj_def)
  have lk: "kr_purpose late_key = purpose_by_artifact QUOTE"
      "permits_signing_at late_key (astimezone_utc demo_platform (Aware 7600000))"
      "dict_get (kp_private_keys late_keys) ''kq'' = Some ''sq''"
    by (simp_all add: late_key_def late_keys_def permits_signing_at_def from_epoch_def)
  obtain env where e: "sign_artifact demo_platform late_keys QUOTE ?p ''kq'' (Aware 7600000) = Inr env"
    by (rule sign_artifact_ok [OF g lk(1,2) plain lk(3)])
  show ?thesis using e sign_verify_subsecond_gap [OF inv e _ g] by (simp add: from_epoch_def epoch_def late_key_def)
qed

text \<open>
  Domain separation: the signed bytes determine the header and the payload.  Two pairs with
  the same signing input are the same JSON values, so one signature cannot stand for two
  artifact types, two issuers, two issue times or two payloads.
\<close>

theorem signing_input_injective:
  assumes "signing_input p q = Inr b" "signing_input p' q' = Inr b"
  shows "canon p = canon p' \<and> canon q = canon q'"
  using assms artifact_bytes_inj [of p q p' q'] by (simp add: signing_input_bytes)

theorem signing_input_injective_witness:
  "canon (obj [(''typ'', PyStr ''railone.utt'')]) = canon (obj [(''typ'', PyStr ''railone.utt'')])
   \<and> canon (PyTuple [PyInt 1]) = canon (PyList [PyInt 1])"
proof (rule signing_input_injective)
  show "signing_input (obj [(''typ'', PyStr ''railone.utt'')]) (PyTuple [PyInt 1])
    = Inr (artifact_bytes (obj [(''typ'', PyStr ''railone.utt'')]) (PyTuple [PyInt 1]))"
    by (simp add: signing_input_bytes obj_def)
  show "signing_input (obj [(''typ'', PyStr ''railone.utt'')]) (PyList [PyInt 1])
    = Inr (artifact_bytes (obj [(''typ'', PyStr ''railone.utt'')]) (PyTuple [PyInt 1]))"
    by (simp add: signing_input_bytes artifact_bytes_def obj_def)
qed

section \<open>Reading fields of built payloads\<close>

lemma map_of_PyStr: "map_of (map (\<lambda>(k, v). (PyStr k, v)) kvs) (PyStr k) = map_of kvs k"
  by (induction kvs) auto

lemma map_of_freeze_items: "map_of (freeze_items kvs) k = map_option freeze (map_of kvs k)"
  by (induction kvs) auto

lemma pget_obj [simp]: "pget (obj kvs) k = map_of kvs k"
  by (simp add: pget_def obj_def map_of_PyStr)

lemma pget_freeze [simp]: "pget (freeze d) k = map_option freeze (pget d k)"
  by (cases d) (simp_all add: pget_def map_of_freeze_items)

lemma pget_merge [simp]:
  "pget (merge_obj kvs (obj kvs')) k = (case map_of kvs k of Some v \<Rightarrow> Some v | None \<Rightarrow> map_of kvs' k)"
  by (simp add: merge_obj_def pget_def obj_def map_add_def map_of_PyStr split: option.split)

lemma py_item_Inr [res_simps]: "py_item d k = Inr v \<longleftrightarrow> pget d k = Some v"
  by (auto simp: py_item_def pget_def split: pyval.splits option.splits)

lemma py_get_Some [simp]: "pget d k = Some v \<Longrightarrow> py_get d k = v"
  by (simp add: py_get_def)

end
