(* ===== verification/Store_Interfaces.thy ===== *)
theory Store_Interfaces
  imports Prelude
begin

text \<open>
  The contracts the services demand of their stores, as locales: a write-once store (the first
  value under a key wins, an identical repetition replays it, a different one is refused) and a
  versioned store (compare-and-swap on a version number).  Each store of the program interprets
  the contract it implements; the facts its clients use are proved here once.
\<close>

section \<open>Runs of operations\<close>

inductive put_run :: "('k \<Rightarrow> 'v \<Rightarrow> ('s, 'w) st) \<Rightarrow> 's \<Rightarrow> 's \<Rightarrow> bool" for put where
  put_done: "put_run put s s"
| put_step: "put k v s = (r, t) \<Longrightarrow> put_run put t u \<Longrightarrow> put_run put s u"

section \<open>Write-once stores\<close>

locale write_once =
  fixes lookup :: "'s \<Rightarrow> 'k \<Rightarrow> 'v option"
    and put :: "'k \<Rightarrow> 'v \<Rightarrow> ('s, 'v \<times> bool) st"
    and same :: "'v \<Rightarrow> 'v \<Rightarrow> bool"
  assumes put_replay: "lookup s k = Some old \<Longrightarrow> same old v \<Longrightarrow> put k v s = (Inr (old, True), s)"
    and put_conflict: "lookup s k = Some old \<Longrightarrow> \<not> same old v \<Longrightarrow> \<exists>e. put k v s = (Inl e, s)"
    and put_fresh: "lookup s k = None \<Longrightarrow> put k v s = (Inr (w, rep), s') \<Longrightarrow>
      w = v \<and> \<not> rep \<and> lookup s' = (lookup s)(k \<mapsto> v)"
    and put_raises: "put k v s = (Inl e, s') \<Longrightarrow> s' = s"
begin

lemma put_stores:
  assumes "put k v s = (Inr (w, rep), s')"
  shows "lookup s' k = Some w \<and> (rep \<longleftrightarrow> lookup s k \<noteq> None)"
proof (cases "lookup s k")
  case None
  with put_fresh [OF None assms] show ?thesis by simp
next
  case (Some old)
  with put_conflict [OF Some, of v] put_replay [OF Some, of v] assms show ?thesis
    by (cases "same old v") auto
qed

lemma put_keeps:
  assumes "put k' v' s = (r, t)" "lookup s k = Some v"
  shows "lookup t k = Some v"
proof (cases r)
  case (Inl e)
  then show ?thesis using put_raises assms by metis
next
  case (Inr wr)
  obtain w rep where wr: "wr = (w, rep)" by (cases wr)
  show ?thesis
  proof (cases "lookup s k'")
    case None
    then have "k' \<noteq> k" using assms(2) by auto
    then show ?thesis using put_fresh [OF None] assms Inr wr by auto
  next
    case (Some old)
    then show ?thesis using put_replay [OF Some] put_conflict [OF Some] assms Inr
      by (cases "same old v'") force+
  qed
qed

lemma run_keeps: "put_run put s t \<Longrightarrow> lookup s k = Some v \<Longrightarrow> lookup t k = Some v"
  by (induction rule: put_run.induct) (auto dest: put_keeps)

lemma first_write_wins:
  assumes "put k v s = (Inr (w, rep), t)" "put_run put t u"
  shows "(same w v' \<longrightarrow> put k v' u = (Inr (w, True), u)) \<and> (\<not> same w v' \<longrightarrow> (\<exists>e. put k v' u = (Inl e, u)))"
proof -
  have "lookup u k = Some w" using run_keeps [OF assms(2)] put_stores [OF assms(1)] by blast
  then show ?thesis using put_replay put_conflict by blast
qed

end

section \<open>Versioned stores\<close>

locale versioned_store =
  fixes current :: "'s \<Rightarrow> 'k \<Rightarrow> 'v option"
    and version :: "'v \<Rightarrow> int"
    and commit :: "'k \<Rightarrow> int \<Rightarrow> 'v \<Rightarrow> 'x \<Rightarrow> ('s, unit) st"
  assumes commit_ok: "commit k n v x s = (Inr u, s') \<Longrightarrow>
      (\<exists>old. current s k = Some old \<and> version old = n) \<and> current s' = (current s)(k \<mapsto> v)"
    and commit_raises: "commit k n v x s = (Inl e, s') \<Longrightarrow> s' = s"
begin

lemma commit_stale:
  assumes "current s k = Some old" "version old \<noteq> n"
  shows "\<exists>e. commit k n v x s = (Inl e, s)"
proof (cases "commit k n v x s")
  case (Pair r s')
  then show ?thesis using assms commit_ok [of k n v x s] commit_raises [of k n v x s]
    by (cases r) auto
qed

lemma no_lost_update:
  assumes "commit k n v x s = (Inr u, s')" "version v \<noteq> n"
  shows "\<exists>e. commit k n v' x' s' = (Inl e, s')"
  using commit_ok [OF assms(1)] commit_stale [of s' k v n] assms(2) by simp

end

end
