(* ===== verification/Lease_Queue.thy ===== *)
theory Lease_Queue
  imports Prelude
begin

text \<open>
  Queues whose rows are claimed under a lease, as the signed outbox and the sandbox effect queue are:
  the claim loop both stores share, the contract of such a queue as a locale, and the exclusivity of a
  lease proved once from the contract.
\<close>

section \<open>The claim loop\<close>

text \<open>
  The claim loop the outbox and the sandbox effect queue share: the eligible rows in delivery order, at
  most \<open>limit\<close> of them, each updated and written back under its own key.
\<close>

definition put_rows :: "('r \<Rightarrow> 'k) \<Rightarrow> 'r list \<Rightarrow> ('k, 'r) dict \<Rightarrow> ('k, 'r) dict" where
  "put_rows key rs d = fold (\<lambda>r. dict_set (key r) r) rs d"

definition lease_claim ::
  "('r \<Rightarrow> 'k) \<Rightarrow> ('r \<Rightarrow> bool) \<Rightarrow> ('r \<Rightarrow> 'o :: linorder) \<Rightarrow> ('r \<Rightarrow> 'r) \<Rightarrow> int \<Rightarrow> ('k, 'r) dict \<Rightarrow> 'r list \<times> ('k, 'r) dict" where
  "lease_claim key eligible order upd limit d =
     (let claimed = map upd (take (nat limit) (sort_key order (filter eligible (map snd d))))
      in (claimed, put_rows key claimed d))"

definition keyed :: "('r \<Rightarrow> 'k) \<Rightarrow> ('k, 'r) dict \<Rightarrow> bool" where
  \<comment> \<open>every row is stored once, under its own key\<close>
  "keyed key d \<longleftrightarrow> dict_ok d \<and> (\<forall>(k, r)\<in>set d. key r = k)"

lemma keyed_get: "keyed key d \<Longrightarrow> dict_get d k = Some r \<Longrightarrow> key r = k"
  unfolding keyed_def by (auto dest: map_of_SomeD)

lemma keyed_row: "keyed key d \<Longrightarrow> r \<in> snd ` set d \<longleftrightarrow> dict_get d (key r) = Some r"
  unfolding keyed_def by (force dest: map_of_SomeD simp: map_of_eq_Some_iff)

lemma keyed_set [intro]: "keyed key d \<Longrightarrow> key r = k \<Longrightarrow> keyed key (dict_set k r d)"
proof (induction d)
  case (Cons a d)
  then show ?case by (cases a) (auto simp: keyed_def dom_update image_iff)
qed (simp add: keyed_def)

lemma keyed_Nil [simp]: "keyed key []"
  by (simp add: keyed_def)

lemma put_rows_get:
  "distinct (map key rs) \<Longrightarrow> r \<in> set rs \<Longrightarrow> dict_get (put_rows key rs d) (key r) = Some r"
proof (induction rs arbitrary: d)
  case (Cons a rs)
  have keep: "dict_get (put_rows key rs d) k = dict_get d k" if "k \<notin> key ` set rs" for k d
    using that by (induction rs arbitrary: d) (auto simp: put_rows_def)
  show ?case using Cons keep by (auto simp: put_rows_def)
qed simp

lemma put_rows_other: "k \<notin> key ` set rs \<Longrightarrow> dict_get (put_rows key rs d) k = dict_get d k"
  by (induction rs arbitrary: d) (auto simp: put_rows_def)

lemma keyed_put_rows: "keyed key d \<Longrightarrow> keyed key (put_rows key rs d)"
  by (induction rs arbitrary: d) (auto simp: put_rows_def)

lemma keyed_distinct: "keyed key d \<Longrightarrow> distinct (map key (map snd d))"
proof -
  assume k: "keyed key d"
  then have "map key (map snd d) = map fst d" by (auto simp: keyed_def)
  with k show ?thesis unfolding keyed_def by metis
qed

locale claim_loop =
  fixes key :: "'r \<Rightarrow> 'k" and eligible :: "'r \<Rightarrow> bool" and order :: "'r \<Rightarrow> 'o :: linorder"
    and upd :: "'r \<Rightarrow> 'r" and limit :: int
  assumes upd_key: "key (upd r) = key r" and upd_order: "order (upd r) = order r"
begin

lemma claim_distinct:
  assumes "keyed key d" "lease_claim key eligible order upd limit d = (rs, d')"
  shows "distinct (map key rs)"
proof -
  have "distinct (map key (map snd d))" using assms(1) by (rule keyed_distinct)
  then have "distinct (map key (filter eligible (map snd d)))" by (simp add: distinct_map_filter)
  then have "distinct (map key (sort_key order (filter eligible (map snd d))))"
    by (simp add: distinct_map)
  then have "distinct (map key (take (nat limit) (sort_key order (filter eligible (map snd d)))))"
    by (metis distinct_take take_map)
  then show ?thesis using assms(2) by (auto simp: lease_claim_def Let_def upd_key comp_def)
qed

lemma claim_from:
  assumes "keyed key d" "lease_claim key eligible order upd limit d = (rs, d')" "r \<in> set rs"
  shows "dict_get d' (key r) = Some r \<and> (\<exists>old. dict_get d (key r) = Some old \<and> eligible old \<and> r = upd old)"
proof -
  have d': "d' = put_rows key rs d"
    and rs: "rs = map upd (take (nat limit) (sort_key order (filter eligible (map snd d))))"
    using assms(2) by (auto simp: lease_claim_def Let_def)
  from rs assms(3) obtain old where "old \<in> snd ` set d" "eligible old" "r = upd old"
    by (fastforce dest!: in_set_takeD)
  then show ?thesis
    using put_rows_get [OF claim_distinct [OF assms(1,2)] assms(3)] keyed_row [OF assms(1)] d'
    by (metis upd_key)
qed

lemma claim_keeps:
  assumes "keyed key d" "lease_claim key eligible order upd limit d = (rs, d')" "dict_get d k = Some r" "\<not> eligible r"
  shows "dict_get d' k = Some r"
proof -
  have "k \<notin> key ` set rs"
  proof
    assume "k \<in> key ` set rs"
    then obtain c where "c \<in> set rs" "k = key c" by auto
    then show False using claim_from [OF assms(1,2), of c] assms(3,4) by auto
  qed
  then show ?thesis using assms(2,3) by (auto simp: lease_claim_def Let_def put_rows_other)
qed

lemma claim_absent:
  assumes "keyed key d" "lease_claim key eligible order upd limit d = (rs, d')" "dict_get d k = None"
  shows "dict_get d' k = None"
proof -
  have "k \<notin> key ` set rs" using claim_from [OF assms(1,2)] assms(3) by fastforce
  then show ?thesis using assms(2,3) by (auto simp: lease_claim_def Let_def put_rows_other)
qed

lemma claim_keyed: "keyed key d \<Longrightarrow> lease_claim key eligible order upd limit d = (rs, d') \<Longrightarrow> keyed key d'"
  by (auto simp: lease_claim_def Let_def intro: keyed_put_rows)

lemma claim_sorted: "lease_claim key eligible order upd limit d = (rs, d') \<Longrightarrow> sorted (map order rs)"
proof -
  assume "lease_claim key eligible order upd limit d = (rs, d')"
  then have "map order rs = take (nat limit) (map order (sort_key order (filter eligible (map snd d))))"
    by (auto simp: lease_claim_def Let_def upd_order comp_def take_map)
  then show ?thesis by (metis sorted_sort_key sorted_wrt_take)
qed

text \<open>What the claim passes over is no more urgent than anything it takes.\<close>

lemma claim_fair:
  assumes "keyed key d" "lease_claim key eligible order upd limit d = (rs, d')" "0 \<le> limit"
    and "dict_get d k = Some q" "eligible q" "k \<notin> key ` set rs"
  shows "int (length rs) = limit \<and> (\<forall>r\<in>set rs. order r \<le> order q)"
proof -
  let ?s = "sort_key order (filter eligible (map snd d))"
  have rs: "rs = map upd (take (nat limit) ?s)" using assms(2) by (simp add: lease_claim_def Let_def)
  have kq: "key q = k" using keyed_get assms(1,4) by metis
  have "q \<in> set ?s" using assms(4,5) map_of_SomeD by force
  moreover have "q \<notin> set (take (nat limit) ?s)" using assms(6) kq by (auto simp: rs upd_key image_iff)
  ultimately have q: "q \<in> set (drop (nat limit) ?s)" by (metis Un_iff append_take_drop_id set_append)
  then have "nat limit < length ?s" by (metis drop_all empty_iff empty_set linorder_not_le)
  then have "int (length rs) = limit" using assms(3) by (simp add: rs)
  moreover have "order r \<le> order q" if m: "r \<in> set rs" for r
  proof -
    obtain r0 where r0: "r0 \<in> set (take (nat limit) ?s)" "r = upd r0" using m unfolding rs by auto
    have "sorted (map order (take (nat limit) ?s) @ map order (drop (nat limit) ?s))"
      by (metis append_take_drop_id map_append sorted_sort_key)
    then have "order r0 \<le> order q" using r0(1) q by (auto simp: sorted_append)
    then show ?thesis using r0(2) by (simp add: upd_order)
  qed
  ultimately show ?thesis by blast
qed

end

section \<open>The contract of a lease queue\<close>

locale lease_queue =
  fixes inv :: "'s \<Rightarrow> bool"
    and rows :: "'s \<Rightarrow> 'k \<Rightarrow> 'r option"
    and key :: "'r \<Rightarrow> 'k"
    and owned :: "'r \<Rightarrow> string \<Rightarrow> int \<Rightarrow> bool"
    and now :: "'p \<Rightarrow> 's \<Rightarrow> int"
    and span :: "'p \<Rightarrow> int"
    and claim :: "string \<Rightarrow> 'p \<Rightarrow> ('s, 'r list) st"
    and settle :: "'k \<Rightarrow> string \<Rightarrow> 'q \<Rightarrow> ('s, 'r) st"
    and well_formed :: "'q \<Rightarrow> bool"
    and add :: "'a \<Rightarrow> ('s, 'b) st"
  assumes claim_inv: "inv s \<Longrightarrow> claim w p s = (x, s') \<Longrightarrow> inv s'"
    and settle_inv: "inv s \<Longrightarrow> settle k w q s = (y, s') \<Longrightarrow> inv s'"
    and add_inv: "inv s \<Longrightarrow> add a s = (z, s') \<Longrightarrow> inv s'"
    and claim_gives: "inv s \<Longrightarrow> claim w p s = (Inr rs, s') \<Longrightarrow> r \<in> set rs \<Longrightarrow>
      rows s' (key r) = Some r \<and> owned r w (now p s + span p)"
    and claim_skips: "inv s \<Longrightarrow> claim w p s = (x, s') \<Longrightarrow> rows s k = Some r \<Longrightarrow> owned r w' d \<Longrightarrow> now p s < d \<Longrightarrow>
      rows s' k = Some r"
    and settle_foreign: "inv s \<Longrightarrow> settle k' w q s = (y, s') \<Longrightarrow> rows s k = Some r \<Longrightarrow> owned r w' d \<Longrightarrow>
      k' \<noteq> k \<or> w \<noteq> w' \<Longrightarrow> rows s' k = Some r"
    and settle_own: "inv s \<Longrightarrow> well_formed q \<Longrightarrow> rows s k = Some r \<Longrightarrow> owned r w d \<Longrightarrow>
      \<exists>r' s'. settle k w q s = (Inr r', s') \<and> rows s' = (rows s)(k \<mapsto> r') \<and> (\<forall>w' d'. \<not> owned r' w' d')"
    and add_keeps: "inv s \<Longrightarrow> add a s = (z, s') \<Longrightarrow> rows s k = Some r \<Longrightarrow> rows s' k = Some r"

text \<open>
  What may happen before the deadline while a worker \<open>w\<close> holds the row \<open>k\<close>: claims by anyone, settlements of
  other rows or by other workers, new rows.
\<close>

inductive others_run ::
  "('p \<Rightarrow> 's \<Rightarrow> int) \<Rightarrow> (string \<Rightarrow> 'p \<Rightarrow> ('s, 'r list) st) \<Rightarrow> ('k \<Rightarrow> string \<Rightarrow> 'q \<Rightarrow> ('s, 'r) st) \<Rightarrow>
    ('a \<Rightarrow> ('s, 'b) st) \<Rightarrow> 'k \<Rightarrow> string \<Rightarrow> int \<Rightarrow> 's \<Rightarrow> 's \<Rightarrow> bool"
  for now claim settle add k w deadline where
  others_none: "others_run now claim settle add k w deadline s s"
| others_claim: "claim w' p s = (x, t) \<Longrightarrow> now p s < deadline \<Longrightarrow>
    others_run now claim settle add k w deadline t u \<Longrightarrow> others_run now claim settle add k w deadline s u"
| others_settle: "settle k' w' q s = (y, t) \<Longrightarrow> k' \<noteq> k \<or> w' \<noteq> w \<Longrightarrow>
    others_run now claim settle add k w deadline t u \<Longrightarrow> others_run now claim settle add k w deadline s u"
| others_add: "add a s = (z, t) \<Longrightarrow>
    others_run now claim settle add k w deadline t u \<Longrightarrow> others_run now claim settle add k w deadline s u"

context lease_queue
begin

lemma run_keeps_lease:
  "others_run now claim settle add k w d s u \<Longrightarrow> inv s \<Longrightarrow> rows s k = Some r \<Longrightarrow> owned r w d \<Longrightarrow>
    inv u \<and> rows u k = Some r"
proof (induction rule: others_run.induct)
  case (others_claim w' p s x t u)
  then show ?case using claim_inv claim_skips by metis
next
  case (others_settle k' w' q s y t u)
  then show ?case using settle_inv settle_foreign by metis
next
  case (others_add a s z t u)
  then show ?case using add_inv add_keeps by metis
qed simp

lemma lease_exclusive:
  assumes "inv s" "claim w p s = (Inr rs, t)" "r \<in> set rs"
    and "others_run now claim settle add (key r) w (now p s + span p) t u" "well_formed q"
  shows "rows u (key r) = Some r \<and>
    (\<exists>r' v. settle (key r) w q u = (Inr r', v) \<and> rows v = (rows u)(key r \<mapsto> r') \<and> (\<forall>w' d'. \<not> owned r' w' d'))"
proof -
  have "rows t (key r) = Some r" "owned r w (now p s + span p)"
    using claim_gives [OF assms(1-3)] by auto
  moreover from this have "inv u" "rows u (key r) = Some r"
    using run_keeps_lease [OF assms(4) claim_inv [OF assms(1,2)]] by auto
  ultimately show ?thesis using settle_own [OF _ assms(5)] by blast
qed

end

end
