(* ===== verification/Operations_Store.thy ===== *)
theory Operations_Store
  imports Signature_Service Store_Interfaces Lease_Queue
begin

text \<open>
  Provider submissions, the signed outbox and their in-memory store
  (\<^verbatim>\<open>railone_operations/models.py\<close>, \<^verbatim>\<open>railone_operations/store.py\<close>), and the account endpoint resolver
  (\<^verbatim>\<open>railone_operations/endpoints.py\<close>).  Submissions are a versioned store, the outbox is a lease queue.
  The timestamps the store receives are aware, hence instants.
\<close>

section \<open>Models\<close>

datatype provider_submission_state = SUB_PREPARED | SUB_DISPATCHING | SUB_ACCEPTED | SUB_REJECTED | SUB_UNKNOWN

datatype provider_outcome = OUT_ACCEPTED | OUT_REJECTED | OUT_UNKNOWN

fun provider_outcome_value :: "provider_outcome \<Rightarrow> string" where
  "provider_outcome_value OUT_ACCEPTED = ''ACCEPTED''"
| "provider_outcome_value OUT_REJECTED = ''REJECTED''"
| "provider_outcome_value OUT_UNKNOWN = ''UNKNOWN''"

datatype rejection_disposition = REJ_RETRYABLE | REJ_TERMINAL

fun rejection_disposition_value :: "rejection_disposition \<Rightarrow> string" where
  "rejection_disposition_value REJ_RETRYABLE = ''RETRYABLE''"
| "rejection_disposition_value REJ_TERMINAL = ''TERMINAL''"

datatype outbox_delivery_state = OBX_PENDING | OBX_IN_FLIGHT | OBX_PUBLISHED | OBX_DEAD_LETTER

record provider_request =
  pr_idempotency_key :: string
  pr_request_sha256 :: string
  pr_utt_id :: string
  pr_rtt_id :: string
  pr_attempt_number :: int
  pr_provider_id :: string
  pr_adapter_binding_ref :: pyval
  pr_rail :: pyval
  pr_amount_minor :: pyval
  pr_currency_from :: pyval
  pr_receive_amount_minor :: pyval
  pr_currency_to :: pyval
  pr_source_institution_id :: string
  pr_destination_institution_id :: string
  pr_payer_account_reference :: string
  pr_beneficiary_account_reference :: string

record submission_result =
  sv_outcome :: provider_outcome
  sv_code :: string
  sv_external_reference :: "string option"
  sv_rejection_disposition :: "rejection_disposition option"
  sv_provider_context :: "(string \<times> string) list"

record submission_record =
  sb_submission_id :: string
  sb_idempotency_key :: string
  sb_request_sha256 :: string
  sb_utt_id :: string
  sb_rtt_id :: string
  sb_provider_id :: string
  sb_state :: provider_submission_state
  sb_dispatch_attempts :: int
  sb_normalized_code :: "string option"
  sb_external_reference :: "string option"
  sb_rejection_disposition :: "rejection_disposition option"
  sb_provider_context :: "(string \<times> string) list"
  sb_version :: int
  sb_created_at :: instant
  sb_updated_at :: instant

record outbox_record =
  ob_event_id :: string
  ob_aggregate_type :: string
  ob_aggregate_id :: string
  ob_event_type :: string
  ob_signed_event :: envelope
  ob_delivery_state :: outbox_delivery_state
  ob_delivery_attempts :: int
  ob_available_at :: instant
  ob_lease_owner :: "string option"
  ob_lease_until :: "instant option"
  ob_last_error :: "string option"
  ob_published_at :: "instant option"
  ob_version :: int
  ob_created_at :: instant
  ob_updated_at :: instant

section \<open>The store\<close>

record operations_store =
  op_submissions :: "(string, submission_record) dict"
  op_rtt_by_idempotency :: "(string, string) dict"
  op_outbox :: "(string, outbox_record) dict"

definition empty_operations_store :: operations_store where
  "empty_operations_store = \<lparr>op_submissions = [], op_rtt_by_idempotency = [], op_outbox = []\<rparr>"

definition store_prepare ::
  "submission_record \<Rightarrow> outbox_record \<Rightarrow> (operations_store, submission_record) st" where
  "store_prepare submission outbox s =
     (case dict_get (op_submissions s) (sb_rtt_id submission) of
        Some existing \<Rightarrow>
          if sb_request_sha256 existing \<noteq> sb_request_sha256 submission
             \<or> sb_idempotency_key existing \<noteq> sb_idempotency_key submission
          then (Inl (Raise RuntimeError ''provider submission preparation conflict''), s)
          else (Inr existing, s)
      | None \<Rightarrow>
          (case dict_get (op_rtt_by_idempotency s) (sb_idempotency_key submission) of
             Some prior_rtt \<Rightarrow>
               (Inl (Raise RuntimeError (''provider idempotency key already belongs to '' @ prior_rtt)), s)
           | None \<Rightarrow>
               if dict_has (op_outbox s) (ob_event_id outbox)
               then (Inl (Raise RuntimeError ''outbox event identifier collision''), s)
               else (Inr submission,
                     s\<lparr>op_submissions := dict_set (sb_rtt_id submission) submission (op_submissions s),
                       op_rtt_by_idempotency :=
                         dict_set (sb_idempotency_key submission) (sb_rtt_id submission) (op_rtt_by_idempotency s),
                       op_outbox := dict_set (ob_event_id outbox) outbox (op_outbox s)\<rparr>)))"

definition require_submission :: "string \<Rightarrow> operations_store \<Rightarrow> submission_record res" where
  "require_submission rtt_id s =
     (case dict_get (op_submissions s) rtt_id of
        None \<Rightarrow> Inl (Raise SubmissionNotFoundError (''provider submission not found: '' @ rtt_id))
      | Some r \<Rightarrow> Inr r)"

definition find_by_external_reference ::
  "string \<Rightarrow> string \<Rightarrow> operations_store \<Rightarrow> submission_record option" where
  "find_by_external_reference provider_id external_reference s =
     find (\<lambda>r. sb_provider_id r = provider_id \<and> sb_external_reference r = Some external_reference)
       (map snd (op_submissions s))"

definition store_transition ::
  "int \<Rightarrow> submission_record \<Rightarrow> outbox_record \<Rightarrow> (operations_store, unit) st" where
  "store_transition previous_version submission outbox s =
     (case dict_get (op_submissions s) (sb_rtt_id submission) of
        None \<Rightarrow> (Inl (Raise SubmissionNotFoundError (''provider submission not found: '' @ sb_rtt_id submission)), s)
      | Some current \<Rightarrow>
          if sb_version current \<noteq> previous_version
          then (Inl (Raise ConcurrentSubmissionUpdateError ''provider submission changed concurrently''), s)
          else if sb_version submission \<noteq> previous_version + 1
          then (Inl (Raise ValueError ''submission version must advance exactly once''), s)
          else if dict_has (op_outbox s) (ob_event_id outbox)
          then (Inl (Raise RuntimeError ''outbox event identifier collision''), s)
          else (Inr (),
                s\<lparr>op_submissions := dict_set (sb_rtt_id submission) submission (op_submissions s),
                  op_outbox := dict_set (ob_event_id outbox) outbox (op_outbox s)\<rparr>))"

section \<open>The outbox\<close>

definition delivery_order :: "outbox_record \<Rightarrow> instant \<times> string" where
  "delivery_order r = (ob_available_at r, ob_event_id r)"

definition pending_outbox :: "int \<Rightarrow> operations_store \<Rightarrow> outbox_record list res" where
  "pending_outbox limit s =
     rbind (guard_res (\<not> (1 \<le> limit \<and> limit \<le> 1000)) ValueError ''outbox limit must be between 1 and 1000'') (\<lambda>_.
     Inr (take (nat limit) (sort_key delivery_order
            (filter (\<lambda>r. ob_delivery_state r = OBX_PENDING) (map snd (op_outbox s))))))"

definition outbox_eligible :: "instant \<Rightarrow> outbox_record \<Rightarrow> bool" where
  "outbox_eligible at r \<longleftrightarrow>
     (ob_delivery_state r = OBX_PENDING \<and> ob_available_at r \<le> at)
     \<or> (ob_delivery_state r = OBX_IN_FLIGHT \<and> (case ob_lease_until r of None \<Rightarrow> False | Some u \<Rightarrow> u \<le> at))"

definition leased :: "string \<Rightarrow> instant \<Rightarrow> int \<Rightarrow> outbox_record \<Rightarrow> outbox_record" where
  \<comment> \<open>the \<^verbatim>\<open>replace\<close> of the claim loop\<close>
  "leased worker_id at lease_seconds r =
     r\<lparr>ob_delivery_state := OBX_IN_FLIGHT, ob_delivery_attempts := ob_delivery_attempts r + 1,
       ob_lease_owner := Some worker_id, ob_lease_until := Some (at + usec lease_seconds),
       ob_version := ob_version r + 1, ob_updated_at := at\<rparr>"

definition claim_outbox ::
  "string \<Rightarrow> instant \<Rightarrow> int \<Rightarrow> int \<Rightarrow> (operations_store, outbox_record list) st" where
  "claim_outbox worker_id at lease_seconds limit =
     sbind (slift (guard_res (strip worker_id = []) ValueError ''outbox worker_id is required'')) (\<lambda>_.
     sbind (slift (guard_res (\<not> (1 \<le> lease_seconds \<and> lease_seconds \<le> 300)) ValueError
              ''outbox lease_seconds must be between 1 and 300'')) (\<lambda>_.
     sbind (slift (guard_res (\<not> (1 \<le> limit \<and> limit \<le> 1000)) ValueError
              ''outbox claim limit must be between 1 and 1000'')) (\<lambda>_. \<lambda>s.
     let (claimed, rows) = lease_claim ob_event_id (outbox_eligible at) delivery_order
                             (leased worker_id at lease_seconds) limit (op_outbox s)
     in (Inr claimed, s\<lparr>op_outbox := rows\<rparr>))))"

definition require_owned_event :: "string \<Rightarrow> string \<Rightarrow> operations_store \<Rightarrow> outbox_record res" where
  "require_owned_event event_id worker_id s =
     (case dict_get (op_outbox s) event_id of
        None \<Rightarrow> Inl (Raise LookupError (''outbox event not found: '' @ event_id))
      | Some r \<Rightarrow>
          if ob_delivery_state r \<noteq> OBX_IN_FLIGHT \<or> ob_lease_owner r \<noteq> Some worker_id
          then Inl (Raise PermissionError ''worker does not own the outbox lease'')
          else Inr r)"

definition put_event :: "string \<Rightarrow> outbox_record \<Rightarrow> (operations_store, outbox_record) st" where
  "put_event event_id r s = (Inr r, s\<lparr>op_outbox := dict_set event_id r (op_outbox s)\<rparr>)"

definition published_row :: "instant \<Rightarrow> outbox_record \<Rightarrow> outbox_record" where
  "published_row at r =
     r\<lparr>ob_delivery_state := OBX_PUBLISHED, ob_lease_owner := None, ob_lease_until := None,
       ob_last_error := None, ob_published_at := Some at, ob_version := ob_version r + 1, ob_updated_at := at\<rparr>"

definition mark_published :: "string \<Rightarrow> string \<Rightarrow> instant \<Rightarrow> (operations_store, outbox_record) st" where
  "mark_published event_id worker_id at =
     sbind (sget (require_owned_event event_id worker_id)) (\<lambda>r. put_event event_id (published_row at r))"

definition rescheduled_row :: "instant \<Rightarrow> instant \<Rightarrow> string \<Rightarrow> int \<Rightarrow> outbox_record \<Rightarrow> outbox_record" where
  "rescheduled_row at available_at err max_attempts r =
     r\<lparr>ob_delivery_state := (if ob_delivery_attempts r \<ge> max_attempts then OBX_DEAD_LETTER else OBX_PENDING),
       ob_available_at := available_at, ob_lease_owner := None, ob_lease_until := None,
       ob_last_error := Some (take 1000 err), ob_version := ob_version r + 1, ob_updated_at := at\<rparr>"

definition reschedule ::
  "string \<Rightarrow> string \<Rightarrow> instant \<Rightarrow> instant \<Rightarrow> string \<Rightarrow> int \<Rightarrow> (operations_store, outbox_record) st" where
  "reschedule event_id worker_id at available_at err max_attempts =
     sbind (slift (guard_res (strip err = []) ValueError ''outbox failure error is required'')) (\<lambda>_.
     sbind (slift (guard_res (\<not> (1 \<le> max_attempts \<and> max_attempts \<le> 100)) ValueError
              ''outbox max_attempts must be between 1 and 100'')) (\<lambda>_.
     sbind (sget (require_owned_event event_id worker_id)) (\<lambda>r.
     put_event event_id (rescheduled_row at available_at err max_attempts r))))"

section \<open>The endpoint resolver\<close>

type_synonym endpoint_references = "(string \<times> string, string) dict"

definition register_endpoint :: "string \<Rightarrow> string \<Rightarrow> string \<Rightarrow> (endpoint_references, unit) st" where
  "register_endpoint institution_id account_binding_id provider_reference =
     sbind (slift (guard_res (\<not> list_all (\<lambda>v. strip v \<noteq> []) [institution_id, account_binding_id, provider_reference])
              ValueError ''endpoint resolution values are required'')) (\<lambda>_. \<lambda>d.
     if dict_has d (institution_id, account_binding_id)
     then (Inl (Raise ValueError ''endpoint resolution already exists''), d)
     else (Inr (), dict_set (institution_id, account_binding_id) provider_reference d))"

definition resolve_endpoint :: "endpoint_references \<Rightarrow> string \<Rightarrow> string \<Rightarrow> string res" where
  "resolve_endpoint d institution_id account_binding_id =
     (case dict_get d (institution_id, account_binding_id) of
        None \<Rightarrow> Inl (Raise LookupError ''provider endpoint is not resolvable'')
      | Some v \<Rightarrow> Inr v)"

section \<open>Submissions are a versioned store\<close>

lemma store_transition_Inr:
  assumes "store_transition n r e s = (Inr u, s')"
  obtains current where "dict_get (op_submissions s) (sb_rtt_id r) = Some current" "sb_version current = n"
    "sb_version r = n + 1" "dict_get (op_outbox s) (ob_event_id e) = None"
    "s' = s\<lparr>op_submissions := dict_set (sb_rtt_id r) r (op_submissions s),
            op_outbox := dict_set (ob_event_id e) e (op_outbox s)\<rparr>"
  using assms by (auto simp: store_transition_def split: option.splits if_splits)

lemma store_transition_Inl: "store_transition n r e s = (Inl x, s') \<Longrightarrow> s' = s"
  by (auto simp: store_transition_def split: option.splits if_splits)

lemma store_prepare_Inr:
  assumes "store_prepare r e s = (Inr x, s')"
  obtains (replay) "dict_get (op_submissions s) (sb_rtt_id r) = Some x" "s' = s"
      "sb_request_sha256 x = sb_request_sha256 r" "sb_idempotency_key x = sb_idempotency_key r"
  | (fresh) "dict_get (op_submissions s) (sb_rtt_id r) = None" "x = r"
      "dict_get (op_rtt_by_idempotency s) (sb_idempotency_key r) = None" "dict_get (op_outbox s) (ob_event_id e) = None"
      "s' = s\<lparr>op_submissions := dict_set (sb_rtt_id r) r (op_submissions s),
              op_rtt_by_idempotency := dict_set (sb_idempotency_key r) (sb_rtt_id r) (op_rtt_by_idempotency s),
              op_outbox := dict_set (ob_event_id e) e (op_outbox s)\<rparr>"
  using assms by (auto simp: store_prepare_def split: option.splits if_splits)

lemma store_prepare_Inl: "store_prepare r e s = (Inl x, s') \<Longrightarrow> s' = s"
  by (auto simp: store_prepare_def split: option.splits if_splits)

definition submission_of :: "operations_store \<Rightarrow> string \<Rightarrow> submission_record option" where
  \<comment> \<open>the stored submission of an RTT\<close>
  "submission_of s k = dict_get (op_submissions s) k"

definition transition_at :: "string \<Rightarrow> int \<Rightarrow> submission_record \<Rightarrow> outbox_record \<Rightarrow> (operations_store, unit) st" where
  \<comment> \<open>a transition of the submission of RTT \<open>k\<close>\<close>
  "transition_at k n r e =
     (if sb_rtt_id r \<noteq> k then slift (Inl (Raise SubmissionNotFoundError k)) else store_transition n r e)"

interpretation submissions: versioned_store submission_of sb_version transition_at
proof unfold_locales
  fix k n r e s u s'
  assume "transition_at k n r e s = (Inr u, s')"
  then show "(\<exists>old. submission_of s k = Some old \<and> sb_version old = n) \<and> submission_of s' = (submission_of s)(k \<mapsto> r)"
    by (auto simp: transition_at_def slift_def submission_of_def fun_eq_iff split: if_splits elim!: store_transition_Inr)
next
  fix k n r e s x s'
  assume "transition_at k n r e s = (Inl x, s')"
  then show "s' = s" by (auto simp: transition_at_def slift_def split: if_splits dest: store_transition_Inl)
qed

section \<open>The outbox is a lease queue\<close>

interpretation outbox_claim: claim_loop ob_event_id "outbox_eligible at" delivery_order "leased w at l" limit
  for at w l limit
  by unfold_locales (simp_all add: leased_def delivery_order_def)

lemma claim_outbox_eq:
  "claim_outbox w at l limit s = (x, s') \<longleftrightarrow>
     (if strip w = [] \<or> \<not> (1 \<le> l \<and> l \<le> 300) \<or> \<not> (1 \<le> limit \<and> limit \<le> 1000)
      then s' = s \<and> (\<exists>m. x = Inl (Raise ValueError m) \<and> claim_outbox w at l limit s = (x, s))
      else (\<exists>rs d. lease_claim ob_event_id (outbox_eligible at) delivery_order (leased w at l) limit (op_outbox s) = (rs, d)
              \<and> x = Inr rs \<and> s' = s\<lparr>op_outbox := d\<rparr>))"
  by (auto simp: claim_outbox_def sbind_def slift_def guard_res_def split: prod.splits)

lemma claim_outbox_Inr:
  assumes "claim_outbox w at l limit s = (Inr rs, s')"
  obtains d where "strip w \<noteq> []" "1 \<le> l" "l \<le> 300" "1 \<le> limit" "limit \<le> 1000" "s' = s\<lparr>op_outbox := d\<rparr>"
    "lease_claim ob_event_id (outbox_eligible at) delivery_order (leased w at l) limit (op_outbox s) = (rs, d)"
  using assms by (subst (asm) claim_outbox_eq) (auto split: if_splits)

lemma claim_outbox_Inl: "claim_outbox w at l limit s = (Inl e, s') \<Longrightarrow> s' = s"
  by (subst (asm) claim_outbox_eq) (auto split: if_splits)

lemma mark_published_eq:
  "mark_published k w at s =
     (case require_owned_event k w s of Inl e \<Rightarrow> (Inl e, s)
      | Inr r \<Rightarrow> (Inr (published_row at r), s\<lparr>op_outbox := dict_set k (published_row at r) (op_outbox s)\<rparr>))"
  by (simp add: mark_published_def sbind_def sget_def put_event_def split: sum.splits)

lemma reschedule_eq:
  "reschedule k w at av err n s =
     (if strip err = [] then (Inl (Raise ValueError ''outbox failure error is required''), s)
      else if \<not> (1 \<le> n \<and> n \<le> 100) then (Inl (Raise ValueError ''outbox max_attempts must be between 1 and 100''), s)
      else case require_owned_event k w s of Inl e \<Rightarrow> (Inl e, s)
      | Inr r \<Rightarrow> (Inr (rescheduled_row at av err n r), s\<lparr>op_outbox := dict_set k (rescheduled_row at av err n r) (op_outbox s)\<rparr>))"
  by (simp add: reschedule_def sbind_def sget_def slift_def put_event_def guard_res_def split: sum.splits)

lemma require_owned_Inr:
  "require_owned_event k w s = Inr r \<longleftrightarrow>
     dict_get (op_outbox s) k = Some r \<and> ob_delivery_state r = OBX_IN_FLIGHT \<and> ob_lease_owner r = Some w"
  by (auto simp: require_owned_event_def split: option.splits)

datatype outbox_settlement = Publish instant | Retry instant instant string int

fun settle_outbox :: "string \<Rightarrow> string \<Rightarrow> outbox_settlement \<Rightarrow> (operations_store, outbox_record) st" where
  \<comment> \<open>the two ways a leased event is settled\<close>
  "settle_outbox k w (Publish at) = mark_published k w at"
| "settle_outbox k w (Retry at av err n) = reschedule k w at av err n"

fun settlement_ok :: "outbox_settlement \<Rightarrow> bool" where
  "settlement_ok (Publish at) = True"
| "settlement_ok (Retry at av err n) = (strip err \<noteq> [] \<and> 1 \<le> n \<and> n \<le> 100)"

datatype outbox_addition = Preparation submission_record outbox_record | Transition int submission_record outbox_record

fun add_outbox :: "outbox_addition \<Rightarrow> (operations_store, unit) st" where
  \<comment> \<open>the two ways an event enters the outbox\<close>
  "add_outbox (Preparation r e) = sbind (store_prepare r e) (\<lambda>_. sret ())"
| "add_outbox (Transition n r e) = store_transition n r e"

definition outbox_ok :: "operations_store \<Rightarrow> bool" where
  "outbox_ok s \<longleftrightarrow> keyed ob_event_id (op_outbox s)"

definition event_owned :: "outbox_record \<Rightarrow> string \<Rightarrow> instant \<Rightarrow> bool" where
  "event_owned r w d \<longleftrightarrow>
     ob_delivery_state r = OBX_IN_FLIGHT \<and> ob_lease_owner r = Some w \<and> ob_lease_until r = Some d"

lemma event_key_rows [simp]:
  "ob_event_id (published_row at r) = ob_event_id r" "ob_event_id (rescheduled_row at av err n r) = ob_event_id r"
  "ob_event_id (leased w at l r) = ob_event_id r"
  by (simp_all add: published_row_def rescheduled_row_def leased_def)

text \<open>A settlement changes one row, owned by the worker before and by nobody after.\<close>

lemma settle_outbox_Inr:
  assumes "settle_outbox k w q s = (Inr r', s')"
  obtains r where "require_owned_event k w s = Inr r" "s' = s\<lparr>op_outbox := dict_set k r' (op_outbox s)\<rparr>"
    "ob_event_id r' = ob_event_id r" "ob_signed_event r' = ob_signed_event r" "ob_delivery_state r' \<noteq> OBX_IN_FLIGHT"
  using assms by (cases q) (auto simp: mark_published_eq reschedule_eq published_row_def rescheduled_row_def
      split: sum.splits if_splits)

lemma settle_outbox_Inl: "settle_outbox k w q s = (Inl e, s') \<Longrightarrow> s' = s"
  by (cases q) (auto simp: mark_published_eq reschedule_eq split: sum.splits if_splits)

lemma settle_outbox_ok:
  assumes "settlement_ok q" "require_owned_event k w s = Inr r"
  shows "\<exists>r'. settle_outbox k w q s = (Inr r', s\<lparr>op_outbox := dict_set k r' (op_outbox s)\<rparr>)"
  using assms by (cases q) (auto simp: mark_published_eq reschedule_eq)

lemma add_outbox_effect:
  assumes "add_outbox a s = (z, s')"
  shows "op_outbox s' = op_outbox s \<or>
    (\<exists>e. dict_get (op_outbox s) (ob_event_id e) = None \<and> op_outbox s' = dict_set (ob_event_id e) e (op_outbox s))"
proof (cases a)
  case (Preparation r e)
  then have "op_outbox s' = op_outbox s \<or> (dict_get (op_outbox s) (ob_event_id e) = None
      \<and> op_outbox s' = dict_set (ob_event_id e) e (op_outbox s))"
    using assms by (auto simp: sret_def elim!: sbindE store_prepare_Inr dest: store_prepare_Inl)
  then show ?thesis by blast
next
  case (Transition n r e)
  then have "op_outbox s' = op_outbox s \<or> (dict_get (op_outbox s) (ob_event_id e) = None
      \<and> op_outbox s' = dict_set (ob_event_id e) e (op_outbox s))"
    using assms by (cases z) (auto elim!: store_transition_Inr dest: store_transition_Inl)
  then show ?thesis by blast
qed

interpretation outbox: lease_queue outbox_ok "\<lambda>s. dict_get (op_outbox s)" ob_event_id event_owned
  "\<lambda>(at, l, limit) s. at" "\<lambda>(at, l, limit). usec l" "\<lambda>w (at, l, limit). claim_outbox w at l limit"
  settle_outbox settlement_ok add_outbox
proof (unfold_locales, goal_cases)
  case (1 s w p x s')
  then show ?case
    by (cases x; cases p) (auto simp: outbox_ok_def dest: claim_outbox_Inl elim!: claim_outbox_Inr intro: outbox_claim.claim_keyed)
next
  case (2 s k w q y s')
  show ?case
  proof (cases y)
    case (Inl e)
    then show ?thesis using 2 settle_outbox_Inl by metis
  next
    case (Inr r')
    with 2 show ?thesis
      by (auto simp: outbox_ok_def require_owned_Inr dest: keyed_get intro!: keyed_set elim!: settle_outbox_Inr)
  qed
next
  case (3 s a z s')
  then show ?case using add_outbox_effect [OF 3(2)] by (auto simp: outbox_ok_def)
next
  case (4 s w p rs s' r)
  then show ?case
    by (cases p) (auto simp: outbox_ok_def event_owned_def leased_def elim!: claim_outbox_Inr dest: outbox_claim.claim_from)
next
  case (5 s w p x s' k r w' d)
  obtain at l limit where p: "p = (at, l, limit)" by (cases p)
  have ne: "\<not> outbox_eligible at r" using 5 p by (auto simp: outbox_eligible_def event_owned_def)
  show ?case
  proof (cases x)
    case (Inl e)
    then show ?thesis using 5 p claim_outbox_Inl by fastforce
  next
    case (Inr rs)
    then have "claim_outbox w at l limit s = (Inr rs, s')" using 5 p by simp
    then show ?thesis using 5 ne by (elim claim_outbox_Inr) (simp add: outbox_ok_def outbox_claim.claim_keeps)
  qed
next
  case (6 s k' w q y s' k r w' d)
  show ?case
  proof (cases y)
    case (Inl e)
    then show ?thesis using 6 settle_outbox_Inl by metis
  next
    case (Inr r')
    then show ?thesis using 6 by (auto simp: require_owned_Inr event_owned_def elim!: settle_outbox_Inr)
  qed
next
  case (7 s q k r w d)
  then have "require_owned_event k w s = Inr r" by (simp add: require_owned_Inr event_owned_def)
  then obtain r' where r': "settle_outbox k w q s = (Inr r', s\<lparr>op_outbox := dict_set k r' (op_outbox s)\<rparr>)"
    using settle_outbox_ok 7 by blast
  then have "ob_delivery_state r' \<noteq> OBX_IN_FLIGHT" by (elim settle_outbox_Inr)
  then show ?case using r' by (auto simp: event_owned_def fun_eq_iff)
next
  case (8 s a z s' k r)
  then show ?case using add_outbox_effect [OF 8(2)] by auto
qed

end
