(* ===== verification/Contract_Models.thy ===== *)
theory Contract_Models
  imports Signature_Service
begin

text \<open>
  Commercial inputs of quotes and UTTs (\<^verbatim>\<open>railone_contracts/models.py\<close>): account endpoints,
  actors, origin contexts and quote terms, with the validation each \<^verbatim>\<open>to_payload\<close> performs.
  Fields follow the dataclass annotations: a field annotated \<^verbatim>\<open>str\<close> or \<^verbatim>\<open>int\<close> has that type,
  so the \<^verbatim>\<open>isinstance\<close> guards on them are discharged by typing.  Values read back from a
  signed payload stay dynamic (\<^typ>\<open>pyval\<close>).
\<close>

section \<open>Input guards\<close>

definition require_text :: "string \<Rightarrow> string \<Rightarrow> string res" where
  "require_text name value =
     (if strip value = [] then Inl (Raise ValueError (name @ '' is required'')) else Inr (strip value))"

definition require_minor_units :: "string \<Rightarrow> int \<Rightarrow> bool \<Rightarrow> int res" where
  "require_minor_units name value allow_zero =
     (if value < (if allow_zero then 0 else 1)
      then Inl (Raise ValueError (name @ '' must be '' @ (if allow_zero then ''non-negative'' else ''positive'')))
      else Inr value)"

lemma require_text_Inr [res_simps]: "require_text n v = Inr s \<longleftrightarrow> s = strip v \<and> s \<noteq> []"
  by (auto simp: require_text_def)

lemma require_minor_units_Inr [res_simps]:
  "require_minor_units n v z = Inr x \<longleftrightarrow> x = v \<and> (if z then 0 else 1) \<le> v"
  by (auto simp: require_minor_units_def)

section \<open>Enumerations\<close>

datatype context_type = P2P | MERCHANT | PARTNER

fun context_value :: "context_type \<Rightarrow> string" where
  "context_value P2P = ''P2P''"
| "context_value MERCHANT = ''MERCHANT''"
| "context_value PARTNER = ''PARTNER''"

datatype payment_purpose =
    PERSON_TO_PERSON | SUPPLIER_PAYMENT | BRANCH_FUND_TRANSFER | MERCHANT_TO_MERCHANT
  | REFUND | EXPENSE_SETTLEMENT | BULK_DISBURSEMENT

fun purpose_value :: "payment_purpose \<Rightarrow> string" where
  "purpose_value PERSON_TO_PERSON = ''PERSON_TO_PERSON''"
| "purpose_value SUPPLIER_PAYMENT = ''SUPPLIER_PAYMENT''"
| "purpose_value BRANCH_FUND_TRANSFER = ''BRANCH_FUND_TRANSFER''"
| "purpose_value MERCHANT_TO_MERCHANT = ''MERCHANT_TO_MERCHANT''"
| "purpose_value REFUND = ''REFUND''"
| "purpose_value EXPENSE_SETTLEMENT = ''EXPENSE_SETTLEMENT''"
| "purpose_value BULK_DISBURSEMENT = ''BULK_DISBURSEMENT''"

datatype account_role = DEBIT | CREDIT

fun role_value :: "account_role \<Rightarrow> string" where
  "role_value DEBIT = ''DEBIT''"
| "role_value CREDIT = ''CREDIT''"

datatype account_type = BANK_ACCOUNT | MOBILE_MONEY | WALLET | CARD_ACCOUNT

fun account_type_value :: "account_type \<Rightarrow> string" where
  "account_type_value BANK_ACCOUNT = ''BANK_ACCOUNT''"
| "account_type_value MOBILE_MONEY = ''MOBILE_MONEY''"
| "account_type_value WALLET = ''WALLET''"
| "account_type_value CARD_ACCOUNT = ''CARD_ACCOUNT''"

definition role_of :: "pyval \<Rightarrow> account_role res" where
  "role_of v = (case find (\<lambda>r. v = PyStr (role_value r)) [DEBIT, CREDIT] of
     Some r \<Rightarrow> Inr r | None \<Rightarrow> Inl (Raise ValueError ''not a valid AccountRole''))"

definition account_type_of :: "pyval \<Rightarrow> account_type res" where
  "account_type_of v =
     (case find (\<lambda>r. v = PyStr (account_type_value r)) [BANK_ACCOUNT, MOBILE_MONEY, WALLET, CARD_ACCOUNT] of
        Some r \<Rightarrow> Inr r | None \<Rightarrow> Inl (Raise ValueError ''not a valid AccountType''))"

section \<open>Text helpers\<close>

text \<open>
  \<^verbatim>\<open>str(value)\<close> of a scalar.  The text of a container is not modelled: those values take the
  explicit error branch below, which no guard of the code catches.
\<close>

definition py_str :: "pyval \<Rightarrow> string res" where
  "py_str v = (case v of
      PyStr s \<Rightarrow> Inr s
    | PyInt i \<Rightarrow> Inr (show_int i)
    | PyBool b \<Rightarrow> Inr (if b then ''True'' else ''False'')
    | PyNone \<Rightarrow> Inr ''None''
    | _ \<Rightarrow> Inl (Raise OtherException ''text of a container is not modelled''))"

definition is_letter :: "char \<Rightarrow> bool" where
  "is_letter c \<longleftrightarrow> upper_char c \<noteq> c \<or> lower_char c \<noteq> c"

fun title_from :: "bool \<Rightarrow> string \<Rightarrow> string" where
  "title_from inside [] = []"
| "title_from inside (c # cs) =
     (if is_letter c then (if inside then lower_char c else upper_char c) # title_from True cs
      else c # title_from False cs)"

definition title :: "string \<Rightarrow> string" where
  "title s = title_from False s"

text \<open>
  The sign of \<^verbatim>\<open>Decimal(text)\<close>: \<^const>\<open>None\<close> where the constructor, or the comparison of a NaN,
  raises \<^verbatim>\<open>InvalidOperation\<close>.  Exponents are taken within the limits of the \<^verbatim>\<open>decimal\<close> module.
\<close>

definition exponent_ok :: "string \<Rightarrow> bool" where
  "exponent_ok s = (case s of
      [] \<Rightarrow> True
    | e # r \<Rightarrow> lower_char e = CHR ''e'' \<and>
        (let d = (case r of c # r' \<Rightarrow> if c = CHR ''+'' \<or> c = CHR ''-'' then r' else r | [] \<Rightarrow> [])
         in d \<noteq> [] \<and> list_all is_digit d))"

definition unsigned_decimal :: "string \<Rightarrow> int option" where
  \<comment> \<open>1 for a positive number or infinity, 0 for zero\<close>
  "unsigned_decimal s =
     (if lower s = ''inf'' \<or> lower s = ''infinity'' then Some 1
      else
        (let ip = takeWhile is_digit s; r = dropWhile is_digit s;
             fp = (case r of c # r' \<Rightarrow> if c = CHR ''.'' then takeWhile is_digit r' else [] | [] \<Rightarrow> []);
             r2 = (case r of c # r' \<Rightarrow> if c = CHR ''.'' then dropWhile is_digit r' else r | [] \<Rightarrow> [])
         in if ip @ fp = [] \<or> \<not> exponent_ok r2 then None
            else Some (if list_all (\<lambda>c. c = CHR ''0'') (ip @ fp) then 0 else 1)))"

definition decimal_sign :: "string \<Rightarrow> int option" where
  "decimal_sign text =
     (let t = filter (\<lambda>c. c \<noteq> CHR ''_'') (strip text)
      in case t of
           [] \<Rightarrow> None
         | c # r \<Rightarrow>
             (if c = CHR ''-'' then map_option uminus (unsigned_decimal r)
              else if c = CHR ''+'' then unsigned_decimal r
              else unsigned_decimal t))"

section \<open>Endpoints and actors\<close>

record account_endpoint =
  ep_institution_id :: string
  ep_institution_display_name :: string
  ep_account_binding_id :: string
  ep_role :: account_role
  ep_account_type :: account_type
  ep_display_hint :: string
  ep_contact_binding_id :: string
  ep_attestation_reference :: string

definition endpoint_to_payload :: "account_endpoint \<Rightarrow> pyval res" where
  "endpoint_to_payload e =
     rbind (require_text ''institution_id'' (ep_institution_id e)) (\<lambda>inst.
     rbind (require_text ''institution_display_name'' (ep_institution_display_name e)) (\<lambda>name.
     rbind (require_text ''account_binding_id'' (ep_account_binding_id e)) (\<lambda>bind.
     rbind (require_text ''display_hint'' (ep_display_hint e)) (\<lambda>hint.
     rbind (require_text ''contact_binding_id'' (ep_contact_binding_id e)) (\<lambda>contact.
     rbind (require_text ''attestation_reference'' (ep_attestation_reference e)) (\<lambda>att.
     Inr (obj
       [(''institution_id'', PyStr inst), (''institution_display_name'', PyStr (take 48 name)),
        (''account_binding_id'', PyStr bind), (''role'', PyStr (role_value (ep_role e))),
        (''account_type'', PyStr (account_type_value (ep_account_type e))),
        (''display_hint'', PyStr (take 32 hint)), (''contact_binding_id'', PyStr contact),
        (''attestation_reference'', PyStr att)])))))))"

definition text_item :: "pyval \<Rightarrow> string \<Rightarrow> string res" where
  \<comment> \<open>\<^verbatim>\<open>str(value[k])\<close>\<close>
  "text_item v k = rbind (py_item v k) py_str"

definition endpoint_from_payload :: "pyval \<Rightarrow> account_endpoint res" where
  "endpoint_from_payload value =
     (case
       rbind (text_item value ''institution_id'') (\<lambda>inst.
       rbind (text_item value ''institution_display_name'') (\<lambda>name.
       rbind (text_item value ''account_binding_id'') (\<lambda>bind.
       rbind (rbind (py_item value ''role'') role_of) (\<lambda>role.
       rbind (rbind (py_item value ''account_type'') account_type_of) (\<lambda>atype.
       rbind (text_item value ''display_hint'') (\<lambda>hint.
       rbind (text_item value ''contact_binding_id'') (\<lambda>contact.
       rbind (text_item value ''attestation_reference'') (\<lambda>att.
       Inr \<lparr>ep_institution_id = inst, ep_institution_display_name = name,
            ep_account_binding_id = bind, ep_role = role, ep_account_type = atype,
            ep_display_hint = hint, ep_contact_binding_id = contact,
            ep_attestation_reference = att\<rparr>))))))))
      of Inr e \<Rightarrow> Inr e
       | Inl err \<Rightarrow>
           if exc_isa (exc_of err) KeyError \<or> exc_isa (exc_of err) TypeError \<or> exc_isa (exc_of err) ValueError
           then Inl (Raise ValueError ''invalid account endpoint snapshot'') else Inl err)"

record actor_reference =
  ac_actor_type :: string
  ac_actor_id :: string
  ac_endpoint :: account_endpoint
  ac_display_name :: "string option"

definition actor_to_payload :: "actor_reference \<Rightarrow> pyval res" where
  "actor_to_payload a =
     rbind (if ac_display_name a = None \<or> ac_display_name a = Some []
            then rbind (require_text ''actor_type'' (ac_actor_type a)) (\<lambda>t. Inr (title t))
            else Inr (the (ac_display_name a))) (\<lambda>display.
     rbind (require_text ''actor_type'' (ac_actor_type a)) (\<lambda>atype.
     rbind (require_text ''actor_id'' (ac_actor_id a)) (\<lambda>aid.
     rbind (require_text ''display_name'' display) (\<lambda>name.
     rbind (endpoint_to_payload (ac_endpoint a)) (\<lambda>ep.
     Inr (obj [(''actor_type'', PyStr (upper atype)), (''actor_id'', PyStr aid),
               (''display_name'', PyStr (take 48 name)), (''endpoint'', ep)]))))))"

section \<open>Origin context\<close>

record origin_context =
  oc_origin_system :: string
  oc_origin_intent_id :: string
  oc_context_type :: context_type
  oc_purpose :: payment_purpose
  oc_continuity_uid :: "string option"
  oc_merchant_id :: "string option"
  oc_branch_id :: "string option"
  oc_partner_id :: "string option"

definition falsy :: "string option \<Rightarrow> bool" where
  "falsy v \<longleftrightarrow> v = None \<or> v = Some []"

definition optional_text :: "string \<Rightarrow> string option \<Rightarrow> (string \<times> pyval) list res" where
  "optional_text name v =
     (case v of None \<Rightarrow> Inr []
      | Some s \<Rightarrow> rbind (require_text name s) (\<lambda>t. Inr [(name, PyStr t)]))"

definition origin_to_payload :: "origin_context \<Rightarrow> pyval res" where
  "origin_to_payload oc =
     rbind (guard_res (oc_context_type oc = MERCHANT \<and> falsy (oc_merchant_id oc)) ValueError
              ''merchant_id is required for merchant context'') (\<lambda>_.
     rbind (guard_res (oc_context_type oc = PARTNER \<and> falsy (oc_partner_id oc)) ValueError
              ''partner_id is required for partner context'') (\<lambda>_.
     rbind (guard_res (oc_context_type oc = P2P \<and> oc_purpose oc \<noteq> PERSON_TO_PERSON) ValueError
              ''P2P context requires PERSON_TO_PERSON purpose'') (\<lambda>_.
     rbind (guard_res (oc_context_type oc = P2P \<and> falsy (oc_continuity_uid oc)) ValueError
              ''continuity_uid is required for P2P context'') (\<lambda>_.
     rbind (require_text ''origin_system'' (oc_origin_system oc)) (\<lambda>sys.
     rbind (require_text ''origin_intent_id'' (oc_origin_intent_id oc)) (\<lambda>intent.
     rbind (optional_text ''continuity_uid'' (oc_continuity_uid oc)) (\<lambda>cu.
     rbind (optional_text ''merchant_id'' (oc_merchant_id oc)) (\<lambda>me.
     rbind (optional_text ''branch_id'' (oc_branch_id oc)) (\<lambda>br.
     rbind (optional_text ''partner_id'' (oc_partner_id oc)) (\<lambda>pa.
     Inr (obj ([(''origin_system'', PyStr (upper sys)), (''origin_intent_id'', PyStr intent),
                (''context_type'', PyStr (context_value (oc_context_type oc))),
                (''purpose'', PyStr (purpose_value (oc_purpose oc)))] @ cu @ me @ br @ pa))))))))))))"

section \<open>Quote terms\<close>

record quote_terms =
  qt_request_id :: string
  qt_payer :: actor_reference
  qt_beneficiary :: actor_reference
  qt_purpose :: payment_purpose
  qt_amount_minor :: int
  qt_currency_from :: string
  qt_receive_amount_minor :: int
  qt_currency_to :: string
  qt_total_fee_minor :: int
  qt_routing_budget_minor :: int
  qt_fx_rate :: string
  qt_corridor_id :: string
  qt_service_level :: string
  qt_routing_policy_id :: string
  qt_pricing_version :: string
  qt_max_attempts :: int

definition quote_terms_to_payload :: "quote_terms \<Rightarrow> pyval res" where
  "quote_terms_to_payload q =
     rbind (require_minor_units ''amount_minor'' (qt_amount_minor q) False) (\<lambda>amount.
     rbind (require_minor_units ''receive_amount_minor'' (qt_receive_amount_minor q) False) (\<lambda>receive.
     rbind (require_minor_units ''total_fee_minor'' (qt_total_fee_minor q) True) (\<lambda>fee.
     rbind (require_minor_units ''routing_budget_minor'' (qt_routing_budget_minor q) True) (\<lambda>budget.
     rbind (guard_res (\<not> (1 \<le> qt_max_attempts q \<and> qt_max_attempts q \<le> 10)) ValueError
              ''max_attempts must be between 1 and 10'') (\<lambda>_.
     rbind (guard_res (budget > fee) ValueError ''routing budget cannot exceed the customer fee'') (\<lambda>_.
     rbind (require_text ''fx_rate'' (qt_fx_rate q)) (\<lambda>fx.
     rbind (case decimal_sign fx of
              None \<Rightarrow> Inl (Raise ValueError ''fx_rate must be a decimal string'')
            | Some s \<Rightarrow> guard_res (s \<le> 0) ValueError ''fx_rate must be positive'') (\<lambda>_.
     rbind (guard_res (ep_role (ac_endpoint (qt_payer q)) \<noteq> DEBIT) ValueError
              ''payer endpoint must be a DEBIT binding'') (\<lambda>_.
     rbind (guard_res (ep_role (ac_endpoint (qt_beneficiary q)) \<noteq> CREDIT) ValueError
              ''beneficiary endpoint must be a CREDIT binding'') (\<lambda>_.
     rbind (require_text ''request_id'' (qt_request_id q)) (\<lambda>request.
     rbind (actor_to_payload (qt_payer q)) (\<lambda>payer.
     rbind (actor_to_payload (qt_beneficiary q)) (\<lambda>beneficiary.
     rbind (require_text ''currency_from'' (qt_currency_from q)) (\<lambda>cfrom.
     rbind (require_text ''currency_to'' (qt_currency_to q)) (\<lambda>cto.
     rbind (require_text ''corridor_id'' (qt_corridor_id q)) (\<lambda>corridor.
     rbind (require_text ''service_level'' (qt_service_level q)) (\<lambda>level.
     rbind (require_text ''routing_policy_id'' (qt_routing_policy_id q)) (\<lambda>policy.
     rbind (require_text ''pricing_version'' (qt_pricing_version q)) (\<lambda>pricing.
     Inr (obj
       [(''request_id'', PyStr request), (''payer'', payer), (''beneficiary'', beneficiary),
        (''purpose'', PyStr (purpose_value (qt_purpose q))), (''amount_minor'', PyInt amount),
        (''currency_from'', PyStr (upper cfrom)), (''receive_amount_minor'', PyInt receive),
        (''currency_to'', PyStr (upper cto)), (''total_fee_minor'', PyInt fee),
        (''routing_budget_minor'', PyInt budget), (''fx_rate'', PyStr fx),
        (''corridor_id'', PyStr corridor), (''service_level'', PyStr level),
        (''routing_policy_id'', PyStr policy), (''pricing_version'', PyStr pricing),
        (''pricing_model'', PyStr ''PER_INTENT''), (''max_attempts'', PyInt (qt_max_attempts q)),
        (''custody_model'', PyStr ''NON_CUSTODIAL''), (''endpoint_model_version'', PyInt 1)]))))))))))))))))))))"

section \<open>Shape of the payloads\<close>

lemma endpoint_payload_plain: "endpoint_to_payload e = Inr p \<Longrightarrow> plain p"
  by (auto simp: endpoint_to_payload_def res_simps obj_def)

lemma actor_payload_plain: "actor_to_payload a = Inr p \<Longrightarrow> plain p"
  by (auto simp: actor_to_payload_def res_simps obj_def split: if_splits dest: endpoint_payload_plain)

lemma plain_obj: "plain (obj kvs) \<longleftrightarrow> (\<forall>(k, v)\<in>set kvs. plain v)"
  by (induction kvs) (auto simp: obj_def)

lemma quote_terms_payload_plain:
  assumes "quote_terms_to_payload q = Inr p"
  shows "plain p"
  using assms unfolding quote_terms_to_payload_def
  apply (elim rbind_InrE)
  apply (drule actor_payload_plain)+
  apply (simp only: sum.inject)
  apply hypsubst
  apply (simp add: plain_obj)
  done

lemma optional_text_plain: "optional_text n v = Inr kvs \<Longrightarrow> (k, x) \<in> set kvs \<Longrightarrow> k = n \<and> (\<exists>s. x = PyStr s)"
  by (auto simp: optional_text_def res_simps split: option.splits)

lemma origin_payload_plain:
  assumes "origin_to_payload oc = Inr p"
  shows "plain p"
  using assms unfolding origin_to_payload_def
  apply (elim rbind_InrE)
  apply (simp only: sum.inject)
  apply hypsubst
  apply (auto simp add: plain_obj dest: optional_text_plain)
  done

section \<open>Which terms are accepted\<close>

definition text_ok :: "string \<Rightarrow> bool" where
  "text_ok s \<longleftrightarrow> strip s \<noteq> []"

definition endpoint_ok :: "account_endpoint \<Rightarrow> bool" where
  "endpoint_ok e \<longleftrightarrow> text_ok (ep_institution_id e) \<and> text_ok (ep_institution_display_name e)
     \<and> text_ok (ep_account_binding_id e) \<and> text_ok (ep_display_hint e)
     \<and> text_ok (ep_contact_binding_id e) \<and> text_ok (ep_attestation_reference e)"

definition actor_ok :: "actor_reference \<Rightarrow> bool" where
  "actor_ok a \<longleftrightarrow> text_ok (ac_actor_type a) \<and> text_ok (ac_actor_id a) \<and> endpoint_ok (ac_endpoint a)
     \<and> (case ac_display_name a of None \<Rightarrow> text_ok (title (strip (ac_actor_type a)))
        | Some s \<Rightarrow> if s = [] then text_ok (title (strip (ac_actor_type a))) else text_ok s)"

definition terms_ok :: "quote_terms \<Rightarrow> bool" where
  "terms_ok q \<longleftrightarrow> 0 < qt_amount_minor q \<and> 0 < qt_receive_amount_minor q
     \<and> 0 \<le> qt_routing_budget_minor q \<and> qt_routing_budget_minor q \<le> qt_total_fee_minor q
     \<and> 1 \<le> qt_max_attempts q \<and> qt_max_attempts q \<le> 10
     \<and> (\<exists>s. decimal_sign (strip (qt_fx_rate q)) = Some s \<and> 0 < s)
     \<and> ep_role (ac_endpoint (qt_payer q)) = DEBIT \<and> ep_role (ac_endpoint (qt_beneficiary q)) = CREDIT
     \<and> actor_ok (qt_payer q) \<and> actor_ok (qt_beneficiary q)
     \<and> text_ok (qt_fx_rate q) \<and> text_ok (qt_request_id q) \<and> text_ok (qt_currency_from q)
     \<and> text_ok (qt_currency_to q) \<and> text_ok (qt_corridor_id q) \<and> text_ok (qt_service_level q)
     \<and> text_ok (qt_routing_policy_id q) \<and> text_ok (qt_pricing_version q)"

lemma require_text_ok: "text_ok v \<Longrightarrow> require_text n v = Inr (strip v)"
  by (simp add: require_text_def text_ok_def)

lemma require_text_bad: "\<not> text_ok v \<Longrightarrow> \<exists>e. require_text n v = Inl e"
  by (simp add: require_text_def text_ok_def)

lemma require_text_okD: "require_text n v = Inr s \<Longrightarrow> text_ok v \<and> s = strip v"
  by (auto simp add: require_text_Inr text_ok_def)

lemma endpoint_accepts: "(\<exists>p. endpoint_to_payload e = Inr p) \<longleftrightarrow> endpoint_ok e"
proof
  assume "\<exists>p. endpoint_to_payload e = Inr p"
  then obtain p where "endpoint_to_payload e = Inr p" ..
  then show "endpoint_ok e" unfolding endpoint_to_payload_def endpoint_ok_def
    by (elim rbind_InrE) (auto dest!: require_text_okD)
qed (simp add: endpoint_to_payload_def endpoint_ok_def require_text_ok)

lemma actor_display_iff:
  "(\<exists>p. actor_to_payload a = Inr p) \<longleftrightarrow> actor_ok a"
proof
  assume "\<exists>p. actor_to_payload a = Inr p"
  then obtain p where "actor_to_payload a = Inr p" ..
  then show "actor_ok a" unfolding actor_to_payload_def actor_ok_def
    using endpoint_accepts [of "ac_endpoint a"]
    by (elim rbind_InrE) (auto dest!: require_text_okD split: if_splits option.splits elim!: rbind_InrE)
next
  assume a: "actor_ok a"
  then obtain ep where "endpoint_to_payload (ac_endpoint a) = Inr ep"
    using endpoint_accepts by (auto simp: actor_ok_def)
  with a show "\<exists>p. actor_to_payload a = Inr p"
    by (auto simp: actor_to_payload_def actor_ok_def require_text_ok split: option.splits if_splits)
qed

lemma quote_terms_accepts: "(\<exists>p. quote_terms_to_payload q = Inr p) \<longleftrightarrow> terms_ok q"
proof
  assume "\<exists>p. quote_terms_to_payload q = Inr p"
  then obtain p where p: "quote_terms_to_payload q = Inr p" ..
  have fx: "\<exists>s. decimal_sign f = Some s \<and> 0 < s"
    if "(case decimal_sign f of None \<Rightarrow> Inl (Raise ValueError m) | Some s \<Rightarrow> guard_res (s \<le> 0) ValueError m') = Inr u" for f m m' u
    using that by (auto simp: guard_res_eq_Inr split: option.splits)
  show "terms_ok q" using p unfolding quote_terms_to_payload_def
    apply (elim rbind_InrE)
    apply (drule fx)
    apply (drule require_text_okD)+
    apply (simp add: terms_ok_def require_minor_units_Inr guard_res_eq_Inr flip: actor_display_iff)
    done
next
  assume t: "terms_ok q"
  then obtain pa be where "actor_to_payload (qt_payer q) = Inr pa" "actor_to_payload (qt_beneficiary q) = Inr be"
    using actor_display_iff unfolding terms_ok_def by blast
  with t show "\<exists>p. quote_terms_to_payload q = Inr p"
    by (auto simp: quote_terms_to_payload_def terms_ok_def require_text_ok require_minor_units_def)
qed

end
