(* ===== verification/Outbox_Relay.thy ===== *)
theory Outbox_Relay
  imports Operations_Store Contract_Models
begin

text \<open>
  The at-least-once relay of signed events (\<^verbatim>\<open>OutboxRelay\<close> of \<^verbatim>\<open>railone_operations/service.py\<close>) and
  what the outbox promises: events are durable, a lease is exclusive, a batch settles what it claims.
  The publisher is a parameter: for an event it returns nothing, or raises an exception whose class name
  is the result.
\<close>

type_synonym publisher = "string \<Rightarrow> pyval \<Rightarrow> string option"

record outbox_relay =
  or_worker_id :: string
  or_lease_seconds :: int
  or_max_attempts :: int

definition outbox_relay_init :: "string \<Rightarrow> int \<Rightarrow> int \<Rightarrow> outbox_relay res" where
  "outbox_relay_init worker_id lease_seconds max_attempts =
     rbind (require_text ''worker_id'' worker_id) (\<lambda>w.
     Inr \<lparr>or_worker_id = w, or_lease_seconds = lease_seconds, or_max_attempts = max_attempts\<rparr>)"

definition delay_seconds :: "int \<Rightarrow> int" where
  "delay_seconds delivery_attempts = min 300 (2 ^ nat (min delivery_attempts 8))"

definition deliver :: "outbox_relay \<Rightarrow> publisher \<Rightarrow> instant \<Rightarrow> outbox_record \<Rightarrow> (operations_store, outbox_record) st" where
  \<comment> \<open>the body of the loop\<close>
  "deliver relay publish instant event =
     (case publish (ob_event_id event) (envelope_to_dict (ob_signed_event event)) of
        Some exc_name \<Rightarrow>
          reschedule (ob_event_id event) (or_worker_id relay) instant
            (instant + usec (delay_seconds (ob_delivery_attempts event))) exc_name (or_max_attempts relay)
      | None \<Rightarrow> mark_published (ob_event_id event) (or_worker_id relay) instant)"

fun deliver_all ::
  "outbox_relay \<Rightarrow> publisher \<Rightarrow> instant \<Rightarrow> outbox_record list \<Rightarrow> (operations_store, outbox_record list) st" where
  "deliver_all relay publish instant [] = sret []"
| "deliver_all relay publish instant (event # events) =
     sbind (deliver relay publish instant event) (\<lambda>r.
     sbind (deliver_all relay publish instant events) (\<lambda>rs. sret (r # rs)))"

definition publish_batch ::
  "outbox_relay \<Rightarrow> publisher \<Rightarrow> int \<Rightarrow> datetime \<Rightarrow> (operations_store, outbox_record list) st" where
  "publish_batch relay publish limit at =
     sbind (slift (require_aware ''provider-operation timestamp'' at)) (\<lambda>instant.
     sbind (claim_outbox (or_worker_id relay) instant (or_lease_seconds relay) limit) (\<lambda>claimed.
     deliver_all relay publish instant claimed))"

section \<open>Durability\<close>

inductive outbox_step :: "operations_store \<Rightarrow> operations_store \<Rightarrow> bool" where
  step_claim: "claim_outbox w at l limit s = (x, s') \<Longrightarrow> outbox_step s s'"
| step_settle: "settle_outbox k w q s = (y, s') \<Longrightarrow> outbox_step s s'"
| step_add: "add_outbox a s = (z, s') \<Longrightarrow> outbox_step s s'"

definition settled :: "outbox_record \<Rightarrow> bool" where
  "settled r \<longleftrightarrow> ob_delivery_state r = OBX_PUBLISHED \<or> ob_delivery_state r = OBX_DEAD_LETTER"

definition same_event :: "outbox_record \<Rightarrow> outbox_record \<Rightarrow> bool" where
  \<comment> \<open>a later row of the same event: delivery bookkeeping may differ, and only before settlement\<close>
  "same_event r r' \<longleftrightarrow> ob_event_id r' = ob_event_id r \<and> ob_signed_event r' = ob_signed_event r
     \<and> ob_event_type r' = ob_event_type r \<and> ob_aggregate_id r' = ob_aggregate_id r
     \<and> ob_delivery_attempts r \<le> ob_delivery_attempts r' \<and> ob_version r \<le> ob_version r' \<and> (settled r \<longrightarrow> r' = r)"

lemma same_event_refl [simp]: "same_event r r"
  by (simp add: same_event_def)

lemma same_event_trans: "same_event r r' \<Longrightarrow> same_event r' r'' \<Longrightarrow> same_event r r''"
  unfolding same_event_def by auto

lemma same_event_settle:
  assumes "settle_outbox k w q s = (Inr r', s')" "dict_get (op_outbox s) k = Some r"
  shows "same_event r r'"
  using assms by (cases q) (auto simp: mark_published_eq reschedule_eq require_owned_Inr same_event_def
      settled_def published_row_def rescheduled_row_def split: sum.splits if_splits)

lemma same_event_leased: "outbox_eligible at r \<Longrightarrow> same_event r (leased w at l r)"
  by (auto simp: same_event_def leased_def settled_def outbox_eligible_def)

lemma outbox_step_ok: "outbox_step s s' \<Longrightarrow> outbox_ok s \<Longrightarrow> outbox_ok s'"
  by (induction rule: outbox_step.induct)
    (use outbox.claim_inv [where p = "(_, _, _)", simplified] outbox.settle_inv outbox.add_inv in metis)+

lemma outbox_step_keeps:
  assumes "outbox_step s s'" "outbox_ok s" "dict_get (op_outbox s) k = Some r"
  shows "\<exists>r'. dict_get (op_outbox s') k = Some r' \<and> same_event r r'"
  using assms
proof (cases rule: outbox_step.cases)
  case (step_claim w at l limit x)
  show ?thesis
  proof (cases x)
    case (Inl e)
    then show ?thesis using step_claim assms(3) claim_outbox_Inl same_event_refl by metis
  next
    case (Inr rs)
    with step_claim obtain d where s': "s' = s\<lparr>op_outbox := d\<rparr>"
      and c: "lease_claim ob_event_id (outbox_eligible at) delivery_order (leased w at l) limit (op_outbox s) = (rs, d)"
      by (auto elim: claim_outbox_Inr)
    have k: "keyed ob_event_id (op_outbox s)" using assms(2) by (simp add: outbox_ok_def)
    show ?thesis
    proof (cases "k \<in> ob_event_id ` set rs")
      case True
      then obtain r' where r': "r' \<in> set rs" "k = ob_event_id r'" by blast
      then have "dict_get d k = Some r' \<and> outbox_eligible at r \<and> r' = leased w at l r"
        using outbox_claim.claim_from [OF k c r'(1)] assms(3) by auto
      then show ?thesis using s' same_event_leased by auto
    next
      case False
      then have "dict_get d k = Some r"
        using c assms(3) by (auto simp: lease_claim_def Let_def put_rows_other)
      then show ?thesis using s' by simp
    qed
  qed
next
  case (step_settle k' w q y)
  show ?thesis
  proof (cases y)
    case (Inl e)
    then show ?thesis using step_settle assms(3) settle_outbox_Inl same_event_refl by metis
  next
    case (Inr r')
    then have y: "settle_outbox k' w q s = (Inr r', s')" using step_settle by simp
    then have "s' = s\<lparr>op_outbox := dict_set k' r' (op_outbox s)\<rparr>" by (elim settle_outbox_Inr)
    then show ?thesis using same_event_settle [OF y] assms(3) by (cases "k' = k") auto
  qed
next
  case (step_add a z)
  then show ?thesis using outbox.add_keeps [OF assms(2)] assms(3) same_event_refl by metis
qed

lemma outbox_run_keeps:
  assumes "outbox_step\<^sup>*\<^sup>* s s'" "outbox_ok s" "dict_get (op_outbox s) k = Some r"
  shows "outbox_ok s' \<and> (\<exists>r'. dict_get (op_outbox s') k = Some r' \<and> same_event r r')"
  using assms
proof (induction rule: rtranclp_induct)
  case base
  then show ?case by simp
next
  case (step t u)
  then obtain r' where r': "outbox_ok t" "dict_get (op_outbox t) k = Some r'" "same_event r r'" by blast
  then obtain r'' where "dict_get (op_outbox u) k = Some r''" "same_event r' r''"
    using outbox_step_keeps [OF step.hyps(2)] by blast
  then show ?case using r' outbox_step_ok [OF step.hyps(2)] same_event_trans by blast
qed

section \<open>A batch\<close>

definition outcome :: "outbox_relay \<Rightarrow> publisher \<Rightarrow> instant \<Rightarrow> outbox_record \<Rightarrow> outbox_record" where
  \<comment> \<open>what a batch makes of a claimed event\<close>
  "outcome relay publish t e =
     (case publish (ob_event_id e) (envelope_to_dict (ob_signed_event e)) of
        None \<Rightarrow> published_row t e
      | Some n \<Rightarrow> rescheduled_row t (t + usec (delay_seconds (ob_delivery_attempts e))) n (or_max_attempts relay) e)"

definition relay_ok :: "outbox_relay \<Rightarrow> publisher \<Rightarrow> bool" where
  "relay_ok relay publish \<longleftrightarrow> strip (or_worker_id relay) \<noteq> [] \<and> 1 \<le> or_lease_seconds relay \<and> or_lease_seconds relay \<le> 300
     \<and> 1 \<le> or_max_attempts relay \<and> or_max_attempts relay \<le> 100 \<and> (\<forall>k v n. publish k v = Some n \<longrightarrow> strip n \<noteq> [])"

lemma outcome_id [simp]: "ob_event_id (outcome relay publish t e) = ob_event_id e"
  by (simp add: outcome_def split: option.splits)

lemma deliver_ok:
  assumes "relay_ok relay publish" "require_owned_event (ob_event_id e) (or_worker_id relay) s = Inr e"
  shows "deliver relay publish t e s =
    (Inr (outcome relay publish t e), s\<lparr>op_outbox := dict_set (ob_event_id e) (outcome relay publish t e) (op_outbox s)\<rparr>)"
  using assms by (auto simp: deliver_def outcome_def relay_ok_def mark_published_eq reschedule_eq split: option.splits)

lemma deliver_all_ok:
  assumes "relay_ok relay publish" "distinct (map ob_event_id es)"
    and "\<And>e. e \<in> set es \<Longrightarrow> require_owned_event (ob_event_id e) (or_worker_id relay) s = Inr e"
  shows "deliver_all relay publish t es s =
    (Inr (map (outcome relay publish t) es), s\<lparr>op_outbox := put_rows ob_event_id (map (outcome relay publish t) es) (op_outbox s)\<rparr>)"
  using assms(2,3)
proof (induction es arbitrary: s)
  case Nil
  then show ?case by (simp add: sret_def put_rows_def)
next
  case (Cons e es)
  let ?t = "s\<lparr>op_outbox := dict_set (ob_event_id e) (outcome relay publish t e) (op_outbox s)\<rparr>"
  have d: "deliver relay publish t e s = (Inr (outcome relay publish t e), ?t)"
    using deliver_ok [OF assms(1)] Cons.prems by simp
  have "require_owned_event (ob_event_id e') (or_worker_id relay) ?t = Inr e'" if "e' \<in> set es" for e'
  proof -
    have "ob_event_id e' \<noteq> ob_event_id e" using that Cons.prems(1) by (auto simp: image_iff)
    then show ?thesis using Cons.prems(2) [of e'] that by (simp add: require_owned_Inr)
  qed
  then have "deliver_all relay publish t es ?t = (Inr (map (outcome relay publish t) es),
      ?t\<lparr>op_outbox := put_rows ob_event_id (map (outcome relay publish t) es) (op_outbox ?t)\<rparr>)"
    using Cons by simp
  then show ?case using d by (simp add: sbind_def sret_def put_rows_def)
qed

lemma batch_eq:
  assumes "outbox_ok s" "relay_ok relay publish" "1 \<le> limit" "limit \<le> 1000"
    and "lease_claim ob_event_id (outbox_eligible t) delivery_order
      (leased (or_worker_id relay) t (or_lease_seconds relay)) limit (op_outbox s) = (rs, d)"
  shows "publish_batch relay publish limit (Aware t) s =
    (Inr (map (outcome relay publish t) rs), s\<lparr>op_outbox := put_rows ob_event_id (map (outcome relay publish t) rs) d\<rparr>)"
proof -
  let ?s = "s\<lparr>op_outbox := d\<rparr>"
  have k: "keyed ob_event_id (op_outbox s)" using assms(1) by (simp add: outbox_ok_def)
  have c: "claim_outbox (or_worker_id relay) t (or_lease_seconds relay) limit s = (Inr rs, ?s)"
    using assms by (subst claim_outbox_eq) (simp add: relay_ok_def)
  have "require_owned_event (ob_event_id e) (or_worker_id relay) ?s = Inr e" if "e \<in> set rs" for e
    using outbox_claim.claim_from [OF k assms(5) that] by (auto simp: require_owned_Inr leased_def)
  then have "deliver_all relay publish t rs ?s = (Inr (map (outcome relay publish t) rs),
      ?s\<lparr>op_outbox := put_rows ob_event_id (map (outcome relay publish t) rs) d\<rparr>)"
    using deliver_all_ok [OF assms(2) outbox_claim.claim_distinct [OF k assms(5)], of ?s] by simp
  then show ?thesis using c by (simp add: publish_batch_def sbind_def slift_def)
qed

lemma map_compose_ids: "ob_event_id ` outcome relay publish t ` A = ob_event_id ` A"
  by (simp add: image_image)

section \<open>Properties\<close>

text \<open>
  Events are durable.  Whatever sequence of claims, settlements (by any worker, in any order, failing or
  not) and additions the store sees, an event once in the outbox stays there under its identifier with the
  same signed envelope, its version and attempt count never decrease, and once it is published or
  dead-lettered its row never changes again.\<close>

theorem outbox_durable:
  assumes "outbox_step\<^sup>*\<^sup>* empty_operations_store s" "outbox_step\<^sup>*\<^sup>* s s'" "dict_get (op_outbox s) k = Some r"
  shows "\<exists>r'. dict_get (op_outbox s') k = Some r' \<and> ob_event_id r' = k \<and> same_event r r'"
proof -
  have "outbox_ok empty_operations_store" by (simp add: outbox_ok_def empty_operations_store_def)
  with assms(1) have s: "outbox_ok s"
    by (induction rule: rtranclp_induct) (auto intro: outbox_step_ok)
  then show ?thesis
    using outbox_run_keeps [OF assms(2) s assms(3)] keyed_get by (fastforce simp: outbox_ok_def)
qed

text \<open>
  C8. A lease is exclusive.  When a worker's claim returns an event, then until the lease ends no
  interleaving of other claims (at earlier instants), of settlements by other workers or of other events, and
  of new submissions changes its row, and the worker can still settle it: publishing, or rescheduling with a
  non-blank error and an attempt limit within policy, succeeds and gives up the lease.\<close>

theorem outbox_lease_exclusive:
  assumes "outbox_ok s" "claim_outbox w at l limit s = (Inr rs, t)" "r \<in> set rs" "settlement_ok q"
    and "others_run (\<lambda>(at, l, limit) s. at) (\<lambda>w (at, l, limit). claim_outbox w at l limit) settle_outbox add_outbox
      (ob_event_id r) w (at + usec l) t u"
  shows "dict_get (op_outbox u) (ob_event_id r) = Some r \<and>
    (\<exists>r' v. settle_outbox (ob_event_id r) w q u = (Inr r', v)
       \<and> dict_get (op_outbox v) = (dict_get (op_outbox u))(ob_event_id r \<mapsto> r') \<and> (\<forall>w' d. \<not> event_owned r' w' d))"
  by (rule outbox.lease_exclusive [where p = "(at, l, limit)" and s = s and rs = rs and t = t])
    (use assms in simp_all)

text \<open>
  A batch settles exactly what it claims.  On a well-formed outbox and with a policy-conforming relay,
  \<^verbatim>\<open>publish_batch\<close> never raises: it takes the first \<open>limit\<close> eligible events in order of availability and
  identifier, publishes each under its lease, and leaves each either published, or, when the publisher
  raised, dead-lettered if the attempts have reached the maximum and otherwise pending again after the
  back-off.  Every other event is untouched, and nothing that was passed over is more urgent than what was
  taken.\<close>

theorem publish_batch_settles:
  assumes "outbox_ok s" "relay_ok relay publish" "1 \<le> limit" "limit \<le> 1000"
  shows "\<exists>rs s'. publish_batch relay publish limit (Aware t) s = (Inr rs, s') \<and> int (length rs) \<le> limit
    \<and> (\<forall>r\<in>set rs. dict_get (op_outbox s') (ob_event_id r) = Some r
         \<and> (\<exists>e. dict_get (op_outbox s) (ob_event_id r) = Some e \<and> outbox_eligible t e
               \<and> r = outcome relay publish t (leased (or_worker_id relay) t (or_lease_seconds relay) e)))
    \<and> (\<forall>k. k \<notin> ob_event_id ` set rs \<longrightarrow> dict_get (op_outbox s') k = dict_get (op_outbox s) k)
    \<and> (\<forall>k e. dict_get (op_outbox s) k = Some e \<and> outbox_eligible t e \<and> k \<notin> ob_event_id ` set rs
         \<longrightarrow> int (length rs) = limit
           \<and> (\<forall>r\<in>set rs. \<forall>e'. dict_get (op_outbox s) (ob_event_id r) = Some e' \<longrightarrow> delivery_order e' \<le> delivery_order e))"
proof -
  let ?o = "outcome relay publish t" and ?l = "leased (or_worker_id relay) t (or_lease_seconds relay)"
  obtain rs d where c: "lease_claim ob_event_id (outbox_eligible t) delivery_order ?l limit (op_outbox s) = (rs, d)"
    by fastforce
  have k: "keyed ob_event_id (op_outbox s)" using assms(1) by (simp add: outbox_ok_def)
  have dist: "distinct (map ob_event_id (map ?o rs))"
    using outbox_claim.claim_distinct [OF k c] by (simp add: comp_def)
  have "dict_get (put_rows ob_event_id (map ?o rs) d) (ob_event_id (?o e)) = Some (?o e)
      \<and> (\<exists>old. dict_get (op_outbox s) (ob_event_id e) = Some old \<and> outbox_eligible t old \<and> e = ?l old)" if "e \<in> set rs" for e
  proof -
    have "?o e \<in> set (map ?o rs)" using that by simp
    from put_rows_get [OF dist this] show ?thesis using outbox_claim.claim_from [OF k c that] by blast
  qed
  moreover have "dict_get (put_rows ob_event_id (map ?o rs) d) i = dict_get (op_outbox s) i" if "i \<notin> ob_event_id ` set rs" for i
    using that c by (auto simp: put_rows_other map_compose_ids lease_claim_def Let_def)
  moreover have "int (length rs) \<le> limit" using c assms(3) by (auto simp: lease_claim_def Let_def)
  moreover have "int (length rs) = limit \<and> (\<forall>r\<in>set rs. \<forall>e'. dict_get (op_outbox s) (ob_event_id r) = Some e'
      \<longrightarrow> delivery_order e' \<le> delivery_order e)"
    if "dict_get (op_outbox s) i = Some e" "outbox_eligible t e" "i \<notin> ob_event_id ` set rs" for i e
    using outbox_claim.claim_fair [OF k c _ that] outbox_claim.claim_from [OF k c] assms(3)
    by (fastforce simp: outbox_claim.upd_order)
  ultimately show ?thesis
    unfolding batch_eq [OF assms c]
    by (intro exI [of _ "map ?o rs"] exI [of _ "s\<lparr>op_outbox := put_rows ob_event_id (map ?o rs) d\<rparr>"] conjI)
      (simp_all add: image_image, metis, blast)
qed

text \<open>
  The back-off of a failed delivery doubles with every attempt and is bounded: after \<open>n\<close> attempts the
  event waits exactly \<open>2 ^ n\<close> seconds for \<open>n \<le> 8\<close> and never more than 256 seconds, so the ceiling of 300 seconds
  in the code is never what limits it.\<close>

theorem backoff_bounds:
  assumes "1 \<le> n"
  shows "2 \<le> delay_seconds n \<and> delay_seconds n \<le> 256 \<and> (n \<le> 8 \<longrightarrow> delay_seconds n = 2 ^ nat n)
    \<and> (n < 8 \<longrightarrow> delay_seconds (n + 1) = 2 * delay_seconds n)"
proof -
  have p: "(2 :: int) ^ nat (min m 8) \<le> 256" for m
  proof -
    have "(2 :: int) ^ nat (min m 8) \<le> 2 ^ 8" by (rule power_increasing) auto
    then show ?thesis by simp
  qed
  then have e: "delay_seconds m = 2 ^ nat (min m 8)" for m
    unfolding delay_seconds_def using p [of m] by linarith
  have "(2 :: int) ^ 1 \<le> 2 ^ nat (min n 8)" by (rule power_increasing) (use assms in auto)
  moreover have "nat (n + 1) = Suc (nat n)" using assms by simp
  ultimately show ?thesis using p [of n] by (auto simp: e min_def)
qed

end
