(* ===== verification/Partners.thy ===== *)
theory Partners
  imports Contract_Models
begin

text \<open>
  Partner institutions and opaque account bindings (\<^verbatim>\<open>railone_partners\<close>): the directory's
  two dictionaries, its registration operations, and the endpoint validator the quote and
  acceptance services rely on, stated as a locale and interpreted on the directory.
\<close>

section \<open>Records\<close>

datatype institution_status = INST_ACTIVE | INST_PAUSED | INST_OFFBOARDED

datatype binding_status = BIND_ACTIVE | BIND_REVOKED | BIND_SUSPENDED

record partner_institution =
  pi_institution_id :: string
  pi_display_name :: string
  pi_country_codes :: "string list"
  pi_currencies :: "string list"
  pi_supported_roles :: "account_role list"
  pi_status :: institution_status

definition institution_normalized :: "partner_institution \<Rightarrow> unit res" where
  "institution_normalized i =
     rbind (require_text ''institution_id'' (pi_institution_id i)) (\<lambda>_.
     rbind (require_text ''display_name'' (pi_display_name i)) (\<lambda>_.
     rbind (guard_res (pi_country_codes i = [] \<or> pi_currencies i = [] \<or> pi_supported_roles i = [])
              ValueError ''partner institution coverage cannot be empty'') (\<lambda>_.
     rbind (guard_res (\<not> distinct (pi_country_codes i)) ValueError
              ''partner country coverage contains duplicates'') (\<lambda>_.
     guard_res (\<not> distinct (pi_currencies i)) ValueError
              ''partner currency coverage contains duplicates''))))"

record account_binding =
  ab_account_binding_id :: string
  ab_actor_id :: string
  ab_institution_id :: string
  ab_role :: account_role
  ab_account_type :: account_type
  ab_currency :: string
  ab_display_hint :: string
  ab_contact_binding_id :: string
  ab_attestation_reference :: string
  ab_status :: binding_status

definition binding_normalized :: "account_binding \<Rightarrow> unit res" where
  "binding_normalized b =
     rbind (rforall (\<lambda>(name, v). rbind (require_text name v) (\<lambda>_. Inr ()))
       [(''account_binding_id'', ab_account_binding_id b), (''actor_id'', ab_actor_id b),
        (''institution_id'', ab_institution_id b), (''currency'', ab_currency b),
        (''display_hint'', ab_display_hint b), (''contact_binding_id'', ab_contact_binding_id b),
        (''attestation_reference'', ab_attestation_reference b)]) (\<lambda>_.
     guard_res (length (ab_display_hint b) > 32) ValueError
       ''account display hint exceeds 32 characters'')"

section \<open>The directory\<close>

record partner_directory =
  pd_institutions :: "(string, partner_institution) dict"
  pd_bindings :: "(string, account_binding) dict"

definition empty_directory :: partner_directory where
  "empty_directory = \<lparr>pd_institutions = [], pd_bindings = []\<rparr>"

definition add_institution :: "partner_institution \<Rightarrow> (partner_directory, unit) st" where
  "add_institution i =
     sbind (slift (institution_normalized i)) (\<lambda>_. \<lambda>d.
       if dict_has (pd_institutions d) (pi_institution_id i)
       then (Inl (Raise ValueError ''partner institution already exists''), d)
       else (Inr (), d\<lparr>pd_institutions := dict_set (pi_institution_id i) i (pd_institutions d)\<rparr>))"

definition add_binding :: "account_binding \<Rightarrow> (partner_directory, unit) st" where
  "add_binding b =
     sbind (slift (binding_normalized b)) (\<lambda>_. \<lambda>d.
       if \<not> dict_has (pd_institutions d) (ab_institution_id b)
       then (Inl (Raise LookupError ''account binding institution is not a partner''), d)
       else if dict_has (pd_bindings d) (ab_account_binding_id b)
       then (Inl (Raise ValueError ''account binding already exists''), d)
       else (Inr (), d\<lparr>pd_bindings := dict_set (ab_account_binding_id b) b (pd_bindings d)\<rparr>))"

definition set_binding_status :: "string \<Rightarrow> binding_status \<Rightarrow> (partner_directory, unit) st" where
  "set_binding_status bid status d =
     (case dict_get (pd_bindings d) bid of
        None \<Rightarrow> (Inl (Raise LookupError ''account binding not found''), d)
      | Some b \<Rightarrow> (Inr (), d\<lparr>pd_bindings := dict_set bid (b\<lparr>ab_status := status\<rparr>) (pd_bindings d)\<rparr>))"

definition list_institutions ::
  "partner_directory \<Rightarrow> string \<Rightarrow> string \<Rightarrow> account_role \<Rightarrow> partner_institution list" where
  "list_institutions d country currency role =
     sort_key pi_institution_id
       (filter (\<lambda>i. pi_status i = INST_ACTIVE
            \<and> upper country \<in> set (map upper (pi_country_codes i))
            \<and> upper currency \<in> set (map upper (pi_currencies i))
            \<and> role \<in> set (pi_supported_roles i))
          (map snd (pd_institutions d)))"

definition select_endpoint ::
  "partner_directory \<Rightarrow> string \<Rightarrow> string \<Rightarrow> account_role \<Rightarrow> account_endpoint res" where
  "select_endpoint d actor bid role =
     (case dict_get (pd_bindings d) bid of
        None \<Rightarrow> Inl (Raise LookupError ''account binding not found'')
      | Some b \<Rightarrow>
         (case dict_get (pd_institutions d) (ab_institution_id b) of
            None \<Rightarrow> Inl (Raise KeyError (ab_institution_id b))
          | Some i \<Rightarrow>
              rbind (guard_res (ab_actor_id b \<noteq> actor) PermissionError
                       ''account binding belongs to another actor'') (\<lambda>_.
              rbind (guard_res (ab_status b \<noteq> BIND_ACTIVE) PermissionError
                       ''account binding is not active'') (\<lambda>_.
              rbind (guard_res (pi_status i \<noteq> INST_ACTIVE) PermissionError
                       ''partner institution is not active'') (\<lambda>_.
              rbind (guard_res (ab_role b \<noteq> role) PermissionError
                       ''account binding has the wrong execution role'') (\<lambda>_.
              Inr \<lparr>ep_institution_id = ab_institution_id b,
                   ep_institution_display_name = pi_display_name i,
                   ep_account_binding_id = ab_account_binding_id b, ep_role = ab_role b,
                   ep_account_type = ab_account_type b, ep_display_hint = ab_display_hint b,
                   ep_contact_binding_id = ab_contact_binding_id b,
                   ep_attestation_reference = ab_attestation_reference b\<rparr>))))))"

definition same_binding_material :: "account_endpoint \<Rightarrow> account_endpoint \<Rightarrow> bool" where
  "same_binding_material l r \<longleftrightarrow>
     ep_institution_id l = ep_institution_id r
     \<and> ep_account_binding_id l = ep_account_binding_id r
     \<and> ep_role l = ep_role r
     \<and> ep_account_type l = ep_account_type r
     \<and> ep_display_hint l = ep_display_hint r
     \<and> ep_contact_binding_id l = ep_contact_binding_id r
     \<and> ep_attestation_reference l = ep_attestation_reference r"

type_synonym validator = "string \<Rightarrow> account_endpoint \<Rightarrow> account_role \<Rightarrow> string \<Rightarrow> unit res"

definition validate_endpoint :: "partner_directory \<Rightarrow> validator" where
  "validate_endpoint d actor e role currency =
     rbind (select_endpoint d actor (ep_account_binding_id e) role) (\<lambda>selected.
     case dict_get (pd_bindings d) (ep_account_binding_id e) of
       None \<Rightarrow> Inl (Raise KeyError (ep_account_binding_id e))
     | Some b \<Rightarrow>
         rbind (guard_res (\<not> same_binding_material selected e) PermissionError
                  ''account endpoint snapshot does not match its binding'') (\<lambda>_.
         guard_res (upper (ab_currency b) \<noteq> upper currency) PermissionError
                  ''account binding currency is not eligible''))"

section \<open>The directory's invariant\<close>

definition directory_inv :: "partner_directory \<Rightarrow> bool" where
  "directory_inv d \<longleftrightarrow>
     dict_ok (pd_institutions d) \<and> dict_ok (pd_bindings d)
     \<and> (\<forall>k i. dict_get (pd_institutions d) k = Some i \<longrightarrow>
          pi_institution_id i = k \<and> institution_normalized i = Inr ())
     \<and> (\<forall>k b. dict_get (pd_bindings d) k = Some b \<longrightarrow>
          ab_account_binding_id b = k \<and> dict_has (pd_institutions d) (ab_institution_id b)
          \<and> length (ab_display_hint b) \<le> 32)"

lemma directory_inv_empty: "directory_inv empty_directory"
  by (simp add: directory_inv_def empty_directory_def)

lemma directory_inv_add_institution:
  "directory_inv d \<Longrightarrow> add_institution i d = (r, d') \<Longrightarrow> directory_inv d'"
  by (cases "institution_normalized i")
     (auto simp: add_institution_def sbind_def slift_def directory_inv_def split: if_splits)

lemma binding_normalized_hint: "binding_normalized b = Inr u \<Longrightarrow> length (ab_display_hint b) \<le> 32"
  unfolding binding_normalized_def by (elim rbind_InrE) (simp add: guard_res_eq_Inr)

lemma directory_inv_add_binding:
  assumes "directory_inv d" "add_binding b d = (r, d')"
  shows "directory_inv d'"
proof (cases "binding_normalized b")
  case (Inr u)
  then show ?thesis using assms binding_normalized_hint [OF Inr]
    by (auto simp: add_binding_def sbind_def slift_def directory_inv_def split: if_splits)
qed (use assms in \<open>auto simp: add_binding_def sbind_def slift_def\<close>)

lemma directory_inv_set_status:
  "directory_inv d \<Longrightarrow> set_binding_status k s d = (r, d') \<Longrightarrow> directory_inv d'"
  by (auto simp: set_binding_status_def directory_inv_def split: option.splits if_splits)

text \<open>What validation establishes, as one predicate on the stored binding.\<close>

definition eligible_binding ::
  "partner_directory \<Rightarrow> string \<Rightarrow> account_endpoint \<Rightarrow> account_role \<Rightarrow> string \<Rightarrow> bool" where
  "eligible_binding d actor e role currency \<longleftrightarrow>
     (\<exists>b i. dict_get (pd_bindings d) (ep_account_binding_id e) = Some b
        \<and> dict_get (pd_institutions d) (ab_institution_id b) = Some i
        \<and> ab_actor_id b = actor \<and> ab_status b = BIND_ACTIVE \<and> pi_status i = INST_ACTIVE
        \<and> ab_role b = role \<and> upper (ab_currency b) = upper currency
        \<and> ep_institution_id e = ab_institution_id b \<and> ep_account_binding_id e = ab_account_binding_id b
        \<and> ep_role e = ab_role b \<and> ep_account_type e = ab_account_type b
        \<and> ep_display_hint e = ab_display_hint b \<and> ep_contact_binding_id e = ab_contact_binding_id b
        \<and> ep_attestation_reference e = ab_attestation_reference b)"

lemma validate_endpoint_iff:
  "validate_endpoint d a e role cur = Inr () \<longleftrightarrow> eligible_binding d a e role cur"
  by (auto simp: validate_endpoint_def select_endpoint_def eligible_binding_def
        same_binding_material_def res_simps split: option.splits)

section \<open>The validator contract\<close>

text \<open>
  What the clients of the \<^verbatim>\<open>EndpointValidator\<close> protocol rely on: an accepted endpoint carries
  the required role, and two accepted endpoints over one binding agree on its owner and on
  its execution role.
\<close>

locale endpoint_validator =
  fixes validate :: validator
  assumes validate_role: "validate a e r c = Inr () \<Longrightarrow> ep_role e = r"
    and validate_owner: "validate a e r c = Inr () \<Longrightarrow> validate a' e' r' c' = Inr () \<Longrightarrow>
      ep_account_binding_id e = ep_account_binding_id e' \<Longrightarrow> a = a' \<and> r = r'"
begin

lemma debit_credit_distinct:
  assumes "validate a e DEBIT c = Inr ()" "validate a' e' CREDIT c' = Inr ()"
  shows "ep_account_binding_id e \<noteq> ep_account_binding_id e'"
  using validate_owner [OF assms] by auto

end

interpretation directory: endpoint_validator "validate_endpoint d" for d
  by unfold_locales (auto simp: validate_endpoint_iff eligible_binding_def)

text \<open>
  Endpoint validation is exact: an endpoint snapshot is accepted for an actor, role and
  currency if and only if its binding exists, belongs to that actor, is active at an active
  institution, has that role and currency, and the snapshot equals the binding in everything
  but the institution's display name.  In a directory built through its operations the
  institution lookup inside never fails with a raw key error.
\<close>

theorem validate_endpoint_exact:
  "(validate_endpoint d actor e role currency = Inr () \<longleftrightarrow> eligible_binding d actor e role currency)
   \<and> (directory_inv d \<longrightarrow> validate_endpoint d actor e role currency \<noteq> Inl (Raise KeyError k))"
proof
  show "validate_endpoint d actor e role currency = Inr () \<longleftrightarrow> eligible_binding d actor e role currency"
    by (rule validate_endpoint_iff)
  show "directory_inv d \<longrightarrow> validate_endpoint d actor e role currency \<noteq> Inl (Raise KeyError k)"
    by (fastforce simp: validate_endpoint_def select_endpoint_def directory_inv_def res_simps split: option.splits)
qed

definition demo_institution :: partner_institution where
  "demo_institution = \<lparr>pi_institution_id = ''BANK'', pi_display_name = ''Bank'', pi_country_codes = [''KE''],
     pi_currencies = [''KES''], pi_supported_roles = [DEBIT, CREDIT], pi_status = INST_ACTIVE\<rparr>"

definition demo_binding :: "string \<Rightarrow> string \<Rightarrow> account_role \<Rightarrow> account_binding" where
  "demo_binding bid actor role = \<lparr>ab_account_binding_id = bid, ab_actor_id = actor,
     ab_institution_id = ''BANK'', ab_role = role, ab_account_type = BANK_ACCOUNT, ab_currency = ''KES'',
     ab_display_hint = ''hint'', ab_contact_binding_id = ''contact'', ab_attestation_reference = ''att'',
     ab_status = BIND_ACTIVE\<rparr>"

definition demo_directory :: partner_directory where
  "demo_directory = \<lparr>pd_institutions = [(''BANK'', demo_institution)],
     pd_bindings = [(''BD'', demo_binding ''BD'' ''alice'' DEBIT), (''BC'', demo_binding ''BC'' ''bob'' CREDIT)]\<rparr>"

definition demo_endpoint :: "string \<Rightarrow> account_role \<Rightarrow> account_endpoint" where
  "demo_endpoint bid role = \<lparr>ep_institution_id = ''BANK'', ep_institution_display_name = ''Bank'',
     ep_account_binding_id = bid, ep_role = role, ep_account_type = BANK_ACCOUNT, ep_display_hint = ''hint'',
     ep_contact_binding_id = ''contact'', ep_attestation_reference = ''att''\<rparr>"

lemma demo_directory_inv: "directory_inv demo_directory"
  by (auto simp: directory_inv_def demo_directory_def demo_institution_def demo_binding_def
       institution_normalized_def res_simps strip_def is_space_def Let_def split: if_splits)

lemma upper_kes: "upper ''kes'' = ''KES''" "upper ''KES'' = ''KES''"
  by code_simp+

lemma demo_eligible:
  "eligible_binding demo_directory ''alice'' (demo_endpoint ''BD'' DEBIT) DEBIT ''kes''"
  "eligible_binding demo_directory ''bob'' (demo_endpoint ''BC'' CREDIT) CREDIT ''KES''"
  by (simp_all add: eligible_binding_def demo_directory_def demo_institution_def demo_binding_def
        demo_endpoint_def upper_kes)

theorem validate_endpoint_exact_witness:
  "validate_endpoint demo_directory ''alice'' (demo_endpoint ''BD'' DEBIT) DEBIT ''kes'' = Inr ()
   \<and> validate_endpoint demo_directory ''bob'' (demo_endpoint ''BD'' DEBIT) DEBIT ''kes'' \<noteq> Inl (Raise KeyError ''BANK'')"
  using validate_endpoint_exact demo_eligible(1) demo_directory_inv by blast

end
