(* ===== verification/Authority.thy ===== *)
theory Authority
  imports Partners
begin

text \<open>
  Sender and receiver execution authorities (\<^verbatim>\<open>railone_authority\<close>): ETK-S and ETK-R issuance.
  Timestamps are converted to UTC before the window is validated, so the window check works on
  instants; arguments the caller reads out of a signed payload are dynamic values.
\<close>

datatype participation_mode =
    ACTIVE_ACCEPTANCE | BENEFICIARY_PREAUTHORIZED | DIRECTORY_RESOLUTION
  | INTERNAL_MERCHANT_AUTHORITY | PASSIVE_CREDIT

fun participation_value :: "participation_mode \<Rightarrow> string" where
  "participation_value ACTIVE_ACCEPTANCE = ''ACTIVE_ACCEPTANCE''"
| "participation_value BENEFICIARY_PREAUTHORIZED = ''BENEFICIARY_PREAUTHORIZED''"
| "participation_value DIRECTORY_RESOLUTION = ''DIRECTORY_RESOLUTION''"
| "participation_value INTERNAL_MERCHANT_AUTHORITY = ''INTERNAL_MERCHANT_AUTHORITY''"
| "participation_value PASSIVE_CREDIT = ''PASSIVE_CREDIT''"

definition receiver_confirmed :: "participation_mode \<Rightarrow> bool" where
  "receiver_confirmed m \<longleftrightarrow> m = ACTIVE_ACCEPTANCE"

definition authority_text :: "string \<Rightarrow> pyval \<Rightarrow> string res" where
  "authority_text name v =
     (case v of PyStr s \<Rightarrow> (if strip s = [] then Inl (Raise ValueError (name @ '' is required'')) else Inr (strip s))
      | _ \<Rightarrow> Inl (Raise ValueError (name @ '' is required'')))"

definition max_authority_seconds :: int where
  "max_authority_seconds = 15 * 60"

definition validate_window :: "instant \<Rightarrow> instant \<Rightarrow> unit res" where
  "validate_window issued expiry =
     rbind (guard_res (expiry - issued \<le> 0) ValueError ''authority expiry must be after issuance'') (\<lambda>_.
     guard_res (expiry - issued > from_epoch max_authority_seconds) ValueError
       ''authority window exceeds maximum TTL'')"

definition dict_copy :: "pyval \<Rightarrow> pyval res" where
  \<comment> \<open>\<^verbatim>\<open>dict(mapping)\<close>\<close>
  "dict_copy v = (case v of PyDict kvs \<Rightarrow> Inr (PyDict kvs) | _ \<Rightarrow> Inl (Raise TypeError ''object is not iterable''))"

record sender_request =
  sr_utt_id :: pyval
  sr_quote_id :: pyval
  sr_sender_actor_type :: pyval
  sr_sender_reference :: pyval
  sr_amount_minor :: pyval
  sr_currency :: pyval
  sr_origin_context :: pyval
  sr_authorization_method :: pyval
  sr_authorization_reference :: pyval

definition issue_sender_authority ::
  "platform \<Rightarrow> key_provider \<Rightarrow> sender_request \<Rightarrow> string \<Rightarrow> datetime \<Rightarrow> datetime \<Rightarrow> envelope res" where
  "issue_sender_authority P ks q signing_key_id authorized_at expires_at =
     (let issued = astimezone_utc P authorized_at; expiry = astimezone_utc P expires_at in
      rbind (validate_window issued expiry) (\<lambda>_.
      case strict_int (sr_amount_minor q) of
        None \<Rightarrow> Inl (Raise TypeError ''amount_minor must be an integer'')
      | Some amount \<Rightarrow>
      rbind (guard_res (amount \<le> 0) ValueError ''amount_minor must be positive'') (\<lambda>_.
      rbind (authority_text ''utt_id'' (sr_utt_id q)) (\<lambda>utt.
      rbind (authority_text ''quote_id'' (sr_quote_id q)) (\<lambda>quote.
      rbind (authority_text ''sender_actor_type'' (sr_sender_actor_type q)) (\<lambda>atype.
      rbind (authority_text ''sender_reference'' (sr_sender_reference q)) (\<lambda>ref.
      rbind (authority_text ''currency'' (sr_currency q)) (\<lambda>currency.
      rbind (dict_copy (sr_origin_context q)) (\<lambda>origin.
      rbind (authority_text ''authorization_method'' (sr_authorization_method q)) (\<lambda>meth.
      rbind (authority_text ''authorization_reference'' (sr_authorization_reference q)) (\<lambda>authref.
      let core = obj
        [(''utt_id'', PyStr utt), (''quote_id'', PyStr quote), (''sender_actor_type'', PyStr atype),
         (''sender_reference'', PyStr ref), (''amount_minor'', PyInt amount),
         (''currency'', PyStr (upper currency)), (''origin_context'', origin),
         (''authorization_method'', PyStr meth), (''authorization_reference'', PyStr authref),
         (''authorized_at'', PyInt (epoch issued)), (''expires_at'', PyInt (epoch expiry)),
         (''authority_scope'', PyStr ''EXECUTE_UTT''), (''custody_model'', PyStr ''NON_CUSTODIAL''),
         (''status'', PyStr ''ACTIVE'')] in
      rbind (content_id ''ETKS'' core) (\<lambda>etk_s_id.
      sign_artifact P ks ETK_S (merge_obj [(''etk_s_id'', PyStr etk_s_id)] core)
        signing_key_id (Aware issued)))))))))))))"

record receiver_request =
  rq_receiver_actor_type :: pyval
  rq_receiver_reference :: pyval
  rq_participation_mode :: participation_mode
  rq_evidence_reference :: pyval

definition issue_receiver_participation ::
  "platform \<Rightarrow> key_provider \<Rightarrow> envelope \<Rightarrow> receiver_request \<Rightarrow> string \<Rightarrow> datetime \<Rightarrow> datetime \<Rightarrow> envelope res" where
  "issue_receiver_participation P ks sender_authority q signing_key_id attested_at expires_at =
     rbind (verify_artifact P ks sender_authority (Some ETK_S) False) (\<lambda>result.
     rbind (guard_res (\<not> vr_valid result) PermissionError
              (''sender authority rejected: '' @ vr_reason result)) (\<lambda>_.
     let sender = env_payload sender_authority;
         issued = astimezone_utc P attested_at; expiry = astimezone_utc P expires_at in
     rbind (validate_window issued expiry) (\<lambda>_.
     rbind (py_item sender ''expires_at'') (\<lambda>sexp.
     rbind (int_operand sexp) (\<lambda>sexp_n.
     rbind (guard_res (epoch expiry > sexp_n) ValueError ''ETK-R cannot outlive ETK-S'') (\<lambda>_.
     rbind (py_item sender ''utt_id'') (\<lambda>utt.
     rbind (py_item sender ''etk_s_id'') (\<lambda>etk_s.
     rbind (authority_text ''receiver_actor_type'' (rq_receiver_actor_type q)) (\<lambda>rtype.
     rbind (authority_text ''receiver_reference'' (rq_receiver_reference q)) (\<lambda>rref.
     rbind (authority_text ''evidence_reference'' (rq_evidence_reference q)) (\<lambda>evidence.
     rbind (py_item sender ''amount_minor'') (\<lambda>amount.
     rbind (py_item sender ''currency'') (\<lambda>currency.
     let core = obj
       [(''utt_id'', utt), (''etk_s_id'', etk_s), (''receiver_actor_type'', PyStr rtype),
        (''receiver_reference'', PyStr rref),
        (''participation_mode'', PyStr (participation_value (rq_participation_mode q))),
        (''receiver_confirmed'', PyBool (receiver_confirmed (rq_participation_mode q))),
        (''evidence_reference'', PyStr evidence), (''amount_minor'', amount), (''currency'', currency),
        (''attested_at'', PyInt (epoch issued)), (''expires_at'', PyInt (epoch expiry)),
        (''custody_model'', PyStr ''NON_CUSTODIAL''), (''status'', PyStr ''ACTIVE'')] in
     rbind (content_id ''ETKR'' core) (\<lambda>etk_r_id.
     sign_artifact P ks ETK_R (merge_obj [(''etk_r_id'', PyStr etk_r_id)] core)
       signing_key_id (Aware issued)))))))))))))))"

section \<open>What an issued authority guarantees\<close>

lemma validate_window_Inr [res_simps]:
  "validate_window i e = Inr u \<longleftrightarrow> i < e \<and> e \<le> i + from_epoch max_authority_seconds"
  by (auto simp: validate_window_def res_simps)

lemma authority_text_Inr [res_simps]:
  "authority_text n v = Inr s \<longleftrightarrow> (\<exists>t. v = PyStr t \<and> s = strip t \<and> s \<noteq> [])"
  by (auto simp: authority_text_def split: pyval.splits)

lemma issued_payload:
  assumes "sign_artifact P ks ty (merge_obj kvs (obj kvs')) kid at = Inr env"
  shows "pget (env_payload env) k =
    map_option freeze (case map_of kvs k of Some v \<Rightarrow> Some v | None \<Rightarrow> map_of kvs' k)"
  using assms by (auto elim: sign_artifactD)

definition sender_authority_ok :: "platform \<Rightarrow> sender_request \<Rightarrow> instant \<Rightarrow> instant \<Rightarrow> pyval \<Rightarrow> bool" where
  \<comment> \<open>the terms an ETK-S carries\<close>
  "sender_authority_ok P q issued expiry p \<longleftrightarrow>
     (\<exists>utt quote cur amount. sr_utt_id q = PyStr utt \<and> sr_quote_id q = PyStr quote
        \<and> sr_currency q = PyStr cur \<and> sr_amount_minor q = PyInt amount \<and> 0 < amount
        \<and> pget p ''utt_id'' = Some (PyStr (strip utt)) \<and> pget p ''quote_id'' = Some (PyStr (strip quote))
        \<and> pget p ''currency'' = Some (PyStr (upper (strip cur)))
        \<and> pget p ''amount_minor'' = Some (PyInt amount))
     \<and> pget p ''authority_scope'' = Some (PyStr ''EXECUTE_UTT'')
     \<and> pget p ''authorized_at'' = Some (PyInt (epoch issued))
     \<and> pget p ''expires_at'' = Some (PyInt (epoch expiry))
     \<and> issued < expiry \<and> expiry \<le> issued + from_epoch max_authority_seconds
     \<and> (\<exists>i. pget p ''etk_s_id'' = Some (PyStr (''ETKS-'' @ i)) \<and> length i = 32)"

lemma content_id_form:
  assumes "content_id pre v = Inr i"
  obtains h where "i = pre @ ''-'' @ h" "length h = 32"
  using assms by (auto simp: content_id_def payload_digest_def res_simps canonical_Inr intro: that)

lemma issue_sender_authorityD:
  assumes "issue_sender_authority P ks q kid at exp = Inr env"
  shows "sender_authority_ok P q (astimezone_utc P at) (astimezone_utc P exp) (env_payload env)
    \<and> (\<exists>payload. sign_artifact P ks ETK_S payload kid (Aware (astimezone_utc P at)) = Inr env)"
proof -
  obtain amount utt quote atype ref currency origin meth authref i core where
    w: "validate_window (astimezone_utc P at) (astimezone_utc P exp) = Inr ()"
    and amt: "strict_int (sr_amount_minor q) = Some amount" "0 < amount"
    and utt: "authority_text ''utt_id'' (sr_utt_id q) = Inr utt"
    and quote: "authority_text ''quote_id'' (sr_quote_id q) = Inr quote"
    and cur: "authority_text ''currency'' (sr_currency q) = Inr currency"
    and core: "core = [(''utt_id'', PyStr utt), (''quote_id'', PyStr quote), (''sender_actor_type'', PyStr atype),
         (''sender_reference'', PyStr ref), (''amount_minor'', PyInt amount),
         (''currency'', PyStr (upper currency)), (''origin_context'', origin),
         (''authorization_method'', PyStr meth), (''authorization_reference'', PyStr authref),
         (''authorized_at'', PyInt (epoch (astimezone_utc P at))), (''expires_at'', PyInt (epoch (astimezone_utc P exp))),
         (''authority_scope'', PyStr ''EXECUTE_UTT''), (''custody_model'', PyStr ''NON_CUSTODIAL''),
         (''status'', PyStr ''ACTIVE'')]"
    and i: "content_id ''ETKS'' (obj core) = Inr i"
    and s: "sign_artifact P ks ETK_S (merge_obj [(''etk_s_id'', PyStr i)] (obj core)) kid
        (Aware (astimezone_utc P at)) = Inr env"
    using assms unfolding issue_sender_authority_def Let_def
    by (elim rbind_InrE; simp split: option.splits; elim rbind_InrE; simp add: guard_res_eq_Inr)
  obtain h where h: "i = ''ETKS-'' @ h" "length h = 32" using content_id_form [OF i] by auto
  have "sr_amount_minor q = PyInt amount"
    using amt(1) by (auto simp: strict_int_def split: pyval.splits)
  then show ?thesis
    using w amt(2) utt quote cur s h
    unfolding sender_authority_ok_def issued_payload [OF s] core
    by (auto simp: res_simps)
qed

fun stripped :: "pyval \<Rightarrow> pyval" where
  "stripped (PyStr t) = PyStr (strip t)"
| "stripped v = v"

definition sender_claims :: "sender_request \<Rightarrow> instant \<Rightarrow> instant \<Rightarrow> (string \<times> pyval) list" where
  \<comment> \<open>the members of an ETK-S besides its identifier, field by field from the request\<close>
  "sender_claims q issued expiry =
     [(''utt_id'', stripped (sr_utt_id q)), (''quote_id'', stripped (sr_quote_id q)),
      (''sender_actor_type'', stripped (sr_sender_actor_type q)), (''sender_reference'', stripped (sr_sender_reference q)),
      (''amount_minor'', sr_amount_minor q),
      (''currency'', case sr_currency q of PyStr t \<Rightarrow> PyStr (upper (strip t)) | v \<Rightarrow> v),
      (''origin_context'', sr_origin_context q), (''authorization_method'', stripped (sr_authorization_method q)),
      (''authorization_reference'', stripped (sr_authorization_reference q)),
      (''authorized_at'', PyInt (epoch issued)), (''expires_at'', PyInt (epoch expiry)),
      (''authority_scope'', PyStr ''EXECUTE_UTT''), (''custody_model'', PyStr ''NON_CUSTODIAL''), (''status'', PyStr ''ACTIVE'')]"

lemma issue_sender_authority_claims:
  assumes "issue_sender_authority P ks q kid at exp = Inr env"
  shows "\<forall>k. k \<noteq> ''etk_s_id'' \<longrightarrow>
      pget (env_payload env) k = map_option freeze (map_of (sender_claims q (astimezone_utc P at) (astimezone_utc P exp)) k)"
    and "\<exists>atype ref. sr_sender_actor_type q = PyStr atype \<and> sr_sender_reference q = PyStr ref"
proof -
  obtain amount utt quote atype ref currency origin meth authref i core where
    f: "strict_int (sr_amount_minor q) = Some amount" "authority_text ''utt_id'' (sr_utt_id q) = Inr utt"
      "authority_text ''quote_id'' (sr_quote_id q) = Inr quote" "authority_text ''sender_actor_type'' (sr_sender_actor_type q) = Inr atype"
      "authority_text ''sender_reference'' (sr_sender_reference q) = Inr ref" "authority_text ''currency'' (sr_currency q) = Inr currency"
      "dict_copy (sr_origin_context q) = Inr origin" "authority_text ''authorization_method'' (sr_authorization_method q) = Inr meth"
      "authority_text ''authorization_reference'' (sr_authorization_reference q) = Inr authref"
    and core: "core = [(''utt_id'', PyStr utt), (''quote_id'', PyStr quote), (''sender_actor_type'', PyStr atype),
         (''sender_reference'', PyStr ref), (''amount_minor'', PyInt amount),
         (''currency'', PyStr (upper currency)), (''origin_context'', origin),
         (''authorization_method'', PyStr meth), (''authorization_reference'', PyStr authref),
         (''authorized_at'', PyInt (epoch (astimezone_utc P at))), (''expires_at'', PyInt (epoch (astimezone_utc P exp))),
         (''authority_scope'', PyStr ''EXECUTE_UTT''), (''custody_model'', PyStr ''NON_CUSTODIAL''),
         (''status'', PyStr ''ACTIVE'')]"
    and s: "sign_artifact P ks ETK_S (merge_obj [(''etk_s_id'', PyStr i)] (obj core)) kid (Aware (astimezone_utc P at)) = Inr env"
    using assms unfolding issue_sender_authority_def Let_def
    by (elim rbind_InrE; simp split: option.splits; elim rbind_InrE; simp add: guard_res_eq_Inr)
  have a: "sr_amount_minor q = PyInt amount" using f(1) by (auto simp: strict_int_def split: pyval.splits)
  have orig: "sr_origin_context q = origin" using f(7) by (auto simp: dict_copy_def split: pyval.splits)
  have t: "stripped (sr_utt_id q) = PyStr utt" "stripped (sr_quote_id q) = PyStr quote" "stripped (sr_sender_actor_type q) = PyStr atype"
    "stripped (sr_sender_reference q) = PyStr ref" "stripped (sr_authorization_method q) = PyStr meth"
    "stripped (sr_authorization_reference q) = PyStr authref"
    "(case sr_currency q of PyStr t \<Rightarrow> PyStr (upper (strip t)) | v \<Rightarrow> v) = PyStr (upper currency)"
    using f(2-6,8,9) unfolding authority_text_Inr by (elim exE conjE, simp)+
  have "core = sender_claims q (astimezone_utc P at) (astimezone_utc P exp)"
    unfolding core sender_claims_def t a orig by (rule refl)
  then show "\<forall>k. k \<noteq> ''etk_s_id'' \<longrightarrow>
      pget (env_payload env) k = map_option freeze (map_of (sender_claims q (astimezone_utc P at) (astimezone_utc P exp)) k)"
    unfolding issued_payload [OF s] by simp
  show "\<exists>atype ref. sr_sender_actor_type q = PyStr atype \<and> sr_sender_reference q = PyStr ref"
    using f(4,5) unfolding authority_text_Inr by blast
qed

lemma issue_receiver_core:
  assumes "issue_receiver_participation P ks se q kid at exp = Inr env"
  obtains v sexp n utt etk rtype rref ev amount cur core i where
    "verify_artifact P ks se (Some ETK_S) False = Inr v" "vr_valid v"
    "validate_window (astimezone_utc P at) (astimezone_utc P exp) = Inr ()"
    "pget (env_payload se) ''expires_at'' = Some sexp" "int_operand sexp = Inr n"
    "epoch (astimezone_utc P exp) \<le> n"
    "pget (env_payload se) ''utt_id'' = Some utt" "pget (env_payload se) ''etk_s_id'' = Some etk"
    "pget (env_payload se) ''amount_minor'' = Some amount" "pget (env_payload se) ''currency'' = Some cur"
    "core = [(''utt_id'', utt), (''etk_s_id'', etk), (''receiver_actor_type'', PyStr rtype),
        (''receiver_reference'', PyStr rref),
        (''participation_mode'', PyStr (participation_value (rq_participation_mode q))),
        (''receiver_confirmed'', PyBool (receiver_confirmed (rq_participation_mode q))),
        (''evidence_reference'', PyStr ev), (''amount_minor'', amount), (''currency'', cur),
        (''attested_at'', PyInt (epoch (astimezone_utc P at))), (''expires_at'', PyInt (epoch (astimezone_utc P exp))),
        (''custody_model'', PyStr ''NON_CUSTODIAL''), (''status'', PyStr ''ACTIVE'')]"
    "content_id ''ETKR'' (obj core) = Inr i"
    "sign_artifact P ks ETK_R (merge_obj [(''etk_r_id'', PyStr i)] (obj core)) kid
        (Aware (astimezone_utc P at)) = Inr env"
  using assms unfolding issue_receiver_participation_def Let_def
  by (elim rbind_InrE) (simp add: guard_res_eq_Inr py_item_Inr)

lemma int_operand_Inr [res_simps]: "int_operand v = Inr n \<longleftrightarrow> as_int v = Some n"
  by (auto simp: int_operand_def split: option.splits)

text \<open>
  A receiver participation never exceeds the sender authority it is attached to: it is
  issued only against a valid ETK-S signature, expires no later than the ETK-S, has a positive
  window of at most 15 minutes, names the same UTT, ETK-S, amount and currency, and claims that the
  receiver confirmed exactly for the active-acceptance mode.
\<close>

theorem receiver_within_sender:
  assumes "issue_receiver_participation P ks se q kid at exp = Inr env"
  shows "(\<exists>r iat. accepted_envelope P ks se False ETK_S r iat)
    \<and> (\<exists>sexp n. pget (env_payload se) ''expires_at'' = Some sexp \<and> as_int sexp = Some n
         \<and> pget (env_payload env) ''expires_at'' = Some (PyInt (epoch (astimezone_utc P exp)))
         \<and> epoch (astimezone_utc P exp) \<le> n)
    \<and> astimezone_utc P at < astimezone_utc P exp
    \<and> astimezone_utc P exp \<le> astimezone_utc P at + from_epoch max_authority_seconds
    \<and> (\<forall>k \<in> {''utt_id'', ''etk_s_id'', ''amount_minor'', ''currency''}.
         pget (env_payload env) k = map_option freeze (pget (env_payload se) k)
         \<and> pget (env_payload env) k \<noteq> None)
    \<and> pget (env_payload env) ''receiver_confirmed'' = Some (PyBool (rq_participation_mode q = ACTIVE_ACCEPTANCE))"
proof -
  from assms obtain v sexp n utt etk rtype rref ev amount cur core i where
    v: "verify_artifact P ks se (Some ETK_S) False = Inr v" "vr_valid v"
    and w: "validate_window (astimezone_utc P at) (astimezone_utc P exp) = Inr ()"
    and n: "pget (env_payload se) ''expires_at'' = Some sexp" "int_operand sexp = Inr n"
      "epoch (astimezone_utc P exp) \<le> n"
    and s: "pget (env_payload se) ''utt_id'' = Some utt" "pget (env_payload se) ''etk_s_id'' = Some etk"
      "pget (env_payload se) ''amount_minor'' = Some amount" "pget (env_payload se) ''currency'' = Some cur"
    and core: "core = [(''utt_id'', utt), (''etk_s_id'', etk), (''receiver_actor_type'', PyStr rtype),
        (''receiver_reference'', PyStr rref),
        (''participation_mode'', PyStr (participation_value (rq_participation_mode q))),
        (''receiver_confirmed'', PyBool (receiver_confirmed (rq_participation_mode q))),
        (''evidence_reference'', PyStr ev), (''amount_minor'', amount), (''currency'', cur),
        (''attested_at'', PyInt (epoch (astimezone_utc P at))), (''expires_at'', PyInt (epoch (astimezone_utc P exp))),
        (''custody_model'', PyStr ''NON_CUSTODIAL''), (''status'', PyStr ''ACTIVE'')]"
    and sg: "sign_artifact P ks ETK_R (merge_obj [(''etk_r_id'', PyStr i)] (obj core)) kid
        (Aware (astimezone_utc P at)) = Inr env"
    by (rule issue_receiver_core)
  from v obtain r iat where "accepted_envelope P ks se False ETK_S r iat"
    by (rule verify_accepted) auto
  then show ?thesis
    using w n s unfolding issued_payload [OF sg] core
    by (auto simp: res_simps receiver_confirmed_def)
qed

lemma content_id_ok: "plain v \<Longrightarrow> \<exists>i. content_id pre v = Inr i"
  by (auto simp: content_id_def payload_digest_def canonical_plain)

lemma plain_merge_obj: "plain (obj kvs') \<Longrightarrow> \<forall>(k, v) \<in> set kvs. plain v \<Longrightarrow> plain (merge_obj kvs (obj kvs'))"
proof -
  have "merge_obj kvs (obj kvs') = obj (kvs @ kvs')" by (simp add: merge_obj_def obj_def)
  then show "plain (obj kvs') \<Longrightarrow> \<forall>(k, v) \<in> set kvs. plain v \<Longrightarrow> plain (merge_obj kvs (obj kvs'))"
    by (auto simp: plain_obj)
qed

definition can_sign :: "platform \<Rightarrow> key_provider \<Rightarrow> string \<Rightarrow> key_purpose \<Rightarrow> instant \<Rightarrow> bool" where
  \<comment> \<open>the provider holds an active key of this purpose at this instant\<close>
  "can_sign P ks kid purpose t \<longleftrightarrow> (\<exists>r sk. get_key_record ks kid = Some r \<and> kr_purpose r = purpose
     \<and> permits_signing_at r t \<and> dict_get (kp_private_keys ks) kid = Some sk)"

lemma can_sign_ok:
  assumes "can_sign P ks kid (purpose_by_artifact ty) t" "plain payload"
  shows "\<exists>env. sign_artifact P ks ty payload kid (Aware t) = Inr env"
proof -
  from assms(1) obtain r sk where "get_key_record ks kid = Some r" "kr_purpose r = purpose_by_artifact ty"
    "permits_signing_at r t" "dict_get (kp_private_keys ks) kid = Some sk"
    unfolding can_sign_def by blast
  then show ?thesis
    using sign_artifact_ok [of ks kid r ty P "Aware t" payload sk] assms(2)
    by (auto simp: astimezone_utc_def)
qed

definition filled :: "pyval \<Rightarrow> bool" where
  \<comment> \<open>a string with a non-blank character\<close>
  "filled v \<longleftrightarrow> (case v of PyStr s \<Rightarrow> strip s \<noteq> [] | _ \<Rightarrow> False)"

lemma authority_text_filled: "filled v \<Longrightarrow> \<exists>s. authority_text n v = Inr s"
  by (auto simp: filled_def authority_text_def split: pyval.splits)

lemma issue_sender_authority_ok:
  assumes w: "issued = astimezone_utc P at" "expiry = astimezone_utc P exp" "issued < expiry"
      "expiry \<le> issued + from_epoch max_authority_seconds"
    and f: "filled (sr_utt_id q)" "filled (sr_quote_id q)" "filled (sr_sender_actor_type q)"
      "filled (sr_sender_reference q)" "filled (sr_currency q)" "filled (sr_authorization_method q)"
      "filled (sr_authorization_reference q)"
    and a: "sr_amount_minor q = PyInt amount" "0 < amount"
    and o: "sr_origin_context q = PyDict kvs" "plain (PyDict kvs)"
    and k: "can_sign P ks kid EXECUTION_SIGNING issued"
  shows "\<exists>env. issue_sender_authority P ks q kid at exp = Inr env"
proof -
  let ?txt = "\<lambda>n f. authority_text n (f q)"
  obtain utt quote atype ref cur meth aref where t:
    "?txt ''utt_id'' sr_utt_id = Inr utt" "?txt ''quote_id'' sr_quote_id = Inr quote"
    "?txt ''sender_actor_type'' sr_sender_actor_type = Inr atype"
    "?txt ''sender_reference'' sr_sender_reference = Inr ref" "?txt ''currency'' sr_currency = Inr cur"
    "?txt ''authorization_method'' sr_authorization_method = Inr meth"
    "?txt ''authorization_reference'' sr_authorization_reference = Inr aref"
    using f by (meson authority_text_filled)
  define core where "core = [(''utt_id'', PyStr utt), (''quote_id'', PyStr quote), (''sender_actor_type'', PyStr atype),
         (''sender_reference'', PyStr ref), (''amount_minor'', PyInt amount),
         (''currency'', PyStr (upper cur)), (''origin_context'', PyDict kvs),
         (''authorization_method'', PyStr meth), (''authorization_reference'', PyStr aref),
         (''authorized_at'', PyInt (epoch issued)), (''expires_at'', PyInt (epoch expiry)),
         (''authority_scope'', PyStr ''EXECUTE_UTT''), (''custody_model'', PyStr ''NON_CUSTODIAL''),
         (''status'', PyStr ''ACTIVE'')]"
  have p: "plain (obj core)" using o(2) by (simp add: core_def plain_obj)
  obtain i where i: "content_id ''ETKS'' (obj core) = Inr i" using content_id_ok [OF p] by blast
  have "plain (merge_obj [(''etk_s_id'', PyStr i)] (obj core))" using p by (simp add: plain_merge_obj)
  with k obtain env where "sign_artifact P ks ETK_S (merge_obj [(''etk_s_id'', PyStr i)] (obj core)) kid (Aware issued) = Inr env"
    using can_sign_ok [of P ks kid ETK_S issued] by auto
  with i t have "issue_sender_authority P ks q kid at exp = Inr env"
    using w a o(1)
    by (simp add: issue_sender_authority_def validate_window_def strict_int_def dict_copy_def core_def)
  then show ?thesis by blast
qed

text \<open>
  A sender authority is bounded: an issued ETK-S is a signed envelope whose window is positive
  and at most 15 minutes, whose amount is a positive integer, and whose UTT, quote, currency and
  amount are those of the request; and a complete request with an active execution key always
  yields one.
\<close>

theorem sender_authority_bounded:
  "(issue_sender_authority P ks q kid at exp = Inr env \<longrightarrow>
      sender_authority_ok P q (astimezone_utc P at) (astimezone_utc P exp) (env_payload env)
      \<and> py_get (env_protected env) ''typ'' = PyStr (artifact_value ETK_S))
   \<and> (astimezone_utc P at < astimezone_utc P exp
      \<and> astimezone_utc P exp \<le> astimezone_utc P at + from_epoch max_authority_seconds
      \<and> filled (sr_utt_id q) \<and> filled (sr_quote_id q) \<and> filled (sr_sender_actor_type q)
      \<and> filled (sr_sender_reference q) \<and> filled (sr_currency q) \<and> filled (sr_authorization_method q)
      \<and> filled (sr_authorization_reference q) \<and> sr_amount_minor q = PyInt amount \<and> 0 < amount
      \<and> sr_origin_context q = PyDict kvs \<and> plain (PyDict kvs)
      \<and> can_sign P ks kid EXECUTION_SIGNING (astimezone_utc P at)
      \<longrightarrow> (\<exists>env. issue_sender_authority P ks q kid at exp = Inr env))"
proof (intro conjI impI; (elim conjE)?)
  assume a: "issue_sender_authority P ks q kid at exp = Inr env"
  from issue_sender_authorityD [OF a]
  show "sender_authority_ok P q (astimezone_utc P at) (astimezone_utc P exp) (env_payload env)"
    by (rule conjunct1)
  from issue_sender_authorityD [OF a] show "py_get (env_protected env) ''typ'' = PyStr (artifact_value ETK_S)"
    by (auto elim!: sign_artifactD)
qed (rule issue_sender_authority_ok; (rule refl)?; assumption)

definition demo_sender_request :: sender_request where
  "demo_sender_request = \<lparr>sr_utt_id = PyStr ''UTT-1'', sr_quote_id = PyStr ''Q-1'', sr_sender_actor_type = PyStr ''USER'',
     sr_sender_reference = PyStr ''alice'', sr_amount_minor = PyInt 500, sr_currency = PyStr ''KES'',
     sr_origin_context = PyDict [(PyStr ''origin_system'', PyStr ''APP'')],
     sr_authorization_method = PyStr ''PIN'', sr_authorization_reference = PyStr ''ref''\<rparr>"

lemma demo_can_sign:
  "0 \<le> t \<Longrightarrow> t < from_epoch 2000000000 \<Longrightarrow> can_sign demo_platform demo_keys ''ke'' EXECUTION_SIGNING t"
  by (auto simp: can_sign_def permits_signing_at_def from_epoch_def)

lemma demo_sender_issued:
  "\<exists>env. issue_sender_authority demo_platform demo_keys demo_sender_request ''ke'' (Aware 7000000) (Aware 607000000) = Inr env"
  by (rule issue_sender_authority_ok)
     (auto simp: demo_sender_request_def filled_def max_authority_seconds_def from_epoch_def astimezone_utc_def
        strip_def is_space_def Let_def intro!: demo_can_sign)

theorem sender_authority_bounded_witness:
  "\<exists>env. issue_sender_authority demo_platform demo_keys demo_sender_request ''ke'' (Aware 7000000) (Aware 607000000) = Inr env
     \<and> sender_authority_ok demo_platform demo_sender_request 7000000 607000000 (env_payload env)"
  using demo_sender_issued
    sender_authority_bounded [of demo_platform demo_keys demo_sender_request "''ke''" "Aware 7000000" "Aware 607000000"]
  by (auto simp: astimezone_utc_def)

lemma signed_now_verifies:
  assumes "ed25519_correct P" "kp_inv P ks" "sign_artifact P ks ty payload kid (Aware (from_epoch n)) = Inr env"
    and "kid \<noteq> []" "0 \<le> n" "n < 253402300800"
  shows "verify_artifact P ks env (Some ty) False =
    Inr \<lparr>vr_valid = True, vr_reason = ''VALID'', vr_key_id = Some kid, vr_artifact_type = Some ty\<rparr>"
proof -
  from assms(3) obtain r where r: "get_key_record ks kid = Some r" "permits_signing_at r (from_epoch n)"
    by (rule sign_artifactD) (auto simp: astimezone_utc_def)
  then have "kr_not_before r \<le> from_epoch n" by (simp add: permits_signing_at_def)
  moreover have "0 \<le> from_epoch n" "from_epoch n < from_epoch 253402300800"
    using assms(5,6) by (simp_all add: from_epoch_def)
  ultimately show ?thesis
    using signed_envelope_verifies [OF assms(1,2,3,4) r(1)] by (simp add: astimezone_utc_def)
qed

definition demo_receiver_request :: receiver_request where
  "demo_receiver_request = \<lparr>rq_receiver_actor_type = PyStr ''USER'', rq_receiver_reference = PyStr ''bob'',
     rq_participation_mode = PASSIVE_CREDIT, rq_evidence_reference = PyStr ''ev''\<rparr>"

lemma demo_receiver_issued:
  assumes "issue_sender_authority demo_platform demo_keys demo_sender_request ''ke'' (Aware 7000000) (Aware 607000000) = Inr se"
  shows "\<exists>env. issue_receiver_participation demo_platform demo_keys se demo_receiver_request ''ke''
    (Aware 8000000) (Aware 600000000) = Inr env"
proof -
  from issue_sender_authorityD [OF assms] obtain payload where
    ok: "sender_authority_ok demo_platform demo_sender_request 7000000 607000000 (env_payload se)"
    and sg: "sign_artifact demo_platform demo_keys ETK_S payload ''ke'' (Aware (from_epoch 7)) = Inr se"
    by (auto simp: astimezone_utc_def from_epoch_def)
  have v: "verify_artifact demo_platform demo_keys se (Some ETK_S) False =
    Inr \<lparr>vr_valid = True, vr_reason = ''VALID'', vr_key_id = Some ''ke'', vr_artifact_type = Some ETK_S\<rparr>"
    using signed_now_verifies [OF demo_correct demo_keys_inv sg] by simp
  from ok obtain i where f: "pget (env_payload se) ''utt_id'' = Some (PyStr (strip ''UTT-1''))"
    "pget (env_payload se) ''amount_minor'' = Some (PyInt 500)"
    "pget (env_payload se) ''currency'' = Some (PyStr (upper (strip ''KES'')))"
    "pget (env_payload se) ''expires_at'' = Some (PyInt 607)"
    "pget (env_payload se) ''etk_s_id'' = Some (PyStr (''ETKS-'' @ i))"
    by (auto simp: sender_authority_ok_def demo_sender_request_def epoch_def)
  then have g: "py_item (env_payload se) ''utt_id'' = Inr (PyStr (strip ''UTT-1''))"
    "py_item (env_payload se) ''amount_minor'' = Inr (PyInt 500)"
    "py_item (env_payload se) ''currency'' = Inr (PyStr (upper (strip ''KES'')))"
    "py_item (env_payload se) ''expires_at'' = Inr (PyInt 607)"
    "py_item (env_payload se) ''etk_s_id'' = Inr (PyStr (''ETKS-'' @ i))"
    by (simp_all add: py_item_Inr)
  define core where "core =
       [(''utt_id'', PyStr (strip ''UTT-1'')), (''etk_s_id'', PyStr (''ETKS-'' @ i)), (''receiver_actor_type'', PyStr ''USER''),
        (''receiver_reference'', PyStr ''bob''),
        (''participation_mode'', PyStr ''PASSIVE_CREDIT''), (''receiver_confirmed'', PyBool False),
        (''evidence_reference'', PyStr ''ev''), (''amount_minor'', PyInt 500), (''currency'', PyStr (upper (strip ''KES''))),
        (''attested_at'', PyInt 8), (''expires_at'', PyInt 600),
        (''custody_model'', PyStr ''NON_CUSTODIAL''), (''status'', PyStr ''ACTIVE'')]"
  have p: "plain (obj core)" by (simp add: core_def plain_obj)
  obtain j where j: "content_id ''ETKR'' (obj core) = Inr j" using content_id_ok [OF p] by blast
  have "plain (merge_obj [(''etk_r_id'', PyStr j)] (obj core))" using p by (simp add: plain_merge_obj)
  then obtain env where e: "sign_artifact demo_platform demo_keys ETK_R (merge_obj [(''etk_r_id'', PyStr j)] (obj core))
      ''ke'' (Aware 8000000) = Inr env"
    using can_sign_ok [of demo_platform demo_keys "''ke''" ETK_R 8000000] demo_can_sign [of 8000000]
    by (auto simp: from_epoch_def)
  have t: "authority_text n (PyStr s) = Inr s" if "strip s = s" "s \<noteq> []" for n s
    using that by (simp add: authority_text_def)
  have st: "strip ''USER'' = ''USER''" "strip ''bob'' = ''bob''" "strip ''ev'' = ''ev''" by code_simp+
  have w: "validate_window 8000000 600000000 = Inr ()"
    by (simp add: validate_window_def max_authority_seconds_def from_epoch_def)
  show ?thesis
    unfolding issue_receiver_participation_def Let_def v using g w j e
    by (simp add: astimezone_utc_def demo_receiver_request_def t st int_operand_def epoch_def
          receiver_confirmed_def core_def)
qed

theorem receiver_within_sender_witness:
  "\<exists>se env n. issue_receiver_participation demo_platform demo_keys se demo_receiver_request ''ke''
      (Aware 8000000) (Aware 600000000) = Inr env
    \<and> pget (env_payload env) ''expires_at'' = Some (PyInt 600) \<and> 600 \<le> n
    \<and> (\<exists>sexp. pget (env_payload se) ''expires_at'' = Some sexp \<and> as_int sexp = Some n)"
proof -
  obtain se where "issue_sender_authority demo_platform demo_keys demo_sender_request ''ke'' (Aware 7000000) (Aware 607000000) = Inr se"
    using demo_sender_issued by blast
  from demo_receiver_issued [OF this] obtain env where e:
    "issue_receiver_participation demo_platform demo_keys se demo_receiver_request ''ke'' (Aware 8000000) (Aware 600000000) = Inr env"
    by blast
  from receiver_within_sender [OF e] e show ?thesis by (auto simp: astimezone_utc_def epoch_def)
qed

end
