(* ===== verification/Quote_Service.thy ===== *)
theory Quote_Service
  imports Authority
begin

text \<open>
  Issue of signed, expiring quotes (\<^verbatim>\<open>railone_contracts/quote_service.py\<close>).  The endpoint validator
  is the service's collaborator: a function, absent only when unverified endpoints were
  explicitly allowed.
\<close>

record quote_service =
  qs_endpoints :: "validator option"
  qs_allow_unverified :: bool

definition max_quote_ttl_seconds :: int where
  "max_quote_ttl_seconds = 5 * 60"

definition is_naive :: "datetime \<Rightarrow> bool" where
  \<comment> \<open>\<^verbatim>\<open>value.tzinfo is None\<close>\<close>
  "is_naive d = (case d of Naive _ \<Rightarrow> True | Aware _ \<Rightarrow> False)"

definition check_endpoints :: "quote_service \<Rightarrow> quote_terms \<Rightarrow> unit res" where
  "check_endpoints qs terms =
     (case qs_endpoints qs of
        None \<Rightarrow> guard_res (\<not> qs_allow_unverified qs) RuntimeError ''partner endpoint validator is required''
      | Some vep \<Rightarrow>
          rbind (vep (ac_actor_id (qt_payer terms)) (ac_endpoint (qt_payer terms)) DEBIT
                   (qt_currency_from terms)) (\<lambda>_.
          vep (ac_actor_id (qt_beneficiary terms)) (ac_endpoint (qt_beneficiary terms)) CREDIT
                   (qt_currency_to terms)))"

definition add_fields :: "pyval \<Rightarrow> (string \<times> pyval) list \<Rightarrow> pyval" where
  \<comment> \<open>\<^verbatim>\<open>{**d, k: v, ...}\<close> with keys that are not in \<^verbatim>\<open>d\<close>\<close>
  "add_fields d kvs = (case d of PyDict its \<Rightarrow> PyDict (its @ map (\<lambda>(k, v). (PyStr k, v)) kvs) | _ \<Rightarrow> d)"

definition issue_quote ::
  "platform \<Rightarrow> key_provider \<Rightarrow> quote_service \<Rightarrow> quote_terms \<Rightarrow> string \<Rightarrow> datetime \<Rightarrow> datetime \<Rightarrow> envelope res" where
  "issue_quote P ks qs terms signing_key_id issued_at expires_at =
     rbind (guard_res (is_naive issued_at \<or> is_naive expires_at) ValueError
              ''quote timestamps must be timezone-aware'') (\<lambda>_.
     let issued = astimezone_utc P issued_at; expiry = astimezone_utc P expires_at in
     rbind (guard_res (expiry - issued \<le> 0) ValueError ''quote expiry must be after issuance'') (\<lambda>_.
     rbind (guard_res (expiry - issued > from_epoch max_quote_ttl_seconds) ValueError
              ''quote TTL exceeds pilot maximum'') (\<lambda>_.
     rbind (quote_terms_to_payload terms) (\<lambda>terms_payload.
     rbind (check_endpoints qs terms) (\<lambda>_.
     let core = add_fields terms_payload
           [(''issued_at'', PyInt (epoch issued)), (''expires_at'', PyInt (epoch expiry))] in
     rbind (content_id ''Q'' core) (\<lambda>quote_id.
     sign_artifact P ks QUOTE (merge_obj [(''quote_id'', PyStr quote_id)] core)
       signing_key_id (Aware issued)))))))"

section \<open>What an issued quote guarantees\<close>

lemma issue_quote_core:
  assumes "issue_quote P ks qs terms kid at exp = Inr env"
  obtains tp core i where "\<not> is_naive at" "\<not> is_naive exp" "astimezone_utc P at < astimezone_utc P exp"
    "astimezone_utc P exp \<le> astimezone_utc P at + from_epoch max_quote_ttl_seconds"
    "quote_terms_to_payload terms = Inr tp" "check_endpoints qs terms = Inr ()"
    "core = add_fields tp [(''issued_at'', PyInt (epoch (astimezone_utc P at))),
        (''expires_at'', PyInt (epoch (astimezone_utc P exp)))]"
    "content_id ''Q'' core = Inr i"
    "sign_artifact P ks QUOTE (merge_obj [(''quote_id'', PyStr i)] core) kid (Aware (astimezone_utc P at)) = Inr env"
  using assms unfolding issue_quote_def Let_def
  by (elim rbind_InrE) (simp add: guard_res_eq_Inr)

lemma quote_terms_payload_obj:
  assumes "quote_terms_to_payload q = Inr p"
  obtains kvs where "p = obj kvs" "map_of kvs ''issued_at'' = None" "map_of kvs ''expires_at'' = None"
    "map_of kvs ''quote_id'' = None" "map_of kvs ''amount_minor'' = Some (PyInt (qt_amount_minor q))"
    "map_of kvs ''total_fee_minor'' = Some (PyInt (qt_total_fee_minor q))"
    "map_of kvs ''routing_budget_minor'' = Some (PyInt (qt_routing_budget_minor q))"
    "map_of kvs ''max_attempts'' = Some (PyInt (qt_max_attempts q))"
    "map_of kvs ''purpose'' = Some (PyStr (purpose_value (qt_purpose q)))"
  using assms unfolding quote_terms_to_payload_def
  apply (elim rbind_InrE)
  apply (simp only: sum.inject)
  apply (rule that, erule sym)
  by (simp_all add: require_minor_units_Inr)

lemma add_fields_obj: "add_fields (obj kvs) kvs' = obj (kvs @ kvs')"
  by (simp add: add_fields_def obj_def)

definition quote_ok :: "quote_terms \<Rightarrow> instant \<Rightarrow> instant \<Rightarrow> pyval \<Rightarrow> bool" where
  \<comment> \<open>the terms a quote payload carries\<close>
  "quote_ok q issued expiry p \<longleftrightarrow>
     pget p ''amount_minor'' = Some (PyInt (qt_amount_minor q))
     \<and> pget p ''total_fee_minor'' = Some (PyInt (qt_total_fee_minor q))
     \<and> pget p ''routing_budget_minor'' = Some (PyInt (qt_routing_budget_minor q))
     \<and> pget p ''max_attempts'' = Some (PyInt (qt_max_attempts q))
     \<and> pget p ''purpose'' = Some (PyStr (purpose_value (qt_purpose q)))
     \<and> pget p ''issued_at'' = Some (PyInt (epoch issued))
     \<and> pget p ''expires_at'' = Some (PyInt (epoch expiry))
     \<and> issued < expiry \<and> expiry \<le> issued + from_epoch max_quote_ttl_seconds
     \<and> (\<exists>h. pget p ''quote_id'' = Some (PyStr (''Q-'' @ h)) \<and> length h = 32)"

lemma issue_quote_payload:
  assumes "issue_quote P ks qs terms kid at exp = Inr env"
  shows "quote_ok terms (astimezone_utc P at) (astimezone_utc P exp) (env_payload env)
    \<and> terms_ok terms \<and> check_endpoints qs terms = Inr ()"
proof -
  from assms obtain tp core i where w: "astimezone_utc P at < astimezone_utc P exp"
      "astimezone_utc P exp \<le> astimezone_utc P at + from_epoch max_quote_ttl_seconds"
    and tp: "quote_terms_to_payload terms = Inr tp" and ce: "check_endpoints qs terms = Inr ()"
    and core: "core = add_fields tp [(''issued_at'', PyInt (epoch (astimezone_utc P at))),
        (''expires_at'', PyInt (epoch (astimezone_utc P exp)))]"
    and i: "content_id ''Q'' core = Inr i"
    and s: "sign_artifact P ks QUOTE (merge_obj [(''quote_id'', PyStr i)] core) kid (Aware (astimezone_utc P at)) = Inr env"
    by (rule issue_quote_core)
  from tp obtain kvs where kvs: "tp = obj kvs" "map_of kvs ''issued_at'' = None" "map_of kvs ''expires_at'' = None"
    "map_of kvs ''amount_minor'' = Some (PyInt (qt_amount_minor terms))"
    "map_of kvs ''total_fee_minor'' = Some (PyInt (qt_total_fee_minor terms))"
    "map_of kvs ''routing_budget_minor'' = Some (PyInt (qt_routing_budget_minor terms))"
    "map_of kvs ''max_attempts'' = Some (PyInt (qt_max_attempts terms))"
    "map_of kvs ''purpose'' = Some (PyStr (purpose_value (qt_purpose terms)))"
    by (rule quote_terms_payload_obj)
  obtain h where h: "i = ''Q-'' @ h" "length h = 32" using content_id_form [OF i] by auto
  have "terms_ok terms" using tp quote_terms_accepts by blast
  then show ?thesis
    using w ce kvs h issued_payload [OF s [unfolded core kvs(1) add_fields_obj]]
    by (simp add: quote_ok_def map_add_def)
qed

text \<open>
  An issued quote is bounded and honest: it lives at most five minutes, its payload carries
  exactly the requested amount, fee, budget, attempt limit and purpose, the amounts are positive,
  the routing budget is covered by the fee, one to ten attempts are allowed; and with a partner
  directory as validator both accounts are eligible bindings of their actors in the quoted
  currencies, debit side and credit side being different bindings.
\<close>

theorem issue_quote_sound:
  assumes "issue_quote P ks \<lparr>qs_endpoints = Some (validate_endpoint d), qs_allow_unverified = al\<rparr>
             terms kid at exp = Inr env"
  shows "quote_ok terms (astimezone_utc P at) (astimezone_utc P exp) (env_payload env)
    \<and> terms_ok terms
    \<and> eligible_binding d (ac_actor_id (qt_payer terms)) (ac_endpoint (qt_payer terms)) DEBIT (qt_currency_from terms)
    \<and> eligible_binding d (ac_actor_id (qt_beneficiary terms)) (ac_endpoint (qt_beneficiary terms)) CREDIT (qt_currency_to terms)
    \<and> ep_account_binding_id (ac_endpoint (qt_payer terms)) \<noteq> ep_account_binding_id (ac_endpoint (qt_beneficiary terms))"
proof -
  have v: "validate_endpoint d (ac_actor_id (qt_payer terms)) (ac_endpoint (qt_payer terms)) DEBIT (qt_currency_from terms) = Inr ()"
    "validate_endpoint d (ac_actor_id (qt_beneficiary terms)) (ac_endpoint (qt_beneficiary terms)) CREDIT (qt_currency_to terms) = Inr ()"
    using issue_quote_payload [OF assms] by (auto simp: check_endpoints_def rbind_eq_Inr)
  then show ?thesis
    using issue_quote_payload [OF assms] directory.debit_credit_distinct [OF v]
    by (simp add: validate_endpoint_iff)
qed

lemma issue_quote_ok:
  assumes "terms_ok terms" "check_endpoints qs terms = Inr ()" "can_sign P ks kid QUOTE_SIGNING t"
    and "t < t'" "t' \<le> t + from_epoch max_quote_ttl_seconds"
  shows "\<exists>env. issue_quote P ks qs terms kid (Aware t) (Aware t') = Inr env"
proof -
  obtain tp where tp: "quote_terms_to_payload terms = Inr tp" using assms(1) quote_terms_accepts by blast
  from tp obtain kvs where kvs: "tp = obj kvs" by (rule quote_terms_payload_obj)
  let ?x = "[(''issued_at'', PyInt (epoch t)), (''expires_at'', PyInt (epoch t'))]"
  have p: "plain (obj (kvs @ ?x))"
    using quote_terms_payload_plain [OF tp] by (auto simp: kvs plain_obj)
  obtain i where i: "content_id ''Q'' (obj (kvs @ ?x)) = Inr i" using content_id_ok [OF p] by blast
  have "plain (merge_obj [(''quote_id'', PyStr i)] (obj (kvs @ ?x)))" using p by (simp add: plain_merge_obj)
  then obtain env where "sign_artifact P ks QUOTE (merge_obj [(''quote_id'', PyStr i)] (obj (kvs @ ?x))) kid (Aware t) = Inr env"
    using can_sign_ok [of P ks kid QUOTE] assms(3) by auto
  with i tp kvs assms(2,4,5) show ?thesis
    by (simp add: issue_quote_def is_naive_def astimezone_utc_def add_fields_obj)
qed

definition demo_terms :: quote_terms where
  "demo_terms = \<lparr>qt_request_id = ''req'',
     qt_payer = \<lparr>ac_actor_type = ''user'', ac_actor_id = ''alice'', ac_endpoint = demo_endpoint ''BD'' DEBIT, ac_display_name = None\<rparr>,
     qt_beneficiary = \<lparr>ac_actor_type = ''user'', ac_actor_id = ''bob'', ac_endpoint = demo_endpoint ''BC'' CREDIT, ac_display_name = Some ''Bob''\<rparr>,
     qt_purpose = PERSON_TO_PERSON, qt_amount_minor = 500, qt_currency_from = ''kes'', qt_receive_amount_minor = 490,
     qt_currency_to = ''KES'', qt_total_fee_minor = 10, qt_routing_budget_minor = 5, qt_fx_rate = ''1.0'',
     qt_corridor_id = ''KE-KE'', qt_service_level = ''STD'', qt_routing_policy_id = ''rp'', qt_pricing_version = ''v1'',
     qt_max_attempts = 2\<rparr>"

lemma demo_terms_ok: "terms_ok demo_terms"
proof -
  have fx: "decimal_sign (strip ''1.0'') = Some 1" by code_simp
  have ti: "title (strip ''user'') = ''User''" by code_simp
  show ?thesis unfolding terms_ok_def demo_terms_def
    using fx ti by (simp add: actor_ok_def endpoint_ok_def demo_endpoint_def text_ok_def strip_def is_space_def Let_def)
qed

definition demo_quotes :: quote_service where
  "demo_quotes = \<lparr>qs_endpoints = Some (validate_endpoint demo_directory), qs_allow_unverified = False\<rparr>"

lemma demo_quote_issued:
  "\<exists>env. issue_quote demo_platform demo_keys demo_quotes demo_terms ''kq'' (Aware 5000000) (Aware 205000000) = Inr env"
proof (rule issue_quote_ok [OF demo_terms_ok])
  show "check_endpoints demo_quotes demo_terms = Inr ()"
    using demo_eligible by (simp add: check_endpoints_def demo_quotes_def demo_terms_def flip: validate_endpoint_iff)
  show "can_sign demo_platform demo_keys ''kq'' QUOTE_SIGNING 5000000"
    by (auto simp: can_sign_def permits_signing_at_def from_epoch_def)
qed (simp_all add: max_quote_ttl_seconds_def from_epoch_def)

theorem issue_quote_sound_witness:
  "\<exists>env. issue_quote demo_platform demo_keys demo_quotes demo_terms ''kq'' (Aware 5000000) (Aware 205000000) = Inr env
     \<and> quote_ok demo_terms 5000000 205000000 (env_payload env)"
proof -
  obtain env where e: "issue_quote demo_platform demo_keys demo_quotes demo_terms ''kq'' (Aware 5000000) (Aware 205000000) = Inr env"
    using demo_quote_issued by blast
  from issue_quote_sound [OF e [unfolded demo_quotes_def]] e show ?thesis by (auto simp: astimezone_utc_def)
qed

end
