(* ===== verification/Contract_Store.thy ===== *)
theory Contract_Store
  imports Store_Interfaces Quote_Service
begin

text \<open>
  Persistence of accepted contracts (\<^verbatim>\<open>railone_contracts/store.py\<close>): the reference store's three
  dictionaries and its atomic commit.  The store is a write-once store keyed by idempotency key,
  with the request hash deciding between replay and conflict.
\<close>

record accepted_contract =
  ct_signed_utt :: envelope
  ct_sender_authority :: envelope
  ct_quote_id :: string
  ct_utt_id :: string
  ct_request_sha256 :: string
  ct_accepted_at :: instant

record contract_store =
  cs_idempotency :: "(string, accepted_contract) dict"
  cs_quote_to_utt :: "(string, string) dict"
  cs_utts :: "(string, envelope) dict"

definition empty_contract_store :: contract_store where
  "empty_contract_store = \<lparr>cs_idempotency = [], cs_quote_to_utt = [], cs_utts = []\<rparr>"

definition idempotency_conflict :: error where
  "idempotency_conflict = Raise IdempotencyConflictError
     ''idempotency key was already used for different request material''"

definition resolve_idempotency :: "string \<Rightarrow> string \<Rightarrow> contract_store \<Rightarrow> accepted_contract option res" where
  "resolve_idempotency key sha s =
     (case dict_get (cs_idempotency s) key of
        None \<Rightarrow> Inr None
      | Some existing \<Rightarrow>
          if ct_request_sha256 existing \<noteq> sha then Inl idempotency_conflict else Inr (Some existing))"

definition commit_acceptance ::
  "string \<Rightarrow> accepted_contract \<Rightarrow> (contract_store, accepted_contract \<times> bool) st" where
  "commit_acceptance key c s =
     (case dict_get (cs_idempotency s) key of
        Some existing \<Rightarrow>
          if ct_request_sha256 existing \<noteq> ct_request_sha256 c then (Inl idempotency_conflict, s)
          else (Inr (existing, True), s)
      | None \<Rightarrow>
         (case dict_get (cs_quote_to_utt s) (ct_quote_id c) of
            Some prior \<Rightarrow> (Inl (Raise QuoteAlreadyAcceptedError (''quote already accepted as '' @ prior)), s)
          | None \<Rightarrow>
              if dict_has (cs_utts s) (ct_utt_id c)
              then (Inl (Raise RuntimeError ''UTT identifier collision''), s)
              else (Inr (c, False),
                 s\<lparr>cs_utts := dict_set (ct_utt_id c) (ct_signed_utt c) (cs_utts s),
                   cs_quote_to_utt := dict_set (ct_quote_id c) (ct_utt_id c) (cs_quote_to_utt s),
                   cs_idempotency := dict_set key c (cs_idempotency s)\<rparr>)))"

definition require_utt :: "string \<Rightarrow> contract_store \<Rightarrow> envelope res" where
  "require_utt utt_id s =
     (case dict_get (cs_utts s) utt_id of
        None \<Rightarrow> Inl (Raise UttNotFoundError (''persisted UTT not found: '' @ utt_id))
      | Some utt \<Rightarrow> Inr utt)"

section \<open>The store contract\<close>

text \<open>
  \<open>contract_store_api\<close> is the \<^verbatim>\<open>ContractStore\<close> protocol as the acceptance service sees it: a
  write-once store whose \<open>resolve\<close> agrees with its commit.
\<close>

locale contract_store_api =
  write_once lookup commit "\<lambda>a b. ct_request_sha256 a = ct_request_sha256 b"
  for lookup :: "'s \<Rightarrow> string \<Rightarrow> accepted_contract option"
    and commit :: "string \<Rightarrow> accepted_contract \<Rightarrow> ('s, accepted_contract \<times> bool) st" +
  fixes resolve :: "string \<Rightarrow> string \<Rightarrow> 's \<Rightarrow> accepted_contract option res"
  assumes resolve_none: "lookup s k = None \<Longrightarrow> resolve k h s = Inr None"
    and resolve_replay: "lookup s k = Some c \<Longrightarrow> ct_request_sha256 c = h \<Longrightarrow> resolve k h s = Inr (Some c)"
    and resolve_conflict: "lookup s k = Some c \<Longrightarrow> ct_request_sha256 c \<noteq> h \<Longrightarrow> \<exists>m. resolve k h s = Inl (Raise IdempotencyConflictError m)"

interpretation mem: contract_store_api "\<lambda>s. dict_get (cs_idempotency s)" commit_acceptance resolve_idempotency
proof unfold_locales
  fix s :: contract_store and k v w rep s'
  assume "dict_get (cs_idempotency s) k = None" "commit_acceptance k v s = (Inr (w, rep), s')"
  then show "w = v \<and> \<not> rep \<and> dict_get (cs_idempotency s') = (dict_get (cs_idempotency s))(k \<mapsto> v)"
    by (auto simp: commit_acceptance_def update_conv' split: option.splits if_splits)
next
  fix s :: contract_store and k v e s'
  assume "commit_acceptance k v s = (Inl e, s')"
  then show "s' = s" by (auto simp: commit_acceptance_def split: option.splits if_splits)
qed (auto simp: commit_acceptance_def resolve_idempotency_def idempotency_conflict_def)

section \<open>Invariant\<close>

definition contracts_inv :: "contract_store \<Rightarrow> bool" where
  "contracts_inv s \<longleftrightarrow>
     dict_ok (cs_idempotency s) \<and> dict_ok (cs_quote_to_utt s) \<and> dict_ok (cs_utts s)
     \<and> (\<forall>k c. dict_get (cs_idempotency s) k = Some c \<longrightarrow>
          dict_get (cs_quote_to_utt s) (ct_quote_id c) = Some (ct_utt_id c)
          \<and> dict_get (cs_utts s) (ct_utt_id c) = Some (ct_signed_utt c))
     \<and> (\<forall>q u. dict_get (cs_quote_to_utt s) q = Some u \<longrightarrow>
          (\<exists>k c. dict_get (cs_idempotency s) k = Some c \<and> ct_quote_id c = q \<and> ct_utt_id c = u))
     \<and> (\<forall>q q' u. dict_get (cs_quote_to_utt s) q = Some u \<longrightarrow> dict_get (cs_quote_to_utt s) q' = Some u \<longrightarrow> q = q')
     \<and> (\<forall>u e. dict_get (cs_utts s) u = Some e \<longrightarrow> (\<exists>q. dict_get (cs_quote_to_utt s) q = Some u))"

lemma contracts_inv_empty: "contracts_inv empty_contract_store"
  by (simp add: contracts_inv_def empty_contract_store_def)

lemma commit_acceptance_fresh:
  assumes "commit_acceptance k c s = (Inr (w, rep), s')" "\<not> rep"
  shows "w = c \<and> dict_get (cs_idempotency s) k = None \<and> dict_get (cs_quote_to_utt s) (ct_quote_id c) = None
    \<and> dict_get (cs_utts s) (ct_utt_id c) = None
    \<and> s' = s\<lparr>cs_utts := dict_set (ct_utt_id c) (ct_signed_utt c) (cs_utts s),
             cs_quote_to_utt := dict_set (ct_quote_id c) (ct_utt_id c) (cs_quote_to_utt s),
             cs_idempotency := dict_set k c (cs_idempotency s)\<rparr>"
  using assms by (auto simp: commit_acceptance_def split: option.splits if_splits)

lemma commit_acceptance_replay:
  assumes "commit_acceptance k c s = (Inr (w, True), s')"
  shows "s' = s \<and> dict_get (cs_idempotency s) k = Some w \<and> ct_request_sha256 w = ct_request_sha256 c"
  using assms by (auto simp: commit_acceptance_def split: option.splits if_splits)

lemma contracts_inv_commit:
  assumes inv: "contracts_inv s" and c: "commit_acceptance k c s = (r, s')"
  shows "contracts_inv s'"
proof (cases "\<exists>w. r = Inr (w, False)")
  case True
  then obtain w where "r = Inr (w, False)" ..
  then have f: "dict_get (cs_idempotency s) k = None" "dict_get (cs_quote_to_utt s) (ct_quote_id c) = None"
    "dict_get (cs_utts s) (ct_utt_id c) = None"
    and s': "s' = s\<lparr>cs_utts := dict_set (ct_utt_id c) (ct_signed_utt c) (cs_utts s),
             cs_quote_to_utt := dict_set (ct_quote_id c) (ct_utt_id c) (cs_quote_to_utt s),
             cs_idempotency := dict_set k c (cs_idempotency s)\<rparr>"
    using commit_acceptance_fresh c by blast+
  have g: "dict_get (cs_quote_to_utt s') q = (if q = ct_quote_id c then Some (ct_utt_id c) else dict_get (cs_quote_to_utt s) q)"
    "dict_get (cs_utts s') u = (if u = ct_utt_id c then Some (ct_signed_utt c) else dict_get (cs_utts s) u)"
    "dict_get (cs_idempotency s') k' = (if k' = k then Some c else dict_get (cs_idempotency s) k')" for q u k'
    by (simp_all add: s')
  have nu: "dict_get (cs_quote_to_utt s) q \<noteq> Some (ct_utt_id c)" for q
    using inv f(3) unfolding contracts_inv_def by (metis option.distinct(1))
  have nq: "dict_get (cs_idempotency s) k' = Some c' \<Longrightarrow> ct_quote_id c' \<noteq> ct_quote_id c \<and> ct_utt_id c' \<noteq> ct_utt_id c" for k' c'
    using inv f(2,3) unfolding contracts_inv_def by (metis option.distinct(1))
  show ?thesis unfolding contracts_inv_def
  proof (intro conjI allI impI)
    fix q u assume "dict_get (cs_quote_to_utt s') q = Some u"
    then consider "q = ct_quote_id c" "u = ct_utt_id c" | "dict_get (cs_quote_to_utt s) q = Some u"
      by (cases "q = ct_quote_id c") (simp_all add: g)
    then show "\<exists>k' c'. dict_get (cs_idempotency s') k' = Some c' \<and> ct_quote_id c' = q \<and> ct_utt_id c' = u"
    proof cases
      case 2
      then obtain k' c' where "dict_get (cs_idempotency s) k' = Some c'" "ct_quote_id c' = q" "ct_utt_id c' = u"
        using inv unfolding contracts_inv_def by blast
      then show ?thesis using f(1) by (intro exI [of _ k'] exI [of _ c']) (auto simp: g)
    qed (auto simp: g)
  next
    fix u e assume "dict_get (cs_utts s') u = Some e"
    then consider "u = ct_utt_id c" | "dict_get (cs_utts s) u = Some e"
      by (cases "u = ct_utt_id c") (simp_all add: g)
    then show "\<exists>q. dict_get (cs_quote_to_utt s') q = Some u"
    proof cases
      case 2
      then obtain q where "dict_get (cs_quote_to_utt s) q = Some u" using inv unfolding contracts_inv_def by blast
      then show ?thesis using f(2) by (intro exI [of _ q]) (auto simp: g)
    qed (auto simp: g)
  next
    fix k' c' assume "dict_get (cs_idempotency s') k' = Some c'"
    then consider "c' = c" | "dict_get (cs_idempotency s) k' = Some c'"
      by (cases "k' = k") (simp_all add: g)
    then have "dict_get (cs_quote_to_utt s') (ct_quote_id c') = Some (ct_utt_id c')
        \<and> dict_get (cs_utts s') (ct_utt_id c') = Some (ct_signed_utt c')"
    proof cases
      case 2
      then show ?thesis using nq [OF 2] inv by (simp add: g contracts_inv_def)
    qed (simp add: g)
    then show "dict_get (cs_quote_to_utt s') (ct_quote_id c') = Some (ct_utt_id c')"
      "dict_get (cs_utts s') (ct_utt_id c') = Some (ct_signed_utt c')" by auto
  next
    fix q q' u assume a: "dict_get (cs_quote_to_utt s') q = Some u" "dict_get (cs_quote_to_utt s') q' = Some u"
    have inj: "dict_get (cs_quote_to_utt s) p = Some u \<Longrightarrow> dict_get (cs_quote_to_utt s) p' = Some u \<Longrightarrow> p = p'" for p p'
      using inv unfolding contracts_inv_def by blast
    show "q = q'" using a nu [of q] nu [of q'] inj [of q q'] by (auto simp: g split: if_splits)
  qed (use inv in \<open>simp_all add: s' contracts_inv_def dict_ok_set\<close>)
next
  case False
  have "s' = s"
  proof (cases r)
    case (Inl e)
    then show ?thesis using c mem.put_raises by blast
  next
    case (Inr wr)
    then obtain w where "r = Inr (w, True)" using False by (cases wr) auto
    then show ?thesis using c commit_acceptance_replay by blast
  qed
  then show ?thesis using inv by simp
qed

end
