(* ===== verification/Route_Scoring.thy ===== *)
theory Route_Scoring
  imports Contract_Store
begin

text \<open>
  Route candidates and their deterministic integer scoring
  (\<^verbatim>\<open>railone_execution/models.py\<close>, \<^verbatim>\<open>railone_execution/scoring.py\<close>).
\<close>

section \<open>Candidates\<close>

definition require_bps :: "string \<Rightarrow> int \<Rightarrow> int res" where
  "require_bps name value =
     (if \<not> (0 \<le> value \<and> value \<le> 10000) then Inl (Raise ValueError (name @ '' must be between 0 and 10000''))
      else Inr value)"

datatype link_status = LINK_UP | LINK_DEGRADED | LINK_DOWN

fun link_value :: "link_status \<Rightarrow> string" where
  "link_value LINK_UP = ''UP''"
| "link_value LINK_DEGRADED = ''DEGRADED''"
| "link_value LINK_DOWN = ''DOWN''"

record route_candidate =
  rc_route_id :: string
  rc_source_institution_id :: string
  rc_destination_institution_id :: string
  rc_rail :: string
  rc_provider :: string
  rc_adapter :: string
  rc_currency_from :: string
  rc_currency_to :: string
  rc_min_amount_minor :: int
  rc_max_amount_minor :: int
  rc_latency_ms :: int
  rc_congestion_bps :: int
  rc_liquidity_capacity_minor :: int
  rc_throughput_headroom_bps :: int
  rc_speed_bps :: int
  rc_estimated_cost_minor :: int
  rc_link_status :: link_status
  rc_telemetry_observed_at :: datetime
  rc_telemetry_expires_at :: datetime

definition candidate_normalized :: "route_candidate \<Rightarrow> unit res" where
  "candidate_normalized c =
     rbind (require_text ''route_id'' (rc_route_id c)) (\<lambda>_.
     rbind (require_text ''source_institution_id'' (rc_source_institution_id c)) (\<lambda>_.
     rbind (require_text ''destination_institution_id'' (rc_destination_institution_id c)) (\<lambda>_.
     rbind (require_text ''rail'' (rc_rail c)) (\<lambda>_.
     rbind (require_text ''provider'' (rc_provider c)) (\<lambda>_.
     rbind (require_text ''adapter'' (rc_adapter c)) (\<lambda>_.
     rbind (require_text ''currency_from'' (rc_currency_from c)) (\<lambda>_.
     rbind (require_text ''currency_to'' (rc_currency_to c)) (\<lambda>_.
     rbind (require_minor_units ''min_amount_minor'' (rc_min_amount_minor c) True) (\<lambda>minimum.
     rbind (require_minor_units ''max_amount_minor'' (rc_max_amount_minor c) False) (\<lambda>maximum.
     rbind (guard_res (minimum > maximum) ValueError ''min_amount_minor cannot exceed max_amount_minor'') (\<lambda>_.
     rbind (require_minor_units ''latency_ms'' (rc_latency_ms c) True) (\<lambda>_.
     rbind (require_bps ''congestion_bps'' (rc_congestion_bps c)) (\<lambda>_.
     rbind (require_minor_units ''liquidity_capacity_minor'' (rc_liquidity_capacity_minor c) True) (\<lambda>_.
     rbind (require_bps ''throughput_headroom_bps'' (rc_throughput_headroom_bps c)) (\<lambda>_.
     rbind (require_bps ''speed_bps'' (rc_speed_bps c)) (\<lambda>_.
     rbind (require_minor_units ''estimated_cost_minor'' (rc_estimated_cost_minor c) True) (\<lambda>_.
     rbind (require_aware ''telemetry_observed_at'' (rc_telemetry_observed_at c)) (\<lambda>observed.
     rbind (require_aware ''telemetry_expires_at'' (rc_telemetry_expires_at c)) (\<lambda>expires.
     guard_res (expires \<le> observed) ValueError ''telemetry expiry must be after observation'')))))))))))))))))))"

definition candidate_to_payload :: "route_candidate \<Rightarrow> pyval res" where
  "candidate_to_payload c =
     rbind (candidate_normalized c) (\<lambda>_.
     rbind (require_aware ''telemetry_observed_at'' (rc_telemetry_observed_at c)) (\<lambda>observed.
     rbind (require_aware ''telemetry_expires_at'' (rc_telemetry_expires_at c)) (\<lambda>expires.
     Inr (obj
       [(''route_id'', PyStr (rc_route_id c)),
        (''source_institution_id'', PyStr (rc_source_institution_id c)),
        (''destination_institution_id'', PyStr (rc_destination_institution_id c)),
        (''rail'', PyStr (rc_rail c)), (''provider'', PyStr (rc_provider c)), (''adapter'', PyStr (rc_adapter c)),
        (''currency_from'', PyStr (upper (rc_currency_from c))),
        (''currency_to'', PyStr (upper (rc_currency_to c))),
        (''min_amount_minor'', PyInt (rc_min_amount_minor c)),
        (''max_amount_minor'', PyInt (rc_max_amount_minor c)), (''latency_ms'', PyInt (rc_latency_ms c)),
        (''congestion_bps'', PyInt (rc_congestion_bps c)),
        (''liquidity_capacity_minor'', PyInt (rc_liquidity_capacity_minor c)),
        (''throughput_headroom_bps'', PyInt (rc_throughput_headroom_bps c)),
        (''speed_bps'', PyInt (rc_speed_bps c)), (''estimated_cost_minor'', PyInt (rc_estimated_cost_minor c)),
        (''link_status'', PyStr (link_value (rc_link_status c))),
        (''telemetry_observed_at'', PyInt (epoch observed)),
        (''telemetry_expires_at'', PyInt (epoch expires))]))))"

record ranked_route =
  rr_candidate :: route_candidate
  rr_score_bps :: int
  rr_component_scores :: "(string \<times> int) list"
  rr_rank :: int

definition ranked_to_payload :: "ranked_route \<Rightarrow> pyval res" where
  "ranked_to_payload r =
     rbind (candidate_to_payload (rr_candidate r)) (\<lambda>route.
     Inr (obj [(''rank'', PyInt (rr_rank r)), (''score_bps'', PyInt (rr_score_bps r)),
               (''component_scores'', obj (map (\<lambda>(k, n). (k, PyInt n)) (rr_component_scores r))),
               (''route'', route)]))"

section \<open>Scoring\<close>

record route_weights =
  w_latency :: int
  w_congestion :: int
  w_liquidity :: int
  w_throughput :: int
  w_speed :: int
  w_cost :: int
  w_link :: int

definition default_weights :: route_weights where
  "default_weights = \<lparr>w_latency = 1600, w_congestion = 1200, w_liquidity = 1700, w_throughput = 1200,
     w_speed = 1200, w_cost = 1800, w_link = 1300\<rparr>"

definition weight_values :: "route_weights \<Rightarrow> int list" where
  "weight_values w = [w_latency w, w_congestion w, w_liquidity w, w_throughput w, w_speed w, w_cost w, w_link w]"

definition weights_post_init :: "route_weights \<Rightarrow> route_weights res" where
  "weights_post_init w =
     rbind (guard_res ((\<exists>v\<in>set (weight_values w). v < 0) \<or> sum_list (weight_values w) \<noteq> 10000) ValueError
              ''route weights must be non-negative and sum to 10000'') (\<lambda>_. Inr w)"

record ranking_request =
  rk_amount_minor :: int
  rk_currency_from :: string
  rk_currency_to :: string
  rk_routing_budget_minor :: int
  rk_source_institution_id :: string
  rk_destination_institution_id :: string

definition instant_of :: "datetime \<Rightarrow> instant" where
  \<comment> \<open>the instant of an aware timestamp; \<^const>\<open>candidate_normalized\<close> has refused the naive ones\<close>
  "instant_of d = (case d of Aware t \<Rightarrow> t | Naive t \<Rightarrow> t)"

definition eligible :: "route_candidate \<Rightarrow> ranking_request \<Rightarrow> instant \<Rightarrow> bool" where
  "eligible c q at \<longleftrightarrow>
     rc_link_status c \<noteq> LINK_DOWN
     \<and> instant_of (rc_telemetry_observed_at c) \<le> at
     \<and> instant_of (rc_telemetry_expires_at c) > at
     \<and> upper (rc_currency_from c) = upper (rk_currency_from q)
     \<and> upper (rc_currency_to c) = upper (rk_currency_to q)
     \<and> rc_min_amount_minor c \<le> rk_amount_minor q \<and> rk_amount_minor q \<le> rc_max_amount_minor c
     \<and> rc_liquidity_capacity_minor c \<ge> rk_amount_minor q
     \<and> rc_estimated_cost_minor c \<le> rk_routing_budget_minor q
     \<and> rc_source_institution_id c = rk_source_institution_id q
     \<and> rc_destination_institution_id c = rk_destination_institution_id q"

definition components :: "route_candidate \<Rightarrow> int \<Rightarrow> int \<Rightarrow> (string \<times> int) list res" where
  "components c amount budget =
     (if amount = 0 then Inl (Raise ZeroDivisionError ''integer division or modulo by zero'')
      else Inr
        (let latency = max 0 (10000 - min (rc_latency_ms c) 10000);
             congestion = 10000 - rc_congestion_bps c;
             liquidity = min 10000 (((rc_liquidity_capacity_minor c - amount) * 10000) div amount);
             cost = (if budget = 0 then 10000
                     else max 0 (10000 - (rc_estimated_cost_minor c * 10000 div budget)));
             link = (if rc_link_status c = LINK_UP then 10000 else 4000)
         in [(''latency'', latency), (''congestion'', congestion), (''liquidity'', liquidity),
             (''throughput'', rc_throughput_headroom_bps c), (''speed'', rc_speed_bps c),
             (''cost'', cost), (''link'', link)]))"

definition weighted_score :: "route_weights \<Rightarrow> (string \<times> int) list \<Rightarrow> int" where
  "weighted_score w comps =
     (let by_name = (\<lambda>k. the (map_of comps k)) in
      (by_name ''latency'' * w_latency w + by_name ''congestion'' * w_congestion w
       + by_name ''liquidity'' * w_liquidity w + by_name ''throughput'' * w_throughput w
       + by_name ''speed'' * w_speed w + by_name ''cost'' * w_cost w
       + by_name ''link'' * w_link w) div 10000)"

type_synonym scored = "route_candidate \<times> int \<times> (string \<times> int) list"

fun score_candidates ::
  "route_weights \<Rightarrow> ranking_request \<Rightarrow> instant \<Rightarrow> route_candidate list \<Rightarrow> scored list res" where
  \<comment> \<open>the loop over the candidates\<close>
  "score_candidates w q at [] = Inr []"
| "score_candidates w q at (c # cs) =
     rbind (candidate_normalized c) (\<lambda>_.
     if \<not> eligible c q at then score_candidates w q at cs
     else rbind (components c (rk_amount_minor q) (rk_routing_budget_minor q)) (\<lambda>comps.
          rbind (score_candidates w q at cs) (\<lambda>rest. Inr ((c, weighted_score w comps, comps) # rest))))"

definition score_key :: "scored \<Rightarrow> int \<times> string" where
  "score_key s = (- fst (snd s), rc_route_id (fst s))"

definition ranked_row :: "nat \<times> scored \<Rightarrow> ranked_route" where
  "ranked_row = (\<lambda>(i, c, s, comps).
     \<lparr>rr_candidate = c, rr_score_bps = s, rr_component_scores = comps, rr_rank = int i\<rparr>)"

definition rank ::
  "route_weights \<Rightarrow> route_candidate list \<Rightarrow> ranking_request \<Rightarrow> datetime \<Rightarrow> ranked_route list res" where
  "rank w candidates q at =
     rbind (require_aware ''ranking timestamp'' at) (\<lambda>instant.
     rbind (guard_res (\<not> distinct (map rc_route_id candidates)) ValueError
              ''route_id must be unique within a planning request'') (\<lambda>_.
     rbind (score_candidates w q instant candidates) (\<lambda>scored.
     Inr (map ranked_row (enumerate 1 (sort_key score_key scored))))))"

section \<open>Scores are bounded\<close>

lemma require_bps_Inr [res_simps]: "require_bps n v = Inr x \<longleftrightarrow> x = v \<and> 0 \<le> v \<and> v \<le> 10000"
  by (auto simp: require_bps_def)

lemma candidate_normalizedD:
  assumes "candidate_normalized c = Inr u"
  shows "0 \<le> rc_min_amount_minor c" "0 \<le> rc_latency_ms c" "0 \<le> rc_congestion_bps c" "rc_congestion_bps c \<le> 10000"
    "0 \<le> rc_throughput_headroom_bps c" "rc_throughput_headroom_bps c \<le> 10000"
    "0 \<le> rc_speed_bps c" "rc_speed_bps c \<le> 10000" "0 \<le> rc_estimated_cost_minor c"
    "\<exists>ob ex. rc_telemetry_observed_at c = Aware ob \<and> rc_telemetry_expires_at c = Aware ex \<and> ob < ex"
  using assms unfolding candidate_normalized_def
  by (elim rbind_InrE, simp add: require_bps_Inr require_minor_units_Inr guard_res_eq_Inr require_aware_Inr)+

definition score_of :: "route_weights \<Rightarrow> ranking_request \<Rightarrow> route_candidate \<Rightarrow> scored" where
  "score_of w q c = (let comps = projr (components c (rk_amount_minor q) (rk_routing_budget_minor q))
     in (c, weighted_score w comps, comps))"

lemma score_candidates_Inr:
  assumes "rk_amount_minor q \<noteq> 0"
  shows "score_candidates w q at cs = Inr ss \<longleftrightarrow>
     (\<forall>c\<in>set cs. candidate_normalized c = Inr ()) \<and> ss = map (score_of w q) (filter (\<lambda>c. eligible c q at) cs)"
proof (induction cs arbitrary: ss)
  case (Cons c cs)
  then show ?case using assms
    by (cases "candidate_normalized c") (auto simp: rbind_eq_Inr score_of_def components_def Let_def)
qed auto

lemma score_candidates_zero:
  assumes "rk_amount_minor q = 0" "score_candidates w q at cs = Inr ss"
  shows "ss = [] \<and> (\<forall>c\<in>set cs. \<not> eligible c q at \<and> candidate_normalized c = Inr ())"
  using assms(2)
proof (induction cs arbitrary: ss)
  case (Cons c cs)
  then show ?case using assms(1)
    by (cases "candidate_normalized c") (auto simp: components_def split: if_splits)
qed auto

lemma component_bounds:
  assumes "candidate_normalized c = Inr u" "eligible c q at" "0 < rk_amount_minor q"
    and "components c (rk_amount_minor q) (rk_routing_budget_minor q) = Inr comps"
  shows "map fst comps = [''latency'', ''congestion'', ''liquidity'', ''throughput'', ''speed'', ''cost'', ''link''] \<and>
    (\<forall>(k, v)\<in>set comps. 0 \<le> v \<and> v \<le> 10000)"
proof -
  note n = candidate_normalizedD [OF assms(1)]
  have "0 \<le> (rc_liquidity_capacity_minor c - rk_amount_minor q) * 10000 div rk_amount_minor q"
    using assms(2,3) by (simp add: eligible_def pos_imp_zdiv_nonneg_iff)
  moreover have "0 \<le> rc_estimated_cost_minor c * 10000 div rk_routing_budget_minor q"
    using n(9) assms(2) by (simp add: eligible_def div_int_pos_iff)
  ultimately show ?thesis
    using n assms(3,4) by (auto simp: components_def Let_def min_def max_def)
qed

lemma weighted_bounds:
  assumes "weights_post_init w = Inr w'" "map fst comps = [''latency'', ''congestion'', ''liquidity'', ''throughput'', ''speed'', ''cost'', ''link'']"
    and "\<forall>(k, v)\<in>set comps. 0 \<le> v \<and> v \<le> 10000"
  shows "0 \<le> weighted_score w comps \<and> weighted_score w comps \<le> 10000"
proof -
  obtain a b c d e f g where comps: "comps = [(''latency'', a), (''congestion'', b), (''liquidity'', c),
      (''throughput'', d), (''speed'', e), (''cost'', f), (''link'', g)]"
    using assms(2) by (auto simp: map_eq_Cons_conv)
  have v: "0 \<le> x \<and> x \<le> 10000" if "x \<in> {a, b, c, d, e, f, g}" for x
    using assms(3) that by (auto simp: comps)
  have w: "0 \<le> x" if "x \<in> set (weight_values w)" for x
    using assms(1) that by (force simp: weights_post_init_def rbind_eq_Inr guard_res_eq_Inr)
  have s: "w_latency w + w_congestion w + w_liquidity w + w_throughput w + w_speed w + w_cost w + w_link w = 10000"
    using assms(1) by (auto simp add: weights_post_init_def rbind_eq_Inr guard_res_eq_Inr weight_values_def)
  have le: "x * y \<le> 10000 * y" "0 \<le> x * y" if "x \<in> {a, b, c, d, e, f, g}" "y \<in> set (weight_values w)" for x y
    using v [OF that(1)] w [OF that(2)] by (simp_all add: mult_right_mono)
  let ?t = "a * w_latency w + b * w_congestion w + c * w_liquidity w + d * w_throughput w + e * w_speed w + f * w_cost w + g * w_link w"
  have "0 \<le> ?t" by (intro add_nonneg_nonneg le(2)) (simp_all add: weight_values_def)
  moreover have "?t \<le> 10000 * w_latency w + 10000 * w_congestion w + 10000 * w_liquidity w + 10000 * w_throughput w
      + 10000 * w_speed w + 10000 * w_cost w + 10000 * w_link w"
    by (intro add_mono le(1)) (simp_all add: weight_values_def)
  then have "?t \<le> 10000 * 10000" using s by linarith
  ultimately have "0 \<le> ?t div 10000 \<and> ?t div 10000 \<le> 10000" by linarith
  then show ?thesis by (simp add: weighted_score_def comps)
qed

section \<open>Ranking\<close>

lemma rank_Inr:
  assumes "rk_amount_minor q \<noteq> 0"
  shows "rank w cs q at = Inr rs \<longleftrightarrow> (\<exists>t. at = Aware t \<and> distinct (map rc_route_id cs)
     \<and> (\<forall>c\<in>set cs. candidate_normalized c = Inr ())
     \<and> rs = map ranked_row (enumerate 1
            (sort_key score_key (map (score_of w q) (filter (\<lambda>c. eligible c q t) cs)))))"
  unfolding rank_def
  by (auto simp: rbind_eq_Inr guard_res_eq_Inr require_aware_Inr score_candidates_Inr [OF assms])

lemma score_key_inj:
  assumes "distinct (map rc_route_id cs)"
  shows "inj_on score_key (set (map (score_of w q) (filter P cs)))"
proof (rule inj_onI)
  fix x y assume x: "x \<in> set (map (score_of w q) (filter P cs))" and y: "y \<in> set (map (score_of w q) (filter P cs))"
    and k: "score_key x = score_key y"
  obtain a b where a: "a \<in> set cs" "x = score_of w q a" and b: "b \<in> set cs" "y = score_of w q b" using x y by auto
  have "rc_route_id a = rc_route_id b" using k by (simp add: a b score_of_def score_key_def Let_def)
  then have "a = b" using assms a b by (simp add: distinct_map inj_on_def)
  then show "x = y" using a b by simp
qed

lemma sort_score_perm:
  assumes "distinct (map rc_route_id cs)" "mset cs = mset cs'"
  shows "sort_key score_key (map (score_of w q) (filter P cs)) = sort_key score_key (map (score_of w q) (filter P cs'))"
proof (rule sort_key_inj_key_eq [OF _ score_key_inj [OF assms(1)]])
  have "mset (filter P cs) = mset (filter P cs')" using assms(2) by (simp add: mset_filter)
  then show "mset (map (score_of w q) (filter P cs)) = mset (sort_key score_key (map (score_of w q) (filter P cs')))"
    by simp
qed simp

text \<open>
  Route ranking does not depend on the order in which candidates are supplied: every
  permutation of the candidate list yields the identical ranking, scores and tie-breaks included.
\<close>

theorem rank_order_independent:
  assumes "rank w cs q at = Inr rs" "mset cs = mset cs'"
  shows "rank w cs' q at = Inr rs"
proof -
  have s: "set cs = set cs'" using assms(2) by (rule mset_eq_setD)
  from assms(1) obtain t ss where t: "at = Aware t" and d: "distinct (map rc_route_id cs)"
    and ss: "score_candidates w q t cs = Inr ss"
    by (auto simp: rank_def rbind_eq_Inr guard_res_eq_Inr require_aware_Inr)
  have d': "distinct (map rc_route_id cs')"
    using d assms(2) by (metis mset_eq_imp_distinct_iff mset_map)
  show ?thesis
  proof (cases "rk_amount_minor q = 0")
    case False
    have len: "length (filter P cs) = length (filter P cs')" for P
      using assms(2) by (metis mset_eq_length mset_filter)
    show ?thesis using assms(1) s d' len unfolding rank_Inr [OF False]
      by (auto simp: sort_score_perm [OF d assms(2)])
  next
    case True
    note z = score_candidates_zero [OF True ss]
    have "score_candidates w q t cs'' = Inr []" if "set cs'' \<subseteq> set cs" for cs''
      using that z by (induction cs'') auto
    then show ?thesis using assms(1) z ss t d d' s by (simp add: rank_def)
  qed
qed

lemma map_enumerate_snd: "map (\<lambda>(i, x). f x) (enumerate n xs) = map f xs"
  by (induction xs arbitrary: n) auto

lemma ranked_row_fields:
  "map (rr_candidate \<circ> ranked_row) (enumerate n xs) = map fst xs"
  "map ((\<lambda>r. (- rr_score_bps r, rc_route_id (rr_candidate r))) \<circ> ranked_row) (enumerate n xs) = map score_key xs"
  "map (rr_rank \<circ> ranked_row) (enumerate n xs) = map int [n..<n + length xs]"
  by (induction xs arbitrary: n) (auto simp: ranked_row_def score_key_def upt_rec)

lemma ranked_row_mem: "(i, x) \<in> set (enumerate n xs) \<Longrightarrow> x \<in> set xs"
  by (induction xs arbitrary: n) auto

text \<open>
  C14. Ranking is sound and complete: with valid weights and a positive amount the result lists
  exactly the eligible candidates, each once, ranked 1, 2, ..., ordered by descending score with
  ties broken by route id, and every score and component score lies in 0..10000 basis points.
\<close>

theorem rank_sound:
  assumes "weights_post_init w = Inr w'" "rank w cs q (Aware t) = Inr rs" "0 < rk_amount_minor q"
  shows "mset (map rr_candidate rs) = mset (filter (\<lambda>c. eligible c q t) cs)
    \<and> distinct (map (rc_route_id \<circ> rr_candidate) rs)
    \<and> map rr_rank rs = map int [1..<Suc (length rs)]
    \<and> sorted (map (\<lambda>r. (- rr_score_bps r, rc_route_id (rr_candidate r))) rs)
    \<and> (\<forall>r\<in>set rs. 0 \<le> rr_score_bps r \<and> rr_score_bps r \<le> 10000
         \<and> (\<forall>(k, v)\<in>set (rr_component_scores r). 0 \<le> v \<and> v \<le> 10000))"
proof -
  let ?E = "filter (\<lambda>c. eligible c q t) cs"
  define S where "S = sort_key score_key (map (score_of w q) ?E)"
  have q0: "rk_amount_minor q \<noteq> 0" using assms(3) by simp
  have d: "distinct (map rc_route_id cs)" and n: "\<forall>c\<in>set cs. candidate_normalized c = Inr ()"
    and rs: "rs = map ranked_row (enumerate 1 S)"
    using assms(2) unfolding rank_Inr [OF q0] S_def by auto
  have c: "map rr_candidate rs = map fst S"
    "map (\<lambda>r. (- rr_score_bps r, rc_route_id (rr_candidate r))) rs = map score_key S"
    "map rr_rank rs = map int [1..<Suc (length rs)]"
    unfolding rs by (simp_all add: ranked_row_fields)
  have "map fst (map (score_of w q) xs) = xs" for xs by (induction xs) (auto simp: score_of_def Let_def)
  then have m: "mset (map rr_candidate rs) = mset ?E"
    unfolding c S_def by (metis mset_map mset_sort)
  have "mset (map rc_route_id (map rr_candidate rs)) = mset (map rc_route_id ?E)"
    using m by (metis mset_map)
  moreover have "distinct (map rc_route_id ?E)" using d by (rule distinct_map_filter)
  ultimately have dd: "distinct (map (rc_route_id \<circ> rr_candidate) rs)"
    by (metis map_map mset_eq_imp_distinct_iff)
  have b: "0 \<le> rr_score_bps r \<and> rr_score_bps r \<le> 10000 \<and> (\<forall>(k, v)\<in>set (rr_component_scores r). 0 \<le> v \<and> v \<le> 10000)"
    if "r \<in> set rs" for r
  proof -
    from that obtain x where "x \<in> set S" and rr: "rr_score_bps r = fst (snd x)" "rr_component_scores r = snd (snd x)"
      unfolding rs by (auto simp: ranked_row_def dest: ranked_row_mem)
    then obtain c where ce: "c \<in> set cs" "eligible c q t" "x = score_of w q c" by (auto simp: S_def)
    let ?comps = "snd (snd x)"
    have co: "components c (rk_amount_minor q) (rk_routing_budget_minor q) = Inr ?comps" "fst (snd x) = weighted_score w ?comps"
      using q0 ce(3) by (auto simp: score_of_def Let_def components_def)
    from component_bounds [OF _ ce(2) assms(3) co(1)] n ce(1) weighted_bounds [OF assms(1)] co(2) rr
    show ?thesis by auto
  qed
  have "sorted (map score_key S)" by (simp add: S_def)
  then show ?thesis using m dd b c(2,3) by simp
qed

definition demo_route :: "string \<Rightarrow> int \<Rightarrow> route_candidate" where
  "demo_route rid cost = \<lparr>rc_route_id = rid, rc_source_institution_id = ''BANK'', rc_destination_institution_id = ''BANK'',
     rc_rail = ''RTGS'', rc_provider = ''prov'', rc_adapter = ''adapter'', rc_currency_from = ''KES'', rc_currency_to = ''kes'',
     rc_min_amount_minor = 1, rc_max_amount_minor = 100000, rc_latency_ms = 300, rc_congestion_bps = 1000,
     rc_liquidity_capacity_minor = 900, rc_throughput_headroom_bps = 8000, rc_speed_bps = 7000,
     rc_estimated_cost_minor = cost, rc_link_status = LINK_UP, rc_telemetry_observed_at = Aware 0,
     rc_telemetry_expires_at = Aware 100000000000\<rparr>"

definition demo_request :: ranking_request where
  "demo_request = \<lparr>rk_amount_minor = 500, rk_currency_from = ''KES'', rk_currency_to = ''KES'', rk_routing_budget_minor = 5,
     rk_source_institution_id = ''BANK'', rk_destination_institution_id = ''BANK''\<rparr>"

lemma demo_ranked:
  "map_sum id (map (rc_route_id \<circ> rr_candidate))
     (rank default_weights [demo_route ''R1'' 4, demo_route ''R2'' 2, demo_route ''R3'' 9] demo_request (Aware 7000000))
   = Inr [''R2'', ''R1'']"
  by code_simp

lemma demo_weights: "weights_post_init default_weights = Inr default_weights"
  by code_simp

theorem rank_sound_witness:
  "\<exists>rs. rank default_weights [demo_route ''R1'' 4, demo_route ''R2'' 2, demo_route ''R3'' 9] demo_request (Aware 7000000) = Inr rs
     \<and> map rr_rank rs = [1, 2] \<and> (\<forall>r\<in>set rs. rr_score_bps r \<le> 10000)"
proof -
  obtain rs where r: "rank default_weights [demo_route ''R1'' 4, demo_route ''R2'' 2, demo_route ''R3'' 9] demo_request (Aware 7000000) = Inr rs"
    and l: "length rs = 2"
    using demo_ranked by (auto simp: map_sum_def split: sum.splits dest: arg_cong [of _ _ length])
  from rank_sound [OF demo_weights r] r l show ?thesis by (auto simp: demo_request_def upt_rec)
qed

theorem rank_order_independent_witness:
  "\<exists>rs. rank default_weights [demo_route ''R1'' 4, demo_route ''R2'' 2, demo_route ''R3'' 9] demo_request (Aware 7000000) = Inr rs
     \<and> rank default_weights [demo_route ''R3'' 9, demo_route ''R2'' 2, demo_route ''R1'' 4] demo_request (Aware 7000000) = Inr rs"
proof -
  obtain rs where r: "rank default_weights [demo_route ''R1'' 4, demo_route ''R2'' 2, demo_route ''R3'' 9] demo_request (Aware 7000000) = Inr rs"
    using demo_ranked by (auto simp: map_sum_def split: sum.splits)
  show ?thesis using r rank_order_independent [OF r] by auto
qed

lemma rank_distinct:
  assumes "rank w cs q at = Inr rs"
  shows "distinct (map (rc_route_id \<circ> rr_candidate) rs)"
proof (cases "rk_amount_minor q = 0")
  case True
  then show ?thesis using assms
    by (auto simp: rank_def rbind_eq_Inr dest!: score_candidates_zero [OF True])
next
  case False
  obtain t where d: "distinct (map rc_route_id cs)"
    and rs: "rs = map ranked_row (enumerate 1 (sort_key score_key (map (score_of w q) (filter (\<lambda>c. eligible c q t) cs))))"
    using assms unfolding rank_Inr [OF False] by auto
  let ?S = "sort_key score_key (map (score_of w q) (filter (\<lambda>c. eligible c q t) cs))"
  have "map (rc_route_id \<circ> rr_candidate) rs = map rc_route_id (map fst ?S)"
    unfolding rs map_map comp_assoc [symmetric]
    by (metis (no_types, lifting) comp_assoc map_map ranked_row_fields(1))
  moreover have "mset (map rc_route_id (map fst ?S)) = mset (map rc_route_id (filter (\<lambda>c. eligible c q t) cs))"
    by (simp add: score_of_def Let_def multiset.map_comp comp_def)
  moreover have "distinct (map rc_route_id (filter (\<lambda>c. eligible c q t) cs))" using d by (rule distinct_map_filter)
  ultimately show ?thesis by (metis mset_eq_imp_distinct_iff)
qed

end
