(* ===== verification/Execution_Store.thy ===== *)
theory Execution_Store
  imports Route_Scoring
begin

text \<open>
  Execution plans, RTT attempts and their store (\<^verbatim>\<open>railone_execution/models.py\<close>,
  \<^verbatim>\<open>railone_execution/store.py\<close>).  Both commits compare the stored plan version with the one the
  caller read; the store interprets the versioned-store contract once for each of them.
\<close>

datatype plan_status = PLAN_ACTIVE | PLAN_RECONCILIATION_REQUIRED | PLAN_FAILED | PLAN_EXHAUSTED | PLAN_FINALIZED

fun plan_status_value :: "plan_status \<Rightarrow> string" where
  "plan_status_value PLAN_ACTIVE = ''ACTIVE''"
| "plan_status_value PLAN_RECONCILIATION_REQUIRED = ''RECONCILIATION_REQUIRED''"
| "plan_status_value PLAN_FAILED = ''FAILED''"
| "plan_status_value PLAN_EXHAUSTED = ''EXHAUSTED''"
| "plan_status_value PLAN_FINALIZED = ''FINALIZED''"

datatype attempt_state = ATT_CREATED | ATT_FAILED | ATT_SUCCEEDED | ATT_RECONCILIATION_REQUIRED

fun attempt_state_value :: "attempt_state \<Rightarrow> string" where
  "attempt_state_value ATT_CREATED = ''CREATED''"
| "attempt_state_value ATT_FAILED = ''FAILED''"
| "attempt_state_value ATT_SUCCEEDED = ''SUCCEEDED''"
| "attempt_state_value ATT_RECONCILIATION_REQUIRED = ''RECONCILIATION_REQUIRED''"

datatype failure_disposition = DISP_RETRYABLE | DISP_TERMINAL | DISP_RECONCILIATION_REQUIRED

record route_failure =
  rf_rtt_id :: string
  rf_route_id :: string
  rf_failure_code :: string
  rf_disposition :: failure_disposition
  rf_recorded_at :: instant

record execution_plan =
  pl_plan_id :: string
  pl_utt_id :: string
  pl_ranked_routes :: "ranked_route list"
  pl_remaining_route_ids :: "string list"
  pl_failures :: "route_failure list"
  pl_attempts_used :: int
  pl_max_attempts :: int
  pl_routing_budget_minor :: int
  pl_routing_cost_spent_minor :: int
  pl_current_rtt_id :: "string option"
  pl_previous_rtt_id :: "string option"
  pl_previous_route_id :: "string option"
  pl_status :: plan_status
  pl_successful_route_id :: "string option"
  pl_version :: int
  pl_created_at :: instant
  pl_updated_at :: instant

definition budget_remaining :: "execution_plan \<Rightarrow> int" where
  "budget_remaining p = max 0 (pl_routing_budget_minor p - pl_routing_cost_spent_minor p)"

record rtt_attempt =
  at_rtt_id :: string
  at_utt_id :: string
  at_plan_id :: string
  at_attempt_number :: int
  at_route_id :: string
  at_signed_rtt :: envelope
  at_state :: attempt_state
  at_failure_code :: "string option"
  at_actual_cost_minor :: "int option"
  at_created_at :: instant
  at_updated_at :: instant

section \<open>The store\<close>

record execution_store =
  ex_plans :: "(string, execution_plan) dict"
  ex_plan_by_utt :: "(string, string) dict"
  ex_attempts :: "(string, rtt_attempt) dict"

definition empty_execution_store :: execution_store where
  "empty_execution_store = \<lparr>ex_plans = [], ex_plan_by_utt = [], ex_attempts = []\<rparr>"

definition create_plan :: "contract_store \<Rightarrow> execution_plan \<Rightarrow> (execution_store, execution_plan) st" where
  "create_plan contracts plan =
     sbind (slift (require_utt (pl_utt_id plan) contracts)) (\<lambda>_. \<lambda>s.
       case dict_get (ex_plan_by_utt s) (pl_utt_id plan) of
         Some existing_id \<Rightarrow>
           if existing_id \<noteq> pl_plan_id plan
           then (Inl (Raise ExecutionPlanConflictError ''UTT already has a different execution plan''), s)
           else (case dict_get (ex_plans s) existing_id of
                   None \<Rightarrow> (Inl (Raise KeyError existing_id), s)
                 | Some existing \<Rightarrow> (Inr existing, s))
       | None \<Rightarrow>
           if dict_has (ex_plans s) (pl_plan_id plan)
           then (Inl (Raise RuntimeError ''execution plan identifier collision''), s)
           else (Inr plan, s\<lparr>ex_plans := dict_set (pl_plan_id plan) plan (ex_plans s),
                             ex_plan_by_utt := dict_set (pl_utt_id plan) (pl_plan_id plan) (ex_plan_by_utt s)\<rparr>))"

definition require_plan_for_utt :: "string \<Rightarrow> execution_store \<Rightarrow> execution_plan res" where
  "require_plan_for_utt utt_id s =
     (case dict_get (ex_plan_by_utt s) utt_id of
        None \<Rightarrow> Inl (Raise ExecutionPlanNotFoundError (''execution plan not found for '' @ utt_id))
      | Some plan_id \<Rightarrow>
         (case dict_get (ex_plans s) plan_id of
            None \<Rightarrow> Inl (Raise KeyError plan_id) | Some p \<Rightarrow> Inr p))"

definition require_plan :: "string \<Rightarrow> execution_store \<Rightarrow> execution_plan res" where
  "require_plan plan_id s =
     (case dict_get (ex_plans s) plan_id of
        None \<Rightarrow> Inl (Raise ExecutionPlanNotFoundError (''execution plan not found: '' @ plan_id))
      | Some p \<Rightarrow> Inr p)"

definition require_attempt :: "string \<Rightarrow> execution_store \<Rightarrow> rtt_attempt res" where
  "require_attempt rtt_id s =
     (case dict_get (ex_attempts s) rtt_id of
        None \<Rightarrow> Inl (Raise RttNotFoundError (''RTT attempt not found: '' @ rtt_id))
      | Some a \<Rightarrow> Inr a)"

definition put_attempt_plan :: "rtt_attempt \<Rightarrow> execution_plan \<Rightarrow> execution_store \<Rightarrow> execution_store" where
  "put_attempt_plan a p s =
     s\<lparr>ex_attempts := dict_set (at_rtt_id a) a (ex_attempts s), ex_plans := dict_set (pl_plan_id p) p (ex_plans s)\<rparr>"

definition concurrent_update :: error where
  "concurrent_update = Raise ConcurrentPlanUpdateError ''execution plan changed concurrently''"

definition commit_start ::
  "contract_store \<Rightarrow> int \<Rightarrow> execution_plan \<Rightarrow> rtt_attempt \<Rightarrow> (execution_store, unit) st" where
  "commit_start contracts previous_version plan attempt =
     sbind (slift (require_utt (pl_utt_id plan) contracts)) (\<lambda>_. \<lambda>s.
       case dict_get (ex_plans s) (pl_plan_id plan) of
         None \<Rightarrow> (Inl concurrent_update, s)
       | Some current \<Rightarrow>
           if pl_version current \<noteq> previous_version then (Inl concurrent_update, s)
           else if pl_current_rtt_id current \<noteq> None
           then (Inl (Raise RuntimeError ''an RTT is already in flight''), s)
           else if dict_has (ex_attempts s) (at_rtt_id attempt)
           then (Inl (Raise RuntimeError ''RTT identifier collision''), s)
           else if at_utt_id attempt \<noteq> pl_utt_id plan \<or> at_plan_id attempt \<noteq> pl_plan_id plan
           then (Inl (Raise ValueError ''RTT lineage does not match execution plan''), s)
           else (Inr (), put_attempt_plan attempt plan s))"

definition commit_transition ::
  "int \<Rightarrow> execution_plan \<Rightarrow> rtt_attempt \<Rightarrow> (execution_store, unit) st" where
  "commit_transition previous_version plan attempt s =
     (case dict_get (ex_plans s) (pl_plan_id plan) of
        None \<Rightarrow> (Inl concurrent_update, s)
      | Some current \<Rightarrow>
          if pl_version current \<noteq> previous_version then (Inl concurrent_update, s)
          else if \<not> dict_has (ex_attempts s) (at_rtt_id attempt)
          then (Inl (Raise RttNotFoundError (''RTT attempt not found: '' @ at_rtt_id attempt)), s)
          else if pl_current_rtt_id current \<noteq> Some (at_rtt_id attempt)
          then (Inl (Raise RuntimeError ''RTT is not the current in-flight attempt''), s)
          else (Inr (), put_attempt_plan attempt plan s))"

section \<open>Both commits are compare-and-swap\<close>

lemma commit_start_Inr:
  assumes "commit_start contracts n p a s = (Inr u, s')"
  obtains current where "dict_get (ex_plans s) (pl_plan_id p) = Some current" "pl_version current = n"
    "pl_current_rtt_id current = None" "dict_get (ex_attempts s) (at_rtt_id a) = None"
    "at_utt_id a = pl_utt_id p" "at_plan_id a = pl_plan_id p" "s' = put_attempt_plan a p s"
  using assms unfolding commit_start_def sbind_eq_Inr slift_eq
  by (auto split: option.splits if_splits)

lemma commit_transition_Inr:
  assumes "commit_transition n p a s = (Inr u, s')"
  obtains current where "dict_get (ex_plans s) (pl_plan_id p) = Some current" "pl_version current = n"
    "dict_has (ex_attempts s) (at_rtt_id a)" "pl_current_rtt_id current = Some (at_rtt_id a)"
    "s' = put_attempt_plan a p s"
  using assms by (auto simp: commit_transition_def split: option.splits if_splits)

lemma commit_start_Inl: "commit_start contracts n p a s = (Inl e, s') \<Longrightarrow> s' = s"
  unfolding commit_start_def sbind_eq_Inl slift_eq by (auto split: option.splits if_splits)

lemma commit_transition_Inl: "commit_transition n p a s = (Inl e, s') \<Longrightarrow> s' = s"
  by (auto simp: commit_transition_def split: option.splits if_splits)

definition plan_of :: "execution_store \<Rightarrow> string \<Rightarrow> execution_plan option" where
  \<comment> \<open>the stored plan of an identifier\<close>
  "plan_of s k = dict_get (ex_plans s) k"

definition commit_any :: "string \<Rightarrow> int \<Rightarrow> execution_plan \<Rightarrow> contract_store option \<times> rtt_attempt \<Rightarrow> (execution_store, unit) st" where
  \<comment> \<open>either commit, with the plan's own identifier as key\<close>
  "commit_any k n p x =
     (if pl_plan_id p \<noteq> k then slift (Inl concurrent_update)
      else case fst x of Some contracts \<Rightarrow> commit_start contracts n p (snd x)
                       | None \<Rightarrow> commit_transition n p (snd x))"

interpretation plans: versioned_store plan_of pl_version commit_any
proof unfold_locales
  fix k n p x s u s'
  assume "commit_any k n p x s = (Inr u, s')"
  then show "(\<exists>old. plan_of s k = Some old \<and> pl_version old = n) \<and> plan_of s' = (plan_of s)(k \<mapsto> p)"
    by (auto simp: commit_any_def slift_def put_attempt_plan_def plan_of_def fun_eq_iff
          split: if_splits option.splits elim!: commit_start_Inr commit_transition_Inr)
next
  fix k n p x s e s'
  assume "commit_any k n p x s = (Inl e, s')"
  then show "s' = s"
    by (auto simp: commit_any_def slift_def split: if_splits option.splits
          dest: commit_start_Inl commit_transition_Inl)
qed

end
