(* ===== verification/Execution_Service.thy ===== *)
theory Execution_Service
  imports Execution_Store
begin

text \<open>
  Plan construction and the RTT life cycle (\<^verbatim>\<open>railone_execution/service.py\<close>).  A timestamp
  argument is the value of \<^verbatim>\<open>at or datetime.now(timezone.utc)\<close>.  Fields of a signed UTT are read
  with their type: a field of another type is a \<^verbatim>\<open>TypeError\<close> at the read.
\<close>

section \<open>Reading a UTT\<close>

definition int_item :: "pyval \<Rightarrow> string \<Rightarrow> int res" where
  "int_item v k = rbind (py_item v k) int_operand"

definition str_item :: "pyval \<Rightarrow> string \<Rightarrow> string res" where
  "str_item v k = rbind (py_item v k) (\<lambda>x. case x of PyStr s \<Rightarrow> Inr s | _ \<Rightarrow> Inl (Raise TypeError k))"

definition institution_of :: "pyval \<Rightarrow> string \<Rightarrow> string res" where
  \<comment> \<open>\<^verbatim>\<open>utt[party]["endpoint"]["institution_id"]\<close>\<close>
  "institution_of utt party =
     rbind (py_item utt party) (\<lambda>a. rbind (py_item a ''endpoint'') (\<lambda>e. str_item e ''institution_id''))"

definition verified_utt :: "platform \<Rightarrow> key_provider \<Rightarrow> contract_store \<Rightarrow> string \<Rightarrow> envelope res" where
  "verified_utt P ks contracts utt_id =
     rbind (require_text ''utt_id'' utt_id) (\<lambda>u.
     rbind (require_utt u contracts) (\<lambda>signed_utt.
     rbind (verify_artifact P ks signed_utt (Some UTT) False) (\<lambda>verification.
     rbind (guard_res (\<not> vr_valid verification) PermissionError (''UTT rejected: '' @ vr_reason verification)) (\<lambda>_.
     Inr signed_utt))))"

definition opt_str :: "string option \<Rightarrow> pyval" where
  "opt_str v = (case v of None \<Rightarrow> PyNone | Some s \<Rightarrow> PyStr s)"

section \<open>Planning\<close>

definition plan_for ::
  "platform \<Rightarrow> key_provider \<Rightarrow> contract_store \<Rightarrow> route_weights \<Rightarrow> string \<Rightarrow> route_candidate list \<Rightarrow> datetime \<Rightarrow>
    execution_plan res" where
  "plan_for P ks contracts w utt_id candidates at =
     rbind (require_aware ''planning timestamp'' at) (\<lambda>instant.
     rbind (verified_utt P ks contracts utt_id) (\<lambda>signed_utt.
     let utt = env_payload signed_utt in
     rbind (int_item utt ''amount_minor'') (\<lambda>amount.
     rbind (str_item utt ''currency_from'') (\<lambda>cfrom.
     rbind (str_item utt ''currency_to'') (\<lambda>cto.
     rbind (int_item utt ''routing_budget_minor'') (\<lambda>budget.
     rbind (institution_of utt ''payer'') (\<lambda>source.
     rbind (institution_of utt ''beneficiary'') (\<lambda>dest.
     rbind (rank w candidates
              \<lparr>rk_amount_minor = amount, rk_currency_from = cfrom, rk_currency_to = cto,
               rk_routing_budget_minor = budget, rk_source_institution_id = source,
               rk_destination_institution_id = dest\<rparr> (Aware instant)) (\<lambda>ranked.
     rbind (guard_res (ranked = []) NoEligibleRouteError ''no eligible route for accepted UTT'') (\<lambda>_.
     rbind (py_item (env_protected signed_utt) ''payload_sha256'') (\<lambda>sha.
     rbind (py_item utt ''routing_policy_id'') (\<lambda>policy.
     rbind (rmap ranked_to_payload ranked) (\<lambda>routes.
     rbind (content_id ''PLAN'' (obj [(''utt_id'', PyStr utt_id), (''utt_payload_sha256'', sha),
              (''routing_policy_id'', policy), (''ranked_routes'', PyList routes),
              (''created_at'', PyInt (epoch instant))])) (\<lambda>plan_id.
     rbind (int_item utt ''max_attempts'') (\<lambda>max_attempts.
     Inr \<lparr>pl_plan_id = plan_id, pl_utt_id = utt_id, pl_ranked_routes = ranked,
          pl_remaining_route_ids = map (rc_route_id \<circ> rr_candidate) ranked, pl_failures = [],
          pl_attempts_used = 0, pl_max_attempts = max_attempts, pl_routing_budget_minor = budget,
          pl_routing_cost_spent_minor = 0, pl_current_rtt_id = None, pl_previous_rtt_id = None,
          pl_previous_route_id = None, pl_status = PLAN_ACTIVE, pl_successful_route_id = None,
          pl_version = 1, pl_created_at = instant, pl_updated_at = instant\<rparr>)))))))))))))))"

definition build_plan ::
  "platform \<Rightarrow> key_provider \<Rightarrow> contract_store \<Rightarrow> route_weights \<Rightarrow> string \<Rightarrow> route_candidate list \<Rightarrow> datetime \<Rightarrow>
    (execution_store, execution_plan) st" where
  "build_plan P ks contracts w utt_id candidates at =
     sbind (slift (plan_for P ks contracts w utt_id candidates at)) (create_plan contracts)"

section \<open>Starting an attempt\<close>

record rtt_service =
  rs_rtt_signing_key_id :: string
  rs_endpoints :: "validator option"
  rs_allow_unverified :: bool

definition validate_party ::
  "validator \<Rightarrow> pyval \<Rightarrow> pyval \<Rightarrow> account_role \<Rightarrow> string \<Rightarrow> unit res" where
  "validate_party vep utt party role currency_key =
     rbind (str_item party ''actor_id'') (\<lambda>actor.
     rbind (py_item party ''endpoint'') (\<lambda>e.
     rbind (endpoint_from_payload e) (\<lambda>endpoint.
     rbind (str_item utt currency_key) (\<lambda>currency.
     vep actor endpoint role currency))))"

definition start_checks ::
  "platform \<Rightarrow> key_provider \<Rightarrow> contract_store \<Rightarrow> rtt_service \<Rightarrow> string \<Rightarrow> envelope res" where
  "start_checks P ks contracts svc utt_id =
     rbind (verified_utt P ks contracts utt_id) (\<lambda>signed_utt.
     let utt = env_payload signed_utt in
     rbind (guard_res (\<not> equals_int (py_get utt ''endpoint_model_version'') 1) PlanNotExecutableError
              ''UTT uses an unsupported endpoint model'') (\<lambda>_.
     rbind (case rs_endpoints svc of
              None \<Rightarrow> guard_res (\<not> rs_allow_unverified svc) RuntimeError
                        ''partner endpoint validator is required for RTT start''
            | Some vep \<Rightarrow>
                rbind (py_item utt ''payer'') (\<lambda>payer.
                rbind (py_item utt ''beneficiary'') (\<lambda>beneficiary.
                rbind (validate_party vep utt payer DEBIT ''currency_from'') (\<lambda>_.
                validate_party vep utt beneficiary CREDIT ''currency_to'')))) (\<lambda>_.
     Inr signed_utt)))"

definition routes_by_id :: "execution_plan \<Rightarrow> string \<Rightarrow> ranked_route option" where
  \<comment> \<open>the dictionary comprehension: the last route of an id wins\<close>
  "routes_by_id p rid = map_of (rev (map (\<lambda>r. (rc_route_id (rr_candidate r), r)) (pl_ranked_routes p))) rid"

fun select_from :: "execution_plan \<Rightarrow> string list \<Rightarrow> ranked_route option res" where
  "select_from p [] = Inr None"
| "select_from p (rid # rids) =
     (case routes_by_id p rid of
        None \<Rightarrow> Inl (Raise KeyError rid)
      | Some r \<Rightarrow> if rc_estimated_cost_minor (rr_candidate r) \<le> budget_remaining p then Inr (Some r)
                  else select_from p rids)"

definition executable :: "execution_plan \<Rightarrow> unit res" where
  "executable p =
     rbind (guard_res (pl_status p \<noteq> PLAN_ACTIVE) PlanNotExecutableError
              (''plan is '' @ plan_status_value (pl_status p))) (\<lambda>_.
     rbind (guard_res (pl_current_rtt_id p \<noteq> None) PlanNotExecutableError ''an RTT is already in flight'') (\<lambda>_.
     guard_res (pl_attempts_used p \<ge> pl_max_attempts p) PlanNotExecutableError ''attempt limit exhausted''))"

definition new_attempt ::
  "platform \<Rightarrow> key_provider \<Rightarrow> rtt_service \<Rightarrow> string \<Rightarrow> envelope \<Rightarrow> execution_plan \<Rightarrow> instant \<Rightarrow>
    (execution_plan \<times> rtt_attempt) res" where
  "new_attempt P ks svc utt_id signed_utt plan instant =
     rbind (executable plan) (\<lambda>_.
     rbind (select_from plan (pl_remaining_route_ids plan)) (\<lambda>selected.
     case selected of
       None \<Rightarrow> Inl (Raise PlanNotExecutableError ''no affordable route remains'')
     | Some sel \<Rightarrow>
        let route_id = rc_route_id (rr_candidate sel); attempt_number = pl_attempts_used plan + 1 in
        rbind (content_id ''RTT'' (obj
          [(''utt_id'', PyStr utt_id), (''plan_id'', PyStr (pl_plan_id plan)),
           (''attempt_number'', PyInt attempt_number), (''route_id'', PyStr route_id),
           (''previous_rtt_id'', opt_str (pl_previous_rtt_id plan)), (''created_at'', PyInt (epoch instant))])) (\<lambda>rtt_id.
        rbind (py_item (env_protected signed_utt) ''payload_sha256'') (\<lambda>sha.
        rbind (candidate_to_payload (rr_candidate sel)) (\<lambda>route.
        rbind (sign_artifact P ks RTT (obj
          [(''rtt_id'', PyStr rtt_id), (''utt_id'', PyStr utt_id), (''utt_payload_sha256'', sha),
           (''plan_id'', PyStr (pl_plan_id plan)), (''attempt_number'', PyInt attempt_number), (''route'', route),
           (''route_score_bps'', PyInt (rr_score_bps sel)),
           (''route_component_scores'', obj (map (\<lambda>(k, n). (k, PyInt n)) (rr_component_scores sel))),
           (''previous_rtt_id'', opt_str (pl_previous_rtt_id plan)),
           (''previous_route_id'', opt_str (pl_previous_route_id plan)),
           (''replay_generation'', PyInt (attempt_number - 1)),
           (''birth_state'', PyStr (attempt_state_value ATT_CREATED)), (''created_at'', PyInt (epoch instant)),
           (''custody_model'', PyStr ''NON_CUSTODIAL'')])
          (rs_rtt_signing_key_id svc) (Aware instant)) (\<lambda>signed_rtt.
        Inr
          (plan\<lparr>pl_remaining_route_ids := filter (\<lambda>r. r \<noteq> route_id) (pl_remaining_route_ids plan),
                pl_attempts_used := attempt_number, pl_current_rtt_id := Some rtt_id,
                pl_version := pl_version plan + 1, pl_updated_at := instant\<rparr>,
           \<lparr>at_rtt_id = rtt_id, at_utt_id = utt_id, at_plan_id = pl_plan_id plan,
            at_attempt_number = attempt_number, at_route_id = route_id, at_signed_rtt = signed_rtt,
            at_state = ATT_CREATED, at_failure_code = None, at_actual_cost_minor = None,
            at_created_at = instant, at_updated_at = instant\<rparr>)))))))"

definition start_next ::
  "platform \<Rightarrow> key_provider \<Rightarrow> contract_store \<Rightarrow> rtt_service \<Rightarrow> string \<Rightarrow> datetime \<Rightarrow>
    (execution_store, rtt_attempt) st" where
  "start_next P ks contracts svc utt_id at =
     sbind (slift (require_aware ''attempt timestamp'' at)) (\<lambda>instant.
     sbind (slift (start_checks P ks contracts svc utt_id)) (\<lambda>signed_utt.
     sbind (sget (require_plan_for_utt utt_id)) (\<lambda>plan.
     sbind (slift (new_attempt P ks svc utt_id signed_utt plan instant)) (\<lambda>(updated, attempt).
     sbind (commit_start contracts (pl_version plan) updated attempt) (\<lambda>_.
     sret attempt)))))"

section \<open>Outcomes\<close>

definition affordable_route_remains :: "execution_plan \<Rightarrow> int \<Rightarrow> bool" where
  "affordable_route_remains p spent \<longleftrightarrow>
     (\<exists>r\<in>set (pl_ranked_routes p). rc_route_id (rr_candidate r) \<in> set (pl_remaining_route_ids p)
        \<and> rc_estimated_cost_minor (rr_candidate r) \<le> max 0 (pl_routing_budget_minor p - spent))"

definition retry_status :: "execution_plan \<Rightarrow> int \<Rightarrow> plan_status" where
  "retry_status p spent =
     (if pl_attempts_used p \<ge> pl_max_attempts p \<or> \<not> affordable_route_remains p spent
      then PLAN_EXHAUSTED else PLAN_ACTIVE)"

definition failure_outcome ::
  "execution_plan \<Rightarrow> string \<Rightarrow> int \<Rightarrow> failure_disposition \<Rightarrow> plan_status \<times> string option \<times> attempt_state" where
  \<comment> \<open>new plan status, current RTT and attempt state\<close>
  "failure_outcome p rtt_id spent d =
     (case d of
        DISP_RECONCILIATION_REQUIRED \<Rightarrow> (PLAN_RECONCILIATION_REQUIRED, Some rtt_id, ATT_RECONCILIATION_REQUIRED)
      | DISP_TERMINAL \<Rightarrow> (PLAN_FAILED, None, ATT_FAILED)
      | DISP_RETRYABLE \<Rightarrow> (retry_status p spent, None, ATT_FAILED))"

definition record_failure ::
  "string \<Rightarrow> string \<Rightarrow> failure_disposition \<Rightarrow> int \<Rightarrow> datetime \<Rightarrow> (execution_store, execution_plan) st" where
  "record_failure rtt_id failure_code disposition actual_cost_minor at =
     sbind (slift (require_aware ''failure timestamp'' at)) (\<lambda>instant.
     sbind (slift (require_minor_units ''actual_cost_minor'' actual_cost_minor True)) (\<lambda>cost.
     sbind (slift (require_text ''failure_code'' failure_code)) (\<lambda>code.
     sbind (slift (require_text ''rtt_id'' rtt_id)) (\<lambda>key.
     sbind (sget (require_attempt key)) (\<lambda>attempt.
     sbind (slift (guard_res (at_state attempt \<noteq> ATT_CREATED) PlanNotExecutableError
              ''RTT has already reached an operational outcome'')) (\<lambda>_.
     sbind (sget (require_plan (at_plan_id attempt))) (\<lambda>plan.
     let failure = \<lparr>rf_rtt_id = rtt_id, rf_route_id = at_route_id attempt, rf_failure_code = upper code,
                    rf_disposition = disposition, rf_recorded_at = instant\<rparr>;
         spent = pl_routing_cost_spent_minor plan + cost;
         (status, current, state) = failure_outcome plan rtt_id spent disposition;
         updated_attempt = attempt\<lparr>at_state := state, at_failure_code := Some (upper code),
                                    at_actual_cost_minor := Some cost, at_updated_at := instant\<rparr>;
         updated_plan = plan\<lparr>pl_failures := pl_failures plan @ [failure], pl_routing_cost_spent_minor := spent,
                              pl_current_rtt_id := current, pl_previous_rtt_id := Some rtt_id,
                              pl_previous_route_id := Some (at_route_id attempt), pl_status := status,
                              pl_version := pl_version plan + 1, pl_updated_at := instant\<rparr>
     in sbind (commit_transition (pl_version plan) updated_plan updated_attempt) (\<lambda>_.
        sret updated_plan))))))))"

definition succeeded_plan :: "execution_plan \<Rightarrow> rtt_attempt \<Rightarrow> string \<Rightarrow> int \<Rightarrow> instant \<Rightarrow> execution_plan" where
  "succeeded_plan plan attempt rtt_id cost instant =
     plan\<lparr>pl_routing_cost_spent_minor := pl_routing_cost_spent_minor plan + cost, pl_current_rtt_id := None,
          pl_previous_rtt_id := Some rtt_id, pl_previous_route_id := Some (at_route_id attempt),
          pl_status := PLAN_FINALIZED, pl_successful_route_id := Some (at_route_id attempt),
          pl_version := pl_version plan + 1, pl_updated_at := instant\<rparr>"

definition record_success :: "string \<Rightarrow> int \<Rightarrow> datetime \<Rightarrow> (execution_store, execution_plan) st" where
  "record_success rtt_id actual_cost_minor at =
     sbind (slift (require_aware ''success timestamp'' at)) (\<lambda>instant.
     sbind (slift (require_minor_units ''actual_cost_minor'' actual_cost_minor True)) (\<lambda>cost.
     sbind (slift (require_text ''rtt_id'' rtt_id)) (\<lambda>key.
     sbind (sget (require_attempt key)) (\<lambda>attempt.
     sbind (slift (guard_res (at_state attempt \<noteq> ATT_CREATED) PlanNotExecutableError
              ''RTT has already reached an operational outcome'')) (\<lambda>_.
     sbind (sget (require_plan (at_plan_id attempt))) (\<lambda>plan.
     let updated_attempt = attempt\<lparr>at_state := ATT_SUCCEEDED, at_actual_cost_minor := Some cost,
                                    at_updated_at := instant\<rparr>;
         updated_plan = succeeded_plan plan attempt rtt_id cost instant
     in sbind (commit_transition (pl_version plan) updated_plan updated_attempt) (\<lambda>_.
        sret updated_plan)))))))"

definition resolved ::
  "execution_plan \<Rightarrow> rtt_attempt \<Rightarrow> string \<Rightarrow> bool \<Rightarrow> int \<Rightarrow> string option \<Rightarrow> failure_disposition \<Rightarrow> instant \<Rightarrow>
    (execution_plan \<times> rtt_attempt) res" where
  \<comment> \<open>the two branches of the resolution\<close>
  "resolved plan attempt rtt_id succeeded cost failure_code disposition instant =
     (let spent = pl_routing_cost_spent_minor plan + cost in
      if succeeded
      then Inr (succeeded_plan plan attempt rtt_id cost instant,
                attempt\<lparr>at_state := ATT_SUCCEEDED, at_actual_cost_minor := Some cost, at_updated_at := instant\<rparr>)
      else
        rbind (require_text ''failure_code''
                 (if falsy failure_code then ''PROVIDER_CONFIRMED_FAILURE'' else the failure_code)) (\<lambda>code.
        rbind (guard_res (disposition = DISP_RECONCILIATION_REQUIRED) ValueError
                 ''reconciliation resolution must be success or confirmed failure'') (\<lambda>_.
        let failure = \<lparr>rf_rtt_id = rtt_id, rf_route_id = at_route_id attempt, rf_failure_code = upper code,
                       rf_disposition = disposition, rf_recorded_at = instant\<rparr>;
            status = (if disposition = DISP_TERMINAL then PLAN_FAILED else retry_status plan spent)
        in Inr
          (plan\<lparr>pl_failures := pl_failures plan @ [failure], pl_routing_cost_spent_minor := spent,
                pl_current_rtt_id := None, pl_previous_rtt_id := Some rtt_id,
                pl_previous_route_id := Some (at_route_id attempt), pl_status := status,
                pl_version := pl_version plan + 1, pl_updated_at := instant\<rparr>,
           attempt\<lparr>at_state := ATT_FAILED, at_failure_code := Some (upper code),
                   at_actual_cost_minor := Some cost, at_updated_at := instant\<rparr>))))"

definition resolve_reconciliation ::
  "string \<Rightarrow> bool \<Rightarrow> int \<Rightarrow> string option \<Rightarrow> failure_disposition \<Rightarrow> datetime \<Rightarrow> (execution_store, execution_plan) st" where
  "resolve_reconciliation rtt_id succeeded actual_cost_minor failure_code disposition at =
     sbind (slift (require_aware ''reconciliation timestamp'' at)) (\<lambda>instant.
     sbind (slift (require_minor_units ''actual_cost_minor'' actual_cost_minor True)) (\<lambda>cost.
     sbind (slift (require_text ''rtt_id'' rtt_id)) (\<lambda>key.
     sbind (sget (require_attempt key)) (\<lambda>attempt.
     sbind (slift (guard_res (at_state attempt \<noteq> ATT_RECONCILIATION_REQUIRED) PlanNotExecutableError
              ''RTT is not awaiting reconciliation'')) (\<lambda>_.
     sbind (sget (require_plan (at_plan_id attempt))) (\<lambda>plan.
     sbind (slift (guard_res (pl_status plan \<noteq> PLAN_RECONCILIATION_REQUIRED \<or> pl_current_rtt_id plan \<noteq> Some rtt_id)
              PlanNotExecutableError ''execution plan is not awaiting this RTT'')) (\<lambda>_.
     sbind (slift (resolved plan attempt rtt_id succeeded cost failure_code disposition instant))
       (\<lambda>(updated_plan, updated_attempt).
     sbind (commit_transition (pl_version plan) updated_plan updated_attempt) (\<lambda>_.
     sret updated_plan)))))))))"

end
