(* ===== verification/Provider_Submission.thy ===== *)
theory Provider_Submission
  imports Operations_Store Outbox_Relay Execution_Service
begin

text \<open>
  The provider submission coordinator (\<^verbatim>\<open>ProviderSubmissionCoordinator\<close> of
  \<^verbatim>\<open>railone_operations/service.py\<close>): preparing a submission for the current RTT, dispatching it to a
  provider adapter and recording the outcome, each with its signed event.  The endpoint resolver and
  the adapter are parameters; an adapter that raises returns no result.
\<close>

record submission_service =
  ss_resolve :: "string \<Rightarrow> string \<Rightarrow> string res"
  ss_event_signing_key_id :: string

record provider_adapter =
  ad_provider_id :: string
  ad_supports_idempotency :: bool
  ad_submit :: "provider_request \<Rightarrow> submission_result option"

section \<open>Signed events\<close>

definition event_core :: "submission_record \<Rightarrow> string \<Rightarrow> pyval \<Rightarrow> instant \<Rightarrow> (string \<times> pyval) list" where
  "event_core r event_type data at =
     [(''event_type'', PyStr event_type), (''aggregate_type'', PyStr ''PROVIDER_SUBMISSION''),
      (''aggregate_id'', PyStr (sb_submission_id r)), (''utt_id'', PyStr (sb_utt_id r)),
      (''rtt_id'', PyStr (sb_rtt_id r)), (''provider_id'', PyStr (sb_provider_id r)),
      (''submission_version'', PyInt (sb_version r)), (''data'', data), (''occurred_at'', PyInt (epoch at))]"

definition submission_event ::
  "platform \<Rightarrow> key_provider \<Rightarrow> submission_service \<Rightarrow> submission_record \<Rightarrow> string \<Rightarrow> pyval \<Rightarrow> instant \<Rightarrow> outbox_record res" where
  "submission_event P ks svc r event_type data at =
     rbind (content_id ''EVT'' (obj (event_core r event_type data at))) (\<lambda>event_id.
     rbind (sign_artifact P ks EXECUTION_EVENT
              (merge_obj [(''event_id'', PyStr event_id)] (obj (event_core r event_type data at)))
              (ss_event_signing_key_id svc) (Aware at)) (\<lambda>signed.
     Inr \<lparr>ob_event_id = event_id, ob_aggregate_type = ''PROVIDER_SUBMISSION'', ob_aggregate_id = sb_submission_id r,
          ob_event_type = event_type, ob_signed_event = signed, ob_delivery_state = OBX_PENDING,
          ob_delivery_attempts = 0, ob_available_at = at, ob_lease_owner = None, ob_lease_until = None,
          ob_last_error = None, ob_published_at = None, ob_version = 1, ob_created_at = at, ob_updated_at = at\<rparr>))"

section \<open>Preparation\<close>

definition checked_attempt ::
  "execution_store \<Rightarrow> string \<Rightarrow> rtt_attempt res" where
  \<comment> \<open>the current CREATED attempt of its plan\<close>
  "checked_attempt execs rtt_id =
     rbind (require_text ''rtt_id'' rtt_id) (\<lambda>key.
     rbind (require_attempt key execs) (\<lambda>attempt.
     rbind (guard_res (at_state attempt \<noteq> ATT_CREATED) SubmissionNotDispatchableError
              ''only a current CREATED RTT can be prepared'') (\<lambda>_.
     rbind (require_plan (at_plan_id attempt) execs) (\<lambda>plan.
     rbind (guard_res (pl_current_rtt_id plan \<noteq> Some rtt_id) SubmissionNotDispatchableError
              ''RTT is not the current plan attempt'') (\<lambda>_.
     Inr attempt)))))"

definition checked_utt ::
  "platform \<Rightarrow> key_provider \<Rightarrow> contract_store \<Rightarrow> rtt_attempt \<Rightarrow> envelope res" where
  \<comment> \<open>both signatures verified and the RTT bound to the persisted UTT\<close>
  "checked_utt P ks contracts attempt =
     rbind (verify_artifact P ks (at_signed_rtt attempt) (Some RTT) False) (\<lambda>rtt_check.
     rbind (guard_res (\<not> vr_valid rtt_check) PermissionError (''RTT rejected: '' @ vr_reason rtt_check)) (\<lambda>_.
     rbind (require_utt (at_utt_id attempt) contracts) (\<lambda>signed_utt.
     rbind (verify_artifact P ks signed_utt (Some UTT) False) (\<lambda>utt_check.
     rbind (guard_res (\<not> vr_valid utt_check) PermissionError (''UTT rejected: '' @ vr_reason utt_check)) (\<lambda>_.
     rbind (py_item (env_payload (at_signed_rtt attempt)) ''utt_payload_sha256'') (\<lambda>bound.
     rbind (py_item (env_protected signed_utt) ''payload_sha256'') (\<lambda>sha.
     rbind (guard_res (bound \<noteq> sha) PermissionError ''RTT does not bind the persisted UTT payload'') (\<lambda>_.
     Inr signed_utt))))))))"

definition party_endpoint :: "pyval \<Rightarrow> string \<Rightarrow> pyval res" where
  \<comment> \<open>\<^verbatim>\<open>utt[party]["endpoint"]\<close>\<close>
  "party_endpoint utt party = rbind (py_item utt party) (\<lambda>a. py_item a ''endpoint'')"

definition request_material :: "provider_request \<Rightarrow> pyval" where
  "request_material q = obj
     [(''idempotency_key'', PyStr (pr_idempotency_key q)), (''utt_id'', PyStr (pr_utt_id q)),
      (''rtt_id'', PyStr (pr_rtt_id q)), (''attempt_number'', PyInt (pr_attempt_number q)),
      (''provider_id'', PyStr (pr_provider_id q)), (''adapter_binding_ref'', pr_adapter_binding_ref q),
      (''rail'', pr_rail q), (''amount_minor'', pr_amount_minor q), (''currency_from'', pr_currency_from q),
      (''receive_amount_minor'', pr_receive_amount_minor q), (''currency_to'', pr_currency_to q),
      (''source_institution_id'', PyStr (pr_source_institution_id q)),
      (''destination_institution_id'', PyStr (pr_destination_institution_id q)),
      (''payer_account_reference'', PyStr (pr_payer_account_reference q)),
      (''beneficiary_account_reference'', PyStr (pr_beneficiary_account_reference q))]"

definition idempotency_material :: "string \<Rightarrow> string \<Rightarrow> pyval" where
  "idempotency_material provider_id rtt_id = obj
     [(''domain'', PyStr ''RAILONE-PROVIDER-SUBMISSION-V1''), (''provider_id'', PyStr provider_id), (''rtt_id'', PyStr rtt_id)]"

definition build_request ::
  "submission_service \<Rightarrow> string \<Rightarrow> rtt_attempt \<Rightarrow> pyval \<Rightarrow> provider_request res" where
  "build_request svc rtt_id attempt utt =
     rbind (py_item (env_payload (at_signed_rtt attempt)) ''route'') (\<lambda>route.
     rbind (rbind (py_item route ''provider'') (authority_text ''provider'')) (\<lambda>provider.
     let provider_id = upper provider in
     rbind (content_id ''R1IDEM'' (idempotency_material provider_id rtt_id)) (\<lambda>idempotency_key.
     rbind (party_endpoint utt ''payer'') (\<lambda>payer_endpoint.
     rbind (party_endpoint utt ''beneficiary'') (\<lambda>beneficiary_endpoint.
     rbind (str_item payer_endpoint ''institution_id'') (\<lambda>source.
     rbind (str_item payer_endpoint ''account_binding_id'') (\<lambda>payer_binding.
     rbind (ss_resolve svc source payer_binding) (\<lambda>payer_reference.
     rbind (str_item beneficiary_endpoint ''institution_id'') (\<lambda>destination.
     rbind (str_item beneficiary_endpoint ''account_binding_id'') (\<lambda>beneficiary_binding.
     rbind (ss_resolve svc destination beneficiary_binding) (\<lambda>beneficiary_reference.
     rbind (py_item route ''adapter'') (\<lambda>adapter.
     rbind (py_item route ''rail'') (\<lambda>rail.
     rbind (py_item utt ''amount_minor'') (\<lambda>amount.
     rbind (py_item utt ''currency_from'') (\<lambda>cfrom.
     rbind (py_item utt ''receive_amount_minor'') (\<lambda>receive.
     rbind (py_item utt ''currency_to'') (\<lambda>cto.
     let q = \<lparr>pr_idempotency_key = idempotency_key, pr_request_sha256 = [], pr_utt_id = at_utt_id attempt,
              pr_rtt_id = rtt_id, pr_attempt_number = at_attempt_number attempt, pr_provider_id = provider_id,
              pr_adapter_binding_ref = adapter, pr_rail = rail, pr_amount_minor = amount, pr_currency_from = cfrom,
              pr_receive_amount_minor = receive, pr_currency_to = cto, pr_source_institution_id = source,
              pr_destination_institution_id = destination, pr_payer_account_reference = payer_reference,
              pr_beneficiary_account_reference = beneficiary_reference\<rparr>
     in rbind (payload_digest (request_material q)) (\<lambda>sha.
        Inr (q\<lparr>pr_request_sha256 := sha\<rparr>)))))))))))))))))))"

definition new_submission :: "provider_request \<Rightarrow> instant \<Rightarrow> submission_record res" where
  "new_submission q instant =
     rbind (content_id ''SUB'' (obj [(''rtt_id'', PyStr (pr_rtt_id q)), (''request_sha256'', PyStr (pr_request_sha256 q))])) (\<lambda>submission_id.
     Inr \<lparr>sb_submission_id = submission_id, sb_idempotency_key = pr_idempotency_key q,
          sb_request_sha256 = pr_request_sha256 q, sb_utt_id = pr_utt_id q, sb_rtt_id = pr_rtt_id q,
          sb_provider_id = pr_provider_id q, sb_state = SUB_PREPARED, sb_dispatch_attempts = 0,
          sb_normalized_code = None, sb_external_reference = None, sb_rejection_disposition = None,
          sb_provider_context = [], sb_version = 1, sb_created_at = instant, sb_updated_at = instant\<rparr>)"

definition prepared ::
  "platform \<Rightarrow> key_provider \<Rightarrow> contract_store \<Rightarrow> execution_store \<Rightarrow> submission_service \<Rightarrow> string \<Rightarrow> instant \<Rightarrow>
    (submission_record \<times> provider_request \<times> outbox_record) res" where
  "prepared P ks contracts execs svc rtt_id instant =
     rbind (checked_attempt execs rtt_id) (\<lambda>attempt.
     rbind (checked_utt P ks contracts attempt) (\<lambda>signed_utt.
     rbind (build_request svc rtt_id attempt (env_payload signed_utt)) (\<lambda>request.
     rbind (new_submission request instant) (\<lambda>record.
     rbind (submission_event P ks svc record ''PROVIDER_SUBMISSION_PREPARED''
              (obj [(''request_sha256'', PyStr (pr_request_sha256 request))]) instant) (\<lambda>event.
     Inr (record, request, event))))))"

definition prepare_submission ::
  "platform \<Rightarrow> key_provider \<Rightarrow> contract_store \<Rightarrow> execution_store \<Rightarrow> submission_service \<Rightarrow> string \<Rightarrow> datetime \<Rightarrow>
    (operations_store, submission_record \<times> provider_request) st" where
  "prepare_submission P ks contracts execs svc rtt_id at =
     sbind (slift (require_aware ''provider-operation timestamp'' at)) (\<lambda>instant.
     sbind (slift (prepared P ks contracts execs svc rtt_id instant)) (\<lambda>(record, request, event).
     sbind (store_prepare record event) (\<lambda>stored.
     sbind (slift (guard_res (sb_request_sha256 stored \<noteq> pr_request_sha256 request) RuntimeError
              ''prepared provider request does not match stored record'')) (\<lambda>_.
     sret (stored, request)))))"

section \<open>Outcomes\<close>

definition is_lower :: "char \<Rightarrow> bool" where
  \<comment> \<open>\<^verbatim>\<open>[a-z]\<close>\<close>
  "is_lower c \<longleftrightarrow> (let n = (of_char c :: nat) in 97 \<le> n \<and> n \<le> 122)"

definition context_key_ok :: "string \<Rightarrow> bool" where
  \<comment> \<open>\<^verbatim>\<open>re.fullmatch(r"[a-z][a-z0-9_]{0,63}", key)\<close>\<close>
  "context_key_ok k \<longleftrightarrow>
     (case k of [] \<Rightarrow> False
      | c # cs \<Rightarrow> is_lower c \<and> length cs \<le> 63 \<and> list_all (\<lambda>d. is_lower d \<or> is_digit d \<or> d = CHR ''_'') cs)"

definition context_field_ok :: "string \<times> string \<Rightarrow> bool" where
  "context_field_ok kv \<longleftrightarrow> context_key_ok (fst kv) \<and> snd kv \<noteq> [] \<and> length (snd kv) \<le> 256"

definition provider_context :: "(string \<times> string) list \<Rightarrow> (string \<times> string) list res" where
  "provider_context values =
     rbind (guard_res (length values > 20) ValueError ''provider context exceeds 20 fields'') (\<lambda>_.
     rbind (rforall (\<lambda>kv. guard_res (\<not> context_field_ok kv) ValueError ''provider context contains an invalid field'') values) (\<lambda>_.
     rbind (guard_res (card (set (map fst values)) \<noteq> length values) ValueError ''provider context keys must be unique'') (\<lambda>_.
     Inr (sort values))))"

definition outcome_state :: "submission_result \<Rightarrow> (provider_submission_state \<times> string) res" where
  \<comment> \<open>the new state and the type of its event\<close>
  "outcome_state v =
     (case sv_outcome v of
        OUT_REJECTED \<Rightarrow>
          rbind (guard_res (sv_rejection_disposition v = None) ValueError
                   ''rejected provider outcome requires a disposition'') (\<lambda>_.
          Inr (SUB_REJECTED, ''PROVIDER_SUBMISSION_REJECTED''))
      | OUT_ACCEPTED \<Rightarrow>
          rbind (guard_res (sv_rejection_disposition v \<noteq> None) ValueError
                   ''accepted provider outcome cannot have rejection disposition'') (\<lambda>_.
          Inr (SUB_ACCEPTED, ''PROVIDER_SUBMISSION_ACCEPTED''))
      | OUT_UNKNOWN \<Rightarrow>
          rbind (guard_res (sv_rejection_disposition v \<noteq> None) ValueError
                   ''unknown provider outcome cannot have rejection disposition'') (\<lambda>_.
          Inr (SUB_UNKNOWN, ''PROVIDER_SUBMISSION_OUTCOME_UNKNOWN'')))"

definition result_data :: "submission_result \<Rightarrow> string \<Rightarrow> (string \<times> string) list \<Rightarrow> pyval" where
  "result_data v code ctx = obj
     [(''outcome'', PyStr (provider_outcome_value (sv_outcome v))), (''code'', PyStr code),
      (''external_reference'', opt_str (sv_external_reference v)),
      (''rejection_disposition'', opt_str (map_option rejection_disposition_value (sv_rejection_disposition v))),
      (''provider_context'', obj (map (\<lambda>(k, x). (k, PyStr x)) ctx))]"

definition completed ::
  "platform \<Rightarrow> key_provider \<Rightarrow> submission_service \<Rightarrow> submission_record \<Rightarrow> submission_result \<Rightarrow> instant \<Rightarrow>
    (submission_record \<times> outbox_record) res" where
  "completed P ks svc r v at =
     rbind (require_text ''provider result code'' (sv_code v)) (\<lambda>c.
     let code = upper c in
     rbind (provider_context (sv_provider_context v)) (\<lambda>ctx.
     rbind (outcome_state v) (\<lambda>(state, event_type).
     let updated = r\<lparr>sb_state := state, sb_normalized_code := Some code,
                     sb_external_reference := sv_external_reference v,
                     sb_rejection_disposition := sv_rejection_disposition v, sb_provider_context := ctx,
                     sb_version := sb_version r + 1, sb_updated_at := at\<rparr>
     in rbind (submission_event P ks svc updated event_type (result_data v code ctx) at) (\<lambda>event.
        Inr (updated, event)))))"

definition complete_submission ::
  "platform \<Rightarrow> key_provider \<Rightarrow> submission_service \<Rightarrow> submission_record \<Rightarrow> submission_result \<Rightarrow> instant \<Rightarrow>
    (operations_store, submission_record) st" where
  "complete_submission P ks svc r v at =
     sbind (slift (completed P ks svc r v at)) (\<lambda>(updated, event).
     sbind (store_transition (sb_version r) updated event) (\<lambda>_.
     sret updated))"

section \<open>Dispatch\<close>

definition final_state :: "provider_submission_state \<Rightarrow> bool" where
  "final_state st \<longleftrightarrow> st = SUB_ACCEPTED \<or> st = SUB_REJECTED \<or> st = SUB_UNKNOWN"

datatype dispatch_decision = Already_final | Recovery_blocked | Call_provider

definition decide_dispatch :: "provider_adapter \<Rightarrow> submission_record \<Rightarrow> dispatch_decision res" where
  \<comment> \<open>the guards between preparation and the provider call\<close>
  "decide_dispatch ad r =
     rbind (guard_res (upper (ad_provider_id ad) \<noteq> sb_provider_id r) SubmissionNotDispatchableError
              ''adapter provider does not match RTT route'') (\<lambda>_.
     Inr (if final_state (sb_state r) then Already_final
          else if sb_state r = SUB_DISPATCHING \<and> \<not> ad_supports_idempotency ad then Recovery_blocked
          else Call_provider))"

definition unknown_result :: "string \<Rightarrow> submission_result" where
  "unknown_result code =
     \<lparr>sv_outcome = OUT_UNKNOWN, sv_code = code, sv_external_reference = None,
      sv_rejection_disposition = None, sv_provider_context = []\<rparr>"

definition dispatching_record :: "submission_record \<Rightarrow> instant \<Rightarrow> submission_record" where
  "dispatching_record r instant =
     r\<lparr>sb_state := SUB_DISPATCHING, sb_dispatch_attempts := sb_dispatch_attempts r + 1,
       sb_version := sb_version r + 1, sb_updated_at := instant\<rparr>"

definition begin_dispatch ::
  "platform \<Rightarrow> key_provider \<Rightarrow> submission_service \<Rightarrow> provider_adapter \<Rightarrow> submission_record \<Rightarrow> instant \<Rightarrow>
    (operations_store, submission_record) st" where
  "begin_dispatch P ks svc ad r instant =
     (let dispatching = dispatching_record r instant in
      sbind (slift (submission_event P ks svc dispatching ''PROVIDER_DISPATCH_STARTED''
               (obj [(''dispatch_attempt'', PyInt (sb_dispatch_attempts dispatching)),
                     (''provider_idempotency_supported'', PyBool (ad_supports_idempotency ad))]) instant)) (\<lambda>event.
      sbind (store_transition (sb_version r) dispatching event) (\<lambda>_.
      sret dispatching)))"

definition call_provider :: "provider_adapter \<Rightarrow> provider_request \<Rightarrow> submission_result" where
  "call_provider ad request =
     (case ad_submit ad request of Some v \<Rightarrow> v | None \<Rightarrow> unknown_result ''ADAPTER_EXCEPTION_OUTCOME_UNKNOWN'')"

definition dispatch ::
  "platform \<Rightarrow> key_provider \<Rightarrow> contract_store \<Rightarrow> execution_store \<Rightarrow> submission_service \<Rightarrow> string \<Rightarrow>
    provider_adapter \<Rightarrow> datetime \<Rightarrow> (operations_store, submission_record) st" where
  "dispatch P ks contracts execs svc rtt_id ad at =
     sbind (slift (require_aware ''provider-operation timestamp'' at)) (\<lambda>instant.
     sbind (prepare_submission P ks contracts execs svc rtt_id (Aware instant)) (\<lambda>(record, request).
     sbind (slift (decide_dispatch ad record)) (\<lambda>decision.
     case decision of
       Already_final \<Rightarrow> sret record
     | Recovery_blocked \<Rightarrow>
         complete_submission P ks svc record (unknown_result ''NON_IDEMPOTENT_RECOVERY_BLOCKED'') instant
     | Call_provider \<Rightarrow>
         sbind (begin_dispatch P ks svc ad record instant) (\<lambda>dispatching.
         complete_submission P ks svc dispatching (call_provider ad request) instant))))"

section \<open>Events can be signed\<close>

lemma submission_event_ok:
  assumes "can_sign P ks (ss_event_signing_key_id svc) EXECUTION_SIGNING t" "plain data"
  shows "\<exists>e. submission_event P ks svc r ty data t = Inr e"
proof -
  have core: "plain (obj (event_core r ty data t))" using assms(2) by (simp add: event_core_def plain_obj)
  then obtain i where i: "content_id ''EVT'' (obj (event_core r ty data t)) = Inr i" using content_id_ok by blast
  have "plain (merge_obj [(''event_id'', PyStr i)] (obj (event_core r ty data t)))"
    using core by (intro plain_merge_obj) auto
  then obtain env where "sign_artifact P ks EXECUTION_EVENT (merge_obj [(''event_id'', PyStr i)] (obj (event_core r ty data t)))
      (ss_event_signing_key_id svc) (Aware t) = Inr env"
    using can_sign_ok [of P ks "ss_event_signing_key_id svc" EXECUTION_EVENT t] assms(1) by auto
  then show ?thesis using i by (simp add: submission_event_def)
qed

end
