(* ===== verification/Submission_Invariant.thy ===== *)
theory Submission_Invariant
  imports Provider_Submission
begin

text \<open>
  Concurrent dispatchers over one operations store.  A dispatcher prepares a submission and keeps the
  snapshot it read; it may then start the provider call, or block a recovery, from that snapshot, and
  later record whatever result the provider gave.  Dispatchers interleave freely, may stop at any point,
  and share the store with the outbox relay.  The invariant says what provider calls, stored submissions
  and signed events have to do with each other; the last section shows that \<^verbatim>\<open>dispatch\<close> itself is a run
  of this system.
\<close>

section \<open>The system\<close>

record provider_call =
  cl_rtt_id :: string
  cl_idempotent :: bool
  cl_key :: string
  cl_sha256 :: string

definition call_of :: "provider_adapter \<Rightarrow> provider_request \<Rightarrow> provider_call" where
  "call_of ad q = \<lparr>cl_rtt_id = pr_rtt_id q, cl_idempotent = ad_supports_idempotency ad,
     cl_key = pr_idempotency_key q, cl_sha256 = pr_request_sha256 q\<rparr>"

datatype session =
    Holding submission_record provider_request provider_adapter instant
  | Awaiting submission_record instant

record submission_system =
  sy_store :: operations_store
  sy_calls :: "provider_call list"
  sy_sessions :: "session list"

definition system_start :: submission_system where
  "system_start = \<lparr>sy_store = empty_operations_store, sy_calls = [], sy_sessions = []\<rparr>"

inductive submission_step :: "submission_system \<Rightarrow> submission_system \<Rightarrow> bool" where
  sub_prepare: "prepare_submission P ks contracts execs svc rtt_id (Aware t) (sy_store y) = (Inr (r, q), s') \<Longrightarrow>
    submission_step y (y\<lparr>sy_store := s', sy_sessions := Holding r q ad t # sy_sessions y\<rparr>)"
| sub_begin: "Holding r q ad t \<in> set (sy_sessions y) \<Longrightarrow> decide_dispatch ad r = Inr Call_provider \<Longrightarrow>
    begin_dispatch P ks svc ad r t (sy_store y) = (Inr d, s') \<Longrightarrow>
    submission_step y (y\<lparr>sy_store := s', sy_calls := sy_calls y @ [call_of ad q],
      sy_sessions := Awaiting d t # sy_sessions y\<rparr>)"
| sub_block: "Holding r q ad t \<in> set (sy_sessions y) \<Longrightarrow> decide_dispatch ad r = Inr Recovery_blocked \<Longrightarrow>
    complete_submission P ks svc r (unknown_result ''NON_IDEMPOTENT_RECOVERY_BLOCKED'') t (sy_store y) = (Inr x, s') \<Longrightarrow>
    submission_step y (y\<lparr>sy_store := s'\<rparr>)"
| sub_finish: "Awaiting d t \<in> set (sy_sessions y) \<Longrightarrow>
    complete_submission P ks svc d v t (sy_store y) = (Inr x, s') \<Longrightarrow> submission_step y (y\<lparr>sy_store := s'\<rparr>)"
| sub_claim: "claim_outbox w at l limit (sy_store y) = (z, s') \<Longrightarrow> submission_step y (y\<lparr>sy_store := s'\<rparr>)"
| sub_settle: "settle_outbox k w m (sy_store y) = (u, s') \<Longrightarrow> submission_step y (y\<lparr>sy_store := s'\<rparr>)"

section \<open>What a step does to submissions and events\<close>

definition events :: "operations_store \<Rightarrow> string \<Rightarrow> envelope option" where
  \<comment> \<open>the signed events of the outbox\<close>
  "events s k = map_option ob_signed_event (dict_get (op_outbox s) k)"

definition event_tag :: "envelope \<Rightarrow> (string \<times> int) option" where
  \<comment> \<open>the RTT and submission version an event reports\<close>
  "event_tag e = (case (pget (env_payload e) ''rtt_id'', pget (env_payload e) ''submission_version'') of
     (Some (PyStr r), Some (PyInt n)) \<Rightarrow> Some (r, n) | _ \<Rightarrow> None)"

lemma submission_event_tag:
  assumes "submission_event P ks svc r ty data t = Inr e"
  shows "event_tag (ob_signed_event e) = Some (sb_rtt_id r, sb_version r)"
proof -
  obtain i env where "sign_artifact P ks EXECUTION_EVENT (merge_obj [(''event_id'', PyStr i)] (obj (event_core r ty data t)))
      (ss_event_signing_key_id svc) (Aware t) = Inr env" "ob_signed_event e = env"
    using assms unfolding submission_event_def by (elim rbind_InrE) auto
  then show ?thesis
    using issued_payload [of P ks EXECUTION_EVENT "[(''event_id'', PyStr i)]" "event_core r ty data t"
        "ss_event_signing_key_id svc" "Aware t" env "''rtt_id''"]
      issued_payload [of P ks EXECUTION_EVENT "[(''event_id'', PyStr i)]" "event_core r ty data t"
        "ss_event_signing_key_id svc" "Aware t" env "''submission_version''"]
    by (simp add: event_tag_def event_core_def)
qed

definition advances :: "operations_store \<Rightarrow> submission_record \<Rightarrow> operations_store \<Rightarrow> bool" where
  \<comment> \<open>\<open>r\<close> becomes the submission of its RTT, together with one new event that reports its version\<close>
  "advances s r s' \<longleftrightarrow> op_submissions s' = dict_set (sb_rtt_id r) r (op_submissions s)
     \<and> (\<exists>k e. events s k = None \<and> events s' = (events s)(k \<mapsto> e) \<and> event_tag e = Some (sb_rtt_id r, sb_version r))
     \<and> (outbox_ok s \<longrightarrow> outbox_ok s')"

lemma advancesI:
  assumes "dict_get (op_outbox s) (ob_event_id e) = None" "event_tag (ob_signed_event e) = Some (sb_rtt_id r, sb_version r)"
    and "op_submissions s' = dict_set (sb_rtt_id r) r (op_submissions s)" "op_outbox s' = dict_set (ob_event_id e) e (op_outbox s)"
  shows "advances s r s'"
proof -
  have "events s (ob_event_id e) = None" "events s' = (events s)(ob_event_id e \<mapsto> ob_signed_event e)"
    using assms by (auto simp: events_def fun_eq_iff)
  then show ?thesis using assms unfolding advances_def by (auto simp: outbox_ok_def)
qed

lemma transition_advances:
  assumes "store_transition n r e s = (Inr u, s')" "event_tag (ob_signed_event e) = Some (sb_rtt_id r, sb_version r)"
  obtains cur where "dict_get (op_submissions s) (sb_rtt_id r) = Some cur" "sb_version cur = n" "sb_version r = n + 1"
    "advances s r s'"
  using assms(1)
proof (rule store_transition_Inr)
  fix cur assume h: "dict_get (op_submissions s) (sb_rtt_id r) = Some cur" "sb_version cur = n" "sb_version r = n + 1"
    "dict_get (op_outbox s) (ob_event_id e) = None"
    "s' = s\<lparr>op_submissions := dict_set (sb_rtt_id r) r (op_submissions s), op_outbox := dict_set (ob_event_id e) e (op_outbox s)\<rparr>"
  then have "advances s r s'" using assms(2) by (intro advancesI [of _ e]) simp_all
  then show thesis using that h by blast
qed

lemma prepare_effect:
  assumes "prepare_submission P ks contracts execs svc rtt_id (Aware t) s = (Inr (r, q), s')"
  obtains (replay) "dict_get (op_submissions s) rtt_id = Some r" "s' = s"
      "sb_idempotency_key r = pr_idempotency_key q" "sb_request_sha256 r = pr_request_sha256 q" "pr_rtt_id q = rtt_id"
  | (fresh) "dict_get (op_submissions s) rtt_id = None" "advances s r s'" "new_submission q t = Inr r" "sb_rtt_id r = rtt_id" "pr_rtt_id q = rtt_id"
proof -
  obtain r0 e where p: "prepared P ks contracts execs svc rtt_id t = Inr (r0, q, e)" and st: "store_prepare r0 e s = (Inr r, s')"
    using assms by (auto simp: prepare_submission_def sbind_eq_Inr slift_eq sret_eq guard_res_eq_Inr)
  have q: "new_submission q t = Inr r0" and ev: "\<exists>data. submission_event P ks svc r0 ''PROVIDER_SUBMISSION_PREPARED'' data t = Inr e"
    using p unfolding prepared_def by (elim rbind_InrE; force)+
  have rtt: "pr_rtt_id q = rtt_id"
    using p unfolding prepared_def build_request_def Let_def by (elim rbind_InrE) auto
  have r0: "sb_rtt_id r0 = rtt_id" "sb_idempotency_key r0 = pr_idempotency_key q" "sb_request_sha256 r0 = pr_request_sha256 q"
    using q rtt by (auto simp: new_submission_def rbind_eq_Inr)
  from st show thesis
  proof (cases rule: store_prepare_Inr)
    case replay
    then show thesis using that(1) r0 rtt by simp
  next
    case fresh
    have "event_tag (ob_signed_event e) = Some (sb_rtt_id r0, sb_version r0)" using ev submission_event_tag by blast
    then have "advances s r s'" using fresh by (intro advancesI [of _ e]) simp_all
    then show thesis using that(2) fresh r0 q rtt by simp
  qed
qed

lemma begin_effect:
  assumes "begin_dispatch P ks svc ad r t s = (Inr d, s')"
  shows "d = dispatching_record r t \<and> advances s d s' \<and>
    (\<exists>cur. dict_get (op_submissions s) (sb_rtt_id r) = Some cur \<and> sb_version cur = sb_version r)"
proof -
  obtain data e where e: "submission_event P ks svc (dispatching_record r t) ''PROVIDER_DISPATCH_STARTED'' data t = Inr e"
    and st: "store_transition (sb_version r) (dispatching_record r t) e s = (Inr (), s')" and d: "d = dispatching_record r t"
    using assms by (auto simp: begin_dispatch_def Let_def sbind_eq_Inr slift_eq sret_eq)
  show ?thesis using transition_advances [OF st submission_event_tag [OF e]] d by (auto simp: dispatching_record_def)
qed

definition result_of :: "submission_record \<Rightarrow> submission_record \<Rightarrow> bool" where
  \<comment> \<open>\<open>x\<close> records an outcome of \<open>r\<close>\<close>
  "result_of r x \<longleftrightarrow> (\<exists>st code ext rej ctx t. x = r\<lparr>sb_state := st, sb_normalized_code := Some code,
       sb_external_reference := ext, sb_rejection_disposition := rej, sb_provider_context := ctx,
       sb_version := sb_version r + 1, sb_updated_at := t\<rparr>
     \<and> final_state st \<and> (rej \<noteq> None \<longleftrightarrow> st = SUB_REJECTED) \<and> length ctx \<le> 20 \<and> list_all context_field_ok ctx
     \<and> sorted ctx \<and> distinct (map fst ctx))"

lemma provider_context_Inr:
  assumes "provider_context vs = Inr ctx"
  shows "length ctx \<le> 20 \<and> list_all context_field_ok ctx \<and> sorted ctx \<and> distinct (map fst ctx)"
proof -
  have ctx: "ctx = sort vs" "length vs \<le> 20" "\<forall>kv\<in>set vs. context_field_ok kv" "card (set (map fst vs)) = length vs"
    using assms by (auto simp: provider_context_def res_simps)
  then have "distinct (map fst vs)" by (metis card_distinct length_map)
  then have "distinct (map fst (sort vs))" by (simp add: distinct_map)
  then show ?thesis using ctx by (simp add: list_all_iff)
qed

lemma completed_result:
  assumes "completed P ks svc r v t = Inr (x, e)"
  shows "result_of r x \<and> event_tag (ob_signed_event e) = Some (sb_rtt_id x, sb_version x)"
proof -
  obtain c ctx st ty where c: "provider_context (sv_provider_context v) = Inr ctx" "outcome_state v = Inr (st, ty)"
    and x: "x = r\<lparr>sb_state := st, sb_normalized_code := Some (upper c), sb_external_reference := sv_external_reference v,
      sb_rejection_disposition := sv_rejection_disposition v, sb_provider_context := ctx,
      sb_version := sb_version r + 1, sb_updated_at := t\<rparr>"
    and e: "submission_event P ks svc x ty (result_data v (upper c) ctx) t = Inr e"
    using assms unfolding completed_def Let_def by (elim rbind_InrE) (auto elim!: rbind_InrE)
  have "final_state st \<and> (sv_rejection_disposition v \<noteq> None \<longleftrightarrow> st = SUB_REJECTED)"
    using c(2) by (auto simp: outcome_state_def final_state_def res_simps split: provider_outcome.splits)
  then show ?thesis using provider_context_Inr [OF c(1)] submission_event_tag [OF e] x
    unfolding result_of_def by blast
qed

lemma complete_effect:
  assumes "complete_submission P ks svc r v t s = (Inr x, s')"
  shows "result_of r x \<and> advances s x s' \<and>
    (\<exists>cur. dict_get (op_submissions s) (sb_rtt_id r) = Some cur \<and> sb_version cur = sb_version r)"
proof -
  obtain e where c: "completed P ks svc r v t = Inr (x, e)" and st: "store_transition (sb_version r) x e s = (Inr (), s')"
    using assms by (auto simp: complete_submission_def sbind_eq_Inr slift_eq sret_eq)
  have "result_of r x" "event_tag (ob_signed_event e) = Some (sb_rtt_id x, sb_version x)" "sb_rtt_id x = sb_rtt_id r"
    using completed_result [OF c] by (auto simp: result_of_def)
  then show ?thesis using transition_advances [OF st] by metis
qed

lemma relay_effect:
  assumes "outbox_ok s" "claim_outbox w at l limit s = (z, s') \<or> settle_outbox k w m s = (u, s')"
  shows "op_submissions s' = op_submissions s \<and> events s' = events s \<and> outbox_ok s'"
proof -
  have step: "outbox_step s s'" using assms(2) by (auto intro: outbox_step.intros)
  have sub: "op_submissions s' = op_submissions s"
    using assms(2) by (cases z; cases u) (auto elim!: claim_outbox_Inr settle_outbox_Inr dest: claim_outbox_Inl settle_outbox_Inl)
  have absent: "dict_get (op_outbox s') j = None" if j: "dict_get (op_outbox s) j = None" for j
    using assms(2)
  proof
    assume c: "claim_outbox w at l limit s = (z, s')"
    show ?thesis
    proof (cases z)
      case (Inl e)
      then show ?thesis using c claim_outbox_Inl j by metis
    next
      case (Inr rs)
      with c obtain d where "s' = s\<lparr>op_outbox := d\<rparr>"
        "lease_claim ob_event_id (outbox_eligible at) delivery_order (leased w at l) limit (op_outbox s) = (rs, d)"
        by (auto elim: claim_outbox_Inr)
      then show ?thesis using outbox_claim.claim_absent assms(1) j by (simp add: outbox_ok_def)
    qed
  next
    assume c: "settle_outbox k w m s = (u, s')"
    show ?thesis
      using c j by (cases u) (auto simp: require_owned_Inr dest!: settle_outbox_Inl elim!: settle_outbox_Inr)
  qed
  have "events s' j = events s j" for j
    using absent [of j] outbox_step_keeps [OF step assms(1)] by (cases "dict_get (op_outbox s) j") (auto simp: events_def same_event_def)
  then show ?thesis using sub outbox_step_ok [OF step assms(1)] by auto
qed

section \<open>The invariant\<close>

definition calls_of :: "submission_system \<Rightarrow> string \<Rightarrow> provider_call list" where
  "calls_of y k = filter (\<lambda>c. cl_rtt_id c = k) (sy_calls y)"

definition record_ok :: "submission_record \<Rightarrow> bool" where
  \<comment> \<open>the outcome fields agree with the state\<close>
  "record_ok r \<longleftrightarrow> (sb_normalized_code r \<noteq> None \<longleftrightarrow> final_state (sb_state r))
     \<and> (sb_rejection_disposition r \<noteq> None \<longleftrightarrow> sb_state r = SUB_REJECTED)
     \<and> (\<not> final_state (sb_state r) \<longrightarrow> sb_external_reference r = None \<and> sb_provider_context r = [])
     \<and> length (sb_provider_context r) \<le> 20 \<and> list_all context_field_ok (sb_provider_context r)
     \<and> sorted (sb_provider_context r) \<and> distinct (map fst (sb_provider_context r))
     \<and> 1 \<le> sb_version r \<and> 0 \<le> sb_dispatch_attempts r \<and> (sb_state r = SUB_PREPARED \<longleftrightarrow> sb_dispatch_attempts r = 0)"

definition calls_match :: "provider_call list \<Rightarrow> submission_record \<Rightarrow> bool" where
  \<comment> \<open>every call repeats the prepared request, and only the first may be to an adapter without idempotency\<close>
  "calls_match cs r \<longleftrightarrow> int (length cs) = sb_dispatch_attempts r
     \<and> list_all (\<lambda>c. cl_key c = sb_idempotency_key r \<and> cl_sha256 c = sb_request_sha256 r) cs
     \<and> list_all cl_idempotent (tl cs)"

definition submission_ok :: "submission_system \<Rightarrow> string \<Rightarrow> bool" where
  "submission_ok y k \<longleftrightarrow> (case submission_of (sy_store y) k of
       None \<Rightarrow> calls_of y k = []
     | Some r \<Rightarrow> sb_rtt_id r = k \<and> record_ok r \<and> calls_match (calls_of y k) r)"

definition snapshot :: "operations_store \<Rightarrow> submission_record \<Rightarrow> bool" where
  \<comment> \<open>\<open>r\<close> was the stored submission at some earlier time\<close>
  "snapshot s r \<longleftrightarrow> (\<exists>cur. submission_of s (sb_rtt_id r) = Some cur \<and> sb_version r \<le> sb_version cur
     \<and> (sb_version cur = sb_version r \<longrightarrow> cur = r))"

fun session_ok :: "operations_store \<Rightarrow> session \<Rightarrow> bool" where
  "session_ok s (Holding r q ad t) \<longleftrightarrow> snapshot s r \<and> pr_rtt_id q = sb_rtt_id r
     \<and> pr_idempotency_key q = sb_idempotency_key r \<and> pr_request_sha256 q = sb_request_sha256 r"
| "session_ok s (Awaiting d t) \<longleftrightarrow> snapshot s d \<and> sb_state d = SUB_DISPATCHING"

definition events_ok :: "operations_store \<Rightarrow> bool" where
  \<comment> \<open>the outbox holds exactly one event for every version of every submission\<close>
  "events_ok s \<longleftrightarrow> (\<forall>k e. events s k = Some e \<longrightarrow> event_tag e \<noteq> None)
     \<and> (\<forall>k k' e e'. events s k = Some e \<longrightarrow> events s k' = Some e' \<longrightarrow> event_tag e = event_tag e' \<longrightarrow> k = k')
     \<and> (\<forall>rtt v. (\<exists>k e. events s k = Some e \<and> event_tag e = Some (rtt, v))
                 \<longleftrightarrow> (\<exists>r. submission_of s rtt = Some r \<and> 1 \<le> v \<and> v \<le> sb_version r))"

definition submission_inv :: "submission_system \<Rightarrow> bool" where
  "submission_inv y \<longleftrightarrow> outbox_ok (sy_store y) \<and> events_ok (sy_store y) \<and> (\<forall>k. submission_ok y k)
     \<and> (\<forall>x\<in>set (sy_sessions y). session_ok (sy_store y) x)"

definition next_version :: "operations_store \<Rightarrow> submission_record \<Rightarrow> bool" where
  "next_version s r \<longleftrightarrow> (case submission_of s (sb_rtt_id r) of None \<Rightarrow> sb_version r = 1
     | Some cur \<Rightarrow> 1 \<le> sb_version cur \<and> sb_version r = sb_version cur + 1)"

lemma advances_of: "advances s r s' \<Longrightarrow> submission_of s' = (submission_of s)(sb_rtt_id r \<mapsto> r)"
  by (auto simp: advances_def submission_of_def fun_eq_iff)

lemma advances_snapshot:
  assumes "advances s r s'" "next_version s r" "snapshot s x"
  shows "snapshot s' x"
proof (cases "sb_rtt_id x = sb_rtt_id r")
  case True
  then obtain cur where "submission_of s (sb_rtt_id r) = Some cur" "sb_version x \<le> sb_version cur"
    using assms(3) by (auto simp: snapshot_def)
  then show ?thesis using assms(2) True advances_of [OF assms(1)] by (simp add: snapshot_def next_version_def)
next
  case False
  then show ?thesis using assms(3) advances_of [OF assms(1)] by (simp add: snapshot_def)
qed

lemma advances_new: "advances s r s' \<Longrightarrow> snapshot s' r"
  using advances_of by (simp add: snapshot_def)

lemma advances_session:
  "advances s r s' \<Longrightarrow> next_version s r \<Longrightarrow> session_ok s x \<Longrightarrow> session_ok s' x"
  by (cases x) (auto intro: advances_snapshot)

lemma advances_events:
  assumes "advances s r s'" "next_version s r" "events_ok s"
  shows "events_ok s'"
proof -
  obtain k e where k: "events s k = None" "events s' = (events s)(k \<mapsto> e)" "event_tag e = Some (sb_rtt_id r, sb_version r)"
    using assms(1) unfolding advances_def by blast
  have "\<nexists>c. submission_of s (sb_rtt_id r) = Some c \<and> sb_version r \<le> sb_version c"
    using assms(2) by (auto simp: next_version_def split: option.splits)
  then have fresh: "event_tag e' \<noteq> event_tag e" if "events s j = Some e'" for j e'
    using assms(3) that k(3) unfolding events_ok_def by metis
  have old: "events s j = Some e1 \<Longrightarrow> event_tag e1 \<noteq> None"
    "events s j = Some e1 \<Longrightarrow> events s j' = Some e2 \<Longrightarrow> event_tag e1 = event_tag e2 \<Longrightarrow> j = j'"
    "(\<exists>j e. events s j = Some e \<and> event_tag e = Some (rtt, v)) \<longleftrightarrow>
      (\<exists>r. submission_of s rtt = Some r \<and> 1 \<le> v \<and> v \<le> sb_version r)" for j j' e1 e2 rtt v
    using assms(3) unfolding events_ok_def by blast+
  have tags: "(\<exists>j e'. events s' j = Some e' \<and> event_tag e' = Some (rtt, v)) \<longleftrightarrow>
      (\<exists>j e'. events s j = Some e' \<and> event_tag e' = Some (rtt, v)) \<or> (rtt, v) = (sb_rtt_id r, sb_version r)" for rtt v
    unfolding k(2) using k(1,3) by (auto split: if_splits) (metis option.distinct(1))
  have vs: "(\<exists>c. submission_of s' rtt = Some c \<and> 1 \<le> v \<and> v \<le> sb_version c) \<longleftrightarrow>
      (\<exists>c. submission_of s rtt = Some c \<and> 1 \<le> v \<and> v \<le> sb_version c) \<or> (rtt, v) = (sb_rtt_id r, sb_version r)" for rtt v
  proof (cases "rtt = sb_rtt_id r")
    case True
    then show ?thesis using assms(2) unfolding advances_of [OF assms(1)] next_version_def
      by (cases "submission_of s (sb_rtt_id r)") auto
  qed (simp add: advances_of [OF assms(1)])
  show ?thesis
    unfolding events_ok_def tags vs
  proof (intro conjI allI impI)
    fix j e1 assume "events s' j = Some e1"
    then show "event_tag e1 \<noteq> None" using old(1) k by (cases "j = k") auto
  next
    fix j j' e1 e2 assume h: "events s' j = Some e1" "events s' j' = Some e2" "event_tag e1 = event_tag e2"
    show "j = j'"
    proof (cases "j = k \<or> j' = k")
      case True
      then show ?thesis using h k(2) fresh [of j' e2] fresh [of j e1] by (cases "j = j'") auto
    next
      case False
      then show ?thesis using h k(2) old(2) by simp
    qed
  qed (use old(3) in simp)
qed

lemma submission_invD:
  assumes "submission_inv y"
  shows "outbox_ok (sy_store y)" and "events_ok (sy_store y)" and "submission_ok y k"
    and "x \<in> set (sy_sessions y) \<Longrightarrow> session_ok (sy_store y) x"
  using assms by (simp_all add: submission_inv_def)

lemma calls_of_update [simp]:
  "calls_of (y\<lparr>sy_store := s\<rparr>) k = calls_of y k" "calls_of (y\<lparr>sy_sessions := xs\<rparr>) k = calls_of y k"
  by (simp_all add: calls_of_def)

lemma submission_ok_cong:
  "submission_of (sy_store y') k = submission_of (sy_store y) k \<Longrightarrow> calls_of y' k = calls_of y k \<Longrightarrow>
    submission_ok y' k = submission_ok y k"
  by (cases "submission_of (sy_store y) k") (simp_all add: submission_ok_def)

lemma advances_inv:
  assumes "submission_inv y" "advances (sy_store y) r s'" "next_version (sy_store y) r"
    and "submission_ok y' (sb_rtt_id r)" "sy_store y' = s'" "\<And>k. k \<noteq> sb_rtt_id r \<Longrightarrow> calls_of y' k = calls_of y k"
    and "\<And>x. x \<in> set (sy_sessions y') \<Longrightarrow> x \<in> set (sy_sessions y) \<or> session_ok s' x"
  shows "submission_inv y'"
proof -
  have "submission_ok y' k" for k
  proof (cases "k = sb_rtt_id r")
    case False
    then have "submission_ok y' k = submission_ok y k"
      using assms(5,6) advances_of [OF assms(2)] by (intro submission_ok_cong) simp_all
    then show ?thesis using submission_invD(3) [OF assms(1)] by simp
  qed (use assms(4) in simp)
  moreover have "session_ok s' x" if "x \<in> set (sy_sessions y')" for x
    using assms(1,7) that advances_session [OF assms(2,3)] by (auto simp: submission_inv_def)
  moreover have "outbox_ok s'" using assms(1,2) by (simp add: submission_inv_def advances_def)
  moreover have "events_ok s'" using assms(1) advances_events [OF assms(2,3)] by (simp add: submission_inv_def)
  ultimately show ?thesis using assms(5) by (simp add: submission_inv_def)
qed

lemma inv_stored:
  assumes "submission_inv y" "submission_of (sy_store y) k = Some r"
  shows "sb_rtt_id r = k \<and> record_ok r \<and> calls_match (calls_of y k) r"
  using submission_invD(3) [OF assms(1), of k] assms(2) by (simp add: submission_ok_def)

lemma inv_absent: "submission_inv y \<Longrightarrow> submission_of (sy_store y) k = None \<Longrightarrow> calls_of y k = []"
  using submission_invD(3) [of y k] by (simp add: submission_ok_def)

text \<open>A snapshot whose version is still current is the stored submission.\<close>

lemma inv_current:
  assumes "submission_inv y" "snapshot (sy_store y) r" "dict_get (op_submissions (sy_store y)) (sb_rtt_id r) = Some cur"
    "sb_version cur = sb_version r"
  shows "submission_of (sy_store y) (sb_rtt_id r) = Some r \<and> record_ok r \<and> calls_match (calls_of y (sb_rtt_id r)) r"
proof -
  have "submission_of (sy_store y) (sb_rtt_id r) = Some r"
    using assms(2-4) by (auto simp: snapshot_def submission_of_def)
  then show ?thesis using inv_stored [OF assms(1)] by blast
qed

lemma prepare_inv:
  assumes "submission_inv y" "prepare_submission P ks contracts execs svc rtt_id (Aware t) (sy_store y) = (Inr (r, q), s')"
  shows "submission_inv (y\<lparr>sy_store := s', sy_sessions := Holding r q ad t # sy_sessions y\<rparr>)"
  using assms(2)
proof (cases rule: prepare_effect)
  case replay
  then have "sb_rtt_id r = rtt_id" using inv_stored [OF assms(1)] by (simp add: submission_of_def)
  with replay have "session_ok (sy_store y) (Holding r q ad t)" by (simp add: snapshot_def submission_of_def)
  moreover have "submission_ok (y\<lparr>sy_store := s', sy_sessions := Holding r q ad t # sy_sessions y\<rparr>) k" for k
    by (rule submission_ok_cong [of _ _ y, THEN iffD2]) (use submission_invD(3) [OF assms(1)] replay(2) in simp_all)
  ultimately show ?thesis using submission_invD [OF assms(1)] replay(2) by (simp add: submission_inv_def)
next
  case fresh
  have r: "sb_state r = SUB_PREPARED" "sb_version r = 1" "sb_dispatch_attempts r = 0" "record_ok r"
    "sb_idempotency_key r = pr_idempotency_key q" "sb_request_sha256 r = pr_request_sha256 q"
    using fresh(3) by (auto simp: new_submission_def rbind_eq_Inr record_ok_def final_state_def)
  have none: "submission_of (sy_store y) (sb_rtt_id r) = None" using fresh by (simp add: submission_of_def)
  have c: "calls_of y (sb_rtt_id r) = []" using inv_absent [OF assms(1) none] .
  show ?thesis
  proof (rule advances_inv [OF assms(1) fresh(2)])
    show "next_version (sy_store y) r" using none r by (simp add: next_version_def)
    show "submission_ok (y\<lparr>sy_store := s', sy_sessions := Holding r q ad t # sy_sessions y\<rparr>) (sb_rtt_id r)"
      using advances_of [OF fresh(2)] r c by (simp add: submission_ok_def calls_match_def calls_of_def)
  qed (use r fresh advances_new [OF fresh(2)] in \<open>auto simp: calls_of_def\<close>)
qed

lemma begin_inv:
  assumes "submission_inv y" "Holding r q ad t \<in> set (sy_sessions y)" "decide_dispatch ad r = Inr Call_provider"
    and "begin_dispatch P ks svc ad r t (sy_store y) = (Inr d, s')"
  shows "submission_inv (y\<lparr>sy_store := s', sy_calls := sy_calls y @ [call_of ad q], sy_sessions := Awaiting d t # sy_sessions y\<rparr>)"
    (is "submission_inv ?y")
proof -
  from begin_effect [OF assms(4)] obtain cur where d: "d = dispatching_record r t" and adv: "advances (sy_store y) d s'"
    and cur: "dict_get (op_submissions (sy_store y)) (sb_rtt_id r) = Some cur" "sb_version cur = sb_version r" by blast
  have q: "snapshot (sy_store y) r" "pr_rtt_id q = sb_rtt_id r" "pr_idempotency_key q = sb_idempotency_key r" "pr_request_sha256 q = sb_request_sha256 r"
    using assms(1,2) by (auto simp: submission_inv_def)
  have now: "submission_of (sy_store y) (sb_rtt_id r) = Some r" and rok: "record_ok r" and cm: "calls_match (calls_of y (sb_rtt_id r)) r"
    using inv_current [OF assms(1) q(1) cur] by auto
  have nf: "\<not> final_state (sb_state r)" and idem: "ad_supports_idempotency ad \<or> sb_state r \<noteq> SUB_DISPATCHING"
    using assms(3) by (auto simp: decide_dispatch_def guard_res_def split: if_splits)
  have first: "ad_supports_idempotency ad \<or> calls_of y (sb_rtt_id r) = []"
    using nf idem rok cm by (cases "sb_state r") (auto simp: final_state_def record_ok_def calls_match_def)
  have id: "sb_rtt_id d = sb_rtt_id r" by (simp add: d dispatching_record_def)
  have calls: "calls_of ?y (sb_rtt_id r) = calls_of y (sb_rtt_id r) @ [call_of ad q]"
    using q(2) by (simp add: calls_of_def call_of_def)
  have "calls_match (calls_of ?y (sb_rtt_id r)) d"
    unfolding calls using cm first q by (cases "calls_of y (sb_rtt_id r)") (auto simp: calls_match_def d dispatching_record_def call_of_def)
  moreover have "record_ok d"
    using rok nf by (auto simp: record_ok_def d dispatching_record_def final_state_def)
  ultimately have sok: "submission_ok ?y (sb_rtt_id d)"
    using advances_of [OF adv] id by (simp add: submission_ok_def)
  have nv: "next_version (sy_store y) d"
    using now rok id by (simp add: next_version_def d dispatching_record_def record_ok_def)
  have st: "session_ok s' (Awaiting d t)" using advances_new [OF adv] by (simp add: d dispatching_record_def)
  show ?thesis
    by (rule advances_inv [OF assms(1) adv nv sok]) (use st q(2) id in \<open>auto simp: calls_of_def call_of_def\<close>)
qed

lemma complete_inv:
  assumes "submission_inv y" "snapshot (sy_store y) r" "sb_state r = SUB_DISPATCHING"
    and "complete_submission P ks svc r v t (sy_store y) = (Inr x, s')"
  shows "submission_inv (y\<lparr>sy_store := s'\<rparr>)"
proof -
  from complete_effect [OF assms(4)] obtain cur where x: "result_of r x" and adv: "advances (sy_store y) x s'"
    and cur: "dict_get (op_submissions (sy_store y)) (sb_rtt_id r) = Some cur" "sb_version cur = sb_version r" by blast
  have now: "submission_of (sy_store y) (sb_rtt_id r) = Some r" and rok: "record_ok r" and cm: "calls_match (calls_of y (sb_rtt_id r)) r"
    using inv_current [OF assms(1,2) cur] by auto
  have f: "sb_rtt_id x = sb_rtt_id r" "sb_version x = sb_version r + 1" "calls_match (calls_of y (sb_rtt_id r)) x" "record_ok x"
    using x rok cm assms(3) by (auto simp: result_of_def calls_match_def record_ok_def final_state_def)
  show ?thesis
  proof (rule advances_inv [OF assms(1) adv])
    show "next_version (sy_store y) x" using now rok f by (simp add: next_version_def record_ok_def)
    show "submission_ok (y\<lparr>sy_store := s'\<rparr>) (sb_rtt_id x)"
      using advances_of [OF adv] f by (simp add: submission_ok_def calls_of_def)
  qed (auto simp: calls_of_def)
qed

lemma relay_inv:
  assumes "submission_inv y" "op_submissions s' = op_submissions (sy_store y)" "events s' = events (sy_store y)" "outbox_ok s'"
  shows "submission_inv (y\<lparr>sy_store := s'\<rparr>)"
proof -
  have of: "submission_of s' = submission_of (sy_store y)" by (simp add: submission_of_def fun_eq_iff assms(2))
  then have "snapshot s' x = snapshot (sy_store y) x" for x by (simp add: snapshot_def)
  then have "session_ok s' x = session_ok (sy_store y) x" for x by (cases x) auto
  moreover have "submission_ok (y\<lparr>sy_store := s'\<rparr>) k" for k
    by (rule submission_ok_cong [of _ _ y, THEN iffD2]) (use submission_invD(3) [OF assms(1)] of in simp_all)
  moreover have "events_ok s'" using submission_invD(2) [OF assms(1)] of assms(3) by (simp add: events_ok_def)
  ultimately show ?thesis using submission_invD [OF assms(1)] assms(4) by (simp add: submission_inv_def)
qed

lemma step_inv: "submission_step y y' \<Longrightarrow> submission_inv y \<Longrightarrow> submission_inv y'"
proof (induction rule: submission_step.induct)
  case (sub_prepare P ks contracts execs svc rtt_id t y r q s' ad)
  then show ?case using prepare_inv by blast
next
  case (sub_begin r q ad t y P ks svc d s')
  then show ?case using begin_inv by blast
next
  case (sub_block r q ad t y P ks svc x s')
  then have "snapshot (sy_store y) r" by (auto simp: submission_inv_def)
  moreover have "sb_state r = SUB_DISPATCHING"
    using sub_block(2) by (auto simp: decide_dispatch_def guard_res_def split: if_splits)
  ultimately show ?case using complete_inv sub_block by blast
next
  case (sub_finish d t y P ks svc v x s')
  then have "snapshot (sy_store y) d" "sb_state d = SUB_DISPATCHING" by (auto simp: submission_inv_def)
  then show ?case using complete_inv sub_finish by blast
next
  case (sub_claim w at l limit y z s')
  then have "outbox_ok (sy_store y)" by (simp add: submission_inv_def)
  then show ?case using relay_effect [of "sy_store y" w at l limit z s'] sub_claim relay_inv by blast
next
  case (sub_settle k w m y u s')
  then have "outbox_ok (sy_store y)" by (simp add: submission_inv_def)
  then show ?case using relay_effect [of "sy_store y" w _ _ _ _ s' k m u] sub_settle relay_inv by blast
qed

lemma start_inv: "submission_inv system_start"
  by (simp add: submission_inv_def system_start_def empty_operations_store_def outbox_ok_def events_ok_def events_def
      submission_ok_def submission_of_def calls_of_def)

lemma reach_inv: "submission_step\<^sup>*\<^sup>* system_start y \<Longrightarrow> submission_inv y"
  by (induction rule: rtranclp_induct) (auto intro: start_inv step_inv)

end
