(* ===== verification/Projection.thy ===== *)
theory Projection
  imports Provider_Submission Submission_Invariant
begin

text \<open>
  The read model of provider progress (\<^verbatim>\<open>railone_projection\<close>): signed events are verified, their content
  identifier is recomputed, and each is applied once, the highest submission version winning.
\<close>

datatype provider_progress_state =
    PRG_PREPARED | PRG_DISPATCHING | PRG_ACCEPTED_FOR_PROCESSING | PRG_REJECTED | PRG_OUTCOME_UNKNOWN

record outcome_projection =
  pj_submission_id :: string
  pj_utt_id :: string
  pj_rtt_id :: string
  pj_provider_id :: string
  pj_state :: provider_progress_state
  pj_normalized_code :: pyval
  pj_external_reference :: pyval
  pj_rejection_disposition :: pyval
  pj_submission_version :: int
  pj_source_event_id :: string
  pj_occurred_at :: instant
  pj_projected_at :: instant

section \<open>The store\<close>

record projection_store =
  ps_event_hashes :: "(string, string) dict"
  ps_projections :: "(string, outcome_projection) dict"

definition empty_projection_store :: projection_store where
  "empty_projection_store = \<lparr>ps_event_hashes = [], ps_projections = []\<rparr>"

definition keep_latest :: "outcome_projection \<Rightarrow> (string, outcome_projection) dict \<Rightarrow> (string, outcome_projection) dict" where
  "keep_latest pr d =
     (case dict_get d (pj_submission_id pr) of
        None \<Rightarrow> dict_set (pj_submission_id pr) pr d
      | Some current \<Rightarrow>
          if pj_submission_version pr > pj_submission_version current
          then dict_set (pj_submission_id pr) pr d else d)"

definition apply_projection :: "string \<Rightarrow> string \<Rightarrow> outcome_projection \<Rightarrow> (projection_store, bool) st" where
  "apply_projection event_id event_payload_sha256 pr s =
     (case dict_get (ps_event_hashes s) event_id of
        Some prior_hash \<Rightarrow>
          if prior_hash \<noteq> event_payload_sha256
          then (Inl (Raise ProjectionEventConflictError ''event identifier was reused with different signed material''), s)
          else (Inr False, s)
      | None \<Rightarrow>
          (Inr True, s\<lparr>ps_event_hashes := dict_set event_id event_payload_sha256 (ps_event_hashes s),
                       ps_projections := keep_latest pr (ps_projections s)\<rparr>))"

definition get_projection :: "string \<Rightarrow> projection_store \<Rightarrow> outcome_projection option" where
  "get_projection submission_id s = dict_get (ps_projections s) submission_id"

section \<open>The projector\<close>

definition state_by_event :: "(string \<times> provider_progress_state) list" where
  "state_by_event =
     [(''PROVIDER_SUBMISSION_PREPARED'', PRG_PREPARED), (''PROVIDER_DISPATCH_STARTED'', PRG_DISPATCHING),
      (''PROVIDER_SUBMISSION_ACCEPTED'', PRG_ACCEPTED_FOR_PROCESSING), (''PROVIDER_SUBMISSION_REJECTED'', PRG_REJECTED),
      (''PROVIDER_SUBMISSION_OUTCOME_UNKNOWN'', PRG_OUTCOME_UNKNOWN)]"

fun hashable :: "pyval \<Rightarrow> bool" and hashables :: "pyval list \<Rightarrow> bool" where
  \<comment> \<open>whether \<^verbatim>\<open>v in some_dict\<close> can be evaluated\<close>
  "hashable (PyDict _) = False"
| "hashable (PyList _) = False"
| "hashable (PyTuple vs) = hashables vs"
| "hashable v = True"
| "hashables [] = True"
| "hashables (v # vs) = (hashable v \<and> hashables vs)"

definition event_state :: "pyval \<Rightarrow> provider_progress_state res" where
  "event_state event_type =
     (case event_type of
        PyStr ty \<Rightarrow>
          (case map_of state_by_event ty of
             Some st \<Rightarrow> Inr st
           | None \<Rightarrow> Inl (Raise ValueError (''unsupported provider execution event: '' @ ty)))
      | _ \<Rightarrow>
          if hashable event_type
          then rbind (py_str event_type) (\<lambda>ty. Inl (Raise ValueError (''unsupported provider execution event: '' @ ty)))
          else Inl (Raise TypeError ''unhashable type''))"

definition without_event_id :: "pyval \<Rightarrow> pyval" where
  \<comment> \<open>\<^verbatim>\<open>{key: value for key, value in payload.items() if key != "event_id"}\<close>\<close>
  "without_event_id payload =
     (case payload of PyDict kvs \<Rightarrow> PyDict (filter (\<lambda>(k, v). k \<noteq> PyStr ''event_id'') kvs) | _ \<Rightarrow> PyDict [])"

fun digit_groups :: "bool \<Rightarrow> string \<Rightarrow> int \<Rightarrow> int option" where
  \<comment> \<open>digits with single underscores between them, the flag telling whether the last one was a digit\<close>
  "digit_groups d [] acc = (if d then Some acc else None)"
| "digit_groups d (c # cs) acc =
     (if is_digit c then digit_groups True cs (10 * acc + int (of_char c) - 48)
      else if c = CHR ''_'' \<and> d then digit_groups False cs acc else None)"

definition int_of_text :: "string \<Rightarrow> int option" where
  "int_of_text s =
     (case strip s of
        [] \<Rightarrow> None
      | c # cs \<Rightarrow> if c = CHR ''-'' then map_option uminus (digit_groups False cs 0)
                  else if c = CHR ''+'' then digit_groups False cs 0 else digit_groups False (c # cs) 0)"

definition py_int :: "pyval \<Rightarrow> int res" where
  \<comment> \<open>\<^verbatim>\<open>int(v)\<close>\<close>
  "py_int v =
     (case v of
        PyInt i \<Rightarrow> Inr i
      | PyBool b \<Rightarrow> Inr (of_bool b)
      | PyFloat (Some i) \<Rightarrow> Inr i
      | PyStr s \<Rightarrow> (case int_of_text s of Some i \<Rightarrow> Inr i | None \<Rightarrow> Inl (Raise ValueError ''invalid literal for int()''))
      | _ \<Rightarrow> Inl (Raise TypeError ''int() argument must be a string or a number''))"

definition verified_event :: "platform \<Rightarrow> key_provider \<Rightarrow> envelope \<Rightarrow> (string \<times> provider_progress_state) res" where
  \<comment> \<open>the checks on signature, type and content identifier\<close>
  "verified_event P ks env =
     rbind (verify_artifact P ks env (Some EXECUTION_EVENT) False) (\<lambda>verification.
     rbind (guard_res (\<not> vr_valid verification) PermissionError (''execution event rejected: '' @ vr_reason verification)) (\<lambda>_.
     let payload = env_payload env in
     rbind (case py_get payload ''event_id'' of
              PyStr i \<Rightarrow> if i = [] then Inl (Raise ValueError ''execution event_id is required'') else Inr i
            | _ \<Rightarrow> Inl (Raise ValueError ''execution event_id is required'')) (\<lambda>event_id.
     rbind (event_state (py_get payload ''event_type'')) (\<lambda>state.
     rbind (content_id ''EVT'' (without_event_id payload)) (\<lambda>expected_event_id.
     rbind (guard_res (event_id \<noteq> expected_event_id) PermissionError ''execution event content identifier mismatch'') (\<lambda>_.
     Inr (event_id, state)))))))"

definition projection_of ::
  "platform \<Rightarrow> key_provider \<Rightarrow> envelope \<Rightarrow> datetime \<Rightarrow> (string \<times> string \<times> outcome_projection) res" where
  "projection_of P ks env at =
     rbind (verified_event P ks env) (\<lambda>(event_id, state).
     let payload = env_payload env; data = py_get payload ''data'' in
     rbind (guard_res (case data of PyDict _ \<Rightarrow> False | _ \<Rightarrow> True) ValueError ''execution event data must be an object'') (\<lambda>_.
     case strict_int (py_get payload ''occurred_at'') of
       None \<Rightarrow> Inl (Raise ValueError ''execution event occurred_at must be an epoch integer'')
     | Some occurred_epoch \<Rightarrow>
     rbind (require_aware ''projection timestamp'' at) (\<lambda>instant.
     rbind (text_item payload ''aggregate_id'') (\<lambda>submission_id.
     rbind (text_item payload ''utt_id'') (\<lambda>utt_id.
     rbind (text_item payload ''rtt_id'') (\<lambda>rtt_id.
     rbind (text_item payload ''provider_id'') (\<lambda>provider_id.
     rbind (rbind (py_item payload ''submission_version'') py_int) (\<lambda>version.
     rbind (fromtimestamp occurred_epoch) (\<lambda>occurred_at.
     rbind (text_item (env_protected env) ''payload_sha256'') (\<lambda>sha.
     Inr (event_id, sha,
          \<lparr>pj_submission_id = submission_id, pj_utt_id = utt_id, pj_rtt_id = rtt_id, pj_provider_id = provider_id,
           pj_state = state, pj_normalized_code = py_get data ''code'',
           pj_external_reference = py_get data ''external_reference'',
           pj_rejection_disposition = py_get data ''rejection_disposition'', pj_submission_version = version,
           pj_source_event_id = event_id, pj_occurred_at = occurred_at, pj_projected_at = instant\<rparr>)))))))))))"

definition project ::
  "platform \<Rightarrow> key_provider \<Rightarrow> envelope \<Rightarrow> datetime \<Rightarrow> (projection_store, outcome_projection \<times> bool) st" where
  "project P ks env at =
     sbind (slift (projection_of P ks env at)) (\<lambda>(event_id, sha, pr).
     sbind (apply_projection event_id sha pr) (\<lambda>applied. sret (pr, applied)))"

section \<open>Events are applied once\<close>

definition event_hash :: "projection_store \<Rightarrow> string \<Rightarrow> string option" where
  "event_hash s k = dict_get (ps_event_hashes s) k"

definition consume :: "outcome_projection \<Rightarrow> string \<Rightarrow> string \<Rightarrow> (projection_store, string \<times> bool) st" where
  \<comment> \<open>\<open>apply_projection\<close> in the form of the write-once contract: the digest on record and whether it was there\<close>
  "consume pr k h = sbind (apply_projection k h pr) (\<lambda>applied. sret (h, \<not> applied))"

interpretation consumed: write_once event_hash "consume pr" "(=)" for pr
proof unfold_locales
  fix s k old v
  assume "event_hash s k = Some old" "old = v"
  then show "consume pr k v s = (Inr (old, True), s)"
    by (simp add: consume_def event_hash_def apply_projection_def sbind_def sret_def)
next
  fix s k old v
  assume "event_hash s k = Some old" "old \<noteq> v"
  then show "\<exists>e. consume pr k v s = (Inl e, s)"
    by (simp add: consume_def event_hash_def apply_projection_def sbind_def)
next
  fix s k v w rep s'
  assume "event_hash s k = None" "consume pr k v s = (Inr (w, rep), s')"
  then show "w = v \<and> \<not> rep \<and> event_hash s' = (event_hash s)(k \<mapsto> v)"
    by (auto simp: consume_def event_hash_def apply_projection_def sbind_def sret_def fun_eq_iff)
next
  fix k v s e s'
  assume "consume pr k v s = (Inl e, s')"
  then show "s' = s"
    by (auto simp: consume_def apply_projection_def sbind_def sret_def split: option.splits if_splits)
qed

section \<open>Delivery order does not matter\<close>

type_synonym delivery = "string \<times> string \<times> outcome_projection"

fun deliver_events :: "delivery list \<Rightarrow> projection_store \<Rightarrow> projection_store" where
  \<comment> \<open>a sequence of deliveries, each of them applied, replayed or refused\<close>
  "deliver_events [] s = s"
| "deliver_events ((k, h, pr) # es) s = deliver_events es (snd (apply_projection k h pr s))"

definition timeless :: "outcome_projection \<Rightarrow> outcome_projection" where
  \<comment> \<open>a projection less the instant at which it was made, all that two deliveries of one event may differ in\<close>
  "timeless pr = pr\<lparr>pj_projected_at := 0\<rparr>"

fun event_of :: "delivery \<Rightarrow> delivery" where
  \<comment> \<open>the event that a delivery carries\<close>
  "event_of (k, h, pr) = (k, h, timeless pr)"

fun agree :: "delivery \<Rightarrow> delivery \<Rightarrow> bool" where
  \<comment> \<open>an event identifier stands for one event, a version of a submission for one event's projection\<close>
  "agree (k, h, pr) (k', h', pr') \<longleftrightarrow> (k = k' \<longrightarrow> h = h' \<and> timeless pr = timeless pr')
     \<and> (pj_submission_id pr = pj_submission_id pr' \<and> pj_submission_version pr = pj_submission_version pr'
        \<longrightarrow> timeless pr = timeless pr')"

definition consistent :: "delivery set \<Rightarrow> bool" where
  "consistent E \<longleftrightarrow> (\<forall>x\<in>E. \<forall>y\<in>E. agree x y)"

definition first_delivered :: "delivery list \<Rightarrow> outcome_projection \<Rightarrow> bool" where
  \<comment> \<open>\<open>pr\<close> is what the first of the deliveries of its event made of it\<close>
  "first_delivered es pr \<longleftrightarrow> (\<exists>k h. find (\<lambda>(k', h', pr'). k' = k) es = Some (k, h, pr))"

definition latest :: "delivery set \<Rightarrow> string \<Rightarrow> outcome_projection option \<Rightarrow> bool" where
  \<comment> \<open>\<open>x\<close> is the projection of the highest version delivered for a submission\<close>
  "latest E sid x \<longleftrightarrow>
     (case x of
        None \<Rightarrow> (\<forall>(k, h, pr)\<in>E. pj_submission_id pr \<noteq> sid)
      | Some pr \<Rightarrow> pj_submission_id pr = sid \<and> (\<exists>k h. (k, h, pr) \<in> E)
          \<and> (\<forall>(k, h, pr')\<in>E. pj_submission_id pr' = sid \<longrightarrow> pj_submission_version pr' \<le> pj_submission_version pr))"

lemma keep_latest_get:
  "dict_get (keep_latest pr d) sid =
     (if sid = pj_submission_id pr \<and> (case dict_get d sid of None \<Rightarrow> True | Some c \<Rightarrow> pj_submission_version c < pj_submission_version pr)
      then Some pr else dict_get d sid)"
  by (auto simp: keep_latest_def split: option.splits)

definition consumed_ok :: "delivery list \<Rightarrow> projection_store \<Rightarrow> bool" where
  \<comment> \<open>the store after exactly the deliveries \<open>es\<close>\<close>
  "consumed_ok es s \<longleftrightarrow> (\<forall>k h. event_hash s k = Some h \<longleftrightarrow> (\<exists>pr. (k, h, pr) \<in> set es))
     \<and> (\<forall>sid. latest (set es) sid (get_projection sid s))
     \<and> (\<forall>sid pr. get_projection sid s = Some pr \<longrightarrow> first_delivered es pr)"

lemma timeless_fields:
  assumes "timeless pr = timeless pr'"
  shows "pj_submission_id pr = pj_submission_id pr'" "pj_submission_version pr = pj_submission_version pr'"
  using arg_cong [OF assms, of pj_submission_id] arg_cong [OF assms, of pj_submission_version] by (simp_all add: timeless_def)

lemma timeless_simps [simp]:
  "timeless (timeless pr) = timeless pr" "pj_submission_id (timeless pr) = pj_submission_id pr"
  "pj_submission_version (timeless pr) = pj_submission_version pr"
  by (simp_all add: timeless_def)

lemma agree_event_of [simp]: "agree (event_of x) (event_of y) = agree x y"
  by (cases x; cases y) simp

lemma consistent_event_of [simp]: "consistent (event_of ` E) = consistent E"
  by (simp add: consistent_def)

lemma find_append: "find P (xs @ ys) = (case find P xs of None \<Rightarrow> find P ys | Some x \<Rightarrow> Some x)"
  by (induction xs) auto

lemma first_delivered_later:
  assumes "first_delivered es pr"
  shows "first_delivered (es @ es') pr"
proof -
  obtain k h where "find (\<lambda>(k', h', pr'). k' = k) es = Some (k, h, pr)" using assms by (auto simp: first_delivered_def)
  then have "find (\<lambda>(k', h', pr'). k' = k) (es @ es') = Some (k, h, pr)" by (simp add: find_append)
  then show ?thesis unfolding first_delivered_def by blast
qed

lemma first_delivered_new:
  assumes "\<And>h' pr'. (k, h', pr') \<notin> set es"
  shows "first_delivered (es @ [(k, h, pr)]) pr"
proof -
  have "find (\<lambda>(k', h', pr'). k' = k) es = None" using assms by (auto simp: find_None_iff)
  then have "find (\<lambda>(k', h', pr'). k' = k) (es @ [(k, h, pr)]) = Some (k, h, pr)" by (simp add: find_append)
  then show ?thesis unfolding first_delivered_def by blast
qed

lemma latest_insert_new:
  assumes "latest E (pj_submission_id pr) (Some c)" "pj_submission_version c < pj_submission_version pr"
  shows "latest (insert (k, h, pr) E) (pj_submission_id pr) (Some pr)"
proof -
  have "pj_submission_version q \<le> pj_submission_version pr" if "(j, g, q) \<in> E" "pj_submission_id q = pj_submission_id pr" for j g q
  proof -
    have "pj_submission_version q \<le> pj_submission_version c" using assms(1) that by (auto simp: latest_def)
    then show ?thesis using assms(2) by linarith
  qed
  then show ?thesis by (auto simp: latest_def)
qed

lemma latest_insert_old:
  "latest E sid (Some c) \<Longrightarrow> (pj_submission_id pr = sid \<longrightarrow> pj_submission_version pr \<le> pj_submission_version c) \<Longrightarrow>
    latest (insert (k, h, pr) E) sid (Some c)"
  unfolding latest_def by auto

lemma latest_keep:
  assumes "latest E sid (dict_get d sid)"
  shows "latest (insert (k, h, pr) E) sid (dict_get (keep_latest pr d) sid)"
proof (cases "dict_get d sid")
  case None
  then show ?thesis using assms unfolding keep_latest_get by (auto simp: latest_def)
next
  case (Some c)
  then show ?thesis using assms latest_insert_new [of E pr c k h] latest_insert_old [of E sid c pr k h] unfolding keep_latest_get by auto
qed

lemma latest_replay:
  assumes "latest E sid x" "(k, h, pr') \<in> E" "timeless pr' = timeless pr"
  shows "latest (insert (k, h, pr) E) sid x"
proof (cases x)
  case None
  then show ?thesis using assms timeless_fields(1) [OF assms(3)] by (auto simp: latest_def)
next
  case (Some c)
  then have "pj_submission_id pr = sid \<longrightarrow> pj_submission_version pr \<le> pj_submission_version c"
    using assms(1,2) timeless_fields [OF assms(3)] by (auto simp: latest_def)
  then show ?thesis using latest_insert_old assms(1) Some by blast
qed

lemma apply_consumed:
  assumes "consumed_ok es s" "consistent (insert (k, h, pr) (set es))"
  shows "consumed_ok (es @ [(k, h, pr)]) (snd (apply_projection k h pr s))"
proof (cases "event_hash s k")
  case (Some h')
  then obtain pr' where m: "(k, h', pr') \<in> set es" using assms(1) by (auto simp: consumed_ok_def)
  then have eq: "h' = h" "timeless pr' = timeless pr" using assms(2) by (auto simp: consistent_def)
  then have s: "snd (apply_projection k h pr s) = s" using Some by (simp add: apply_projection_def event_hash_def)
  have "latest (insert (k, h, pr) (set es)) sid (get_projection sid s)" for sid
    by (rule latest_replay [of _ _ _ _ _ pr']) (use assms(1) m eq in \<open>auto simp: consumed_ok_def\<close>)
  then show ?thesis using assms(1) m eq first_delivered_later unfolding s by (auto simp: consumed_ok_def)
next
  case None
  let ?s = "snd (apply_projection k h pr s)"
  have s: "?s = s\<lparr>ps_event_hashes := dict_set k h (ps_event_hashes s), ps_projections := keep_latest pr (ps_projections s)\<rparr>"
    using None by (simp add: apply_projection_def event_hash_def)
  have fresh: "(k, h', pr') \<notin> set es" for h' pr' using None assms(1) by (force simp: consumed_ok_def)
  have "event_hash ?s j = Some g \<longleftrightarrow> (\<exists>pr'. (j, g, pr') \<in> set (es @ [(k, h, pr)]))" for j g
    using assms(1) fresh unfolding s consumed_ok_def by (auto simp: event_hash_def)
  moreover have "latest (set (es @ [(k, h, pr)])) sid (get_projection sid ?s)" for sid
    using latest_keep assms(1) unfolding s by (simp add: consumed_ok_def get_projection_def)
  moreover have "first_delivered (es @ [(k, h, pr)]) q" if "get_projection sid ?s = Some q" for sid q
    using that assms(1) first_delivered_new [OF fresh] first_delivered_later
    unfolding s by (auto simp: consumed_ok_def get_projection_def keep_latest_get split: if_splits)
  ultimately show ?thesis unfolding consumed_ok_def by blast
qed

lemma consistent_mono: "A \<subseteq> B \<Longrightarrow> consistent B \<Longrightarrow> consistent A"
  unfolding consistent_def by (meson subsetD)

lemma deliver_consumed:
  assumes "consumed_ok ds s" "consistent (set (ds @ es))"
  shows "consumed_ok (ds @ es) (deliver_events es s)"
  using assms
proof (induction es arbitrary: ds s)
  case (Cons e es)
  obtain k h pr where e: "e = (k, h, pr)" by (cases e)
  have "consistent (insert (k, h, pr) (set ds))" by (rule consistent_mono [OF _ Cons.prems(2)]) (auto simp: e)
  then have "consumed_ok (ds @ [e]) (snd (apply_projection k h pr s))" using apply_consumed [OF Cons.prems(1)] e by simp
  then show ?case using Cons.IH [of "ds @ [e]" "snd (apply_projection k h pr s)"] Cons.prems(2) e by simp
qed simp

lemma delivered_consumed:
  assumes "consistent (set es)"
  shows "consumed_ok es (deliver_events es empty_projection_store)"
proof -
  have "consumed_ok [] empty_projection_store"
    by (simp add: consumed_ok_def empty_projection_store_def event_hash_def get_projection_def latest_def)
  then show ?thesis using deliver_consumed [of "[]" _ es] assms by simp
qed

lemma latest_event_of:
  assumes "latest E sid x"
  shows "latest (event_of ` E) sid (map_option timeless x)"
proof (cases x)
  case None
  then show ?thesis using assms by (auto simp: latest_def)
next
  case (Some pr)
  then obtain k h where "(k, h, pr) \<in> E" using assms by (auto simp: latest_def)
  then have "(k, h, timeless pr) \<in> event_of ` E" by force
  then show ?thesis using assms Some by (auto simp: latest_def)
qed

lemma latest_unique:
  assumes "consistent E" "latest E sid x" "latest E sid y"
  shows "map_option timeless x = map_option timeless y"
proof (cases x)
  case None
  then show ?thesis using assms(2,3) by (cases y) (auto simp: latest_def)
next
  case (Some p)
  then obtain q where y: "y = Some q" using assms(2,3) by (cases y) (auto simp: latest_def)
  obtain k h k' h' where m: "(k, h, p) \<in> E" "(k', h', q) \<in> E" and id: "pj_submission_id p = sid" "pj_submission_id q = sid"
    using assms(2,3) Some y by (auto simp: latest_def)
  have "pj_submission_version q \<le> pj_submission_version p" "pj_submission_version p \<le> pj_submission_version q"
    using assms(2,3) Some y m id by (auto simp: latest_def)
  moreover have "agree (k, h, p) (k', h', q)" using assms(1) m unfolding consistent_def by blast
  ultimately show ?thesis using id Some y by simp
qed

section \<open>Properties\<close>

text \<open>
  C9. At-least-once delivery in any order converges.  Let two sequences deliver the same set of events, with any
  repetitions, in any order and each delivery at an instant of its own, under the assumption that an event identifier stands
  for one event (one payload digest and one content) and a version of a submission for the projection of one event.  From the
  empty read model both end, for every submission, with the same projection up to the instant \<open>projected_at\<close> at which it was
  made: the one of the highest version delivered, and none where nothing was delivered.  That instant is the one of the
  first delivery of the event: no later redelivery changes the stored projection.\<close>

theorem projection_converges:
  assumes "event_of ` set es = event_of ` set es'" "consistent (set es)"
  shows "map_option timeless (get_projection sid (deliver_events es empty_projection_store))
      = map_option timeless (get_projection sid (deliver_events es' empty_projection_store))
    \<and> latest (set es) sid (get_projection sid (deliver_events es empty_projection_store))
    \<and> (\<forall>pr. get_projection sid (deliver_events es empty_projection_store) = Some pr \<longrightarrow> first_delivered es pr)"
proof -
  let ?x = "get_projection sid (deliver_events es empty_projection_store)"
  let ?y = "get_projection sid (deliver_events es' empty_projection_store)"
  have c: "consistent (set es')" using assms consistent_event_of by metis
  have ok: "consumed_ok es (deliver_events es empty_projection_store)" "consumed_ok es' (deliver_events es' empty_projection_store)"
    using delivered_consumed assms(2) c by blast+
  then have l: "latest (set es) sid ?x" "latest (set es') sid ?y" by (simp_all add: consumed_ok_def)
  have "map_option timeless (map_option timeless ?x) = map_option timeless (map_option timeless ?y)"
  proof (rule latest_unique)
    show "consistent (event_of ` set es)" using assms(2) by simp
    show "latest (event_of ` set es) sid (map_option timeless ?x)" by (rule latest_event_of [OF l(1)])
    show "latest (event_of ` set es) sid (map_option timeless ?y)" unfolding assms(1) by (rule latest_event_of [OF l(2)])
  qed
  then have "map_option timeless ?x = map_option timeless ?y" by (simp add: option.map_comp comp_def)
  then show ?thesis using l ok unfolding consumed_ok_def by blast
qed

section \<open>The read model mirrors the submissions\<close>

fun progress_of :: "provider_submission_state \<Rightarrow> provider_progress_state" where
  "progress_of SUB_PREPARED = PRG_PREPARED"
| "progress_of SUB_DISPATCHING = PRG_DISPATCHING"
| "progress_of SUB_ACCEPTED = PRG_ACCEPTED_FOR_PROCESSING"
| "progress_of SUB_REJECTED = PRG_REJECTED"
| "progress_of SUB_UNKNOWN = PRG_OUTCOME_UNKNOWN"

definition mirrors :: "submission_record \<Rightarrow> outcome_projection \<Rightarrow> bool" where
  \<comment> \<open>the projection shows the submission record field by field\<close>
  "mirrors r pr \<longleftrightarrow> pj_submission_id pr = sb_submission_id r \<and> pj_utt_id pr = sb_utt_id r \<and> pj_rtt_id pr = sb_rtt_id r
     \<and> pj_provider_id pr = sb_provider_id r \<and> pj_state pr = progress_of (sb_state r)
     \<and> pj_normalized_code pr = opt_str (sb_normalized_code r) \<and> pj_external_reference pr = opt_str (sb_external_reference r)
     \<and> pj_rejection_disposition pr = opt_str (map_option rejection_disposition_value (sb_rejection_disposition r))
     \<and> pj_submission_version pr = sb_version r"

inductive emitted :: "platform \<Rightarrow> key_provider \<Rightarrow> submission_service \<Rightarrow> instant \<Rightarrow> submission_record \<Rightarrow> outbox_record \<Rightarrow> bool"
  for P ks svc t where
  \<comment> \<open>a version of a submission and the event the coordinator signs for it\<close>
  emit_prepared: "prepared P ks contracts execs svc rtt t = Inr (r, q, e) \<Longrightarrow> emitted P ks svc t r e"
| emit_dispatching: "record_ok r \<Longrightarrow> \<not> final_state (sb_state r) \<Longrightarrow>
    submission_event P ks svc (dispatching_record r t) ''PROVIDER_DISPATCH_STARTED''
      (obj [(''dispatch_attempt'', PyInt n), (''provider_idempotency_supported'', PyBool b)]) t = Inr e \<Longrightarrow>
    emitted P ks svc t (dispatching_record r t) e"
| emit_completed: "completed P ks svc r v t = Inr (x, e) \<Longrightarrow> emitted P ks svc t x e"

lemma content_id_freeze: "plain v \<Longrightarrow> content_id p (freeze v) = content_id p v"
  by (simp add: content_id_def payload_digest_def canonical_plain plain_freeze canon_freeze)

lemma without_id_core:
  "without_event_id (freeze (merge_obj [(''event_id'', PyStr i)] (obj (event_core r ty data t)))) = freeze (obj (event_core r ty data t))"
  by (simp add: without_event_id_def merge_obj_def obj_def event_core_def)

lemma event_projects:
  assumes P: "ed25519_correct P" "kp_inv P ks" and e: "submission_event P ks svc r ty (obj kvs) (from_epoch n) = Inr e"
    and n: "ss_event_signing_key_id svc \<noteq> []" "0 \<le> n" "n < 253402300800" and ty: "map_of state_by_event ty = Some st"
  shows "\<exists>sha pr. projection_of P ks (ob_signed_event e) (Aware t) = Inr (ob_event_id e, sha, pr)
    \<and> pj_submission_id pr = sb_submission_id r \<and> pj_utt_id pr = sb_utt_id r \<and> pj_rtt_id pr = sb_rtt_id r
    \<and> pj_provider_id pr = sb_provider_id r \<and> pj_state pr = st \<and> pj_submission_version pr = sb_version r
    \<and> pj_normalized_code pr = py_get (freeze (obj kvs)) ''code'' \<and> pj_external_reference pr = py_get (freeze (obj kvs)) ''external_reference''
    \<and> pj_rejection_disposition pr = py_get (freeze (obj kvs)) ''rejection_disposition''
    \<and> pj_occurred_at pr = from_epoch n \<and> pj_projected_at pr = t"
proof -
  let ?core = "event_core r ty (obj kvs) (from_epoch n)" and ?p = "env_payload (ob_signed_event e)"
  obtain i where i: "content_id ''EVT'' (obj ?core) = Inr i" "ob_event_id e = i"
    and sg: "sign_artifact P ks EXECUTION_EVENT (merge_obj [(''event_id'', PyStr i)] (obj ?core))
      (ss_event_signing_key_id svc) (Aware (from_epoch n)) = Inr (ob_signed_event e)"
    using e unfolding submission_event_def by (elim rbind_InrE) auto
  have v: "verify_artifact P ks (ob_signed_event e) (Some EXECUTION_EVENT) False = Inr \<lparr>vr_valid = True, vr_reason = ''VALID'',
      vr_key_id = Some (ss_event_signing_key_id svc), vr_artifact_type = Some EXECUTION_EVENT\<rparr>"
    using signed_now_verifies [OF P sg n] .
  have p: "?p = freeze (merge_obj [(''event_id'', PyStr i)] (obj ?core))" using sg by (auto elim: sign_artifactD)
  have get: "pget ?p k = map_option freeze (case map_of [(''event_id'', PyStr i)] k of Some x \<Rightarrow> Some x | None \<Rightarrow> map_of ?core k)" for k
    using issued_payload [OF sg] .
  have "i \<noteq> []" using content_id_Inr [OF i(1)] by auto
  moreover have "content_id ''EVT'' (without_event_id ?p) = Inr i" using content_id_freeze [of "obj ?core" "''EVT''"] content_id_Inr [OF i(1)] i(1) unfolding p without_id_core by simp
  ultimately have ve: "verified_event P ks (ob_signed_event e) = Inr (i, st)"
    using ty by (simp add: verified_event_def v py_get_def get event_core_def event_state_def)
  obtain h where h: "py_item (env_protected (ob_signed_event e)) ''payload_sha256'' = Inr (PyStr h)"
    using sg by (auto elim!: sign_artifactD simp: protected_header_def py_item_Inr)
  have ft: "fromtimestamp n = Inr (from_epoch n)" using n by (simp add: fromtimestamp_def)
  have items: "py_item ?p ''aggregate_id'' = Inr (PyStr (sb_submission_id r))" "py_item ?p ''utt_id'' = Inr (PyStr (sb_utt_id r))"
    "py_item ?p ''rtt_id'' = Inr (PyStr (sb_rtt_id r))" "py_item ?p ''provider_id'' = Inr (PyStr (sb_provider_id r))"
    "py_item ?p ''submission_version'' = Inr (PyInt (sb_version r))" "py_get ?p ''occurred_at'' = PyInt n" "py_get ?p ''data'' = freeze (obj kvs)"
    by (simp_all add: py_item_Inr get event_core_def py_get_def)
  have d: "\<exists>its. freeze (obj kvs) = PyDict its" by (simp add: obj_def)
  show ?thesis
    using d by (auto simp: projection_of_def ve items h ft i(2) text_item_def py_str_def py_int_def strict_int_def Let_def)
qed

text \<open>
  The read model mirrors the submissions.  Every event the coordinator signs for a version of a submission,
  on preparation, at the start of a dispatch and with each outcome, is accepted by the projector, and the
  projection shows that version of the record field by field: identifiers, state, outcome code, external
  reference, disposition and version.  (Signing is at a whole second.)\<close>

theorem event_mirrors_submission:
  assumes "ed25519_correct P" "kp_inv P ks" "emitted P ks svc (from_epoch n) r e"
    and "ss_event_signing_key_id svc \<noteq> []" "0 \<le> n" "n < 253402300800"
  shows "\<exists>sha pr. projection_of P ks (ob_signed_event e) (Aware t) = Inr (ob_event_id e, sha, pr) \<and> mirrors r pr"
  using assms(3)
proof (cases rule: emitted.cases)
  case (emit_prepared contracts execs rtt q)
  then obtain data where e: "submission_event P ks svc r ''PROVIDER_SUBMISSION_PREPARED'' (obj [(''request_sha256'', PyStr data)]) (from_epoch n) = Inr e"
    and q: "new_submission q (from_epoch n) = Inr r"
    unfolding prepared_def by (elim rbind_InrE) auto
  have r: "sb_state r = SUB_PREPARED" "sb_normalized_code r = None" "sb_external_reference r = None" "sb_rejection_disposition r = None"
    using q by (auto simp: new_submission_def rbind_eq_Inr)
  have "map_of state_by_event ''PROVIDER_SUBMISSION_PREPARED'' = Some PRG_PREPARED" by (simp add: state_by_event_def)
  from event_projects [OF assms(1,2) e assms(4-6) this, of t] show ?thesis
    by (elim exE conjE) (intro exI, rule conjI, assumption, simp add: mirrors_def r py_get_def opt_str_def)
next
  case (emit_dispatching r0 m b)
  then have r: "sb_normalized_code r0 = None" "sb_external_reference r0 = None" "sb_rejection_disposition r0 = None"
    by (auto simp: record_ok_def final_state_def)
  have "map_of state_by_event ''PROVIDER_DISPATCH_STARTED'' = Some PRG_DISPATCHING" by (simp add: state_by_event_def)
  from event_projects [OF assms(1,2) emit_dispatching(4) assms(4-6) this, of t] show ?thesis
    by (elim exE conjE) (intro exI, rule conjI, assumption,
      simp add: mirrors_def r py_get_def opt_str_def emit_dispatching(1) dispatching_record_def)
next
  case (emit_completed r0 v)
  then obtain c ctx st ty where oc: "outcome_state v = Inr (st, ty)"
    and r: "r = r0\<lparr>sb_state := st, sb_normalized_code := Some (upper c), sb_external_reference := sv_external_reference v,
      sb_rejection_disposition := sv_rejection_disposition v, sb_provider_context := ctx,
      sb_version := sb_version r0 + 1, sb_updated_at := from_epoch n\<rparr>"
    and e: "submission_event P ks svc r ty (result_data v (upper c) ctx) (from_epoch n) = Inr e"
    unfolding completed_def Let_def by (elim rbind_InrE) (auto elim!: rbind_InrE)
  have ty: "map_of state_by_event ty = Some (progress_of st)"
    using oc by (auto simp: outcome_state_def state_by_event_def res_simps split: provider_outcome.splits)
  have f: "freeze (opt_str x) = opt_str x" for x by (cases x) (simp_all add: opt_str_def)
  from event_projects [OF assms(1,2) e [unfolded result_data_def] assms(4-6) ty, of t] show ?thesis
    by (elim exE conjE) (intro exI, rule conjI, assumption, simp add: mirrors_def r py_get_def f, simp add: opt_str_def)
qed

end
