(* ===== verification/Submission_Properties.thy ===== *)
theory Submission_Properties
  imports Submission_Invariant
begin

text \<open>
  Properties of provider submission: what reaches a provider, what is recorded about it, and that a call of
  \<^verbatim>\<open>dispatch\<close> is a run of the concurrent system.
\<close>

section \<open>Final submissions\<close>

lemma final_step:
  assumes "submission_step y y'" "submission_inv y" "submission_of (sy_store y) k = Some r" "final_state (sb_state r)"
  shows "submission_of (sy_store y') k = Some r \<and> calls_of y' k = calls_of y k"
  using assms(1)
proof (cases rule: submission_step.cases)
  case (sub_prepare P ks contracts execs svc rtt_id t r' q s' ad)
  from sub_prepare(2) show ?thesis
  proof (cases rule: prepare_effect)
    case replay
    then show ?thesis using sub_prepare assms(3) by simp
  next
    case fresh
    then have "rtt_id \<noteq> k" using assms(3) by (auto simp: submission_of_def)
    then show ?thesis using fresh sub_prepare(1) assms(3) advances_of [OF fresh(2)] by simp
  qed
next
  case (sub_begin r' q ad t P ks svc d s')
  from begin_effect [OF sub_begin(4)] obtain cur where d: "d = dispatching_record r' t" and adv: "advances (sy_store y) d s'"
    and cur: "dict_get (op_submissions (sy_store y)) (sb_rtt_id r') = Some cur" "sb_version cur = sb_version r'" by blast
  have q: "snapshot (sy_store y) r'" "pr_rtt_id q = sb_rtt_id r'" using submission_invD(4) [OF assms(2) sub_begin(2)] by simp_all
  have "\<not> final_state (sb_state r')" using sub_begin(3) by (auto simp: decide_dispatch_def guard_res_def split: if_splits)
  then have "sb_rtt_id r' \<noteq> k" using inv_current [OF assms(2) q(1) cur] assms(3,4) by auto
  then show ?thesis
    using sub_begin(1) assms(3) advances_of [OF adv] q(2) by (simp add: d dispatching_record_def calls_of_def call_of_def)
next
  case (sub_block r' q ad t P ks svc x s')
  from complete_effect [OF sub_block(4)] obtain cur where x: "result_of r' x" and adv: "advances (sy_store y) x s'"
    and cur: "dict_get (op_submissions (sy_store y)) (sb_rtt_id r') = Some cur" "sb_version cur = sb_version r'" by blast
  have "snapshot (sy_store y) r'" using submission_invD(4) [OF assms(2) sub_block(2)] by simp
  moreover have "\<not> final_state (sb_state r')" using sub_block(3) by (auto simp: decide_dispatch_def guard_res_def split: if_splits)
  ultimately have "sb_rtt_id x \<noteq> k" using inv_current [OF assms(2) _ cur] assms(3,4) x by (auto simp: result_of_def)
  then show ?thesis using sub_block(1) assms(3) advances_of [OF adv] by simp
next
  case (sub_finish d t P ks svc v x s')
  from complete_effect [OF sub_finish(3)] obtain cur where x: "result_of d x" and adv: "advances (sy_store y) x s'"
    and cur: "dict_get (op_submissions (sy_store y)) (sb_rtt_id d) = Some cur" "sb_version cur = sb_version d" by blast
  have "snapshot (sy_store y) d" "sb_state d = SUB_DISPATCHING" using submission_invD(4) [OF assms(2) sub_finish(2)] by simp_all
  then have "sb_rtt_id x \<noteq> k" using inv_current [OF assms(2) _ cur] assms(3,4) x by (auto simp: result_of_def final_state_def)
  then show ?thesis using sub_finish(1) assms(3) advances_of [OF adv] by simp
next
  case (sub_claim w at l limit z s')
  then show ?thesis using relay_effect [OF submission_invD(1) [OF assms(2)] disjI1 [OF sub_claim(2)]] assms(3) by (simp add: submission_of_def)
next
  case (sub_settle k' w m u s')
  then show ?thesis using relay_effect [OF submission_invD(1) [OF assms(2)] disjI2 [OF sub_settle(2)]] assms(3) by (simp add: submission_of_def)
qed

text \<open>
  C7. A final submission is final.  Once a submission is accepted, rejected or unknown, no interleaving of
  dispatchers and relays, stale snapshots and late provider results included, changes its record, and the
  provider is never called for that RTT again.\<close>

theorem submission_final:
  assumes "submission_inv y" "submission_step\<^sup>*\<^sup>* y y'" "submission_of (sy_store y) k = Some r" "final_state (sb_state r)"
  shows "submission_of (sy_store y') k = Some r \<and> calls_of y' k = calls_of y k"
proof -
  have "submission_inv y' \<and> submission_of (sy_store y') k = Some r \<and> calls_of y' k = calls_of y k"
    using assms(2)
  proof (induction rule: rtranclp_induct)
    case base
    then show ?case using assms by blast
  next
    case (step u v)
    then show ?case using final_step [OF step.hyps(2)] step_inv [OF step.hyps(2)] assms(4) by metis
  qed
  then show ?thesis by blast
qed

section \<open>Calls, records and events\<close>

text \<open>
  C3. Provider calls are safe to repeat.  In every reachable state all calls made for an RTT carry the
  idempotency key and the request digest of its stored submission, there are as many of them as the record
  counts dispatch attempts, an RTT without a submission has none, and an adapter without idempotency
  support is called at most once for an RTT: only as its first call.\<close>

theorem provider_calls_safe:
  assumes "submission_step\<^sup>*\<^sup>* system_start y"
  shows "(submission_of (sy_store y) k = None \<longrightarrow> calls_of y k = [])
    \<and> (\<forall>r. submission_of (sy_store y) k = Some r \<longrightarrow> int (length (calls_of y k)) = sb_dispatch_attempts r
         \<and> (\<forall>c\<in>set (calls_of y k). cl_key c = sb_idempotency_key r \<and> cl_sha256 c = sb_request_sha256 r))
    \<and> (\<forall>i < length (calls_of y k). \<not> cl_idempotent (calls_of y k ! i) \<longrightarrow> i = 0)"
proof -
  note inv = reach_inv [OF assms]
  have "list_all cl_idempotent (tl (calls_of y k))"
    using inv_stored [OF inv] inv_absent [OF inv] by (cases "submission_of (sy_store y) k") (auto simp: calls_match_def)
  then have "i = 0" if "i < length (calls_of y k)" "\<not> cl_idempotent (calls_of y k ! i)" for i
    using that by (cases i; cases "calls_of y k") (auto simp: list_all_length)
  then show ?thesis
    using inv_absent [OF inv, of k] inv_stored [OF inv, of k] by (auto simp: calls_match_def list_all_iff)
qed

text \<open>
  C15. The outbox is transactional.  In every reachable state the signed events are in bijection with the
  versions of the stored submissions: each version from 1 to the current one has exactly one event naming
  the RTT and that version, and there is no other event.\<close>

theorem submission_events_exact:
  assumes "submission_step\<^sup>*\<^sup>* system_start y"
  shows "(\<forall>rtt r v. submission_of (sy_store y) rtt = Some r \<and> 1 \<le> v \<and> v \<le> sb_version r \<longrightarrow>
        (\<exists>!k. \<exists>e. events (sy_store y) k = Some e \<and> event_tag e = Some (rtt, v)))
    \<and> (\<forall>k e. events (sy_store y) k = Some e \<longrightarrow>
        (\<exists>rtt r v. event_tag e = Some (rtt, v) \<and> submission_of (sy_store y) rtt = Some r \<and> 1 \<le> v \<and> v \<le> sb_version r))"
proof -
  have e: "events_ok (sy_store y)" using submission_invD(2) [OF reach_inv [OF assms]] .
  have u: "k = k'" if "events (sy_store y) k = Some e" "events (sy_store y) k' = Some e'" "event_tag e = event_tag e'" for k k' e e'
    using e that unfolding events_ok_def by blast
  have x: "(\<exists>k e. events (sy_store y) k = Some e \<and> event_tag e = Some (rtt, v)) \<longleftrightarrow>
      (\<exists>r. submission_of (sy_store y) rtt = Some r \<and> 1 \<le> v \<and> v \<le> sb_version r)" for rtt v
    using e unfolding events_ok_def by blast
  have "\<exists>!k. \<exists>e. events (sy_store y) k = Some e \<and> event_tag e = Some (rtt, v)"
    if h: "submission_of (sy_store y) rtt = Some r" "1 \<le> v" "v \<le> sb_version r" for rtt r v
  proof -
    obtain k e where k: "events (sy_store y) k = Some e" "event_tag e = Some (rtt, v)" using x h by blast
    show ?thesis by (rule ex1I [of _ k]) (use k u in \<open>auto\<close>)
  qed
  moreover have "\<exists>rtt r v. event_tag e' = Some (rtt, v) \<and> submission_of (sy_store y) rtt = Some r \<and> 1 \<le> v \<and> v \<le> sb_version r"
    if k: "events (sy_store y) k = Some e'" for k e'
  proof -
    obtain rtt v where "event_tag e' = Some (rtt, v)" using e k unfolding events_ok_def by (metis not_Some_eq surj_pair)
    then show ?thesis using x k by blast
  qed
  ultimately show ?thesis by blast
qed

text \<open>
  C34. Stored submissions are well typed.  In every reachable state a stored submission has an outcome code
  exactly when it is final, a rejection disposition exactly when it is rejected, no external reference and
  no provider context before it is final, a provider context of at most 20 sorted fields with distinct,
  syntactically valid keys and bounded non-empty values, and zero dispatch attempts exactly when it is
  prepared.\<close>

theorem submission_typed:
  assumes "submission_step\<^sup>*\<^sup>* system_start y" "submission_of (sy_store y) k = Some r"
  shows "sb_rtt_id r = k \<and> record_ok r"
  using inv_stored [OF reach_inv [OF assms(1)] assms(2)] by blast

section \<open>Dispatch is a run of the system\<close>

lemma dispatchE:
  assumes "dispatch P ks contracts execs svc rtt_id ad (Aware t) s = (x, s')"
  obtains (unprepared) e where "prepare_submission P ks contracts execs svc rtt_id (Aware t) s = (Inl e, s')" "x = Inl e"
  | (refused) r q e where "prepare_submission P ks contracts execs svc rtt_id (Aware t) s = (Inr (r, q), s')"
      "decide_dispatch ad r = Inl e" "x = Inl e"
  | (already) r q where "prepare_submission P ks contracts execs svc rtt_id (Aware t) s = (Inr (r, q), s')"
      "decide_dispatch ad r = Inr Already_final" "x = Inr r"
  | (blocked) r q s1 where "prepare_submission P ks contracts execs svc rtt_id (Aware t) s = (Inr (r, q), s1)"
      "decide_dispatch ad r = Inr Recovery_blocked"
      "complete_submission P ks svc r (unknown_result ''NON_IDEMPOTENT_RECOVERY_BLOCKED'') t s1 = (x, s')"
  | (lost_race) r q s1 e where "prepare_submission P ks contracts execs svc rtt_id (Aware t) s = (Inr (r, q), s1)"
      "decide_dispatch ad r = Inr Call_provider" "begin_dispatch P ks svc ad r t s1 = (Inl e, s')" "x = Inl e"
  | (called) r q s1 d s2 where "prepare_submission P ks contracts execs svc rtt_id (Aware t) s = (Inr (r, q), s1)"
      "decide_dispatch ad r = Inr Call_provider" "begin_dispatch P ks svc ad r t s1 = (Inr d, s2)"
      "complete_submission P ks svc d (call_provider ad q) t s2 = (x, s')"
proof -
  have "sbind (prepare_submission P ks contracts execs svc rtt_id (Aware t)) (\<lambda>(record, request).
     sbind (slift (decide_dispatch ad record)) (\<lambda>decision.
     case decision of
       Already_final \<Rightarrow> sret record
     | Recovery_blocked \<Rightarrow>
         complete_submission P ks svc record (unknown_result ''NON_IDEMPOTENT_RECOVERY_BLOCKED'') t
     | Call_provider \<Rightarrow>
         sbind (begin_dispatch P ks svc ad record t) (\<lambda>dispatching.
         complete_submission P ks svc dispatching (call_provider ad request) t))) s = (x, s')"
    using assms by (simp add: dispatch_def sbind_def slift_def)
  then show thesis
  proof (rule sbindE)
    fix e assume "prepare_submission P ks contracts execs svc rtt_id (Aware t) s = (Inl e, s')" "x = Inl e"
    then show thesis by (rule unprepared)
  next
    fix rq s1 assume p: "prepare_submission P ks contracts execs svc rtt_id (Aware t) s = (Inr rq, s1)"
      and k: "(case rq of (record, request) \<Rightarrow> sbind (slift (decide_dispatch ad record)) (\<lambda>decision.
         case decision of
           Already_final \<Rightarrow> sret record
         | Recovery_blocked \<Rightarrow>
             complete_submission P ks svc record (unknown_result ''NON_IDEMPOTENT_RECOVERY_BLOCKED'') t
         | Call_provider \<Rightarrow>
             sbind (begin_dispatch P ks svc ad record t) (\<lambda>dispatching.
             complete_submission P ks svc dispatching (call_provider ad request) t))) s1 = (x, s')"
    obtain r q where rq: "rq = (r, q)" by (cases rq)
    show thesis
    proof (cases "decide_dispatch ad r")
      case (Inl e)
      then show thesis using k p rq refused by (auto simp: sbind_def slift_def)
    next
      case (Inr dec)
      then show thesis using k p rq already blocked
        by (cases dec) (auto simp: sbind_def slift_def sret_def elim!: sbindE [where m = "begin_dispatch P ks svc ad r t"]
            split: prod.splits sum.splits intro: lost_race called)
    qed
  qed
qed

lemma prepare_raises:
  assumes "prepare_submission P ks contracts execs svc rtt_id (Aware t) s = (Inl e, s')"
  shows "s' = s"
proof (cases "prepared P ks contracts execs svc rtt_id t")
  case (Inl e')
  then show ?thesis using assms by (simp add: prepare_submission_def sbind_def slift_def)
next
  case (Inr p)
  obtain r q ev where p: "p = (r, q, ev)" by (cases p)
  have "new_submission q t = Inr r" using Inr p unfolding prepared_def by (elim rbind_InrE) auto
  then have q: "sb_request_sha256 r = pr_request_sha256 q" by (auto simp: new_submission_def rbind_eq_Inr)
  obtain x s1 where st: "store_prepare r ev s = (x, s1)" by (cases "store_prepare r ev s")
  show ?thesis
  proof (cases x)
    case (Inl e')
    then show ?thesis using assms Inr p st store_prepare_Inl [of r ev s e' s1] by (simp add: prepare_submission_def sbind_def slift_def)
  next
    case (Inr r')
    then have "sb_request_sha256 r' = pr_request_sha256 q" using st q by (auto elim: store_prepare_Inr)
    then show ?thesis using assms \<open>prepared P ks contracts execs svc rtt_id t = Inr p\<close> Inr p st
      by (simp add: prepare_submission_def sbind_def slift_def sret_def)
  qed
qed

lemma begin_raises: "begin_dispatch P ks svc ad r t s = (Inl e, s') \<Longrightarrow> s' = s"
  by (auto simp: begin_dispatch_def Let_def sbind_eq_Inl slift_eq sret_eq dest: store_transition_Inl)

lemma complete_raises: "complete_submission P ks svc r v t s = (Inl e, s') \<Longrightarrow> s' = s"
  by (auto simp: complete_submission_def sbind_eq_Inl slift_eq sret_eq dest: store_transition_Inl)

lemma finish_run:
  assumes "Awaiting d t \<in> set (sy_sessions y)" "complete_submission P ks svc d v t (sy_store y) = (x, s')"
  shows "\<exists>y'. submission_step\<^sup>*\<^sup>* y y' \<and> sy_store y' = s' \<and> sy_calls y' = sy_calls y"
proof (cases x)
  case (Inl e)
  then have "s' = sy_store y" using assms(2) complete_raises by metis
  then show ?thesis by blast
next
  case (Inr r)
  then have "submission_step y (y\<lparr>sy_store := s'\<rparr>)" using assms sub_finish by metis
  then show ?thesis by (intro exI [of _ "y\<lparr>sy_store := s'\<rparr>"]) auto
qed

lemma one_step:
  "submission_step y y' \<Longrightarrow> sy_calls y' = sy_calls y \<Longrightarrow> \<exists>z. submission_step\<^sup>*\<^sup>* y z \<and> sy_store z = sy_store y' \<and>
    (sy_calls z = sy_calls y \<or> (\<exists>q. sy_calls z = sy_calls y @ [call_of ad q] \<and> pr_rtt_id q = rtt_id))"
  by blast

text \<open>
  The sequential \<^verbatim>\<open>dispatch\<close> refines the concurrent system: whatever it returns or raises, the store it
  leaves is one the system reaches by its own steps, and in them the provider is called at most once, for this
  RTT and through this adapter.  Everything proved of the system therefore holds of any mixture of
  \<^verbatim>\<open>dispatch\<close> calls.\<close>

theorem dispatch_refines:
  assumes "dispatch P ks contracts execs svc rtt_id ad (Aware t) (sy_store y) = (x, s')"
  shows "\<exists>y'. submission_step\<^sup>*\<^sup>* y y' \<and> sy_store y' = s' \<and>
    (sy_calls y' = sy_calls y \<or> (\<exists>q. sy_calls y' = sy_calls y @ [call_of ad q] \<and> pr_rtt_id q = rtt_id))"
  using assms
proof (cases rule: dispatchE)
  case (unprepared e)
  then show ?thesis using prepare_raises by blast
next
  case (refused r q e)
  then show ?thesis using one_step [OF sub_prepare [OF refused(1), of ad]] by simp
next
  case (already r q)
  then show ?thesis using one_step [OF sub_prepare [OF already(1), of ad]] by simp
next
  case (blocked r q s1)
  let ?y = "y\<lparr>sy_store := s1, sy_sessions := Holding r q ad t # sy_sessions y\<rparr>"
  have st: "submission_step y ?y" using sub_prepare [OF blocked(1)] .
  show ?thesis
  proof (cases x)
    case (Inl e)
    then have "s' = s1" using blocked(3) complete_raises by metis
    then show ?thesis using st by (intro exI [of _ ?y]) auto
  next
    case (Inr z)
    then have "submission_step ?y (?y\<lparr>sy_store := s'\<rparr>)" using blocked by (intro sub_block) auto
    then have "submission_step\<^sup>*\<^sup>* y (?y\<lparr>sy_store := s'\<rparr>)" using st by (meson r_into_rtranclp rtranclp.rtrancl_into_rtrancl)
    then show ?thesis by (intro exI [of _ "?y\<lparr>sy_store := s'\<rparr>"]) auto
  qed
next
  case (lost_race r q s1 e)
  then have "s' = s1" using begin_raises by blast
  then show ?thesis using one_step [OF sub_prepare [OF lost_race(1), of ad]] by simp
next
  case (called r q s1 d s2)
  let ?y = "y\<lparr>sy_store := s1, sy_sessions := Holding r q ad t # sy_sessions y\<rparr>"
  let ?z = "?y\<lparr>sy_store := s2, sy_calls := sy_calls ?y @ [call_of ad q], sy_sessions := Awaiting d t # sy_sessions ?y\<rparr>"
  have q: "pr_rtt_id q = rtt_id" using called(1) by (rule prepare_effect)
  have "submission_step y ?y" using sub_prepare [OF called(1)] .
  moreover have "submission_step ?y ?z" using called by (intro sub_begin) auto
  ultimately have run: "submission_step\<^sup>*\<^sup>* y ?z" by auto
  obtain y' where "submission_step\<^sup>*\<^sup>* ?z y'" "sy_store y' = s'" "sy_calls y' = sy_calls ?z"
    using finish_run [of d t ?z P ks svc "call_provider ad q" x s'] called(4) by auto
  then show ?thesis using run q by (intro exI [of _ y']) auto
qed

text \<open>
  When \<^verbatim>\<open>dispatch\<close> returns, the outcome is recorded: on any store that satisfies the invariant, the returned submission is
  accepted, rejected or unknown, it is the stored submission of the RTT, and the adapter that was used is the
  one of the signed route.\<close>

theorem dispatch_concludes:
  assumes inv: "submission_inv y"
    and "dispatch P ks contracts execs svc rtt_id ad (Aware t) (sy_store y) = (Inr r, s')"
  shows "final_state (sb_state r) \<and> submission_of s' rtt_id = Some r \<and> upper (ad_provider_id ad) = sb_provider_id r"
proof -
  have stored: "submission_of s1 rtt_id = Some r' \<and> sb_rtt_id r' = rtt_id"
    if "prepare_submission P ks contracts execs svc rtt_id (Aware t) (sy_store y) = (Inr (r', q), s1)" for r' q s1
    using that
  proof (cases rule: prepare_effect)
    case replay
    then show ?thesis using inv_stored [OF inv] by (simp add: submission_of_def)
  next
    case fresh
    then show ?thesis using advances_of [OF fresh(2)] by simp
  qed
  have prov: "upper (ad_provider_id ad) = sb_provider_id r'" if "decide_dispatch ad r' = Inr z" for r' z
    using that by (auto simp: decide_dispatch_def guard_res_def split: if_splits)
  have fin: "final_state (sb_state z) \<and> submission_of s3 (sb_rtt_id d) = Some z \<and> sb_provider_id z = sb_provider_id d"
    if "complete_submission P ks svc d v t s2 = (Inr z, s3)" for d v z s2 s3
  proof -
    have z: "result_of d z" "advances s2 z s3" using complete_effect [OF that] by auto
    have "final_state (sb_state z)" "sb_rtt_id z = sb_rtt_id d" "sb_provider_id z = sb_provider_id d"
      using z(1) by (auto simp: result_of_def)
    then show ?thesis using advances_of [OF z(2)] by simp
  qed
  from assms(2) show ?thesis
  proof (cases rule: dispatchE)
    case (already r' q)
    then show ?thesis using stored [OF already(1)] prov [OF already(2)]
      by (auto simp: decide_dispatch_def guard_res_def split: if_splits)
  next
    case (blocked r' q s1)
    then show ?thesis using stored [OF blocked(1)] prov [OF blocked(2)] fin [OF blocked(3)] by simp
  next
    case (called r' q s1 d s2)
    then show ?thesis using stored [OF called(1)] prov [OF called(2)] fin [OF called(4)] begin_effect [OF called(3)]
      by (simp add: dispatching_record_def)
  qed simp_all
qed

section \<open>What a provider is asked\<close>

text \<open>
  The provider request is faithful.  A prepared request names the current attempt of the plan; the amounts,
  currencies and institutions are those of the stored UTT and the rail, adapter and provider those of the RTT's
  signed route; both signatures verify, the RTT is bound to that very UTT by its digest, the account
  references are the resolver's for the UTT's endpoints, and the request digest covers every field.\<close>

theorem request_faithful:
  assumes "prepared P ks contracts execs svc rtt_id t = Inr (r, q, e)"
  shows "\<exists>a su route. require_attempt (strip rtt_id) execs = Inr a \<and> at_state a = ATT_CREATED
    \<and> (\<exists>p. require_plan (at_plan_id a) execs = Inr p \<and> pl_current_rtt_id p = Some rtt_id)
    \<and> require_utt (at_utt_id a) contracts = Inr su
    \<and> (\<exists>c. verify_artifact P ks (at_signed_rtt a) (Some RTT) False = Inr c \<and> vr_valid c)
    \<and> (\<exists>c. verify_artifact P ks su (Some UTT) False = Inr c \<and> vr_valid c)
    \<and> pget (env_payload (at_signed_rtt a)) ''utt_payload_sha256'' = pget (env_protected su) ''payload_sha256''
    \<and> pget (env_payload (at_signed_rtt a)) ''route'' = Some route
    \<and> (\<exists>p. pget route ''provider'' = Some (PyStr p) \<and> pr_provider_id q = upper (strip p))
    \<and> pget route ''rail'' = Some (pr_rail q) \<and> pget route ''adapter'' = Some (pr_adapter_binding_ref q)
    \<and> pget (env_payload su) ''amount_minor'' = Some (pr_amount_minor q)
    \<and> pget (env_payload su) ''currency_from'' = Some (pr_currency_from q)
    \<and> pget (env_payload su) ''receive_amount_minor'' = Some (pr_receive_amount_minor q)
    \<and> pget (env_payload su) ''currency_to'' = Some (pr_currency_to q)
    \<and> (\<exists>ep b. party_endpoint (env_payload su) ''payer'' = Inr ep \<and> str_item ep ''institution_id'' = Inr (pr_source_institution_id q)
         \<and> str_item ep ''account_binding_id'' = Inr b \<and> ss_resolve svc (pr_source_institution_id q) b = Inr (pr_payer_account_reference q))
    \<and> (\<exists>ep b. party_endpoint (env_payload su) ''beneficiary'' = Inr ep \<and> str_item ep ''institution_id'' = Inr (pr_destination_institution_id q)
         \<and> str_item ep ''account_binding_id'' = Inr b \<and> ss_resolve svc (pr_destination_institution_id q) b = Inr (pr_beneficiary_account_reference q))
    \<and> payload_digest (request_material q) = Inr (pr_request_sha256 q)"
proof -
  obtain a su where a: "checked_attempt execs rtt_id = Inr a" and su: "checked_utt P ks contracts a = Inr su"
    and q: "build_request svc rtt_id a (env_payload su) = Inr q"
    using assms unfolding prepared_def by (elim rbind_InrE) auto
  have A: "require_attempt (strip rtt_id) execs = Inr a \<and> at_state a = ATT_CREATED
    \<and> (\<exists>p. require_plan (at_plan_id a) execs = Inr p \<and> pl_current_rtt_id p = Some rtt_id)"
    using a unfolding checked_attempt_def by (elim rbind_InrE) (auto simp: guard_res_eq_Inr dest: require_text_okD)
  have B: "require_utt (at_utt_id a) contracts = Inr su
    \<and> (\<exists>c. verify_artifact P ks (at_signed_rtt a) (Some RTT) False = Inr c \<and> vr_valid c)
    \<and> (\<exists>c. verify_artifact P ks su (Some UTT) False = Inr c \<and> vr_valid c)
    \<and> pget (env_payload (at_signed_rtt a)) ''utt_payload_sha256'' = pget (env_protected su) ''payload_sha256''"
    using su unfolding checked_utt_def by (elim rbind_InrE) (auto simp: guard_res_eq_Inr py_item_Inr)
  have C: "\<exists>route. pget (env_payload (at_signed_rtt a)) ''route'' = Some route
    \<and> (\<exists>p. pget route ''provider'' = Some (PyStr p) \<and> pr_provider_id q = upper (strip p))
    \<and> pget route ''rail'' = Some (pr_rail q) \<and> pget route ''adapter'' = Some (pr_adapter_binding_ref q)"
    using q unfolding build_request_def Let_def by (elim rbind_InrE) (auto simp: py_item_Inr authority_text_Inr)
  have D: "pget (env_payload su) ''amount_minor'' = Some (pr_amount_minor q)"
    "pget (env_payload su) ''currency_from'' = Some (pr_currency_from q)"
    "pget (env_payload su) ''receive_amount_minor'' = Some (pr_receive_amount_minor q)"
    "pget (env_payload su) ''currency_to'' = Some (pr_currency_to q)"
    "payload_digest (request_material q) = Inr (pr_request_sha256 q)"
    using q unfolding build_request_def Let_def by (elim rbind_InrE; auto simp: py_item_Inr request_material_def)+
  have E: "\<exists>ep b. party_endpoint (env_payload su) ''payer'' = Inr ep \<and> str_item ep ''institution_id'' = Inr (pr_source_institution_id q)
         \<and> str_item ep ''account_binding_id'' = Inr b \<and> ss_resolve svc (pr_source_institution_id q) b = Inr (pr_payer_account_reference q)"
    "\<exists>ep b. party_endpoint (env_payload su) ''beneficiary'' = Inr ep \<and> str_item ep ''institution_id'' = Inr (pr_destination_institution_id q)
         \<and> str_item ep ''account_binding_id'' = Inr b \<and> ss_resolve svc (pr_destination_institution_id q) b = Inr (pr_beneficiary_account_reference q)"
    using q unfolding build_request_def Let_def by (elim rbind_InrE; auto)+
  from C obtain route where R: "pget (env_payload (at_signed_rtt a)) ''route'' = Some route"
    "\<exists>p. pget route ''provider'' = Some (PyStr p) \<and> pr_provider_id q = upper (strip p)"
    "pget route ''rail'' = Some (pr_rail q)" "pget route ''adapter'' = Some (pr_adapter_binding_ref q)" by blast
  show ?thesis
    by (rule exI [of _ a], rule exI [of _ su], rule exI [of _ route]) (use A B R D E in simp)
qed

end
