(* ===== verification/Execution_Invariant.thy ===== *)
theory Execution_Invariant
  imports Execution_Service
begin

text \<open>
  The execution history of a plan: its attempts in the order they were started, every one but the
  last failed, the last one in the state the plan's status says.  The invariant is kept by every
  operation and gives the safety properties of execution.
\<close>

section \<open>Histories\<close>

definition attempts_of :: "(string, rtt_attempt) dict \<Rightarrow> string \<Rightarrow> rtt_attempt list" where
  "attempts_of d k = filter (\<lambda>a. at_plan_id a = k) (map snd d)"

definition route_ids :: "execution_plan \<Rightarrow> string list" where
  "route_ids p = map (rc_route_id \<circ> rr_candidate) (pl_ranked_routes p)"

definition last_ok :: "execution_plan \<Rightarrow> rtt_attempt \<Rightarrow> bool" where
  \<comment> \<open>how the plan's status and current RTT describe the latest attempt\<close>
  "last_ok p a \<longleftrightarrow> (case at_state a of
      ATT_CREATED \<Rightarrow> pl_status p = PLAN_ACTIVE \<and> pl_current_rtt_id p = Some (at_rtt_id a)
    | ATT_RECONCILIATION_REQUIRED \<Rightarrow>
        pl_status p = PLAN_RECONCILIATION_REQUIRED \<and> pl_current_rtt_id p = Some (at_rtt_id a)
    | ATT_SUCCEEDED \<Rightarrow> pl_status p = PLAN_FINALIZED \<and> pl_current_rtt_id p = None
        \<and> pl_successful_route_id p = Some (at_route_id a)
    | ATT_FAILED \<Rightarrow> pl_status p \<in> {PLAN_ACTIVE, PLAN_FAILED, PLAN_EXHAUSTED} \<and> pl_current_rtt_id p = None)"

definition history_ok :: "execution_plan \<Rightarrow> rtt_attempt list \<Rightarrow> bool" where
  "history_ok p as \<longleftrightarrow>
     (\<forall>a\<in>set (butlast as). at_state a = ATT_FAILED)
     \<and> (as = [] \<longrightarrow> pl_status p = PLAN_ACTIVE \<and> pl_current_rtt_id p = None)
     \<and> (as \<noteq> [] \<longrightarrow> last_ok p (last as))
     \<and> pl_attempts_used p = int (length as) \<and> (as \<noteq> [] \<longrightarrow> int (length as) \<le> pl_max_attempts p)
     \<and> map at_attempt_number as = map int [1..<Suc (length as)]
     \<and> distinct (route_ids p) \<and> distinct (pl_remaining_route_ids p) \<and> distinct (map at_route_id as)
     \<and> set (map at_route_id as) \<inter> set (pl_remaining_route_ids p) = {}
     \<and> set (map at_route_id as) \<union> set (pl_remaining_route_ids p) \<subseteq> set (route_ids p)
     \<and> 1 \<le> pl_version p"

definition exec_inv :: "execution_store \<Rightarrow> bool" where
  "exec_inv s \<longleftrightarrow>
     dict_ok (ex_plans s) \<and> dict_ok (ex_attempts s)
     \<and> (\<forall>r a. dict_get (ex_attempts s) r = Some a \<longrightarrow>
          at_rtt_id a = r \<and> strip r = r \<and> r \<noteq> [] \<and> (\<exists>p. dict_get (ex_plans s) (at_plan_id a) = Some p \<and> at_utt_id a = pl_utt_id p))
     \<and> (\<forall>k p. dict_get (ex_plans s) k = Some p \<longrightarrow>
          pl_plan_id p = k \<and> dict_get (ex_plan_by_utt s) (pl_utt_id p) = Some k
          \<and> history_ok p (attempts_of (ex_attempts s) k))
     \<and> (\<forall>u k. dict_get (ex_plan_by_utt s) u = Some k \<longrightarrow>
          (\<exists>p. dict_get (ex_plans s) k = Some p \<and> pl_utt_id p = u))"

lemma attempts_of_fresh:
  "dict_get d r = None \<Longrightarrow>
     attempts_of (dict_set r a d) k = attempts_of d k @ (if at_plan_id a = k then [a] else [])"
  by (simp add: dict_set_fresh attempts_of_def)

lemma attempts_of_replace:
  assumes "dict_ok d" "\<forall>(r, a)\<in>set d. at_rtt_id a = r" "dict_get d r = Some old" "at_plan_id a' = at_plan_id old"
  shows "attempts_of (dict_set r a' d) k = map (\<lambda>x. if at_rtt_id x = r then a' else x) (attempts_of d k)"
  using assms
proof (induction d)
  case (Cons x d)
  obtain r0 a0 where x: "x = (r0, a0)" by (cases x)
  show ?case
  proof (cases "r0 = r")
    case True
    have "map (\<lambda>x. if at_rtt_id x = r then a' else x) (attempts_of d k) = attempts_of d k"
      using Cons.prems True x by (intro map_idI) (force simp: attempts_of_def)
    then show ?thesis using Cons.prems True x by (auto simp: attempts_of_def)
  next
    case False
    then show ?thesis using Cons x by (auto simp: attempts_of_def)
  qed
qed simp

lemma replace_last:
  assumes "distinct (map f xs)" "xs \<noteq> []" "f (last xs) = r"
  shows "map (\<lambda>x. if f x = r then y else x) xs = butlast xs @ [y]"
proof -
  obtain ys z where xs: "xs = ys @ [z]" using assms(2) by (metis append_butlast_last_id)
  have "f z \<notin> f ` set ys" "f z = r" using assms by (simp_all add: xs)
  then have "f x \<noteq> r" if "x \<in> set ys" for x using that by (metis imageI)
  then have "map (\<lambda>x. if f x = r then y else x) ys = ys" by (simp add: map_idI)
  then show ?thesis using assms(3) by (simp add: xs)
qed

lemma attempts_of_distinct:
  "dict_ok d \<Longrightarrow> \<forall>(r, a)\<in>set d. at_rtt_id a = r \<Longrightarrow> distinct (map at_rtt_id (attempts_of d k))"
proof (induction d)
  case (Cons x d)
  then show ?case by (cases x) (force simp: attempts_of_def)
qed (simp add: attempts_of_def)

lemma exec_inv_keys: "exec_inv s \<Longrightarrow> \<forall>(r, a)\<in>set (ex_attempts s). at_rtt_id a = r"
  unfolding exec_inv_def by (blast intro: map_of_is_SomeI)

lemma attempts_of_mem:
  assumes "exec_inv s"
  shows "a \<in> set (attempts_of (ex_attempts s) k) \<longleftrightarrow>
     at_plan_id a = k \<and> dict_get (ex_attempts s) (at_rtt_id a) = Some a"
proof -
  have ok: "dict_ok (ex_attempts s)" using assms by (simp add: exec_inv_def)
  have "a \<in> snd ` set (ex_attempts s) \<longleftrightarrow> (at_rtt_id a, a) \<in> set (ex_attempts s)"
    using exec_inv_keys [OF assms] by force
  moreover have "a \<in> set (attempts_of (ex_attempts s) k) \<longleftrightarrow> a \<in> snd ` set (ex_attempts s) \<and> at_plan_id a = k"
    by (auto simp: attempts_of_def)
  ultimately show ?thesis unfolding dict_values_iff [OF ok] by blast
qed

section \<open>Every operation keeps the invariant\<close>

lemma exec_inv_empty: "exec_inv empty_execution_store"
  by (simp add: exec_inv_def empty_execution_store_def)

lemma exec_inv_plan:
  assumes "exec_inv s" "dict_get (ex_plans s) k = Some p"
  shows "pl_plan_id p = k" "dict_get (ex_plan_by_utt s) (pl_utt_id p) = Some k"
    "history_ok p (attempts_of (ex_attempts s) k)"
  using assms by (auto simp: exec_inv_def)

lemma exec_inv_attempt:
  assumes "exec_inv s" "dict_get (ex_attempts s) r = Some a"
  shows "at_rtt_id a = r" "strip r = r" "r \<noteq> []"
    "\<exists>p. dict_get (ex_plans s) (at_plan_id a) = Some p \<and> at_utt_id a = pl_utt_id p"
  using assms by (auto simp: exec_inv_def)

lemma exec_inv_put:
  \<comment> \<open>writing a plan and one of its attempts back keeps the invariant when the new history is right\<close>
  assumes inv: "exec_inv s" and p: "dict_get (ex_plans s) k = Some p" and p': "pl_plan_id p' = k" "pl_utt_id p' = pl_utt_id p"
    and a: "at_plan_id a = k" "at_utt_id a = pl_utt_id p" "strip (at_rtt_id a) = at_rtt_id a" "at_rtt_id a \<noteq> []"
    and other: "\<And>k'. k' \<noteq> k \<Longrightarrow> attempts_of (dict_set (at_rtt_id a) a (ex_attempts s)) k' = attempts_of (ex_attempts s) k'"
    and hist: "history_ok p' (attempts_of (dict_set (at_rtt_id a) a (ex_attempts s)) k)"
  shows "exec_inv (put_attempt_plan a p' s)"
  unfolding exec_inv_def
proof (intro conjI allI impI)
  let ?s = "put_attempt_plan a p' s"
  show "dict_ok (ex_plans ?s)" "dict_ok (ex_attempts ?s)"
    using inv by (simp_all add: put_attempt_plan_def exec_inv_def dict_ok_set)
  fix r x assume "dict_get (ex_attempts ?s) r = Some x"
  then have x: "(r = at_rtt_id a \<and> x = a) \<or> dict_get (ex_attempts s) r = Some x"
    by (cases "r = at_rtt_id a") (simp_all add: put_attempt_plan_def)
  show "at_rtt_id x = r" "strip r = r" "r \<noteq> []" using x exec_inv_attempt [OF inv, of r x] a by auto
  show "\<exists>q. dict_get (ex_plans ?s) (at_plan_id x) = Some q \<and> at_utt_id x = pl_utt_id q"
    using x exec_inv_attempt(4) [OF inv, of r x] a p p'
    by (cases "at_plan_id x = k") (auto simp: put_attempt_plan_def)
next
  let ?s = "put_attempt_plan a p' s"
  fix k' q assume "dict_get (ex_plans ?s) k' = Some q"
  then have q: "(k' = k \<and> q = p') \<or> (k' \<noteq> k \<and> dict_get (ex_plans s) k' = Some q)"
    using p' by (cases "k' = k") (simp_all add: put_attempt_plan_def)
  show "pl_plan_id q = k'" "dict_get (ex_plan_by_utt ?s) (pl_utt_id q) = Some k'"
    using q exec_inv_plan [OF inv p] exec_inv_plan [OF inv, of k' q] p'
    by (auto simp: put_attempt_plan_def)
  show "history_ok q (attempts_of (ex_attempts ?s) k')"
    using q hist other [of k'] exec_inv_plan(3) [OF inv, of k' q] by (auto simp: put_attempt_plan_def)
next
  let ?s = "put_attempt_plan a p' s"
  fix u k' assume "dict_get (ex_plan_by_utt ?s) u = Some k'"
  then have "dict_get (ex_plan_by_utt s) u = Some k'" by (simp add: put_attempt_plan_def)
  then obtain q where "dict_get (ex_plans s) k' = Some q" "pl_utt_id q = u"
    using inv unfolding exec_inv_def by blast
  then show "\<exists>q. dict_get (ex_plans ?s) k' = Some q \<and> pl_utt_id q = u"
    using p p' by (cases "k' = k") (auto simp: put_attempt_plan_def)
qed

lemma routes_by_id_Some: "routes_by_id p rid = Some r \<Longrightarrow> r \<in> set (pl_ranked_routes p) \<and> rc_route_id (rr_candidate r) = rid"
  unfolding routes_by_id_def by (drule map_of_SomeD) auto

lemma select_from_Some:
  "select_from p rids = Inr (Some r) \<Longrightarrow>
     (\<exists>pre post. rids = pre @ rc_route_id (rr_candidate r) # post
        \<and> (\<forall>x\<in>set pre. \<exists>y. routes_by_id p x = Some y \<and> budget_remaining p < rc_estimated_cost_minor (rr_candidate y)))
     \<and> r \<in> set (pl_ranked_routes p) \<and> rc_estimated_cost_minor (rr_candidate r) \<le> budget_remaining p"
proof (induction rids)
  case (Cons rid rids)
  show ?case
  proof (cases "routes_by_id p rid")
    case (Some y)
    show ?thesis
    proof (cases "rc_estimated_cost_minor (rr_candidate y) \<le> budget_remaining p")
      case True
      then have "y = r" using Cons.prems Some by simp
      then show ?thesis using routes_by_id_Some [OF Some] True
        by (intro conjI exI [of _ "[]"] exI [of _ rids]) auto
    next
      case False
      then have "select_from p rids = Inr (Some r)" using Cons.prems Some by simp
      from Cons.IH [OF this] obtain pre post where
        "rids = pre @ rc_route_id (rr_candidate r) # post"
        "\<forall>x\<in>set pre. \<exists>y. routes_by_id p x = Some y \<and> budget_remaining p < rc_estimated_cost_minor (rr_candidate y)"
        "r \<in> set (pl_ranked_routes p) \<and> rc_estimated_cost_minor (rr_candidate r) \<le> budget_remaining p" by blast
      then show ?thesis using Some False by (intro conjI exI [of _ "rid # pre"] exI [of _ post]) auto
    qed
  qed (use Cons.prems in simp)
qed simp

lemma executable_Inr [res_simps]:
  "executable p = Inr u \<longleftrightarrow> pl_status p = PLAN_ACTIVE \<and> pl_current_rtt_id p = None \<and> pl_attempts_used p < pl_max_attempts p"
  by (auto simp: executable_def rbind_eq_Inr guard_res_eq_Inr)

lemma new_attemptD:
  assumes "new_attempt P ks svc utt_id su p t = Inr (p', a)"
  obtains sel where "pl_status p = PLAN_ACTIVE" "pl_current_rtt_id p = None" "pl_attempts_used p < pl_max_attempts p"
    "select_from p (pl_remaining_route_ids p) = Inr (Some sel)"
    "p' = p\<lparr>pl_remaining_route_ids := filter (\<lambda>r. r \<noteq> at_route_id a) (pl_remaining_route_ids p),
            pl_attempts_used := pl_attempts_used p + 1, pl_current_rtt_id := Some (at_rtt_id a),
            pl_version := pl_version p + 1, pl_updated_at := t\<rparr>"
    "at_route_id a = rc_route_id (rr_candidate sel)" "at_state a = ATT_CREATED" "at_plan_id a = pl_plan_id p"
    "at_utt_id a = utt_id" "at_attempt_number a = pl_attempts_used p + 1" "strip (at_rtt_id a) = at_rtt_id a" "at_rtt_id a \<noteq> []"
    "\<exists>payload. sign_artifact P ks RTT payload (rs_rtt_signing_key_id svc) (Aware t) = Inr (at_signed_rtt a)
       \<and> pget payload ''rtt_id'' = Some (PyStr (at_rtt_id a)) \<and> pget payload ''utt_id'' = Some (PyStr utt_id)
       \<and> pget payload ''attempt_number'' = Some (PyInt (at_attempt_number a))"
proof -
  obtain sel where ex: "executable p = Inr ()" and sel: "select_from p (pl_remaining_route_ids p) = Inr (Some sel)"
    using assms unfolding new_attempt_def
    by (elim rbind_InrE) (auto split: option.splits)
  show thesis
    using assms unfolding new_attempt_def Let_def ex sel rbind_Inr option.case
    apply (elim rbind_InrE)
    apply (rule that [OF _ _ _ sel])
    using ex by (auto simp: executable_Inr is_space_def Let_def content_id_Inr dest: content_id_trimmed content_id_Inr elim: content_id_form)
qed

lemma start_next_Inr:
  assumes "start_next P ks contracts svc utt_id at s = (Inr a, s')"
  obtains t su p p' where "at = Aware t" "start_checks P ks contracts svc utt_id = Inr su"
    "require_plan_for_utt utt_id s = Inr p" "new_attempt P ks svc utt_id su p t = Inr (p', a)"
    "commit_start contracts (pl_version p) p' a s = (Inr (), s')"
  using assms unfolding start_next_def
  by (auto simp: sbind_eq_Inr slift_eq sget_eq sret_eq require_aware_Inr split: prod.splits)

lemma start_next_Inl: "start_next P ks contracts svc utt_id at s = (Inl e, s') \<Longrightarrow> s' = s"
  unfolding start_next_def
  by (auto simp: sbind_eq_Inl slift_eq sget_eq sret_def split: prod.splits dest: commit_start_Inl)

lemma require_plan_for_utt_Inr:
  assumes "require_plan_for_utt u s = Inr p"
  obtains k where "dict_get (ex_plan_by_utt s) u = Some k" "dict_get (ex_plans s) k = Some p"
  using assms by (auto simp: require_plan_for_utt_def split: option.splits)

lemma history_start:
  assumes h: "history_ok p as" and n: "new_attempt P ks svc utt_id su p t = Inr (p', a)"
  shows "history_ok p' (as @ [a])"
proof -
  from n obtain sel where st: "pl_status p = PLAN_ACTIVE" "pl_current_rtt_id p = None" "pl_attempts_used p < pl_max_attempts p"
    and sel: "select_from p (pl_remaining_route_ids p) = Inr (Some sel)"
    and p': "p' = p\<lparr>pl_remaining_route_ids := filter (\<lambda>r. r \<noteq> at_route_id a) (pl_remaining_route_ids p),
            pl_attempts_used := pl_attempts_used p + 1, pl_current_rtt_id := Some (at_rtt_id a),
            pl_version := pl_version p + 1, pl_updated_at := t\<rparr>"
    and a: "at_route_id a = rc_route_id (rr_candidate sel)" "at_state a = ATT_CREATED" "at_attempt_number a = pl_attempts_used p + 1"
    by (rule new_attemptD)
  have rem: "at_route_id a \<in> set (pl_remaining_route_ids p)" using select_from_Some [OF sel] a(1) by auto
  have used: "pl_attempts_used p = int (length as)" using h by (simp add: history_ok_def)
  have failed: "\<forall>x\<in>set as. at_state x = ATT_FAILED"
  proof (cases "as = []")
    case False
    then have "last_ok p (last as)" using h by (simp add: history_ok_def)
    then have "at_state (last as) = ATT_FAILED" using st
      by (auto simp: last_ok_def split: attempt_state.splits)
    moreover have "\<forall>x\<in>set (butlast as). at_state x = ATT_FAILED" using h by (simp add: history_ok_def)
    moreover have "set as = insert (last as) (set (butlast as))"
      using False by (metis append_butlast_last_id list.simps(15) rotate1.simps(2) set_rotate1)
    ultimately show ?thesis by simp
  qed simp
  have r: "route_ids p' = route_ids p" by (simp add: p' route_ids_def)
  show ?thesis
    using h st rem failed used a unfolding history_ok_def r
    by (auto simp: p' last_ok_def)
qed

lemma exec_inv_start_next:
  assumes inv: "exec_inv s" and st: "start_next P ks contracts svc utt_id at s = (r, s')"
  shows "exec_inv s'"
proof (cases r)
  case (Inl e)
  then show ?thesis using st start_next_Inl inv by blast
next
  case (Inr a)
  with st have "start_next P ks contracts svc utt_id at s = (Inr a, s')" by simp
  then obtain t su p p' where rp: "require_plan_for_utt utt_id s = Inr p"
    and na: "new_attempt P ks svc utt_id su p t = Inr (p', a)"
    and cs: "commit_start contracts (pl_version p) p' a s = (Inr (), s')"
    by (rule start_next_Inr)
  from rp obtain k where k: "dict_get (ex_plan_by_utt s) utt_id = Some k" "dict_get (ex_plans s) k = Some p"
    by (rule require_plan_for_utt_Inr)
  note ip = exec_inv_plan [OF inv k(2)]
  have utt: "pl_utt_id p = utt_id"
    using inv k unfolding exec_inv_def by (metis option.inject)
  from na have a: "at_plan_id a = k" "at_utt_id a = pl_utt_id p" "strip (at_rtt_id a) = at_rtt_id a" "at_rtt_id a \<noteq> []"
    and p': "pl_plan_id p' = k" "pl_utt_id p' = pl_utt_id p"
    using ip(1) utt by (auto elim!: new_attemptD)
  from cs obtain current where fresh: "dict_get (ex_attempts s) (at_rtt_id a) = None"
    and s': "s' = put_attempt_plan a p' s" by (rule commit_start_Inr)
  have "history_ok p' (attempts_of (dict_set (at_rtt_id a) a (ex_attempts s)) k)"
    using history_start [OF ip(3) na] a(1) by (simp add: attempts_of_fresh [OF fresh])
  then show ?thesis unfolding s'
    by (intro exec_inv_put [OF inv k(2) p' a]) (simp_all add: attempts_of_fresh [OF fresh] a(1))
qed

lemma history_last:
  assumes "history_ok p as" "pl_current_rtt_id p = Some r"
  shows "as \<noteq> []" "at_rtt_id (last as) = r"
  using assms by (auto simp: history_ok_def last_ok_def split: attempt_state.splits)

definition same_attempt :: "rtt_attempt \<Rightarrow> rtt_attempt \<Rightarrow> bool" where
  "same_attempt a b \<longleftrightarrow> at_rtt_id a = at_rtt_id b \<and> at_utt_id a = at_utt_id b \<and> at_plan_id a = at_plan_id b
     \<and> at_attempt_number a = at_attempt_number b \<and> at_route_id a = at_route_id b"

definition same_plan :: "execution_plan \<Rightarrow> execution_plan \<Rightarrow> bool" where
  "same_plan p q \<longleftrightarrow> pl_plan_id p = pl_plan_id q \<and> pl_utt_id p = pl_utt_id q \<and> pl_ranked_routes p = pl_ranked_routes q
     \<and> pl_remaining_route_ids p = pl_remaining_route_ids q \<and> pl_attempts_used p = pl_attempts_used q
     \<and> pl_max_attempts p = pl_max_attempts q \<and> pl_version q \<le> pl_version p"

lemma history_transition:
  assumes h: "history_ok p as" and ne: "as \<noteq> []" and p: "same_plan p' p" and a: "same_attempt a' (last as)" and l: "last_ok p' a'"
  shows "history_ok p' (butlast as @ [a'])"
proof -
  obtain bs b where as: "as = bs @ [b]" using ne by (metis append_butlast_last_id)
  show ?thesis using h p a l unfolding as history_ok_def same_plan_def same_attempt_def route_ids_def
    by auto
qed

lemma exec_inv_commit_transition:
  assumes inv: "exec_inv s" and a: "dict_get (ex_attempts s) r = Some a" and p: "dict_get (ex_plans s) (at_plan_id a) = Some p"
    and pp: "same_plan p' p" and aa: "same_attempt a' a" and l: "last_ok p' a'"
    and c: "commit_transition n p' a' s = (res, s')"
  shows "exec_inv s'"
proof (cases res)
  case (Inl e)
  then show ?thesis using c commit_transition_Inl inv by blast
next
  case (Inr u)
  note ia = exec_inv_attempt [OF inv a]
  let ?k = "at_plan_id a"
  let ?as = "attempts_of (ex_attempts s) ?k"
  from c Inr have "commit_transition n p' a' s = (Inr u, s')" by simp
  then obtain current where cur: "dict_get (ex_plans s) (pl_plan_id p') = Some current"
    "pl_current_rtt_id current = Some (at_rtt_id a')" and s': "s' = put_attempt_plan a' p' s"
    by (rule commit_transition_Inr)
  have ids: "pl_plan_id p' = ?k" "pl_utt_id p' = pl_utt_id p" "at_rtt_id a' = r" "at_plan_id a' = ?k" "at_utt_id a' = at_utt_id a"
    using pp aa ia exec_inv_plan [OF inv p] by (auto simp: same_plan_def same_attempt_def)
  have cp: "pl_current_rtt_id p = Some r" using cur p ids by simp
  note hl = history_last [OF exec_inv_plan(3) [OF inv p] cp]
  have "last ?as \<in> set ?as" using hl(1) by simp
  then have "dict_get (ex_attempts s) r = Some (last ?as)" using attempts_of_mem [OF inv] hl(2) by metis
  then have last: "last ?as = a" using a by simp
  have keys: "\<forall>(r, a)\<in>set (ex_attempts s). at_rtt_id a = r" "dict_ok (ex_attempts s)"
    using exec_inv_keys [OF inv] inv by (simp_all add: exec_inv_def)
  note rep = attempts_of_replace [OF keys(2,1) a ids(4)]
  have "history_ok p' (butlast ?as @ [a'])"
    by (rule history_transition [OF exec_inv_plan(3) [OF inv p] hl(1) pp _ l]) (simp add: last aa)
  then have hist: "history_ok p' (attempts_of (dict_set (at_rtt_id a') a' (ex_attempts s)) ?k)"
    unfolding ids(3) rep replace_last [OF attempts_of_distinct [OF keys(2,1)] hl] .
  have other: "attempts_of (dict_set (at_rtt_id a') a' (ex_attempts s)) k' = attempts_of (ex_attempts s) k'"
    if "k' \<noteq> ?k" for k'
    unfolding ids(3) rep
  proof (rule map_idI)
    fix x assume "x \<in> set (attempts_of (ex_attempts s) k')"
    then have "at_plan_id x = k'" "dict_get (ex_attempts s) (at_rtt_id x) = Some x" using attempts_of_mem [OF inv] by auto
    then show "(if at_rtt_id x = r then a' else x) = x" using a that by auto
  qed
  show ?thesis unfolding s'
    using exec_inv_put [OF inv p ids(1,2,4) _ _ _ other hist] ids ia p by auto
qed

lemma require_attempt_Inr [res_simps]: "require_attempt r s = Inr a \<longleftrightarrow> dict_get (ex_attempts s) r = Some a"
  by (auto simp: require_attempt_def split: option.splits)

lemma require_plan_Inr [res_simps]: "require_plan k s = Inr p \<longleftrightarrow> dict_get (ex_plans s) k = Some p"
  by (auto simp: require_plan_def split: option.splits)

lemmas exec_eqs = slift_eq sget_eq require_attempt_Inr require_plan_Inr guard_res_eq_Inr require_aware_Inr
  require_minor_units_Inr

definition failed_pair ::
  "execution_plan \<Rightarrow> rtt_attempt \<Rightarrow> string \<Rightarrow> string \<Rightarrow> failure_disposition \<Rightarrow> int \<Rightarrow> instant \<Rightarrow> execution_plan \<times> rtt_attempt" where
  \<comment> \<open>the plan and attempt a recorded failure writes\<close>
  "failed_pair plan attempt rtt_id code disposition cost t =
     (case failure_outcome plan rtt_id (pl_routing_cost_spent_minor plan + cost) disposition of (status, current, state) \<Rightarrow>
       (plan\<lparr>pl_failures := pl_failures plan @ [\<lparr>rf_rtt_id = rtt_id, rf_route_id = at_route_id attempt,
                rf_failure_code = upper code, rf_disposition = disposition, rf_recorded_at = t\<rparr>],
             pl_routing_cost_spent_minor := pl_routing_cost_spent_minor plan + cost,
             pl_current_rtt_id := current, pl_previous_rtt_id := Some rtt_id,
             pl_previous_route_id := Some (at_route_id attempt), pl_status := status,
             pl_version := pl_version plan + 1, pl_updated_at := t\<rparr>,
        attempt\<lparr>at_state := state, at_failure_code := Some (upper code),
                at_actual_cost_minor := Some cost, at_updated_at := t\<rparr>))"

lemma record_failure_effect:
  assumes "record_failure rtt_id code d cost at s = (r, s')"
  obtains "s' = s" "\<exists>e. r = Inl e"
  | a p p' a' t res where "dict_get (ex_attempts s) (strip rtt_id) = Some a" "at_state a = ATT_CREATED"
      "dict_get (ex_plans s) (at_plan_id a) = Some p" "(p', a') = failed_pair p a rtt_id (strip code) d cost t"
      "0 \<le> cost" "at = Aware t" "commit_transition (pl_version p) p' a' s = (res, s')" "res = Inr () \<longrightarrow> r = Inr p'"
      "\<forall>e. res = Inl e \<longrightarrow> r = Inl e"
  using assms unfolding record_failure_def Let_def
  apply (elim sbindE; simp only: exec_eqs; (elim conjE)?; (simp split: prod.splits)?)
  apply (auto simp: require_text_Inr failed_pair_def Let_def sret_def split: prod.splits elim!: sbindE)
  done

lemma record_success_effect:
  assumes "record_success rtt_id cost at s = (r, s')"
  obtains "s' = s" "\<exists>e. r = Inl e"
  | a p p' a' t res where "dict_get (ex_attempts s) (strip rtt_id) = Some a" "at_state a = ATT_CREATED"
      "dict_get (ex_plans s) (at_plan_id a) = Some p" "p' = succeeded_plan p a rtt_id cost t"
      "a' = a\<lparr>at_state := ATT_SUCCEEDED, at_actual_cost_minor := Some cost, at_updated_at := t\<rparr>"
      "0 \<le> cost" "at = Aware t" "commit_transition (pl_version p) p' a' s = (res, s')" "res = Inr () \<longrightarrow> r = Inr p'"
      "\<forall>e. res = Inl e \<longrightarrow> r = Inl e"
  using assms unfolding record_success_def Let_def
  apply (elim sbindE; simp only: exec_eqs; (elim conjE)?; (simp split: prod.splits)?)
  apply (auto simp: require_text_Inr sret_def split: prod.splits elim!: sbindE)
  done

lemma resolve_effect:
  assumes "resolve_reconciliation rtt_id ok cost code d at s = (r, s')"
  obtains "s' = s" "\<exists>e. r = Inl e"
  | a p p' a' t res where "dict_get (ex_attempts s) (strip rtt_id) = Some a" "at_state a = ATT_RECONCILIATION_REQUIRED"
      "dict_get (ex_plans s) (at_plan_id a) = Some p" "pl_status p = PLAN_RECONCILIATION_REQUIRED"
      "pl_current_rtt_id p = Some rtt_id" "resolved p a rtt_id ok cost code d t = Inr (p', a')"
      "0 \<le> cost" "at = Aware t" "commit_transition (pl_version p) p' a' s = (res, s')" "res = Inr () \<longrightarrow> r = Inr p'"
      "\<forall>e. res = Inl e \<longrightarrow> r = Inl e"
  using assms unfolding resolve_reconciliation_def Let_def
  apply (elim sbindE; simp only: exec_eqs; (elim conjE)?; (simp split: prod.splits)?)
  apply (auto simp: require_text_Inr sret_def split: prod.splits elim!: sbindE)
  done

lemma retry_status_cases: "retry_status p n \<in> {PLAN_ACTIVE, PLAN_EXHAUSTED}"
  by (simp add: retry_status_def)

lemma failed_pair_ok:
  assumes "(p', a') = failed_pair p a rtt_id code d cost t" "d = DISP_RECONCILIATION_REQUIRED \<longrightarrow> rtt_id = at_rtt_id a"
  shows "same_plan p' p" "same_attempt a' a" "last_ok p' a'"
  using assms retry_status_cases [of p "pl_routing_cost_spent_minor p + cost"]
  by (auto simp: failed_pair_def failure_outcome_def same_plan_def same_attempt_def last_ok_def split: failure_disposition.splits)

lemma resolved_ok:
  assumes "resolved p a rtt_id ok cost code d t = Inr (p', a')"
  shows "same_plan p' p" "same_attempt a' a" "last_ok p' a'"
  using assms retry_status_cases [of p "pl_routing_cost_spent_minor p + cost"]
  by (auto simp: resolved_def succeeded_plan_def same_plan_def same_attempt_def last_ok_def Let_def rbind_eq_Inr guard_res_eq_Inr
        split: if_splits)

lemma exec_inv_record_failure:
  assumes "exec_inv s" "record_failure rtt_id code d cost at s = (r, s')" "strip rtt_id = rtt_id"
  shows "exec_inv s'"
  using assms(2)
proof (cases rule: record_failure_effect)
  case (2 a p p' a' t res)
  have "rtt_id = at_rtt_id a" using exec_inv_attempt [OF assms(1) 2(1)] assms(3) by simp
  then show ?thesis using exec_inv_commit_transition [OF assms(1) 2(1,3)] failed_pair_ok [OF 2(4)] 2(7) by blast
qed (use assms(1) in simp)

lemma exec_inv_record_success:
  assumes "exec_inv s" "record_success rtt_id cost at s = (r, s')"
  shows "exec_inv s'"
  using assms(2)
proof (cases rule: record_success_effect)
  case (2 a p p' a' t res)
  have "same_plan p' p" "same_attempt a' a" "last_ok p' a'"
    by (simp_all add: 2 succeeded_plan_def same_plan_def same_attempt_def last_ok_def)
  then show ?thesis using exec_inv_commit_transition [OF assms(1) 2(1,3)] 2(8) by blast
qed (use assms(1) in simp)

lemma exec_inv_resolve:
  assumes "exec_inv s" "resolve_reconciliation rtt_id ok cost code d at s = (r, s')"
  shows "exec_inv s'"
  using assms(2)
proof (cases rule: resolve_effect)
  case (2 a p p' a' t res)
  then show ?thesis using exec_inv_commit_transition [OF assms(1) 2(1,3)] resolved_ok [OF 2(6)] by blast
qed (use assms(1) in simp)

lemma plan_for_fresh:
  assumes "plan_for P ks contracts w utt_id cs at = Inr p"
  shows "history_ok p [] \<and> pl_utt_id p = utt_id"
proof -
  obtain ranked q t where r: "rank w cs q (Aware t) = Inr ranked" and "pl_ranked_routes p = ranked"
    "pl_remaining_route_ids p = map (rc_route_id \<circ> rr_candidate) ranked" "pl_attempts_used p = 0"
    "pl_status p = PLAN_ACTIVE" "pl_current_rtt_id p = None" "pl_version p = 1" "pl_utt_id p = utt_id"
    using assms unfolding plan_for_def Let_def by (elim rbind_InrE) auto
  then show ?thesis using rank_distinct [OF r] by (simp add: history_ok_def route_ids_def)
qed

lemma create_plan_effect:
  assumes "create_plan contracts p s = (r, s')"
  shows "s' = s \<or> (dict_get (ex_plan_by_utt s) (pl_utt_id p) = None \<and> dict_get (ex_plans s) (pl_plan_id p) = None \<and> r = Inr p
    \<and> s' = s\<lparr>ex_plans := dict_set (pl_plan_id p) p (ex_plans s),
              ex_plan_by_utt := dict_set (pl_utt_id p) (pl_plan_id p) (ex_plan_by_utt s)\<rparr>)"
  using assms unfolding create_plan_def
  by (elim sbindE) (auto simp: slift_eq split: option.splits if_splits)

lemma exec_inv_new_plan:
  assumes inv: "exec_inv s" and n: "dict_get (ex_plan_by_utt s) (pl_utt_id p) = None" "dict_get (ex_plans s) (pl_plan_id p) = None"
    and h: "history_ok p []"
    and s': "s' = s\<lparr>ex_plans := dict_set (pl_plan_id p) p (ex_plans s),
              ex_plan_by_utt := dict_set (pl_utt_id p) (pl_plan_id p) (ex_plan_by_utt s)\<rparr>"
  shows "exec_inv s'"
proof -
  have g: "dict_get (ex_plans s') k = (if k = pl_plan_id p then Some p else dict_get (ex_plans s) k)"
    "dict_get (ex_plan_by_utt s') u = (if u = pl_utt_id p then Some (pl_plan_id p) else dict_get (ex_plan_by_utt s) u)"
    "ex_attempts s' = ex_attempts s" for k u by (simp_all add: s')
  have none: "attempts_of (ex_attempts s) (pl_plan_id p) = []"
  proof (rule ccontr)
    assume "attempts_of (ex_attempts s) (pl_plan_id p) \<noteq> []"
    then obtain a where "a \<in> set (attempts_of (ex_attempts s) (pl_plan_id p))" by fastforce
    then have "at_plan_id a = pl_plan_id p" "dict_get (ex_attempts s) (at_rtt_id a) = Some a" using attempts_of_mem [OF inv] by auto
    then show False using exec_inv_attempt(4) [OF inv] n(2) by fastforce
  qed
  show ?thesis unfolding exec_inv_def g(3)
  proof (intro conjI allI impI)
    show "dict_ok (ex_plans s')" "dict_ok (ex_attempts s)" using inv by (simp_all add: s' exec_inv_def dict_ok_set)
    fix r a assume a: "dict_get (ex_attempts s) r = Some a"
    show "at_rtt_id a = r" "strip r = r" "r \<noteq> []" using exec_inv_attempt [OF inv a] by auto
    obtain q where q: "dict_get (ex_plans s) (at_plan_id a) = Some q" "at_utt_id a = pl_utt_id q"
      using exec_inv_attempt(4) [OF inv a] by blast
    then have "at_plan_id a \<noteq> pl_plan_id p" using n(2) by auto
    with q show "\<exists>q. dict_get (ex_plans s') (at_plan_id a) = Some q \<and> at_utt_id a = pl_utt_id q" by (simp add: g)
  next
    fix k q assume "dict_get (ex_plans s') k = Some q"
    then have q: "(k = pl_plan_id p \<and> q = p) \<or> (k \<noteq> pl_plan_id p \<and> dict_get (ex_plans s) k = Some q)"
      by (cases "k = pl_plan_id p") (simp_all add: g)
    show "pl_plan_id q = k" "history_ok q (attempts_of (ex_attempts s) k)"
      using q exec_inv_plan [OF inv, of k q] h none by auto
    show "dict_get (ex_plan_by_utt s') (pl_utt_id q) = Some k"
      using q exec_inv_plan(2) [OF inv, of k q] n(1) by (auto simp: g)
  next
    fix u k assume "dict_get (ex_plan_by_utt s') u = Some k"
    then have u: "(u = pl_utt_id p \<and> k = pl_plan_id p) \<or> dict_get (ex_plan_by_utt s) u = Some k"
      by (cases "u = pl_utt_id p") (simp_all add: g)
    show "\<exists>q. dict_get (ex_plans s') k = Some q \<and> pl_utt_id q = u"
    proof (cases "k = pl_plan_id p")
      case True
      moreover have "dict_get (ex_plan_by_utt s) u \<noteq> Some (pl_plan_id p)"
        using inv n(2) unfolding exec_inv_def by (metis option.distinct(1))
      ultimately show ?thesis using u by (simp add: g)
    next
      case False
      then show ?thesis using u inv unfolding exec_inv_def g by metis
    qed
  qed
qed

lemma exec_inv_build_plan:
  assumes "exec_inv s" "build_plan P ks contracts w utt_id cs at s = (r, s')"
  shows "exec_inv s'"
proof -
  from assms(2) consider "s' = s" | p where "plan_for P ks contracts w utt_id cs at = Inr p" "create_plan contracts p s = (r, s')"
    unfolding build_plan_def by (elim sbindE) (auto simp: slift_eq)
  then show ?thesis
  proof cases
    case 2
    then show ?thesis using create_plan_effect [OF 2(2)] exec_inv_new_plan [OF assms(1)] plan_for_fresh [OF 2(1)] assms(1) by blast
  qed (use assms(1) in simp)
qed

section \<open>The execution machine\<close>

text \<open>
  One step is one call of a service operation, successful or not, with any arguments.  Providers
  report outcomes under the RTT identifier they were given, so the identifier of a reported failure
  carries no surrounding white space; \<open>padded_report_strands_plan\<close> below shows what happens otherwise.
\<close>

inductive exec_step :: "platform \<Rightarrow> execution_store \<Rightarrow> execution_store \<Rightarrow> bool" for P where
  step_plan: "build_plan P ks contracts w utt_id cs at s = (r, s') \<Longrightarrow> exec_step P s s'"
| step_start: "start_next P ks contracts svc utt_id at s = (a, s') \<Longrightarrow> exec_step P s s'"
| step_failure: "strip rtt_id = rtt_id \<Longrightarrow> record_failure rtt_id code d cost at s = (p, s') \<Longrightarrow> exec_step P s s'"
| step_success: "record_success rtt_id cost at s = (p, s') \<Longrightarrow> exec_step P s s'"
| step_resolve: "resolve_reconciliation rtt_id ok cost code d at s = (p, s') \<Longrightarrow> exec_step P s s'"

inductive exec_reach :: "platform \<Rightarrow> execution_store \<Rightarrow> execution_store \<Rightarrow> bool" for P where
  reach_refl: "exec_reach P s s"
| reach_step: "exec_reach P s t \<Longrightarrow> exec_step P t u \<Longrightarrow> exec_reach P s u"

inductive_cases exec_stepE: "exec_step P s s'"

lemma exec_step_inv: "exec_step P s s' \<Longrightarrow> exec_inv s \<Longrightarrow> exec_inv s'"
  by (erule exec_stepE) (blast intro: exec_inv_build_plan exec_inv_start_next exec_inv_record_failure
      exec_inv_record_success exec_inv_resolve)+

lemma exec_reach_inv: "exec_reach P s t \<Longrightarrow> exec_inv s \<Longrightarrow> exec_inv t"
  by (induction rule: exec_reach.induct) (auto intro: exec_step_inv)

lemma reachable_inv: "exec_reach P empty_execution_store s \<Longrightarrow> exec_inv s"
  using exec_reach_inv exec_inv_empty by blast

section \<open>Safety\<close>

text \<open>
  C2. Execution history of a plan, in every reachable state and for any interleaving of planning,
  starts, outcomes and reconciliations: there are as many attempts as the plan counts, never more
  than its limit, numbered 1, 2, ...; no route is tried twice and each is one of the plan's ranked
  routes; every attempt except the latest has failed, so at most one attempt is in flight or
  unknown or successful; and the plan is finalized exactly when its latest attempt succeeded, over
  the route the plan names.
\<close>

theorem execution_history:
  assumes "exec_reach P empty_execution_store s" "dict_get (ex_plans s) k = Some p"
    and "as = attempts_of (ex_attempts s) k"
  shows "int (length as) = pl_attempts_used p \<and> (as = [] \<or> int (length as) \<le> pl_max_attempts p)
    \<and> map at_attempt_number as = map int [1..<Suc (length as)]
    \<and> distinct (map at_route_id as) \<and> set (map at_route_id as) \<subseteq> set (route_ids p)
    \<and> (\<forall>a\<in>set (butlast as). at_state a = ATT_FAILED)
    \<and> (pl_status p = PLAN_FINALIZED \<longleftrightarrow> as \<noteq> [] \<and> at_state (last as) = ATT_SUCCEEDED)
    \<and> (pl_status p = PLAN_FINALIZED \<longrightarrow> pl_successful_route_id p = Some (at_route_id (last as)))
    \<and> (pl_status p = PLAN_RECONCILIATION_REQUIRED \<longleftrightarrow> as \<noteq> [] \<and> at_state (last as) = ATT_RECONCILIATION_REQUIRED)"
proof -
  have h: "history_ok p as"
    using exec_inv_plan(3) [OF reachable_inv [OF assms(1)] assms(2)] assms(3) by simp
  have "(pl_status p = PLAN_FINALIZED \<longleftrightarrow> as \<noteq> [] \<and> at_state (last as) = ATT_SUCCEEDED)
    \<and> (pl_status p = PLAN_FINALIZED \<longrightarrow> pl_successful_route_id p = Some (at_route_id (last as)))
    \<and> (pl_status p = PLAN_RECONCILIATION_REQUIRED \<longleftrightarrow> as \<noteq> [] \<and> at_state (last as) = ATT_RECONCILIATION_REQUIRED)"
    using h by (cases "as = []") (auto simp: history_ok_def last_ok_def split: attempt_state.splits)
  then show ?thesis using h by (auto simp: history_ok_def)
qed

definition settled :: "execution_plan \<Rightarrow> bool" where
  "settled p \<longleftrightarrow> pl_status p \<in> {PLAN_FAILED, PLAN_EXHAUSTED, PLAN_FINALIZED}"

lemma settled_no_current:
  assumes "exec_inv s" "dict_get (ex_plans s) k = Some p" "settled p"
  shows "pl_current_rtt_id p = None"
  using exec_inv_plan(3) [OF assms(1,2)] assms(3)
  by (cases "attempts_of (ex_attempts s) k = []")
     (auto simp: history_ok_def settled_def last_ok_def split: attempt_state.splits)

definition untouched :: "string \<Rightarrow> execution_store \<Rightarrow> execution_store \<Rightarrow> bool" where
  "untouched k s s' \<longleftrightarrow> dict_get (ex_plans s') k = dict_get (ex_plans s) k
     \<and> attempts_of (ex_attempts s') k = attempts_of (ex_attempts s) k"

lemma transition_elsewhere:
  assumes inv: "exec_inv s" and a: "dict_get (ex_attempts s) r = Some a" "at_plan_id a \<noteq> k"
    and p: "dict_get (ex_plans s) (at_plan_id a) = Some p" and pp: "same_plan p' p" and aa: "same_attempt a' a"
    and c: "commit_transition n p' a' s = (res, s')"
  shows "untouched k s s'"
proof (cases res)
  case (Inl e)
  then show ?thesis using c by (auto simp: untouched_def dest: commit_transition_Inl)
next
  case (Inr u)
  then have s': "s' = put_attempt_plan a' p' s" using c by (auto elim: commit_transition_Inr)
  have ids: "pl_plan_id p' = at_plan_id a" "at_rtt_id a' = r" "at_plan_id a' = at_plan_id a"
    using pp aa exec_inv_plan [OF inv p] exec_inv_attempt [OF inv a(1)] by (auto simp: same_plan_def same_attempt_def)
  have keys: "\<forall>(r, a)\<in>set (ex_attempts s). at_rtt_id a = r" "dict_ok (ex_attempts s)"
    using exec_inv_keys [OF inv] inv by (simp_all add: exec_inv_def)
  have "map (\<lambda>x. if at_rtt_id x = r then a' else x) (attempts_of (ex_attempts s) k) = attempts_of (ex_attempts s) k"
  proof (rule map_idI)
    fix x assume "x \<in> set (attempts_of (ex_attempts s) k)"
    then have "at_plan_id x = k" "dict_get (ex_attempts s) (at_rtt_id x) = Some x" using attempts_of_mem [OF inv] by auto
    then show "(if at_rtt_id x = r then a' else x) = x" using a by auto
  qed
  then show ?thesis using attempts_of_replace [OF keys(2,1) a(1) ids(3), of k] a(2) ids
    by (simp add: untouched_def s' put_attempt_plan_def)
qed

lemma transition_untouched:
  assumes inv: "exec_inv s" and k: "dict_get (ex_plans s) k = Some q" "pl_current_rtt_id q = None"
    and a: "dict_get (ex_attempts s) r = Some a" and p: "dict_get (ex_plans s) (at_plan_id a) = Some p"
    and pp: "same_plan p' p" and aa: "same_attempt a' a"
    and c: "commit_transition n p' a' s = (res, s')"
  shows "untouched k s s'"
proof (cases "at_plan_id a = k")
  case True
  then have "pl_plan_id p' = k" using pp exec_inv_plan [OF inv p] by (simp add: same_plan_def)
  then show ?thesis using c k
    by (cases res) (auto simp: untouched_def dest: commit_transition_Inl elim: commit_transition_Inr)
qed (rule transition_elsewhere [OF inv a _ p pp aa c])

lemma start_untouched:
  assumes inv: "exec_inv s" and k: "dict_get (ex_plans s) k = Some q" "pl_status q \<noteq> PLAN_ACTIVE"
    and st: "start_next P ks contracts svc utt_id at s = (r, s')"
  shows "untouched k s s'"
proof (cases r)
  case (Inl e)
  then show ?thesis using st by (auto simp: untouched_def dest: start_next_Inl)
next
  case (Inr a)
  with st have "start_next P ks contracts svc utt_id at s = (Inr a, s')" by simp
  then obtain t su p p' where rp: "require_plan_for_utt utt_id s = Inr p"
    and na: "new_attempt P ks svc utt_id su p t = Inr (p', a)"
    and cs: "commit_start contracts (pl_version p) p' a s = (Inr (), s')"
    by (rule start_next_Inr)
  from rp obtain k' where k': "dict_get (ex_plans s) k' = Some p" by (rule require_plan_for_utt_Inr)
  have "pl_plan_id p = k'" using exec_inv_plan [OF inv k'] by simp
  moreover have "pl_status p = PLAN_ACTIVE" using na by (rule new_attemptD)
  ultimately have ne: "pl_plan_id p \<noteq> k" using k k' by auto
  have ids: "pl_plan_id p' = pl_plan_id p" "at_plan_id a = pl_plan_id p" using na by (auto elim!: new_attemptD)
  from cs obtain current where fresh: "dict_get (ex_attempts s) (at_rtt_id a) = None"
    and s': "s' = put_attempt_plan a p' s" by (rule commit_start_Inr)
  show ?thesis using ne ids by (simp add: untouched_def s' put_attempt_plan_def attempts_of_fresh [OF fresh])
qed

lemma plan_untouched:
  assumes "dict_get (ex_plans s) k = Some q" "build_plan P ks contracts w utt_id cs at s = (r, s')"
  shows "untouched k s s'"
proof -
  from assms(2) consider "s' = s" | p where "create_plan contracts p s = (r, s')"
    unfolding build_plan_def by (elim sbindE) (auto simp: slift_eq)
  then show ?thesis
  proof cases
    case 2
    show ?thesis using create_plan_effect [OF 2] assms(1) by (auto simp: untouched_def)
  qed (simp add: untouched_def)
qed

lemma step_untouched:
  assumes inv: "exec_inv s" and k: "dict_get (ex_plans s) k = Some q" "settled q" and st: "exec_step P s s'"
  shows "untouched k s s'"
proof -
  note cur = settled_no_current [OF inv k]
  have eq: "untouched k s s" by (simp add: untouched_def)
  from st show ?thesis
  proof (cases rule: exec_step.cases)
    case step_plan
    then show ?thesis using plan_untouched [OF k(1)] by blast
  next
    case step_start
    then show ?thesis using start_untouched [OF inv k(1)] k(2) by (auto simp: settled_def)
  next
    case (step_failure rtt_id code d cost at p)
    from step_failure(2) show ?thesis
    proof (cases rule: record_failure_effect)
      case (2 a p p' a' t res)
      have "rtt_id = at_rtt_id a" using exec_inv_attempt [OF inv 2(1)] step_failure(1) by simp
      then show ?thesis using transition_untouched [OF inv k(1) cur 2(1,3)] failed_pair_ok [OF 2(4)] 2(7) by blast
    qed (use eq in simp)
  next
    case (step_success rtt_id cost at p)
    then show ?thesis
    proof (cases rule: record_success_effect)
      case (2 a p p' a' t res)
      have "same_plan p' p" "same_attempt a' a" by (simp_all add: 2 succeeded_plan_def same_plan_def same_attempt_def)
      then show ?thesis using transition_untouched [OF inv k(1) cur 2(1,3)] 2(8) by blast
    qed (use eq in simp)
  next
    case (step_resolve rtt_id ok cost code d at p)
    then show ?thesis
    proof (cases rule: resolve_effect)
      case (2 a p p' a' t res)
      then show ?thesis using transition_untouched [OF inv k(1) cur 2(1,3)] resolved_ok [OF 2(6)] by blast
    qed (use eq in simp)
  qed
qed

text \<open>
  C6. Settled plans are final: once a plan is finalized, failed or exhausted, no sequence of later
  operations, on this or any other plan, changes the plan, adds an attempt to it or alters one.  In
  particular nothing is executed again after a success.
\<close>

theorem settled_is_final:
  assumes "exec_reach P s t" "exec_reach P empty_execution_store s" "dict_get (ex_plans s) k = Some p" "settled p"
  shows "dict_get (ex_plans t) k = Some p \<and> attempts_of (ex_attempts t) k = attempts_of (ex_attempts s) k"
  using assms
proof (induction rule: exec_reach.induct)
  case (reach_step s t u)
  have "exec_inv t" using exec_reach_inv [OF reach_step(1) reachable_inv [OF reach_step(4)]] .
  then show ?case using step_untouched [OF _ _ assms(4) reach_step(2)] reach_step.IH reach_step.prems by (simp add: untouched_def)
qed simp

end
