(* ===== verification/Execution_Properties.thy ===== *)
theory Execution_Properties
  imports Execution_Invariant
begin

text \<open>
  What the execution machine promises beyond its invariant: unknown outcomes block a plan until they
  are reconciled, retries are offered exactly while an attempt can be made, concurrent commits never
  overwrite each other; and complete runs of the machine.
\<close>

section \<open>Unknown outcomes\<close>

lemma commit_transition_ok:
  assumes "dict_get (ex_plans s) (pl_plan_id p') = Some p" "pl_version p = n" "dict_get (ex_attempts s) (at_rtt_id a') = Some a"
    and "pl_current_rtt_id p = Some (at_rtt_id a')"
  shows "commit_transition n p' a' s = (Inr (), put_attempt_plan a' p' s)"
  using assms by (simp add: commit_transition_def)

lemma reconciling_attempt:
  assumes inv: "exec_inv s" and k: "dict_get (ex_plans s) k = Some p" and st: "pl_status p = PLAN_RECONCILIATION_REQUIRED"
  obtains a where "pl_current_rtt_id p = Some (at_rtt_id a)" "dict_get (ex_attempts s) (at_rtt_id a) = Some a"
    "at_plan_id a = k" "at_state a = ATT_RECONCILIATION_REQUIRED" "strip (at_rtt_id a) = at_rtt_id a" "at_rtt_id a \<noteq> []"
proof -
  let ?as = "attempts_of (ex_attempts s) k"
  have h: "history_ok p ?as" by (rule exec_inv_plan(3) [OF inv k])
  then have ne: "?as \<noteq> []" using st by (auto simp: history_ok_def)
  then have l: "last_ok p (last ?as)" using h by (simp add: history_ok_def)
  have m: "at_plan_id (last ?as) = k" "dict_get (ex_attempts s) (at_rtt_id (last ?as)) = Some (last ?as)"
    using attempts_of_mem [OF inv, of "last ?as" k] last_in_set [OF ne] by blast+
  have "at_state (last ?as) = ATT_RECONCILIATION_REQUIRED" "pl_current_rtt_id p = Some (at_rtt_id (last ?as))"
    using l st by (auto simp: last_ok_def split: attempt_state.splits)
  then show thesis using that [of "last ?as"] m exec_inv_attempt [OF inv m(2)] by blast
qed

lemma start_next_not_active:
  assumes inv: "exec_inv s" and k: "dict_get (ex_plans s) k = Some p" and st: "pl_status p \<noteq> PLAN_ACTIVE \<or> pl_current_rtt_id p \<noteq> None"
  shows "\<exists>e. start_next P ks contracts svc (pl_utt_id p) at s = (Inl e, s)"
proof (cases "start_next P ks contracts svc (pl_utt_id p) at s")
  case (Pair r s')
  show ?thesis
  proof (cases r)
    case (Inl e)
    then show ?thesis using Pair start_next_Inl by auto
  next
    case (Inr a)
    with Pair obtain t su q p' where rp: "require_plan_for_utt (pl_utt_id p) s = Inr q"
      and na: "new_attempt P ks svc (pl_utt_id p) su q t = Inr (p', a)"
      using start_next_Inr by metis
    have "q = p" using rp k exec_inv_plan(2) [OF inv k] by (auto simp: require_plan_for_utt_def)
    then show ?thesis using na st by (auto elim: new_attemptD)
  qed
qed

lemma record_failure_not_created:
  assumes "dict_get (ex_attempts s) (strip r) = Some a" "at_state a \<noteq> ATT_CREATED"
  shows "\<exists>e. record_failure r code d cost at s = (Inl e, s)"
proof (cases "record_failure r code d cost at s")
  case (Pair res s')
  from Pair show ?thesis by (cases rule: record_failure_effect) (use assms Pair in auto)
qed

lemma record_success_not_created:
  assumes "dict_get (ex_attempts s) (strip r) = Some a" "at_state a \<noteq> ATT_CREATED"
  shows "\<exists>e. record_success r cost at s = (Inl e, s)"
proof (cases "record_success r cost at s")
  case (Pair res s')
  from Pair show ?thesis by (cases rule: record_success_effect) (use assms Pair in auto)
qed

lemma resolve_ok:
  assumes inv: "exec_inv s" and k: "dict_get (ex_plans s) k = Some p" and st: "pl_status p = PLAN_RECONCILIATION_REQUIRED"
    and r: "pl_current_rtt_id p = Some r" and c: "0 \<le> cost" "ok \<or> d \<noteq> DISP_RECONCILIATION_REQUIRED \<and> (falsy code \<or> text_ok (the code))"
  shows "\<exists>p' s'. resolve_reconciliation r ok cost code d (Aware t) s = (Inr p', s')
    \<and> dict_get (ex_plans s') k = Some p' \<and> pl_status p' \<noteq> PLAN_RECONCILIATION_REQUIRED \<and> pl_current_rtt_id p' = None
    \<and> (ok \<longrightarrow> pl_status p' = PLAN_FINALIZED)"
proof -
  from inv k st obtain a where a: "pl_current_rtt_id p = Some (at_rtt_id a)" "dict_get (ex_attempts s) (at_rtt_id a) = Some a"
    "at_plan_id a = k" "at_state a = ATT_RECONCILIATION_REQUIRED" "strip (at_rtt_id a) = at_rtt_id a" "at_rtt_id a \<noteq> []"
    by (rule reconciling_attempt)
  have ra: "r = at_rtt_id a" using r a(1) by simp
  have "text_ok ''PROVIDER_CONFIRMED_FAILURE''" by code_simp
  then have "\<exists>x. resolved p a r ok cost code d t = Inr x"
    using c(2) by (auto simp: resolved_def Let_def require_text_ok guard_res_def)
  then obtain p' a' where res: "resolved p a r ok cost code d t = Inr (p', a')" by auto
  note ro = resolved_ok [OF res]
  have ids: "pl_plan_id p' = k" "at_rtt_id a' = at_rtt_id a"
    using ro exec_inv_plan(1) [OF inv k] by (auto simp: same_plan_def same_attempt_def)
  have ct: "commit_transition (pl_version p) p' a' s = (Inr (), put_attempt_plan a' p' s)"
    by (rule commit_transition_ok [of _ _ p]) (use k ids a in auto)
  have "resolve_reconciliation r ok cost code d (Aware t) s = (Inr p', put_attempt_plan a' p' s)"
    using a ra st k c(1) res ct
    by (simp add: resolve_reconciliation_def sbind_def slift_def sget_def sret_def require_minor_units_def require_text_def
          require_attempt_def require_plan_def)
  moreover have "pl_status p' \<noteq> PLAN_RECONCILIATION_REQUIRED \<and> pl_current_rtt_id p' = None \<and> (ok \<longrightarrow> pl_status p' = PLAN_FINALIZED)"
    using res retry_status_cases [of p "pl_routing_cost_spent_minor p + cost"]
    by (auto simp: resolved_def succeeded_plan_def Let_def rbind_eq_Inr split: if_splits)
  ultimately show ?thesis using ids by (simp add: put_attempt_plan_def)
qed

lemma reconciling_attempts:
  assumes inv: "exec_inv s" and k: "dict_get (ex_plans s) k = Some p" and st: "pl_status p = PLAN_RECONCILIATION_REQUIRED"
    and a: "dict_get (ex_attempts s) r = Some a" "at_plan_id a = k"
  shows "at_state a \<in> {ATT_FAILED, ATT_RECONCILIATION_REQUIRED}"
proof -
  let ?as = "attempts_of (ex_attempts s) k"
  have h: "history_ok p ?as" by (rule exec_inv_plan(3) [OF inv k])
  have m: "a \<in> set ?as" using attempts_of_mem [OF inv, of a k] a exec_inv_attempt(1) [OF inv a(1)] by simp
  then have ne: "?as \<noteq> []" by auto
  then have "at_state (last ?as) = ATT_RECONCILIATION_REQUIRED"
    using h st by (auto simp: history_ok_def last_ok_def split: attempt_state.splits)
  moreover have "a = last ?as \<or> a \<in> set (butlast ?as)"
    using m ne by (metis append_butlast_last_id in_set_butlastD rotate1.simps(2) set_ConsD set_rotate1)
  ultimately show ?thesis using h by (auto simp: history_ok_def)
qed

lemma outcome_elsewhere:
  assumes inv: "exec_inv s" and k: "dict_get (ex_plans s) k = Some p" and st: "pl_status p = PLAN_RECONCILIATION_REQUIRED"
  shows "untouched k s (snd (record_failure q code d cost at s))" and "untouched k s (snd (record_success q cost at s))"
proof -
  have eq: "untouched k s s" by (simp add: untouched_def)
  have created: "at_plan_id a \<noteq> k" if "dict_get (ex_attempts s) (strip q) = Some a" "at_state a = ATT_CREATED" for a
    using reconciling_attempts [OF inv k st that(1)] that(2) by auto
  show "untouched k s (snd (record_failure q code d cost at s))"
  proof (cases "record_failure q code d cost at s")
    case (Pair r s')
    from Pair have "untouched k s s'"
    proof (cases rule: record_failure_effect)
      case (2 a p0 p' a' t res)
      have "same_plan p' p0" "same_attempt a' a"
        using 2(4) by (auto simp: failed_pair_def same_plan_def same_attempt_def split: prod.splits)
      then show ?thesis using transition_elsewhere [OF inv 2(1) created [OF 2(1,2)] 2(3)] 2(7) by blast
    qed (use eq in simp)
    then show ?thesis using Pair by simp
  qed
  show "untouched k s (snd (record_success q cost at s))"
  proof (cases "record_success q cost at s")
    case (Pair r s')
    from Pair have "untouched k s s'"
    proof (cases rule: record_success_effect)
      case (2 a p0 p' a' t res)
      have "same_plan p' p0" "same_attempt a' a" by (simp_all add: 2 succeeded_plan_def same_plan_def same_attempt_def)
      then show ?thesis using transition_elsewhere [OF inv 2(1) created [OF 2(1,2)] 2(3)] 2(8) by blast
    qed (use eq in simp)
    then show ?thesis using Pair by simp
  qed
qed

lemma resolve_elsewhere:
  assumes inv: "exec_inv s" and k: "dict_get (ex_plans s) k = Some p" and r: "pl_current_rtt_id p \<noteq> Some q"
  shows "untouched k s (snd (resolve_reconciliation q ok cost code d at s))"
proof (cases "resolve_reconciliation q ok cost code d at s")
  case (Pair x s')
  from Pair have "untouched k s s'"
  proof (cases rule: resolve_effect)
    case (2 a p0 p' a' t res)
    have "at_plan_id a \<noteq> k" using 2(3,5) k r by auto
    then show ?thesis using transition_elsewhere [OF inv 2(1) _ 2(3)] resolved_ok [OF 2(6)] 2(9) by blast
  qed (simp add: untouched_def)
  then show ?thesis using Pair by simp
qed

text \<open>
  C16. An unknown provider outcome blocks the plan until it is reconciled.  Take a state reached by calls in which
  failures are reported under RTT identifiers without surrounding white space (the finding on padded identifiers shows what
  happens otherwise), and a plan there that awaits reconciliation of its current RTT \<open>r\<close>.  Planning, starting an attempt and recording
  a failure or a success leave the plan and its attempts as they are, whatever UTT, RTT identifier and other arguments they
  are called with, and so does a reconciliation under any identifier other than exactly \<open>r\<close>.  Starting an attempt for the
  plan's UTT and recording an ordinary outcome for \<open>r\<close>, padded or not, raise and change nothing at all.  Reconciling
  exactly \<open>r\<close> with a non-negative cost and an aware timestamp, as a success, or as a failure that is not again unknown and whose
  code is absent, empty or not blank, succeeds and unblocks the plan.
\<close>

theorem unknown_outcome_blocks:
  assumes "exec_reach P empty_execution_store s" "dict_get (ex_plans s) k = Some p"
    and "pl_status p = PLAN_RECONCILIATION_REQUIRED"
  shows "\<exists>r. pl_current_rtt_id p = Some r
    \<and> (\<forall>ks contracts w utt cs at. untouched k s (snd (build_plan P ks contracts w utt cs at s)))
    \<and> (\<forall>ks contracts svc utt at. untouched k s (snd (start_next P ks contracts svc utt at s)))
    \<and> (\<forall>q code d cost at. untouched k s (snd (record_failure q code d cost at s)))
    \<and> (\<forall>q cost at. untouched k s (snd (record_success q cost at s)))
    \<and> (\<forall>q ok cost code d at. q \<noteq> r \<longrightarrow> untouched k s (snd (resolve_reconciliation q ok cost code d at s)))
    \<and> (\<forall>ks contracts svc at. \<exists>e. start_next P ks contracts svc (pl_utt_id p) at s = (Inl e, s))
    \<and> (\<forall>q code d cost at. strip q = r \<longrightarrow> (\<exists>e. record_failure q code d cost at s = (Inl e, s)))
    \<and> (\<forall>q cost at. strip q = r \<longrightarrow> (\<exists>e. record_success q cost at s = (Inl e, s)))
    \<and> (\<forall>ok cost code d t. 0 \<le> cost \<and> (ok \<or> d \<noteq> DISP_RECONCILIATION_REQUIRED \<and> (falsy code \<or> text_ok (the code))) \<longrightarrow>
        (\<exists>p' s'. resolve_reconciliation r ok cost code d (Aware t) s = (Inr p', s')
          \<and> dict_get (ex_plans s') k = Some p' \<and> pl_status p' \<noteq> PLAN_RECONCILIATION_REQUIRED \<and> pl_current_rtt_id p' = None
          \<and> (ok \<longrightarrow> pl_status p' = PLAN_FINALIZED)))"
proof -
  note inv = reachable_inv [OF assms(1)]
  note ik = inv assms(2)
  from inv assms(2,3) obtain a where a: "pl_current_rtt_id p = Some (at_rtt_id a)"
    "dict_get (ex_attempts s) (at_rtt_id a) = Some a" "at_state a = ATT_RECONCILIATION_REQUIRED"
    by (rule reconciling_attempt)
  have na: "at_state a \<noteq> ATT_CREATED" "pl_status p \<noteq> PLAN_ACTIVE" using a assms(3) by simp_all
  show ?thesis
  proof (intro exI [of _ "at_rtt_id a"] conjI)
    show "pl_current_rtt_id p = Some (at_rtt_id a)" by (rule a(1))
    show "\<forall>ks contracts w utt cs at. untouched k s (snd (build_plan P ks contracts w utt cs at s))"
      using plan_untouched [OF assms(2)] by (metis prod.collapse)
    show "\<forall>ks contracts svc utt at. untouched k s (snd (start_next P ks contracts svc utt at s))"
      using start_untouched [OF ik na(2)] by (metis prod.collapse)
    show "\<forall>q ok cost code d at. q \<noteq> at_rtt_id a \<longrightarrow> untouched k s (snd (resolve_reconciliation q ok cost code d at s))"
      using resolve_elsewhere [OF ik] a(1) by simp
    show "\<forall>ks contracts svc at. \<exists>e. start_next P ks contracts svc (pl_utt_id p) at s = (Inl e, s)"
      using start_next_not_active [OF ik] na(2) by blast
    show "\<forall>q code d cost at. strip q = at_rtt_id a \<longrightarrow> (\<exists>e. record_failure q code d cost at s = (Inl e, s))"
      using record_failure_not_created a(2) na(1) by metis
    show "\<forall>q cost at. strip q = at_rtt_id a \<longrightarrow> (\<exists>e. record_success q cost at s = (Inl e, s))"
      using record_success_not_created a(2) na(1) by metis
  qed (use outcome_elsewhere [OF ik assms(3)] resolve_ok [OF ik assms(3) a(1)] in blast)+
qed

section \<open>Retries\<close>

lemma routes_by_id_iff:
  assumes "distinct (route_ids p)"
  shows "routes_by_id p rid = Some r \<longleftrightarrow> r \<in> set (pl_ranked_routes p) \<and> rc_route_id (rr_candidate r) = rid"
proof -
  have "distinct (map fst (rev (map (\<lambda>r. (rc_route_id (rr_candidate r), r)) (pl_ranked_routes p))))"
    using assms by (simp add: route_ids_def comp_def flip: rev_map)
  from map_of_eq_Some_iff [OF this] show ?thesis by (auto simp: routes_by_id_def)
qed

lemma select_from_cases:
  assumes "distinct (route_ids p)" "set rids \<subseteq> set (route_ids p)"
  shows "(\<exists>x. select_from p rids = Inr x) \<and>
    (select_from p rids = Inr None \<longleftrightarrow>
      \<not> (\<exists>r\<in>set (pl_ranked_routes p). rc_route_id (rr_candidate r) \<in> set rids
           \<and> rc_estimated_cost_minor (rr_candidate r) \<le> budget_remaining p))"
  using assms(2)
proof (induction rids)
  case (Cons rid rids)
  then obtain r where r: "r \<in> set (pl_ranked_routes p)" "rc_route_id (rr_candidate r) = rid" by (auto simp: route_ids_def)
  then have by_id: "routes_by_id p rid = Some r" using routes_by_id_iff [OF assms(1)] by simp
  have uniq: "x = r" if "x \<in> set (pl_ranked_routes p)" "rc_route_id (rr_candidate x) = rid" for x
    using routes_by_id_iff [OF assms(1), of rid x] by_id that by simp
  show ?case
  proof (cases "rc_estimated_cost_minor (rr_candidate r) \<le> budget_remaining p")
    case True
    then show ?thesis using r by_id by auto
  next
    case False
    let ?fits = "\<lambda>rids x. rc_route_id (rr_candidate x) \<in> set rids \<and> rc_estimated_cost_minor (rr_candidate x) \<le> budget_remaining p"
    have "(\<exists>x\<in>set (pl_ranked_routes p). ?fits (rid # rids) x) \<longleftrightarrow> (\<exists>x\<in>set (pl_ranked_routes p). ?fits rids x)"
      using uniq False by (metis list.set_intros(2) set_ConsD)
    moreover have "select_from p (rid # rids) = select_from p rids" using by_id False by simp
    ultimately show ?thesis using Cons.IH Cons.prems by simp
  qed
qed simp

text \<open>
  A retryable failure reopens the plan exactly when another attempt is possible: the updated plan
  is active if the attempt limit is not used up and route selection finds an affordable untried
  route, and exhausted otherwise; route selection on it never fails with a missing route.
\<close>

theorem retry_offered_exactly:
  assumes "exec_reach P empty_execution_store s" "strip r = r"
    and "record_failure r code DISP_RETRYABLE cost at s = (Inr p, s')"
  shows "(\<exists>x. select_from p (pl_remaining_route_ids p) = Inr x)
    \<and> pl_status p = (if pl_attempts_used p < pl_max_attempts p \<and> select_from p (pl_remaining_route_ids p) \<noteq> Inr None
                     then PLAN_ACTIVE else PLAN_EXHAUSTED)"
  using assms(3)
proof (cases rule: record_failure_effect)
  case (2 a q p' a' t res)
  have inv: "exec_inv s" using reachable_inv [OF assms(1)] .
  have p: "p' = p"
    using 2(8,9) by (cases res) auto
  have h: "history_ok q (attempts_of (ex_attempts s) (at_plan_id a))" by (rule exec_inv_plan(3) [OF inv 2(3)])
  have f: "route_ids p = route_ids q" "pl_remaining_route_ids p = pl_remaining_route_ids q"
    "pl_ranked_routes p = pl_ranked_routes q" "pl_attempts_used p = pl_attempts_used q" "pl_max_attempts p = pl_max_attempts q"
    "budget_remaining p = max 0 (pl_routing_budget_minor q - (pl_routing_cost_spent_minor q + cost))"
    "pl_status p = retry_status q (pl_routing_cost_spent_minor q + cost)"
    using 2(4) by (auto simp: p failed_pair_def failure_outcome_def route_ids_def budget_remaining_def)
  have d: "distinct (route_ids p)" "set (pl_remaining_route_ids p) \<subseteq> set (route_ids p)"
    using h by (auto simp: f history_ok_def)
  show ?thesis using select_from_cases [OF d] unfolding f retry_status_def affordable_route_remains_def
    by (auto simp: not_less)
qed simp

section \<open>Concurrent commits\<close>

text \<open>
  No lost updates: two workers that read the same plan version cannot both commit.  After one
  commit with an advanced version has succeeded, every other commit against the version that was read,
  be it a start or an outcome, is refused and leaves the store unchanged.
\<close>

theorem commit_no_lost_update:
  assumes "commit_start contracts n p a s = (Inr (), s') \<or> commit_transition n p a s = (Inr (), s')"
    and "pl_version p \<noteq> n" "pl_plan_id p' = pl_plan_id p"
  shows "(\<exists>e. commit_start contracts' n p' a' s' = (Inl e, s')) \<and> (\<exists>e. commit_transition n p' a' s' = (Inl e, s'))"
proof -
  have c: "commit_any (pl_plan_id p) n p (Some contracts, a) s = (Inr (), s') \<or>
           commit_any (pl_plan_id p) n p (None, a) s = (Inr (), s')"
    using assms(1) by (auto simp: commit_any_def)
  have "\<exists>e. commit_any (pl_plan_id p) n p' x s' = (Inl e, s')" for x
    using c plans.no_lost_update [OF _ assms(2)] by blast
  from this [of "(Some contracts', a')"] this [of "(None, a')"] show ?thesis
    by (simp add: commit_any_def assms(3))
qed

section \<open>Padded identifiers\<close>

text \<open>
  A failure report whose RTT identifier carries surrounding white space strands the plan: the
  attempt is found by the trimmed identifier, but the plan then records the untrimmed one as its current
  RTT.  If the outcome was unknown, no reconciliation call for that RTT, padded or not, can succeed any
  more, and no new attempt can be started.
\<close>

theorem padded_report_strands_plan:
  assumes "exec_reach P empty_execution_store s" "r \<noteq> strip r" "strip q = strip r"
    and "record_failure r code DISP_RECONCILIATION_REQUIRED cost at s = (Inr p, s')"
  shows "(\<exists>e. resolve_reconciliation q ok cost' code' d at' s' = (Inl e, s'))
    \<and> (\<exists>e. start_next P ks contracts svc (pl_utt_id p) at' s' = (Inl e, s'))"
  using assms(4)
proof (cases rule: record_failure_effect)
  case (2 a q0 p' a' t res)
  have inv: "exec_inv s" using reachable_inv [OF assms(1)] .
  obtain u where "res = Inr u" and p: "p' = p" using 2(8,9) by (cases res) auto
  then have s': "s' = put_attempt_plan a' p s" using 2(7) by (auto elim: commit_transition_Inr)
  note ia = exec_inv_attempt [OF inv 2(1)] and ip = exec_inv_plan [OF inv 2(3)]
  have f: "pl_plan_id p = at_plan_id a" "pl_utt_id p = pl_utt_id q0" "pl_current_rtt_id p = Some r" "at_plan_id a' = at_plan_id a"
    "at_rtt_id a' = strip r"
    using 2(4) ip(1) ia(1) by (auto simp: p failed_pair_def failure_outcome_def)
  have att: "dict_get (ex_attempts s') (strip q) = Some a'" and pl: "dict_get (ex_plans s') (at_plan_id a') = Some p"
    by (simp_all add: s' put_attempt_plan_def f assms(3))
  have "\<exists>e. resolve_reconciliation q ok cost' code' d at' s' = (Inl e, s')"
  proof (cases "resolve_reconciliation q ok cost' code' d at' s'")
    case (Pair r1 s1)
    from Pair show ?thesis
    proof (cases rule: resolve_effect)
      case (2 b p1 p2 b2 t2 res2)
      have b: "b = a'" "p1 = p" using 2(1,3) att pl by auto
      note ro = resolved_ok [OF 2(6)]
      have "commit_transition (pl_version p1) p2 b2 s' \<noteq> (Inr v, s2)" for v s2
        using ro pl f assms(2) by (auto simp: b same_plan_def same_attempt_def elim!: commit_transition_Inr)
      then obtain e where "res2 = Inl e" using 2(9) by (cases res2) auto
      then show ?thesis using 2(9,11) Pair commit_transition_Inl by auto
    qed (use Pair in auto)
  qed
  moreover have "\<exists>e. start_next P ks contracts svc (pl_utt_id p) at' s' = (Inl e, s')"
  proof (cases "start_next P ks contracts svc (pl_utt_id p) at' s'")
    case (Pair r1 s1)
    show ?thesis
    proof (cases r1)
      case (Inr b)
      then obtain t2 su p1 p2 where rp: "require_plan_for_utt (pl_utt_id p) s' = Inr p1"
        and na: "new_attempt P ks svc (pl_utt_id p) su p1 t2 = Inr (p2, b)"
        using Pair start_next_Inr by metis
      have "ex_plan_by_utt s' = ex_plan_by_utt s" by (simp add: s' put_attempt_plan_def)
      then have "p1 = p" using rp ip(2) f pl by (auto simp: require_plan_for_utt_def)
      then show ?thesis using na f(3) by (auto elim: new_attemptD)
    qed (use Pair start_next_Inl in auto)
  qed
  ultimately show ?thesis by blast
qed simp

section \<open>Outcomes can always be recorded\<close>

lemma unfailed_last:
  assumes inv: "exec_inv s" and a: "dict_get (ex_attempts s) r = Some a" "at_state a \<noteq> ATT_FAILED"
  obtains p where "dict_get (ex_plans s) (at_plan_id a) = Some p" "last_ok p a"
proof -
  obtain p where p: "dict_get (ex_plans s) (at_plan_id a) = Some p" using exec_inv_attempt(4) [OF inv a(1)] by blast
  let ?as = "attempts_of (ex_attempts s) (at_plan_id a)"
  have h: "history_ok p ?as" by (rule exec_inv_plan(3) [OF inv p])
  have m: "a \<in> set ?as" using attempts_of_mem [OF inv, of a "at_plan_id a"] a exec_inv_attempt(1) [OF inv a(1)] by blast
  then have ne: "?as \<noteq> []" by auto
  have "a \<notin> set (butlast ?as)" using h a(2) by (auto simp: history_ok_def)
  moreover have "set ?as = insert (last ?as) (set (butlast ?as))"
    using ne by (metis append_butlast_last_id list.simps(15) rotate1.simps(2) set_rotate1)
  ultimately have "a = last ?as" using m by blast
  then show thesis using that [OF p] h ne by (simp add: history_ok_def)
qed

lemma created_current:
  assumes inv: "exec_inv s" and a: "dict_get (ex_attempts s) r = Some a" "at_state a = ATT_CREATED"
  obtains p where "dict_get (ex_plans s) (at_plan_id a) = Some p" "pl_current_rtt_id p = Some r" "pl_status p = PLAN_ACTIVE"
proof -
  have "at_state a \<noteq> ATT_FAILED" using a(2) by simp
  then obtain p where "dict_get (ex_plans s) (at_plan_id a) = Some p" "last_ok p a" by (rule unfailed_last [OF inv a(1)])
  then show thesis using that a exec_inv_attempt(1) [OF inv a(1)] by (simp add: last_ok_def)
qed

lemma reconciling_current:
  assumes inv: "exec_inv s" and a: "dict_get (ex_attempts s) r = Some a" "at_state a = ATT_RECONCILIATION_REQUIRED"
  obtains p where "dict_get (ex_plans s) (at_plan_id a) = Some p" "pl_current_rtt_id p = Some r"
    "pl_status p = PLAN_RECONCILIATION_REQUIRED"
proof -
  have "at_state a \<noteq> ATT_FAILED" using a(2) by simp
  then obtain p where "dict_get (ex_plans s) (at_plan_id a) = Some p" "last_ok p a" by (rule unfailed_last [OF inv a(1)])
  then show thesis using that a exec_inv_attempt(1) [OF inv a(1)] by (simp add: last_ok_def)
qed

lemma record_success_ok:
  assumes inv: "exec_inv s" and a: "dict_get (ex_attempts s) r = Some a" "at_state a = ATT_CREATED" and c: "0 \<le> cost"
  shows "\<exists>p s'. record_success r cost (Aware t) s = (Inr p, s') \<and> pl_status p = PLAN_FINALIZED
    \<and> dict_get (ex_plans s') (at_plan_id a) = Some p"
proof -
  from inv a obtain p where p: "dict_get (ex_plans s) (at_plan_id a) = Some p" "pl_current_rtt_id p = Some r"
    by (rule created_current)
  note ia = exec_inv_attempt [OF inv a(1)] and ip = exec_inv_plan(1) [OF inv p(1)]
  let ?p = "succeeded_plan p a r cost t"
    and ?a = "a\<lparr>at_state := ATT_SUCCEEDED, at_actual_cost_minor := Some cost, at_updated_at := t\<rparr>"
  have f: "pl_plan_id ?p = at_plan_id a" "pl_status ?p = PLAN_FINALIZED" using ip by (simp_all add: succeeded_plan_def)
  have "commit_transition (pl_version p) ?p ?a s = (Inr (), put_attempt_plan ?a ?p s)"
    by (rule commit_transition_ok [of _ _ p]) (use p a ia f in auto)
  then have "record_success r cost (Aware t) s = (Inr ?p, put_attempt_plan ?a ?p s)"
    using a p ia c
    by (simp add: record_success_def sbind_def slift_def sget_def sret_def require_minor_units_def require_text_def
          require_attempt_def require_plan_def Let_def)
  then show ?thesis using f by (simp add: put_attempt_plan_def)
qed

lemma record_failure_ok:
  assumes inv: "exec_inv s" and a: "dict_get (ex_attempts s) (strip r) = Some a" "at_state a = ATT_CREATED"
    and c: "0 \<le> cost" "text_ok code"
  shows "\<exists>p s'. record_failure r code d cost (Aware t) s = (Inr p, s')
    \<and> dict_get (ex_plans s') (at_plan_id a) = Some p \<and> pl_current_rtt_id p = (if d = DISP_RECONCILIATION_REQUIRED then Some r else None)
    \<and> (d = DISP_RECONCILIATION_REQUIRED \<longrightarrow> pl_status p = PLAN_RECONCILIATION_REQUIRED)"
proof -
  from inv a obtain p where p: "dict_get (ex_plans s) (at_plan_id a) = Some p" "pl_current_rtt_id p = Some (strip r)"
    by (rule created_current)
  note ia = exec_inv_attempt [OF inv a(1)] and ip = exec_inv_plan(1) [OF inv p(1)]
  obtain p' a' where pr: "failed_pair p a r (strip code) d cost t = (p', a')" by (cases "failed_pair p a r (strip code) d cost t")
  have f: "pl_plan_id p' = at_plan_id a" "at_rtt_id a' = strip r"
      "pl_current_rtt_id p' = (if d = DISP_RECONCILIATION_REQUIRED then Some r else None)"
      "d = DISP_RECONCILIATION_REQUIRED \<longrightarrow> pl_status p' = PLAN_RECONCILIATION_REQUIRED"
    using pr ip ia(1) by (auto simp: failed_pair_def failure_outcome_def split: failure_disposition.splits)
  have "commit_transition (pl_version p) p' a' s = (Inr (), put_attempt_plan a' p' s)"
    by (rule commit_transition_ok [of _ _ p]) (use p a f in auto)
  then have "record_failure r code d cost (Aware t) s = (Inr p', put_attempt_plan a' p' s)"
    using a p ia c pr require_text_ok [OF c(2)]
    by (simp add: record_failure_def sbind_def slift_def sget_def sret_def require_minor_units_def require_text_def [of "''rtt_id''"]
          require_attempt_def require_plan_def failed_pair_def Let_def split: prod.splits)
  then show ?thesis using f by (simp add: put_attempt_plan_def)
qed

text \<open>
  An attempt in flight can always be concluded: in every reachable state a created attempt is the
  current one of an active plan, and reporting its success or any kind of failure with a valid cost and
  code is accepted, finalizing the plan on success.
\<close>

theorem outcome_always_recordable:
  assumes "exec_reach P empty_execution_store s" "dict_get (ex_attempts s) r = Some a" "at_state a = ATT_CREATED"
    and "0 \<le> cost" "text_ok code"
  shows "(\<exists>p s'. record_success r cost (Aware t) s = (Inr p, s') \<and> pl_status p = PLAN_FINALIZED)
    \<and> (\<exists>p s'. record_failure r code d cost (Aware t) s = (Inr p, s'))"
proof -
  note inv = reachable_inv [OF assms(1)]
  have "dict_get (ex_attempts s) (strip r) = Some a" using exec_inv_attempt(2) [OF inv assms(2)] assms(2) by simp
  then show ?thesis
    using record_success_ok [OF inv assms(2-4)] record_failure_ok [OF inv _ assms(3-5), of r] by blast
qed

end
