(* ===== verification/Acceptance.thy ===== *)
theory Acceptance
  imports Contract_Store
begin

text \<open>
  Quote acceptance (\<^verbatim>\<open>railone_contracts/acceptance_service.py\<close>): idempotency resolution, the
  checks on the signed quote, construction of the immutable UTT and its sender authority, and the
  commit.  The contract store is the service's collaborator, so the handler takes its two
  operations as arguments and is used with the reference store below.
\<close>

record acceptance_command =
  qa_signed_quote :: envelope
  qa_origin :: origin_context
  qa_authorization_method :: string
  qa_authorization_reference :: string
  qa_idempotency_key :: string
  qa_authority_ttl_seconds :: int

record acceptance_result =
  ar_contract :: accepted_contract
  ar_replayed :: bool

record acceptance_service =
  as_utt_signing_key_id :: string
  as_authority_signing_key_id :: string

definition request_digest :: "acceptance_command \<Rightarrow> (string \<times> pyval \<times> string) res" where
  \<comment> \<open>idempotency key, origin payload and hash of the request material\<close>
  "request_digest cmd =
     rbind (require_text ''idempotency_key'' (qa_idempotency_key cmd)) (\<lambda>key.
     rbind (origin_to_payload (qa_origin cmd)) (\<lambda>origin.
     rbind (require_text ''authorization_method'' (qa_authorization_method cmd)) (\<lambda>meth.
     rbind (require_text ''authorization_reference'' (qa_authorization_reference cmd)) (\<lambda>ref.
     rbind (payload_digest (obj
       [(''signed_quote'', envelope_to_dict (qa_signed_quote cmd)), (''origin'', origin),
        (''authorization_method'', PyStr meth), (''authorization_reference'', PyStr ref),
        (''authority_ttl_seconds'', PyInt (qa_authority_ttl_seconds cmd))])) (\<lambda>sha.
     Inr (key, origin, sha))))))"

definition same_party :: "pyval \<Rightarrow> pyval \<Rightarrow> string \<Rightarrow> string \<Rightarrow> unit res" where
  \<comment> \<open>\<^verbatim>\<open>if quote["payer"]["actor_id"] != origin_payload[key]: raise PermissionError(msg)\<close>\<close>
  "same_party qp origin key msg =
     rbind (py_item qp ''payer'') (\<lambda>payer.
     rbind (py_item payer ''actor_id'') (\<lambda>actor.
     rbind (py_item origin key) (\<lambda>expected.
     guard_res (actor \<noteq> expected) PermissionError msg)))"

definition check_quote ::
  "platform \<Rightarrow> key_provider \<Rightarrow> acceptance_command \<Rightarrow> pyval \<Rightarrow> int \<Rightarrow> unit res" where
  "check_quote P ks cmd origin accepted_epoch =
     rbind (verify_artifact P ks (qa_signed_quote cmd) (Some QUOTE) False) (\<lambda>result.
     rbind (guard_res (\<not> vr_valid result) PermissionError (''quote rejected: '' @ vr_reason result)) (\<lambda>_.
     let qp = env_payload (qa_signed_quote cmd) in
     rbind (rbind (py_item qp ''issued_at'') int_operand) (\<lambda>issued.
     rbind (guard_res (accepted_epoch < issued) PermissionError ''quote rejected: QUOTE_NOT_YET_VALID'') (\<lambda>_.
     rbind (rbind (py_item qp ''expires_at'') int_operand) (\<lambda>expires.
     rbind (guard_res (accepted_epoch \<ge> expires) PermissionError ''quote rejected: QUOTE_EXPIRED'') (\<lambda>_.
     rbind (py_item qp ''purpose'') (\<lambda>qpurpose.
     rbind (py_item origin ''purpose'') (\<lambda>opurpose.
     rbind (guard_res (qpurpose \<noteq> opurpose) PermissionError
              ''quote purpose does not match origin purpose'') (\<lambda>_.
     rbind (if oc_context_type (qa_origin cmd) = MERCHANT
            then same_party qp origin ''merchant_id'' ''quote payer does not match merchant context''
            else Inr ()) (\<lambda>_.
     rbind (if oc_context_type (qa_origin cmd) = P2P
            then same_party qp origin ''continuity_uid'' ''quote payer does not match P2P continuity''
            else Inr ()) (\<lambda>_.
     guard_res (\<not> (1 \<le> qa_authority_ttl_seconds cmd \<and> qa_authority_ttl_seconds cmd \<le> max_authority_seconds))
       ValueError ''authority TTL is outside the permitted range'')))))))))))"

definition field_of :: "pyval \<Rightarrow> string \<Rightarrow> (string \<times> pyval) res" where
  "field_of v k = rbind (py_item v k) (\<lambda>x. Inr (k, x))"

definition carried_fields :: "string list" where
  \<comment> \<open>the commercial fields a UTT copies from its quote, between the quote hash and the pricing model\<close>
  "carried_fields = [''payer'', ''beneficiary'', ''purpose'', ''amount_minor'', ''currency_from'',
     ''receive_amount_minor'', ''currency_to'', ''total_fee_minor'', ''routing_budget_minor'', ''fx_rate'',
     ''corridor_id'', ''service_level'', ''routing_policy_id'', ''pricing_version'']"

definition commercial_core ::
  "pyval \<Rightarrow> pyval \<Rightarrow> int \<Rightarrow> string \<Rightarrow> (string \<times> pyval) list res" where
  "commercial_core qp origin accepted_epoch request_sha256 =
     rbind (payload_digest qp) (\<lambda>quote_sha.
     rbind (field_of qp ''quote_id'') (\<lambda>qid.
     rbind (rmap (field_of qp) carried_fields) (\<lambda>fields.
     rbind (field_of qp ''max_attempts'') (\<lambda>attempts.
     rbind (field_of qp ''endpoint_model_version'') (\<lambda>emv.
     Inr ([qid, (''quote_payload_sha256'', PyStr quote_sha)] @ fields @
          [(''pricing_model'', PyStr ''PER_INTENT''), attempts, (''origin'', origin),
           (''accepted_at'', PyInt accepted_epoch), (''acceptance_request_sha256'', PyStr request_sha256),
           (''custody_model'', PyStr ''NON_CUSTODIAL''), emv]))))))"

definition build_contract ::
  "platform \<Rightarrow> key_provider \<Rightarrow> acceptance_service \<Rightarrow> acceptance_command \<Rightarrow> pyval \<Rightarrow> string \<Rightarrow> instant \<Rightarrow>
    accepted_contract res" where
  "build_contract P ks svc cmd origin request_sha256 accepted_at =
     (let qp = env_payload (qa_signed_quote cmd) in
      rbind (commercial_core qp origin (epoch accepted_at) request_sha256) (\<lambda>core.
      rbind (content_id ''UTT'' (obj core)) (\<lambda>utt_id.
      rbind (py_item qp ''quote_id'') (\<lambda>quote_id.
      rbind (py_item qp ''payer'') (\<lambda>payer.
      rbind (py_item payer ''actor_type'') (\<lambda>atype.
      rbind (py_item payer ''actor_id'') (\<lambda>aid.
      rbind (py_item qp ''amount_minor'') (\<lambda>amount.
      rbind (py_item qp ''currency_from'') (\<lambda>currency.
      rbind (issue_sender_authority P ks
               \<lparr>sr_utt_id = PyStr utt_id, sr_quote_id = quote_id, sr_sender_actor_type = atype,
                sr_sender_reference = aid, sr_amount_minor = amount, sr_currency = currency,
                sr_origin_context = origin,
                sr_authorization_method = PyStr (qa_authorization_method cmd),
                sr_authorization_reference = PyStr (qa_authorization_reference cmd)\<rparr>
               (as_authority_signing_key_id svc) (Aware accepted_at)
               (Aware (accepted_at + from_epoch (qa_authority_ttl_seconds cmd)))) (\<lambda>sender.
      rbind (py_item (env_payload sender) ''etk_s_id'') (\<lambda>etk.
      rbind (sign_artifact P ks UTT
               (obj ([(''utt_id'', PyStr utt_id)] @ core @
                     [(''etk_s_id'', etk), (''commercial_state'', PyStr ''ACCEPTED'')]))
               (as_utt_signing_key_id svc) (Aware accepted_at)) (\<lambda>signed_utt.
      case quote_id of
        PyStr qid \<Rightarrow> Inr \<lparr>ct_signed_utt = signed_utt, ct_sender_authority = sender, ct_quote_id = qid,
                         ct_utt_id = utt_id, ct_request_sha256 = request_sha256, ct_accepted_at = accepted_at\<rparr>
      | _ \<Rightarrow> Inl (Raise TypeError ''quote_id'')))))))))))))"

definition accept_with ::
  "(string \<Rightarrow> string \<Rightarrow> 's \<Rightarrow> accepted_contract option res) \<Rightarrow>
   (string \<Rightarrow> accepted_contract \<Rightarrow> ('s, accepted_contract \<times> bool) st) \<Rightarrow>
   platform \<Rightarrow> key_provider \<Rightarrow> acceptance_service \<Rightarrow> acceptance_command \<Rightarrow> datetime option \<Rightarrow> instant \<Rightarrow>
   ('s, acceptance_result) st" where
  \<comment> \<open>the last argument is \<^verbatim>\<open>datetime.now\<close>, read only when no timestamp is passed\<close>
  "accept_with resolve commit P ks svc cmd at now =
     sbind (slift (request_digest cmd)) (\<lambda>(key, origin, sha).
     sbind (sget (resolve key sha)) (\<lambda>existing.
     case existing of
       Some c \<Rightarrow> sret \<lparr>ar_contract = c, ar_replayed = True\<rparr>
     | None \<Rightarrow>
        sbind (slift (guard_res (case at of Some d \<Rightarrow> is_naive d | None \<Rightarrow> False) ValueError
                        ''acceptance timestamp must be timezone-aware'')) (\<lambda>_.
        let accepted_at = (case at of Some d \<Rightarrow> astimezone_utc P d | None \<Rightarrow> now) in
        sbind (slift (check_quote P ks cmd origin (epoch accepted_at))) (\<lambda>_.
        sbind (slift (build_contract P ks svc cmd origin sha accepted_at)) (\<lambda>c.
        sbind (commit key c) (\<lambda>(stored, raced).
        sret \<lparr>ar_contract = stored, ar_replayed = raced\<rparr>))))))"

definition accept ::
  "platform \<Rightarrow> key_provider \<Rightarrow> acceptance_service \<Rightarrow> acceptance_command \<Rightarrow> datetime option \<Rightarrow> instant \<Rightarrow>
   (contract_store, acceptance_result) st" where
  "accept = accept_with resolve_idempotency commit_acceptance"

section \<open>Replay and conflict, for every store that keeps the contract\<close>

lemma accept_with_cases:
  assumes "accept_with resolve commit P ks svc cmd at now s = (Inr r, s')"
  obtains key origin sha where "request_digest cmd = Inr (key, origin, sha)"
      "resolve key sha s = Inr (Some (ar_contract r))" "ar_replayed r" "s' = s"
    | key origin sha c t where "request_digest cmd = Inr (key, origin, sha)" "resolve key sha s = Inr None"
      "t = (case at of Some d \<Rightarrow> astimezone_utc P d | None \<Rightarrow> now)"
      "check_quote P ks cmd origin (epoch t) = Inr ()"
      "build_contract P ks svc cmd origin sha t = Inr c"
      "commit key c s = (Inr (ar_contract r, ar_replayed r), s')"
proof -
  obtain key origin sha where d: "request_digest cmd = Inr (key, origin, sha)"
    using assms by (auto simp: accept_with_def sbind_eq_Inr slift_eq split: prod.splits)
  obtain ex where ex: "resolve key sha s = Inr ex"
    using assms by (cases "resolve key sha s") (simp_all add: accept_with_def d sbind_def slift_def sget_def)
  show thesis
  proof (cases ex)
    case (Some c)
    then have "r = \<lparr>ar_contract = c, ar_replayed = True\<rparr>" "s' = s"
      using assms ex by (simp_all add: accept_with_def d sbind_def slift_def sget_def sret_def)
    then show ?thesis using that(1) [OF d] ex Some by simp
  next
    case None
    from assms show ?thesis
      by (auto simp: accept_with_def d ex None sbind_eq_Inr slift_eq sget_eq sret_eq Let_def
            intro: that(2) [OF d ex [unfolded None] refl])
  qed
qed

lemma build_contract_sha: "build_contract P ks svc cmd origin sha t = Inr c \<Longrightarrow> ct_request_sha256 c = sha"
  unfolding build_contract_def Let_def
  by (elim rbind_InrE) (auto split: pyval.splits)

context contract_store_api
begin

lemma resolve_Some: "resolve k h s = Inr (Some c) \<Longrightarrow> lookup s k = Some c \<and> ct_request_sha256 c = h"
  using resolve_none resolve_replay resolve_conflict
  by (cases "lookup s k") (metis Inr_inject option.distinct(1), metis Inl_Inr_False Inr_inject option.inject)

lemma accept_stores:
  assumes "accept_with resolve commit P ks svc cmd at now s = (Inr r, s')"
    and "request_digest cmd = Inr (key, origin, sha)"
  shows "lookup s' key = Some (ar_contract r) \<and> ct_request_sha256 (ar_contract r) = sha"
  using assms(1)
proof (cases rule: accept_with_cases)
  case (1 key' origin' sha')
  then show ?thesis using assms(2) resolve_Some by auto
next
  case (2 key' origin' sha' c t)
  then have k: "key' = key" "sha' = sha" using assms(2) by auto
  have st: "lookup s' key = Some (ar_contract r)" using put_stores [OF 2(6)] k by simp
  show ?thesis
  proof (cases "lookup s key")
    case None
    then have "ar_contract r = c" using put_fresh 2(6) k by metis
    then show ?thesis using st build_contract_sha [OF 2(5)] k by simp
  next
    case (Some old)
    have "ct_request_sha256 old = ct_request_sha256 c"
      using put_conflict [OF Some, of c] 2(6) k by auto
    then have "ar_contract r = old" using put_replay [OF Some, of c] 2(6) k by auto
    then show ?thesis using st build_contract_sha [OF 2(5)] k \<open>ct_request_sha256 old = ct_request_sha256 c\<close> by simp
  qed
qed

lemma accept_idempotent:
  assumes "accept_with resolve commit P ks svc cmd at now s = (Inr r, s')" "put_run commit s' t"
  shows "accept_with resolve commit P ks' svc' cmd at' now' t
    = (Inr \<lparr>ar_contract = ar_contract r, ar_replayed = True\<rparr>, t)"
proof -
  obtain key origin sha where d: "request_digest cmd = Inr (key, origin, sha)"
    using assms(1) by (cases rule: accept_with_cases)
  have "lookup t key = Some (ar_contract r)" "ct_request_sha256 (ar_contract r) = sha"
    using accept_stores [OF assms(1) d] run_keeps [OF assms(2)] by blast+
  then have "resolve key sha t = Inr (Some (ar_contract r))" by (rule resolve_replay)
  then show ?thesis by (simp add: accept_with_def d sbind_def slift_def sget_def sret_def)
qed

lemma accept_conflicts:
  assumes "accept_with resolve commit P ks svc cmd at now s = (Inr r, s')" "put_run commit s' t"
    and "request_digest cmd = Inr (key, origin, sha)" "request_digest cmd' = Inr (key, origin', sha')" "sha' \<noteq> sha"
  shows "\<exists>m. accept_with resolve commit P ks' svc' cmd' at' now' t = (Inl (Raise IdempotencyConflictError m), t)"
proof -
  have "lookup t key = Some (ar_contract r)" "ct_request_sha256 (ar_contract r) \<noteq> sha'"
    using accept_stores [OF assms(1,3)] run_keeps [OF assms(2)] assms(5) by blast+
  then obtain m where "resolve key sha' t = Inl (Raise IdempotencyConflictError m)"
    using resolve_conflict by blast
  then show ?thesis by (simp add: accept_with_def assms(4) sbind_def slift_def sget_def)
qed

end

section \<open>Runs of acceptances on the reference store\<close>

inductive accept_run :: "platform \<Rightarrow> contract_store \<Rightarrow> contract_store \<Rightarrow> bool" for P where
  accept_done: "accept_run P s s"
| accept_step: "accept P ks svc cmd at now s = (r, t) \<Longrightarrow> accept_run P t u \<Longrightarrow> accept_run P s u"

lemma accept_effect:
  assumes "accept P ks svc cmd at now s = (r, t)"
  shows "t = s \<or> (\<exists>k c r'. commit_acceptance k c s = (r', t))"
proof (cases "\<exists>k c r'. commit_acceptance k c s = (r', t)")
  case False
  then show ?thesis using assms
    unfolding accept_def accept_with_def
    by (auto simp: sbind_def slift_def sget_def sret_def Let_def split: sum.splits option.splits prod.splits)
qed simp

lemma accept_run_put_run: "accept_run P s t \<Longrightarrow> put_run commit_acceptance s t"
  by (induction rule: accept_run.induct) (auto dest: accept_effect intro: put_run.intros)

lemma accept_run_inv: "accept_run P s t \<Longrightarrow> contracts_inv s \<Longrightarrow> contracts_inv t"
  by (induction rule: accept_run.induct) (auto dest!: accept_effect intro: contracts_inv_commit)

lemma commit_keeps_quote:
  "commit_acceptance k c s = (r, t) \<Longrightarrow> dict_get (cs_quote_to_utt s) q = Some u \<Longrightarrow> dict_get (cs_quote_to_utt t) q = Some u"
  by (auto simp: commit_acceptance_def split: option.splits if_splits)

lemma commit_keeps_utt:
  "commit_acceptance k c s = (r, t) \<Longrightarrow> dict_get (cs_utts s) u = Some e \<Longrightarrow> dict_get (cs_utts t) u = Some e"
  by (auto simp: commit_acceptance_def split: option.splits if_splits)

lemma put_run_keeps_quote:
  "put_run commit_acceptance s t \<Longrightarrow> dict_get (cs_quote_to_utt s) q = Some u \<Longrightarrow> dict_get (cs_quote_to_utt t) q = Some u"
  by (induction rule: put_run.induct) (blast dest: commit_keeps_quote)+

lemma put_run_keeps_utt:
  "put_run commit_acceptance s t \<Longrightarrow> dict_get (cs_utts s) u = Some e \<Longrightarrow> dict_get (cs_utts t) u = Some e"
  by (induction rule: put_run.induct) (blast dest: commit_keeps_utt)+

lemma accepted_is_recorded:
  assumes "contracts_inv s" "accept P ks svc cmd at now s = (Inr r, s')"
  shows "dict_get (cs_quote_to_utt s') (ct_quote_id (ar_contract r)) = Some (ct_utt_id (ar_contract r))
    \<and> dict_get (cs_utts s') (ct_utt_id (ar_contract r)) = Some (ct_signed_utt (ar_contract r))
    \<and> contracts_inv s'"
proof -
  from assms(2) have a: "accept_with resolve_idempotency commit_acceptance P ks svc cmd at now s = (Inr r, s')"
    by (simp add: accept_def)
  obtain key origin sha where d: "request_digest cmd = Inr (key, origin, sha)"
    using a by (cases rule: accept_with_cases)
  have inv: "contracts_inv s'" using accept_effect [OF assms(2)] contracts_inv_commit assms(1) by blast
  show ?thesis using mem.accept_stores [OF a d] inv unfolding contracts_inv_def by blast
qed

text \<open>
  C1. Exactly-once acceptance.  After a quote has been accepted, whatever sequence of acceptance
  calls follows, on any commands, keys and clocks: the same command replays the same contract and
  changes nothing; the same idempotency key with different request material is refused with a
  conflict; and any later success for that quote is a replay of the very same UTT and signed
  envelope, so one quote never yields two UTTs.
\<close>

theorem accept_exactly_once:
  assumes "accept_run P empty_contract_store s" "accept P ks svc cmd at now s = (Inr r, s')" "accept_run P s' t"
  shows "accept P ks' svc' cmd at' now' t = (Inr \<lparr>ar_contract = ar_contract r, ar_replayed = True\<rparr>, t)
    \<and> (request_digest cmd = Inr (key, origin, sha) \<and> request_digest cmd' = Inr (key, origin', sha') \<and> sha' \<noteq> sha \<longrightarrow>
      (\<exists>m. accept P ks' svc' cmd' at' now' t = (Inl (Raise IdempotencyConflictError m), t)))
    \<and> (accept P ks' svc' cmd' at' now' t = (Inr r', t') \<and>
      ct_quote_id (ar_contract r') = ct_quote_id (ar_contract r) \<longrightarrow>
      ct_utt_id (ar_contract r') = ct_utt_id (ar_contract r)
      \<and> ct_signed_utt (ar_contract r') = ct_signed_utt (ar_contract r) \<and> ar_replayed r' \<and> t' = t)"
proof (intro conjI impI; (elim conjE)?)
  have run: "put_run commit_acceptance s' t" using assms(3) by (rule accept_run_put_run)
  have a: "accept_with resolve_idempotency commit_acceptance P ks svc cmd at now s = (Inr r, s')"
    using assms(2) by (simp add: accept_def)
  have inv: "contracts_inv s" using accept_run_inv [OF assms(1) contracts_inv_empty] .
  show "accept P ks' svc' cmd at' now' t = (Inr \<lparr>ar_contract = ar_contract r, ar_replayed = True\<rparr>, t)"
    unfolding accept_def by (rule mem.accept_idempotent [OF a run])
  show "\<exists>m. accept P ks' svc' cmd' at' now' t = (Inl (Raise IdempotencyConflictError m), t)"
    if "request_digest cmd = Inr (key, origin, sha)" "request_digest cmd' = Inr (key, origin', sha')" "sha' \<noteq> sha"
    unfolding accept_def by (rule mem.accept_conflicts [OF a run that])
  assume b: "accept P ks' svc' cmd' at' now' t = (Inr r', t')"
    and q: "ct_quote_id (ar_contract r') = ct_quote_id (ar_contract r)"
  note rec = accepted_is_recorded [OF inv assms(2)]
  have invt: "contracts_inv t" using accept_run_inv [OF assms(3)] rec by blast
  have tq: "dict_get (cs_quote_to_utt t) (ct_quote_id (ar_contract r)) = Some (ct_utt_id (ar_contract r))"
    "dict_get (cs_utts t) (ct_utt_id (ar_contract r)) = Some (ct_signed_utt (ar_contract r))"
    using put_run_keeps_quote [OF run] put_run_keeps_utt [OF run] rec by blast+
  have rp: "ar_replayed r' \<and> t' = t" using b unfolding accept_def
  proof (cases rule: accept_with_cases)
    case (2 key origin sha c tt)
    then show ?thesis using commit_acceptance_fresh [OF 2(6)] commit_acceptance_replay [of key c t] tq(1) q
      by (cases "ar_replayed r'") auto
  qed auto
  with accepted_is_recorded [OF invt b] tq q show
    "ct_utt_id (ar_contract r') = ct_utt_id (ar_contract r)"
    "ct_signed_utt (ar_contract r') = ct_signed_utt (ar_contract r)" "ar_replayed r'" "t' = t" by auto
qed

section \<open>The UTT carries the quote's terms\<close>

lemma rmap_field_of:
  "rmap (field_of v) ks = Inr fs \<Longrightarrow>
     map_of fs k = (if k \<in> set ks then pget v k else None) \<and> (\<forall>k\<in>set ks. pget v k \<noteq> None)"
  by (induction ks arbitrary: fs) (auto simp: rbind_eq_Inr field_of_def py_item_Inr)

lemma field_of_Inr [res_simps]: "field_of v k = Inr f \<longleftrightarrow> (\<exists>x. pget v k = Some x \<and> f = (k, x))"
  by (auto simp: field_of_def rbind_eq_Inr py_item_Inr)

definition copied_fields :: "string list" where
  "copied_fields = ''quote_id'' # carried_fields @ [''max_attempts'', ''endpoint_model_version'']"

lemma commercial_core_fields:
  assumes "commercial_core qp origin e sha = Inr core"
  shows "(\<forall>k\<in>set copied_fields. map_of core k = pget qp k \<and> pget qp k \<noteq> None)
    \<and> map_of core ''accepted_at'' = Some (PyInt e) \<and> map_of core ''acceptance_request_sha256'' = Some (PyStr sha)
    \<and> map_of core ''origin'' = Some origin \<and> map_of core ''utt_id'' = None \<and> map_of core ''etk_s_id'' = None"
proof -
  from assms obtain h qid fields att emv where
    q: "pget qp ''quote_id'' = Some qid" and f: "rmap (field_of qp) carried_fields = Inr fields"
    and a: "pget qp ''max_attempts'' = Some att" "pget qp ''endpoint_model_version'' = Some emv"
    and core: "core = [(''quote_id'', qid), (''quote_payload_sha256'', PyStr h)] @ fields @
          [(''pricing_model'', PyStr ''PER_INTENT''), (''max_attempts'', att), (''origin'', origin),
           (''accepted_at'', PyInt e), (''acceptance_request_sha256'', PyStr sha),
           (''custody_model'', PyStr ''NON_CUSTODIAL''), (''endpoint_model_version'', emv)]"
    unfolding commercial_core_def by (elim rbind_InrE) (auto simp: field_of_Inr)
  have m: "map_of fields k = (if k \<in> set carried_fields then pget qp k else None)" for k
    using rmap_field_of [OF f] by blast
  have p: "k \<in> set carried_fields \<Longrightarrow> pget qp k \<noteq> None" for k
    using rmap_field_of [OF f] by blast
  have n: "\<forall>k \<in> set [''max_attempts'', ''endpoint_model_version'', ''accepted_at'', ''acceptance_request_sha256'',
      ''origin'', ''utt_id'', ''etk_s_id'']. k \<notin> set carried_fields"
    by (simp add: carried_fields_def)
  have n0: "\<forall>k \<in> set carried_fields. k \<noteq> ''quote_id'' \<and> k \<noteq> ''quote_payload_sha256''"
    by (simp add: carried_fields_def)
  have c: "map_of core k = pget qp k \<and> pget qp k \<noteq> None" if k: "k \<in> set carried_fields" for k
  proof -
    obtain v where v: "pget qp k = Some v" using p [OF k] by blast
    have "map_of fields k = Some v" using m k v by simp
    moreover have "k \<noteq> ''quote_id''" "k \<noteq> ''quote_payload_sha256''" using n0 k by blast+
    ultimately have "map_of core k = Some v" unfolding core by simp
    then show ?thesis using v by simp
  qed
  have q': "map_of core ''quote_id'' = pget qp ''quote_id''" by (simp add: core q)
  have a': "map_of core ''max_attempts'' = pget qp ''max_attempts''"
    "map_of core ''endpoint_model_version'' = pget qp ''endpoint_model_version''"
    "map_of core ''accepted_at'' = Some (PyInt e)" "map_of core ''acceptance_request_sha256'' = Some (PyStr sha)"
    "map_of core ''origin'' = Some origin" "map_of core ''utt_id'' = None" "map_of core ''etk_s_id'' = None"
    using n by (simp_all add: core a map_add_def m)
  have "\<forall>k\<in>set copied_fields. map_of core k = pget qp k \<and> pget qp k \<noteq> None"
    unfolding copied_fields_def using c q' q a' a by simp
  with a' show ?thesis by blast
qed

lemma build_contractD:
  assumes "build_contract P ks svc cmd origin sha t = Inr c"
  obtains core sreq where
    "commercial_core (env_payload (qa_signed_quote cmd)) origin (epoch t) sha = Inr core"
    "sr_utt_id sreq = PyStr (ct_utt_id c)" "sr_quote_id sreq = PyStr (ct_quote_id c)"
    "issue_sender_authority P ks sreq (as_authority_signing_key_id svc) (Aware t)
       (Aware (t + from_epoch (qa_authority_ttl_seconds cmd))) = Inr (ct_sender_authority c)"
    "pget (env_payload (qa_signed_quote cmd)) ''amount_minor'' = Some (sr_amount_minor sreq)"
    "pget (env_payload (qa_signed_quote cmd)) ''currency_from'' = Some (sr_currency sreq)"
    "pget (env_payload (qa_signed_quote cmd)) ''quote_id'' = Some (PyStr (ct_quote_id c))"
    "sr_origin_context sreq = origin"
    "sr_authorization_method sreq = PyStr (qa_authorization_method cmd)"
    "sr_authorization_reference sreq = PyStr (qa_authorization_reference cmd)"
    "\<exists>payer. pget (env_payload (qa_signed_quote cmd)) ''payer'' = Some payer
      \<and> pget payer ''actor_type'' = Some (sr_sender_actor_type sreq) \<and> pget payer ''actor_id'' = Some (sr_sender_reference sreq)"
    "content_id ''UTT'' (obj core) = Inr (ct_utt_id c)" "ct_accepted_at c = t"
    "\<exists>etk. pget (env_payload (ct_sender_authority c)) ''etk_s_id'' = Some etk \<and>
      sign_artifact P ks UTT (obj ([(''utt_id'', PyStr (ct_utt_id c))] @ core @
         [(''etk_s_id'', etk), (''commercial_state'', PyStr ''ACCEPTED'')]))
       (as_utt_signing_key_id svc) (Aware t) = Inr (ct_signed_utt c)"
  using assms unfolding build_contract_def Let_def
  apply (elim rbind_InrE)
  apply (simp only: py_item_Inr)
  apply (simp split: pyval.splits)
  apply (rule that, assumption)
  apply auto
  done

lemma check_quoteD:
  assumes "check_quote P ks cmd origin n = Inr ()"
  shows "(\<exists>r iat. accepted_envelope P ks (qa_signed_quote cmd) False QUOTE r iat)
    \<and> (\<exists>iv i xv x. pget (env_payload (qa_signed_quote cmd)) ''issued_at'' = Some iv \<and> as_int iv = Some i
        \<and> pget (env_payload (qa_signed_quote cmd)) ''expires_at'' = Some xv \<and> as_int xv = Some x \<and> i \<le> n \<and> n < x)
    \<and> pget (env_payload (qa_signed_quote cmd)) ''purpose'' = pget origin ''purpose''
    \<and> 1 \<le> qa_authority_ttl_seconds cmd \<and> qa_authority_ttl_seconds cmd \<le> max_authority_seconds"
proof -
  obtain v where v: "verify_artifact P ks (qa_signed_quote cmd) (Some QUOTE) False = Inr v" "vr_valid v"
    using assms unfolding check_quote_def by (elim rbind_InrE) (auto simp: guard_res_eq_Inr)
  obtain r iat where "accepted_envelope P ks (qa_signed_quote cmd) False QUOTE r iat"
    using v by (rule verify_accepted) auto
  then show ?thesis using assms unfolding check_quote_def Let_def
    by (elim rbind_InrE) (auto simp: guard_res_eq_Inr py_item_Inr int_operand_Inr)
qed

definition authority_terms :: "acceptance_command \<Rightarrow> accepted_contract \<Rightarrow> pyval \<Rightarrow> string \<Rightarrow> string \<Rightarrow> int \<Rightarrow> string \<Rightarrow> (string \<times> pyval) list" where
  \<comment> \<open>every member of the sender authority of an acceptance but its identifier, from the command, the contract, the origin
      payload, the payer's type and identifier, the quoted amount and the currency it is debited in\<close>
  "authority_terms cmd c origin atype aid amount cur =
     [(''utt_id'', PyStr (ct_utt_id c)), (''quote_id'', PyStr (strip (ct_quote_id c))),
      (''sender_actor_type'', PyStr (strip atype)), (''sender_reference'', PyStr (strip aid)),
      (''amount_minor'', PyInt amount), (''currency'', PyStr (upper (strip cur))), (''origin_context'', origin),
      (''authorization_method'', PyStr (strip (qa_authorization_method cmd))),
      (''authorization_reference'', PyStr (strip (qa_authorization_reference cmd))),
      (''authorized_at'', PyInt (epoch (ct_accepted_at c))),
      (''expires_at'', PyInt (epoch (ct_accepted_at c + from_epoch (qa_authority_ttl_seconds cmd)))),
      (''authority_scope'', PyStr ''EXECUTE_UTT''), (''custody_model'', PyStr ''NON_CUSTODIAL''), (''status'', PyStr ''ACTIVE'')]"

lemma build_contract_authority:
  assumes "build_contract P ks svc cmd origin sha t = Inr c" "q = env_payload (qa_signed_quote cmd)" "a = env_payload (ct_sender_authority c)"
  shows "\<exists>payer atype aid amount cur.
      pget q ''quote_id'' = Some (PyStr (ct_quote_id c)) \<and> pget q ''payer'' = Some payer
      \<and> pget payer ''actor_type'' = Some (PyStr atype) \<and> pget payer ''actor_id'' = Some (PyStr aid)
      \<and> pget q ''amount_minor'' = Some (PyInt amount) \<and> 0 < amount \<and> pget q ''currency_from'' = Some (PyStr cur)
      \<and> (\<forall>k. k \<noteq> ''etk_s_id'' \<longrightarrow> pget a k = map_option freeze (map_of (authority_terms cmd c origin atype aid amount cur) k))
      \<and> (\<exists>i. pget a ''etk_s_id'' = Some (PyStr (''ETKS-'' @ i)) \<and> length i = 32)"
proof -
  from assms(1) obtain core sreq where
    f: "sr_utt_id sreq = PyStr (ct_utt_id c)" "sr_quote_id sreq = PyStr (ct_quote_id c)" "sr_origin_context sreq = origin"
      "sr_authorization_method sreq = PyStr (qa_authorization_method cmd)"
      "sr_authorization_reference sreq = PyStr (qa_authorization_reference cmd)"
    and sa: "issue_sender_authority P ks sreq (as_authority_signing_key_id svc) (Aware t)
       (Aware (t + from_epoch (qa_authority_ttl_seconds cmd))) = Inr (ct_sender_authority c)"
    and g: "pget q ''amount_minor'' = Some (sr_amount_minor sreq)" "pget q ''currency_from'' = Some (sr_currency sreq)"
      "pget q ''quote_id'' = Some (PyStr (ct_quote_id c))"
      "\<exists>payer. pget q ''payer'' = Some payer \<and> pget payer ''actor_type'' = Some (sr_sender_actor_type sreq)
        \<and> pget payer ''actor_id'' = Some (sr_sender_reference sreq)"
    and i: "content_id ''UTT'' (obj core) = Inr (ct_utt_id c)" and t: "ct_accepted_at c = t"
    unfolding assms(2) by (rule build_contractD)
  have u: "strip (ct_utt_id c) = ct_utt_id c" using content_id_trimmed [OF i] by (simp add: is_space_def)
  note cl = issue_sender_authority_claims [OF sa]
  obtain atype aid where p: "sr_sender_actor_type sreq = PyStr atype" "sr_sender_reference sreq = PyStr aid" using cl(2) by blast
  obtain cur amount where m: "sr_currency sreq = PyStr cur" "sr_amount_minor sreq = PyInt amount" "0 < amount"
    and etk: "\<exists>i. pget a ''etk_s_id'' = Some (PyStr (''ETKS-'' @ i)) \<and> length i = 32"
    using issue_sender_authorityD [OF sa] by (auto simp: sender_authority_ok_def assms(3))
  have "sender_claims sreq t (t + from_epoch (qa_authority_ttl_seconds cmd)) = authority_terms cmd c origin atype aid amount cur"
    by (simp add: sender_claims_def authority_terms_def f p m t u)
  then have terms: "\<forall>k. k \<noteq> ''etk_s_id'' \<longrightarrow> pget a k = map_option freeze (map_of (authority_terms cmd c origin atype aid amount cur) k)"
    using cl(1) by (simp add: assms(3) astimezone_utc_def)
  from g(4) obtain payer where "pget q ''payer'' = Some payer" "pget payer ''actor_type'' = Some (PyStr atype)"
    "pget payer ''actor_id'' = Some (PyStr aid)" unfolding p by blast
  with g(1-3) m terms etk show ?thesis
    by (intro exI [of _ payer] exI [of _ atype] exI [of _ aid] exI [of _ amount] exI [of _ cur]) (intro conjI; simp)
qed

text \<open>
  C13. A fresh acceptance is faithful to its quote: the quote's signature was valid, the acceptance second lies in the quote's
  validity interval, and the signed UTT carries every commercial field of the quote unchanged together with its own identifier,
  the acceptance second, the origin of the command and the identifier of the sender authority.  Every member of the sender
  authority besides that identifier is determined: the UTT and quote identifiers, the payer of the quote as the sender, the
  quoted amount (positive) in the upper-cased currency it is debited in, the origin, the authorization method and reference
  of the command (texts without their surrounding white space), the acceptance second as the start and the requested lifetime
  after it as the end of the window, scope, custody model and status; nothing else is in it.  The store serves that UTT
  afterwards.
\<close>

theorem accept_faithful:
  assumes "accept P ks svc cmd at now s = (Inr r, s')" "\<not> ar_replayed r"
    and "c = ar_contract r" "q = env_payload (qa_signed_quote cmd)" "u = env_payload (ct_signed_utt c)"
    and "a = env_payload (ct_sender_authority c)" "n = epoch (ct_accepted_at c)"
  shows "(\<exists>k iat. accepted_envelope P ks (qa_signed_quote cmd) False QUOTE k iat)
    \<and> (\<exists>iv i xv x. pget q ''issued_at'' = Some iv \<and> as_int iv = Some i
        \<and> pget q ''expires_at'' = Some xv \<and> as_int xv = Some x \<and> i \<le> n \<and> n < x)
    \<and> (\<forall>k\<in>set copied_fields. pget u k = map_option freeze (pget q k) \<and> pget q k \<noteq> None)
    \<and> pget u ''utt_id'' = Some (PyStr (ct_utt_id c)) \<and> pget u ''accepted_at'' = Some (PyInt n)
    \<and> pget u ''etk_s_id'' = map_option freeze (pget a ''etk_s_id'') \<and> pget u ''etk_s_id'' \<noteq> None
    \<and> (\<exists>origin payer atype aid amount cur. origin_to_payload (qa_origin cmd) = Inr origin \<and> pget u ''origin'' = Some (freeze origin)
        \<and> pget q ''quote_id'' = Some (PyStr (ct_quote_id c)) \<and> pget q ''payer'' = Some payer
        \<and> pget payer ''actor_type'' = Some (PyStr atype) \<and> pget payer ''actor_id'' = Some (PyStr aid)
        \<and> pget q ''amount_minor'' = Some (PyInt amount) \<and> 0 < amount \<and> pget q ''currency_from'' = Some (PyStr cur)
        \<and> (\<forall>k. k \<noteq> ''etk_s_id'' \<longrightarrow> pget a k = map_option freeze (map_of (authority_terms cmd c origin atype aid amount cur) k))
        \<and> (\<exists>i. pget a ''etk_s_id'' = Some (PyStr (''ETKS-'' @ i)) \<and> length i = 32))
    \<and> require_utt (ct_utt_id c) s' = Inr (ct_signed_utt c)"
proof -
  from assms(1) have "accept_with resolve_idempotency commit_acceptance P ks svc cmd at now s = (Inr r, s')"
    by (simp add: accept_def)
  then obtain key origin sha c' t where dg: "request_digest cmd = Inr (key, origin, sha)" and chk: "check_quote P ks cmd origin (epoch t) = Inr ()"
    and b: "build_contract P ks svc cmd origin sha t = Inr c'"
    and cm: "commit_acceptance key c' s = (Inr (ar_contract r, False), s')"
    by (cases rule: accept_with_cases) (use assms(2) in auto)
  have c': "c' = c" and st: "require_utt (ct_utt_id c) s' = Inr (ct_signed_utt c)"
    using commit_acceptance_fresh [OF cm] assms(3) by (auto simp: require_utt_def)
  from b [unfolded c'] obtain core sreq etk where
    core: "commercial_core q origin (epoch t) sha = Inr core"
    and t: "ct_accepted_at c = t"
    and etk: "pget a ''etk_s_id'' = Some etk"
    and sg: "sign_artifact P ks UTT (obj ([(''utt_id'', PyStr (ct_utt_id c))] @ core @
         [(''etk_s_id'', etk), (''commercial_state'', PyStr ''ACCEPTED'')]))
       (as_utt_signing_key_id svc) (Aware t) = Inr (ct_signed_utt c)"
    unfolding assms(4,6) by (rule build_contractD) blast
  have u: "pget u k = map_option freeze (map_of ([(''utt_id'', PyStr (ct_utt_id c))] @ core @
         [(''etk_s_id'', etk), (''commercial_state'', PyStr ''ACCEPTED'')]) k)" for k
    using sg unfolding assms(5) by (auto elim!: sign_artifactD simp del: append.simps)
  note cf = commercial_core_fields [OF core]
  have neq: "''utt_id'' \<notin> set copied_fields" by (simp add: copied_fields_def carried_fields_def)
  have copied: "pget u k = map_option freeze (pget q k) \<and> pget q k \<noteq> None" if k: "k \<in> set copied_fields" for k
  proof -
    have "k \<noteq> ''utt_id''" using neq k by blast
    moreover obtain v where "map_of core k = Some v" "pget q k = Some v" using cf k by fastforce
    ultimately show ?thesis by (simp add: u)
  qed
  have rest: "pget u ''utt_id'' = Some (PyStr (ct_utt_id c))" "pget u ''accepted_at'' = Some (PyInt n)"
    "pget u ''etk_s_id'' = map_option freeze (pget a ''etk_s_id'')" "pget u ''etk_s_id'' \<noteq> None"
    using cf by (simp_all add: u etk assms(7) t map_add_def)
  have orig: "origin_to_payload (qa_origin cmd) = Inr origin" using dg unfolding request_digest_def by (elim rbind_InrE) auto
  have "pget u ''origin'' = Some (freeze origin)" using cf by (simp add: u map_add_def)
  then have authority: "\<exists>origin payer atype aid amount cur. origin_to_payload (qa_origin cmd) = Inr origin \<and> pget u ''origin'' = Some (freeze origin)
        \<and> pget q ''quote_id'' = Some (PyStr (ct_quote_id c)) \<and> pget q ''payer'' = Some payer
        \<and> pget payer ''actor_type'' = Some (PyStr atype) \<and> pget payer ''actor_id'' = Some (PyStr aid)
        \<and> pget q ''amount_minor'' = Some (PyInt amount) \<and> 0 < amount \<and> pget q ''currency_from'' = Some (PyStr cur)
        \<and> (\<forall>k. k \<noteq> ''etk_s_id'' \<longrightarrow> pget a k = map_option freeze (map_of (authority_terms cmd c origin atype aid amount cur) k))
        \<and> (\<exists>i. pget a ''etk_s_id'' = Some (PyStr (''ETKS-'' @ i)) \<and> length i = 32)"
    using orig build_contract_authority [OF b [unfolded c'] assms(4,6)]
    by (elim exE conjE) (intro exI conjI, assumption+)
  have valid: "\<exists>k iat. accepted_envelope P ks (qa_signed_quote cmd) False QUOTE k iat" using check_quoteD [OF chk] by blast
  have window: "\<exists>iv i xv x. pget q ''issued_at'' = Some iv \<and> as_int iv = Some i
      \<and> pget q ''expires_at'' = Some xv \<and> as_int xv = Some x \<and> i \<le> n \<and> n < x"
    unfolding assms(4,7) t using check_quoteD [OF chk] by (elim conjE)
  have fields: "\<forall>k\<in>set copied_fields. pget u k = map_option freeze (pget q k) \<and> pget q k \<noteq> None" using copied by blast
  show ?thesis by (intro conjI valid window fields rest authority st)
qed

section \<open>A complete acceptance\<close>

definition demo_command :: "envelope \<Rightarrow> acceptance_command" where
  "demo_command env = \<lparr>qa_signed_quote = env,
     qa_origin = \<lparr>oc_origin_system = ''app'', oc_origin_intent_id = ''intent'', oc_context_type = P2P,
       oc_purpose = PERSON_TO_PERSON, oc_continuity_uid = Some ''alice'', oc_merchant_id = None,
       oc_branch_id = None, oc_partner_id = None\<rparr>,
     qa_authorization_method = ''PIN'', qa_authorization_reference = ''ref'',
     qa_idempotency_key = ''idem'', qa_authority_ttl_seconds = 600\<rparr>"

definition demo_origin :: pyval where
  "demo_origin = obj [(''origin_system'', PyStr ''APP''), (''origin_intent_id'', PyStr ''intent''),
     (''context_type'', PyStr ''P2P''), (''purpose'', PyStr ''PERSON_TO_PERSON''), (''continuity_uid'', PyStr ''alice'')]"

definition demo_actor :: "string \<Rightarrow> string \<Rightarrow> string \<Rightarrow> account_role \<Rightarrow> pyval" where
  "demo_actor aid name bid role = obj [(''actor_type'', PyStr ''USER''), (''actor_id'', PyStr aid),
     (''display_name'', PyStr name), (''endpoint'', obj
       [(''institution_id'', PyStr ''BANK''), (''institution_display_name'', PyStr ''Bank''),
        (''account_binding_id'', PyStr bid), (''role'', PyStr (role_value role)),
        (''account_type'', PyStr ''BANK_ACCOUNT''), (''display_hint'', PyStr ''hint''),
        (''contact_binding_id'', PyStr ''contact''), (''attestation_reference'', PyStr ''att'')])]"

definition demo_quote_fields :: "(string \<times> pyval) list" where
  "demo_quote_fields = [(''request_id'', PyStr ''req''), (''payer'', demo_actor ''alice'' ''User'' ''BD'' DEBIT),
     (''beneficiary'', demo_actor ''bob'' ''Bob'' ''BC'' CREDIT), (''purpose'', PyStr ''PERSON_TO_PERSON''),
     (''amount_minor'', PyInt 500), (''currency_from'', PyStr ''KES''), (''receive_amount_minor'', PyInt 490),
     (''currency_to'', PyStr ''KES''), (''total_fee_minor'', PyInt 10), (''routing_budget_minor'', PyInt 5),
     (''fx_rate'', PyStr ''1.0''), (''corridor_id'', PyStr ''KE-KE''), (''service_level'', PyStr ''STD''),
     (''routing_policy_id'', PyStr ''rp''), (''pricing_version'', PyStr ''v1''), (''pricing_model'', PyStr ''PER_INTENT''),
     (''max_attempts'', PyInt 2), (''custody_model'', PyStr ''NON_CUSTODIAL''), (''endpoint_model_version'', PyInt 1)]"

lemma demo_terms_payload: "quote_terms_to_payload demo_terms = Inr (obj demo_quote_fields)"
  by code_simp

lemma demo_origin_payload: "origin_to_payload (qa_origin (demo_command env)) = Inr demo_origin"
proof -
  have "origin_to_payload \<lparr>oc_origin_system = ''app'', oc_origin_intent_id = ''intent'', oc_context_type = P2P,
       oc_purpose = PERSON_TO_PERSON, oc_continuity_uid = Some ''alice'', oc_merchant_id = None,
       oc_branch_id = None, oc_partner_id = None\<rparr> = Inr demo_origin" by code_simp
  then show ?thesis by (simp add: demo_command_def)
qed

lemma plain_thaw:
  "plain (thaw v) = plain v"
  "plain_items (thaw_items kvs) = plain_items kvs"
  "plain_seq (thaw_seq vs) = plain_seq vs"
  by (induction v and kvs and vs rule: thaw_thaw_items_thaw_seq.induct) auto

lemma strip_filled: "\<not> is_space c \<Longrightarrow> strip (c # cs) \<noteq> []"
  by (auto simp: strip_def dropWhile_eq_Nil_conv)

lemma merge_obj_obj: "merge_obj kvs (obj kvs') = obj (kvs @ kvs')"
  by (simp add: merge_obj_def obj_def)

lemma demo_quote_signed:
  assumes "issue_quote demo_platform demo_keys demo_quotes demo_terms ''kq'' (Aware 5000000) (Aware 205000000) = Inr env"
  obtains h where "sign_artifact demo_platform demo_keys QUOTE
      (obj ((''quote_id'', PyStr (''Q-'' @ h)) # demo_quote_fields @ [(''issued_at'', PyInt 5), (''expires_at'', PyInt 205)]))
      ''kq'' (Aware (from_epoch 5)) = Inr env"
proof -
  from assms obtain tp core i where
    tp: "quote_terms_to_payload demo_terms = Inr tp"
    and core: "core = add_fields tp [(''issued_at'', PyInt (epoch (astimezone_utc demo_platform (Aware 5000000)))),
        (''expires_at'', PyInt (epoch (astimezone_utc demo_platform (Aware 205000000))))]"
    and i: "content_id ''Q'' core = Inr i"
    and s: "sign_artifact demo_platform demo_keys QUOTE (merge_obj [(''quote_id'', PyStr i)] core) ''kq''
       (Aware (astimezone_utc demo_platform (Aware 5000000))) = Inr env"
    by (rule issue_quote_core)
  obtain h where "i = ''Q-'' @ h" using content_id_form [OF i] by auto
  moreover have "tp = obj demo_quote_fields" using tp demo_terms_payload by simp
  ultimately show thesis using that [of h] s
    by (simp add: core add_fields_obj merge_obj_obj astimezone_utc_def epoch_def from_epoch_def)
qed

definition demo_service :: acceptance_service where
  "demo_service = \<lparr>as_utt_signing_key_id = ''ke'', as_authority_signing_key_id = ''ke''\<rparr>"

lemma demo_quote_items:
  assumes "issue_quote demo_platform demo_keys demo_quotes demo_terms ''kq'' (Aware 5000000) (Aware 205000000) = Inr env"
  obtains h where "verify_artifact demo_platform demo_keys env (Some QUOTE) False =
      Inr \<lparr>vr_valid = True, vr_reason = ''VALID'', vr_key_id = Some ''kq'', vr_artifact_type = Some QUOTE\<rparr>"
    "env_payload env = freeze (obj ((''quote_id'', PyStr (''Q-'' @ h)) # demo_quote_fields @
      [(''issued_at'', PyInt 5), (''expires_at'', PyInt 205)]))"
    "plain (env_payload env)" "plain (env_protected env)"
proof -
  obtain h where sg: "sign_artifact demo_platform demo_keys QUOTE
      (obj ((''quote_id'', PyStr (''Q-'' @ h)) # demo_quote_fields @ [(''issued_at'', PyInt 5), (''expires_at'', PyInt 205)]))
      ''kq'' (Aware (from_epoch 5)) = Inr env" using assms by (rule demo_quote_signed)
  have "verify_artifact demo_platform demo_keys env (Some QUOTE) False =
    Inr \<lparr>vr_valid = True, vr_reason = ''VALID'', vr_key_id = Some ''kq'', vr_artifact_type = Some QUOTE\<rparr>"
    using signed_now_verifies [OF demo_correct demo_keys_inv sg] by simp
  with sg show thesis by (rule_tac that) (auto elim!: sign_artifactD simp: plain_freeze)
qed

lemma demo_check:
  assumes "issue_quote demo_platform demo_keys demo_quotes demo_terms ''kq'' (Aware 5000000) (Aware 205000000) = Inr env"
  shows "check_quote demo_platform demo_keys (demo_command env) demo_origin 10 = Inr ()"
proof -
  from assms obtain h where v: "verify_artifact demo_platform demo_keys env (Some QUOTE) False =
      Inr \<lparr>vr_valid = True, vr_reason = ''VALID'', vr_key_id = Some ''kq'', vr_artifact_type = Some QUOTE\<rparr>"
    and q: "env_payload env = freeze (obj ((''quote_id'', PyStr (''Q-'' @ h)) # demo_quote_fields @
      [(''issued_at'', PyInt 5), (''expires_at'', PyInt 205)]))" by (rule demo_quote_items)
  have g: "py_item (env_payload env) ''issued_at'' = Inr (PyInt 5)" "py_item (env_payload env) ''expires_at'' = Inr (PyInt 205)"
    "py_item (env_payload env) ''purpose'' = Inr (PyStr ''PERSON_TO_PERSON'')"
    "py_item (env_payload env) ''payer'' = Inr (freeze (demo_actor ''alice'' ''User'' ''BD'' DEBIT))"
    by (simp_all add: q py_item_Inr demo_quote_fields_def)
  have a: "py_item (freeze (demo_actor ''alice'' ''User'' ''BD'' DEBIT)) ''actor_id'' = Inr (PyStr ''alice'')"
    "py_item demo_origin ''continuity_uid'' = Inr (PyStr ''alice'')"
    "py_item demo_origin ''purpose'' = Inr (PyStr ''PERSON_TO_PERSON'')"
    by (simp_all add: py_item_Inr demo_actor_def demo_origin_def)
  show ?thesis
    unfolding check_quote_def Let_def
    by (simp add: demo_command_def v g a int_operand_def same_party_def max_authority_seconds_def)
qed

lemma demo_digest:
  assumes "issue_quote demo_platform demo_keys demo_quotes demo_terms ''kq'' (Aware 5000000) (Aware 205000000) = Inr env"
  shows "\<exists>sha. request_digest (demo_command env) = Inr (''idem'', demo_origin, sha)"
proof -
  from assms have "plain (env_payload env)" "plain (env_protected env)"
    by (auto elim: demo_quote_items)
  then have "plain (obj [(''signed_quote'', envelope_to_dict env), (''origin'', demo_origin),
        (''authorization_method'', PyStr ''PIN''), (''authorization_reference'', PyStr ''ref''),
        (''authority_ttl_seconds'', PyInt 600)])"
    by (simp add: plain_obj envelope_to_dict_def plain_thaw demo_origin_def)
  then obtain sh where "payload_digest (obj [(''signed_quote'', envelope_to_dict env), (''origin'', demo_origin),
        (''authorization_method'', PyStr ''PIN''), (''authorization_reference'', PyStr ''ref''),
        (''authority_ttl_seconds'', PyInt 600)]) = Inr sh" by (simp add: payload_digest_Inr)
  moreover have "strip ''idem'' = ''idem''" "strip ''PIN'' = ''PIN''" "strip ''ref'' = ''ref''" by code_simp+
  ultimately show ?thesis
    using demo_origin_payload [of env] by (simp add: request_digest_def demo_command_def require_text_def)
qed

lemma rmap_field_of_ok: "\<forall>k\<in>set ks. pget v k \<noteq> None \<Longrightarrow> \<exists>fs. rmap (field_of v) ks = Inr fs"
  by (induction ks) (auto simp: field_of_def py_item_Inr rbind_eq_Inr)

lemma map_of_plain: "map_of kvs k = Some v \<Longrightarrow> plain_items kvs \<Longrightarrow> plain v"
  by (induction kvs) (auto split: if_splits)

lemma pget_plain: "pget d k = Some v \<Longrightarrow> plain d \<Longrightarrow> plain v"
  by (auto simp: pget_def map_of_plain split: pyval.splits)

lemma rmap_field_of_plain: "rmap (field_of v) ks = Inr fs \<Longrightarrow> plain v \<Longrightarrow> (k, x) \<in> set fs \<Longrightarrow> plain x"
  by (induction ks arbitrary: fs) (auto simp: rbind_eq_Inr field_of_def py_item_Inr dest: pget_plain)

lemma commercial_core_ok:
  assumes "plain q" "plain origin" "\<forall>k\<in>set copied_fields. pget q k \<noteq> None"
  shows "\<exists>core. commercial_core q origin e sha = Inr core \<and> plain (obj core)"
proof -
  obtain fs where fs: "rmap (field_of q) carried_fields = Inr fs"
    using assms(3) rmap_field_of_ok [of carried_fields q] by (auto simp: copied_fields_def)
  obtain a b c where f: "pget q ''quote_id'' = Some a" "pget q ''max_attempts'' = Some b"
    "pget q ''endpoint_model_version'' = Some c" using assms(3) by (auto simp: copied_fields_def)
  obtain h where h: "payload_digest q = Inr h" using assms(1) by (simp add: payload_digest_Inr)
  have p: "plain a" "plain b" "plain c" using f pget_plain assms(1) by blast+
  have fs': "field_of q ''quote_id'' = Inr (''quote_id'', a)" "field_of q ''max_attempts'' = Inr (''max_attempts'', b)"
    "field_of q ''endpoint_model_version'' = Inr (''endpoint_model_version'', c)"
    using f by (simp_all add: field_of_Inr)
  have "\<forall>(k, x)\<in>set fs. plain x" using rmap_field_of_plain [OF fs assms(1)] by blast
  with p h fs fs' assms(2) show ?thesis by (simp add: commercial_core_def plain_obj)
qed

lemma build_contract_ok:
  assumes q: "q = env_payload (qa_signed_quote cmd)" "plain q" "\<forall>k\<in>set copied_fields. pget q k \<noteq> None"
    and id: "pget q ''quote_id'' = Some (PyStr qid)" "text_ok qid"
    and pay: "pget q ''payer'' = Some payer" "pget payer ''actor_type'' = Some atype" "filled atype"
      "pget payer ''actor_id'' = Some aid" "filled aid"
    and amt: "pget q ''amount_minor'' = Some (PyInt amount)" "0 < amount"
    and cur: "pget q ''currency_from'' = Some cur" "filled cur"
    and org: "origin = PyDict kvs" "plain origin"
    and auth: "text_ok (qa_authorization_method cmd)" "text_ok (qa_authorization_reference cmd)"
    and ttl: "1 \<le> qa_authority_ttl_seconds cmd" "qa_authority_ttl_seconds cmd \<le> max_authority_seconds"
    and k: "can_sign P ks (as_authority_signing_key_id svc) EXECUTION_SIGNING t"
      "can_sign P ks (as_utt_signing_key_id svc) EXECUTION_SIGNING t"
  shows "\<exists>c. build_contract P ks svc cmd origin sha t = Inr c"
proof -
  obtain core where core: "commercial_core q origin (epoch t) sha = Inr core" and pc: "plain (obj core)"
    using commercial_core_ok [OF q(2) org(2) q(3)] by blast
  obtain i where i: "content_id ''UTT'' (obj core) = Inr i" using content_id_ok [OF pc] by blast
  obtain h where h: "i = ''UTT-'' @ h" using content_id_form [OF i] by auto
  let ?req = "\<lparr>sr_utt_id = PyStr i, sr_quote_id = PyStr qid, sr_sender_actor_type = atype,
                sr_sender_reference = aid, sr_amount_minor = PyInt amount, sr_currency = cur,
                sr_origin_context = origin,
                sr_authorization_method = PyStr (qa_authorization_method cmd),
                sr_authorization_reference = PyStr (qa_authorization_reference cmd)\<rparr>"
  obtain se where se: "issue_sender_authority P ks ?req (as_authority_signing_key_id svc) (Aware t)
       (Aware (t + from_epoch (qa_authority_ttl_seconds cmd))) = Inr se"
    using issue_sender_authority_ok [of t P "Aware t" "t + from_epoch (qa_authority_ttl_seconds cmd)"
        "Aware (t + from_epoch (qa_authority_ttl_seconds cmd))" ?req amount kvs ks "as_authority_signing_key_id svc"]
      id pay amt cur org auth ttl k(1) strip_filled [of "CHR ''U''" "''TT-'' @ h"]
    by (auto simp: astimezone_utc_def filled_def text_ok_def from_epoch_def h is_space_def Let_def)
  obtain etk where etk: "pget (env_payload se) ''etk_s_id'' = Some (PyStr etk)"
    using issue_sender_authorityD [OF se] by (auto simp: sender_authority_ok_def)
  have "plain (obj ([(''utt_id'', PyStr i)] @ core @ [(''etk_s_id'', PyStr etk), (''commercial_state'', PyStr ''ACCEPTED'')]))"
    using pc by (simp add: plain_obj)
  then obtain u where "sign_artifact P ks UTT (obj ([(''utt_id'', PyStr i)] @ core @
      [(''etk_s_id'', PyStr etk), (''commercial_state'', PyStr ''ACCEPTED'')])) (as_utt_signing_key_id svc) (Aware t) = Inr u"
    using can_sign_ok [of P ks "as_utt_signing_key_id svc" UTT t] k(2) by auto
  moreover have "py_item q ''quote_id'' = Inr (PyStr qid)" "py_item q ''payer'' = Inr payer" "py_item payer ''actor_type'' = Inr atype"
    "py_item payer ''actor_id'' = Inr aid" "py_item q ''amount_minor'' = Inr (PyInt amount)" "py_item q ''currency_from'' = Inr cur"
    "py_item (env_payload se) ''etk_s_id'' = Inr (PyStr etk)"
    using id pay amt cur etk by (simp_all add: py_item_Inr)
  ultimately show ?thesis using core i se unfolding build_contract_def q(1) by simp
qed

lemma accept_fresh:
  assumes "request_digest cmd = Inr (key, origin, sha)" "check_quote P ks cmd origin (epoch t) = Inr ()"
    and "build_contract P ks svc cmd origin sha t = Inr c"
    and "dict_get (cs_idempotency s) key = None" "dict_get (cs_quote_to_utt s) (ct_quote_id c) = None"
    and "dict_get (cs_utts s) (ct_utt_id c) = None"
  shows "fst (accept P ks svc cmd (Some (Aware t)) now s) = Inr \<lparr>ar_contract = c, ar_replayed = False\<rparr>"
  using assms by (simp add: accept_def accept_with_def sbind_def slift_def sget_def sret_def resolve_idempotency_def
      is_naive_def astimezone_utc_def commit_acceptance_def)

lemma demo_build:
  assumes "issue_quote demo_platform demo_keys demo_quotes demo_terms ''kq'' (Aware 5000000) (Aware 205000000) = Inr env"
  shows "\<exists>c. build_contract demo_platform demo_keys demo_service (demo_command env) demo_origin sha (from_epoch 10) = Inr c"
proof -
  from assms obtain h where q: "env_payload env = freeze (obj ((''quote_id'', PyStr (''Q-'' @ h)) # demo_quote_fields @
      [(''issued_at'', PyInt 5), (''expires_at'', PyInt 205)]))" and pq: "plain (env_payload env)"
    by (rule demo_quote_items)
  let ?q = "env_payload (qa_signed_quote (demo_command env))"
  have qq: "?q = env_payload env" by (simp add: demo_command_def)
  have copied: "\<forall>k\<in>set copied_fields. pget ?q k \<noteq> None"
    unfolding qq q by (simp add: copied_fields_def carried_fields_def demo_quote_fields_def)
  have g: "pget ?q ''quote_id'' = Some (PyStr (''Q-'' @ h))"
    "pget ?q ''payer'' = Some (freeze (demo_actor ''alice'' ''User'' ''BD'' DEBIT))"
    "pget ?q ''amount_minor'' = Some (PyInt 500)" "pget ?q ''currency_from'' = Some (PyStr ''KES'')"
    "pget (freeze (demo_actor ''alice'' ''User'' ''BD'' DEBIT)) ''actor_type'' = Some (PyStr ''USER'')"
    "pget (freeze (demo_actor ''alice'' ''User'' ''BD'' DEBIT)) ''actor_id'' = Some (PyStr ''alice'')"
    unfolding qq q by (simp_all add: demo_quote_fields_def demo_actor_def)
  have t: "text_ok (''Q-'' @ h)" "text_ok ''PIN''" "text_ok ''ref''" "filled (PyStr ''USER'')" "filled (PyStr ''alice'')"
    "filled (PyStr ''KES'')"
    by (simp_all add: text_ok_def filled_def strip_filled is_space_def Let_def)
  show ?thesis
    by (rule build_contract_ok [OF refl _ copied g(1) t(1) g(2,5) t(4) g(6) t(5) g(3) _ g(4) t(6), of demo_origin])
       (auto simp: pq qq demo_origin_def plain_obj demo_command_def t demo_service_def max_authority_seconds_def
          from_epoch_def intro!: demo_can_sign obj_def)
qed

lemma demo_accepted:
  "\<exists>env r s'. accept demo_platform demo_keys demo_service (demo_command env) (Some (Aware (from_epoch 10))) 0
     empty_contract_store = (Inr r, s') \<and> \<not> ar_replayed r"
proof -
  obtain env where e: "issue_quote demo_platform demo_keys demo_quotes demo_terms ''kq'' (Aware 5000000) (Aware 205000000) = Inr env"
    using demo_quote_issued by blast
  obtain sha where d: "request_digest (demo_command env) = Inr (''idem'', demo_origin, sha)"
    using demo_digest [OF e] by blast
  obtain c where c: "build_contract demo_platform demo_keys demo_service (demo_command env) demo_origin sha (from_epoch 10) = Inr c"
    using demo_build [OF e] by blast
  have "fst (accept demo_platform demo_keys demo_service (demo_command env) (Some (Aware (from_epoch 10))) 0
     empty_contract_store) = Inr \<lparr>ar_contract = c, ar_replayed = False\<rparr>"
    by (rule accept_fresh [OF d _ c]) (simp_all add: demo_check [OF e] empty_contract_store_def)
  then show ?thesis by (intro exI [of _ env] exI) (auto simp: prod_eq_iff)
qed

theorem accept_faithful_witness:
  "\<exists>env r s'. accept demo_platform demo_keys demo_service (demo_command env) (Some (Aware (from_epoch 10))) 0
     empty_contract_store = (Inr r, s')
     \<and> require_utt (ct_utt_id (ar_contract r)) s' = Inr (ct_signed_utt (ar_contract r))"
  using demo_accepted accept_faithful by blast

theorem accept_exactly_once_witness:
  "\<exists>env r s'. accept demo_platform demo_keys demo_service (demo_command env) (Some (Aware (from_epoch 10))) 0
     empty_contract_store = (Inr r, s')
     \<and> accept demo_platform demo_keys demo_service (demo_command env) None 99 s'
       = (Inr \<lparr>ar_contract = ar_contract r, ar_replayed = True\<rparr>, s')"
proof -
  obtain env r s' where a: "accept demo_platform demo_keys demo_service (demo_command env) (Some (Aware (from_epoch 10))) 0
     empty_contract_store = (Inr r, s')" using demo_accepted by blast
  from accept_exactly_once [OF accept_done a accept_done, THEN conjunct1] a show ?thesis by blast
qed

end
