(* ===== verification/Execution_Run.thy ===== *)
theory Execution_Run
  imports Execution_Properties Acceptance
begin

text \<open>
  Complete runs of the execution machine on a UTT produced by quote issuance and acceptance: planning,
  a first attempt, and each kind of outcome.  They show that the hypotheses of the execution
  properties are met by real runs.
\<close>

section \<open>A signed UTT\<close>

definition utt_served :: "contract_store \<Rightarrow> string \<Rightarrow> envelope \<Rightarrow> bool" where
  "utt_served contracts u su \<longleftrightarrow> require_utt u contracts = Inr su \<and> strip u = u \<and> u \<noteq> []
     \<and> verify_artifact demo_platform demo_keys su (Some UTT) False =
         Inr \<lparr>vr_valid = True, vr_reason = ''VALID'', vr_key_id = Some ''ke'', vr_artifact_type = Some UTT\<rparr>
     \<and> (\<exists>h. pget (env_protected su) ''payload_sha256'' = Some (PyStr h))
     \<and> pget (env_payload su) ''amount_minor'' = Some (PyInt 500) \<and> pget (env_payload su) ''currency_from'' = Some (PyStr ''KES'')
     \<and> pget (env_payload su) ''currency_to'' = Some (PyStr ''KES'') \<and> pget (env_payload su) ''routing_budget_minor'' = Some (PyInt 5)
     \<and> pget (env_payload su) ''max_attempts'' = Some (PyInt 2) \<and> pget (env_payload su) ''endpoint_model_version'' = Some (PyInt 1)
     \<and> pget (env_payload su) ''routing_policy_id'' = Some (PyStr ''rp'')
     \<and> pget (env_payload su) ''receive_amount_minor'' = Some (PyInt 490)
     \<and> pget (env_payload su) ''payer'' = Some (freeze (demo_actor ''alice'' ''User'' ''BD'' DEBIT))
     \<and> pget (env_payload su) ''beneficiary'' = Some (freeze (demo_actor ''bob'' ''Bob'' ''BC'' CREDIT))"

lemma demo_utt: "\<exists>contracts u su. utt_served contracts u su"
proof -
  obtain env where e: "issue_quote demo_platform demo_keys demo_quotes demo_terms ''kq'' (Aware 5000000) (Aware 205000000) = Inr env"
    using demo_quote_issued by blast
  from e obtain h where q: "env_payload env = freeze (obj ((''quote_id'', PyStr (''Q-'' @ h)) # demo_quote_fields @
      [(''issued_at'', PyInt 5), (''expires_at'', PyInt 205)]))" by (rule demo_quote_items)
  obtain c where b: "build_contract demo_platform demo_keys demo_service (demo_command env) demo_origin ''sha'' (from_epoch 10) = Inr c"
    using demo_build [OF e] by blast
  then obtain core sreq etk where
    core: "commercial_core (env_payload env) demo_origin (epoch (from_epoch 10)) ''sha'' = Inr core"
    and i: "content_id ''UTT'' (obj core) = Inr (ct_utt_id c)"
    and sg: "sign_artifact demo_platform demo_keys UTT (obj ([(''utt_id'', PyStr (ct_utt_id c))] @ core @
         [(''etk_s_id'', etk), (''commercial_state'', PyStr ''ACCEPTED'')])) ''ke'' (Aware (from_epoch 10)) = Inr (ct_signed_utt c)"
    by (rule build_contractD) (auto simp: demo_command_def demo_service_def)
  let ?su = "ct_signed_utt c"
  have v: "verify_artifact demo_platform demo_keys ?su (Some UTT) False =
      Inr \<lparr>vr_valid = True, vr_reason = ''VALID'', vr_key_id = Some ''ke'', vr_artifact_type = Some UTT\<rparr>"
    using signed_now_verifies [OF demo_correct demo_keys_inv sg] by simp
  have p: "\<exists>h. pget (env_protected ?su) ''payload_sha256'' = Some (PyStr h)"
    using sg by (auto elim!: sign_artifactD simp: protected_header_def)
  have g: "pget (env_payload ?su) k = map_option freeze (pget (env_payload env) k)" if k: "k \<in> set copied_fields" for k
  proof -
    have "k \<noteq> ''utt_id''" using k by (auto simp: copied_fields_def carried_fields_def)
    moreover obtain x where "map_of core k = Some x" "pget (env_payload env) k = Some x"
      using commercial_core_fields [OF core] k by fastforce
    ultimately show ?thesis using sg by (auto elim!: sign_artifactD simp del: append.simps)
  qed
  have mem: "''amount_minor'' \<in> set copied_fields" "''currency_from'' \<in> set copied_fields" "''currency_to'' \<in> set copied_fields" "''routing_budget_minor'' \<in> set copied_fields" "''max_attempts'' \<in> set copied_fields" "''endpoint_model_version'' \<in> set copied_fields" "''routing_policy_id'' \<in> set copied_fields" "''payer'' \<in> set copied_fields" "''beneficiary'' \<in> set copied_fields" "''receive_amount_minor'' \<in> set copied_fields"
    by (simp_all add: copied_fields_def carried_fields_def)
  have ev: "pget (env_payload env) ''amount_minor'' = Some (PyInt 500)"
    "pget (env_payload env) ''currency_from'' = Some (PyStr ''KES'')"
    "pget (env_payload env) ''currency_to'' = Some (PyStr ''KES'')"
    "pget (env_payload env) ''routing_budget_minor'' = Some (PyInt 5)"
    "pget (env_payload env) ''max_attempts'' = Some (PyInt 2)"
    "pget (env_payload env) ''endpoint_model_version'' = Some (PyInt 1)"
    "pget (env_payload env) ''routing_policy_id'' = Some (PyStr ''rp'')"
    "pget (env_payload env) ''payer'' = Some (freeze (demo_actor ''alice'' ''User'' ''BD'' DEBIT))"
    "pget (env_payload env) ''beneficiary'' = Some (freeze (demo_actor ''bob'' ''Bob'' ''BC'' CREDIT))"
    "pget (env_payload env) ''receive_amount_minor'' = Some (PyInt 490)"
    by (simp_all add: q demo_quote_fields_def)
  have vals: "pget (env_payload ?su) ''amount_minor'' = Some (PyInt 500)"
    "pget (env_payload ?su) ''currency_from'' = Some (PyStr ''KES'')"
    "pget (env_payload ?su) ''currency_to'' = Some (PyStr ''KES'')"
    "pget (env_payload ?su) ''routing_budget_minor'' = Some (PyInt 5)"
    "pget (env_payload ?su) ''max_attempts'' = Some (PyInt 2)"
    "pget (env_payload ?su) ''endpoint_model_version'' = Some (PyInt 1)"
    "pget (env_payload ?su) ''routing_policy_id'' = Some (PyStr ''rp'')"
    "pget (env_payload ?su) ''payer'' = Some (freeze (demo_actor ''alice'' ''User'' ''BD'' DEBIT))"
    "pget (env_payload ?su) ''beneficiary'' = Some (freeze (demo_actor ''bob'' ''Bob'' ''BC'' CREDIT))"
    "pget (env_payload ?su) ''receive_amount_minor'' = Some (PyInt 490)"
    unfolding g [OF mem(1)] g [OF mem(2)] g [OF mem(3)] g [OF mem(4)] g [OF mem(5)] g [OF mem(6)] g [OF mem(7)]
      g [OF mem(8)] g [OF mem(9)] g [OF mem(10)] by (simp_all add: ev freeze_idem)
  have u: "ct_utt_id c \<noteq> []" using content_id_Inr [OF i] by auto
  let ?cs = "\<lparr>cs_idempotency = [], cs_quote_to_utt = [], cs_utts = [(ct_utt_id c, ?su)]\<rparr>"
  have "utt_served ?cs (ct_utt_id c) ?su"
    unfolding utt_served_def using v p vals content_id_trimmed [OF i] u by (simp add: require_utt_def is_space_def Let_def)
  then show ?thesis by blast
qed

section \<open>Planning\<close>

definition demo_routes :: "route_candidate list" where
  "demo_routes = [demo_route ''R1'' 4, demo_route ''R2'' 2, demo_route ''R3'' 9]"

lemma demo_rank:
  "map_sum id (map rr_candidate) (rank default_weights demo_routes demo_request (Aware (from_epoch 11)))
   = Inr [demo_route ''R2'' 2, demo_route ''R1'' 4]"
  by code_simp

lemma rmap_ok: "\<forall>x\<in>set xs. \<exists>y. f x = Inr y \<and> P y \<Longrightarrow> \<exists>ys. rmap f xs = Inr ys \<and> (\<forall>y\<in>set ys. P y)"
  by (induction xs) (auto simp: rbind_eq_Inr)

lemma plain_seq_iff: "plain_seq vs \<longleftrightarrow> (\<forall>v\<in>set vs. plain v)"
  by (induction vs) auto

lemma demo_route_payload: "\<exists>v. candidate_to_payload (demo_route rid cost) = Inr v \<and> plain v" if "text_ok rid" "0 \<le> cost" for rid cost
proof -
  have t: "text_ok ''BANK''" "text_ok ''RTGS''" "text_ok ''prov''" "text_ok ''adapter''" "text_ok ''KES''" "text_ok ''kes''"
    by code_simp+
  show ?thesis using that t
    by (simp add: candidate_to_payload_def candidate_normalized_def demo_route_def require_text_ok require_minor_units_def
        require_bps_def plain_obj)
qed

lemma demo_texts: "text_ok ''R1''" "text_ok ''R2''"
  by code_simp+

lemma demo_planned:
  assumes u: "utt_served contracts u su"
  shows "\<exists>p. plan_for demo_platform demo_keys contracts default_weights u demo_routes (Aware (from_epoch 11)) = Inr p
     \<and> map rr_candidate (pl_ranked_routes p) = [demo_route ''R2'' 2, demo_route ''R1'' 4]
     \<and> pl_max_attempts p = 2 \<and> pl_routing_budget_minor p = 5 \<and> pl_routing_cost_spent_minor p = 0"
proof -
  obtain rs where rs: "rank default_weights demo_routes demo_request (Aware (from_epoch 11)) = Inr rs"
    and c: "map rr_candidate rs = [demo_route ''R2'' 2, demo_route ''R1'' 4]"
    using demo_rank by (auto simp: map_sum_def split: sum.splits)
  have vu: "verified_utt demo_platform demo_keys contracts u = Inr su"
    using u by (simp add: utt_served_def verified_utt_def require_text_def)
  let ?utt = "env_payload su"
  have items: "int_item ?utt ''amount_minor'' = Inr 500" "str_item ?utt ''currency_from'' = Inr ''KES''"
    "str_item ?utt ''currency_to'' = Inr ''KES''" "int_item ?utt ''routing_budget_minor'' = Inr 5"
    "int_item ?utt ''max_attempts'' = Inr 2" "py_item ?utt ''routing_policy_id'' = Inr (PyStr ''rp'')"
    "institution_of ?utt ''payer'' = Inr ''BANK''" "institution_of ?utt ''beneficiary'' = Inr ''BANK''"
    using u by (simp_all add: utt_served_def int_item_def str_item_def institution_of_def rbind_eq_Inr py_item_Inr
        int_operand_def demo_actor_def)
  obtain h where h: "py_item (env_protected su) ''payload_sha256'' = Inr (PyStr h)"
    using u by (auto simp: utt_served_def py_item_Inr)
  have "\<forall>r\<in>set rs. \<exists>v. ranked_to_payload r = Inr v \<and> plain v"
  proof
    fix r assume "r \<in> set rs"
    then have "rr_candidate r \<in> set (map rr_candidate rs)" by simp
    then have "\<exists>v. candidate_to_payload (rr_candidate r) = Inr v \<and> plain v"
      unfolding c using demo_route_payload demo_texts by auto
    then show "\<exists>v. ranked_to_payload r = Inr v \<and> plain v" by (auto simp: ranked_to_payload_def plain_obj)
  qed
  then obtain routes where routes: "rmap ranked_to_payload rs = Inr routes" "\<forall>v\<in>set routes. plain v"
    using rmap_ok by metis
  have "plain (obj [(''utt_id'', PyStr u), (''utt_payload_sha256'', PyStr h), (''routing_policy_id'', PyStr ''rp''),
      (''ranked_routes'', PyList routes), (''created_at'', PyInt 11)])"
    using routes by (simp add: plain_obj plain_seq_iff)
  then obtain i where i: "content_id ''PLAN'' (obj [(''utt_id'', PyStr u), (''utt_payload_sha256'', PyStr h),
      (''routing_policy_id'', PyStr ''rp''), (''ranked_routes'', PyList routes), (''created_at'', PyInt 11)]) = Inr i"
    using content_id_ok by blast
  have "rs \<noteq> []" using c by auto
  then show ?thesis
    using rs c i routes(1) items h
    by (simp add: plan_for_def vu demo_request_def)
qed

lemma create_plan_fresh:
  assumes "require_utt (pl_utt_id p) contracts = Inr su"
  shows "create_plan contracts p empty_execution_store = (Inr p, \<lparr>ex_plans = [(pl_plan_id p, p)],
     ex_plan_by_utt = [(pl_utt_id p, pl_plan_id p)], ex_attempts = []\<rparr>)"
  using assms by (simp add: create_plan_def sbind_def slift_def empty_execution_store_def)

section \<open>Starting the first attempt\<close>

definition demo_rtts :: rtt_service where
  "demo_rtts = \<lparr>rs_rtt_signing_key_id = ''ke'', rs_endpoints = Some (validate_endpoint demo_directory), rs_allow_unverified = False\<rparr>"

lemma demo_parties:
  "rbind (py_item (freeze (demo_actor ''alice'' ''User'' ''BD'' DEBIT)) ''endpoint'') endpoint_from_payload = Inr (demo_endpoint ''BD'' DEBIT)"
  "rbind (py_item (freeze (demo_actor ''bob'' ''Bob'' ''BC'' CREDIT)) ''endpoint'') endpoint_from_payload = Inr (demo_endpoint ''BC'' CREDIT)"
  "str_item (freeze (demo_actor ''alice'' ''User'' ''BD'' DEBIT)) ''actor_id'' = Inr ''alice''"
  "str_item (freeze (demo_actor ''bob'' ''Bob'' ''BC'' CREDIT)) ''actor_id'' = Inr ''bob''"
  "validate_endpoint demo_directory ''alice'' (demo_endpoint ''BD'' DEBIT) DEBIT ''KES'' = Inr ()"
  "validate_endpoint demo_directory ''bob'' (demo_endpoint ''BC'' CREDIT) CREDIT ''KES'' = Inr ()"
  by code_simp+

lemma validate_party_alt:
  "validate_party vep utt party role ck =
     rbind (str_item party ''actor_id'') (\<lambda>actor.
     rbind (rbind (py_item party ''endpoint'') endpoint_from_payload) (\<lambda>endpoint.
     rbind (str_item utt ck) (\<lambda>currency. vep actor endpoint role currency)))"
  by (simp add: validate_party_def rbind_assoc)

lemma demo_start_checks:
  assumes "utt_served contracts u su"
  shows "start_checks demo_platform demo_keys contracts demo_rtts u = Inr su"
proof -
  have vu: "verified_utt demo_platform demo_keys contracts u = Inr su"
    using assms by (simp add: utt_served_def verified_utt_def require_text_def)
  let ?utt = "env_payload su"
  have i: "str_item ?utt ''currency_from'' = Inr ''KES''" "str_item ?utt ''currency_to'' = Inr ''KES''"
    "py_item ?utt ''payer'' = Inr (freeze (demo_actor ''alice'' ''User'' ''BD'' DEBIT))"
    "py_item ?utt ''beneficiary'' = Inr (freeze (demo_actor ''bob'' ''Bob'' ''BC'' CREDIT))"
    "py_get ?utt ''endpoint_model_version'' = PyInt 1"
    using assms by (simp_all add: utt_served_def str_item_def rbind_eq_Inr py_item_Inr)
  show ?thesis
    by (simp add: start_checks_def vu i demo_rtts_def validate_party_alt demo_parties)
qed

lemma new_attempt_ok:
  assumes "executable p = Inr ()" "select_from p (pl_remaining_route_ids p) = Inr (Some sel)"
    and "candidate_to_payload (rr_candidate sel) = Inr route" "plain route"
    and "pget (env_protected su) ''payload_sha256'' = Some (PyStr h)"
    and "can_sign P ks (rs_rtt_signing_key_id svc) EXECUTION_SIGNING t"
  shows "\<exists>p' a. new_attempt P ks svc utt_id su p t = Inr (p', a)"
proof -
  have plain_opt: "plain (opt_str v)" for v by (cases v) (simp_all add: opt_str_def)
  have comps: "plain (obj (map (\<lambda>(k, n). (k, PyInt n)) xs))" for xs by (auto simp: plain_obj)
  let ?m = "obj [(''utt_id'', PyStr utt_id), (''plan_id'', PyStr (pl_plan_id p)), (''attempt_number'', PyInt (pl_attempts_used p + 1)),
     (''route_id'', PyStr (rc_route_id (rr_candidate sel))), (''previous_rtt_id'', opt_str (pl_previous_rtt_id p)),
     (''created_at'', PyInt (epoch t))]"
  have "plain ?m" by (simp add: plain_obj plain_opt)
  then obtain i where i: "content_id ''RTT'' ?m = Inr i" using content_id_ok by blast
  let ?q = "obj [(''rtt_id'', PyStr i), (''utt_id'', PyStr utt_id), (''utt_payload_sha256'', PyStr h),
           (''plan_id'', PyStr (pl_plan_id p)), (''attempt_number'', PyInt (pl_attempts_used p + 1)), (''route'', route),
           (''route_score_bps'', PyInt (rr_score_bps sel)),
           (''route_component_scores'', obj (map (\<lambda>(k, n). (k, PyInt n)) (rr_component_scores sel))),
           (''previous_rtt_id'', opt_str (pl_previous_rtt_id p)),
           (''previous_route_id'', opt_str (pl_previous_route_id p)),
           (''replay_generation'', PyInt (pl_attempts_used p + 1 - 1)),
           (''birth_state'', PyStr (attempt_state_value ATT_CREATED)), (''created_at'', PyInt (epoch t)),
           (''custody_model'', PyStr ''NON_CUSTODIAL'')]"
  have "plain ?q" using assms(4) comps by (simp add: plain_obj plain_opt)
  then obtain e where "sign_artifact P ks RTT ?q (rs_rtt_signing_key_id svc) (Aware t) = Inr e"
    using can_sign_ok [of P ks "rs_rtt_signing_key_id svc" RTT t] assms(6) by auto
  moreover have "py_item (env_protected su) ''payload_sha256'' = Inr (PyStr h)" using assms(5) by (simp add: py_item_Inr)
  ultimately show ?thesis using assms(1-3) i by (simp add: new_attempt_def Let_def)
qed

lemma demo_started:
  "\<exists>contracts u su p s1 a s2 p' r2. utt_served contracts u su \<and> rr_candidate r2 = demo_route ''R2'' 2
    \<and> select_from p (pl_remaining_route_ids p) = Inr (Some r2)
    \<and> new_attempt demo_platform demo_keys demo_rtts u su p (from_epoch 12) = Inr (p', a)
    \<and> s2 = put_attempt_plan a p' s1
    \<and> build_plan demo_platform demo_keys contracts default_weights u demo_routes (Aware (from_epoch 11))
      empty_execution_store = (Inr p, s1)
    \<and> start_next demo_platform demo_keys contracts demo_rtts u (Aware (from_epoch 12)) s1 = (Inr a, s2)"
proof -
  obtain contracts u su where u: "utt_served contracts u su" using demo_utt by blast
  obtain p where p: "plan_for demo_platform demo_keys contracts default_weights u demo_routes (Aware (from_epoch 11)) = Inr p"
    and c: "map rr_candidate (pl_ranked_routes p) = [demo_route ''R2'' 2, demo_route ''R1'' 4]"
    and n: "pl_max_attempts p = 2" "pl_routing_budget_minor p = 5" "pl_routing_cost_spent_minor p = 0"
    using demo_planned [OF u] by (elim exE conjE) simp
  note fresh = plan_for_fresh [OF p]
  have ru: "require_utt (pl_utt_id p) contracts = Inr su" using u fresh by (simp add: utt_served_def)
  let ?s1 = "\<lparr>ex_plans = [(pl_plan_id p, p)], ex_plan_by_utt = [(pl_utt_id p, pl_plan_id p)], ex_attempts = []\<rparr>"
  have b: "build_plan demo_platform demo_keys contracts default_weights u demo_routes (Aware (from_epoch 11))
      empty_execution_store = (Inr p, ?s1)"
    using p create_plan_fresh [OF ru] by (simp add: build_plan_def sbind_def slift_def)
  obtain r2 r1 where rr: "pl_ranked_routes p = [r2, r1]" "rr_candidate r2 = demo_route ''R2'' 2" "rr_candidate r1 = demo_route ''R1'' 4"
    using c by (auto simp: map_eq_Cons_conv)
  have rem: "pl_remaining_route_ids p = [''R2'', ''R1'']"
    using p c unfolding plan_for_def Let_def by (elim rbind_InrE) (auto simp: demo_route_def simp flip: map_map)
  have sel: "select_from p (pl_remaining_route_ids p) = Inr (Some r2)"
    by (simp add: rem routes_by_id_def rr demo_route_def budget_remaining_def n)
  have ex: "executable p = Inr ()" using fresh n by (simp add: executable_Inr history_ok_def)
  obtain route where route: "candidate_to_payload (rr_candidate r2) = Inr route" "plain route"
    using demo_route_payload [OF demo_texts(2), of 2] rr by auto
  obtain h where h: "pget (env_protected su) ''payload_sha256'' = Some (PyStr h)" using u by (auto simp: utt_served_def)
  have k: "can_sign demo_platform demo_keys (rs_rtt_signing_key_id demo_rtts) EXECUTION_SIGNING (from_epoch 12)"
    by (simp add: demo_rtts_def from_epoch_def demo_can_sign)
  obtain p' a where na: "new_attempt demo_platform demo_keys demo_rtts u su p (from_epoch 12) = Inr (p', a)"
    using new_attempt_ok [OF ex sel route h k] by blast
  have ids: "pl_plan_id p' = pl_plan_id p" "pl_utt_id p' = pl_utt_id p" "at_utt_id a = u" "at_plan_id a = pl_plan_id p"
    using na by (auto elim!: new_attemptD)
  have "start_next demo_platform demo_keys contracts demo_rtts u (Aware (from_epoch 12)) ?s1 = (Inr a, put_attempt_plan a p' ?s1)"
    using na ids fresh ru ex demo_start_checks [OF u]
    by (simp add: start_next_def sbind_def slift_def sget_def sret_def require_plan_for_utt_def commit_start_def executable_Inr)
  with b u na sel rr(2) show ?thesis by blast
qed

section \<open>Runs that reach every hypothesis\<close>

lemma demo_in_flight:
  obtains s a p where "exec_reach demo_platform empty_execution_store s" "dict_get (ex_attempts s) (at_rtt_id a) = Some a"
    "at_state a = ATT_CREATED" "dict_get (ex_plans s) (at_plan_id a) = Some p"
proof -
  obtain contracts u p s1 a s2 where
    b: "build_plan demo_platform demo_keys contracts default_weights u demo_routes (Aware (from_epoch 11))
      empty_execution_store = (Inr p, s1)"
    and st: "start_next demo_platform demo_keys contracts demo_rtts u (Aware (from_epoch 12)) s1 = (Inr a, s2)"
    using demo_started by (elim exE conjE) simp
  have reach: "exec_reach demo_platform empty_execution_store s2"
    by (rule reach_step [OF reach_step [OF reach_refl step_plan [OF b]] step_start [OF st]])
  from st obtain t su q p' where na: "new_attempt demo_platform demo_keys demo_rtts u su q t = Inr (p', a)"
    and cs: "commit_start contracts (pl_version q) p' a s1 = (Inr (), s2)" by (rule start_next_Inr)
  have "s2 = put_attempt_plan a p' s1" using cs by (rule commit_start_Inr)
  moreover have "at_state a = ATT_CREATED" "pl_plan_id p' = at_plan_id a" using na by (auto elim!: new_attemptD)
  ultimately show thesis using that [OF reach, of a p'] by (simp add: put_attempt_plan_def)
qed

lemma reach_trans_step: "exec_reach P s t \<Longrightarrow> exec_step P t u \<Longrightarrow> exec_reach P s u"
  by (rule reach_step)

lemma demo_code: "text_ok ''timeout''"
  by code_simp

theorem execution_history_witness:
  "\<exists>(s :: execution_store) k p. dict_get (ex_plans s) k = Some p \<and> attempts_of (ex_attempts s) k \<noteq> []
     \<and> int (length (attempts_of (ex_attempts s) k)) = pl_attempts_used p"
proof -
  obtain s a p where r: "exec_reach demo_platform empty_execution_store s" and a: "dict_get (ex_attempts s) (at_rtt_id a) = Some a"
    and p: "dict_get (ex_plans s) (at_plan_id a) = Some p" by (rule demo_in_flight)
  have "a \<in> set (attempts_of (ex_attempts s) (at_plan_id a))" using attempts_of_mem [OF reachable_inv [OF r]] a by blast
  then have "attempts_of (ex_attempts s) (at_plan_id a) \<noteq> []" by auto
  then show ?thesis using execution_history [OF r p refl] p by blast
qed

theorem outcome_always_recordable_witness:
  "\<exists>s r p s'. record_success r 3 (Aware 99) s = (Inr p, s') \<and> pl_status p = PLAN_FINALIZED"
proof -
  obtain s a p where r: "exec_reach demo_platform empty_execution_store s" and a: "dict_get (ex_attempts s) (at_rtt_id a) = Some a"
    "at_state a = ATT_CREATED" by (rule demo_in_flight)
  from outcome_always_recordable [OF r a _ demo_code, of 3 99 DISP_TERMINAL] show ?thesis by auto
qed

theorem settled_is_final_witness:
  "\<exists>s t k p. exec_reach demo_platform s t \<and> dict_get (ex_plans s) k = Some p \<and> settled p \<and> dict_get (ex_plans t) k = Some p"
proof -
  obtain s a p where r: "exec_reach demo_platform empty_execution_store s" and a: "dict_get (ex_attempts s) (at_rtt_id a) = Some a"
    "at_state a = ATT_CREATED" by (rule demo_in_flight)
  obtain q s' where q: "record_success (at_rtt_id a) 3 (Aware 99) s = (Inr q, s')" "pl_status q = PLAN_FINALIZED"
    "dict_get (ex_plans s') (at_plan_id a) = Some q"
    using record_success_ok [OF reachable_inv [OF r] a, of 3 99] by auto
  have r': "exec_reach demo_platform empty_execution_store s'" by (rule reach_step [OF r step_success [OF q(1)]])
  obtain x s'' where again: "record_success (at_rtt_id a) 3 (Aware 99) s' = (x, s'')" by (cases "record_success (at_rtt_id a) 3 (Aware 99) s'")
  have st: "exec_reach demo_platform s' s''" by (rule reach_step [OF reach_refl step_success [OF again]])
  have "settled q" using q(2) by (simp add: settled_def)
  then show ?thesis using settled_is_final [OF st r' q(3)] st q(3) by blast
qed

lemma demo_failed:
  obtains s and a :: rtt_attempt and p s' where "exec_reach demo_platform empty_execution_store s" "strip (at_rtt_id a) = at_rtt_id a"
    "record_failure (at_rtt_id a) ''timeout'' d 3 (Aware 99) s = (Inr p, s')"
    "exec_reach demo_platform empty_execution_store s'" "dict_get (ex_plans s') (at_plan_id a) = Some p"
    "d = DISP_RECONCILIATION_REQUIRED \<longrightarrow> pl_status p = PLAN_RECONCILIATION_REQUIRED"
proof -
  obtain s a p where r: "exec_reach demo_platform empty_execution_store s" and a: "dict_get (ex_attempts s) (at_rtt_id a) = Some a"
    "at_state a = ATT_CREATED" by (rule demo_in_flight)
  note inv = reachable_inv [OF r]
  have st: "strip (at_rtt_id a) = at_rtt_id a" using exec_inv_attempt(2) [OF inv a(1)] .
  obtain q s' where q: "record_failure (at_rtt_id a) ''timeout'' d 3 (Aware 99) s = (Inr q, s')"
    "dict_get (ex_plans s') (at_plan_id a) = Some q" "d = DISP_RECONCILIATION_REQUIRED \<longrightarrow> pl_status q = PLAN_RECONCILIATION_REQUIRED"
    using record_failure_ok [OF inv _ a(2) _ demo_code, of "at_rtt_id a" 3 d 99] a(1) st by auto
  show thesis by (rule that [OF r st q(1) reach_step [OF r step_failure [OF st q(1)]] q(2,3)])
qed

theorem unknown_outcome_blocks_witness:
  "\<exists>s r k (p :: execution_plan) p' s'. dict_get (ex_plans s) k = Some p \<and> pl_status p = PLAN_RECONCILIATION_REQUIRED
     \<and> pl_current_rtt_id p = Some r \<and> untouched k s (snd (record_success '' R'' 3 (Aware 100) s))
     \<and> resolve_reconciliation r True 3 None DISP_TERMINAL (Aware 100) s = (Inr p', s') \<and> pl_status p' = PLAN_FINALIZED"
proof -
  obtain s and a :: rtt_attempt and p s' where r: "exec_reach demo_platform empty_execution_store s'" and p: "dict_get (ex_plans s') (at_plan_id a) = Some p"
    and st: "DISP_RECONCILIATION_REQUIRED = DISP_RECONCILIATION_REQUIRED \<longrightarrow> pl_status p = PLAN_RECONCILIATION_REQUIRED"
    by (rule demo_failed [where d = DISP_RECONCILIATION_REQUIRED])
  from st have st': "pl_status p = PLAN_RECONCILIATION_REQUIRED" by simp
  obtain r where c: "pl_current_rtt_id p = Some r" "\<forall>q cost at. untouched (at_plan_id a) s' (snd (record_success q cost at s'))"
    and f: "\<forall>ok cost code d t. 0 \<le> cost \<and> (ok \<or> d \<noteq> DISP_RECONCILIATION_REQUIRED \<and> (falsy code \<or> text_ok (the code))) \<longrightarrow>
        (\<exists>p' u. resolve_reconciliation r ok cost code d (Aware t) s' = (Inr p', u)
          \<and> dict_get (ex_plans u) (at_plan_id a) = Some p' \<and> pl_status p' \<noteq> PLAN_RECONCILIATION_REQUIRED \<and> pl_current_rtt_id p' = None
          \<and> (ok \<longrightarrow> pl_status p' = PLAN_FINALIZED))"
    using unknown_outcome_blocks [OF r p st'] by (elim exE conjE)
  obtain p' u where "resolve_reconciliation r True 3 None DISP_TERMINAL (Aware 100) s' = (Inr p', u)" "pl_status p' = PLAN_FINALIZED"
    using f [rule_format, of 3 True DISP_TERMINAL None 100] by auto
  with c st' p show ?thesis by blast
qed

theorem retry_offered_exactly_witness:
  "\<exists>s r p s'. record_failure r ''timeout'' DISP_RETRYABLE 3 (Aware 99) s = (Inr p, s')
     \<and> (\<exists>x. select_from p (pl_remaining_route_ids p) = Inr x)"
proof -
  obtain s and a :: rtt_attempt and p s' where r: "exec_reach demo_platform empty_execution_store s" "strip (at_rtt_id a) = at_rtt_id a"
    "record_failure (at_rtt_id a) ''timeout'' DISP_RETRYABLE 3 (Aware 99) s = (Inr p, s')"
    by (rule demo_failed [where d = DISP_RETRYABLE])
  from retry_offered_exactly [OF r] r(3) show ?thesis by blast
qed

theorem padded_report_strands_plan_witness:
  "\<exists>s r p s'. record_failure r ''timeout'' DISP_RECONCILIATION_REQUIRED 3 (Aware 99) s = (Inr p, s')
     \<and> (\<exists>e. resolve_reconciliation r True 3 None DISP_TERMINAL (Aware 100) s' = (Inl e, s'))"
proof -
  obtain s a p where r: "exec_reach demo_platform empty_execution_store s" and a: "dict_get (ex_attempts s) (at_rtt_id a) = Some a"
    "at_state a = ATT_CREATED" by (rule demo_in_flight)
  note inv = reachable_inv [OF r] and ia = exec_inv_attempt [OF reachable_inv [OF r] a(1)]
  let ?r = "CHR '' '' # at_rtt_id a"
  have st: "strip ?r = at_rtt_id a" using ia(2) by (simp add: strip_def is_space_def Let_def)
  have ne: "?r \<noteq> strip ?r" unfolding st by simp
  obtain q s' where q: "record_failure ?r ''timeout'' DISP_RECONCILIATION_REQUIRED 3 (Aware 99) s = (Inr q, s')"
    using record_failure_ok [OF inv _ a(2) _ demo_code, of ?r 3 DISP_RECONCILIATION_REQUIRED 99] a(1) st by auto
  from padded_report_strands_plan [OF r ne refl q] q show ?thesis by blast
qed

theorem commit_no_lost_update_witness:
  "\<exists>s p a s'. commit_transition 1 p a s = (Inr (), s') \<and> (\<exists>e. commit_transition 1 p a s' = (Inl e, s'))"
proof -
  let ?p = "\<lparr>pl_plan_id = ''P'', pl_utt_id = ''U'', pl_ranked_routes = [], pl_remaining_route_ids = [], pl_failures = [],
     pl_attempts_used = 1, pl_max_attempts = 2, pl_routing_budget_minor = 0, pl_routing_cost_spent_minor = 0,
     pl_current_rtt_id = Some ''R'', pl_previous_rtt_id = None, pl_previous_route_id = None, pl_status = PLAN_ACTIVE,
     pl_successful_route_id = None, pl_version = 1, pl_created_at = 0, pl_updated_at = 0\<rparr>"
  let ?a = "\<lparr>at_rtt_id = ''R'', at_utt_id = ''U'', at_plan_id = ''P'', at_attempt_number = 1, at_route_id = ''X'',
     at_signed_rtt = mk_envelope PyNone PyNone '''', at_state = ATT_CREATED, at_failure_code = None, at_actual_cost_minor = None,
     at_created_at = 0, at_updated_at = 0\<rparr>"
  let ?s = "\<lparr>ex_plans = [(''P'', ?p)], ex_plan_by_utt = [(''U'', ''P'')], ex_attempts = [(''R'', ?a)]\<rparr>"
  have c: "commit_transition 1 (?p\<lparr>pl_version := 2\<rparr>) ?a ?s = (Inr (), put_attempt_plan ?a (?p\<lparr>pl_version := 2\<rparr>) ?s)"
    by (simp add: commit_transition_def)
  have "\<exists>e. commit_transition 1 (?p\<lparr>pl_version := 2\<rparr>) ?a (put_attempt_plan ?a (?p\<lparr>pl_version := 2\<rparr>) ?s)
      = (Inl e, put_attempt_plan ?a (?p\<lparr>pl_version := 2\<rparr>) ?s)"
    by (rule commit_no_lost_update [OF disjI2 [OF c], THEN conjunct2]) simp_all
  with c show ?thesis by blast
qed

end
