(* ===== verification/Submission_Run.thy ===== *)
theory Submission_Run
  imports Submission_Properties Execution_Run
begin

text \<open>
  A provider submission prepared for the first attempt of an accepted UTT: quote, acceptance, plan, RTT and
  submission are those the services produce.  It instantiates the properties of submissions and of the outbox.
\<close>

definition demo_references :: endpoint_references where
  "demo_references = [((''BANK'', ''BD''), ''acc-1''), ((''BANK'', ''BC''), ''acc-2'')]"

definition demo_submissions :: submission_service where
  "demo_submissions = \<lparr>ss_resolve = resolve_endpoint demo_references, ss_event_signing_key_id = ''ke''\<rparr>"

lemma py_item_Some: "pget d k = Some v \<Longrightarrow> py_item d k = Inr v"
  by (simp add: py_item_Inr)

lemma demo_attempt:
  "\<exists>contracts execs a su route. checked_attempt execs (at_rtt_id a) = Inr a \<and> checked_utt demo_platform demo_keys contracts a = Inr su
    \<and> utt_served contracts (at_utt_id a) su \<and> candidate_to_payload (demo_route ''R2'' 2) = Inr route
    \<and> pget (env_payload (at_signed_rtt a)) ''route'' = Some (freeze route)"
proof -
  obtain contracts u su p s1 a s2 p' r2 where u: "utt_served contracts u su" and r2: "rr_candidate r2 = demo_route ''R2'' 2"
    and sel: "select_from p (pl_remaining_route_ids p) = Inr (Some r2)"
    and na: "new_attempt demo_platform demo_keys demo_rtts u su p (from_epoch 12) = Inr (p', a)"
    and s2: "s2 = put_attempt_plan a p' s1"
    using demo_started by (elim exE conjE) simp
  have att: "at_state a = ATT_CREATED" "at_plan_id a = pl_plan_id p'" "at_utt_id a = u" "strip (at_rtt_id a) = at_rtt_id a"
    "at_rtt_id a \<noteq> []" "pl_current_rtt_id p' = Some (at_rtt_id a)"
    using na by (auto elim!: new_attemptD)
  have ca: "checked_attempt s2 (at_rtt_id a) = Inr a"
    using att s2 by (simp add: checked_attempt_def require_text_def require_attempt_def require_plan_def put_attempt_plan_def)
  obtain h where h: "pget (env_protected su) ''payload_sha256'' = Some (PyStr h)" using u by (auto simp: utt_served_def)
  obtain payload route where sg: "sign_artifact demo_platform demo_keys RTT payload ''ke'' (Aware (from_epoch 12)) = Inr (at_signed_rtt a)"
    and route: "candidate_to_payload (demo_route ''R2'' 2) = Inr route"
    and pl: "pget payload ''route'' = Some route" "pget payload ''utt_payload_sha256'' = Some (PyStr h)"
    using na h sel r2 unfolding new_attempt_def Let_def
    by (elim rbind_InrE) (auto simp: demo_rtts_def py_item_Inr elim!: rbind_InrE)
  have v: "verify_artifact demo_platform demo_keys (at_signed_rtt a) (Some RTT) False =
      Inr \<lparr>vr_valid = True, vr_reason = ''VALID'', vr_key_id = Some ''ke'', vr_artifact_type = Some RTT\<rparr>"
    using signed_now_verifies [OF demo_correct demo_keys_inv sg] by simp
  have get: "pget (env_payload (at_signed_rtt a)) k = map_option freeze (pget payload k)" for k
    using sg by (auto elim!: sign_artifactD)
  have "checked_utt demo_platform demo_keys contracts a = Inr su"
    using u att v py_item_Some [OF h] py_item_Some [of "env_payload (at_signed_rtt a)" "''utt_payload_sha256''"] get pl
    by (simp add: checked_utt_def utt_served_def)
  moreover have "pget (env_payload (at_signed_rtt a)) ''route'' = Some (freeze route)" using get pl(1) by simp
  ultimately show ?thesis using ca u att(3) route by blast
qed

lemma demo_route_text: "strip ''prov'' = ''prov''" "''prov'' \<noteq> []"
  by code_simp+

lemma demo_upper: "upper ''prov'' = ''PROV''"
  by code_simp

lemma demo_prepared:
  "\<exists>contracts execs rtt r q e. prepared demo_platform demo_keys contracts execs demo_submissions rtt (from_epoch 13) = Inr (r, q, e)
    \<and> pr_provider_id q = ''PROV''"
proof -
  obtain contracts execs a su route where ca: "checked_attempt execs (at_rtt_id a) = Inr a"
    and cu: "checked_utt demo_platform demo_keys contracts a = Inr su" and u: "utt_served contracts (at_utt_id a) su"
    and route: "candidate_to_payload (demo_route ''R2'' 2) = Inr route" "pget (env_payload (at_signed_rtt a)) ''route'' = Some (freeze route)"
    using demo_attempt by (elim exE conjE) simp
  have rt: "pget route ''provider'' = Some (PyStr ''prov'')" "pget route ''rail'' = Some (PyStr ''RTGS'')" "pget route ''adapter'' = Some (PyStr ''adapter'')"
    using route(1) unfolding candidate_to_payload_def by (elim rbind_InrE; auto simp: demo_route_def)+
  have ut: "pget (env_payload su) ''amount_minor'' = Some (PyInt 500)" "pget (env_payload su) ''currency_from'' = Some (PyStr ''KES'')"
    "pget (env_payload su) ''currency_to'' = Some (PyStr ''KES'')" "pget (env_payload su) ''receive_amount_minor'' = Some (PyInt 490)"
    using u by (simp_all add: utt_served_def)
  have ep: "party_endpoint (env_payload su) ''payer'' = Inr (freeze (the (pget (demo_actor ''alice'' ''User'' ''BD'' DEBIT) ''endpoint'')))"
    "party_endpoint (env_payload su) ''beneficiary'' = Inr (freeze (the (pget (demo_actor ''bob'' ''Bob'' ''BC'' CREDIT) ''endpoint'')))"
    using u by (simp_all add: utt_served_def party_endpoint_def py_item_Some demo_actor_def rbind_eq_Inr py_item_Inr)
  have items: "str_item (freeze (the (pget (demo_actor x n b ro) ''endpoint''))) ''institution_id'' = Inr ''BANK''"
    "str_item (freeze (the (pget (demo_actor x n b ro) ''endpoint''))) ''account_binding_id'' = Inr b" for x n b ro
    by (simp_all add: demo_actor_def str_item_def py_item_Some)
  have "plain (idempotency_material (upper ''prov'') (at_rtt_id a))" by (simp add: idempotency_material_def plain_obj)
  then obtain k where k: "content_id ''R1IDEM'' (idempotency_material (upper ''prov'') (at_rtt_id a)) = Inr k" using content_id_ok by blast
  have "\<exists>q. build_request demo_submissions (at_rtt_id a) a (env_payload su) = Inr q \<and> pr_provider_id q = ''PROV''"
    using k by (simp add: build_request_def py_item_Some route rt ut ep items demo_submissions_def resolve_endpoint_def demo_references_def
        authority_text_def demo_route_text Let_def demo_upper [symmetric] request_material_def payload_digest_def canonical_plain plain_obj)
  then obtain q where q: "build_request demo_submissions (at_rtt_id a) a (env_payload su) = Inr q" and pq: "pr_provider_id q = ''PROV''" by blast
  have "plain (obj [(''rtt_id'', PyStr (pr_rtt_id q)), (''request_sha256'', PyStr (pr_request_sha256 q))])" by (simp add: plain_obj)
  then obtain i where i: "content_id ''SUB'' (obj [(''rtt_id'', PyStr (pr_rtt_id q)), (''request_sha256'', PyStr (pr_request_sha256 q))]) = Inr i"
    using content_id_ok by blast
  obtain r where r: "new_submission q (from_epoch 13) = Inr r" using i by (simp add: new_submission_def)
  have k: "can_sign demo_platform demo_keys (ss_event_signing_key_id demo_submissions) EXECUTION_SIGNING (from_epoch 13)"
    by (simp add: demo_submissions_def from_epoch_def demo_can_sign)
  obtain e where "submission_event demo_platform demo_keys demo_submissions r ''PROVIDER_SUBMISSION_PREPARED''
      (obj [(''request_sha256'', PyStr (pr_request_sha256 q))]) (from_epoch 13) = Inr e"
    using submission_event_ok [OF k, of "obj [(''request_sha256'', PyStr (pr_request_sha256 q))]"] by (auto simp: plain_obj)
  then have "prepared demo_platform demo_keys contracts execs demo_submissions (at_rtt_id a) (from_epoch 13) = Inr (r, q, e)"
    using ca cu q r by (simp add: prepared_def)
  then show ?thesis using pq by blast
qed

section \<open>Submissions\<close>

lemma advances_keeps: "advances s x s' \<Longrightarrow> submission_of s k = Some r \<Longrightarrow> submission_of s' k \<noteq> None"
  using advances_of by simp

lemma demo_prepare_run:
  obtains contracts execs rtt r q s where
    "prepare_submission demo_platform demo_keys contracts execs demo_submissions rtt (Aware (from_epoch 13)) empty_operations_store = (Inr (r, q), s)"
    "submission_of s rtt = Some r" "sb_state r = SUB_PREPARED" "sb_version r = 1"
proof -
  obtain contracts execs rtt r q e where p: "prepared demo_platform demo_keys contracts execs demo_submissions rtt (from_epoch 13) = Inr (r, q, e)"
    using demo_prepared by (elim exE conjE)
  have n: "new_submission q (from_epoch 13) = Inr r" and rtt: "pr_rtt_id q = rtt"
    using p unfolding prepared_def build_request_def Let_def by (elim rbind_InrE; force)+
  then have r: "sb_request_sha256 r = pr_request_sha256 q" "sb_rtt_id r = rtt" "sb_state r = SUB_PREPARED" "sb_version r = 1"
    by (auto simp: new_submission_def rbind_eq_Inr)
  let ?s = "\<lparr>op_submissions = [(sb_rtt_id r, r)], op_rtt_by_idempotency = [(sb_idempotency_key r, sb_rtt_id r)], op_outbox = [(ob_event_id e, e)]\<rparr>"
  have "prepare_submission demo_platform demo_keys contracts execs demo_submissions rtt (Aware (from_epoch 13)) empty_operations_store = (Inr (r, q), ?s)"
    using p r by (simp add: prepare_submission_def sbind_def slift_def sret_def store_prepare_def empty_operations_store_def)
  then show thesis using that r by (simp add: submission_of_def)
qed

lemma demo_system:
  obtains y rtt r where "submission_step\<^sup>*\<^sup>* system_start y" "submission_of (sy_store y) rtt = Some r" "sb_state r = SUB_PREPARED" "sb_version r = 1"
proof -
  obtain contracts execs rtt r q s where
    p: "prepare_submission demo_platform demo_keys contracts execs demo_submissions rtt (Aware (from_epoch 13)) (sy_store system_start) = (Inr (r, q), s)"
    and s: "submission_of s rtt = Some r" "sb_state r = SUB_PREPARED" "sb_version r = 1"
    unfolding system_start_def submission_system.simps by (rule demo_prepare_run)
  let ?y = "system_start\<lparr>sy_store := s, sy_sessions := Holding r q \<lparr>ad_provider_id = ''prov'', ad_supports_idempotency = True, ad_submit = \<lambda>_. None\<rparr>
    (from_epoch 13) # sy_sessions system_start\<rparr>"
  have "submission_step\<^sup>*\<^sup>* system_start ?y" by (rule r_into_rtranclp, rule sub_prepare [OF p])
  then show thesis using that [of ?y rtt r] s by simp
qed

theorem provider_calls_safe_witness:
  "\<exists>(y :: submission_system) k r. submission_of (sy_store y) k = Some r \<and> sb_state r = SUB_PREPARED \<and> int (length (calls_of y k)) = sb_dispatch_attempts r"
proof -
  obtain y rtt r where y: "submission_step\<^sup>*\<^sup>* system_start y" "submission_of (sy_store y) rtt = Some r" "sb_state r = SUB_PREPARED" by (rule demo_system)
  show ?thesis using provider_calls_safe [OF y(1), of rtt] y by blast
qed

theorem submission_events_exact_witness:
  "\<exists>(y :: submission_system) rtt r. submission_of (sy_store y) rtt = Some r \<and> (\<exists>k e. events (sy_store y) k = Some e \<and> event_tag e = Some (rtt, 1))"
proof -
  obtain y rtt r where y: "submission_step\<^sup>*\<^sup>* system_start y" "submission_of (sy_store y) rtt = Some r" "sb_version r = 1" by (rule demo_system)
  have "\<exists>!k. \<exists>e. events (sy_store y) k = Some e \<and> event_tag e = Some (rtt, 1)"
    using submission_events_exact [OF y(1)] y(2,3) by fastforce
  then show ?thesis using y(2) by blast
qed

theorem submission_typed_witness: "\<exists>r. sb_state r = SUB_PREPARED \<and> record_ok r"
proof -
  obtain y rtt r where y: "submission_step\<^sup>*\<^sup>* system_start y" "submission_of (sy_store y) rtt = Some r" "sb_state r = SUB_PREPARED" by (rule demo_system)
  show ?thesis using submission_typed [OF y(1,2)] y(3) by blast
qed

theorem request_faithful_witness:
  "\<exists>contracts execs rtt r q e. prepared demo_platform demo_keys contracts execs demo_submissions rtt (from_epoch 13) = Inr (r, q, e)
     \<and> payload_digest (request_material q) = Inr (pr_request_sha256 q)"
proof -
  obtain contracts execs rtt r q e where p: "prepared demo_platform demo_keys contracts execs demo_submissions rtt (from_epoch 13) = Inr (r, q, e)"
    using demo_prepared by (elim exE conjE)
  then show ?thesis using request_faithful [OF p] by (elim exE conjE) blast
qed

theorem dispatch_refines_witness:
  "\<exists>contracts execs rtt x s' y'. dispatch demo_platform demo_keys contracts execs demo_submissions rtt
       \<lparr>ad_provider_id = ''PROV'', ad_supports_idempotency = False, ad_submit = \<lambda>_. None\<rparr> (Aware (from_epoch 13)) empty_operations_store = (x, s')
     \<and> s' \<noteq> empty_operations_store \<and> submission_step\<^sup>*\<^sup>* system_start y' \<and> sy_store y' = s'"
proof -
  let ?ad = "\<lparr>ad_provider_id = ''PROV'', ad_supports_idempotency = False, ad_submit = \<lambda>_. None\<rparr>"
  obtain contracts execs rtt r q s where
    p: "prepare_submission demo_platform demo_keys contracts execs demo_submissions rtt (Aware (from_epoch 13)) empty_operations_store = (Inr (r, q), s)"
    and s: "submission_of s rtt = Some r" "sb_state r = SUB_PREPARED" "sb_version r = 1" by (rule demo_prepare_run)
  obtain x s' where d: "dispatch demo_platform demo_keys contracts execs demo_submissions rtt ?ad (Aware (from_epoch 13)) (sy_store system_start) = (x, s')"
    by (cases "dispatch demo_platform demo_keys contracts execs demo_submissions rtt ?ad (Aware (from_epoch 13)) (sy_store system_start)")
  obtain y' where y': "submission_step\<^sup>*\<^sup>* system_start y'" "sy_store y' = s'" using dispatch_refines [OF d] by blast
  have ne: "\<exists>r'. submission_of s' rtt = Some r'"
    using d [unfolded system_start_def submission_system.simps]
  proof (cases rule: dispatchE)
    case (blocked r1 q1 s1)
    then show ?thesis using p s by (simp add: decide_dispatch_def guard_res_def final_state_def split: if_splits)
  next
    case (called r1 q1 s1 d s2)
    then have eq: "s1 = s" "r1 = r" "q1 = q" using p by auto
    then have s2: "submission_of s2 rtt \<noteq> None" using begin_effect [OF called(3)] advances_keeps s by blast
    show ?thesis
    proof (cases x)
      case (Inl e)
      then have "s' = s2" using complete_raises called(4) by blast
      then show ?thesis using s2 by blast
    next
      case (Inr z)
      then show ?thesis using complete_effect called(4) advances_keeps s2 by blast
    qed
  next
    case (lost_race r1 q1 s1 e)
    then have "s' = s" using begin_raises p by fastforce
    then show ?thesis using s by blast
  qed (use p s in auto)
  then have "s' \<noteq> empty_operations_store" by (auto simp: empty_operations_store_def submission_of_def)
  then show ?thesis using d y' unfolding system_start_def submission_system.simps by blast
qed

section \<open>A final submission\<close>

definition demo_tag :: "string \<Rightarrow> int \<Rightarrow> envelope" where
  "demo_tag rtt n = \<lparr>env_protected = PyNone, env_payload = obj [(''rtt_id'', PyStr rtt), (''submission_version'', PyInt n)], env_signature = []\<rparr>"

definition demo_row :: "string \<Rightarrow> envelope \<Rightarrow> outbox_record" where
  "demo_row k env = \<lparr>ob_event_id = k, ob_aggregate_type = ''PROVIDER_SUBMISSION'', ob_aggregate_id = ''S'', ob_event_type = ''T'',
     ob_signed_event = env, ob_delivery_state = OBX_PENDING, ob_delivery_attempts = 0, ob_available_at = 5, ob_lease_owner = None,
     ob_lease_until = None, ob_last_error = None, ob_published_at = None, ob_version = 1, ob_created_at = 5, ob_updated_at = 5\<rparr>"

definition demo_adapter :: provider_adapter where
  "demo_adapter = \<lparr>ad_provider_id = ''prov'', ad_supports_idempotency = False, ad_submit = \<lambda>_. None\<rparr>"

definition demo_final :: "submission_record \<Rightarrow> provider_request \<Rightarrow> submission_system" where
  "demo_final r q = \<lparr>sy_store = \<lparr>op_submissions = [(sb_rtt_id r, r)], op_rtt_by_idempotency = [(sb_idempotency_key r, sb_rtt_id r)],
       op_outbox = [(''E1'', demo_row ''E1'' (demo_tag (sb_rtt_id r) 1)), (''E2'', demo_row ''E2'' (demo_tag (sb_rtt_id r) 2))]\<rparr>,
     sy_calls = [call_of demo_adapter q], sy_sessions = []\<rparr>"

lemma demo_final_inv:
  assumes "sb_state r = SUB_UNKNOWN" "sb_version r = 2" "record_ok r" "sb_dispatch_attempts r = 1"
    and "pr_rtt_id q = sb_rtt_id r" "pr_idempotency_key q = sb_idempotency_key r" "pr_request_sha256 q = sb_request_sha256 r"
  shows "submission_inv (demo_final r q)"
proof -
  have of: "submission_of (sy_store (demo_final r q)) = [sb_rtt_id r \<mapsto> r]"
    by (auto simp: demo_final_def submission_of_def)
  have ev: "events (sy_store (demo_final r q)) = [''E1'' \<mapsto> demo_tag (sb_rtt_id r) 1, ''E2'' \<mapsto> demo_tag (sb_rtt_id r) 2]"
    by (auto simp: demo_final_def events_def demo_row_def fun_eq_iff)
  have tag: "event_tag (demo_tag x n) = Some (x, n)" for x n by (simp add: demo_tag_def event_tag_def)
  have iff: "events (sy_store (demo_final r q)) k = Some e \<longleftrightarrow>
      k = ''E1'' \<and> e = demo_tag (sb_rtt_id r) 1 \<or> k = ''E2'' \<and> e = demo_tag (sb_rtt_id r) 2" for k e
    unfolding ev by auto
  have two: "(1 :: int) \<le> v \<and> v \<le> 2 \<longleftrightarrow> v = 1 \<or> v = 2" for v by presburger
  have "events_ok (sy_store (demo_final r q))"
    unfolding events_ok_def iff of
  proof (intro conjI allI)
    fix rtt v
    let ?L = "\<exists>k e. (k = ''E1'' \<and> e = demo_tag (sb_rtt_id r) 1 \<or> k = ''E2'' \<and> e = demo_tag (sb_rtt_id r) 2) \<and> event_tag e = Some (rtt, v)"
    have "?L \<longleftrightarrow> event_tag (demo_tag (sb_rtt_id r) 1) = Some (rtt, v) \<or> event_tag (demo_tag (sb_rtt_id r) 2) = Some (rtt, v)" by metis
    then show "?L \<longleftrightarrow> (\<exists>c. [sb_rtt_id r \<mapsto> r] rtt = Some c \<and> 1 \<le> v \<and> v \<le> sb_version c)"
      using two [of v] assms(2) unfolding tag by (cases "rtt = sb_rtt_id r") simp_all
  qed (auto simp: tag)
  moreover have "submission_ok (demo_final r q) k" for k
    unfolding submission_ok_def of using assms by (auto simp: demo_final_def calls_of_def call_of_def calls_match_def)
  moreover have "outbox_ok (sy_store (demo_final r q))" by (simp add: demo_final_def outbox_ok_def keyed_def demo_row_def)
  ultimately show ?thesis by (simp add: submission_inv_def demo_final_def)
qed

lemma new_submissionD:
  assumes "new_submission q t = Inr r"
  shows "sb_rtt_id r = pr_rtt_id q" "sb_idempotency_key r = pr_idempotency_key q" "sb_request_sha256 r = pr_request_sha256 q"
    "sb_provider_id r = pr_provider_id q" "sb_external_reference r = None" "sb_rejection_disposition r = None" "sb_provider_context r = []"
  using assms by (auto simp: new_submission_def rbind_eq_Inr)

lemma demo_final_dispatch:
  obtains contracts execs r q where "submission_inv (demo_final r q)" "submission_of (sy_store (demo_final r q)) (sb_rtt_id r) = Some r"
    "sb_state r = SUB_UNKNOWN"
    "dispatch demo_platform demo_keys contracts execs demo_submissions (sb_rtt_id r) demo_adapter (Aware (from_epoch 13)) (sy_store (demo_final r q))
       = (Inr r, sy_store (demo_final r q))"
proof -
  obtain contracts execs rtt r0 q e where p: "prepared demo_platform demo_keys contracts execs demo_submissions rtt (from_epoch 13) = Inr (r0, q, e)"
    and prov: "pr_provider_id q = ''PROV''" using demo_prepared by (elim exE conjE)
  have n: "new_submission q (from_epoch 13) = Inr r0" and rtt: "pr_rtt_id q = rtt"
    using p unfolding prepared_def build_request_def Let_def by (elim rbind_InrE; force)+
  let ?r = "r0\<lparr>sb_state := SUB_UNKNOWN, sb_version := 2, sb_dispatch_attempts := 1, sb_normalized_code := Some ''X''\<rparr>"
  have r: "sb_rtt_id ?r = rtt" "sb_idempotency_key ?r = pr_idempotency_key q" "sb_request_sha256 ?r = pr_request_sha256 q" "record_ok ?r" "sb_provider_id ?r = ''PROV''" "sb_rtt_id r0 = rtt"
    using new_submissionD [OF n] rtt prov by (simp_all add: record_ok_def final_state_def)
  let ?s = "sy_store (demo_final ?r q)"
  have get: "submission_of ?s rtt = Some ?r" using r by (simp add: demo_final_def submission_of_def)
  have inv: "submission_inv (demo_final ?r q)" by (rule demo_final_inv) (use r rtt in simp_all)
  have pr: "prepare_submission demo_platform demo_keys contracts execs demo_submissions rtt (Aware (from_epoch 13)) ?s = (Inr (?r, q), ?s)"
    using p r get by (simp add: prepare_submission_def sbind_def slift_def sret_def store_prepare_def submission_of_def)
  have "decide_dispatch demo_adapter ?r = Inr Already_final"
    using r(5) demo_upper by (simp add: decide_dispatch_def demo_adapter_def final_state_def)
  then have "dispatch demo_platform demo_keys contracts execs demo_submissions rtt demo_adapter (Aware (from_epoch 13)) ?s = (Inr ?r, ?s)"
    using pr by (simp add: dispatch_def sbind_def slift_def sret_def)
  then show thesis using that [OF inv] get r(1) by simp
qed

theorem submission_final_witness:
  "\<exists>(y :: submission_system) y' k r. submission_step\<^sup>*\<^sup>* y y' \<and> y' \<noteq> y \<and> final_state (sb_state r) \<and> submission_of (sy_store y') k = Some r"
proof -
  obtain contracts execs r q where i: "submission_inv (demo_final r q)" "submission_of (sy_store (demo_final r q)) (sb_rtt_id r) = Some r" "sb_state r = SUB_UNKNOWN"
    by (rule demo_final_dispatch)
  let ?y = "demo_final r q"
  obtain x s' where c: "claim_outbox ''w'' 7 30 10 (sy_store ?y) = (x, s')" by (cases "claim_outbox ''w'' 7 30 10 (sy_store ?y)")
  have "strip ''w'' \<noteq> []" by code_simp
  then obtain rs d where l: "lease_claim ob_event_id (outbox_eligible 7) delivery_order (leased ''w'' 7 30) 10 (op_outbox (sy_store ?y)) = (rs, d)"
    and s': "s' = (sy_store ?y)\<lparr>op_outbox := d\<rparr>" using c by (subst (asm) claim_outbox_eq) (auto split: if_splits)
  have run: "submission_step\<^sup>*\<^sup>* ?y (?y\<lparr>sy_store := s'\<rparr>)" by (rule r_into_rtranclp, rule sub_claim [OF c])
  have k: "keyed ob_event_id (op_outbox (sy_store ?y))" using submission_invD(1) [OF i(1)] by (simp add: outbox_ok_def)
  have e1: "dict_get (op_outbox (sy_store ?y)) ''E1'' = Some (demo_row ''E1'' (demo_tag (sb_rtt_id r) 1))" by (simp add: demo_final_def)
  have "d \<noteq> op_outbox (sy_store ?y)"
  proof
    assume d: "d = op_outbox (sy_store ?y)"
    have "''E1'' \<in> ob_event_id ` set rs"
    proof (rule ccontr)
      assume "''E1'' \<notin> ob_event_id ` set rs"
      then have "int (length rs) = 10" using outbox_claim.claim_fair [OF k l _ e1] by (simp add: outbox_eligible_def demo_row_def)
      moreover have "length rs \<le> 2" using l by (auto simp: lease_claim_def Let_def demo_final_def)
      ultimately show False by simp
    qed
    then obtain c where c: "c \<in> set rs" "ob_event_id c = ''E1''" by auto
    have "ob_delivery_state c = OBX_IN_FLIGHT" "dict_get d ''E1'' = Some c" using outbox_claim.claim_from [OF k l c(1)] c(2) by (auto simp: leased_def)
    then show False using e1 d by (auto simp: demo_row_def)
  qed
  then have "?y\<lparr>sy_store := s'\<rparr> \<noteq> ?y" using s' by (metis operations_store.select_convs(3) operations_store.surjective operations_store.update_convs(3) submission_system.select_convs(1) submission_system.surjective submission_system.update_convs(1))
  then show ?thesis using submission_final [OF i(1) run i(2)] i(3) run by (intro exI [of _ ?y] exI [of _ "?y\<lparr>sy_store := s'\<rparr>"]) (auto simp: final_state_def)
qed

theorem dispatch_concludes_witness:
  "\<exists>contracts execs r q s'. dispatch demo_platform demo_keys contracts execs demo_submissions (sb_rtt_id r) demo_adapter (Aware (from_epoch 13))
     (sy_store (demo_final r q)) = (Inr r, s') \<and> submission_of s' (sb_rtt_id r) = Some r"
proof -
  obtain contracts execs r q where i: "submission_inv (demo_final r q)"
    and d: "dispatch demo_platform demo_keys contracts execs demo_submissions (sb_rtt_id r) demo_adapter (Aware (from_epoch 13)) (sy_store (demo_final r q))
       = (Inr r, sy_store (demo_final r q))" by (rule demo_final_dispatch)
  show ?thesis using dispatch_concludes [OF i d] d by blast
qed

section \<open>The outbox\<close>

definition demo_outbox :: operations_store where
  "demo_outbox = \<lparr>op_submissions = [], op_rtt_by_idempotency = [],
     op_outbox = [(''E1'', demo_row ''E1'' (demo_tag ''R'' 1)), (''E2'', demo_row ''E2'' (demo_tag ''R'' 2))]\<rparr>"

lemma demo_outbox_ok: "outbox_ok demo_outbox"
  by (simp add: outbox_ok_def keyed_def demo_outbox_def demo_row_def)

lemma demo_claim:
  "claim_outbox ''w'' 7 30 1 demo_outbox =
     (Inr [leased ''w'' 7 30 (demo_row ''E1'' (demo_tag ''R'' 1))],
      demo_outbox\<lparr>op_outbox := [(''E1'', leased ''w'' 7 30 (demo_row ''E1'' (demo_tag ''R'' 1))), (''E2'', demo_row ''E2'' (demo_tag ''R'' 2))]\<rparr>)"
  by code_simp

theorem outbox_lease_exclusive_witness:
  "\<exists>u r' v. settle_outbox ''E1'' ''w'' (Publish 9) u = (Inr r', v) \<and> ob_delivery_attempts (the (dict_get (op_outbox u) ''E1'')) = 1"
proof -
  let ?r = "leased ''w'' 7 30 (demo_row ''E1'' (demo_tag ''R'' 1))"
  let ?t = "demo_outbox\<lparr>op_outbox := [(''E1'', ?r), (''E2'', demo_row ''E2'' (demo_tag ''R'' 2))]\<rparr>"
  obtain x u where c: "claim_outbox ''v'' 8 30 5 ?t = (x, u)" by (cases "claim_outbox ''v'' 8 30 5 ?t")
  have id: "ob_event_id ?r = ''E1''" by (simp add: demo_row_def)
  have "others_run (\<lambda>(at, l, limit) s. at) (\<lambda>w (at, l, limit). claim_outbox w at l limit) settle_outbox add_outbox ''E1'' ''w'' (7 + usec 30) ?t u"
    by (rule others_claim [where p = "(8, 30, 5)" and w' = "''v''" and t = u and x = x, OF _ _ others_none])
      (simp_all add: usec_def c)
  then have "dict_get (op_outbox u) ''E1'' = Some ?r \<and> (\<exists>r' v. settle_outbox ''E1'' ''w'' (Publish 9) u = (Inr r', v))"
    using outbox_lease_exclusive [OF demo_outbox_ok demo_claim, of ?r "Publish 9" u] id by auto
  moreover have "ob_delivery_attempts ?r = 1" by (simp add: leased_def demo_row_def)
  ultimately show ?thesis by (intro exI [of _ u]) (simp del: settle_outbox.simps)
qed

theorem publish_batch_settles_witness:
  "\<exists>rs s'. publish_batch \<lparr>or_worker_id = ''w'', or_lease_seconds = 30, or_max_attempts = 3\<rparr> (\<lambda>k v. if k = ''E1'' then None else Some ''TimeoutError'')
     5 (Aware 7) demo_outbox = (Inr rs, s') \<and> int (length rs) \<le> 5"
proof -
  have "relay_ok \<lparr>or_worker_id = ''w'', or_lease_seconds = 30, or_max_attempts = 3\<rparr> (\<lambda>k v. if k = ''E1'' then None else Some ''TimeoutError'')"
    by (auto simp: relay_ok_def strip_def is_space_def Let_def)
  from publish_batch_settles [OF demo_outbox_ok this, of 5 7] show ?thesis by auto
qed

theorem outbox_durable_witness:
  "\<exists>s s' r r'. outbox_step\<^sup>*\<^sup>* s s' \<and> dict_get (op_outbox s) ''E1'' = Some r \<and> dict_get (op_outbox s') ''E1'' = Some r' \<and> same_event r r' \<and> r' \<noteq> r"
proof -
  obtain contracts execs rtt r q s where p: "prepared demo_platform demo_keys contracts execs demo_submissions rtt (from_epoch 13) = Inr (r, q, s)"
    using demo_prepared by (elim exE conjE)
  let ?e = "demo_row ''E1'' (demo_tag ''R'' 1)"
  let ?s = "\<lparr>op_submissions = [(sb_rtt_id r, r)], op_rtt_by_idempotency = [(sb_idempotency_key r, sb_rtt_id r)], op_outbox = [(''E1'', ?e)]\<rparr>"
  let ?s' = "?s\<lparr>op_outbox := [(''E1'', leased ''w'' 7 30 ?e)]\<rparr>"
  have "add_outbox (Preparation r ?e) empty_operations_store = (Inr (), ?s)"
    by (simp add: store_prepare_def empty_operations_store_def sbind_def sret_def demo_row_def)
  then have r1: "outbox_step\<^sup>*\<^sup>* empty_operations_store ?s" by (intro r_into_rtranclp step_add)
  have "claim_outbox ''w'' 7 30 1 ?s = (Inr [leased ''w'' 7 30 ?e], ?s')"
    by (simp add: claim_outbox_def sbind_def slift_def guard_res_def strip_def is_space_def Let_def lease_claim_def put_rows_def
        outbox_eligible_def demo_row_def leased_def)
  then have r2: "outbox_step\<^sup>*\<^sup>* ?s ?s'" by (intro r_into_rtranclp step_claim)
  have g: "dict_get (op_outbox ?s) ''E1'' = Some ?e" by simp
  obtain r' where r': "dict_get (op_outbox ?s') ''E1'' = Some r'" "same_event ?e r'" using outbox_durable [OF r1 r2 g] by blast
  then have "r' \<noteq> ?e" by (auto simp: leased_def demo_row_def)
  then show ?thesis using r2 g r' by blast
qed

theorem backoff_bounds_witness: "delay_seconds 3 = 8 \<and> delay_seconds 50 \<le> 256"
  using backoff_bounds [of 3] backoff_bounds [of 50] by simp

end
