(* ===== verification/Projection_Run.thy ===== *)
theory Projection_Run
  imports Projection Submission_Run
begin

text \<open>Runs of the projector: a reordered and repeated delivery, and the event of a prepared submission.\<close>

definition demo_projection :: "int \<Rightarrow> provider_progress_state \<Rightarrow> instant \<Rightarrow> outcome_projection" where
  "demo_projection n st t = \<lparr>pj_submission_id = ''S'', pj_utt_id = ''U'', pj_rtt_id = ''R'', pj_provider_id = ''P'', pj_state = st,
     pj_normalized_code = PyNone, pj_external_reference = PyNone, pj_rejection_disposition = PyNone, pj_submission_version = n,
     pj_source_event_id = ''E'', pj_occurred_at = 0, pj_projected_at = t\<rparr>"

definition demo_in_order :: "delivery list" where
  "demo_in_order = [(''E1'', ''h1'', demo_projection 1 PRG_PREPARED 5), (''E2'', ''h2'', demo_projection 2 PRG_DISPATCHING 6),
     (''E2'', ''h2'', demo_projection 2 PRG_DISPATCHING 7)]"

definition demo_reordered :: "delivery list" where
  "demo_reordered = [(''E2'', ''h2'', demo_projection 2 PRG_DISPATCHING 8), (''E1'', ''h1'', demo_projection 1 PRG_PREPARED 9)]"

theorem projection_converges_witness:
  "map_option timeless (get_projection ''S'' (deliver_events demo_in_order empty_projection_store))
     = map_option timeless (get_projection ''S'' (deliver_events demo_reordered empty_projection_store))
   \<and> get_projection ''S'' (deliver_events demo_in_order empty_projection_store) = Some (demo_projection 2 PRG_DISPATCHING 6)
   \<and> get_projection ''S'' (deliver_events demo_reordered empty_projection_store) = Some (demo_projection 2 PRG_DISPATCHING 8)
   \<and> first_delivered demo_in_order (demo_projection 2 PRG_DISPATCHING 6)"
proof -
  have x: "get_projection ''S'' (deliver_events demo_in_order empty_projection_store) = Some (demo_projection 2 PRG_DISPATCHING 6)"
    by code_simp
  have y: "get_projection ''S'' (deliver_events demo_reordered empty_projection_store) = Some (demo_projection 2 PRG_DISPATCHING 8)"
    by code_simp
  have "event_of ` set demo_in_order = event_of ` set demo_reordered" "consistent (set demo_in_order)"
    by (auto simp: demo_in_order_def demo_reordered_def demo_projection_def timeless_def consistent_def)
  note converges = projection_converges [OF this, of "''S''"]
  then show ?thesis using x y by simp
qed

theorem event_mirrors_submission_witness:
  "\<exists>r (e :: outbox_record) sha pr. projection_of demo_platform demo_keys (ob_signed_event e) (Aware 20000000) = Inr (ob_event_id e, sha, pr)
     \<and> sb_state r = SUB_PREPARED \<and> mirrors r pr"
proof -
  obtain contracts execs rtt r q e where p: "prepared demo_platform demo_keys contracts execs demo_submissions rtt (from_epoch 13) = Inr (r, q, e)"
    using demo_prepared by (elim exE conjE)
  have "sb_state r = SUB_PREPARED"
    using p unfolding prepared_def new_submission_def by (elim rbind_InrE) auto
  moreover have "\<exists>sha pr. projection_of demo_platform demo_keys (ob_signed_event e) (Aware 20000000) = Inr (ob_event_id e, sha, pr) \<and> mirrors r pr"
    by (rule event_mirrors_submission [OF demo_correct demo_keys_inv emit_prepared [OF p]]) (simp_all add: demo_submissions_def)
  ultimately show ?thesis by blast
qed

end
