(* ===== verification/Sandbox_Store.thy ===== *)
theory Sandbox_Store
  imports Lease_Queue
begin

text \<open>
  Scheduled provider effects of the simulated pilot and their lease-safe store
  (\<^verbatim>\<open>railone_sandbox/models.py\<close>, \<^verbatim>\<open>railone_sandbox/store.py\<close>).  Time is a tick counter the store keeps
  itself.  The store is the second lease queue of the program and interprets the same contract as the outbox.
\<close>

datatype effect_scenario =
    SCN_SUCCESS | SCN_REJECTED_RETRYABLE | SCN_REJECTED_TERMINAL | SCN_UNKNOWN_AFTER_SEND | SCN_TIMEOUT_THEN_SUCCESS

datatype effect_delivery_state = EFF_PENDING | EFF_IN_FLIGHT | EFF_DELIVERED | EFF_DEAD_LETTER

record provider_effect =
  ef_effect_id :: string
  ef_provider_id :: string
  ef_rtt_id :: string
  ef_external_reference :: string
  ef_effect_type :: string
  ef_provider_code :: string
  ef_due_tick :: int
  ef_payload :: string

record effect_record =
  er_effect :: provider_effect
  er_available_tick :: int
  er_state :: effect_delivery_state
  er_delivery_attempts :: int
  er_lease_owner :: "string option"
  er_lease_until_tick :: "int option"
  er_last_error :: "string option"
  er_delivered_at_tick :: "int option"
  er_version :: int

record effect_store =
  fs_tick :: int
  fs_records :: "(string, effect_record) dict"

definition empty_effect_store :: effect_store where
  "empty_effect_store = \<lparr>fs_tick = 0, fs_records = []\<rparr>"

definition effect_key :: "effect_record \<Rightarrow> string" where
  "effect_key r = ef_effect_id (er_effect r)"

definition schedule_effect :: "effect_record \<Rightarrow> (effect_store, effect_record) st" where
  "schedule_effect r s =
     (case dict_get (fs_records s) (effect_key r) of
        Some existing \<Rightarrow>
          if er_effect existing \<noteq> er_effect r
          then (Inl (Raise RuntimeError ''sandbox effect identifier collision''), s)
          else (Inr existing, s)
      | None \<Rightarrow> (Inr r, s\<lparr>fs_records := dict_set (effect_key r) r (fs_records s)\<rparr>))"

definition current_tick :: "effect_store \<Rightarrow> int" where
  "current_tick s = fs_tick s"

definition within_policy :: "string \<Rightarrow> int \<Rightarrow> unit res" where
  "within_policy name value = guard_res (\<not> (1 \<le> value \<and> value \<le> 1000)) ValueError (name @ '' is outside policy'')"

definition claim_policy :: "string \<Rightarrow> int \<Rightarrow> int \<Rightarrow> int \<Rightarrow> unit res" where
  "claim_policy worker_id ticks lease_ticks limit =
     rbind (guard_res (strip worker_id = []) ValueError ''sandbox worker_id is required'') (\<lambda>_.
     rbind (within_policy ''ticks'' ticks) (\<lambda>_.
     rbind (within_policy ''lease_ticks'' lease_ticks) (\<lambda>_.
     within_policy ''limit'' limit)))"

definition effect_eligible :: "int \<Rightarrow> effect_record \<Rightarrow> bool" where
  "effect_eligible tick r \<longleftrightarrow>
     (er_state r = EFF_PENDING \<and> er_available_tick r \<le> tick)
     \<or> (er_state r = EFF_IN_FLIGHT \<and> (case er_lease_until_tick r of None \<Rightarrow> False | Some u \<Rightarrow> u \<le> tick))"

definition effect_order :: "effect_record \<Rightarrow> int \<times> string" where
  "effect_order r = (er_available_tick r, effect_key r)"

definition leased_effect :: "string \<Rightarrow> int \<Rightarrow> int \<Rightarrow> effect_record \<Rightarrow> effect_record" where
  "leased_effect worker_id tick lease_ticks r =
     r\<lparr>er_state := EFF_IN_FLIGHT, er_delivery_attempts := er_delivery_attempts r + 1, er_lease_owner := Some worker_id,
       er_lease_until_tick := Some (tick + lease_ticks), er_version := er_version r + 1\<rparr>"

definition advance_and_claim :: "string \<Rightarrow> int \<Rightarrow> int \<Rightarrow> int \<Rightarrow> (effect_store, effect_record list) st" where
  "advance_and_claim worker_id ticks lease_ticks limit =
     sbind (slift (claim_policy worker_id ticks lease_ticks limit)) (\<lambda>_. \<lambda>s.
     let tick = fs_tick s + ticks;
         (claimed, rows) = lease_claim effect_key (effect_eligible tick) effect_order
                             (leased_effect worker_id tick lease_ticks) limit (fs_records s)
     in (Inr claimed, s\<lparr>fs_tick := tick, fs_records := rows\<rparr>))"

definition require_owned :: "string \<Rightarrow> string \<Rightarrow> effect_store \<Rightarrow> effect_record res" where
  "require_owned effect_id worker_id s =
     (case dict_get (fs_records s) effect_id of
        None \<Rightarrow> Inl (Raise LookupError ''sandbox effect was not found'')
      | Some r \<Rightarrow>
          if er_state r \<noteq> EFF_IN_FLIGHT \<or> er_lease_owner r \<noteq> Some worker_id
          then Inl (Raise PermissionError ''worker does not own the sandbox effect lease'')
          else Inr r)"

definition delivered_effect :: "int \<Rightarrow> effect_record \<Rightarrow> effect_record" where
  "delivered_effect tick r =
     r\<lparr>er_state := EFF_DELIVERED, er_lease_owner := None, er_lease_until_tick := None, er_last_error := None,
       er_delivered_at_tick := Some tick, er_version := er_version r + 1\<rparr>"

definition mark_delivered :: "string \<Rightarrow> string \<Rightarrow> (effect_store, effect_record) st" where
  "mark_delivered effect_id worker_id =
     sbind (sget (require_owned effect_id worker_id)) (\<lambda>r. \<lambda>s.
     let updated = delivered_effect (fs_tick s) r
     in (Inr updated, s\<lparr>fs_records := dict_set effect_id updated (fs_records s)\<rparr>))"

definition requeued_effect :: "int \<Rightarrow> int \<Rightarrow> string \<Rightarrow> int \<Rightarrow> effect_record \<Rightarrow> effect_record" where
  "requeued_effect tick delay_ticks err max_attempts r =
     (let terminal = er_delivery_attempts r \<ge> max_attempts in
      r\<lparr>er_available_tick := (if terminal then er_available_tick r else tick + delay_ticks),
        er_state := (if terminal then EFF_DEAD_LETTER else EFF_PENDING), er_lease_owner := None,
        er_lease_until_tick := None, er_last_error := Some (take 1000 err), er_version := er_version r + 1\<rparr>)"

definition reschedule_effect :: "string \<Rightarrow> string \<Rightarrow> int \<Rightarrow> string \<Rightarrow> int \<Rightarrow> (effect_store, effect_record) st" where
  "reschedule_effect effect_id worker_id delay_ticks err max_attempts =
     sbind (slift (guard_res (strip err = [] \<or> \<not> (1 \<le> delay_ticks \<and> delay_ticks \<le> 100) \<or> \<not> (1 \<le> max_attempts \<and> max_attempts \<le> 100))
              ValueError ''sandbox effect retry policy is invalid'')) (\<lambda>_.
     sbind (sget (require_owned effect_id worker_id)) (\<lambda>r. \<lambda>s.
     let updated = requeued_effect (fs_tick s) delay_ticks err max_attempts r
     in (Inr updated, s\<lparr>fs_records := dict_set effect_id updated (fs_records s)\<rparr>)))"

section \<open>The store is a lease queue\<close>

interpretation effect_claim: claim_loop effect_key "effect_eligible tick" effect_order "leased_effect w tick l" limit
  for tick w l limit
  by unfold_locales (simp_all add: leased_effect_def effect_key_def effect_order_def)

datatype effect_settlement = Deliver | Requeue int string int

fun settle_effect :: "string \<Rightarrow> string \<Rightarrow> effect_settlement \<Rightarrow> (effect_store, effect_record) st" where
  "settle_effect k w Deliver = mark_delivered k w"
| "settle_effect k w (Requeue d err n) = reschedule_effect k w d err n"

fun effect_settlement_ok :: "effect_settlement \<Rightarrow> bool" where
  "effect_settlement_ok Deliver = True"
| "effect_settlement_ok (Requeue d err n) = (strip err \<noteq> [] \<and> 1 \<le> d \<and> d \<le> 100 \<and> 1 \<le> n \<and> n \<le> 100)"

definition effects_ok :: "effect_store \<Rightarrow> bool" where
  "effects_ok s \<longleftrightarrow> keyed effect_key (fs_records s)"

definition effect_owned :: "effect_record \<Rightarrow> string \<Rightarrow> int \<Rightarrow> bool" where
  "effect_owned r w d \<longleftrightarrow> er_state r = EFF_IN_FLIGHT \<and> er_lease_owner r = Some w \<and> er_lease_until_tick r = Some d"

lemma require_owned_effect:
  "require_owned k w s = Inr r \<longleftrightarrow> dict_get (fs_records s) k = Some r \<and> er_state r = EFF_IN_FLIGHT \<and> er_lease_owner r = Some w"
  by (auto simp: require_owned_def split: option.splits)

lemma claim_effects_Inl: "advance_and_claim w t l limit s = (Inl e, s') \<Longrightarrow> s' = s"
  by (auto simp: advance_and_claim_def sbind_eq_Inl slift_eq Let_def split: prod.splits)

lemma claim_effects_Inr:
  assumes "advance_and_claim w t l limit s = (Inr rs, s')"
  obtains d where "claim_policy w t l limit = Inr ()" "s' = s\<lparr>fs_tick := fs_tick s + t, fs_records := d\<rparr>"
    "lease_claim effect_key (effect_eligible (fs_tick s + t)) effect_order (leased_effect w (fs_tick s + t) l) limit (fs_records s) = (rs, d)"
  using assms by (auto simp: advance_and_claim_def sbind_eq_Inr slift_eq Let_def split: prod.splits)

lemma settle_effect_Inr:
  assumes "settle_effect k w q s = (Inr r', s')"
  obtains r where "require_owned k w s = Inr r" "s' = s\<lparr>fs_records := dict_set k r' (fs_records s)\<rparr>"
    "effect_key r' = effect_key r" "er_effect r' = er_effect r" "er_state r' \<noteq> EFF_IN_FLIGHT"
  using assms
  by (cases q) (auto simp: mark_delivered_def reschedule_effect_def sbind_eq_Inr sget_eq slift_eq Let_def
      delivered_effect_def requeued_effect_def effect_key_def)

lemma settle_effect_Inl: "settle_effect k w q s = (Inl e, s') \<Longrightarrow> s' = s"
  by (cases q) (auto simp: mark_delivered_def reschedule_effect_def sbind_eq_Inl sget_eq slift_eq Let_def)

lemma settle_effect_ok:
  assumes "effect_settlement_ok q" "require_owned k w s = Inr r"
  shows "\<exists>r'. settle_effect k w q s = (Inr r', s\<lparr>fs_records := dict_set k r' (fs_records s)\<rparr>)"
  using assms by (cases q) (auto simp: mark_delivered_def reschedule_effect_def sbind_def sget_def slift_def guard_res_def Let_def)

lemma schedule_effect_cases:
  assumes "schedule_effect r s = (x, s')"
  shows "s' = s \<or> (dict_get (fs_records s) (effect_key r) = None \<and> s' = s\<lparr>fs_records := dict_set (effect_key r) r (fs_records s)\<rparr>)"
  using assms by (auto simp: schedule_effect_def split: option.splits if_splits)

interpretation effects: lease_queue effects_ok "\<lambda>s. dict_get (fs_records s)" effect_key effect_owned
  "\<lambda>(ticks, l, limit) s. fs_tick s + ticks" "\<lambda>(ticks, l, limit). l" "\<lambda>w (ticks, l, limit). advance_and_claim w ticks l limit"
  settle_effect effect_settlement_ok schedule_effect
proof (unfold_locales, goal_cases)
  case (1 s w p x s')
  then show ?case
    by (cases x; cases p) (auto simp: effects_ok_def dest: claim_effects_Inl elim!: claim_effects_Inr intro: effect_claim.claim_keyed)
next
  case (2 s k w q y s')
  show ?case
  proof (cases y)
    case (Inl e)
    then show ?thesis using 2 settle_effect_Inl by metis
  next
    case (Inr r')
    with 2 show ?thesis
      by (auto simp: effects_ok_def require_owned_effect dest: keyed_get intro!: keyed_set elim!: settle_effect_Inr)
  qed
next
  case (3 s a z s')
  then show ?case using schedule_effect_cases [OF 3(2)] by (auto simp: effects_ok_def)
next
  case (4 s w p rs s' r)
  then show ?case
    by (cases p) (auto simp: effects_ok_def effect_owned_def leased_effect_def elim!: claim_effects_Inr dest: effect_claim.claim_from)
next
  case (5 s w p x s' k r w' d)
  obtain ticks l limit where p: "p = (ticks, l, limit)" by (cases p)
  have ne: "\<not> effect_eligible (fs_tick s + ticks) r" using 5 p by (auto simp: effect_eligible_def effect_owned_def)
  show ?case
  proof (cases x)
    case (Inl e)
    then show ?thesis using 5 p claim_effects_Inl by fastforce
  next
    case (Inr rs)
    then have "advance_and_claim w ticks l limit s = (Inr rs, s')" using 5 p by simp
    then show ?thesis using 5 ne by (elim claim_effects_Inr) (simp add: effects_ok_def effect_claim.claim_keeps)
  qed
next
  case (6 s k' w q y s' k r w' d)
  show ?case
  proof (cases y)
    case (Inl e)
    then show ?thesis using 6 settle_effect_Inl by metis
  next
    case (Inr r')
    then show ?thesis using 6 by (auto simp: require_owned_effect effect_owned_def elim!: settle_effect_Inr)
  qed
next
  case (7 s q k r w d)
  then have "require_owned k w s = Inr r" by (simp add: require_owned_effect effect_owned_def)
  then obtain r' where r': "settle_effect k w q s = (Inr r', s\<lparr>fs_records := dict_set k r' (fs_records s)\<rparr>)"
    using settle_effect_ok 7 by blast
  then have "er_state r' \<noteq> EFF_IN_FLIGHT" by (elim settle_effect_Inr)
  then show ?case using r' by (auto simp: effect_owned_def fun_eq_iff)
next
  case (8 s a z s' k r)
  then show ?case using schedule_effect_cases [OF 8(2)] by auto
qed

end
