(* ===== verification/Sandbox_Broker.thy ===== *)
theory Sandbox_Broker
  imports Sandbox_Store Provider_Submission
begin

text \<open>
  The simulated providers (\<^verbatim>\<open>railone_sandbox/effects.py\<close>, \<^verbatim>\<open>providers.py\<close>, \<^verbatim>\<open>workers.py\<close>): the effect broker
  that answers submissions and schedules their later effects, the two sandbox adapters, the effect worker and
  its supervisor.  Metrics counters are not modelled; the effect consumer is a parameter that returns the text
  \<^verbatim>\<open>f"{type(exc).__name__}: {exc}"\<close> of an exception, or nothing.
\<close>

record effect_broker =
  bk_scenarios :: "(string, effect_scenario) dict"
  bk_submissions :: "(string \<times> string, string \<times> submission_result) dict"
  bk_effects :: effect_store

definition empty_broker :: effect_broker where
  "empty_broker = \<lparr>bk_scenarios = [], bk_submissions = [], bk_effects = empty_effect_store\<rparr>"

definition on_effects :: "(effect_store, 'a) st \<Rightarrow> (effect_broker, 'a) st" where
  \<comment> \<open>an operation of the effect store, seen from the broker\<close>
  "on_effects m b = (case m (bk_effects b) of (x, f) \<Rightarrow> (x, b\<lparr>bk_effects := f\<rparr>))"

definition set_scenario :: "string \<Rightarrow> effect_scenario \<Rightarrow> (effect_broker, unit) st" where
  "set_scenario rtt_id scenario b =
     (if \<exists>key\<in>set (map fst (bk_submissions b)). snd key = rtt_id
      then (Inl (Raise RuntimeError ''scenario cannot change after provider submission''), b)
      else (Inr (), b\<lparr>bk_scenarios := dict_set rtt_id scenario (bk_scenarios b)\<rparr>))"

definition validate_synthetic :: "provider_request \<Rightarrow> unit res" where
  "validate_synthetic q =
     rbind (guard_res (\<not> starts_with (pr_provider_id q) ''SIM-'' \<and> pr_provider_id q \<notin> {''MPESA-KE'', ''BANK-KE''}) ValueError
              ''sandbox provider is outside the allowlist'') (\<lambda>_.
     rbind (guard_res (\<not> starts_with (pr_payer_account_reference q) ''SIM-'') PermissionError
              ''sandbox refuses non-synthetic payer endpoints'') (\<lambda>_.
     guard_res (\<not> starts_with (pr_beneficiary_account_reference q) ''SIM-'') PermissionError
       ''sandbox refuses non-synthetic beneficiary endpoints''))"

definition short_hash :: "string \<Rightarrow> nat \<Rightarrow> string \<Rightarrow> string" where
  \<comment> \<open>\<^verbatim>\<open>prefix + hashlib.sha256(text.encode("utf-8")).hexdigest().upper()[:n]\<close>\<close>
  "short_hash prefix n text = prefix @ take n (upper (sha256_hex text))"

definition effect_payload :: "provider_request \<Rightarrow> string \<Rightarrow> string \<Rightarrow> string \<Rightarrow> string \<Rightarrow> pyval res" where
  "effect_payload q external originator effect_type transaction_id =
     (if pr_provider_id q = ''MPESA-KE''
      then let result_code = (if effect_type = ''SETTLED'' then 0 else 2001) in
        rbind (if result_code = (0 :: int)
               then rbind (int_operand (pr_amount_minor q)) (\<lambda>amount.
                 Inr (obj [(''ResultParameter'', PyList
                   [obj [(''Key'', PyStr ''TransactionAmount''), (''Value'', PyInt (amount div 100))],
                    obj [(''Key'', PyStr ''TransactionReceipt''), (''Value'', PyStr transaction_id)]])]))
               else Inr PyNone) (\<lambda>parameters.
        Inr (obj [(''Result'', obj
          [(''ResultType'', PyInt 0), (''ResultCode'', PyInt result_code),
           (''ResultDesc'', PyStr (if result_code = 0 then ''Simulated settlement'' else ''Simulated timeout'')),
           (''OriginatorConversationID'', PyStr originator), (''ConversationID'', PyStr external),
           (''TransactionID'', if result_code = 0 then PyStr transaction_id else PyNone),
           (''ResultParameters'', parameters)])]))
      else Inr (obj
        [(''provider'', PyStr (pr_provider_id q)), (''event'', PyStr effect_type), (''external_reference'', PyStr external),
         (''transaction_id'', PyStr transaction_id), (''rtt_id'', PyStr (pr_rtt_id q)), (''amount_minor'', pr_amount_minor q),
         (''currency'', pr_currency_from q)]))"

definition effect_for ::
  "provider_request \<Rightarrow> string \<Rightarrow> string \<Rightarrow> string \<Rightarrow> int \<Rightarrow> int \<Rightarrow> effect_record res" where
  "effect_for q external originator effect_type offset tick =
     (let transaction_id = short_hash ''SIMTX-'' 20 (external @ '':'' @ effect_type) in
      rbind (effect_payload q external originator effect_type transaction_id) (\<lambda>payload_object.
      case json_dumps payload_object of
        None \<Rightarrow> Inl (Raise TypeError ''Object is not JSON serializable'')
      | Some payload \<Rightarrow>
      rbind (payload_digest (obj [(''provider'', PyStr (pr_provider_id q)), (''rtt_id'', PyStr (pr_rtt_id q)),
               (''effect'', PyStr effect_type), (''offset'', PyInt offset)])) (\<lambda>digest.
      Inr \<lparr>er_effect = \<lparr>ef_effect_id = ''SIMEFF-'' @ take 24 (upper digest), ef_provider_id = pr_provider_id q,
                         ef_rtt_id = pr_rtt_id q, ef_external_reference = external, ef_effect_type = effect_type,
                         ef_provider_code = (if effect_type = ''SETTLED'' then ''0'' else ''TIMEOUT''),
                         ef_due_tick = tick + offset, ef_payload = payload\<rparr>,
           er_available_tick = tick + offset, er_state = EFF_PENDING, er_delivery_attempts = 0, er_lease_owner = None,
           er_lease_until_tick = None, er_last_error = None, er_delivered_at_tick = None, er_version = 1\<rparr>)))"

definition broker_schedule ::
  "provider_request \<Rightarrow> string \<Rightarrow> string \<Rightarrow> string \<Rightarrow> int \<Rightarrow> (effect_broker, effect_record) st" where
  "broker_schedule q external originator effect_type offset =
     sbind (sget (\<lambda>b. effect_for q external originator effect_type offset (current_tick (bk_effects b)))) (\<lambda>r.
     on_effects (schedule_effect r))"

definition rejected_result :: "string \<Rightarrow> rejection_disposition \<Rightarrow> submission_result" where
  "rejected_result code d =
     \<lparr>sv_outcome = OUT_REJECTED, sv_code = code, sv_external_reference = None,
      sv_rejection_disposition = Some d, sv_provider_context = []\<rparr>"

definition accepted_result :: "provider_request \<Rightarrow> string \<Rightarrow> string \<Rightarrow> submission_result res" where
  "accepted_result q external originator =
     rbind (py_str (pr_amount_minor q)) (\<lambda>amount.
     Inr \<lparr>sv_outcome = OUT_ACCEPTED, sv_code = ''SIM_ACCEPTED_FOR_PROCESSING'', sv_external_reference = Some external,
          sv_rejection_disposition = None,
          sv_provider_context = [(''originator_conversation_id'', originator), (''amount_minor'', amount)]\<rparr>)"

definition broker_result :: "provider_request \<Rightarrow> effect_scenario \<Rightarrow> (effect_broker, submission_result) st" where
  "broker_result q scenario =
     (case scenario of
        SCN_REJECTED_RETRYABLE \<Rightarrow> sret (rejected_result ''SIM_PROVIDER_TEMPORARY'' REJ_RETRYABLE)
      | SCN_REJECTED_TERMINAL \<Rightarrow> sret (rejected_result ''SIM_PROVIDER_TERMINAL'' REJ_TERMINAL)
      | SCN_UNKNOWN_AFTER_SEND \<Rightarrow> sret (unknown_result ''SIM_OUTCOME_UNKNOWN'')
      | _ \<Rightarrow>
          let external = short_hash ''SIMREF-'' 24 (pr_provider_id q @ '':'' @ pr_rtt_id q);
              originator = short_hash ''SIMORG-'' 20 (pr_idempotency_key q) in
          sbind (slift (accepted_result q external originator)) (\<lambda>result.
          sbind (if scenario = SCN_TIMEOUT_THEN_SUCCESS
                 then sbind (broker_schedule q external originator ''TIMEOUT'' 1) (\<lambda>_.
                      broker_schedule q external originator ''SETTLED'' 2)
                 else broker_schedule q external originator ''SETTLED'' 1) (\<lambda>_.
          sret result)))"

definition broker_submit :: "provider_request \<Rightarrow> (effect_broker, submission_result) st" where
  "broker_submit q =
     sbind (slift (validate_synthetic q)) (\<lambda>_. \<lambda>b.
     let key = (pr_provider_id q, pr_idempotency_key q) in
     case dict_get (bk_submissions b) key of
       Some (sha, result) \<Rightarrow>
         if sha \<noteq> pr_request_sha256 q
         then (Inl (Raise RuntimeError ''simulator idempotency material changed''), b)
         else (Inr result, b)
     | None \<Rightarrow>
         let scenario = (case dict_get (bk_scenarios b) (pr_rtt_id q) of None \<Rightarrow> SCN_SUCCESS | Some sc \<Rightarrow> sc) in
         sbind (broker_result q scenario) (\<lambda>result. \<lambda>b'.
         (Inr result, b'\<lparr>bk_submissions := dict_set key (pr_request_sha256 q, result) (bk_submissions b')\<rparr>)) b)"

section \<open>Adapters\<close>

definition bank_submit :: "provider_request \<Rightarrow> (effect_broker, submission_result) st" where
  "bank_submit q =
     sbind (slift (guard_res (pr_provider_id q \<noteq> ''BANK-KE'') ValueError
              ''bank simulator received another provider's request'')) (\<lambda>_.
     sbind (slift (guard_res (pr_currency_from q \<noteq> PyStr ''KES'' \<or> pr_currency_to q \<noteq> PyStr ''KES'') ValueError
              ''domestic bank simulator supports KES only'')) (\<lambda>_.
     sbind (slift (guard_res (pr_rail q \<notin> {PyStr ''DOMESTIC_BANK'', PyStr ''PESALINK'', PyStr ''RTGS''}) ValueError
              ''domestic bank simulator received an unsupported rail'')) (\<lambda>_.
     sbind (slift (guard_res (pr_amount_minor q \<noteq> pr_receive_amount_minor q) ValueError
              ''domestic bank simulator requires equal KES amounts'')) (\<lambda>_.
     broker_submit q))))"

definition mpesa_submit :: "provider_request \<Rightarrow> (effect_broker, submission_result) st" where
  "mpesa_submit q =
     sbind (slift (guard_res (pr_provider_id q \<noteq> ''MPESA-KE'') ValueError
              ''M-PESA simulator received another provider's request'')) (\<lambda>_.
     sbind (slift (guard_res (pr_rail q \<noteq> PyStr ''MOBILE_MONEY'') ValueError
              ''M-PESA simulator requires MOBILE_MONEY rail'')) (\<lambda>_.
     broker_submit q))"

section \<open>Worker and supervisor\<close>

record effect_worker =
  wk_worker_id :: string
  wk_retry_delay :: int
  wk_lease_ticks :: int
  wk_max_attempts :: int

definition effect_worker_init :: "string \<Rightarrow> int \<Rightarrow> int \<Rightarrow> int \<Rightarrow> effect_worker res" where
  "effect_worker_init worker_id retry_delay_ticks lease_ticks max_attempts =
     rbind (guard_res (\<not> (1 \<le> retry_delay_ticks \<and> retry_delay_ticks \<le> 100)) ValueError
              ''retry_delay_ticks is outside policy'') (\<lambda>_.
     Inr \<lparr>wk_worker_id = worker_id, wk_retry_delay = retry_delay_ticks, wk_lease_ticks = lease_ticks,
          wk_max_attempts = max_attempts\<rparr>)"

fun apply_effects ::
  "effect_worker \<Rightarrow> (provider_effect \<Rightarrow> string option) \<Rightarrow> effect_record list \<Rightarrow> (effect_store, string list) st" where
  "apply_effects wk consumer [] = sret []"
| "apply_effects wk consumer (r # rs) =
     (case consumer (er_effect r) of
        Some err \<Rightarrow>
          sbind (reschedule_effect (effect_key r) (wk_worker_id wk) (wk_retry_delay wk) err (wk_max_attempts wk)) (\<lambda>_.
          apply_effects wk consumer rs)
      | None \<Rightarrow>
          sbind (mark_delivered (effect_key r) (wk_worker_id wk)) (\<lambda>_.
          sbind (apply_effects wk consumer rs) (\<lambda>applied. sret (effect_key r # applied))))"

definition run_once :: "effect_worker \<Rightarrow> (provider_effect \<Rightarrow> string option) \<Rightarrow> (effect_store, string list) st" where
  "run_once wk consumer =
     sbind (advance_and_claim (wk_worker_id wk) 1 (wk_lease_ticks wk) 100) (apply_effects wk consumer)"

datatype supervisor_state = SUP_RUNNING | SUP_DEGRADED | SUP_STOPPED

record worker_supervisor =
  sp_threshold :: int
  sp_failures :: int
  sp_cycles :: int
  sp_last_error :: "string option"
  sp_stopped :: bool

definition supervisor_init :: "int \<Rightarrow> worker_supervisor res" where
  "supervisor_init failure_threshold =
     rbind (guard_res (\<not> (1 \<le> failure_threshold \<and> failure_threshold \<le> 100)) ValueError
              ''worker failure threshold is outside policy'') (\<lambda>_.
     Inr \<lparr>sp_threshold = failure_threshold, sp_failures = 0, sp_cycles = 0, sp_last_error = None, sp_stopped = False\<rparr>)"

definition supervisor_tick ::
  "('s, string list) st \<Rightarrow> (error \<Rightarrow> string) \<Rightarrow> (worker_supervisor \<times> 's, string list) st" where
  \<comment> \<open>the worker's \<open>run_once\<close> and the text of an exception are arguments\<close>
  "supervisor_tick run error_text ws =
     (case ws of (sp, s) \<Rightarrow>
       if sp_stopped sp then (Inl (Raise RuntimeError ''worker supervisor is stopped''), (sp, s))
       else let sp1 = sp\<lparr>sp_cycles := sp_cycles sp + 1\<rparr> in
         (case run s of
            (Inl e, s') \<Rightarrow>
              (Inr [], (sp1\<lparr>sp_failures := sp_failures sp + 1, sp_last_error := Some (take 1000 (error_text e))\<rparr>, s'))
          | (Inr applied, s') \<Rightarrow> (Inr applied, (sp1\<lparr>sp_failures := 0, sp_last_error := None\<rparr>, s'))))"

definition supervisor_stop :: "worker_supervisor \<Rightarrow> worker_supervisor" where
  "supervisor_stop sp = sp\<lparr>sp_stopped := True\<rparr>"

definition supervisor_status :: "worker_supervisor \<Rightarrow> supervisor_state \<times> int \<times> int \<times> string option" where
  "supervisor_status sp =
     ((if sp_stopped sp then SUP_STOPPED else if sp_failures sp \<ge> sp_threshold sp then SUP_DEGRADED else SUP_RUNNING),
      sp_failures sp, sp_cycles sp, sp_last_error sp)"

section \<open>What a submission leaves in the broker\<close>

lemma on_effects_same: "on_effects m b = (x, b') \<Longrightarrow> bk_submissions b' = bk_submissions b \<and> bk_scenarios b' = bk_scenarios b"
  by (auto simp: on_effects_def split: prod.splits)

lemma broker_schedule_same:
  "broker_schedule q ex og ty n b = (x, b') \<Longrightarrow> bk_submissions b' = bk_submissions b \<and> bk_scenarios b' = bk_scenarios b"
  unfolding broker_schedule_def by (elim sbindE) (auto simp: sget_eq dest: on_effects_same)

lemma broker_result_same:
  assumes "broker_result q sc b = (x, b')"
  shows "bk_submissions b' = bk_submissions b \<and> bk_scenarios b' = bk_scenarios b"
  using assms unfolding broker_result_def Let_def
  by (cases sc) (auto simp: sret_eq slift_eq elim!: sbindE dest!: broker_schedule_same)

lemma broker_submit_cases:
  assumes "broker_submit q b = (x, b')"
  obtains (refused) e where "x = Inl e" "bk_submissions b' = bk_submissions b" "bk_scenarios b' = bk_scenarios b"
  | (replayed) v where "dict_get (bk_submissions b) (pr_provider_id q, pr_idempotency_key q) = Some (pr_request_sha256 q, v)" "x = Inr v" "b' = b"
  | (fresh) v sc b1 where "dict_get (bk_submissions b) (pr_provider_id q, pr_idempotency_key q) = None" "x = Inr v"
      "broker_result q sc b = (Inr v, b1)"
      "bk_submissions b' = dict_set (pr_provider_id q, pr_idempotency_key q) (pr_request_sha256 q, v) (bk_submissions b)"
proof (cases "validate_synthetic q")
  case (Inl e)
  then have "x = Inl e" "b' = b" using assms by (simp_all add: broker_submit_def sbind_def slift_def)
  then show thesis using refused by simp
next
  case (Inr u)
  let ?k = "(pr_provider_id q, pr_idempotency_key q)"
  show thesis
  proof (cases "dict_get (bk_submissions b) ?k")
    case (Some sv)
    obtain sha v where sv: "sv = (sha, v)" by (cases sv)
    show thesis
    proof (cases "sha = pr_request_sha256 q")
      case True
      then have "x = Inr v" "b' = b" using assms Inr Some sv by (simp_all add: broker_submit_def sbind_def slift_def Let_def)
      then show thesis using replayed Some sv True by simp
    next
      case False
      then have "x = Inl (Raise RuntimeError ''simulator idempotency material changed'')" "b' = b"
        using assms Inr Some sv by (simp_all add: broker_submit_def sbind_def slift_def Let_def)
      then show thesis using refused by simp
    qed
  next
    case None
    let ?sc = "case dict_get (bk_scenarios b) (pr_rtt_id q) of None \<Rightarrow> SCN_SUCCESS | Some sc \<Rightarrow> sc"
    obtain y b1 where y: "broker_result q ?sc b = (y, b1)" by (cases "broker_result q ?sc b")
    have same: "bk_submissions b1 = bk_submissions b" "bk_scenarios b1 = bk_scenarios b" using broker_result_same [OF y] by auto
    show thesis
    proof (cases y)
      case (Inl e)
      then have "x = Inl e" "b' = b1" using assms \<open>validate_synthetic q = Inr u\<close> None y
        by (simp_all add: broker_submit_def sbind_def slift_def Let_def)
      then show thesis using refused same by simp
    next
      case (Inr v)
      then have "x = Inr v" "b' = b1\<lparr>bk_submissions := dict_set ?k (pr_request_sha256 q, v) (bk_submissions b1)\<rparr>"
        using assms \<open>validate_synthetic q = Inr u\<close> None y by (simp_all add: broker_submit_def sbind_def slift_def Let_def)
      then show thesis using fresh [of v ?sc b1] None y Inr same by simp
    qed
  qed
qed

inductive broker_step :: "effect_broker \<Rightarrow> effect_broker \<Rightarrow> bool" where
  bk_submit: "broker_submit q b = (x, b') \<Longrightarrow> broker_step b b'"
| bk_scenario: "set_scenario rtt sc b = (y, b') \<Longrightarrow> broker_step b b'"
| bk_claim: "on_effects (advance_and_claim w t l limit) b = (z, b') \<Longrightarrow> broker_step b b'"
| bk_settle: "on_effects (settle_effect k w m) b = (u, b') \<Longrightarrow> broker_step b b'"

lemma broker_step_keeps:
  "broker_step b b' \<Longrightarrow> dict_get (bk_submissions b) k = Some v \<Longrightarrow> dict_get (bk_submissions b') k = Some v"
proof (induction rule: broker_step.induct)
  case (bk_submit q b x b')
  from bk_submit(1) show ?case by (cases rule: broker_submit_cases) (use bk_submit(2) in auto)
next
  case (bk_scenario rtt sc b y b')
  then show ?case by (auto simp: set_scenario_def split: if_splits)
next
  case (bk_claim w t l limit b z b')
  then show ?case using on_effects_same by metis
next
  case (bk_settle k' w m b u b')
  then show ?case using on_effects_same by metis
qed

lemma broker_run_keeps:
  "broker_step\<^sup>*\<^sup>* b b' \<Longrightarrow> dict_get (bk_submissions b) k = Some v \<Longrightarrow> dict_get (bk_submissions b') k = Some v"
  by (induction rule: rtranclp_induct) (auto intro: broker_step_keeps)

lemma broker_submit_stored:
  assumes "broker_submit q b = (Inr v, b')"
  shows "dict_get (bk_submissions b') (pr_provider_id q, pr_idempotency_key q) = Some (pr_request_sha256 q, v) \<and> validate_synthetic q = Inr ()"
proof -
  have "validate_synthetic q = Inr ()" using assms by (cases "validate_synthetic q") (auto simp: broker_submit_def sbind_def slift_def)
  moreover have "dict_get (bk_submissions b') (pr_provider_id q, pr_idempotency_key q) = Some (pr_request_sha256 q, v)"
    using assms by (cases rule: broker_submit_cases) auto
  ultimately show ?thesis by blast
qed

lemma same_party_validates:
  "pr_provider_id q' = pr_provider_id q \<Longrightarrow> pr_payer_account_reference q' = pr_payer_account_reference q \<Longrightarrow>
    pr_beneficiary_account_reference q' = pr_beneficiary_account_reference q \<Longrightarrow> validate_synthetic q' = validate_synthetic q"
  by (simp add: validate_synthetic_def)

lemma starts_with_split: "starts_with s p \<Longrightarrow> \<exists>r. s = p @ r"
  unfolding starts_with_def by (metis append_take_drop_id)

section \<open>Properties\<close>

text \<open>
  The simulated provider is idempotent.  After a successful submission, whatever submissions, scenario
  changes and effect deliveries follow, submitting the same provider, idempotency key and request digest again
  returns the same result and changes nothing, so no effect is scheduled twice; and the same key with another
  digest is refused and changes nothing.\<close>

theorem sandbox_submit_idempotent:
  assumes "broker_submit q b = (Inr v, b')" "broker_step\<^sup>*\<^sup>* b' c"
    and "pr_provider_id q' = pr_provider_id q" "pr_idempotency_key q' = pr_idempotency_key q"
      "pr_payer_account_reference q' = pr_payer_account_reference q"
      "pr_beneficiary_account_reference q' = pr_beneficiary_account_reference q"
  shows "(pr_request_sha256 q' = pr_request_sha256 q \<longrightarrow> broker_submit q' c = (Inr v, c))
    \<and> (pr_request_sha256 q' \<noteq> pr_request_sha256 q \<longrightarrow>
        broker_submit q' c = (Inl (Raise RuntimeError ''simulator idempotency material changed''), c))"
proof -
  have s: "dict_get (bk_submissions c) (pr_provider_id q', pr_idempotency_key q') = Some (pr_request_sha256 q, v)"
    using broker_run_keeps [OF assms(2)] broker_submit_stored [OF assms(1)] assms(3,4) by simp
  have "validate_synthetic q' = Inr ()" using same_party_validates [OF assms(3,5,6)] broker_submit_stored [OF assms(1)] by simp
  then show ?thesis using s by (auto simp: broker_submit_def sbind_def slift_def Let_def)
qed

text \<open>
  The scenario guard never fires.  \<^verbatim>\<open>set_scenario\<close> means to refuse a change for an RTT that has been
  submitted, but it compares the RTT identifier with the idempotency keys of the recorded submissions.  With the
  identifiers the services generate, which begin with \<^verbatim>\<open>RTT-\<close> and \<^verbatim>\<open>R1IDEM-\<close>, the comparison never succeeds: the
  scenario of every RTT can always be changed, also after its submission.\<close>

theorem scenario_guard_never_fires:
  assumes "\<forall>key\<in>set (map fst (bk_submissions b)). starts_with (snd key) ''R1IDEM-''" "starts_with rtt_id ''RTT-''"
  shows "set_scenario rtt_id sc b = (Inr (), b\<lparr>bk_scenarios := dict_set rtt_id sc (bk_scenarios b)\<rparr>)"
proof -
  have "snd key \<noteq> rtt_id" if "key \<in> set (map fst (bk_submissions b))" for key
  proof
    assume eq: "snd key = rtt_id"
    have "starts_with (snd key) ''R1IDEM-''" using assms(1) that by blast
    then obtain u v where "rtt_id = ''R1IDEM-'' @ u" "rtt_id = ''RTT-'' @ v" using eq assms(2) starts_with_split by blast
    then show False by simp
  qed
  then show ?thesis unfolding set_scenario_def by auto
qed

definition recordable :: "submission_result \<Rightarrow> bool" where
  \<comment> \<open>a result the coordinator's validation accepts\<close>
  "recordable v \<longleftrightarrow> (\<exists>c ctx st. require_text ''provider result code'' (sv_code v) = Inr c
     \<and> provider_context (sv_provider_context v) = Inr ctx \<and> outcome_state v = Inr st)"

lemma recordable_rejected: "recordable (rejected_result ''SIM_PROVIDER_TEMPORARY'' REJ_RETRYABLE)"
  "recordable (rejected_result ''SIM_PROVIDER_TERMINAL'' REJ_TERMINAL)" "recordable (unknown_result ''SIM_OUTCOME_UNKNOWN'')"
  unfolding recordable_def rejected_result_def unknown_result_def
  by (simp_all add: require_text_def strip_def is_space_def Let_def provider_context_def outcome_state_def)

lemma sim_texts:
  "strip ''SIM_ACCEPTED_FOR_PROCESSING'' \<noteq> []" "context_key_ok ''originator_conversation_id''" "context_key_ok ''amount_minor''"
  by code_simp+

lemma recordable_accepted:
  assumes "accepted_result q ex og = Inr v" "pr_amount_minor q = PyInt n" "length (show_int n) \<le> 256" "og \<noteq> []" "length og \<le> 256"
  shows "recordable v"
proof -
  have v: "v = \<lparr>sv_outcome = OUT_ACCEPTED, sv_code = ''SIM_ACCEPTED_FOR_PROCESSING'', sv_external_reference = Some ex,
      sv_rejection_disposition = None, sv_provider_context = [(''originator_conversation_id'', og), (''amount_minor'', show_int n)]\<rparr>"
    using assms(1,2) by (simp add: accepted_result_def py_str_def)
  have "show_int n \<noteq> []" by (simp add: show_int_def)
  then have "\<exists>ctx. provider_context (sv_provider_context v) = Inr ctx"
    using assms(3-5) sim_texts by (simp add: v provider_context_def context_field_ok_def)
  then show ?thesis using sim_texts by (auto simp: recordable_def v require_text_def outcome_state_def)
qed

lemma short_hash_length: "n \<le> 64 \<Longrightarrow> length (short_hash p n x) = length p + n"
  by (simp add: short_hash_def)

lemma broker_result_recordable:
  assumes "broker_result q sc b = (Inr v, b')" "pr_amount_minor q = PyInt n" "length (show_int n) \<le> 256"
  shows "recordable v"
proof -
  let ?og = "short_hash ''SIMORG-'' 20 (pr_idempotency_key q)"
  have og: "?og \<noteq> []" "length ?og \<le> 256" by (simp_all add: short_hash_length) (simp add: short_hash_def)
  have "recordable v" if "accepted_result q ex ?og = Inr v" for ex using recordable_accepted [OF that assms(2,3) og] .
  then show ?thesis
    using assms(1) recordable_rejected unfolding broker_result_def Let_def
    by (cases sc) (auto simp: sret_eq slift_eq elim!: sbindE)
qed

lemma recordable_completes:
  assumes "recordable v" "\<And>data x ty. plain data \<Longrightarrow> \<exists>e. submission_event P ks svc x ty data t = Inr e"
  shows "\<exists>x e. completed P ks svc r v t = Inr (x, e)"
proof -
  obtain c ctx st ty where c: "require_text ''provider result code'' (sv_code v) = Inr c"
    "provider_context (sv_provider_context v) = Inr ctx" "outcome_state v = Inr (st, ty)"
    using assms(1) unfolding recordable_def by fastforce
  have "plain (opt_str o')" for o' by (cases o') (simp_all add: opt_str_def)
  then have "plain (result_data v (upper c) ctx)" by (auto simp: result_data_def plain_obj)
  then show ?thesis using assms(2) c by (simp add: completed_def Let_def rbind_def split: sum.splits) (metis sum.distinct(1))
qed

text \<open>
  Simulated results are always recordable.  If every result the broker has on record passes the
  coordinator's validation, then so does the result of any submission whose amount is an integer of at most
  256 digits, and the broker keeps that invariant; with an active signing key the coordinator records the
  outcome, so a sandbox submission never remains in the dispatching state because of a malformed result.\<close>

theorem sandbox_results_recordable:
  assumes "\<And>k sha w. dict_get (bk_submissions b) k = Some (sha, w) \<Longrightarrow> recordable w"
    and "broker_submit q b = (Inr v, b')" "pr_amount_minor q = PyInt n" "length (show_int n) \<le> 256"
    and "can_sign P ks (ss_event_signing_key_id svc) EXECUTION_SIGNING t"
  shows "(\<exists>x e. completed P ks svc r v t = Inr (x, e))
    \<and> (\<forall>k sha w. dict_get (bk_submissions b') k = Some (sha, w) \<longrightarrow> recordable w)"
proof -
  have all: "recordable v \<and> (\<forall>k sha w. dict_get (bk_submissions b') k = Some (sha, w) \<longrightarrow> recordable w)"
    using assms(2)
  proof (cases rule: broker_submit_cases)
    case (replayed u)
    then show ?thesis using assms(1) by fastforce
  next
    case (fresh u sc b1)
    have "recordable v" using broker_result_recordable [of q sc b u b1 n] fresh assms(3,4) by simp
    then show ?thesis using fresh assms(1) by (auto split: if_splits)
  qed simp
  then show ?thesis using recordable_completes submission_event_ok [OF assms(5)] by blast
qed

section \<open>Witnesses\<close>

definition demo_sandbox_request :: provider_request where
  "demo_sandbox_request = \<lparr>pr_idempotency_key = ''R1IDEM-1'', pr_request_sha256 = ''ab'', pr_utt_id = ''UTT-1'', pr_rtt_id = ''RTT-1'',
     pr_attempt_number = 1, pr_provider_id = ''BANK-KE'', pr_adapter_binding_ref = PyStr ''a'', pr_rail = PyStr ''RTGS'',
     pr_amount_minor = PyInt 500, pr_currency_from = PyStr ''KES'', pr_receive_amount_minor = PyInt 500, pr_currency_to = PyStr ''KES'',
     pr_source_institution_id = ''A'', pr_destination_institution_id = ''B'', pr_payer_account_reference = ''SIM-1'',
     pr_beneficiary_account_reference = ''SIM-2''\<rparr>"

definition demo_broker :: effect_broker where
  "demo_broker = empty_broker\<lparr>bk_scenarios := [(''RTT-1'', SCN_REJECTED_TERMINAL)]\<rparr>"

definition demo_broker_after :: effect_broker where
  "demo_broker_after = demo_broker\<lparr>bk_submissions := [((''BANK-KE'', ''R1IDEM-1''), (''ab'', rejected_result ''SIM_PROVIDER_TERMINAL'' REJ_TERMINAL))]\<rparr>"

lemma demo_sandbox_submit:
  "broker_submit demo_sandbox_request demo_broker = (Inr (rejected_result ''SIM_PROVIDER_TERMINAL'' REJ_TERMINAL), demo_broker_after)"
  by (simp add: broker_submit_def sbind_def slift_def sret_def Let_def validate_synthetic_def demo_sandbox_request_def demo_broker_def
      demo_broker_after_def empty_broker_def starts_with_def broker_result_def)

theorem sandbox_submit_idempotent_witness:
  "broker_submit demo_sandbox_request demo_broker_after = (Inr (rejected_result ''SIM_PROVIDER_TERMINAL'' REJ_TERMINAL), demo_broker_after)
   \<and> (\<exists>e. broker_submit (demo_sandbox_request\<lparr>pr_request_sha256 := ''cd''\<rparr>) demo_broker_after = (Inl e, demo_broker_after))"
  using sandbox_submit_idempotent [OF demo_sandbox_submit rtranclp.rtrancl_refl, of demo_sandbox_request]
    sandbox_submit_idempotent [OF demo_sandbox_submit rtranclp.rtrancl_refl, of "demo_sandbox_request\<lparr>pr_request_sha256 := ''cd''\<rparr>"]
  by (simp add: demo_sandbox_request_def)

theorem scenario_guard_never_fires_witness:
  "\<exists>b. set_scenario ''RTT-1'' SCN_SUCCESS demo_broker_after = (Inr (), b)"
proof -
  have "\<forall>key\<in>set (map fst (bk_submissions demo_broker_after)). starts_with (snd key) ''R1IDEM-''" "starts_with ''RTT-1'' ''RTT-''"
    by (simp_all add: demo_broker_after_def starts_with_def)
  from scenario_guard_never_fires [OF this, of SCN_SUCCESS] show ?thesis by blast
qed

theorem sandbox_results_recordable_witness:
  "\<forall>r. \<exists>x e. completed demo_platform demo_keys \<lparr>ss_resolve = \<lambda>_ _. Inr [], ss_event_signing_key_id = ''ke''\<rparr> r
     (rejected_result ''SIM_PROVIDER_TERMINAL'' REJ_TERMINAL) 5000000 = Inr (x, e)"
proof
  fix r
  let ?svc = "\<lparr>ss_resolve = \<lambda>_ _. Inr [], ss_event_signing_key_id = ''ke''\<rparr>"
  have k: "can_sign demo_platform demo_keys (ss_event_signing_key_id ?svc) EXECUTION_SIGNING 5000000"
    by (simp add: demo_can_sign from_epoch_def)
  have e: "dict_get (bk_submissions demo_broker) k = Some (sha, w) \<Longrightarrow> recordable w" for k sha w
    by (simp add: demo_broker_def empty_broker_def)
  have a: "pr_amount_minor demo_sandbox_request = PyInt 500" by (simp add: demo_sandbox_request_def)
  have l: "length (show_int 500) \<le> 256" by code_simp
  show "\<exists>x e. completed demo_platform demo_keys ?svc r (rejected_result ''SIM_PROVIDER_TERMINAL'' REJ_TERMINAL) 5000000 = Inr (x, e)"
    using sandbox_results_recordable [where r = r, OF _ demo_sandbox_submit a l k] e by blast
qed

end
