(* ===== verification/Callback_Inbox.thy ===== *)
theory Callback_Inbox
  imports Sha256 Store_Interfaces
begin

text \<open>
  The inbox of provider callbacks (\<^verbatim>\<open>railone_callbacks/models.py\<close>, \<^verbatim>\<open>store.py\<close>): an event is recorded
  once under its provider and event identifier, a repetition with the same digest replays the record, one
  with another digest is refused, and a record moves from \<open>CB_RECEIVED\<close> to \<open>CB_APPLIED\<close> and stays there.
\<close>

datatype callback_state = CB_RECEIVED | CB_APPLIED

record inbox_record =
  cb_provider_id :: string
  cb_provider_event_id :: string
  cb_payload_sha256 :: string
  cb_normalized_payload :: pyval
  cb_signature_valid :: bool
  cb_state :: callback_state
  cb_received_at :: instant
  cb_applied_at :: "instant option"

record callback_result =
  cr_provider_event_id :: string
  cr_rtt_id :: "string option"
  cr_disposition :: string
  cr_duplicate :: bool

type_synonym callback_inbox = "(string \<times> string, inbox_record) dict"

definition empty_inbox :: callback_inbox where
  "empty_inbox = []"

definition ingest ::
  "string \<Rightarrow> string \<Rightarrow> string \<Rightarrow> pyval \<Rightarrow> bool \<Rightarrow> instant \<Rightarrow> (callback_inbox, inbox_record \<times> bool) st" where
  "ingest provider_id provider_event_id payload_sha256 normalized_payload signature_valid received_at s =
     (let key = (provider_id, provider_event_id) in
      case dict_get s key of
        Some existing \<Rightarrow>
          if cb_payload_sha256 existing \<noteq> payload_sha256
          then (Inl (Raise CallbackPayloadConflictError
                  ''provider callback identifier was reused with different material''), s)
          else (Inr (existing, True), s)
      | None \<Rightarrow>
          let r = \<lparr>cb_provider_id = provider_id, cb_provider_event_id = provider_event_id,
                   cb_payload_sha256 = payload_sha256, cb_normalized_payload = normalized_payload,
                   cb_signature_valid = signature_valid, cb_state = CB_RECEIVED,
                   cb_received_at = received_at, cb_applied_at = None\<rparr>
          in (Inr (r, False), dict_set key r s))"

definition applied_record :: "inbox_record \<Rightarrow> instant \<Rightarrow> inbox_record" where
  "applied_record r at = r\<lparr>cb_state := CB_APPLIED, cb_applied_at := Some at\<rparr>"

definition mark_applied :: "string \<Rightarrow> string \<Rightarrow> instant \<Rightarrow> (callback_inbox, inbox_record) st" where
  "mark_applied provider_id provider_event_id at s =
     (let key = (provider_id, provider_event_id) in
      case dict_get s key of
        None \<Rightarrow> (Inl (Raise LookupError ''provider callback not found''), s)
      | Some r \<Rightarrow>
          if cb_state r = CB_APPLIED then (Inr r, s)
          else (Inr (applied_record r at), dict_set key (applied_record r at) s))"

definition get_callback :: "string \<Rightarrow> string \<Rightarrow> callback_inbox \<Rightarrow> inbox_record option" where
  "get_callback provider_id provider_event_id s = dict_get s (provider_id, provider_event_id)"

section \<open>Events are recorded once\<close>

definition inbox_hash :: "callback_inbox \<Rightarrow> string \<times> string \<Rightarrow> string option" where
  "inbox_hash s k = map_option cb_payload_sha256 (dict_get s k)"

definition inbox_put :: "pyval \<Rightarrow> bool \<Rightarrow> instant \<Rightarrow> string \<times> string \<Rightarrow> string \<Rightarrow> (callback_inbox, string \<times> bool) st" where
  \<comment> \<open>\<open>ingest\<close> in the form of the write-once contract\<close>
  "inbox_put v valid at k h = sbind (ingest (fst k) (snd k) h v valid at) (\<lambda>(r, duplicate). sret (cb_payload_sha256 r, duplicate))"

interpretation inbox: write_once inbox_hash "inbox_put v valid at" "(=)" for v valid at
proof unfold_locales
  fix s k old h
  assume "inbox_hash s k = Some old" "old = h"
  then show "inbox_put v valid at k h s = (Inr (old, True), s)"
    by (auto simp: inbox_put_def inbox_hash_def ingest_def sbind_def sret_def)
next
  fix s k old h
  assume "inbox_hash s k = Some old" "old \<noteq> h"
  then show "\<exists>e. inbox_put v valid at k h s = (Inl e, s)"
    by (auto simp: inbox_put_def inbox_hash_def ingest_def sbind_def)
next
  fix s k h w rep s'
  assume "inbox_hash s k = None" "inbox_put v valid at k h s = (Inr (w, rep), s')"
  then show "w = h \<and> \<not> rep \<and> inbox_hash s' = (inbox_hash s)(k \<mapsto> h)"
    by (auto simp: inbox_put_def inbox_hash_def ingest_def sbind_def sret_def Let_def fun_eq_iff)
next
  fix s k h e s'
  assume "inbox_put v valid at k h s = (Inl e, s')"
  then show "s' = s"
    by (auto simp: inbox_put_def ingest_def sbind_def sret_def Let_def split: option.splits if_splits prod.splits)
qed

lemma ingest_Inl: "ingest p e h v ok at s = (Inl x, s') \<Longrightarrow> s' = s"
  by (auto simp: ingest_def Let_def split: option.splits if_splits)

lemma ingest_Inr:
  assumes "ingest p e h v ok at s = (Inr (r, duplicate), s')"
  shows "dict_get s' (p, e) = Some r" "cb_payload_sha256 r = h" "\<not> duplicate \<Longrightarrow> cb_state r = CB_RECEIVED"
    "duplicate \<Longrightarrow> s' = s" "k \<noteq> (p, e) \<Longrightarrow> dict_get s' k = dict_get s k"
    "dict_get s (p, e) = Some old \<Longrightarrow> r = old \<and> duplicate"
  using assms by (auto simp: ingest_def Let_def split: option.splits if_splits)

lemma ingest_known: "dict_get s (p, e) = Some r \<Longrightarrow> ingest p e (cb_payload_sha256 r) v ok at s = (Inr (r, True), s)"
  by (simp add: ingest_def)

lemma mark_applied_ok:
  assumes "dict_get s (p, e) = Some r"
  obtains q s' where "mark_applied p e at s = (Inr q, s')" "dict_get s' (p, e) = Some q" "cb_state q = CB_APPLIED"
    "cb_payload_sha256 q = cb_payload_sha256 r" "\<And>k. k \<noteq> (p, e) \<Longrightarrow> dict_get s' k = dict_get s k"
  using assms by (cases "cb_state r") (auto simp: mark_applied_def applied_record_def)

lemma mark_applied_hash: "mark_applied p e at s = (x, s') \<Longrightarrow> inbox_hash s' = inbox_hash s"
  by (auto simp: mark_applied_def applied_record_def inbox_hash_def fun_eq_iff Let_def split: option.splits if_splits)

end
