(* ===== verification/Hmac.thy ===== *)
theory Hmac
  imports Sha256
begin

text \<open>
  \<^verbatim>\<open>hmac.new(key, message, hashlib.sha256)\<close>, as the callback ingress and the identity service use it, and
  the shape of hexadecimal digests.
\<close>

definition hmac_block :: "string \<Rightarrow> nat list" where
  "hmac_block key =
     (let k = (if length key > 64 then sha256_bytes key else map of_char key) in k @ replicate (64 - length k) 0)"

definition hmac_mask :: "nat \<Rightarrow> string \<Rightarrow> string" where
  "hmac_mask c key = map (\<lambda>b. char_of (xor b c)) (hmac_block key)"

definition hmac_sha256 :: "string \<Rightarrow> string \<Rightarrow> nat list" where
  \<comment> \<open>\<^verbatim>\<open>.digest()\<close>\<close>
  "hmac_sha256 key message =
     sha256_bytes (hmac_mask 0x5C key @ map char_of (sha256_bytes (hmac_mask 0x36 key @ message)))"

definition hmac_sha256_hex :: "string \<Rightarrow> string \<Rightarrow> string" where
  \<comment> \<open>\<^verbatim>\<open>.hexdigest()\<close>\<close>
  "hmac_sha256_hex key message = hex_of_bytes (hmac_sha256 key message)"

section \<open>Digests are lower-case hexadecimal\<close>

definition hex_text :: "string \<Rightarrow> bool" where
  "hex_text s \<longleftrightarrow> (\<forall>c\<in>set s. c \<in> set ''0123456789abcdef'')"

lemma hex_digits: "hex_digit ` {..<16} = set ''0123456789abcdef''"
  by code_simp

lemma hex_char:
  assumes "c \<in> set ''0123456789abcdef''"
  shows "\<not> is_space c" "lower_char c = c" "(of_char c :: nat) < 128" "c \<noteq> CHR ''s''"
  using assms by (auto simp: is_space_def lower_char_def)

lemma hex_of_bytes_hex: "\<forall>b\<in>set bs. b < 256 \<Longrightarrow> hex_text (hex_of_bytes bs)"
  unfolding hex_text_def hex_digits [symmetric] by (induction bs) (auto simp: hex_of_bytes_def)

lemma sha256_hex_text: "hex_text (sha256_hex m)"
  using sha256_bytes_range [of _ m] hex_of_bytes_hex by (simp add: sha256_hex_def)

lemma hmac_hex_text: "hex_text (hmac_sha256_hex k m)" "length (hmac_sha256_hex k m) = 64"
  using sha256_bytes_range hex_of_bytes_hex by (simp_all add: hmac_sha256_hex_def hmac_sha256_def)

end
