(* ===== verification/Json_Loads.thy ===== *)
theory Json_Loads
  imports Canonical_Json
begin

text \<open>
  \<^verbatim>\<open>json.loads\<close>, as the callback boundary uses it: the scanner of the standard library with its
  default hooks (strict strings, the last of two equal keys wins, \<^verbatim>\<open>NaN\<close> and \<^verbatim>\<open>Infinity\<close> accepted).
  The scanner is bounded by a fuel that \<open>json_loads\<close> chooses from the length of the text; it is never
  used up.  The main result: what the canonical encoder writes is read back.

  Text is exact for ASCII; an escape above 127 is outside the model and raises \<open>OtherException\<close>.  The
  interpreter's limits on recursion depth and on the length of integer literals are not modelled.
\<close>

section \<open>Scanning\<close>

definition json_ws :: "char \<Rightarrow> bool" where
  "json_ws c \<longleftrightarrow> c = CHR '' '' \<or> c = CHR 0x09 \<or> c = CHR 0x0A \<or> c = CHR 0x0D"

definition skip_ws :: "string \<Rightarrow> string" where
  "skip_ws = dropWhile json_ws"

definition hex_digit_value :: "char \<Rightarrow> nat option" where
  "hex_digit_value c =
     (let n = of_char c in
      if 48 \<le> n \<and> n \<le> 57 then Some (n - 48)
      else if 97 \<le> n \<and> n \<le> 102 then Some (n - 87)
      else if 65 \<le> n \<and> n \<le> 70 then Some (n - 55) else None)"

definition scan_hex :: "char \<Rightarrow> char \<Rightarrow> char \<Rightarrow> char \<Rightarrow> char res" where
  \<comment> \<open>\<^verbatim>\<open>\uXXXX\<close>\<close>
  "scan_hex a b c d =
     (case (hex_digit_value a, hex_digit_value b, hex_digit_value c, hex_digit_value d) of
        (Some w, Some x, Some y, Some z) \<Rightarrow>
          let n = 4096 * w + 256 * x + 16 * y + z in
          if n < 128 then Inr (char_of n) else Inl (Raise OtherException ''text outside ASCII'')
      | _ \<Rightarrow> Inl (Raise JSONDecodeError (CHR 0x5C # ''uXXXX escape is invalid'')))"

definition scan_escape :: "char \<Rightarrow> char res" where
  "scan_escape e =
     (if e = CHR 0x22 \<or> e = CHR 0x5C \<or> e = CHR ''/'' then Inr e
      else if e \<in> {CHR ''b'', CHR ''f'', CHR ''n'', CHR ''r'', CHR ''t''} then Inr (unescape e)
      else Inl (Raise JSONDecodeError ''escape is invalid''))"

fun scan_string :: "string \<Rightarrow> (string \<times> string) res" where
  \<comment> \<open>the text after the opening quote: its value and what follows the closing one\<close>
  "scan_string [] = Inl (Raise JSONDecodeError ''Unterminated string starting at'')"
| "scan_string (c # cs) =
     (if c = CHR 0x22 then Inr ([], cs)
      else if c = CHR 0x5C then
       (case cs of
          e # r \<Rightarrow>
            if e = CHR ''u'' then
             (case r of
                h1 # h2 # h3 # h4 # t \<Rightarrow>
                  rbind (scan_hex h1 h2 h3 h4) (\<lambda>d. rbind (scan_string t) (\<lambda>(s, u). Inr (d # s, u)))
              | _ \<Rightarrow> Inl (Raise JSONDecodeError (CHR 0x5C # ''uXXXX escape is invalid'')))
            else rbind (scan_escape e) (\<lambda>d. rbind (scan_string r) (\<lambda>(s, u). Inr (d # s, u)))
        | [] \<Rightarrow> Inl (Raise JSONDecodeError ''Unterminated string starting at''))
      else if (of_char c :: nat) < 32 then Inl (Raise JSONDecodeError ''Invalid control character at'')
      else rbind (scan_string cs) (\<lambda>(s, u). Inr (c # s, u)))"

section \<open>Numbers\<close>

fun bits :: "nat \<Rightarrow> nat" where
  "bits n = (if n = 0 then 0 else Suc (bits (n div 2)))"

declare bits.simps [simp del]

definition scaled :: "nat \<Rightarrow> nat \<Rightarrow> int \<Rightarrow> nat \<times> nat" where
  \<comment> \<open>the fraction \<open>(num / den) / 2 ^ e\<close>\<close>
  "scaled num den e = (if e \<ge> 0 then (num, den * 2 ^ nat e) else (num * 2 ^ nat (- e), den))"

definition round_half_even :: "nat \<Rightarrow> nat \<Rightarrow> nat" where
  "round_half_even n d =
     (let q = n div d; r = n mod d in if 2 * r > d \<or> (2 * r = d \<and> odd q) then q + 1 else q)"

definition float_integer :: "nat \<Rightarrow> nat \<Rightarrow> nat option" where
  \<comment> \<open>the double nearest to \<open>num / den\<close>, where it is an integer\<close>
  "float_integer num den =
     (if num = 0 then Some 0
      else let b = int (bits num) - int (bits den);
               l = (case scaled num den b of (n, d) \<Rightarrow> if n \<ge> d then b else b - 1);
               e = max (l - 52) (- 1074);
               q = (case scaled num den e of (n, d) \<Rightarrow> round_half_even n d)
           in if e \<ge> 0 then (if q * 2 ^ nat e \<ge> 2 ^ 1024 then None else Some (q * 2 ^ nat e))
              else if q mod 2 ^ nat (- e) = 0 then Some (q div 2 ^ nat (- e)) else None)"

definition float_literal :: "int \<Rightarrow> string \<Rightarrow> string \<Rightarrow> int \<Rightarrow> pyval" where
  "float_literal sign whole fraction expo =
     (let m = value_of_digits (whole @ fraction); e = expo - int (length fraction) in
      PyFloat (map_option (\<lambda>n. sign * int n)
        (if e \<ge> 0 then float_integer (m * 10 ^ nat e) 1 else float_integer m (10 ^ nat (- e)))))"

definition split_sign :: "string \<Rightarrow> int \<times> string" where
  "split_sign cs = (case cs of c # t \<Rightarrow> if c = CHR ''-'' then (- 1, t) else (1, cs) | [] \<Rightarrow> (1, []))"

definition split_fraction :: "string \<Rightarrow> string \<times> string" where
  "split_fraction cs =
     (case cs of c # t \<Rightarrow> if c = CHR ''.'' \<and> takeWhile is_digit t \<noteq> []
                          then (takeWhile is_digit t, dropWhile is_digit t) else ([], cs)
      | [] \<Rightarrow> ([], []))"

definition split_exponent :: "string \<Rightarrow> int option \<times> string" where
  "split_exponent cs =
     (case cs of
        c # t \<Rightarrow>
          let (sign, r) = (case t of d # u \<Rightarrow> if d = CHR ''-'' then (- 1, u) else if d = CHR ''+'' then (1, u) else (1, t)
                           | [] \<Rightarrow> (1 :: int, []))
          in if (c = CHR ''e'' \<or> c = CHR ''E'') \<and> takeWhile is_digit r \<noteq> []
             then (Some (sign * int (value_of_digits (takeWhile is_digit r))), dropWhile is_digit r)
             else (None, cs)
      | [] \<Rightarrow> (None, []))"

definition scan_number :: "string \<Rightarrow> (pyval \<times> string) option" where
  \<comment> \<open>\<^verbatim>\<open>(-?(?:0|[1-9][0-9]*))(\.[0-9]+)?([eE][-+]?[0-9]+)?\<close>\<close>
  "scan_number cs =
     (case split_sign cs of (sign, r) \<Rightarrow>
      case r of
        [] \<Rightarrow> None
      | d # t \<Rightarrow>
          if \<not> is_digit d then None
          else let whole = (if d = CHR ''0'' then [d] else takeWhile is_digit r);
                   rest = (if d = CHR ''0'' then t else dropWhile is_digit r)
               in case split_fraction rest of (fraction, rest2) \<Rightarrow>
                  case split_exponent rest2 of (expo, rest3) \<Rightarrow>
                  Some (if fraction = [] \<and> expo = None then PyInt (sign * int (value_of_digits whole))
                        else float_literal sign whole fraction (case expo of None \<Rightarrow> 0 | Some e \<Rightarrow> e), rest3))"

definition scan_literal :: "string \<Rightarrow> (pyval \<times> string) res" where
  \<comment> \<open>what is neither text, object nor array\<close>
  "scan_literal cs =
     (if take 4 cs = ''null'' then Inr (PyNone, drop 4 cs)
      else if take 4 cs = ''true'' then Inr (PyBool True, drop 4 cs)
      else if take 5 cs = ''false'' then Inr (PyBool False, drop 5 cs)
      else case scan_number cs of
        Some r \<Rightarrow> Inr r
      | None \<Rightarrow>
          if take 3 cs = ''NaN'' then Inr (PyFloat None, drop 3 cs)
          else if take 8 cs = ''Infinity'' then Inr (PyFloat None, drop 8 cs)
          else if take 9 cs = ''-Infinity'' then Inr (PyFloat None, drop 9 cs)
          else Inl (Raise JSONDecodeError ''Expecting value''))"

section \<open>Values\<close>

definition out_of_fuel :: error where
  "out_of_fuel = Raise OtherException ''out of fuel''"

definition dict_of_pairs :: "(pyval \<times> pyval) list \<Rightarrow> (pyval, pyval) dict" where
  "dict_of_pairs kvs = fold (\<lambda>(k, v). dict_set k v) kvs []"

fun json_value :: "nat \<Rightarrow> string \<Rightarrow> (pyval \<times> string) res"
  and json_elements :: "nat \<Rightarrow> string \<Rightarrow> (pyval list \<times> string) res"
  and json_members :: "nat \<Rightarrow> string \<Rightarrow> ((pyval \<times> pyval) list \<times> string) res" where
  "json_value 0 cs = Inl out_of_fuel"
| "json_value (Suc n) cs =
     (case cs of
        [] \<Rightarrow> Inl (Raise JSONDecodeError ''Expecting value'')
      | c # r \<Rightarrow>
          if c = CHR 0x22 then rbind (scan_string r) (\<lambda>(s, t). Inr (PyStr s, t))
          else if c = CHR ''{'' then
           (if take 1 (skip_ws r) = ''}'' then Inr (PyDict [], drop 1 (skip_ws r))
            else rbind (json_members n (skip_ws r)) (\<lambda>(kvs, t). Inr (PyDict (dict_of_pairs kvs), t)))
          else if c = CHR ''['' then
           (if take 1 (skip_ws r) = '']'' then Inr (PyList [], drop 1 (skip_ws r))
            else rbind (json_elements n (skip_ws r)) (\<lambda>(vs, t). Inr (PyList vs, t)))
          else scan_literal cs)"
| "json_elements 0 cs = Inl out_of_fuel"
| "json_elements (Suc n) cs =
     rbind (json_value n cs) (\<lambda>(v, r).
     case skip_ws r of
       c # t \<Rightarrow>
         if c = CHR '']'' then Inr ([v], t)
         else if c = CHR '','' then rbind (json_elements n (skip_ws t)) (\<lambda>(vs, u). Inr (v # vs, u))
         else Inl (Raise JSONDecodeError ''Expecting ',' delimiter'')
     | [] \<Rightarrow> Inl (Raise JSONDecodeError ''Expecting ',' delimiter''))"
| "json_members 0 cs = Inl out_of_fuel"
| "json_members (Suc n) cs =
     (if take 1 cs \<noteq> [CHR 0x22] then Inl (Raise JSONDecodeError ''Expecting property name enclosed in double quotes'')
      else rbind (scan_string (drop 1 cs)) (\<lambda>(k, r).
      if take 1 (skip_ws r) \<noteq> '':'' then Inl (Raise JSONDecodeError ''Expecting ':' delimiter'')
      else rbind (json_value n (skip_ws (drop 1 (skip_ws r)))) (\<lambda>(v, w).
      case skip_ws w of
        c # t \<Rightarrow>
          if c = CHR ''}'' then Inr ([(PyStr k, v)], t)
          else if c = CHR '','' then rbind (json_members n (skip_ws t)) (\<lambda>(kvs, u). Inr ((PyStr k, v) # kvs, u))
          else Inl (Raise JSONDecodeError ''Expecting ',' delimiter'')
      | [] \<Rightarrow> Inl (Raise JSONDecodeError ''Expecting ',' delimiter''))))"

declare json_value.simps [simp del] json_elements.simps [simp del] json_members.simps [simp del]

definition json_loads :: "string \<Rightarrow> pyval res" where
  "json_loads s =
     rbind (json_value (2 * length s + 1) (skip_ws s)) (\<lambda>(v, r).
     if skip_ws r = [] then Inr v else Inl (Raise JSONDecodeError ''Extra data''))"

section \<open>The fuel suffices\<close>

definition json_raises :: "error \<Rightarrow> bool" where
  "json_raises e \<longleftrightarrow> exc_of e = JSONDecodeError \<or> e = Raise OtherException ''text outside ASCII''"

definition reads :: "string \<Rightarrow> ('a \<times> string) res \<Rightarrow> bool" where
  \<comment> \<open>the scanner stops by itself and, when it returns, has consumed something\<close>
  "reads cs x \<longleftrightarrow> (case x of Inl e \<Rightarrow> json_raises e | Inr (v, r) \<Rightarrow> length r < length cs)"

lemma reads_simps [simp]:
  "reads cs (Inr (v, r)) \<longleftrightarrow> length r < length cs" "reads cs (Inl e) \<longleftrightarrow> json_raises e"
  "json_raises (Raise JSONDecodeError m)"
  by (simp_all add: reads_def json_raises_def)

lemma reads_bind:
  assumes "reads cs x" and "\<And>v r. x = Inr (v, r) \<Longrightarrow> length r < length cs \<Longrightarrow> reads ds (f (v, r))"
  shows "reads ds (rbind x f)"
  using assms by (cases x) (auto simp: reads_def)

lemma length_skip_ws: "length (skip_ws s) \<le> length s"
  by (simp add: skip_ws_def length_dropWhile_le)

lemma skip_ws_shorter: "skip_ws r = c # t \<Longrightarrow> length t < length r"
  using length_skip_ws [of r] by simp

lemma scan_char_raises: "scan_hex a b c d = Inl e \<Longrightarrow> json_raises e" "scan_escape x = Inl e \<Longrightarrow> json_raises e"
  by (auto simp: scan_hex_def scan_escape_def json_raises_def Let_def split: option.splits if_splits)

lemma reads_scan_string: "reads cs (scan_string cs)"
proof (induction cs rule: scan_string.induct)
  case (2 c cs)
  have bind: "reads (c # cs) (rbind x (\<lambda>d. rbind (scan_string t) (\<lambda>(s, u). Inr (d # s, u))))"
    if "\<And>e. x = Inl e \<Longrightarrow> json_raises e" "\<And>d. x = Inr d \<Longrightarrow> reads t (scan_string t)" "length t \<le> length cs" for x :: "char res" and t
    using that by (cases x; cases "scan_string t") (auto simp: reads_def)
  consider "c = CHR 0x22" | "c = CHR 0x5C" | "c \<noteq> CHR 0x22" "c \<noteq> CHR 0x5C" by blast
  then show ?case
  proof cases
    case 2
    show ?thesis
    proof (cases cs)
      case (Cons e r)
      have "reads r (scan_string r)" if "e \<noteq> CHR ''u''" "scan_escape e = Inr d" for d using "2.IH"(2) 2 Cons that by simp
      then have short: "e \<noteq> CHR ''u'' \<Longrightarrow> ?thesis"
        using 2 Cons bind [of "scan_escape e" r] scan_char_raises(2) by simp
      show ?thesis
      proof (cases "\<exists>h1 h2 h3 h4 t. e = CHR ''u'' \<and> r = h1 # h2 # h3 # h4 # t")
        case True
        then obtain h1 h2 h3 h4 t where h: "e = CHR ''u''" "r = h1 # h2 # h3 # h4 # t" by blast
        have "reads t (scan_string t)" if "scan_hex h1 h2 h3 h4 = Inr d" for d using "2.IH"(1) 2 Cons h that by simp
        then show ?thesis using 2 Cons h bind [of "scan_hex h1 h2 h3 h4" t] scan_char_raises(1) by simp
      next
        case False
        then show ?thesis using 2 Cons short by (cases "e = CHR ''u''") (auto split: list.splits)
      qed
    qed (use 2 in simp)
  next
    case 3
    then show ?thesis using "2.IH"(3) bind [of "Inr c" cs] by simp
  qed simp
qed simp

lemma scan_number_shorter: "scan_number cs = Some (v, r) \<Longrightarrow> length r < length cs"
proof -
  have f: "length (snd (split_fraction s)) \<le> length s" for s
    by (cases s) (auto simp: split_fraction_def length_dropWhile_le le_SucI)
  have e: "length (snd (split_exponent s)) \<le> length s" for s
  proof -
    have "length (dropWhile is_digit u) \<le> Suc (length u)" "length (dropWhile is_digit u) \<le> Suc (Suc (length u))" for u
      using length_dropWhile_le [of is_digit u] by simp_all
    then show ?thesis by (cases s) (auto simp: split_exponent_def Let_def split: list.splits if_splits)
  qed
  have g: "length (snd (split_sign cs)) \<le> length cs" by (auto simp: split_sign_def split: list.splits)
  assume s: "scan_number cs = Some (v, r)"
  obtain sign q where q: "split_sign cs = (sign, q)" by (cases "split_sign cs")
  with s obtain d t where t: "q = d # t" "is_digit d" by (auto simp: scan_number_def split: list.splits if_splits)
  let ?rest = "if d = CHR ''0'' then t else dropWhile is_digit t"
  have "r = snd (split_exponent (snd (split_fraction ?rest)))"
    using s q t by (auto simp: scan_number_def Let_def split: prod.splits if_splits)
  moreover have "length ?rest \<le> length t" by (simp add: length_dropWhile_le)
  ultimately have "length r \<le> length t" using e [of "snd (split_fraction ?rest)"] f [of ?rest] by (metis le_trans)
  then show ?thesis using g q t by simp
qed

lemma reads_scan_literal: "reads cs (scan_literal cs)"
proof (cases cs)
  case Nil
  then show ?thesis by (simp add: scan_literal_def scan_number_def split_sign_def)
next
  case (Cons c t)
  then have "length (drop (Suc n) cs) < length cs" for n by simp
  from this [of 2] this [of 3] this [of 4] this [of 7] this [of 8] show ?thesis
    by (auto simp: scan_literal_def simp del: length_drop split: option.splits dest: scan_number_shorter)
qed

lemma reads_tail:
  assumes "length r < length cs" and "\<And>t. skip_ws r = CHR '','' # t \<Longrightarrow> reads (skip_ws t) (g (skip_ws t))"
  shows "reads cs (case skip_ws r of
      c # t \<Rightarrow> if c = close then Inr (x, t)
        else if c = CHR '','' then rbind (g (skip_ws t)) (\<lambda>(ys, u). Inr (y # ys, u))
        else Inl (Raise JSONDecodeError m)
    | [] \<Rightarrow> Inl (Raise JSONDecodeError m))"
proof (cases "skip_ws r")
  case (Cons c t)
  have l: "length t < length cs" "length (skip_ws t) < length cs"
    using assms(1) skip_ws_shorter [OF Cons] length_skip_ws [of t] by simp_all
  have "reads cs (rbind (g (skip_ws t)) (\<lambda>(ys, u). Inr (y # ys, u)))" if "c = CHR '',''"
    using assms(2) Cons that l(2) by (intro reads_bind [of "skip_ws t"]) simp_all
  then show ?thesis using Cons l(1) by simp
qed simp

lemma fuel_enough:
  "2 * length cs < n \<Longrightarrow> reads cs (json_value n cs)"
  "2 * length cs + 1 < n \<Longrightarrow> reads cs (json_elements n cs)"
  "2 * length cs < n \<Longrightarrow> reads cs (json_members n cs)"
proof (induction n cs and n cs and n cs rule: json_value_json_elements_json_members.induct)
  case (2 n cs)
  show ?case
  proof (cases cs)
    case (Cons c r)
    note l = length_skip_ws [of r]
    have "reads (skip_ws r) (json_members n (skip_ws r))" if "c = CHR ''{''" "take 1 (skip_ws r) \<noteq> ''}''"
      using "2.IH"(1) [OF Cons] that "2.prems" l Cons by simp
    moreover have "reads (skip_ws r) (json_elements n (skip_ws r))" if "c = CHR ''[''" "take 1 (skip_ws r) \<noteq> '']''"
      using "2.IH"(2) [OF Cons] that "2.prems" l Cons by simp
    ultimately show ?thesis using l Cons reads_scan_string [of r] reads_scan_literal [of cs]
      by (simp add: json_value.simps) (auto intro!: reads_bind)
  qed (simp add: json_value.simps)
next
  case (4 n cs)
  show ?case
    unfolding json_elements.simps
  proof (rule reads_bind)
    show "reads cs (json_value n cs)" using "4.IH"(1) "4.prems" by simp
    fix v r assume v: "json_value n cs = Inr (v, r)" "length r < length cs"
    have "reads (skip_ws t) (json_elements n (skip_ws t))" if "skip_ws r = CHR '','' # t" for t
      using "4.IH"(2) [OF v(1) refl that] "4.prems" v(2) skip_ws_shorter [OF that] length_skip_ws [of t] by simp
    then show "reads cs (case (v, r) of (v, r) \<Rightarrow> case skip_ws r of
        c # t \<Rightarrow> if c = CHR '']'' then Inr ([v], t)
          else if c = CHR '','' then rbind (json_elements n (skip_ws t)) (\<lambda>(vs, u). Inr (v # vs, u))
          else Inl (Raise JSONDecodeError ''Expecting ',' delimiter'')
      | [] \<Rightarrow> Inl (Raise JSONDecodeError ''Expecting ',' delimiter''))"
      using reads_tail [OF v(2), of "json_elements n"] by simp
  qed
next
  case (6 n cs)
  show ?case
  proof (cases "take 1 cs = [CHR 0x22]")
    case True
    then obtain c0 where c0: "cs = CHR 0x22 # c0" by (cases cs) auto
    have "reads cs (if take 1 (skip_ws r) \<noteq> '':'' then Inl (Raise JSONDecodeError m)
        else rbind (json_value n (skip_ws (drop 1 (skip_ws r)))) (\<lambda>(v, w). case skip_ws w of
          c # t \<Rightarrow> if c = CHR ''}'' then Inr ([(PyStr k, v)], t)
            else if c = CHR '','' then rbind (json_members n (skip_ws t)) (\<lambda>(kvs, u). Inr ((PyStr k, v) # kvs, u))
            else Inl (Raise JSONDecodeError ''Expecting ',' delimiter'')
        | [] \<Rightarrow> Inl (Raise JSONDecodeError ''Expecting ',' delimiter'')))"
      if k: "scan_string c0 = Inr (k, r)" "length r < length c0" for k r m
    proof (cases "take 1 (skip_ws r) = '':''")
      case colon: True
      let ?r = "skip_ws (drop 1 (skip_ws r))"
      have l: "length ?r < length cs"
        using k(2) c0 length_skip_ws [of r] length_skip_ws [of "drop 1 (skip_ws r)"] by simp
      have v: "reads ?r (json_value n ?r)" using "6.IH"(1) [of "(k, r)"] True k(1) colon c0 l "6.prems" by simp
      have "reads (skip_ws t) (json_members n (skip_ws t))"
        if "json_value n ?r = Inr (v, w)" "length w < length ?r" "skip_ws w = CHR '','' # t" for v w t
        using "6.IH"(2) [of "(k, r)" k r "(v, w)" v w "CHR '',''" t] True k(1) colon c0 l that "6.prems"
          skip_ws_shorter [OF that(3)] length_skip_ws [of t] by simp
      then have "reads cs (rbind (json_value n ?r) (\<lambda>(v, w). case skip_ws w of
          c # t \<Rightarrow> if c = CHR ''}'' then Inr ([(PyStr k, v)], t)
            else if c = CHR '','' then rbind (json_members n (skip_ws t)) (\<lambda>(kvs, u). Inr ((PyStr k, v) # kvs, u))
            else Inl (Raise JSONDecodeError ''Expecting ',' delimiter'')
        | [] \<Rightarrow> Inl (Raise JSONDecodeError ''Expecting ',' delimiter'')))"
        using l by (intro reads_bind [OF v]) (simp, intro reads_tail; simp)
      then show ?thesis using colon by simp
    qed simp
    then show ?thesis using True c0 reads_scan_string [of c0]
      by (simp add: json_members.simps) (intro reads_bind [of c0]; simp)
  qed (simp add: json_members.simps)
qed (simp_all add: json_value.simps json_elements.simps json_members.simps)

lemma json_loads_raises:
  assumes "json_loads s = Inl e"
  shows "json_raises e"
proof -
  have "reads (skip_ws s) (json_value (2 * length s + 1) (skip_ws s))"
    using fuel_enough(1) length_skip_ws [of s] by simp
  then show ?thesis using assms by (auto simp: json_loads_def rbind_eq_Inl json_raises_def split: if_splits)
qed

section \<open>Reading back what the encoder writes\<close>

lemma skip_ws_first: "c # t = s \<Longrightarrow> \<not> json_ws c \<Longrightarrow> skip_ws s = s"
  by (auto simp: skip_ws_def)

lemma skip_ws_simps [simp]: "skip_ws [] = []" "\<not> json_ws c \<Longrightarrow> skip_ws (c # t) = c # t"
  "\<not> json_ws CHR '',''" "\<not> json_ws CHR '']''" "\<not> json_ws CHR ''}''" "\<not> json_ws CHR '':''" "\<not> json_ws CHR 0x22"
  by (auto simp: skip_ws_def json_ws_def)

lemma hex_digit_value [simp]: "n < 16 \<Longrightarrow> hex_digit_value (hex_digit n) = Some n"
  by (auto simp: hex_digit_value_def hex_digit_def Let_def)

lemma scan_escaped: "scan_string (escape_char c @ r) = rbind (scan_string r) (\<lambda>(s, u). Inr (c # s, u))"
proof -
  have z: "hex_digit_value CHR ''0'' = Some 0" by (simp add: hex_digit_value_def)
  have hex: "scan_hex CHR ''0'' CHR ''0'' (hex_digit (of_char c div 16)) (hex_digit (of_char c mod 16)) = Inr c"
    if "(of_char c :: nat) < 32" using that by (simp add: scan_hex_def z Let_def mult.commute)
  show ?thesis using hex by (auto simp: escape_char_def scan_escape_def unescape_def)
qed

lemma scan_quoted: "scan_string (concat (map escape_char s) @ CHR 0x22 # r) = Inr (s, r)"
  by (induction s) (simp_all add: scan_escaped)

definition num_end :: "string \<Rightarrow> bool" where
  "num_end r \<longleftrightarrow> stops (\<lambda>c. is_digit c \<or> c = CHR ''.'' \<or> c = CHR ''e'' \<or> c = CHR ''E'') r"

lemma num_end_simps [simp]: "num_end []" "num_end (CHR '','' # r)" "num_end (CHR '']'' # r)" "num_end (CHR ''}'' # r)"
  by (simp_all add: num_end_def stops_def is_digit_def)

lemma num_end_splits:
  assumes "num_end r"
  shows "takeWhile is_digit r = []" "dropWhile is_digit r = r" "split_fraction r = ([], r)" "split_exponent r = (None, r)"
  using assms by (cases r; auto simp: num_end_def stops_def split_fraction_def split_exponent_def Let_def split: prod.splits)+

lemma show_nat_lead: "show_nat n = CHR ''0'' # t \<Longrightarrow> n = 0 \<and> t = []"
proof (induction n arbitrary: t rule: show_nat.induct)
  case (1 n)
  show ?case
  proof (cases "n < 10")
    case True
    have "n = 0" if "char_of (48 + n) = CHR ''0''" using arg_cong [OF that, of "of_char :: char \<Rightarrow> nat"] True by simp
    then show ?thesis using True "1.prems" by (subst (asm) show_nat.simps) auto
  next
    case False
    obtain c u where u: "show_nat (n div 10) = c # u" by (cases "show_nat (n div 10)") auto
    then have "c = CHR ''0''" using False "1.prems" by (subst (asm) show_nat.simps) auto
    then show ?thesis using False "1.IH" u by auto
  qed
qed

lemma scan_digits:
  assumes "num_end r"
  shows "takeWhile is_digit (show_nat n @ r) = show_nat n" "dropWhile is_digit (show_nat n @ r) = r"
proof -
  have "\<forall>c\<in>set (show_nat n). is_digit c" using show_nat_digits by (simp add: list_all_iff)
  then show "takeWhile is_digit (show_nat n @ r) = show_nat n" "dropWhile is_digit (show_nat n @ r) = r"
    using num_end_splits(1,2) [OF assms] by (simp_all add: takeWhile_append2 dropWhile_append2)
qed

lemma scan_show_int:
  assumes "num_end r"
  shows "scan_number (show_int i @ r) = Some (PyInt i, r)"
proof -
  have key: "scan_number cs = Some (PyInt (sign * int n), r)" if sp: "split_sign cs = (sign, show_nat n @ r)" for cs sign n
  proof -
    obtain d t where d: "show_nat n = d # t" by (cases "show_nat n") auto
    have dg: "is_digit d" using show_nat_digits [of n] d by simp
    show ?thesis
    proof (cases "d = CHR ''0''")
      case True
      then have "n = 0" "t = []" using show_nat_lead [of n t] d by simp_all
      then show ?thesis using sp d dg True by (simp add: scan_number_def num_end_splits [OF assms] value_of_digits_def)
    next
      case False
      then show ?thesis using sp d dg scan_digits [OF assms, of n] value_show_nat [of n]
        by (simp add: scan_number_def num_end_splits [OF assms])
    qed
  qed
  show ?thesis
  proof (cases "i < 0")
    case True
    then have "split_sign (show_int i @ r) = (- 1, show_nat (nat (- i)) @ r)" by (simp add: show_int_def split_sign_def)
    from key [OF this] True show ?thesis by simp
  next
    case False
    obtain d t where d: "show_nat (nat i) = d # t" by (cases "show_nat (nat i)") auto
    then have "d \<noteq> CHR ''-''" using show_nat_not_minus by blast
    then have "split_sign (show_int i @ r) = (1, show_nat (nat i) @ r)" using False d by (simp add: show_int_def split_sign_def)
    from key [OF this] False show ?thesis by simp
  qed
qed

fun from_json :: "json \<Rightarrow> pyval"
  and from_json_items :: "(string \<times> json) list \<Rightarrow> (pyval \<times> pyval) list"
  and from_json_seq :: "json list \<Rightarrow> pyval list" where
  "from_json JNull = PyNone"
| "from_json (JBool b) = PyBool b"
| "from_json (JInt i) = PyInt i"
| "from_json (JStr s) = PyStr s"
| "from_json (JArr vs) = PyList (from_json_seq vs)"
| "from_json (JObj kvs) = PyDict (from_json_items kvs)"
| "from_json_items [] = []"
| "from_json_items ((k, v) # kvs) = (PyStr k, from_json v) # from_json_items kvs"
| "from_json_seq [] = []"
| "from_json_seq (v # vs) = from_json v # from_json_seq vs"

fun keys_ok :: "json \<Rightarrow> bool"
  and keys_ok_items :: "(string \<times> json) list \<Rightarrow> bool"
  and keys_ok_seq :: "json list \<Rightarrow> bool" where
  \<comment> \<open>no object has two equal keys\<close>
  "keys_ok (JArr vs) = keys_ok_seq vs"
| "keys_ok (JObj kvs) = (distinct (map fst kvs) \<and> keys_ok_items kvs)"
| "keys_ok _ = True"
| "keys_ok_items [] = True"
| "keys_ok_items ((k, v) # kvs) = (keys_ok v \<and> keys_ok_items kvs)"
| "keys_ok_seq [] = True"
| "keys_ok_seq (v # vs) = (keys_ok v \<and> keys_ok_seq vs)"

lemma dict_of_pairs_distinct: "distinct (map fst kvs) \<Longrightarrow> dict_of_pairs kvs = kvs"
proof -
  have "distinct (map fst (ds @ kvs)) \<Longrightarrow> fold (\<lambda>(k, v). dict_set k v) kvs ds = ds @ kvs" for ds :: "(pyval, pyval) dict"
  proof (induction kvs arbitrary: ds)
    case (Cons p kvs)
    have "dict_get ds (fst p) = None" using Cons.prems by (force simp: map_of_eq_None_iff)
    then show ?case using Cons.IH [of "ds @ [p]"] Cons.prems by (cases p) (simp add: dict_set_fresh)
  qed simp
  from this [of "[]"] show "distinct (map fst kvs) \<Longrightarrow> dict_of_pairs kvs = kvs" by (simp add: dict_of_pairs_def)
qed

lemma from_json_items_keys: "map fst (from_json_items kvs) = map (PyStr \<circ> fst) kvs"
  by (induction kvs) auto

lemma from_json_items_distinct: "distinct (map fst kvs) \<Longrightarrow> distinct (map fst (from_json_items kvs))"
  by (simp add: from_json_items_keys distinct_map inj_on_def)

lemma flat_nonempty [simp]: "flat v \<noteq> []"
  by (cases v) (auto simp: quote_def show_int_def)

lemma flat_first_ws: "flat v @ r = c # t \<Longrightarrow> \<not> json_ws c"
proof (cases v)
  case (JInt i)
  moreover assume "flat v @ r = c # t"
  ultimately have "num_char c" using show_int_first by auto
  then show ?thesis by (auto simp: num_char_def is_digit_def json_ws_def)
qed (auto simp: quote_def json_ws_def split: if_splits)

lemma skip_ws_flat [simp]: "skip_ws (flat v @ r) = flat v @ r"
  using flat_first_ws [of v r] by (cases "flat v @ r") auto

lemma scan_literal_int: "num_end r \<Longrightarrow> scan_literal (show_int i @ r) = Inr (PyInt i, r)"
proof -
  assume r: "num_end r"
  obtain c t where c: "show_int i @ r = c # t" by (cases "show_int i @ r") (auto simp: show_int_def split: if_splits)
  then have "num_char c" by (rule show_int_first)
  then have "c \<noteq> CHR ''n''" "c \<noteq> CHR ''t''" "c \<noteq> CHR ''f''" by auto
  then have "take 4 (show_int i @ r) \<noteq> ''null''" "take 4 (show_int i @ r) \<noteq> ''true''" "take 5 (show_int i @ r) \<noteq> ''false''"
    unfolding c by simp_all
  then show ?thesis using scan_show_int [OF r] by (simp add: scan_literal_def)
qed

lemma read_int:
  assumes "num_end r"
  shows "json_value (Suc n) (show_int i @ r) = Inr (PyInt i, r)"
proof -
  obtain c t where c: "show_int i @ r = c # t" by (cases "show_int i @ r") (auto simp: show_int_def split: if_splits)
  then have "num_char c" by (rule show_int_first)
  then have "c \<noteq> CHR 0x22" "c \<noteq> CHR ''{''" "c \<noteq> CHR ''[''" by auto
  then show ?thesis using scan_literal_int [OF assms, of i] c by (simp add: json_value.simps)
qed

lemma read_text: "json_value (Suc n) (quote s @ r) = Inr (PyStr s, r)"
  using scan_quoted [of s r] by (simp add: json_value.simps quote_def)

lemma join_comma_first: "join_comma (flat_seq (v # vs)) @ r = flat v @ (if vs = [] then r else CHR '','' # join_comma (flat_seq vs) @ r)"
  by (cases vs) simp_all

lemma read_flat:
  "keys_ok v \<Longrightarrow> num_end r \<Longrightarrow> 2 * length (flat v @ r) < n \<Longrightarrow> json_value n (flat v @ r) = Inr (from_json v, r)"
  "keys_ok_items kvs \<Longrightarrow> kvs \<noteq> [] \<Longrightarrow> 2 * length (join_comma (flat_items kvs) @ CHR ''}'' # r) < n \<Longrightarrow>
     json_members n (join_comma (flat_items kvs) @ CHR ''}'' # r) = Inr (from_json_items kvs, r)"
  "keys_ok_seq vs \<Longrightarrow> vs \<noteq> [] \<Longrightarrow> 2 * length (join_comma (flat_seq vs) @ CHR '']'' # r) + 1 < n \<Longrightarrow>
     json_elements n (join_comma (flat_seq vs) @ CHR '']'' # r) = Inr (from_json_seq vs, r)"
proof (induction v and kvs and vs arbitrary: n r and n r and n r rule: flat_flat_items_flat_seq.induct)
  case 1
  then show ?case by (cases n) (simp_all add: json_value.simps scan_literal_def)
next
  case (2 b)
  then show ?case by (cases n) (simp_all add: json_value.simps scan_literal_def)
next
  case (3 i)
  then show ?case using read_int by (cases n) simp_all
next
  case (4 s)
  then show ?case using read_text by (cases n) simp_all
next
  case (5 vs)
  obtain m where m: "n = Suc m" using "5.prems"(3) by (cases n) auto
  show ?case
  proof (cases vs)
    case Nil
    then show ?thesis by (simp add: m json_value.simps)
  next
    case (Cons w ws)
    have e: "json_elements m (join_comma (flat_seq vs) @ CHR '']'' # r) = Inr (from_json_seq vs, r)"
      using "5.IH" [of r m] "5.prems" Cons m by simp
    obtain c t where c: "join_comma (flat_seq vs) @ CHR '']'' # r = c # t" "\<not> json_ws c" "c \<noteq> CHR '']''"
    proof -
      obtain x c t where x: "join_comma (flat_seq vs) @ CHR '']'' # r = flat w @ x" "flat w @ x = c # t"
        using flat_nonempty [of w] unfolding Cons join_comma_first by (cases "flat w") auto
      from that [of c t] x flat_first_ws [OF x(2)] flat_first_closing [OF x(2)] show thesis by simp
    qed
    then have "skip_ws (join_comma (flat_seq vs) @ CHR '']'' # r) = join_comma (flat_seq vs) @ CHR '']'' # r" by simp
    then show ?thesis using e c by (simp add: m json_value.simps)
  qed
next
  case (6 kvs)
  obtain m where m: "n = Suc m" using "6.prems"(3) by (cases n) auto
  show ?case
  proof (cases kvs)
    case Nil
    then show ?thesis by (simp add: m json_value.simps dict_of_pairs_def)
  next
    case (Cons p ps)
    have e: "json_members m (join_comma (flat_items kvs) @ CHR ''}'' # r) = Inr (from_json_items kvs, r)"
      using "6.IH" [of r m] "6.prems" Cons m by simp
    obtain t where c: "join_comma (flat_items kvs) @ CHR ''}'' # r = CHR 0x22 # t"
      unfolding Cons by (cases p) (simp add: join_comma_Cons quote_def)
    have "dict_of_pairs (from_json_items kvs) = from_json_items kvs"
      using "6.prems"(1) by (simp add: dict_of_pairs_distinct from_json_items_distinct)
    then show ?thesis using e c by (simp add: m json_value.simps)
  qed
next
  case (8 k v kvs)
  obtain m where m: "n = Suc m" using "8.prems"(3) by (cases n) auto
  let ?r = "if kvs = [] then CHR ''}'' # r else CHR '','' # join_comma (flat_items kvs) @ CHR ''}'' # r"
  have split: "join_comma (flat_items ((k, v) # kvs)) @ CHR ''}'' # r = quote k @ CHR '':'' # flat v @ ?r"
    by (cases kvs) (auto simp: join_comma_Cons)
  have v: "json_value m (flat v @ ?r) = Inr (from_json v, ?r)"
    using "8.IH"(1) [of ?r m] "8.prems" m unfolding split by (simp add: quote_def)
  have s: "scan_string (drop 1 (quote k @ CHR '':'' # flat v @ ?r)) = Inr (k, CHR '':'' # flat v @ ?r)"
    using scan_quoted [of k "CHR '':'' # flat v @ ?r"] by (simp add: quote_def)
  have q: "take 1 (quote k @ CHR '':'' # flat v @ ?r) = [CHR 0x22]" by (simp add: quote_def)
  show ?case
  proof (cases kvs)
    case Nil
    then show ?thesis unfolding split m json_members.simps q s using v by simp
  next
    case (Cons p ps)
    have e: "json_members m (join_comma (flat_items kvs) @ CHR ''}'' # r) = Inr (from_json_items kvs, r)"
      using "8.IH"(2) [of r m] "8.prems" m Cons unfolding split by (simp add: quote_def)
    obtain t where c: "join_comma (flat_items kvs) @ CHR ''}'' # r = CHR 0x22 # t"
      unfolding Cons by (cases p) (simp add: join_comma_Cons quote_def)
    show ?thesis unfolding split m json_members.simps q s using v e c Cons by simp
  qed
next
  case (10 v vs)
  obtain m where m: "n = Suc m" using "10.prems"(3) by (cases n) auto
  let ?r = "if vs = [] then CHR '']'' # r else CHR '','' # join_comma (flat_seq vs) @ CHR '']'' # r"
  have v: "json_value m (flat v @ ?r) = Inr (from_json v, ?r)"
    using "10.IH"(1) [of ?r m] "10.prems" m unfolding join_comma_first by simp
  show ?case
  proof (cases vs)
    case Nil
    then show ?thesis using v unfolding join_comma_first m json_elements.simps by simp
  next
    case (Cons w ws)
    have e: "json_elements m (join_comma (flat_seq vs) @ CHR '']'' # r) = Inr (from_json_seq vs, r)"
      using "10.IH"(2) [of r m] "10.prems" m Cons unfolding join_comma_first by simp
    have "skip_ws (join_comma (flat_seq vs) @ CHR '']'' # r) = join_comma (flat_seq vs) @ CHR '']'' # r"
      unfolding Cons join_comma_first by simp
    then show ?thesis using v e Cons unfolding join_comma_first m json_elements.simps by simp
  qed
qed simp_all

lemma loads_flat: "keys_ok v \<Longrightarrow> json_loads (flat v) = Inr (from_json v)"
  using read_flat(1) [of v "[]" "2 * length (flat v) + 1"] skip_ws_flat [of v "[]"] by (simp add: json_loads_def)

fun unique_keys :: "pyval \<Rightarrow> bool"
  and unique_keys_items :: "(pyval \<times> pyval) list \<Rightarrow> bool"
  and unique_keys_seq :: "pyval list \<Rightarrow> bool" where
  \<comment> \<open>what every Python mapping guarantees\<close>
  "unique_keys (PyDict kvs) = (distinct (map fst kvs) \<and> unique_keys_items kvs)"
| "unique_keys (PyList vs) = unique_keys_seq vs"
| "unique_keys (PyTuple vs) = unique_keys_seq vs"
| "unique_keys _ = True"
| "unique_keys_items [] = True"
| "unique_keys_items ((k, v) # kvs) = (unique_keys v \<and> unique_keys_items kvs)"
| "unique_keys_seq [] = True"
| "unique_keys_seq (v # vs) = (unique_keys v \<and> unique_keys_seq vs)"

lemma keys_ok_items_set: "keys_ok_items kvs \<longleftrightarrow> (\<forall>(k, v)\<in>set kvs. keys_ok v)"
  by (induction kvs) auto

lemma canon_keys_distinct:
  assumes "plain_items kvs" "distinct (map fst kvs)"
  shows "distinct (map fst (canon_items kvs))"
proof -
  have key: "inj_on (\<lambda>k. case k of PyStr s \<Rightarrow> s | _ \<Rightarrow> []) (fst ` set kvs)"
    using assms(1) by (auto simp: plain_items_set inj_on_def split: pyval.splits)
  have "map fst (canon_items kvs) = map (\<lambda>k. case k of PyStr s \<Rightarrow> s | _ \<Rightarrow> []) (map fst kvs)"
    by (simp add: canon_items_map case_prod_beta comp_def)
  then show ?thesis using assms(2) key by (simp only: distinct_map set_map)
qed

lemma canon_keys_ok:
  "plain v \<Longrightarrow> unique_keys v \<Longrightarrow> keys_ok (canon v)"
  "plain_items kvs \<Longrightarrow> unique_keys_items kvs \<Longrightarrow> keys_ok_items (canon_items kvs)"
  "plain_seq vs \<Longrightarrow> unique_keys_seq vs \<Longrightarrow> keys_ok_seq (canon_seq vs)"
proof (induction v and kvs and vs rule: plain_plain_items_plain_seq.induct)
  case (4 kvs)
  have "mset (map fst (sort_key fst (canon_items kvs))) = mset (map fst (canon_items kvs))" by simp
  then have "distinct (map fst (sort_key fst (canon_items kvs)))"
    using canon_keys_distinct [of kvs] 4 mset_eq_imp_distinct_iff by fastforce
  then show ?case using 4 by (simp add: keys_ok_items_set)
qed auto

lemma canon_from_json_items: "canon_items (from_json_items xs) = map (\<lambda>(k, j). (k, canon (from_json j))) xs"
  by (induction xs) auto

lemma canon_from_json:
  "canon (from_json (canon v)) = canon v"
  "\<forall>(k, j)\<in>set (canon_items kvs). canon (from_json j) = j"
  "canon_seq (from_json_seq (canon_seq vs)) = canon_seq vs"
proof (induction v and kvs and vs rule: canon_canon_items_canon_seq.induct)
  case (6 kvs)
  then have "map (\<lambda>(k, j). (k, canon (from_json j))) (sort_key fst (canon_items kvs)) = sort_key fst (canon_items kvs)"
    by (intro map_idI) auto
  then show ?case by (simp add: canon_from_json_items sort_key_id_if_sorted)
qed auto

lemma plain_from_json: "plain (from_json j)" "plain_items (from_json_items kvs)" "plain_seq (from_json_seq vs)"
  by (induction j and kvs and vs rule: from_json_from_json_items_from_json_seq.induct) auto

lemma loads_canonical:
  assumes "canonical_json_bytes v = Inr b" "unique_keys v"
  shows "json_loads b = Inr (from_json (canon v))"
  using assms loads_flat canon_keys_ok(1) by (auto simp: canonical_Inr)

section \<open>Properties\<close>

text \<open>
  C17. Canonical bytes read back.  For every value the canonical encoder accepts, \<^verbatim>\<open>json.loads\<close> of the bytes
  returns a value that is the same up to the order of object keys and the list/tuple distinction, and encoding
  that value again gives the same bytes.\<close>

theorem canonical_roundtrip:
  assumes "canonical_json_bytes v = Inr b" "unique_keys v"
  shows "\<exists>w. json_loads b = Inr w \<and> canon w = canon v \<and> canonical_json_bytes w = Inr b"
  using loads_canonical [OF assms] assms(1) by (auto simp: canonical_Inr canon_from_json(1) plain_from_json)

theorem canonical_roundtrip_witness:
  "\<exists>b w. canonical_json_bytes (obj [(''b'', PyTuple [PyInt (- 7), PyNone]), (''a'', PyStr [CHR 0x22, CHR 0x0A])]) = Inr b
     \<and> json_loads b = Inr w \<and> canonical_json_bytes w = Inr b"
proof -
  let ?v = "obj [(''b'', PyTuple [PyInt (- 7), PyNone]), (''a'', PyStr [CHR 0x22, CHR 0x0A])]"
  obtain b where b: "canonical_json_bytes ?v = Inr b" using canonical_plain [of ?v] by (simp add: obj_def)
  have u: "unique_keys ?v" by (simp add: obj_def)
  from canonical_roundtrip [OF b u] b show ?thesis by blast
qed

text \<open>
  The scanner of the model terminates on every text.  It never runs out of the fuel it is given, and every
  larger fuel would do: it returns a value, or raises \<^verbatim>\<open>JSONDecodeError\<close>, unless an escape leaves ASCII.\<close>

theorem json_loads_terminates:
  assumes "2 * length s < n"
  shows "json_value n (skip_ws s) \<noteq> Inl out_of_fuel
    \<and> (\<forall>e. json_loads s = Inl e \<longrightarrow> exc_of e = JSONDecodeError \<or> e = Raise OtherException ''text outside ASCII'')"
proof -
  have "\<not> json_raises out_of_fuel" by (simp add: json_raises_def out_of_fuel_def)
  moreover have "reads (skip_ws s) (json_value n (skip_ws s))" using fuel_enough(1) assms length_skip_ws [of s] by simp
  ultimately have "json_value n (skip_ws s) \<noteq> Inl out_of_fuel" by auto
  moreover have "exc_of e = JSONDecodeError \<or> e = Raise OtherException ''text outside ASCII''" if "json_loads s = Inl e" for e
    using json_loads_raises [OF that] by (simp add: json_raises_def)
  ultimately show ?thesis by blast
qed

theorem json_loads_terminates_witness:
  "json_value 9 (skip_ws ''[[ '') \<noteq> Inl out_of_fuel"
  using json_loads_terminates [of "''[[ ''" 9] by simp

end
