(* ===== verification/Notifications.thy ===== *)
theory Notifications
  imports Execution_Service Store_Interfaces
begin

text \<open>
  Settlement evidence and the SMS notifications created from it (\<^verbatim>\<open>railone_notifications\<close>): models, store,
  the settlement service with the rendering of its messages, and the SMS relay.  The contact resolver and the
  gateway are parameters of the relay; together they return a gateway result or raise.
\<close>

section \<open>Models\<close>

datatype recipient_role = NTF_SENDER | NTF_RECEIVER

fun recipient_role_value :: "recipient_role \<Rightarrow> string" where
  "recipient_role_value NTF_SENDER = ''SENDER''"
| "recipient_role_value NTF_RECEIVER = ''RECEIVER''"

datatype sms_delivery_state = SMS_PREPARED | SMS_DISPATCHING | SMS_SENT | SMS_REJECTED | SMS_UNKNOWN

record settlement_evidence =
  se_evidence_id :: string
  se_utt_id :: string
  se_provider_id :: string
  se_provider_transaction_id :: string
  se_callback_event_id :: string
  se_signed_evidence :: envelope
  se_settled_at :: instant

record sms_notification =
  sn_notification_id :: string
  sn_evidence_id :: string
  sn_utt_id :: string
  sn_recipient_role :: recipient_role
  sn_contact_binding_id :: string
  sn_template_version :: string
  sn_rendered_body :: string
  sn_body_sha256 :: string
  sn_state :: sms_delivery_state
  sn_gateway_reference :: "string option"
  sn_normalized_code :: "string option"
  sn_version :: int
  sn_created_at :: instant
  sn_updated_at :: instant

record sms_gateway_result =
  sg_accepted :: bool
  sg_code :: string
  sg_gateway_reference :: "string option"

section \<open>The store\<close>

record settlement_store =
  st_evidence_by_utt :: "(string, settlement_evidence) dict"
  st_notifications :: "(string, sms_notification) dict"

definition empty_settlement_store :: settlement_store where
  "empty_settlement_store = \<lparr>st_evidence_by_utt = [], st_notifications = []\<rparr>"

definition stored_notification :: "settlement_store \<Rightarrow> sms_notification \<Rightarrow> sms_notification res" where
  \<comment> \<open>\<^verbatim>\<open>self._notifications[item.notification_id]\<close>\<close>
  "stored_notification s n =
     (case dict_get (st_notifications s) (sn_notification_id n) of
        None \<Rightarrow> Inl (Raise KeyError (sn_notification_id n)) | Some r \<Rightarrow> Inr r)"

type_synonym notification_pair = "sms_notification \<times> sms_notification"

definition commit_settlement ::
  "settlement_evidence \<Rightarrow> notification_pair \<Rightarrow>
    (settlement_store, settlement_evidence \<times> notification_pair \<times> bool) st" where
  "commit_settlement evidence notifications s =
     (let (sender, receiver) = notifications in
      case dict_get (st_evidence_by_utt s) (se_utt_id evidence) of
        Some existing \<Rightarrow>
          if se_evidence_id existing \<noteq> se_evidence_id evidence
          then (Inl (Raise SettlementConflictError ''UTT received conflicting settlement evidence''), s)
          else (rbind (stored_notification s sender) (\<lambda>a.
                rbind (stored_notification s receiver) (\<lambda>b.
                Inr (existing, (a, b), True))), s)
      | None \<Rightarrow>
          if sn_recipient_role sender = sn_recipient_role receiver
          then (Inl (Raise ValueError ''settlement requires sender and receiver notifications''), s)
          else if dict_has (st_notifications s) (sn_notification_id sender) \<or> dict_has (st_notifications s) (sn_notification_id receiver)
          then (Inl (Raise SettlementConflictError ''notification identifier collision''), s)
          else (Inr (evidence, notifications, False),
                s\<lparr>st_evidence_by_utt := dict_set (se_utt_id evidence) evidence (st_evidence_by_utt s),
                  st_notifications := dict_set (sn_notification_id receiver) receiver
                    (dict_set (sn_notification_id sender) sender (st_notifications s))\<rparr>))"

definition require_notification :: "string \<Rightarrow> settlement_store \<Rightarrow> sms_notification res" where
  "require_notification notification_id s =
     (case dict_get (st_notifications s) notification_id of
        None \<Rightarrow> Inl (Raise LookupError ''SMS notification not found'') | Some r \<Rightarrow> Inr r)"

definition transition_notification :: "int \<Rightarrow> sms_notification \<Rightarrow> (settlement_store, unit) st" where
  "transition_notification previous_version n s =
     (case dict_get (st_notifications s) (sn_notification_id n) of
        None \<Rightarrow> (Inl (Raise LookupError ''SMS notification not found''), s)
      | Some current \<Rightarrow>
          if sn_version current \<noteq> previous_version
          then (Inl (Raise RuntimeError ''SMS notification changed concurrently''), s)
          else if sn_version n \<noteq> previous_version + 1
          then (Inl (Raise ValueError ''SMS notification version must advance exactly once''), s)
          else (Inr (), s\<lparr>st_notifications := dict_set (sn_notification_id n) n (st_notifications s)\<rparr>))"

definition notification_order :: "sms_notification \<Rightarrow> instant \<times> string" where
  "notification_order n = (sn_created_at n, sn_notification_id n)"

definition pending_notifications :: "int \<Rightarrow> settlement_store \<Rightarrow> sms_notification list res" where
  "pending_notifications limit s =
     rbind (guard_res (\<not> (1 \<le> limit \<and> limit \<le> 1000)) ValueError ''notification limit is outside policy'') (\<lambda>_.
     Inr (take (nat limit) (sort_key notification_order
       (filter (\<lambda>n. sn_state n = SMS_PREPARED \<or> sn_state n = SMS_DISPATCHING) (map snd (st_notifications s))))))"

section \<open>Rendering\<close>

fun group_thousands :: "string \<Rightarrow> string" where
  \<comment> \<open>commas into a reversed digit string\<close>
  "group_thousands (a # b # c # d # ds) = a # b # c # CHR '','' # group_thousands (d # ds)"
| "group_thousands ds = ds"

definition format_thousands :: "int \<Rightarrow> string" where
  \<comment> \<open>\<^verbatim>\<open>f"{n:,}"\<close>\<close>
  "format_thousands n =
     (if n < 0 then ''-'' else []) @ rev (group_thousands (rev (show_nat (nat \<bar>n\<bar>))))"

definition two_digits :: "int \<Rightarrow> string" where
  \<comment> \<open>\<^verbatim>\<open>f"{n:02d}"\<close> for \<open>0 \<le> n\<close>\<close>
  "two_digits n = (if n < 10 then CHR ''0'' # show_int n else show_int n)"

definition money :: "int \<Rightarrow> string \<Rightarrow> string" where
  "money amount_minor currency =
     upper currency @ '' '' @ format_thousands (amount_minor div 100) @ ''.'' @ two_digits (amount_minor mod 100)"

definition short_utt :: "string \<Rightarrow> string" where
  "short_utt utt_id = (if length utt_id > 10 then take 10 utt_id else utt_id)"

definition civil_from_days :: "int \<Rightarrow> int \<times> int" where
  \<comment> \<open>month and day of the proleptic Gregorian calendar, from days since 1970-01-01\<close>
  "civil_from_days days =
     (let z = days + 719468; doe = z mod 146097;
          yoe = (doe - doe div 1460 + doe div 36524 - doe div 146096) div 365;
          doy = doe - (365 * yoe + yoe div 4 - yoe div 100);
          mp = (5 * doy + 2) div 153
      in (if mp < 10 then mp + 3 else mp - 9, doy - (153 * mp + 2) div 5 + 1))"

definition month_names :: "string list" where
  "month_names = [''Jan'', ''Feb'', ''Mar'', ''Apr'', ''May'', ''Jun'', ''Jul'', ''Aug'', ''Sep'', ''Oct'', ''Nov'', ''Dec'']"

definition format_local :: "instant \<Rightarrow> string" where
  \<comment> \<open>\<^verbatim>\<open>f"{local:%d %b %H:%M}"\<close>\<close>
  "format_local t =
     (let seconds = t div 1000000; (mon, day) = civil_from_days (seconds div 86400); minutes = (seconds mod 86400) div 60
      in two_digits day @ '' '' @ month_names ! nat (mon - 1) @ '' '' @ two_digits (minutes div 60) @ '':'' @ two_digits (minutes mod 60))"

definition shift_minutes :: "instant \<Rightarrow> int \<Rightarrow> instant res" where
  \<comment> \<open>\<^verbatim>\<open>instant + timedelta(minutes=n)\<close>\<close>
  "shift_minutes t n =
     (let u = t + usec (60 * n) in
      if u < from_epoch (- 62135596800) \<or> u \<ge> from_epoch 253402300800
      then Inl (Raise OverflowError ''date value out of range'') else Inr u)"

section \<open>The settlement service\<close>

record settlement_service =
  ts_settlement_signing_key_id :: string
  ts_utc_offset_minutes :: int
  ts_timezone_label :: string

definition template_version :: string where
  "template_version = ''settled-sms-v1''"

definition build_notification ::
  "settlement_evidence \<Rightarrow> recipient_role \<Rightarrow> string \<Rightarrow> string \<Rightarrow> instant \<Rightarrow> sms_notification res" where
  "build_notification evidence role contact_binding_id body instant =
     rbind (guard_res (length body > 320) ValueError ''rendered settlement SMS exceeds two segments'') (\<lambda>_.
     rbind (content_id ''SMS'' (obj
       [(''evidence_id'', PyStr (se_evidence_id evidence)), (''recipient_role'', PyStr (recipient_role_value role)),
        (''channel'', PyStr ''SMS''), (''template_version'', PyStr template_version)])) (\<lambda>notification_id.
     Inr \<lparr>sn_notification_id = notification_id, sn_evidence_id = se_evidence_id evidence, sn_utt_id = se_utt_id evidence,
          sn_recipient_role = role, sn_contact_binding_id = contact_binding_id, sn_template_version = template_version,
          sn_rendered_body = body, sn_body_sha256 = sha256_hex body, sn_state = SMS_PREPARED,
          sn_gateway_reference = None, sn_normalized_code = None, sn_version = 1,
          sn_created_at = instant, sn_updated_at = instant\<rparr>))"

definition build_notifications ::
  "settlement_service \<Rightarrow> settlement_evidence \<Rightarrow> pyval \<Rightarrow> instant \<Rightarrow> notification_pair res" where
  "build_notifications svc evidence utt instant =
     rbind (shift_minutes instant (ts_utc_offset_minutes svc)) (\<lambda>local.
     let rendered_time = format_local local @ '' '' @ ts_timezone_label svc in
     rbind (py_item utt ''payer'') (\<lambda>payer.
     rbind (py_item utt ''beneficiary'') (\<lambda>beneficiary.
     rbind (int_item utt ''amount_minor'') (\<lambda>amount.
     rbind (str_item utt ''currency_from'') (\<lambda>cfrom.
     rbind (text_item beneficiary ''display_name'') (\<lambda>receiver_name.
     rbind (py_item beneficiary ''endpoint'') (\<lambda>receiver_endpoint.
     rbind (text_item receiver_endpoint ''institution_display_name'') (\<lambda>institution.
     rbind (int_item utt ''total_fee_minor'') (\<lambda>fee.
     let sender_body = ''RailOne: SETTLED. '' @ money amount cfrom @ '' sent to '' @ receiver_name @ '' via '' @ institution
           @ '' on '' @ rendered_time @ ''. Ref '' @ short_utt (se_utt_id evidence) @ ''. Fee '' @ money fee cfrom @ ''.'' in
     rbind (int_item utt ''receive_amount_minor'') (\<lambda>received.
     rbind (str_item utt ''currency_to'') (\<lambda>cto.
     rbind (text_item payer ''display_name'') (\<lambda>sender_name.
     rbind (text_item receiver_endpoint ''display_hint'') (\<lambda>hint.
     let receiver_body = ''RailOne: SETTLED. You received '' @ money received cto @ '' from '' @ sender_name @ '' into '' @ institution
           @ '' '' @ hint @ '' on '' @ rendered_time @ ''. Ref '' @ short_utt (se_utt_id evidence) @ ''.'' in
     rbind (py_item payer ''endpoint'') (\<lambda>sender_endpoint.
     rbind (str_item sender_endpoint ''contact_binding_id'') (\<lambda>sender_contact.
     rbind (build_notification evidence NTF_SENDER sender_contact sender_body instant) (\<lambda>sender.
     rbind (str_item receiver_endpoint ''contact_binding_id'') (\<lambda>receiver_contact.
     rbind (build_notification evidence NTF_RECEIVER receiver_contact receiver_body instant) (\<lambda>receiver.
     Inr (sender, receiver)))))))))))))))))))"

record settlement_claim =
  sc_utt_id :: string
  sc_provider_id :: string
  sc_provider_transaction_id :: string
  sc_callback_event_id :: string

definition settled_attempt :: "execution_store \<Rightarrow> string \<Rightarrow> rtt_attempt res" where
  \<comment> \<open>the successful attempt of a finalized plan\<close>
  "settled_attempt execs utt_id =
     rbind (require_plan_for_utt utt_id execs) (\<lambda>plan.
     rbind (guard_res (pl_status plan \<noteq> PLAN_FINALIZED \<or> pl_previous_rtt_id plan = None) PermissionError
              ''settlement notification requires a finalized plan'') (\<lambda>_.
     rbind (require_attempt (the (pl_previous_rtt_id plan)) execs) (\<lambda>attempt.
     rbind (guard_res (at_state attempt \<noteq> ATT_SUCCEEDED) PermissionError
              ''settlement notification requires a successful RTT'') (\<lambda>_.
     Inr attempt))))"

definition evidence_identity :: "settlement_claim \<Rightarrow> pyval \<Rightarrow> (string \<times> pyval) list" where
  "evidence_identity c sha =
     [(''utt_id'', PyStr (sc_utt_id c)), (''utt_payload_sha256'', sha), (''provider_id'', PyStr (sc_provider_id c)),
      (''provider_transaction_id'', PyStr (strip (sc_provider_transaction_id c))),
      (''callback_event_id'', PyStr (strip (sc_callback_event_id c)))]"

definition build_evidence ::
  "platform \<Rightarrow> key_provider \<Rightarrow> settlement_service \<Rightarrow> settlement_claim \<Rightarrow> envelope \<Rightarrow> rtt_attempt \<Rightarrow> instant \<Rightarrow> settlement_evidence res" where
  "build_evidence P ks svc c signed_utt attempt instant =
     rbind (guard_res (strip (sc_provider_transaction_id c) = [] \<or> strip (sc_callback_event_id c) = []) ValueError
              ''provider settlement references are required'') (\<lambda>_.
     rbind (py_item (env_protected signed_utt) ''payload_sha256'') (\<lambda>sha.
     rbind (content_id ''SET'' (obj (evidence_identity c sha))) (\<lambda>evidence_id.
     let utt = env_payload signed_utt in
     rbind (py_item utt ''amount_minor'') (\<lambda>amount.
     rbind (py_item utt ''currency_from'') (\<lambda>cfrom.
     rbind (py_item utt ''receive_amount_minor'') (\<lambda>received.
     rbind (py_item utt ''currency_to'') (\<lambda>cto.
     rbind (sign_artifact P ks SETTLEMENT_EVIDENCE (obj ((''evidence_id'', PyStr evidence_id) # evidence_identity c sha @
              [(''rtt_id'', PyStr (at_rtt_id attempt)), (''amount_minor'', amount), (''currency_from'', cfrom),
               (''receive_amount_minor'', received), (''currency_to'', cto), (''settled_at'', PyInt (epoch instant)),
               (''evidence_kind'', PyStr ''PROVIDER_CALLBACK_CORRELATED'')]))
              (ts_settlement_signing_key_id svc) (Aware instant)) (\<lambda>signed.
     Inr \<lparr>se_evidence_id = evidence_id, se_utt_id = sc_utt_id c, se_provider_id = sc_provider_id c,
          se_provider_transaction_id = strip (sc_provider_transaction_id c),
          se_callback_event_id = strip (sc_callback_event_id c), se_signed_evidence = signed, se_settled_at = instant\<rparr>))))))))"

definition settlement_for ::
  "platform \<Rightarrow> key_provider \<Rightarrow> contract_store \<Rightarrow> execution_store \<Rightarrow> settlement_service \<Rightarrow> settlement_claim \<Rightarrow> datetime \<Rightarrow>
    (settlement_evidence \<times> notification_pair) res" where
  "settlement_for P ks contracts execs svc c at =
     (let instant = astimezone_utc P at in
      rbind (require_utt (sc_utt_id c) contracts) (\<lambda>signed_utt.
      rbind (verify_artifact P ks signed_utt (Some UTT) False) (\<lambda>verification.
      rbind (guard_res (\<not> vr_valid verification) PermissionError ''settlement cannot bind an invalid UTT'') (\<lambda>_.
      rbind (settled_attempt execs (sc_utt_id c)) (\<lambda>attempt.
      rbind (build_evidence P ks svc c signed_utt attempt instant) (\<lambda>evidence.
      rbind (build_notifications svc evidence (env_payload signed_utt) instant) (\<lambda>notifications.
      Inr (evidence, notifications))))))))"

definition confirm_provider_settlement ::
  "platform \<Rightarrow> key_provider \<Rightarrow> contract_store \<Rightarrow> execution_store \<Rightarrow> settlement_service \<Rightarrow> settlement_claim \<Rightarrow> datetime \<Rightarrow>
    (settlement_store, settlement_evidence \<times> notification_pair \<times> bool) st" where
  "confirm_provider_settlement P ks contracts execs svc c at =
     sbind (slift (settlement_for P ks contracts execs svc c at)) (\<lambda>(evidence, notifications).
     commit_settlement evidence notifications)"

section \<open>The SMS relay\<close>

definition finished_sms :: "sms_notification \<Rightarrow> sms_delivery_state \<Rightarrow> string \<Rightarrow> string option \<Rightarrow> instant \<Rightarrow> sms_notification" where
  "finished_sms n state code reference instant =
     n\<lparr>sn_state := state, sn_normalized_code := Some (upper code), sn_gateway_reference := reference,
       sn_version := sn_version n + 1, sn_updated_at := instant\<rparr>"

definition finish_sms ::
  "sms_notification \<Rightarrow> sms_delivery_state \<Rightarrow> string \<Rightarrow> string option \<Rightarrow> instant \<Rightarrow> (settlement_store, sms_notification) st" where
  "finish_sms n state code reference instant =
     (let updated = finished_sms n state code reference instant in
      sbind (transition_notification (sn_version n) updated) (\<lambda>_. sret updated))"

definition dispatching_sms :: "sms_notification \<Rightarrow> instant \<Rightarrow> sms_notification" where
  "dispatching_sms n instant = n\<lparr>sn_state := SMS_DISPATCHING, sn_version := sn_version n + 1, sn_updated_at := instant\<rparr>"

definition begin_sms :: "sms_notification \<Rightarrow> instant \<Rightarrow> (settlement_store, sms_notification) st" where
  "begin_sms n instant =
     sbind (transition_notification (sn_version n) (dispatching_sms n instant)) (\<lambda>_. sret (dispatching_sms n instant))"

type_synonym sms_gateway = "string \<Rightarrow> string \<Rightarrow> string \<Rightarrow> sms_gateway_result option"

definition record_sms :: "sms_notification \<Rightarrow> sms_gateway_result option \<Rightarrow> instant \<Rightarrow> (settlement_store, sms_notification) st" where
  \<comment> \<open>recording what resolver and gateway did: nothing when either raised\<close>
  "record_sms n result instant =
     (case result of
        None \<Rightarrow> finish_sms n SMS_UNKNOWN ''SMS_GATEWAY_OUTCOME_UNKNOWN'' None instant
      | Some g \<Rightarrow> finish_sms n (if sg_accepted g then SMS_SENT else SMS_REJECTED) (sg_code g) (sg_gateway_reference g) instant)"

definition send_sms :: "(string \<Rightarrow> string option) \<Rightarrow> sms_gateway \<Rightarrow> sms_notification \<Rightarrow> sms_gateway_result option" where
  "send_sms resolve_contact gateway n =
     (case resolve_contact (sn_contact_binding_id n) of
        None \<Rightarrow> None
      | Some destination \<Rightarrow> gateway (sn_notification_id n) destination (sn_rendered_body n))"

definition sms_final :: "sms_delivery_state \<Rightarrow> bool" where
  "sms_final st \<longleftrightarrow> st = SMS_SENT \<or> st = SMS_REJECTED \<or> st = SMS_UNKNOWN"

definition deliver_sms ::
  "platform \<Rightarrow> (string \<Rightarrow> string option) \<Rightarrow> sms_gateway \<Rightarrow> string \<Rightarrow> datetime \<Rightarrow> (settlement_store, sms_notification) st" where
  "deliver_sms P resolve_contact gateway notification_id at =
     (let instant = astimezone_utc P at in
      sbind (sget (require_notification notification_id)) (\<lambda>n.
      if sms_final (sn_state n) then sret n
      else if sn_state n = SMS_DISPATCHING
      then finish_sms n SMS_UNKNOWN ''NON_IDEMPOTENT_SMS_RECOVERY_BLOCKED'' None instant
      else sbind (begin_sms n instant) (\<lambda>d. record_sms d (send_sms resolve_contact gateway n) instant)))"

section \<open>Notifications are a versioned store\<close>

lemma transition_sms_Inr:
  assumes "transition_notification v n s = (Inr u, s')"
  obtains current where "dict_get (st_notifications s) (sn_notification_id n) = Some current" "sn_version current = v"
    "sn_version n = v + 1" "s' = s\<lparr>st_notifications := dict_set (sn_notification_id n) n (st_notifications s)\<rparr>"
  using assms by (auto simp: transition_notification_def split: option.splits if_splits)

lemma transition_sms_Inl: "transition_notification v n s = (Inl e, s') \<Longrightarrow> s' = s"
  by (auto simp: transition_notification_def split: option.splits if_splits)

definition sms_of :: "settlement_store \<Rightarrow> string \<Rightarrow> sms_notification option" where
  "sms_of s k = dict_get (st_notifications s) k"

definition transition_sms_at :: "string \<Rightarrow> int \<Rightarrow> sms_notification \<Rightarrow> unit \<Rightarrow> (settlement_store, unit) st" where
  "transition_sms_at k v n x =
     (if sn_notification_id n \<noteq> k then slift (Inl (Raise LookupError k)) else transition_notification v n)"

interpretation sms: versioned_store sms_of sn_version transition_sms_at
proof unfold_locales
  fix k v n x s u s'
  assume "transition_sms_at k v n x s = (Inr u, s')"
  then show "(\<exists>old. sms_of s k = Some old \<and> sn_version old = v) \<and> sms_of s' = (sms_of s)(k \<mapsto> n)"
    by (auto simp: transition_sms_at_def slift_def sms_of_def fun_eq_iff split: if_splits elim!: transition_sms_Inr)
next
  fix k v n x s e s'
  assume "transition_sms_at k v n x s = (Inl e, s')"
  then show "s' = s" by (auto simp: transition_sms_at_def slift_def split: if_splits dest: transition_sms_Inl)
qed

section \<open>Concurrent relays\<close>

text \<open>
  Relays read a notification, start sending from the snapshot they read, and record any outcome later.  They
  interleave, may stop at any point, and share the store with the settlement service.
\<close>

datatype sms_session = Read sms_notification | Sending sms_notification

record sms_system =
  ms_store :: settlement_store
  ms_sent :: "string list"
  ms_sessions :: "sms_session list"

definition sms_start :: sms_system where
  "sms_start = \<lparr>ms_store = empty_settlement_store, ms_sent = [], ms_sessions = []\<rparr>"

inductive sms_step :: "sms_system \<Rightarrow> sms_system \<Rightarrow> bool" where
  sms_confirm: "confirm_provider_settlement P ks contracts execs svc c at (ms_store y) = (x, s') \<Longrightarrow>
    sms_step y (y\<lparr>ms_store := s'\<rparr>)"
| sms_read: "require_notification k (ms_store y) = Inr n \<Longrightarrow> sms_step y (y\<lparr>ms_sessions := Read n # ms_sessions y\<rparr>)"
| sms_begin: "Read n \<in> set (ms_sessions y) \<Longrightarrow> \<not> sms_final (sn_state n) \<Longrightarrow> sn_state n \<noteq> SMS_DISPATCHING \<Longrightarrow>
    begin_sms n t (ms_store y) = (Inr d, s') \<Longrightarrow>
    sms_step y (y\<lparr>ms_store := s', ms_sent := sn_notification_id n # ms_sent y, ms_sessions := Sending d # ms_sessions y\<rparr>)"
| sms_block: "Read n \<in> set (ms_sessions y) \<Longrightarrow> sn_state n = SMS_DISPATCHING \<Longrightarrow>
    finish_sms n SMS_UNKNOWN code None t (ms_store y) = (x, s') \<Longrightarrow> sms_step y (y\<lparr>ms_store := s'\<rparr>)"
| sms_record: "Sending d \<in> set (ms_sessions y) \<Longrightarrow> record_sms d g t (ms_store y) = (x, s') \<Longrightarrow>
    sms_step y (y\<lparr>ms_store := s'\<rparr>)"

definition sent_count :: "sms_system \<Rightarrow> string \<Rightarrow> nat" where
  "sent_count y k = count_list (ms_sent y) k"

definition sms_row_ok :: "sms_system \<Rightarrow> string \<Rightarrow> bool" where
  "sms_row_ok y k \<longleftrightarrow> (case sms_of (ms_store y) k of
       None \<Rightarrow> sent_count y k = 0
     | Some n \<Rightarrow> sn_notification_id n = k \<and> sent_count y k \<le> 1 \<and> (sn_state n = SMS_PREPARED \<longrightarrow> sent_count y k = 0))"

definition sms_seen :: "settlement_store \<Rightarrow> sms_notification \<Rightarrow> bool" where
  \<comment> \<open>\<open>n\<close> was the stored notification at some earlier time\<close>
  "sms_seen s n \<longleftrightarrow> (\<exists>cur. sms_of s (sn_notification_id n) = Some cur \<and> sn_version n \<le> sn_version cur
     \<and> (sn_version cur = sn_version n \<longrightarrow> cur = n))"

fun sms_session_ok :: "settlement_store \<Rightarrow> sms_session \<Rightarrow> bool" where
  "sms_session_ok s (Read n) \<longleftrightarrow> sms_seen s n"
| "sms_session_ok s (Sending d) \<longleftrightarrow> sms_seen s d \<and> sn_state d = SMS_DISPATCHING"

definition sms_inv :: "sms_system \<Rightarrow> bool" where
  "sms_inv y \<longleftrightarrow> (\<forall>k. sms_row_ok y k) \<and> (\<forall>x\<in>set (ms_sessions y). sms_session_ok (ms_store y) x)"

lemma sms_invD:
  assumes "sms_inv y"
  shows "sms_row_ok y k" and "x \<in> set (ms_sessions y) \<Longrightarrow> sms_session_ok (ms_store y) x"
  using assms by (simp_all add: sms_inv_def)

lemma sms_row_cong:
  "sms_of (ms_store y') k = sms_of (ms_store y) k \<Longrightarrow> sent_count y' k = sent_count y k \<Longrightarrow> sms_row_ok y' k = sms_row_ok y k"
  by (cases "sms_of (ms_store y) k") (simp_all add: sms_row_ok_def)

text \<open>A transition replaces the stored notification by one with the next version.\<close>

definition sms_advance :: "settlement_store \<Rightarrow> sms_notification \<Rightarrow> sms_notification \<Rightarrow> settlement_store \<Rightarrow> bool" where
  "sms_advance s n n' s' \<longleftrightarrow> sms_of s' = (sms_of s)(sn_notification_id n \<mapsto> n') \<and> sn_notification_id n' = sn_notification_id n
     \<and> sn_version n' = sn_version n + 1 \<and> (\<exists>cur. sms_of s (sn_notification_id n) = Some cur \<and> sn_version cur = sn_version n)"

lemma transition_advance:
  assumes "transition_notification (sn_version n) n' s = (Inr u, s')" "sn_notification_id n' = sn_notification_id n"
  shows "sms_advance s n n' s'"
  using assms(1) by (rule transition_sms_Inr) (use assms(2) in \<open>auto simp: sms_advance_def sms_of_def fun_eq_iff\<close>)

lemma begin_sms_advance:
  assumes "begin_sms n t s = (Inr d, s')"
  shows "d = dispatching_sms n t \<and> sms_advance s n d s'"
  using assms transition_advance [of n "dispatching_sms n t" s] by (auto simp: begin_sms_def sbind_eq_Inr sret_eq dispatching_sms_def)

lemma finish_sms_cases:
  assumes "finish_sms n st code ref t s = (x, s')" "st \<noteq> SMS_PREPARED"
  shows "s' = s \<or> (\<exists>n'. sms_advance s n n' s' \<and> sn_state n' \<noteq> SMS_PREPARED)"
proof (cases "transition_notification (sn_version n) (finished_sms n st code ref t) s")
  case (Pair r s1)
  then have s': "s' = s1" using assms(1) by (cases r) (auto simp: finish_sms_def Let_def sbind_def sret_def)
  show ?thesis
  proof (cases r)
    case (Inl e)
    then show ?thesis using Pair s' transition_sms_Inl by metis
  next
    case (Inr u)
    then have "sms_advance s n (finished_sms n st code ref t) s'"
      using Pair s' transition_advance [of n "finished_sms n st code ref t" s u s1] by (simp add: finished_sms_def)
    then show ?thesis using assms(2) by (auto simp: finished_sms_def)
  qed
qed

lemma record_sms_cases:
  "record_sms n g t s = (x, s') \<Longrightarrow> s' = s \<or> (\<exists>n'. sms_advance s n n' s' \<and> sn_state n' \<noteq> SMS_PREPARED)"
  by (cases g) (auto simp: record_sms_def dest!: finish_sms_cases split: if_splits)

lemma advance_seen:
  assumes "sms_advance s n n' s'" "sms_seen s m"
  shows "sms_seen s' m"
proof (cases "sn_notification_id m = sn_notification_id n")
  case True
  then show ?thesis using assms by (auto simp: sms_advance_def sms_seen_def)
next
  case False
  then show ?thesis using assms by (simp add: sms_advance_def sms_seen_def)
qed

lemma advance_session: "sms_advance s n n' s' \<Longrightarrow> sms_session_ok s x \<Longrightarrow> sms_session_ok s' x"
  by (cases x) (auto intro: advance_seen)

lemma advance_current:
  assumes "sms_advance s n n' s'" "sms_seen s n"
  shows "sms_of s (sn_notification_id n) = Some n"
  using assms by (auto simp: sms_advance_def sms_seen_def)

lemma sms_finish_inv:
  assumes "sms_inv y" "sms_seen (ms_store y) n" "sms_advance (ms_store y) n n' s'" "sn_state n' \<noteq> SMS_PREPARED"
  shows "sms_inv (y\<lparr>ms_store := s'\<rparr>)"
proof -
  have cur: "sms_of (ms_store y) (sn_notification_id n) = Some n" using advance_current [OF assms(3,2)] .
  have "sms_row_ok (y\<lparr>ms_store := s'\<rparr>) k" for k
  proof (cases "k = sn_notification_id n")
    case True
    then show ?thesis using sms_invD(1) [OF assms(1), of k] cur assms(3,4)
      by (simp add: sms_row_ok_def sms_advance_def sent_count_def)
  next
    case False
    then have same: "sms_of s' k = sms_of (ms_store y) k" using assms(3) by (simp add: sms_advance_def)
    show ?thesis
      by (rule sms_row_cong [of _ k y, THEN iffD2]) (use same sms_invD(1) [OF assms(1)] in \<open>simp_all add: sent_count_def\<close>)
  qed
  then show ?thesis using sms_invD(2) [OF assms(1)] advance_session [OF assms(3)] by (simp add: sms_inv_def)
qed

lemma commit_settlement_effect:
  assumes "commit_settlement ev ns s = (x, s')"
  shows "s' = s \<or> (\<exists>a b. ns = (a, b) \<and> sms_of s (sn_notification_id a) = None \<and> sms_of s (sn_notification_id b) = None
    \<and> sms_of s' = (sms_of s)(sn_notification_id a \<mapsto> a, sn_notification_id b \<mapsto> b))"
  using assms by (cases ns) (auto simp: commit_settlement_def Let_def sms_of_def fun_eq_iff split: option.splits if_splits)

lemma sms_confirm_inv:
  assumes "sms_inv y" "sms_of (ms_store y) (sn_notification_id a) = None" "sms_of (ms_store y) (sn_notification_id b) = None"
    and "sms_of s' = (sms_of (ms_store y))(sn_notification_id a \<mapsto> a, sn_notification_id b \<mapsto> b)"
  shows "sms_inv (y\<lparr>ms_store := s'\<rparr>)"
proof -
  have zero: "sent_count y (sn_notification_id a) = 0" "sent_count y (sn_notification_id b) = 0"
    using sms_invD(1) [OF assms(1), of "sn_notification_id a"] sms_invD(1) [OF assms(1), of "sn_notification_id b"] assms(2,3)
    by (simp_all add: sms_row_ok_def)
  have "sms_row_ok (y\<lparr>ms_store := s'\<rparr>) k" for k
  proof (cases "k = sn_notification_id a \<or> k = sn_notification_id b")
    case True
    then show ?thesis using zero by (auto simp: sms_row_ok_def assms(4) sent_count_def)
  next
    case False
    then have same: "sms_of s' k = sms_of (ms_store y) k" by (simp add: assms(4))
    show ?thesis
      by (rule sms_row_cong [of _ k y, THEN iffD2]) (use same sms_invD(1) [OF assms(1)] in \<open>simp_all add: sent_count_def\<close>)
  qed
  moreover have "sms_seen s' m" if "sms_seen (ms_store y) m" for m
    using that assms(2,3) by (auto simp: sms_seen_def assms(4))
  then have "sms_session_ok s' x" if "x \<in> set (ms_sessions y)" for x
    using sms_invD(2) [OF assms(1) that] by (cases x) auto
  ultimately show ?thesis by (simp add: sms_inv_def)
qed

lemma sms_begin_inv:
  assumes "sms_inv y" "Read n \<in> set (ms_sessions y)" "\<not> sms_final (sn_state n)" "sn_state n \<noteq> SMS_DISPATCHING"
    and "begin_sms n t (ms_store y) = (Inr d, s')"
  shows "sms_inv (y\<lparr>ms_store := s', ms_sent := sn_notification_id n # ms_sent y, ms_sessions := Sending d # ms_sessions y\<rparr>)"
    (is "sms_inv ?y")
proof -
  have d: "d = dispatching_sms n t" and adv: "sms_advance (ms_store y) n d s'" using begin_sms_advance [OF assms(5)] by auto
  have "sms_seen (ms_store y) n" using sms_invD(2) [OF assms(1,2)] by simp
  then have cur: "sms_of (ms_store y) (sn_notification_id n) = Some n" using advance_current [OF adv] by simp
  have "sn_state n = SMS_PREPARED" using assms(3,4) by (cases "sn_state n") (auto simp: sms_final_def)
  then have zero: "sent_count y (sn_notification_id n) = 0" using sms_invD(1) [OF assms(1), of "sn_notification_id n"] cur by (simp add: sms_row_ok_def)
  have "sms_row_ok ?y k" for k
  proof (cases "k = sn_notification_id n")
    case True
    then show ?thesis using adv zero by (simp add: sms_row_ok_def sms_advance_def sent_count_def d dispatching_sms_def)
  next
    case False
    then have same: "sms_of s' k = sms_of (ms_store y) k" using adv by (simp add: sms_advance_def)
    show ?thesis
      by (rule sms_row_cong [of _ k y, THEN iffD2]) (use same sms_invD(1) [OF assms(1)] False in \<open>simp_all add: sent_count_def\<close>)
  qed
  moreover have "sms_session_ok s' (Sending d)"
    using adv by (simp add: sms_seen_def sms_advance_def d dispatching_sms_def)
  ultimately show ?thesis using sms_invD(2) [OF assms(1)] advance_session [OF adv] by (simp add: sms_inv_def)
qed

lemma sms_step_inv: "sms_step y y' \<Longrightarrow> sms_inv y \<Longrightarrow> sms_inv y'"
proof (induction rule: sms_step.induct)
  case (sms_confirm P ks contracts execs svc c at y x s')
  have "s' = ms_store y \<or> (\<exists>ev ns z. commit_settlement ev ns (ms_store y) = (z, s'))"
    using sms_confirm(1) unfolding confirm_provider_settlement_def by (elim sbindE) (auto simp: slift_eq split: prod.splits)
  then show ?case
  proof
    assume "s' = ms_store y"
    then show ?case using sms_confirm(2) by simp
  next
    assume "\<exists>ev ns z. commit_settlement ev ns (ms_store y) = (z, s')"
    then obtain ev ns z where "commit_settlement ev ns (ms_store y) = (z, s')" by blast
    from commit_settlement_effect [OF this] show ?case
    proof
      assume "s' = ms_store y"
      then show ?case using sms_confirm(2) by simp
    next
      assume "\<exists>a b. ns = (a, b) \<and> sms_of (ms_store y) (sn_notification_id a) = None \<and> sms_of (ms_store y) (sn_notification_id b) = None
        \<and> sms_of s' = (sms_of (ms_store y))(sn_notification_id a \<mapsto> a, sn_notification_id b \<mapsto> b)"
      then show ?case using sms_confirm_inv [OF sms_confirm(2)] by (elim exE conjE)
    qed
  qed
next
  case (sms_read k y n)
  then have n: "sms_of (ms_store y) k = Some n" by (auto simp: require_notification_def sms_of_def split: option.splits)
  then have "sn_notification_id n = k" using sms_invD(1) [OF sms_read(2), of k] by (simp add: sms_row_ok_def)
  then have "sms_session_ok (ms_store y) (Read n)" using n by (simp add: sms_seen_def)
  moreover have "sms_row_ok (y\<lparr>ms_sessions := Read n # ms_sessions y\<rparr>) j" for j
    by (rule sms_row_cong [of _ j y, THEN iffD2]) (use sms_invD(1) [OF sms_read(2)] in \<open>simp_all add: sent_count_def\<close>)
  ultimately show ?case using sms_invD(2) [OF sms_read(2)] by (simp add: sms_inv_def)
next
  case (sms_begin n y t d s')
  then show ?case using sms_begin_inv by blast
next
  case (sms_block n y code t x s')
  then have "sms_seen (ms_store y) n" using sms_invD(2) by fastforce
  then show ?case using finish_sms_cases [OF sms_block(3)] sms_finish_inv [OF sms_block(4)] sms_block(4) by auto
next
  case (sms_record d y g t x s')
  then have "sms_seen (ms_store y) d" using sms_invD(2) by fastforce
  then show ?case using record_sms_cases [OF sms_record(2)] sms_finish_inv [OF sms_record(3)] sms_record(3) by auto
qed

lemma sms_reach_inv: "sms_step\<^sup>*\<^sup>* sms_start y \<Longrightarrow> sms_inv y"
proof (induction rule: rtranclp_induct)
  case base
  show ?case by (simp add: sms_inv_def sms_start_def sms_row_ok_def sms_of_def empty_settlement_store_def sent_count_def)
qed (rule sms_step_inv)

lemma sms_deliver_run:
  assumes "sms_step\<^sup>*\<^sup>* sms_start y" "deliver_sms P rc gw k at (ms_store y) = (x, s')"
  shows "\<exists>y'. sms_step\<^sup>*\<^sup>* sms_start y' \<and> ms_store y' = s' \<and> (ms_sent y' = ms_sent y \<or> ms_sent y' = k # ms_sent y)"
proof (cases "require_notification k (ms_store y)")
  case (Inl e)
  then show ?thesis using assms by (auto simp: deliver_sms_def Let_def sbind_def sget_def)
next
  case (Inr n)
  let ?t = "astimezone_utc P at" and ?y = "y\<lparr>ms_sessions := Read n # ms_sessions y\<rparr>"
  have k: "sn_notification_id n = k"
    using sms_invD(1) [OF sms_reach_inv [OF assms(1)], of k] Inr
    by (auto simp: require_notification_def sms_row_ok_def sms_of_def split: option.splits)
  have run: "sms_step\<^sup>*\<^sup>* sms_start ?y" using assms(1) sms_read [OF Inr] by (rule rtranclp.rtrancl_into_rtrancl)
  have go: "(if sms_final (sn_state n) then sret n
      else if sn_state n = SMS_DISPATCHING then finish_sms n SMS_UNKNOWN ''NON_IDEMPOTENT_SMS_RECOVERY_BLOCKED'' None ?t
      else sbind (begin_sms n ?t) (\<lambda>d. record_sms d (send_sms rc gw n) ?t)) (ms_store y) = (x, s')"
    using assms(2) Inr by (simp add: deliver_sms_def Let_def sbind_def sget_def)
  consider (fin) "sms_final (sn_state n)" | (block) "\<not> sms_final (sn_state n)" "sn_state n = SMS_DISPATCHING"
    | (call) "\<not> sms_final (sn_state n)" "sn_state n \<noteq> SMS_DISPATCHING" by blast
  then show ?thesis
  proof cases
    case fin
    then show ?thesis using go assms(1) by (auto simp: sret_def)
  next
    case block
    then have "finish_sms n SMS_UNKNOWN ''NON_IDEMPOTENT_SMS_RECOVERY_BLOCKED'' None ?t (ms_store ?y) = (x, s')" using go by simp
    from sms_block [OF _ block(2) this] run show ?thesis
      by (intro exI [of _ "?y\<lparr>ms_store := s'\<rparr>"]) (auto intro: rtranclp.rtrancl_into_rtrancl)
  next
    case call
    then have "sbind (begin_sms n ?t) (\<lambda>d. record_sms d (send_sms rc gw n) ?t) (ms_store ?y) = (x, s')" using go by simp
    then show ?thesis
    proof (rule sbindE)
      fix e assume "begin_sms n ?t (ms_store ?y) = (Inl e, s')"
      then have "s' = ms_store ?y" by (auto simp: begin_sms_def sbind_eq_Inl sret_eq dest: transition_sms_Inl)
      then show ?thesis using run by (intro exI [of _ ?y]) simp
    next
      fix d s1 assume b: "begin_sms n ?t (ms_store ?y) = (Inr d, s1)" and rec: "record_sms d (send_sms rc gw n) ?t s1 = (x, s')"
      let ?z = "?y\<lparr>ms_store := s1, ms_sent := sn_notification_id n # ms_sent ?y, ms_sessions := Sending d # ms_sessions ?y\<rparr>"
      have z: "sms_step ?y ?z" by (rule sms_begin [OF _ call b]) simp
      have "sms_step ?z (?z\<lparr>ms_store := s'\<rparr>)" by (rule sms_record [of d]) (use rec in simp_all)
      then show ?thesis using run z k
        by (intro exI [of _ "?z\<lparr>ms_store := s'\<rparr>"]) (auto intro: rtranclp.rtrancl_into_rtrancl)
    qed
  qed
qed

section \<open>Properties\<close>

text \<open>
  C10. A settlement SMS is sent at most once.  In every state reachable by any interleaving of relays, with
  crashes between sending and recording, and of settlement confirmations, the gateway has been asked to send a
  notification at most once; and a call of \<^verbatim>\<open>deliver\<close> in such a state leads to such a state again, asking the
  gateway at most once, for that notification.\<close>

theorem sms_at_most_once:
  assumes "sms_step\<^sup>*\<^sup>* sms_start y"
  shows "count_list (ms_sent y) k \<le> 1 \<and>
    (\<forall>P rc gw j at x s'. deliver_sms P rc gw j at (ms_store y) = (x, s') \<longrightarrow>
       (\<exists>y'. sms_step\<^sup>*\<^sup>* sms_start y' \<and> ms_store y' = s' \<and> (ms_sent y' = ms_sent y \<or> ms_sent y' = j # ms_sent y)))"
proof -
  have "sent_count y k \<le> 1"
    using sms_invD(1) [OF sms_reach_inv [OF assms], of k] by (auto simp: sms_row_ok_def split: option.splits)
  then show ?thesis using sms_deliver_run [OF assms] by (simp add: sent_count_def)
qed

text \<open>
  Notifications are gated by settlement.  Evidence and notifications are produced only for a UTT whose
  signature verifies, whose plan is finalized and whose last attempt succeeded.  The signed evidence carries
  the amounts and currencies of that UTT and names that attempt; the two notifications are for the sender and
  the receiver, refer to the evidence, are unsent, and each body has at most 320 characters and is the one its
  digest names.\<close>

theorem settlement_gated:
  assumes "settlement_for P ks contracts execs svc c at = Inr (ev, a, b)"
  shows "\<exists>su p att. require_utt (sc_utt_id c) contracts = Inr su
    \<and> (\<exists>v. verify_artifact P ks su (Some UTT) False = Inr v \<and> vr_valid v)
    \<and> require_plan_for_utt (sc_utt_id c) execs = Inr p \<and> pl_status p = PLAN_FINALIZED
    \<and> (\<exists>rtt. pl_previous_rtt_id p = Some rtt \<and> require_attempt rtt execs = Inr att) \<and> at_state att = ATT_SUCCEEDED
    \<and> (\<forall>k\<in>{''amount_minor'', ''currency_from'', ''receive_amount_minor'', ''currency_to''}.
         pget (env_payload (se_signed_evidence ev)) k = map_option freeze (pget (env_payload su) k) \<and> pget (env_payload su) k \<noteq> None)
    \<and> pget (env_payload (se_signed_evidence ev)) ''rtt_id'' = Some (PyStr (at_rtt_id att))
    \<and> sn_recipient_role a = NTF_SENDER \<and> sn_recipient_role b = NTF_RECEIVER
    \<and> (\<forall>n\<in>{a, b}. sn_evidence_id n = se_evidence_id ev \<and> sn_state n = SMS_PREPARED \<and> length (sn_rendered_body n) \<le> 320
         \<and> sn_body_sha256 n = sha256_hex (sn_rendered_body n))"
proof -
  let ?t = "astimezone_utc P at"
  obtain su v att where su: "require_utt (sc_utt_id c) contracts = Inr su" "verify_artifact P ks su (Some UTT) False = Inr v" "vr_valid v"
    and att: "settled_attempt execs (sc_utt_id c) = Inr att" and ev: "build_evidence P ks svc c su att ?t = Inr ev"
    and ns: "build_notifications svc ev (env_payload su) ?t = Inr (a, b)"
    using assms unfolding settlement_for_def Let_def by (elim rbind_InrE) (auto simp: guard_res_eq_Inr)
  have A: "\<exists>p. require_plan_for_utt (sc_utt_id c) execs = Inr p \<and> pl_status p = PLAN_FINALIZED
    \<and> (\<exists>rtt. pl_previous_rtt_id p = Some rtt \<and> require_attempt rtt execs = Inr att) \<and> at_state att = ATT_SUCCEEDED"
    using att unfolding settled_attempt_def by (elim rbind_InrE) (auto simp: guard_res_eq_Inr)
  obtain amount cfrom received cto i sha where g: "pget (env_payload su) ''amount_minor'' = Some amount" "pget (env_payload su) ''currency_from'' = Some cfrom"
    "pget (env_payload su) ''receive_amount_minor'' = Some received" "pget (env_payload su) ''currency_to'' = Some cto"
    and sg: "sign_artifact P ks SETTLEMENT_EVIDENCE (obj ((''evidence_id'', PyStr i) # evidence_identity c sha @
              [(''rtt_id'', PyStr (at_rtt_id att)), (''amount_minor'', amount), (''currency_from'', cfrom),
               (''receive_amount_minor'', received), (''currency_to'', cto), (''settled_at'', PyInt (epoch ?t)),
               (''evidence_kind'', PyStr ''PROVIDER_CALLBACK_CORRELATED'')]))
              (ts_settlement_signing_key_id svc) (Aware ?t) = Inr (se_signed_evidence ev)"
    using ev unfolding build_evidence_def Let_def by (elim rbind_InrE) (auto simp: py_item_Inr)
  have pay: "env_payload (se_signed_evidence ev) = freeze (obj ((''evidence_id'', PyStr i) # evidence_identity c sha @
              [(''rtt_id'', PyStr (at_rtt_id att)), (''amount_minor'', amount), (''currency_from'', cfrom),
               (''receive_amount_minor'', received), (''currency_to'', cto), (''settled_at'', PyInt (epoch ?t)),
               (''evidence_kind'', PyStr ''PROVIDER_CALLBACK_CORRELATED'')]))"
    using sg by (rule sign_artifactD)
  have B: "\<forall>k\<in>{''amount_minor'', ''currency_from'', ''receive_amount_minor'', ''currency_to''}.
      pget (env_payload (se_signed_evidence ev)) k = map_option freeze (pget (env_payload su) k) \<and> pget (env_payload su) k \<noteq> None"
    "pget (env_payload (se_signed_evidence ev)) ''rtt_id'' = Some (PyStr (at_rtt_id att))"
    unfolding pay by (simp_all add: g evidence_identity_def)
  have N: "sn_recipient_role n = role \<and> sn_evidence_id n = se_evidence_id ev \<and> sn_state n = SMS_PREPARED \<and> length (sn_rendered_body n) \<le> 320
         \<and> sn_body_sha256 n = sha256_hex (sn_rendered_body n)"
    if "build_notification ev role cb body ?t = Inr n" for role cb body n
    using that unfolding build_notification_def by (elim rbind_InrE) (auto simp: guard_res_eq_Inr)
  obtain c1 b1 c2 b2 where "build_notification ev NTF_SENDER c1 b1 ?t = Inr a" "build_notification ev NTF_RECEIVER c2 b2 ?t = Inr b"
    using ns unfolding build_notifications_def Let_def by (elim rbind_InrE) auto
  note C = N [OF this(1)] N [OF this(2)]
  show ?thesis using su A B C by blast
qed

end
