(* ===== verification/Mpesa_Callback.thy ===== *)
theory Mpesa_Callback
  imports Callback_Inbox Hmac Json_Loads Notifications Operations_Store
begin

text \<open>
  Authenticated M-PESA callbacks (\<^verbatim>\<open>railone_callbacks/mpesa.py\<close>): the ingress HMAC, normalization of the
  provider's JSON, the evidence a success must carry, and the processor that turns a callback into one
  outcome of the RTT and one settlement.
\<close>

section \<open>Ingress authentication\<close>

definition environment_secret :: "(string, string) dict \<Rightarrow> string res" where
  "environment_secret env =
     (let secret = (case dict_get env ''RAILONE_MPESA_INGRESS_HMAC_SECRET'' of None \<Rightarrow> [] | Some v \<Rightarrow> v) in
      if length secret < 32
      then Inl (Raise RuntimeError ''M-PESA ingress HMAC secret must contain at least 32 bytes'')
      else Inr secret)"

definition remove_prefix :: "string \<Rightarrow> string \<Rightarrow> string" where
  "remove_prefix p s = (if starts_with s p then drop (length p) s else s)"

definition compare_digest :: "string \<Rightarrow> string \<Rightarrow> bool res" where
  \<comment> \<open>\<^verbatim>\<open>hmac.compare_digest\<close> of two \<^verbatim>\<open>str\<close>\<close>
  "compare_digest a b =
     (if \<exists>c\<in>set (a @ b). (of_char c :: nat) \<ge> 128
      then Inl (Raise TypeError ''comparing strings with non-ASCII characters is not supported'')
      else Inr (a = b))"

definition verify_ingress :: "string res \<Rightarrow> string \<Rightarrow> string \<Rightarrow> bool res" where
  "verify_ingress get_secret raw_body signature =
     (let supplied = lower (strip (remove_prefix ''sha256='' signature)) in
      if length supplied \<noteq> 64 then Inr False
      else rbind get_secret (\<lambda>secret. compare_digest (hmac_sha256_hex secret raw_body) supplied))"

section \<open>Normalization\<close>

record mpesa_result =
  mp_conversation_id :: string
  mp_originator_conversation_id :: string
  mp_transaction_id :: "string option"
  mp_result_code :: int
  mp_result_description :: string
  mp_parameters :: "(string, pyval) dict"

definition callback_text :: "pyval \<Rightarrow> string \<Rightarrow> nat \<Rightarrow> string res" where
  "callback_text value key maximum =
     (case py_get value key of
        PyStr item \<Rightarrow> if item = [] \<or> length item > maximum then Inl (Raise ValueError (''M-PESA '' @ key @ '' is invalid''))
                      else Inr item
      | _ \<Rightarrow> Inl (Raise ValueError (''M-PESA '' @ key @ '' is invalid'')))"

definition allowed_parameter :: "(string, pyval) dict \<Rightarrow> pyval \<Rightarrow> (string, pyval) dict res" where
  \<comment> \<open>one round of the loop over \<^verbatim>\<open>ResultParameter\<close>\<close>
  "allowed_parameter result item =
     (case item of
        PyDict _ \<Rightarrow>
         (case py_get item ''Key'' of
            PyStr key \<Rightarrow>
              if key = ''TransactionAmount'' \<or> key = ''TransactionReceipt''
              then (case py_get item ''Value'' of
                      PyStr s \<Rightarrow> Inr (dict_set key (PyStr s) result)
                    | PyInt n \<Rightarrow> Inr (dict_set key (PyInt n) result)
                    | _ \<Rightarrow> Inl (Raise ValueError ''M-PESA result parameter value is invalid''))
              else Inr result
          | PyList _ \<Rightarrow> Inl (Raise TypeError ''unhashable type: list'')
          | PyDict _ \<Rightarrow> Inl (Raise TypeError ''unhashable type: dict'')
          | _ \<Rightarrow> Inr result)
      | _ \<Rightarrow> Inl (Raise ValueError ''M-PESA result parameter must be an object''))"

fun allowed_loop :: "(string, pyval) dict \<Rightarrow> pyval list \<Rightarrow> (string, pyval) dict res" where
  "allowed_loop result [] = Inr result"
| "allowed_loop result (item # items) = rbind (allowed_parameter result item) (\<lambda>r. allowed_loop r items)"

definition allowed_parameters :: "pyval \<Rightarrow> (string, pyval) dict res" where
  "allowed_parameters value =
     (case value of
        PyNone \<Rightarrow> Inr []
      | PyDict _ \<Rightarrow>
         (case pget value ''ResultParameter'' of
            Some (PyList items) \<Rightarrow> allowed_loop [] items
          | _ \<Rightarrow> Inl (Raise ValueError ''M-PESA ResultParameter must be an array''))
      | _ \<Rightarrow> Inl (Raise ValueError ''M-PESA ResultParameters must be an object''))"

definition envelope_result :: "string \<Rightarrow> pyval res" where
  \<comment> \<open>the \<^verbatim>\<open>try\<close> block: \<^verbatim>\<open>json.loads(raw_body.decode("utf-8"))["Result"]\<close>\<close>
  "envelope_result raw_body =
     (case rbind (json_loads raw_body) (\<lambda>payload. py_item payload ''Result'') of
        Inl (Raise c m) \<Rightarrow>
          if c = UnicodeError \<or> c = JSONDecodeError \<or> c = KeyError \<or> c = TypeError
          then Inl (Raise ValueError ''invalid M-PESA callback envelope'') else Inl (Raise c m)
      | Inr v \<Rightarrow> Inr v)"

definition transaction_text :: "pyval \<Rightarrow> string option res" where
  "transaction_text v =
     (case v of
        PyNone \<Rightarrow> Inr None
      | PyStr s \<Rightarrow> if length s > 128 then Inl (Raise ValueError ''M-PESA TransactionID is invalid'') else Inr (Some s)
      | _ \<Rightarrow> Inl (Raise ValueError ''M-PESA TransactionID is invalid''))"

definition normalize_result :: "pyval \<Rightarrow> mpesa_result res" where
  "normalize_result result =
     rbind (callback_text result ''ConversationID'' 128) (\<lambda>conversation_id.
     rbind (callback_text result ''OriginatorConversationID'' 128) (\<lambda>originator_id.
     rbind (transaction_text (py_get result ''TransactionID'')) (\<lambda>transaction_id.
     rbind (case py_get result ''ResultCode'' of PyInt n \<Rightarrow> Inr n
            | _ \<Rightarrow> Inl (Raise ValueError ''M-PESA ResultCode must be an integer'')) (\<lambda>result_code.
     rbind (case pget result ''ResultDesc'' of None \<Rightarrow> Inr [] | Some (PyStr s) \<Rightarrow> Inr s
            | _ \<Rightarrow> Inl (Raise ValueError ''M-PESA ResultDesc must be text'')) (\<lambda>description.
     rbind (allowed_parameters (py_get result ''ResultParameters'')) (\<lambda>parameters.
     Inr \<lparr>mp_conversation_id = conversation_id, mp_originator_conversation_id = originator_id,
          mp_transaction_id = transaction_id, mp_result_code = result_code,
          mp_result_description = take 256 description, mp_parameters = parameters\<rparr>))))))"

definition normalize :: "string \<Rightarrow> mpesa_result res" where
  "normalize raw_body =
     rbind (envelope_result raw_body) (\<lambda>result.
     case result of PyDict _ \<Rightarrow> normalize_result result
     | _ \<Rightarrow> Inl (Raise ValueError ''M-PESA Result must be an object''))"

definition normalized_payload :: "mpesa_result \<Rightarrow> pyval" where
  "normalized_payload n = obj
     [(''conversation_id'', PyStr (mp_conversation_id n)),
      (''originator_conversation_id'', PyStr (mp_originator_conversation_id n)),
      (''transaction_id'', opt_str (mp_transaction_id n)), (''result_code'', PyInt (mp_result_code n)),
      (''result_description'', PyStr (mp_result_description n)), (''parameters'', obj (mp_parameters n))]"

section \<open>Evidence of success\<close>

definition digits_only :: "string \<Rightarrow> bool" where
  \<comment> \<open>\<^verbatim>\<open>str.isdigit\<close>\<close>
  "digits_only s \<longleftrightarrow> s \<noteq> [] \<and> list_all is_digit s"

definition callback_amount :: "mpesa_result \<Rightarrow> int option" where
  "callback_amount n =
     (case dict_get (mp_parameters n) ''TransactionAmount'' of
        Some (PyInt a) \<Rightarrow> Some a
      | Some (PyStr s) \<Rightarrow> if digits_only s then Some (int (value_of_digits s)) else None
      | _ \<Rightarrow> None)"

definition verify_success_evidence :: "mpesa_result \<Rightarrow> (string, string) dict \<Rightarrow> unit res" where
  "verify_success_evidence n context =
     (case mp_transaction_id n of
        None \<Rightarrow> Inl (Raise ValueError ''successful M-PESA callback omitted TransactionID'')
      | Some transaction_id \<Rightarrow>
     if transaction_id = [] then Inl (Raise ValueError ''successful M-PESA callback omitted TransactionID'')
     else case dict_get context ''amount_minor'' of
        None \<Rightarrow> Inl (Raise RuntimeError ''M-PESA submission is missing its expected amount'')
      | Some expected \<Rightarrow>
     if \<not> digits_only expected then Inl (Raise RuntimeError ''M-PESA submission is missing its expected amount'')
     else case callback_amount n of
        None \<Rightarrow> Inl (Raise ValueError ''M-PESA success omitted an integer TransactionAmount'')
      | Some amount \<Rightarrow>
     if amount * 100 \<noteq> int (value_of_digits expected)
     then Inl (Raise PermissionError ''M-PESA callback amount does not match the dispatched request'')
     else case dict_get (mp_parameters n) ''TransactionReceipt'' of
        None \<Rightarrow> Inr ()
      | Some receipt \<Rightarrow>
     if receipt \<noteq> PyStr transaction_id
     then Inl (Raise PermissionError ''M-PESA callback receipt does not match TransactionID'')
     else Inr ())"

section \<open>The processor\<close>

record callback_world =
  cw_inbox :: callback_inbox
  cw_execs :: execution_store
  cw_settle :: settlement_store

definition on_inbox :: "(callback_inbox, 'a) st \<Rightarrow> (callback_world, 'a) st" where
  "on_inbox f w = (case f (cw_inbox w) of (r, s) \<Rightarrow> (r, w\<lparr>cw_inbox := s\<rparr>))"

definition on_execs :: "(execution_store, 'a) st \<Rightarrow> (callback_world, 'a) st" where
  "on_execs f w = (case f (cw_execs w) of (r, s) \<Rightarrow> (r, w\<lparr>cw_execs := s\<rparr>))"

definition on_settle :: "(settlement_store, 'a) st \<Rightarrow> (callback_world, 'a) st" where
  "on_settle f w = (case f (cw_settle w) of (r, s) \<Rightarrow> (r, w\<lparr>cw_settle := s\<rparr>))"

record callback_processor =
  cp_get_secret :: "string res"
  cp_settlements :: "settlement_service option"
  cp_retryable_codes :: "int list"

datatype callback_type = RESULT_CB | TIMEOUT_CB

fun callback_type_value :: "callback_type \<Rightarrow> string" where
  "callback_type_value RESULT_CB = ''RESULT''"
| "callback_type_value TIMEOUT_CB = ''TIMEOUT''"

definition mpesa_provider :: string where
  "mpesa_provider = ''MPESA-KE''"

definition submission_context :: "submission_record \<Rightarrow> (string, string) dict" where
  \<comment> \<open>\<^verbatim>\<open>dict(submission.provider_context)\<close>\<close>
  "submission_context r = fold (\<lambda>(k, v). dict_set k v) (sb_provider_context r) []"

definition correlate :: "operations_store \<Rightarrow> callback_type \<Rightarrow> mpesa_result \<Rightarrow> submission_record res" where
  \<comment> \<open>the submission a callback is about, and the evidence of a success\<close>
  "correlate ops ct n =
     (case find_by_external_reference mpesa_provider (mp_conversation_id n) ops of
        None \<Rightarrow> Inl (Raise LookupError ''M-PESA callback has no matching provider submission'')
      | Some submission \<Rightarrow>
          let context = submission_context submission in
          if dict_get context ''originator_conversation_id'' \<noteq> Some (mp_originator_conversation_id n)
          then Inl (Raise PermissionError ''M-PESA callback correlation mismatch'')
          else rbind (if ct = RESULT_CB \<and> mp_result_code n = 0 then verify_success_evidence n context else Inr ())
                 (\<lambda>_. Inr submission))"

definition apply_timeout :: "rtt_attempt \<Rightarrow> instant \<Rightarrow> (callback_world, string) st" where
  "apply_timeout attempt instant =
     sbind (if at_state attempt = ATT_CREATED
            then sbind (on_execs (record_failure (at_rtt_id attempt) ''MPESA_CALLBACK_TIMEOUT'' DISP_RECONCILIATION_REQUIRED 0 (Aware instant)))
                   (\<lambda>_. sret ())
            else slift (guard_res (at_state attempt \<noteq> ATT_RECONCILIATION_REQUIRED) RuntimeError
                   ''timeout callback conflicts with finalized RTT''))
       (\<lambda>_. sret ''RECONCILIATION_REQUIRED'')"

definition apply_success_rtt :: "rtt_attempt \<Rightarrow> instant \<Rightarrow> (callback_world, unit) st" where
  "apply_success_rtt attempt instant =
     (if at_state attempt = ATT_CREATED
      then sbind (on_execs (record_success (at_rtt_id attempt) 0 (Aware instant))) (\<lambda>_. sret ())
      else if at_state attempt = ATT_RECONCILIATION_REQUIRED
      then sbind (on_execs (resolve_reconciliation (at_rtt_id attempt) True 0 None DISP_TERMINAL (Aware instant))) (\<lambda>_. sret ())
      else slift (guard_res (at_state attempt \<noteq> ATT_SUCCEEDED) RuntimeError ''success callback conflicts with finalized RTT''))"

definition apply_success ::
  "platform \<Rightarrow> key_provider \<Rightarrow> contract_store \<Rightarrow> callback_processor \<Rightarrow> submission_record \<Rightarrow> mpesa_result \<Rightarrow> string \<Rightarrow>
    rtt_attempt \<Rightarrow> instant \<Rightarrow> (callback_world, string) st" where
  "apply_success P ks contracts cp submission n event_id attempt instant =
     sbind (apply_success_rtt attempt instant) (\<lambda>_. \<lambda>w.
     sbind (case cp_settlements cp of
              None \<Rightarrow> sret ()
            | Some svc \<Rightarrow>
                sbind (on_settle (confirm_provider_settlement P ks contracts (cw_execs w) svc
                  \<lparr>sc_utt_id = sb_utt_id submission, sc_provider_id = mpesa_provider,
                   sc_provider_transaction_id = (case mp_transaction_id n of None \<Rightarrow> ''None'' | Some t \<Rightarrow> t),
                   sc_callback_event_id = event_id\<rparr> (Aware instant))) (\<lambda>_. sret ()))
       (\<lambda>_. sret ''CONFIRMED_SUCCESS'') w)"

definition apply_failure :: "callback_processor \<Rightarrow> mpesa_result \<Rightarrow> rtt_attempt \<Rightarrow> instant \<Rightarrow> (callback_world, string) st" where
  "apply_failure cp n attempt instant =
     (let retryable = mp_result_code n \<in> set (cp_retryable_codes cp);
          d = (if retryable then DISP_RETRYABLE else DISP_TERMINAL);
          disposition = (if retryable then ''CONFIRMED_RETRYABLE_FAILURE'' else ''CONFIRMED_TERMINAL_FAILURE'');
          code = ''MPESA_RESULT_'' @ show_int (mp_result_code n)
      in sbind (if at_state attempt = ATT_CREATED
                then sbind (on_execs (record_failure (at_rtt_id attempt) code d 0 (Aware instant))) (\<lambda>_. sret ())
                else if at_state attempt = ATT_RECONCILIATION_REQUIRED
                then sbind (on_execs (resolve_reconciliation (at_rtt_id attempt) False 0 (Some code) d (Aware instant))) (\<lambda>_. sret ())
                else slift (guard_res (at_state attempt \<noteq> ATT_FAILED) RuntimeError ''failure callback conflicts with finalized RTT''))
           (\<lambda>_. sret disposition))"

definition apply_callback ::
  "platform \<Rightarrow> key_provider \<Rightarrow> contract_store \<Rightarrow> callback_processor \<Rightarrow> callback_type \<Rightarrow> submission_record \<Rightarrow> mpesa_result \<Rightarrow>
    string \<Rightarrow> rtt_attempt \<Rightarrow> instant \<Rightarrow> (callback_world, string) st" where
  "apply_callback P ks contracts cp ct submission n event_id attempt instant =
     (if ct = TIMEOUT_CB then apply_timeout attempt instant
      else if mp_result_code n = 0 then apply_success P ks contracts cp submission n event_id attempt instant
      else apply_failure cp n attempt instant)"

definition reject_callback :: "string \<Rightarrow> instant \<Rightarrow> (callback_world, callback_result) st" where
  "reject_callback raw_body instant =
     sbind (on_inbox (ingest mpesa_provider (''MPESA-REJECTED-'' @ take 32 (upper (sha256_hex raw_body)))
              (sha256_hex raw_body) (obj []) False instant)) (\<lambda>_.
     slift (Inl (Raise PermissionError ''M-PESA callback ingress authentication failed'')))"

definition callback_event_id :: "callback_type \<Rightarrow> mpesa_result \<Rightarrow> string" where
  "callback_event_id ct n = ''MPESA-'' @ callback_type_value ct @ ''-'' @ mp_conversation_id n"

definition accept_callback ::
  "platform \<Rightarrow> key_provider \<Rightarrow> contract_store \<Rightarrow> callback_processor \<Rightarrow> callback_type \<Rightarrow> submission_record \<Rightarrow> mpesa_result \<Rightarrow>
    instant \<Rightarrow> (callback_world, callback_result) st" where
  \<comment> \<open>from the inbox on\<close>
  "accept_callback P ks contracts cp ct submission n instant =
     (let event_id = callback_event_id ct n in
      sbind (slift (payload_digest (normalized_payload n))) (\<lambda>payload_hash.
      sbind (on_inbox (ingest mpesa_provider event_id payload_hash (normalized_payload n) True instant)) (\<lambda>(r, duplicate).
      if cb_state r = CB_APPLIED
      then sret \<lparr>cr_provider_event_id = event_id, cr_rtt_id = Some (sb_rtt_id submission),
                 cr_disposition = ''ALREADY_APPLIED'', cr_duplicate = True\<rparr>
      else sbind (sget (\<lambda>w. require_attempt (sb_rtt_id submission) (cw_execs w))) (\<lambda>attempt.
           sbind (apply_callback P ks contracts cp ct submission n event_id attempt instant) (\<lambda>disposition.
           sbind (on_inbox (mark_applied mpesa_provider event_id instant)) (\<lambda>_.
           sret \<lparr>cr_provider_event_id = event_id, cr_rtt_id = Some (sb_rtt_id submission),
                 cr_disposition = disposition, cr_duplicate = duplicate\<rparr>))))))"

definition process ::
  "platform \<Rightarrow> key_provider \<Rightarrow> contract_store \<Rightarrow> operations_store \<Rightarrow> callback_processor \<Rightarrow> callback_type \<Rightarrow> string \<Rightarrow> string \<Rightarrow>
    datetime \<Rightarrow> (callback_world, callback_result) st" where
  "process P ks contracts ops cp ct raw_body ingress_signature at =
     sbind (slift (require_aware ''callback timestamp'' at)) (\<lambda>instant.
     sbind (slift (guard_res (length raw_body > 65536) ValueError ''M-PESA callback exceeds 64 KiB'')) (\<lambda>_.
     sbind (slift (verify_ingress (cp_get_secret cp) raw_body ingress_signature)) (\<lambda>authentic.
     if \<not> authentic then reject_callback raw_body instant
     else sbind (slift (normalize raw_body)) (\<lambda>n.
          sbind (slift (correlate ops ct n)) (\<lambda>submission.
          accept_callback P ks contracts cp ct submission n instant)))))"

definition process_result ::
  "platform \<Rightarrow> key_provider \<Rightarrow> contract_store \<Rightarrow> operations_store \<Rightarrow> callback_processor \<Rightarrow> string \<Rightarrow> string \<Rightarrow> datetime \<Rightarrow>
    (callback_world, callback_result) st" where
  "process_result P ks contracts ops cp raw_body ingress_signature at =
     process P ks contracts ops cp RESULT_CB raw_body ingress_signature at"

definition process_timeout ::
  "platform \<Rightarrow> key_provider \<Rightarrow> contract_store \<Rightarrow> operations_store \<Rightarrow> callback_processor \<Rightarrow> string \<Rightarrow> string \<Rightarrow> datetime \<Rightarrow>
    (callback_world, callback_result) st" where
  "process_timeout P ks contracts ops cp raw_body ingress_signature at =
     process P ks contracts ops cp TIMEOUT_CB raw_body ingress_signature at"

end
