(* ===== verification/Callback_Properties.thy ===== *)
theory Callback_Properties
  imports Mpesa_Callback Execution_Properties
begin

text \<open>
  What the callback processor guarantees: a replay changes nothing, only authenticated and correlated
  callbacks reach the execution and settlement stores, every change it makes to the execution store is a run
  of the execution machine, and a proven success always finalizes the plan.
\<close>

section \<open>Lifted operations\<close>

lemma on_inbox_eq: "on_inbox f w = (x, w') \<longleftrightarrow> (\<exists>s. f (cw_inbox w) = (x, s) \<and> w' = w\<lparr>cw_inbox := s\<rparr>)"
  by (auto simp: on_inbox_def split: prod.splits)

lemma on_execs_eq: "on_execs f w = (x, w') \<longleftrightarrow> (\<exists>s. f (cw_execs w) = (x, s) \<and> w' = w\<lparr>cw_execs := s\<rparr>)"
  by (auto simp: on_execs_def split: prod.splits)

lemma on_settle_eq: "on_settle f w = (x, w') \<longleftrightarrow> (\<exists>s. f (cw_settle w) = (x, s) \<and> w' = w\<lparr>cw_settle := s\<rparr>)"
  by (auto simp: on_settle_def split: prod.splits)

lemma sbind_unit_eq: "sbind m (\<lambda>_. sret u) w = (x, w') \<longleftrightarrow> (\<exists>y. m w = (y, w') \<and> x = map_sum id (\<lambda>_. u) y)"
  by (cases "m w") (auto simp: sbind_def sret_def split: sum.splits)

section \<open>What applying a callback changes\<close>

definition confirm_claim :: "submission_record \<Rightarrow> mpesa_result \<Rightarrow> string \<Rightarrow> settlement_claim" where
  "confirm_claim submission n event_id = \<lparr>sc_utt_id = sb_utt_id submission, sc_provider_id = mpesa_provider,
     sc_provider_transaction_id = (case mp_transaction_id n of None \<Rightarrow> ''None'' | Some t \<Rightarrow> t), sc_callback_event_id = event_id\<rparr>"

lemma apply_success_split:
  assumes "apply_success P ks contracts cp sb n ev a t w = (x, w')"
  obtains y w1 where "apply_success_rtt a t w = (y, w1)" "cw_execs w' = cw_execs w1" "cw_inbox w' = cw_inbox w1"
    "cw_settle w' = cw_settle w1 \<or> (\<exists>svc z s. cp_settlements cp = Some svc \<and>
       confirm_provider_settlement P ks contracts (cw_execs w1) svc (confirm_claim sb n ev) (Aware t) (cw_settle w1) = (z, cw_settle w'))"
proof (cases "apply_success_rtt a t w")
  case (Pair y w1)
  show thesis
  proof (rule that [OF Pair])
    show "cw_execs w' = cw_execs w1" "cw_inbox w' = cw_inbox w1"
      using assms Pair
      by (auto simp: apply_success_def sbind_def sret_def on_settle_def split: sum.splits option.splits prod.splits)
    show "cw_settle w' = cw_settle w1 \<or> (\<exists>svc z s. cp_settlements cp = Some svc \<and>
       confirm_provider_settlement P ks contracts (cw_execs w1) svc (confirm_claim sb n ev) (Aware t) (cw_settle w1) = (z, cw_settle w'))"
      using assms Pair
      by (auto simp: apply_success_def confirm_claim_def sbind_def sret_def on_settle_def split: sum.splits option.splits prod.splits)
  qed
qed

lemma apply_success_rtt_cases:
  assumes "apply_success_rtt a t w = (x, w')"
  obtains "w' = w"
  | y s where "at_state a = ATT_CREATED" "record_success (at_rtt_id a) 0 (Aware t) (cw_execs w) = (y, s)" "w' = w\<lparr>cw_execs := s\<rparr>"
  | y s where "at_state a = ATT_RECONCILIATION_REQUIRED"
      "resolve_reconciliation (at_rtt_id a) True 0 None DISP_TERMINAL (Aware t) (cw_execs w) = (y, s)" "w' = w\<lparr>cw_execs := s\<rparr>"
  using assms unfolding apply_success_rtt_def
  by (auto simp: sbind_unit_eq on_execs_eq slift_eq split: if_splits)

lemma apply_failure_cases:
  assumes "apply_failure cp n a t w = (x, w')"
  obtains "w' = w"
  | code d y s where "at_state a = ATT_CREATED" "record_failure (at_rtt_id a) code d 0 (Aware t) (cw_execs w) = (y, s)" "w' = w\<lparr>cw_execs := s\<rparr>"
  | code d y s where "at_state a = ATT_RECONCILIATION_REQUIRED"
      "resolve_reconciliation (at_rtt_id a) False 0 (Some code) d (Aware t) (cw_execs w) = (y, s)" "w' = w\<lparr>cw_execs := s\<rparr>"
  using assms unfolding apply_failure_def Let_def
  by (auto simp: sbind_unit_eq on_execs_eq slift_eq split: if_splits)

lemma apply_timeout_cases:
  assumes "apply_timeout a t w = (x, w')"
  obtains "w' = w"
  | code y s where "at_state a = ATT_CREATED" "record_failure (at_rtt_id a) code DISP_RECONCILIATION_REQUIRED 0 (Aware t) (cw_execs w) = (y, s)"
      "w' = w\<lparr>cw_execs := s\<rparr>"
  using assms unfolding apply_timeout_def
  by (auto simp: sbind_unit_eq on_execs_eq slift_eq split: if_splits)

lemma apply_callback_inbox: "apply_callback P ks contracts cp ct sb n ev a t w = (x, w') \<Longrightarrow> cw_inbox w' = cw_inbox w"
  unfolding apply_callback_def
  by (auto split: if_splits elim!: apply_timeout_cases apply_failure_cases apply_success_split apply_success_rtt_cases)

lemma apply_callback_settle:
  assumes "apply_callback P ks contracts cp ct sb n ev a t w = (x, w')" "cw_settle w' \<noteq> cw_settle w"
  shows "ct = RESULT_CB \<and> mp_result_code n = 0 \<and> (\<exists>svc z s. cp_settlements cp = Some svc \<and>
       confirm_provider_settlement P ks contracts (cw_execs w') svc (confirm_claim sb n ev) (Aware t) (cw_settle w) = (z, cw_settle w'))"
proof -
  have s: "ct = RESULT_CB" "mp_result_code n = 0" "apply_success P ks contracts cp sb n ev a t w = (x, w')"
    using assms unfolding apply_callback_def
    by (cases ct; auto split: if_splits elim: apply_timeout_cases apply_failure_cases)+
  from s(3) obtain y w1 where w1: "apply_success_rtt a t w = (y, w1)" "cw_execs w' = cw_execs w1"
    "cw_settle w' = cw_settle w1 \<or> (\<exists>svc z s. cp_settlements cp = Some svc \<and>
       confirm_provider_settlement P ks contracts (cw_execs w1) svc (confirm_claim sb n ev) (Aware t) (cw_settle w1) = (z, cw_settle w'))"
    by (rule apply_success_split)
  have "cw_settle w1 = cw_settle w" using w1(1) by (auto elim: apply_success_rtt_cases)
  then show ?thesis using s(1,2) w1(2,3) assms(2) by auto
qed

lemma apply_callback_step:
  assumes "apply_callback P ks contracts cp ct sb n ev a t w = (x, w')" "strip (at_rtt_id a) = at_rtt_id a"
  shows "cw_execs w' = cw_execs w \<or> exec_step P (cw_execs w) (cw_execs w')"
proof -
  consider (timeout) "apply_timeout a t w = (x, w')" | (failure) "apply_failure cp n a t w = (x, w')"
    | (success) y w1 where "apply_success_rtt a t w = (y, w1)" "cw_execs w' = cw_execs w1"
    using assms(1) unfolding apply_callback_def by (auto split: if_splits elim: apply_success_split)
  then show ?thesis
  proof cases
    case timeout
    then show ?thesis using step_failure [OF assms(2)] by (auto elim!: apply_timeout_cases)
  next
    case failure
    then show ?thesis using step_failure [OF assms(2)] step_resolve by (auto elim!: apply_failure_cases)
  next
    case success
    then show ?thesis using step_success step_resolve by (auto elim!: apply_success_rtt_cases)
  qed
qed

section \<open>Runs of the processor\<close>

lemma accept_callback_cases:
  assumes "accept_callback P ks contracts cp ct sb n t w = (x, w')"
  obtains (unchanged) "cw_execs w' = cw_execs w" "cw_settle w' = cw_settle w" "\<And>r. x \<noteq> Inr r"
  | (replay) h r where "payload_digest (normalized_payload n) = Inr h" "dict_get (cw_inbox w) (mpesa_provider, callback_event_id ct n) = Some r"
      "cb_payload_sha256 r = h" "cb_state r = CB_APPLIED" "w' = w"
      "x = Inr \<lparr>cr_provider_event_id = callback_event_id ct n, cr_rtt_id = Some (sb_rtt_id sb),
                cr_disposition = ''ALREADY_APPLIED'', cr_duplicate = True\<rparr>"
  | (applied) h r duplicate s a y w2 where
      "payload_digest (normalized_payload n) = Inr h"
      "ingest mpesa_provider (callback_event_id ct n) h (normalized_payload n) True t (cw_inbox w) = (Inr (r, duplicate), s)"
      "require_attempt (sb_rtt_id sb) (cw_execs w) = Inr a"
      "apply_callback P ks contracts cp ct sb n (callback_event_id ct n) a t (w\<lparr>cw_inbox := s\<rparr>) = (y, w2)"
      "cw_execs w' = cw_execs w2" "cw_settle w' = cw_settle w2"
      "\<And>e. y = Inl e \<Longrightarrow> w' = w2 \<and> x = Inl e"
      "\<And>d. y = Inr d \<Longrightarrow> \<exists>q s2. mark_applied mpesa_provider (callback_event_id ct n) t (cw_inbox w2) = (Inr q, s2)
         \<and> w' = w2\<lparr>cw_inbox := s2\<rparr> \<and> x = Inr \<lparr>cr_provider_event_id = callback_event_id ct n, cr_rtt_id = Some (sb_rtt_id sb),
                 cr_disposition = d, cr_duplicate = duplicate\<rparr>"
proof (cases "payload_digest (normalized_payload n)")
  case (Inl e)
  then show thesis using assms unchanged by (auto simp: accept_callback_def Let_def sbind_def slift_def)
next
  case (Inr h)
  note h = Inr
  let ?ev = "callback_event_id ct n"
  obtain z s where i: "ingest mpesa_provider ?ev h (normalized_payload n) True t (cw_inbox w) = (z, s)" by fastforce
  show thesis
  proof (cases z)
    case (Inl e)
    then show thesis using assms unchanged h i by (auto simp: accept_callback_def Let_def sbind_def slift_def on_inbox_def)
  next
    case (Inr rd)
    then obtain r duplicate where rd: "z = Inr (r, duplicate)" by (cases rd) simp
    note i = i [unfolded rd]
    show thesis
    proof (cases "cb_state r")
      case CB_APPLIED
      then have d: "duplicate" using ingest_Inr(3) [OF i] by auto
      then have s: "s = cw_inbox w" by (rule ingest_Inr(4) [OF i])
      then have k: "dict_get (cw_inbox w) (mpesa_provider, ?ev) = Some r" using ingest_Inr(1) [OF i] by simp
      have "w' = w" "x = Inr \<lparr>cr_provider_event_id = ?ev, cr_rtt_id = Some (sb_rtt_id sb),
          cr_disposition = ''ALREADY_APPLIED'', cr_duplicate = True\<rparr>"
        using assms i CB_APPLIED h s by (simp_all add: accept_callback_def Let_def sbind_def slift_def on_inbox_def sret_def)
      then show thesis by (rule replay [OF h k ingest_Inr(2) [OF i] CB_APPLIED])
    next
      case CB_RECEIVED
      note start = assms [unfolded accept_callback_def Let_def sbind_def slift_def on_inbox_def sget_def, simplified h i prod.case sum.case CB_RECEIVED]
      show thesis
      proof (cases "require_attempt (sb_rtt_id sb) (cw_execs w)")
        case (Inl e)
        then show thesis using start unchanged by auto
      next
        case (Inr a)
        obtain y w2 where y: "apply_callback P ks contracts cp ct sb n ?ev a t (w\<lparr>cw_inbox := s\<rparr>) = (y, w2)" by fastforce
        have k: "dict_get (cw_inbox w2) (mpesa_provider, ?ev) = Some r"
          using apply_callback_inbox [OF y] ingest_Inr(1) [OF i] by simp
        obtain q s2 where m: "mark_applied mpesa_provider ?ev t (cw_inbox w2) = (Inr q, s2)"
          using mark_applied_ok [OF k, of t] by blast
        show thesis
          using start Inr y m by (intro applied [OF h i Inr y]) (auto simp: sret_def split: sum.splits)
      qed
    qed
  qed
qed

lemma verify_ingress_True:
  assumes "verify_ingress get raw sig = Inr True"
  obtains secret where "get = Inr secret" "lower (strip (remove_prefix ''sha256='' sig)) = hmac_sha256_hex secret raw"
  using assms by (auto simp: verify_ingress_def compare_digest_def Let_def rbind_eq_Inr split: if_splits)

lemma process_cases:
  assumes "process P ks contracts ops cp ct raw sig at w = (x, w')"
  obtains (dropped) "cw_execs w' = cw_execs w" "cw_settle w' = cw_settle w" "\<And>r. x \<noteq> Inr r"
  | (accepted) t n sb where "at = Aware t" "length raw \<le> 65536" "verify_ingress (cp_get_secret cp) raw sig = Inr True"
      "normalize raw = Inr n" "correlate ops ct n = Inr sb" "accept_callback P ks contracts cp ct sb n t w = (x, w')"
  using assms unfolding process_def reject_callback_def
  by (elim sbindE)
     (auto simp: slift_eq sbind_def slift_def on_inbox_def require_aware_def guard_res_def split: datetime.splits if_splits sum.splits prod.splits)

lemma process_accepted:
  assumes "length raw \<le> 65536" "verify_ingress (cp_get_secret cp) raw sig = Inr True"
      "normalize raw = Inr n" "correlate ops ct n = Inr sb"
  shows "process P ks contracts ops cp ct raw sig (Aware t) w = accept_callback P ks contracts cp ct sb n t w"
  using assms by (simp add: process_def sbind_def slift_def guard_res_def)

lemma accept_replay:
  assumes "payload_digest (normalized_payload n) = Inr h" "dict_get (cw_inbox w) (mpesa_provider, callback_event_id ct n) = Some r"
    "cb_payload_sha256 r = h" "cb_state r = CB_APPLIED"
  shows "accept_callback P ks contracts cp ct sb n t w = (Inr \<lparr>cr_provider_event_id = callback_event_id ct n,
    cr_rtt_id = Some (sb_rtt_id sb), cr_disposition = ''ALREADY_APPLIED'', cr_duplicate = True\<rparr>, w)"
  using assms ingest_known [OF assms(2)]
  by (simp add: accept_callback_def Let_def sbind_def slift_def sret_def on_inbox_def)

lemma correlateD:
  assumes "correlate ops ct n = Inr sb"
  shows "find_by_external_reference ''MPESA-KE'' (mp_conversation_id n) ops = Some sb"
    "dict_get (submission_context sb) ''originator_conversation_id'' = Some (mp_originator_conversation_id n)"
    "ct = RESULT_CB \<and> mp_result_code n = 0 \<Longrightarrow> verify_success_evidence n (submission_context sb) = Inr ()"
  using assms by (auto simp: correlate_def Let_def mpesa_provider_def rbind_eq_Inr split: option.splits if_splits)

lemma evidence_iff:
  "verify_success_evidence n context = Inr () \<longleftrightarrow>
     (\<exists>txn expected amount. mp_transaction_id n = Some txn \<and> txn \<noteq> [] \<and> dict_get context ''amount_minor'' = Some expected
        \<and> digits_only expected \<and> callback_amount n = Some amount \<and> amount * 100 = int (value_of_digits expected)
        \<and> dict_get (mp_parameters n) ''TransactionReceipt'' \<in> {None, Some (PyStr txn)})"
  by (auto simp: verify_success_evidence_def split: option.splits if_splits)

section \<open>Failures finalize nothing\<close>

lemma transition_keeps_finalized:
  assumes "commit_transition n p' a' s = (res, s')" "pl_status p' \<noteq> PLAN_FINALIZED"
    and "dict_get (ex_plans s') k = Some q" "pl_status q = PLAN_FINALIZED"
  shows "dict_get (ex_plans s) k = Some q"
proof (cases res)
  case (Inl e)
  then show ?thesis using assms commit_transition_Inl by metis
next
  case (Inr u)
  then obtain current where "s' = put_attempt_plan a' p' s" using assms(1) by (auto elim: commit_transition_Inr)
  then show ?thesis using assms(2-4) by (auto simp: put_attempt_plan_def split: if_splits)
qed

lemma failure_keeps_finalized:
  assumes "record_failure r code d cost at s = (x, s')" "dict_get (ex_plans s') k = Some q" "pl_status q = PLAN_FINALIZED"
  shows "dict_get (ex_plans s) k = Some q"
  using assms(1)
proof (cases rule: record_failure_effect)
  case (2 a p p' a' t res)
  have "pl_status p' \<noteq> PLAN_FINALIZED"
    using 2(4) by (auto simp: failed_pair_def failure_outcome_def retry_status_def split: failure_disposition.splits)
  from transition_keeps_finalized [OF 2(7) this assms(2,3)] show ?thesis .
qed (use assms in simp)

lemma resolve_failure_keeps_finalized:
  assumes "resolve_reconciliation r False cost code d at s = (x, s')" "dict_get (ex_plans s') k = Some q" "pl_status q = PLAN_FINALIZED"
  shows "dict_get (ex_plans s) k = Some q"
  using assms(1)
proof (cases rule: resolve_effect)
  case (2 a p p' a' t res)
  have "pl_status p' \<noteq> PLAN_FINALIZED"
    using 2(6) by (auto simp: resolved_def Let_def rbind_eq_Inr retry_status_def split: if_splits)
  from transition_keeps_finalized [OF 2(9) this assms(2,3)] show ?thesis .
qed (use assms in simp)

lemma apply_callback_finalizes:
  assumes "apply_callback P ks contracts cp ct sb n ev a t w = (x, w')"
    and "dict_get (ex_plans (cw_execs w')) k = Some q" "pl_status q = PLAN_FINALIZED" "dict_get (ex_plans (cw_execs w)) k \<noteq> Some q"
  shows "ct = RESULT_CB \<and> mp_result_code n = 0"
proof (rule ccontr)
  assume "\<not> (ct = RESULT_CB \<and> mp_result_code n = 0)"
  then consider "apply_timeout a t w = (x, w')" | "apply_failure cp n a t w = (x, w')"
    using assms(1) unfolding apply_callback_def by (cases ct) (auto split: if_splits)
  then show False
    using assms(2-4) failure_keeps_finalized resolve_failure_keeps_finalized
    by cases (auto elim!: apply_timeout_cases apply_failure_cases)
qed

lemma settled_attemptD:
  assumes "settled_attempt execs u = Inr att"
  shows "\<exists>p. require_plan_for_utt u execs = Inr p \<and> pl_status p = PLAN_FINALIZED"
  using assms unfolding settled_attempt_def by (elim rbind_InrE) (auto simp: guard_res_eq_Inr)

lemma confirm_changes:
  assumes "confirm_provider_settlement P ks contracts execs svc c at s = (z, s')" "s' \<noteq> s"
  shows "\<exists>p. require_plan_for_utt (sc_utt_id c) execs = Inr p \<and> pl_status p = PLAN_FINALIZED"
proof -
  obtain x where "settlement_for P ks contracts execs svc c at = Inr x"
    using assms by (auto simp: confirm_provider_settlement_def sbind_def slift_def split: sum.splits)
  then obtain att where "settled_attempt execs (sc_utt_id c) = Inr att"
    unfolding settlement_for_def Let_def by (elim rbind_InrE) auto
  then show ?thesis by (rule settled_attemptD)
qed

section \<open>Progress\<close>

lemma dict_set_items: "(k', v') \<in> set (dict_set k v d) \<Longrightarrow> (k', v') = (k, v) \<or> (k', v') \<in> set d"
  by (induction d) (auto split: if_splits)

lemma allowed_parameter_plain:
  assumes "allowed_parameter r item = Inr r'" "\<forall>(k, v)\<in>set r. plain v"
  shows "\<forall>(k, v)\<in>set r'. plain v"
  using assms by (auto simp: allowed_parameter_def split: pyval.splits if_splits dest!: dict_set_items)

lemma allowed_loop_plain: "allowed_loop r items = Inr r' \<Longrightarrow> \<forall>(k, v)\<in>set r. plain v \<Longrightarrow> \<forall>(k, v)\<in>set r'. plain v"
proof (induction items arbitrary: r)
  case (Cons i items)
  then obtain q where "allowed_parameter r i = Inr q" "allowed_loop q items = Inr r'" by (auto simp: rbind_eq_Inr)
  then show ?case using Cons.IH allowed_parameter_plain Cons.prems(2) by blast
qed simp

lemma allowed_parameters_plain: "allowed_parameters v = Inr r \<Longrightarrow> \<forall>(k, v)\<in>set r. plain v"
  using allowed_loop_plain [of "[]"] by (auto simp: allowed_parameters_def split: pyval.splits option.splits)

lemma normalize_digest:
  assumes "normalize raw = Inr n"
  shows "\<exists>h. payload_digest (normalized_payload n) = Inr h"
proof -
  obtain v where v: "(case v of PyDict _ \<Rightarrow> normalize_result v
      | _ \<Rightarrow> Inl (Raise ValueError ''M-PESA Result must be an object'')) = Inr n"
    using assms by (auto simp: normalize_def rbind_eq_Inr)
  then have "normalize_result v = Inr n" by (cases v) simp_all
  then obtain u where "allowed_parameters u = Inr (mp_parameters n)"
    unfolding normalize_result_def by (elim rbind_InrE) auto
  then have "plain (obj (mp_parameters n))" using allowed_parameters_plain by (simp add: plain_obj)
  moreover have "plain (opt_str x)" for x by (cases x) (simp_all add: opt_str_def)
  ultimately have "plain (normalized_payload n)" unfolding normalized_payload_def by (subst plain_obj) simp
  then show ?thesis by (simp add: payload_digest_def canonical_plain)
qed

lemma apply_success_rtt_ok:
  assumes inv: "exec_inv (cw_execs w)" and a: "dict_get (ex_attempts (cw_execs w)) r = Some a"
    and st: "at_state a \<in> {ATT_CREATED, ATT_RECONCILIATION_REQUIRED}"
  shows "\<exists>s p. apply_success_rtt a t w = (Inr (), w\<lparr>cw_execs := s\<rparr>) \<and> dict_get (ex_plans s) (at_plan_id a) = Some p
    \<and> pl_status p = PLAN_FINALIZED"
proof -
  have r: "at_rtt_id a = r" using exec_inv_attempt(1) [OF inv a] .
  from st consider (created) "at_state a = ATT_CREATED" | (unknown) "at_state a = ATT_RECONCILIATION_REQUIRED" by blast
  then show ?thesis
  proof cases
    case created
    obtain p s where "record_success r 0 (Aware t) (cw_execs w) = (Inr p, s)" "pl_status p = PLAN_FINALIZED"
      "dict_get (ex_plans s) (at_plan_id a) = Some p" using record_success_ok [OF inv a created, of 0 t] by auto
    then show ?thesis using created r
      by (intro exI [of _ s] exI [of _ p]) (simp add: apply_success_rtt_def sbind_def on_execs_def sret_def)
  next
    case unknown
    obtain p where "dict_get (ex_plans (cw_execs w)) (at_plan_id a) = Some p" "pl_current_rtt_id p = Some r"
      "pl_status p = PLAN_RECONCILIATION_REQUIRED" using inv a unknown by (rule reconciling_current)
    then obtain p' s where "resolve_reconciliation r True 0 None DISP_TERMINAL (Aware t) (cw_execs w) = (Inr p', s)"
      "dict_get (ex_plans s) (at_plan_id a) = Some p'" "pl_status p' = PLAN_FINALIZED"
      using resolve_ok [OF inv, where k = "at_plan_id a" and p = p and r = r and cost = 0 and ok = True and code = None and d = DISP_TERMINAL and t = t] by auto
    then show ?thesis using unknown r
      by (intro exI [of _ s] exI [of _ p']) (simp add: apply_success_rtt_def sbind_def on_execs_def sret_def)
  qed
qed

definition awaiting :: "callback_inbox \<Rightarrow> callback_type \<Rightarrow> mpesa_result \<Rightarrow> bool" where
  \<comment> \<open>the event is not on record, or it is recorded with this content and was not applied\<close>
  "awaiting s ct n \<longleftrightarrow> (\<forall>r. dict_get s (mpesa_provider, callback_event_id ct n) = Some r \<longrightarrow>
     cb_state r = CB_RECEIVED \<and> payload_digest (normalized_payload n) = Inr (cb_payload_sha256 r))"

lemma ingest_awaiting:
  assumes "awaiting s ct n" "payload_digest (normalized_payload n) = Inr h"
  obtains r s' where "ingest mpesa_provider (callback_event_id ct n) h v True t s =
      (Inr (r, dict_has s (mpesa_provider, callback_event_id ct n)), s')" "cb_state r = CB_RECEIVED"
proof (cases "dict_get s (mpesa_provider, callback_event_id ct n)")
  case None
  then show thesis by (intro that, simp add: ingest_def Let_def, simp)
next
  case (Some r)
  then have "cb_state r = CB_RECEIVED" "cb_payload_sha256 r = h" using assms by (simp_all add: awaiting_def)
  then show thesis using ingest_known [OF Some, of v True t] Some by (intro that) auto
qed

lemma success_run:
  assumes "exec_reach P empty_execution_store (cw_execs w)" "length raw \<le> 65536"
    and "verify_ingress (cp_get_secret cp) raw sig = Inr True" "normalize raw = Inr n" "correlate ops RESULT_CB n = Inr sb"
    and "mp_result_code n = 0" "awaiting (cw_inbox w) RESULT_CB n"
    and "dict_get (ex_attempts (cw_execs w)) (sb_rtt_id sb) = Some a" "at_state a \<in> {ATT_CREATED, ATT_RECONCILIATION_REQUIRED}"
  shows "\<exists>x w' p. process P ks contracts ops cp RESULT_CB raw sig (Aware t) w = (x, w')
    \<and> dict_get (ex_plans (cw_execs w')) (at_plan_id a) = Some p \<and> pl_status p = PLAN_FINALIZED
    \<and> (cp_settlements cp = None \<longrightarrow> x = Inr \<lparr>cr_provider_event_id = ''MPESA-RESULT-'' @ mp_conversation_id n,
         cr_rtt_id = Some (sb_rtt_id sb), cr_disposition = ''CONFIRMED_SUCCESS'',
         cr_duplicate = dict_has (cw_inbox w) (mpesa_provider, callback_event_id RESULT_CB n)\<rparr>
       \<and> (\<exists>q. dict_get (cw_inbox w') (mpesa_provider, callback_event_id RESULT_CB n) = Some q \<and> cb_state q = CB_APPLIED))"
proof -
  let ?ev = "callback_event_id RESULT_CB n"
  obtain h where h: "payload_digest (normalized_payload n) = Inr h" using normalize_digest [OF assms(4)] by blast
  let ?dup = "dict_has (cw_inbox w) (mpesa_provider, ?ev)"
  obtain r s where i: "ingest mpesa_provider ?ev h (normalized_payload n) True t (cw_inbox w) = (Inr (r, ?dup), s)" "cb_state r = CB_RECEIVED"
    using assms(7) h by (rule ingest_awaiting)
  let ?w = "w\<lparr>cw_inbox := s\<rparr>"
  have inv: "exec_inv (cw_execs ?w)" using reachable_inv [OF assms(1)] by simp
  obtain e p where e: "apply_success_rtt a t ?w = (Inr (), ?w\<lparr>cw_execs := e\<rparr>)" "dict_get (ex_plans e) (at_plan_id a) = Some p"
    "pl_status p = PLAN_FINALIZED" using apply_success_rtt_ok [OF inv _ assms(9), of "sb_rtt_id sb" t] assms(8) by auto
  obtain x w' where x: "accept_callback P ks contracts cp RESULT_CB sb n t w = (x, w')" by fastforce
  obtain y w2 where y: "apply_callback P ks contracts cp RESULT_CB sb n ?ev a t ?w = (y, w2)" by fastforce
  have y': "apply_success P ks contracts cp sb n ?ev a t ?w = (y, w2)" using y assms(6) by (simp add: apply_callback_def)
  have ex: "cw_execs w2 = e" using e(1) by (rule_tac apply_success_split [OF y']) simp
  have at: "require_attempt (sb_rtt_id sb) (cw_execs w) = Inr a" using assms(8) by (simp add: require_attempt_def)
  have k: "dict_get (cw_inbox w2) (mpesa_provider, ?ev) = Some r" using apply_callback_inbox [OF y] ingest_Inr(1) [OF i(1)] by simp
  obtain q s2 where m: "mark_applied mpesa_provider ?ev t (cw_inbox w2) = (Inr q, s2)" "dict_get s2 (mpesa_provider, ?ev) = Some q"
    "cb_state q = CB_APPLIED" using mark_applied_ok [OF k, of t] by metis
  have run: "(x, w') = (case y of Inl e \<Rightarrow> (Inl e, w2) | Inr d \<Rightarrow> (Inr \<lparr>cr_provider_event_id = ?ev, cr_rtt_id = Some (sb_rtt_id sb),
       cr_disposition = d, cr_duplicate = ?dup\<rparr>, w2\<lparr>cw_inbox := s2\<rparr>))"
    unfolding x [symmetric] using h i at y m
    by (simp add: accept_callback_def Let_def sbind_def slift_def on_inbox_def sget_def sret_def split: sum.splits)
  have "cw_execs w' = e" using run ex by (cases y) auto
  moreover have "y = Inr ''CONFIRMED_SUCCESS''" if "cp_settlements cp = None"
    using y' e(1) that by (simp add: apply_success_def sbind_def sret_def)
  ultimately show ?thesis
    using run x e(2,3) m(2,3) process_accepted [OF assms(2-5), of P ks contracts t w]
    by (intro exI [of _ x] exI [of _ w'] exI [of _ p]) (auto simp: callback_event_id_def)
qed

section \<open>Properties\<close>

text \<open>
  C11. Replaying a callback changes nothing.  Once a callback has been processed, processing the same bytes with
  the same signature again, at any later time, reports \<^verbatim>\<open>ALREADY_APPLIED\<close> for the same event and RTT and leaves
  the inbox, the execution store and the settlement store as they are.\<close>

theorem callback_replay:
  assumes "process P ks contracts ops cp ct raw sig at w = (Inr r, w')"
  shows "process P ks contracts ops cp ct raw sig (Aware t) w' =
    (Inr (r\<lparr>cr_disposition := ''ALREADY_APPLIED'', cr_duplicate := True\<rparr>), w')"
  using assms
proof (cases rule: process_cases)
  case (accepted t0 n sb)
  note again = process_accepted [OF accepted(2-5), of P ks contracts t w']
  from accepted(6) show ?thesis
  proof (cases rule: accept_callback_cases)
    case (replay h q)
    then show ?thesis using again accept_replay [OF replay(1-4), of P ks contracts cp sb t] by simp
  next
    case (applied h q duplicate s a y w2)
    obtain d where y: "y = Inr d" using applied(7) by (cases y) auto
    then obtain q2 s2 where m: "mark_applied mpesa_provider (callback_event_id ct n) t0 (cw_inbox w2) = (Inr q2, s2)"
      and w': "w' = w2\<lparr>cw_inbox := s2\<rparr>" and r: "r = \<lparr>cr_provider_event_id = callback_event_id ct n,
        cr_rtt_id = Some (sb_rtt_id sb), cr_disposition = d, cr_duplicate = duplicate\<rparr>" using applied(8) by auto
    have k: "dict_get (cw_inbox w2) (mpesa_provider, callback_event_id ct n) = Some q"
      using apply_callback_inbox [OF applied(4)] ingest_Inr(1) [OF applied(2)] by simp
    from mark_applied_ok [OF k, of t0] m have "dict_get (cw_inbox w') (mpesa_provider, callback_event_id ct n) = Some q2"
      "cb_payload_sha256 q2 = h" "cb_state q2 = CB_APPLIED" using w' ingest_Inr(2) [OF applied(2)] by (metis (no_types, lifting) Inr_inject callback_world.select_convs(1) callback_world.surjective callback_world.update_convs(1) prod.inject)+
    from accept_replay [OF applied(1) this, of P ks contracts cp sb t] show ?thesis using again r by simp
  qed auto
qed auto

text \<open>
  C4. Only proven callbacks have effects.  If processing a callback changes the execution or the settlement
  store, its body carries the HMAC of the ingress secret and is a well-formed result for a recorded submission
  whose originator it names.  If the settlement store changes, or a plan is newly finalized, the callback is a
  result with code 0 whose transaction is named and whose amount is, in minor units, the one that was
  dispatched; and a settlement is written only for a UTT whose plan is finalized.\<close>

theorem callback_gated:
  assumes "process P ks contracts ops cp ct raw sig at w = (x, w')"
    and "cw_execs w' \<noteq> cw_execs w \<or> cw_settle w' \<noteq> cw_settle w"
  shows "\<exists>n sb secret. cp_get_secret cp = Inr secret \<and> lower (strip (remove_prefix ''sha256='' sig)) = hmac_sha256_hex secret raw
    \<and> normalize raw = Inr n \<and> find_by_external_reference ''MPESA-KE'' (mp_conversation_id n) ops = Some sb
    \<and> dict_get (submission_context sb) ''originator_conversation_id'' = Some (mp_originator_conversation_id n)
    \<and> (cw_settle w' \<noteq> cw_settle w \<or> (\<exists>k q. dict_get (ex_plans (cw_execs w')) k = Some q \<and> pl_status q = PLAN_FINALIZED
           \<and> dict_get (ex_plans (cw_execs w)) k \<noteq> Some q) \<longrightarrow>
         ct = RESULT_CB \<and> mp_result_code n = 0 \<and> (\<exists>txn expected amount. mp_transaction_id n = Some txn \<and> txn \<noteq> []
           \<and> callback_amount n = Some amount \<and> dict_get (submission_context sb) ''amount_minor'' = Some expected
           \<and> amount * 100 = int (value_of_digits expected)))
    \<and> (cw_settle w' \<noteq> cw_settle w \<longrightarrow>
         (\<exists>p. require_plan_for_utt (sb_utt_id sb) (cw_execs w') = Inr p \<and> pl_status p = PLAN_FINALIZED))"
  using assms(1)
proof (cases rule: process_cases)
  case dropped
  then show ?thesis using assms(2) by simp
next
  case (accepted t n sb)
  obtain secret where secret: "cp_get_secret cp = Inr secret" "lower (strip (remove_prefix ''sha256='' sig)) = hmac_sha256_hex secret raw"
    using accepted(3) by (rule verify_ingress_True)
  note co = correlateD [OF accepted(5)]
  from accepted(6) show ?thesis
  proof (cases rule: accept_callback_cases)
    case (applied h r duplicate s a y w2)
    have ch: "ct = RESULT_CB \<and> mp_result_code n = 0" if "cw_settle w' \<noteq> cw_settle w \<or> (\<exists>k q. dict_get (ex_plans (cw_execs w')) k = Some q
        \<and> pl_status q = PLAN_FINALIZED \<and> dict_get (ex_plans (cw_execs w)) k \<noteq> Some q)"
      using that apply_callback_settle [OF applied(4)] apply_callback_finalizes [OF applied(4)] applied(5,6) by auto
    have fin: "\<exists>p. require_plan_for_utt (sb_utt_id sb) (cw_execs w') = Inr p \<and> pl_status p = PLAN_FINALIZED" if new: "cw_settle w' \<noteq> cw_settle w"
    proof -
      obtain svc z where "confirm_provider_settlement P ks contracts (cw_execs w2) svc (confirm_claim sb n (callback_event_id ct n)) (Aware t)
          (cw_settle w) = (z, cw_settle w2)" using apply_callback_settle [OF applied(4)] new applied(6) by auto
      from confirm_changes [OF this] show ?thesis using new applied(5,6) by (simp add: confirm_claim_def)
    qed
    have ev: "\<exists>txn expected amount. mp_transaction_id n = Some txn \<and> txn \<noteq> [] \<and> callback_amount n = Some amount
        \<and> dict_get (submission_context sb) ''amount_minor'' = Some expected \<and> amount * 100 = int (value_of_digits expected)"
      if "ct = RESULT_CB \<and> mp_result_code n = 0" using co(3) [OF that] by (auto simp: evidence_iff)
    show ?thesis using secret accepted(4) co(1,2) ch fin ev by (intro exI [of _ n] exI [of _ sb] exI [of _ secret]) blast
  qed (use assms(2) in simp_all)
qed

text \<open>
  C12. Callbacks refine the execution machine.  From any reachable execution store, processing a callback, however
  it ends, leaves a reachable execution store: it performs at most one step of the execution machine.  A plan
  that was finalized, failed or exhausted before is not touched by it.\<close>

theorem callback_refines_execution:
  assumes "process P ks contracts ops cp ct raw sig at w = (x, w')" "exec_reach P empty_execution_store (cw_execs w)"
  shows "(cw_execs w' = cw_execs w \<or> exec_step P (cw_execs w) (cw_execs w')) \<and> exec_reach P empty_execution_store (cw_execs w')
    \<and> (\<forall>k p. dict_get (ex_plans (cw_execs w)) k = Some p \<and> settled p \<longrightarrow> dict_get (ex_plans (cw_execs w')) k = Some p)"
proof -
  note inv = reachable_inv [OF assms(2)]
  have step: "cw_execs w' = cw_execs w \<or> exec_step P (cw_execs w) (cw_execs w')"
    using assms(1)
  proof (cases rule: process_cases)
    case (accepted t n sb)
    from accepted(6) show ?thesis
    proof (cases rule: accept_callback_cases)
      case (applied h r duplicate s a y w2)
      have "strip (at_rtt_id a) = at_rtt_id a"
        using applied(3) exec_inv_attempt [OF inv] by (auto simp: require_attempt_def split: option.splits)
      then show ?thesis using apply_callback_step [OF applied(4)] applied(5) by simp
    qed simp_all
  qed simp
  then have "exec_reach P empty_execution_store (cw_execs w')" using reach_step [OF assms(2)] assms(2) by metis
  moreover have "dict_get (ex_plans (cw_execs w')) k = Some p" if "dict_get (ex_plans (cw_execs w)) k = Some p" "settled p" for k p
    using step step_untouched [OF inv that] that(1) by (auto simp: untouched_def)
  ultimately show ?thesis using step by blast
qed

text \<open>
  C35. A proven success finalizes the plan, and no received callback is lost.  Take an execution state reached by calls in which
  failures are reported under RTT identifiers without surrounding white space, and an authenticated result callback of at most 64 KiB
  with code 0 that correlates with a submission whose attempt is in flight or awaits reconciliation.  The inbox has no record of
  its event, or has received that event with the same content without applying it (an earlier delivery that failed half-way); a record with other
  content would be a refused conflict.  Then the call finalizes the attempt's plan, whatever the settlement service does afterwards;
  without a settlement service the callback is reported as a confirmed success, a duplicate exactly when the event was on record,
  and the record is marked as applied.\<close>

theorem callback_success_finalizes:
  assumes "exec_reach P empty_execution_store (cw_execs w)" "length raw \<le> 65536"
    and "verify_ingress (cp_get_secret cp) raw sig = Inr True" "normalize raw = Inr n" "correlate ops RESULT_CB n = Inr sb"
    and "mp_result_code n = 0" "awaiting (cw_inbox w) RESULT_CB n"
    and "dict_get (ex_attempts (cw_execs w)) (sb_rtt_id sb) = Some a" "at_state a \<in> {ATT_CREATED, ATT_RECONCILIATION_REQUIRED}"
  shows "\<exists>x w' p. process P ks contracts ops cp RESULT_CB raw sig (Aware t) w = (x, w')
    \<and> dict_get (ex_plans (cw_execs w')) (at_plan_id a) = Some p \<and> pl_status p = PLAN_FINALIZED
    \<and> (cp_settlements cp = None \<longrightarrow> x = Inr \<lparr>cr_provider_event_id = ''MPESA-RESULT-'' @ mp_conversation_id n,
         cr_rtt_id = Some (sb_rtt_id sb), cr_disposition = ''CONFIRMED_SUCCESS'',
         cr_duplicate = dict_has (cw_inbox w) (mpesa_provider, callback_event_id RESULT_CB n)\<rparr>
       \<and> (\<exists>q. dict_get (cw_inbox w') (mpesa_provider, callback_event_id RESULT_CB n) = Some q \<and> cb_state q = CB_APPLIED))"
  using assms by (rule success_run)

end
