(* ===== verification/Sandbox_Callback.thy ===== *)
theory Sandbox_Callback
  imports Sandbox_Broker Callback_Properties
begin

text \<open>
  The sandbox and the callback boundary together: what the simulated provider promises when it accepts a
  request, what its scheduled effect later says, and what the callback processor makes of that effect.
\<close>

section \<open>Fields of a value that was encoded and read back\<close>

lemma map_of_insort: "map_of (insort_key fst x xs) k = map_of (x # xs) k"
  by (induction xs) (auto simp: fun_eq_iff)

lemma map_of_sort: "map_of (sort_key fst xs) k = map_of xs k"
  by (induction xs) (auto simp: map_of_insort)

definition reread :: "pyval \<Rightarrow> pyval" where
  \<comment> \<open>a value after encoding and reading back\<close>
  "reread v = from_json (canon v)"

lemma reread_simps [simp]:
  "reread (PyStr s) = PyStr s" "reread (PyInt n) = PyInt n" "reread PyNone = PyNone"
  "reread (PyList vs) = PyList (map reread vs)"
proof -
  have "from_json_seq (canon_seq vs) = map reread vs" by (induction vs) (auto simp: reread_def)
  then show "reread (PyList vs) = PyList (map reread vs)" by (simp add: reread_def)
qed (simp_all add: reread_def)

lemma from_json_items_map: "from_json_items xs = map (\<lambda>(k, j). (PyStr k, from_json j)) xs"
  by (induction xs) auto

lemma map_of_text_keys: "map_of (map (\<lambda>(k, j). (PyStr k, f j)) xs) (PyStr k) = map_option f (map_of xs k)"
  by (induction xs) auto

lemma reread_obj: "\<exists>kvs'. reread (obj kvs) = PyDict kvs'" "pget (reread (obj kvs)) k = map_option reread (map_of kvs k)"
proof -
  have c: "canon (obj kvs) = JObj (sort_key fst (map (\<lambda>(k, v). (k, canon v)) kvs))"
  proof -
    have "canon_items (map (\<lambda>(k, v). (PyStr k, v)) kvs) = map (\<lambda>(k, v). (k, canon v)) kvs" by (induction kvs) auto
    then show ?thesis by (simp add: obj_def)
  qed
  then show "\<exists>kvs'. reread (obj kvs) = PyDict kvs'" by (simp add: reread_def)
  have m: "map_of (map (\<lambda>(k, v). (k, canon v)) kvs) k = map_option canon (map_of kvs k)" by (induction kvs) auto
  show "pget (reread (obj kvs)) k = map_option reread (map_of kvs k)"
    unfolding reread_def c from_json.simps pget_def pyval.case from_json_items_map map_of_text_keys map_of_sort m
    by (simp add: option.map_comp comp_def reread_def)
qed

lemma reread_get: "py_get (reread (obj kvs)) k = (case map_of kvs k of None \<Rightarrow> PyNone | Some v \<Rightarrow> reread v)"
  by (simp add: py_get_def reread_obj(2) split: option.splits)

lemma reread_item: "map_of kvs k = Some v \<Longrightarrow> py_item (reread (obj kvs)) k = Inr (reread v)"
  using reread_obj(2) [of kvs k] by (simp add: py_item_Inr)

lemma loads_dumps:
  assumes "plain v" "unique_keys v" "materialize v = v" "json_dumps v = Some b"
  shows "json_loads b = Inr (reread v)"
proof -
  have "canonical_json_bytes v = Inr b" using assms by (simp add: canonical_json_bytes_def validate_iff_plain(1) [THEN iffD2])
  then show ?thesis using loads_canonical assms(2) by (simp add: reread_def)
qed

section \<open>A simulated settlement\<close>

definition settled_result :: "int \<Rightarrow> string \<Rightarrow> string \<Rightarrow> string \<Rightarrow> mpesa_result" where
  "settled_result amount external originator txn =
     \<lparr>mp_conversation_id = external, mp_originator_conversation_id = originator, mp_transaction_id = Some txn, mp_result_code = 0,
      mp_result_description = ''Simulated settlement'',
      mp_parameters = [(''TransactionAmount'', PyInt (amount div 100)), (''TransactionReceipt'', PyStr txn)]\<rparr>"

lemma settled_parameters:
  "allowed_parameters (reread (obj [(''ResultParameter'', PyList
      [obj [(''Key'', PyStr ''TransactionAmount''), (''Value'', PyInt a)], obj [(''Key'', PyStr ''TransactionReceipt''), (''Value'', PyStr txn)]])]))
   = Inr [(''TransactionAmount'', PyInt a), (''TransactionReceipt'', PyStr txn)]"
proof -
  have item: "allowed_parameter r (reread (obj [(''Key'', PyStr key), (''Value'', v)])) = Inr (dict_set key v r)"
    if "key = ''TransactionAmount'' \<or> key = ''TransactionReceipt''" "(\<exists>n. v = PyInt n) \<or> (\<exists>s. v = PyStr s)" for r key v
  proof -
    obtain kvs where kvs: "reread (obj [(''Key'', PyStr key), (''Value'', v)]) = PyDict kvs" using reread_obj(1) by blast
    have g: "py_get (PyDict kvs) ''Key'' = PyStr key" "py_get (PyDict kvs) ''Value'' = v"
      unfolding kvs [symmetric] reread_get using that(2) by auto
    show ?thesis unfolding kvs using that g by (auto simp: allowed_parameter_def)
  qed
  let ?ps = "[(''ResultParameter'', PyList
      [obj [(''Key'', PyStr ''TransactionAmount''), (''Value'', PyInt a)], obj [(''Key'', PyStr ''TransactionReceipt''), (''Value'', PyStr txn)]])]"
  obtain kvs where kvs: "reread (obj ?ps) = PyDict kvs" using reread_obj(1) by blast
  have "pget (PyDict kvs) ''ResultParameter'' = Some (PyList
      [reread (obj [(''Key'', PyStr ''TransactionAmount''), (''Value'', PyInt a)]), reread (obj [(''Key'', PyStr ''TransactionReceipt''), (''Value'', PyStr txn)])])"
    unfolding kvs [symmetric] reread_obj(2) by simp
  then show ?thesis unfolding kvs by (simp add: allowed_parameters_def item)
qed

lemma effect_for_payload:
  assumes "effect_payload q external originator ty (short_hash ''SIMTX-'' 20 (external @ '':'' @ ty)) = Inr p"
    and "effect_for q external originator ty k tick = Inr e"
  shows "json_dumps p = Some (ef_payload (er_effect e))"
  using assms by (cases "json_dumps p") (auto simp: effect_for_def Let_def rbind_eq_Inr)

lemma settled_normalizes:
  assumes q: "pr_provider_id q = ''MPESA-KE''" "pr_amount_minor q = PyInt amount"
    and e: "effect_for q external originator ''SETTLED'' k tick = Inr e"
    and l: "external \<noteq> []" "length external \<le> 128" "originator \<noteq> []" "length originator \<le> 128"
  shows "normalize (ef_payload (er_effect e)) =
    Inr (settled_result amount external originator (short_hash ''SIMTX-'' 20 (external @ '':SETTLED'')))"
proof -
  let ?txn = "short_hash ''SIMTX-'' 20 (external @ '':SETTLED'')"
  let ?ps = "obj [(''ResultParameter'', PyList
      [obj [(''Key'', PyStr ''TransactionAmount''), (''Value'', PyInt (amount div 100))], obj [(''Key'', PyStr ''TransactionReceipt''), (''Value'', PyStr ?txn)]])]"
  let ?r = "[(''ResultType'', PyInt 0), (''ResultCode'', PyInt 0), (''ResultDesc'', PyStr ''Simulated settlement''),
           (''OriginatorConversationID'', PyStr originator), (''ConversationID'', PyStr external), (''TransactionID'', PyStr ?txn),
           (''ResultParameters'', ?ps)]"
  let ?p = "obj [(''Result'', obj ?r)]"
  have p: "effect_payload q external originator ''SETTLED'' (short_hash ''SIMTX-'' 20 (external @ '':'' @ ''SETTLED'')) = Inr ?p"
    using q by (simp add: effect_payload_def Let_def int_operand_def)
  have d: "json_dumps ?p = Some (ef_payload (er_effect e))"
    using e effect_for_payload [OF p] by blast
  have "plain ?p" by (simp add: plain_obj)
  moreover have "unique_keys ?p" "materialize ?p = ?p" by (simp_all add: obj_def)
  ultimately have loads: "json_loads (ef_payload (er_effect e)) = Inr (reread ?p)" using d by (rule loads_dumps)
  obtain kvs where kvs: "reread (obj ?r) = PyDict kvs" using reread_obj(1) by blast
  have env: "envelope_result (ef_payload (er_effect e)) = Inr (PyDict kvs)"
    using reread_item [of "[(''Result'', obj ?r)]" "''Result''"] by (simp add: envelope_result_def loads kvs)
  have txn: "length ?txn \<le> 128" by (simp add: short_hash_def)
  have g: "py_get (PyDict kvs) ''ConversationID'' = PyStr external" "py_get (PyDict kvs) ''OriginatorConversationID'' = PyStr originator"
    "py_get (PyDict kvs) ''TransactionID'' = PyStr ?txn" "py_get (PyDict kvs) ''ResultCode'' = PyInt 0"
    "pget (PyDict kvs) ''ResultDesc'' = Some (PyStr ''Simulated settlement'')" "py_get (PyDict kvs) ''ResultParameters'' = reread ?ps"
    unfolding kvs [symmetric] reread_get reread_obj(2) by simp_all
  show ?thesis
    unfolding normalize_def env rbind_Inr pyval.case normalize_result_def callback_text_def g settled_parameters transaction_text_def
    using l txn by (simp add: settled_result_def)
qed

lemma effect_for_ok:
  assumes q: "pr_provider_id q = ''MPESA-KE''" "pr_amount_minor q = PyInt amount"
  shows "\<exists>e. effect_for q external originator ''SETTLED'' k tick = Inr e"
proof -
  obtain p where p: "effect_payload q external originator ''SETTLED'' (short_hash ''SIMTX-'' 20 (external @ '':'' @ ''SETTLED'')) = Inr p"
    "plain p" using q by (simp add: effect_payload_def Let_def int_operand_def plain_obj)
  obtain b where b: "json_dumps p = Some b" using plain_dumps(1) [OF p(2)] by blast
  let ?m = "obj [(''provider'', PyStr (pr_provider_id q)), (''rtt_id'', PyStr (pr_rtt_id q)),
               (''effect'', PyStr ''SETTLED''), (''offset'', PyInt k)]"
  have "plain ?m" by (simp add: plain_obj)
  then obtain h where "payload_digest ?m = Inr h" by (simp add: payload_digest_def canonical_plain)
  then show ?thesis using p(1) b by (simp add: effect_for_def Let_def)
qed

lemma settled_evidence:
  assumes "digits_only expected" "value_of_digits expected = m" "txn \<noteq> []"
  shows "verify_success_evidence (settled_result amount external originator txn)
      [(''originator_conversation_id'', originator), (''amount_minor'', expected)] = Inr () \<longleftrightarrow> amount div 100 * 100 = int m"
proof -
  let ?n = "settled_result amount external originator txn"
  have f: "mp_transaction_id ?n = Some txn" "callback_amount ?n = Some (amount div 100)"
    "dict_get (mp_parameters ?n) ''TransactionReceipt'' = Some (PyStr txn)"
    by (simp_all add: settled_result_def callback_amount_def)
  show ?thesis unfolding evidence_iff f using assms by auto
qed

section \<open>Properties\<close>

text \<open>
  The simulated provider agrees with the callback boundary, for whole amounts.  The settlement effect of an
  accepted M-PESA request reads back as a success for the accepted reference and originator.  The evidence
  check accepts it exactly when the amount is a whole number of currency units: the effect reports the amount
  divided by 100 and rounded down, so a settlement of any other amount is refused.\<close>

theorem sandbox_settlement_evidence:
  assumes "pr_provider_id q = ''MPESA-KE''" "pr_amount_minor q = PyInt amount" "0 \<le> amount"
    and "accepted_result q external originator = Inr v" "effect_for q external originator ''SETTLED'' k tick = Inr e"
    and "external \<noteq> []" "length external \<le> 128" "originator \<noteq> []" "length originator \<le> 128"
  shows "\<exists>n. normalize (ef_payload (er_effect e)) = Inr n \<and> sv_external_reference v = Some (mp_conversation_id n)
    \<and> mp_result_code n = 0
    \<and> dict_get (sv_provider_context v) ''originator_conversation_id'' = Some (mp_originator_conversation_id n)
    \<and> (verify_success_evidence n (sv_provider_context v) = Inr () \<longleftrightarrow> amount mod 100 = 0)"
proof -
  let ?txn = "short_hash ''SIMTX-'' 20 (external @ '':SETTLED'')"
  have v: "sv_external_reference v = Some external"
    "sv_provider_context v = [(''originator_conversation_id'', originator), (''amount_minor'', show_int amount)]"
    using assms(2,4) by (auto simp: accepted_result_def py_str_def)
  have "digits_only (show_int amount)" "value_of_digits (show_int amount) = nat amount"
    using assms(3) show_nat_digits by (simp_all add: show_int_def digits_only_def)
  moreover have "?txn \<noteq> []" by (simp add: short_hash_def)
  ultimately have "verify_success_evidence (settled_result amount external originator ?txn) (sv_provider_context v) = Inr ()
      \<longleftrightarrow> amount div 100 * 100 = int (nat amount)"
    unfolding v by (intro settled_evidence)
  also have "\<dots> \<longleftrightarrow> amount mod 100 = 0" using assms(3) div_mult_mod_eq [of amount 100] by linarith
  finally show ?thesis
    using settled_normalizes [OF assms(1,2,5-9)] v by (auto simp: settled_result_def)
qed

definition mpesa_request :: provider_request where
  "mpesa_request = demo_sandbox_request\<lparr>pr_provider_id := ''MPESA-KE'', pr_amount_minor := PyInt 550\<rparr>"

theorem sandbox_settlement_evidence_witness:
  "\<exists>e n v. accepted_result mpesa_request ''SIMREF-1'' ''SIMORG-1'' = Inr v
     \<and> effect_for mpesa_request ''SIMREF-1'' ''SIMORG-1'' ''SETTLED'' 1 0 = Inr e
     \<and> normalize (ef_payload (er_effect e)) = Inr n \<and> verify_success_evidence n (sv_provider_context v) \<noteq> Inr ()"
proof -
  have q: "pr_provider_id mpesa_request = ''MPESA-KE''" "pr_amount_minor mpesa_request = PyInt 550"
    by (simp_all add: mpesa_request_def)
  obtain v where v: "accepted_result mpesa_request ''SIMREF-1'' ''SIMORG-1'' = Inr v"
    using q by (simp add: accepted_result_def py_str_def)
  obtain e where e: "effect_for mpesa_request ''SIMREF-1'' ''SIMORG-1'' ''SETTLED'' 1 0 = Inr e"
    using effect_for_ok [OF q] by blast
  from sandbox_settlement_evidence [OF q _ v e] v e show ?thesis by (fastforce simp:)
qed

end
