(* ===== verification/Notifications_Run.thy ===== *)
theory Notifications_Run
  imports Notifications Acceptance
begin

text \<open>
  A settlement that is confirmed, and a notification that is delivered: the hypotheses of the notification
  properties are met by concrete runs.
\<close>

section \<open>A confirmed settlement\<close>

definition settle_keys :: key_provider where
  "settle_keys = \<lparr>kp_records = [(''ke'', demo_key ''ke'' EXECUTION_SIGNING), (''ks'', demo_key ''ks'' SETTLEMENT_SIGNING)],
     kp_private_keys = [(''ke'', ''se''), (''ks'', ''ss'')]\<rparr>"

lemma settle_keys_inv: "kp_inv demo_platform settle_keys"
  by (auto simp: kp_defs settle_keys_def demo_key_def from_epoch_def split: if_splits)

lemma settle_can_sign:
  "can_sign demo_platform settle_keys ''ke'' EXECUTION_SIGNING (from_epoch 10)"
  "can_sign demo_platform settle_keys ''ks'' SETTLEMENT_SIGNING (from_epoch 20)"
  by (simp_all add: can_sign_def permits_signing_at_def from_epoch_def settle_keys_def demo_key_def get_key_record_def)

definition settle_terms :: pyval where
  "settle_terms = obj [(''amount_minor'', PyInt 123450), (''currency_from'', PyStr ''KES''), (''currency_to'', PyStr ''KES''),
     (''receive_amount_minor'', PyInt 122450), (''total_fee_minor'', PyInt 1000),
     (''payer'', demo_actor ''alice'' ''Alice'' ''BD'' DEBIT), (''beneficiary'', demo_actor ''bob'' ''Bob'' ''BC'' CREDIT)]"

definition settle_plan :: execution_plan where
  "settle_plan = \<lparr>pl_plan_id = ''P'', pl_utt_id = ''U'', pl_ranked_routes = [], pl_remaining_route_ids = [], pl_failures = [],
     pl_attempts_used = 1, pl_max_attempts = 2, pl_routing_budget_minor = 0, pl_routing_cost_spent_minor = 0,
     pl_current_rtt_id = None, pl_previous_rtt_id = Some ''R'', pl_previous_route_id = None, pl_status = PLAN_FINALIZED,
     pl_successful_route_id = Some ''X'', pl_version = 3, pl_created_at = 0, pl_updated_at = 0\<rparr>"

definition settle_attempt :: rtt_attempt where
  "settle_attempt = \<lparr>at_rtt_id = ''R'', at_utt_id = ''U'', at_plan_id = ''P'', at_attempt_number = 1, at_route_id = ''X'',
     at_signed_rtt = mk_envelope PyNone PyNone '''', at_state = ATT_SUCCEEDED, at_failure_code = None, at_actual_cost_minor = Some 0,
     at_created_at = 0, at_updated_at = 0\<rparr>"

definition settle_execs :: execution_store where
  "settle_execs = \<lparr>ex_plans = [(''P'', settle_plan)], ex_plan_by_utt = [(''U'', ''P'')], ex_attempts = [(''R'', settle_attempt)]\<rparr>"

definition settle_service :: settlement_service where
  "settle_service = \<lparr>ts_settlement_signing_key_id = ''ks'', ts_utc_offset_minutes = 180, ts_timezone_label = ''EAT''\<rparr>"

definition settle_claim :: settlement_claim where
  "settle_claim = \<lparr>sc_utt_id = ''U'', sc_provider_id = ''MPESA-KE'', sc_provider_transaction_id = '' TX1 '', sc_callback_event_id = ''CB1''\<rparr>"

lemma settle_attempt_found: "settled_attempt settle_execs ''U'' = Inr settle_attempt"
  by code_simp

lemma build_notification_ok: "length body \<le> 320 \<Longrightarrow> \<exists>n. build_notification ev role cb body t = Inr n"
  using content_id_ok [of "obj [(''evidence_id'', PyStr (se_evidence_id ev)), (''recipient_role'', PyStr (recipient_role_value role)),
        (''channel'', PyStr ''SMS''), (''template_version'', PyStr template_version)]" "''SMS''"]
  by (auto simp: build_notification_def plain_obj)

lemma settle_items:
  defines "v \<equiv> freeze settle_terms"
  shows "py_item v ''payer'' = Inr (freeze (demo_actor ''alice'' ''Alice'' ''BD'' DEBIT))"
    "py_item v ''beneficiary'' = Inr (freeze (demo_actor ''bob'' ''Bob'' ''BC'' CREDIT))"
    "int_item v ''amount_minor'' = Inr 123450" "str_item v ''currency_from'' = Inr ''KES''"
    "int_item v ''total_fee_minor'' = Inr 1000" "int_item v ''receive_amount_minor'' = Inr 122450"
    "str_item v ''currency_to'' = Inr ''KES''"
    "py_item v ''amount_minor'' = Inr (PyInt 123450)" "py_item v ''currency_from'' = Inr (PyStr ''KES'')"
    "py_item v ''receive_amount_minor'' = Inr (PyInt 122450)" "py_item v ''currency_to'' = Inr (PyStr ''KES'')"
  unfolding v_def by code_simp+

definition settle_endpoint :: "string \<Rightarrow> account_role \<Rightarrow> pyval" where
  "settle_endpoint bid role = freeze (obj [(''institution_id'', PyStr ''BANK''), (''institution_display_name'', PyStr ''Bank''),
     (''account_binding_id'', PyStr bid), (''role'', PyStr (role_value role)), (''account_type'', PyStr ''BANK_ACCOUNT''),
     (''display_hint'', PyStr ''hint''), (''contact_binding_id'', PyStr ''contact''), (''attestation_reference'', PyStr ''att'')])"

lemma actor_items:
  defines "v \<equiv> freeze (demo_actor ''bob'' ''Bob'' ''BC'' CREDIT)" and "w \<equiv> freeze (demo_actor ''alice'' ''Alice'' ''BD'' DEBIT)"
  shows "text_item v ''display_name'' = Inr ''Bob''" "text_item w ''display_name'' = Inr ''Alice''"
    "py_item v ''endpoint'' = Inr (settle_endpoint ''BC'' CREDIT)" "py_item w ''endpoint'' = Inr (settle_endpoint ''BD'' DEBIT)"
  unfolding v_def w_def by code_simp+

lemma endpoint_items:
  "text_item (settle_endpoint ''BC'' CREDIT) ''institution_display_name'' = Inr ''Bank''"
  "text_item (settle_endpoint ''BC'' CREDIT) ''display_hint'' = Inr ''hint''"
  "str_item (settle_endpoint ''BC'' CREDIT) ''contact_binding_id'' = Inr ''contact''"
  "str_item (settle_endpoint ''BD'' DEBIT) ''contact_binding_id'' = Inr ''contact''"
  by code_simp+

lemma settle_time:
  "shift_minutes (from_epoch 20) 180 = Inr (from_epoch 10820)" "format_local (from_epoch 10820) = ''01 Jan 03:00''"
  "money 123450 ''KES'' = ''KES 1,234.50''" "money 1000 ''KES'' = ''KES 10.00''" "money 122450 ''KES'' = ''KES 1,224.50''"
  by code_simp+

lemma settle_notifications:
  assumes "se_utt_id ev = ''U''"
  shows "\<exists>a b. build_notifications settle_service ev (freeze settle_terms) (from_epoch 20) = Inr (a, b)"
proof -
  let ?s = "''RailOne: SETTLED. KES 1,234.50 sent to Bob via Bank on 01 Jan 03:00 EAT. Ref U. Fee KES 10.00.''"
  let ?r = "''RailOne: SETTLED. You received KES 1,224.50 from Alice into Bank hint on 01 Jan 03:00 EAT. Ref U.''"
  obtain a b where "build_notification ev NTF_SENDER ''contact'' ?s (from_epoch 20) = Inr a"
    "build_notification ev NTF_RECEIVER ''contact'' ?r (from_epoch 20) = Inr b"
    using build_notification_ok [of ?s ev NTF_SENDER "''contact''" "from_epoch 20"]
      build_notification_ok [of ?r ev NTF_RECEIVER "''contact''" "from_epoch 20"] by auto
  then show ?thesis
    by (simp add: build_notifications_def Let_def settle_service_def settle_time settle_items actor_items endpoint_items
        short_utt_def assms)
qed

lemma settle_evidence:
  assumes "pget (env_protected su) ''payload_sha256'' = Some (PyStr h)" "env_payload su = freeze settle_terms"
  shows "\<exists>ev. build_evidence demo_platform settle_keys settle_service settle_claim su settle_attempt (from_epoch 20) = Inr ev
    \<and> se_utt_id ev = ''U''"
proof -
  let ?id = "evidence_identity settle_claim (PyStr h)"
  have "plain (obj ?id)" by (simp add: evidence_identity_def plain_obj)
  then obtain i where i: "content_id ''SET'' (obj ?id) = Inr i" using content_id_ok by blast
  let ?p = "obj ((''evidence_id'', PyStr i) # ?id @ [(''rtt_id'', PyStr (at_rtt_id settle_attempt)), (''amount_minor'', PyInt 123450),
     (''currency_from'', PyStr ''KES''), (''receive_amount_minor'', PyInt 122450), (''currency_to'', PyStr ''KES''),
     (''settled_at'', PyInt (epoch (from_epoch 20))), (''evidence_kind'', PyStr ''PROVIDER_CALLBACK_CORRELATED'')])"
  have "plain ?p" by (simp add: evidence_identity_def plain_obj)
  then obtain e where e: "sign_artifact demo_platform settle_keys SETTLEMENT_EVIDENCE ?p ''ks'' (Aware (from_epoch 20)) = Inr e"
    using can_sign_ok [of demo_platform settle_keys "''ks''" SETTLEMENT_EVIDENCE "from_epoch 20"] settle_can_sign(2) by auto
  have "strip '' TX1 '' \<noteq> []" "strip ''CB1'' \<noteq> []" by code_simp+
  moreover have "py_item (env_protected su) ''payload_sha256'' = Inr (PyStr h)" using assms(1) by (simp add: py_item_Inr)
  ultimately show ?thesis using e i
    by (simp add: build_evidence_def Let_def assms(2) settle_items settle_service_def) (simp add: settle_claim_def)
qed

lemma settle_run:
  obtains contracts su ev a b where "require_utt ''U'' contracts = Inr su" "env_payload su = freeze settle_terms"
    "settlement_for demo_platform settle_keys contracts settle_execs settle_service settle_claim (Aware (from_epoch 20)) = Inr (ev, a, b)"
proof -
  have "plain settle_terms" by (simp add: settle_terms_def demo_actor_def plain_obj)
  then obtain su where sg: "sign_artifact demo_platform settle_keys UTT settle_terms ''ke'' (Aware (from_epoch 10)) = Inr su"
    using can_sign_ok [of demo_platform settle_keys "''ke''" UTT "from_epoch 10"] settle_can_sign(1) by auto
  note v = signed_now_verifies [OF demo_correct settle_keys_inv sg]
  obtain h where h: "pget (env_protected su) ''payload_sha256'' = Some (PyStr h)" and p: "env_payload su = freeze settle_terms"
    using sg by (auto elim!: sign_artifactD simp: protected_header_def)
  obtain ev where ev: "build_evidence demo_platform settle_keys settle_service settle_claim su settle_attempt (from_epoch 20) = Inr ev"
    "se_utt_id ev = ''U''" using settle_evidence [OF h p] by blast
  obtain a b where n: "build_notifications settle_service ev (freeze settle_terms) (from_epoch 20) = Inr (a, b)"
    using settle_notifications [OF ev(2)] by blast
  let ?c = "\<lparr>cs_idempotency = [], cs_quote_to_utt = [], cs_utts = [(''U'', su)]\<rparr>"
  have su: "require_utt ''U'' ?c = Inr su" by (simp add: require_utt_def)
  have c: "sc_utt_id settle_claim = ''U''" by (simp add: settle_claim_def)
  have "settlement_for demo_platform settle_keys ?c settle_execs settle_service settle_claim (Aware (from_epoch 20)) = Inr (ev, a, b)"
    using su v ev n settle_attempt_found p by (simp add: settlement_for_def Let_def c astimezone_utc_def)
  with su p show thesis by (rule that)
qed

theorem settlement_gated_witness:
  "\<exists>(contracts :: contract_store) ev a b su. settlement_for demo_platform settle_keys contracts settle_execs settle_service settle_claim
       (Aware (from_epoch 20)) = Inr (ev, a, b)
     \<and> require_utt ''U'' contracts = Inr su \<and> pget (env_payload su) ''amount_minor'' = Some (PyInt 123450)
     \<and> pget (env_payload (se_signed_evidence ev)) ''amount_minor'' = Some (PyInt 123450)
     \<and> sn_state b = SMS_PREPARED \<and> length (sn_rendered_body b) \<le> 320"
proof -
  obtain contracts su ev a b where su: "require_utt ''U'' contracts = Inr su" and p: "env_payload su = freeze settle_terms"
    and f: "settlement_for demo_platform settle_keys contracts settle_execs settle_service settle_claim (Aware (from_epoch 20)) = Inr (ev, a, b)"
    by (rule settle_run)
  have m: "pget (env_payload su) ''amount_minor'' = Some (PyInt 123450)" unfolding p by code_simp
  have "pget (env_payload (se_signed_evidence ev)) ''amount_minor'' = Some (PyInt 123450) \<and> sn_state b = SMS_PREPARED
      \<and> length (sn_rendered_body b) \<le> 320"
    using settlement_gated [OF f] su m by (auto simp: settle_claim_def)
  with f su m show ?thesis by blast
qed

section \<open>A delivered notification\<close>

lemma settlement_for_roles:
  assumes "settlement_for P ks contracts execs svc c at = Inr (ev, a, b)"
  shows "sn_recipient_role a = NTF_SENDER" "sn_recipient_role b = NTF_RECEIVER" "sn_state b = SMS_PREPARED"
  using assms unfolding settlement_for_def build_notifications_def build_notification_def Let_def by (elim rbind_InrE; auto)+

lemma deliver_prepared:
  assumes "dict_get (st_notifications s) k = Some n" "sn_notification_id n = k" "sn_state n = SMS_PREPARED"
  shows "\<exists>m s'. deliver_sms P (\<lambda>_. Some dest) (\<lambda>_ _ _. Some \<lparr>sg_accepted = True, sg_code = ''ok'', sg_gateway_reference = None\<rparr>) k at s
    = (Inr m, s') \<and> sn_state m = SMS_SENT"
  using assms
  by (simp add: deliver_sms_def Let_def sbind_def sget_def require_notification_def sms_final_def begin_sms_def record_sms_def
      send_sms_def finish_sms_def transition_notification_def dispatching_sms_def finished_sms_def sret_def)

theorem sms_at_most_once_witness:
  "\<exists>(y :: sms_system) k m (y' :: sms_system). sms_step\<^sup>*\<^sup>* sms_start y \<and> count_list (ms_sent y) k \<le> 1 \<and> sms_step\<^sup>*\<^sup>* sms_start y'
     \<and> deliver_sms demo_platform (\<lambda>_. Some ''254'') (\<lambda>_ _ _. Some \<lparr>sg_accepted = True, sg_code = ''ok'', sg_gateway_reference = None\<rparr>) k (Aware 5) (ms_store y)
       = (Inr m, ms_store y') \<and> sn_state m = SMS_SENT"
proof -
  obtain contracts su ev a b where
    f: "settlement_for demo_platform settle_keys contracts settle_execs settle_service settle_claim (Aware (from_epoch 20)) = Inr (ev, a, b)"
    by (rule settle_run)
  let ?s = "\<lparr>st_evidence_by_utt = [(se_utt_id ev, ev)], st_notifications = dict_set (sn_notification_id b) b [(sn_notification_id a, a)]\<rparr>"
  have roles: "sn_recipient_role a \<noteq> sn_recipient_role b" "sn_state b = SMS_PREPARED" using settlement_for_roles [OF f] by simp_all
  have c: "confirm_provider_settlement demo_platform settle_keys contracts settle_execs settle_service settle_claim (Aware (from_epoch 20))
      (ms_store sms_start) = (Inr (ev, (a, b), False), ?s)"
    using f roles by (simp add: confirm_provider_settlement_def sbind_def slift_def commit_settlement_def sms_start_def
        empty_settlement_store_def)
  let ?y = "sms_start\<lparr>ms_store := ?s\<rparr>"
  have r: "sms_step\<^sup>*\<^sup>* sms_start ?y" using sms_confirm [OF c] by (rule r_into_rtranclp)
  obtain m s' where d: "deliver_sms demo_platform (\<lambda>_. Some ''254'') (\<lambda>_ _ _. Some \<lparr>sg_accepted = True, sg_code = ''ok'', sg_gateway_reference = None\<rparr>)
      (sn_notification_id b) (Aware 5) (ms_store ?y) = (Inr m, s')" "sn_state m = SMS_SENT"
    using deliver_prepared [of ?s "sn_notification_id b" b demo_platform "''254''" "Aware 5"] roles(2) by auto
  note m = sms_at_most_once [OF r, of "sn_notification_id b"]
  then obtain y' where "sms_step\<^sup>*\<^sup>* sms_start y'" "ms_store y' = s'" using d(1) by blast
  with r m d show ?thesis by blast
qed

end
