(* ===== verification/Callback_Run.thy ===== *)
theory Callback_Run
  imports Callback_Properties Execution_Run
begin

text \<open>
  An authentic success callback for an attempt in flight, run through the processor: the hypotheses of the
  callback properties are met.
\<close>

section \<open>A genuine signature\<close>

lemma hex_text_canonical:
  assumes "hex_text s"
  shows "lower (strip (remove_prefix ''sha256='' s)) = s" "\<forall>c\<in>set s. (of_char c :: nat) < 128"
proof -
  show "\<forall>c\<in>set s. (of_char c :: nat) < 128" using assms hex_char(3) by (auto simp: hex_text_def)
  have "dropWhile is_space t = t" if "set t \<subseteq> set s" for t
    using that assms hex_char(1) by (cases t) (auto simp: hex_text_def)
  then have "strip s = s" by (simp add: strip_def)
  moreover have "lower s = s" using assms hex_char(2) by (auto simp: lower_def hex_text_def intro!: map_idI)
  moreover have "remove_prefix ''sha256='' s = s"
    using assms hex_char(4) by (cases s) (auto simp: remove_prefix_def starts_with_def hex_text_def)
  ultimately show "lower (strip (remove_prefix ''sha256='' s)) = s" by simp
qed

lemma signed_body_verifies: "verify_ingress (Inr secret) raw (hmac_sha256_hex secret raw) = Inr True"
  using hex_text_canonical [OF hmac_hex_text(1)] hmac_hex_text(2)
  by (auto simp: verify_ingress_def compare_digest_def Let_def not_le)

section \<open>A success callback\<close>

definition demo_callback :: pyval where
  "demo_callback = obj [(''Result'', obj [(''ResultType'', PyInt 0), (''ResultCode'', PyInt 0), (''ResultDesc'', PyStr ''ok''),
     (''OriginatorConversationID'', PyStr ''O1''), (''ConversationID'', PyStr ''C1''), (''TransactionID'', PyStr ''TX1''),
     (''ResultParameters'', obj [(''ResultParameter'', PyList
        [obj [(''Key'', PyStr ''TransactionAmount''), (''Value'', PyInt 5)], obj [(''Key'', PyStr ''TransactionReceipt''), (''Value'', PyStr ''TX1'')]])])])]"

definition demo_body :: string where
  "demo_body = flat (canon demo_callback)"

definition demo_result :: mpesa_result where
  "demo_result = \<lparr>mp_conversation_id = ''C1'', mp_originator_conversation_id = ''O1'', mp_transaction_id = Some ''TX1'',
     mp_result_code = 0, mp_result_description = ''ok'',
     mp_parameters = [(''TransactionAmount'', PyInt 5), (''TransactionReceipt'', PyStr ''TX1'')]\<rparr>"

lemma demo_normalized: "normalize demo_body = Inr demo_result" "length demo_body \<le> 65536"
proof -
  have "keys_ok (canon demo_callback)" by code_simp
  then have l: "json_loads demo_body = Inr (from_json (canon demo_callback))" unfolding demo_body_def by (rule loads_flat)
  have "py_item (from_json (canon demo_callback)) ''Result'' = Inr (py_get (from_json (canon demo_callback)) ''Result'')"
    "normalize_result (py_get (from_json (canon demo_callback)) ''Result'') = Inr demo_result" by code_simp+
  moreover have "case py_get (from_json (canon demo_callback)) ''Result'' of PyDict _ \<Rightarrow> True | _ \<Rightarrow> False" by code_simp
  then obtain kvs where "py_get (from_json (canon demo_callback)) ''Result'' = PyDict kvs" by (simp split: pyval.splits)
  ultimately show "normalize demo_body = Inr demo_result" by (simp add: normalize_def envelope_result_def l)
  have "length demo_body \<le> 1000" by code_simp
  then show "length demo_body \<le> 65536" by linarith
qed

definition demo_submission :: "string \<Rightarrow> submission_record" where
  "demo_submission rtt = \<lparr>sb_submission_id = ''S'', sb_idempotency_key = ''K'', sb_request_sha256 = '''', sb_utt_id = ''U'',
     sb_rtt_id = rtt, sb_provider_id = ''MPESA-KE'', sb_state = SUB_ACCEPTED, sb_dispatch_attempts = 1, sb_normalized_code = None,
     sb_external_reference = Some ''C1'', sb_rejection_disposition = None,
     sb_provider_context = [(''amount_minor'', ''500''), (''originator_conversation_id'', ''O1'')],
     sb_version = 3, sb_created_at = 0, sb_updated_at = 0\<rparr>"

definition demo_operations :: "string \<Rightarrow> operations_store" where
  "demo_operations rtt = empty_operations_store\<lparr>op_submissions := [(rtt, demo_submission rtt)]\<rparr>"

lemma demo_correlated: "correlate (demo_operations rtt) RESULT_CB demo_result = Inr (demo_submission rtt)"
  by (simp add: correlate_def demo_operations_def empty_operations_store_def find_by_external_reference_def demo_submission_def
      demo_result_def mpesa_provider_def submission_context_def verify_success_evidence_def callback_amount_def digits_only_def
      is_digit_def value_of_digits_def)

definition demo_processor :: callback_processor where
  "demo_processor = \<lparr>cp_get_secret = Inr (replicate 32 (CHR ''k'')), cp_settlements = None, cp_retryable_codes = []\<rparr>"

definition demo_signature :: string where
  "demo_signature = hmac_sha256_hex (replicate 32 (CHR ''k'')) demo_body"

lemma demo_authentic: "verify_ingress (cp_get_secret demo_processor) demo_body demo_signature = Inr True"
  by (simp add: demo_processor_def demo_signature_def signed_body_verifies)

lemma demo_confirmed:
  obtains ks and contracts and w w' :: callback_world and a :: rtt_attempt and p r where "exec_reach demo_platform empty_execution_store (cw_execs w)"
    "dict_get (ex_attempts (cw_execs w)) (at_rtt_id a) = Some a" "at_state a = ATT_CREATED" "cw_inbox w = []"
    "process demo_platform ks contracts (demo_operations (at_rtt_id a)) demo_processor RESULT_CB demo_body demo_signature (Aware 99) w
       = (Inr r, w')"
    "dict_get (ex_plans (cw_execs w')) (at_plan_id a) = Some p" "pl_status p = PLAN_FINALIZED"
    "dict_get (ex_plans (cw_execs w)) (at_plan_id a) \<noteq> Some p"
proof -
  obtain s a p0 where r: "exec_reach demo_platform empty_execution_store s" and a: "dict_get (ex_attempts s) (at_rtt_id a) = Some a"
    "at_state a = ATT_CREATED" by (rule demo_in_flight)
  let ?w = "\<lparr>cw_inbox = [], cw_execs = s, cw_settle = empty_settlement_store\<rparr>"
  obtain x w' p where x: "process demo_platform demo_keys empty_contract_store (demo_operations (at_rtt_id a)) demo_processor RESULT_CB demo_body
      demo_signature (Aware 99) ?w = (x, w')" "dict_get (ex_plans (cw_execs w')) (at_plan_id a) = Some p" "pl_status p = PLAN_FINALIZED"
    "cp_settlements demo_processor = None \<longrightarrow> (\<exists>r. x = Inr r)"
    using success_run [OF _ demo_normalized(2) demo_authentic demo_normalized(1) demo_correlated, where w = ?w and a = a and t = 99
        and P = demo_platform and ks = demo_keys and contracts = empty_contract_store] r a
    by (fastforce simp: demo_result_def demo_submission_def awaiting_def)
  obtain q where "x = Inr q" using x(4) by (auto simp: demo_processor_def)
  moreover obtain p1 where "dict_get (ex_plans s) (at_plan_id a) = Some p1" "pl_status p1 = PLAN_ACTIVE"
    using reachable_inv [OF r] a by (rule created_current)
  ultimately have "dict_get (ex_plans s) (at_plan_id a) \<noteq> Some p" using x(3) by auto
  then show thesis using that [of ?w a demo_keys empty_contract_store q w' p] r a x \<open>x = Inr q\<close> by simp
qed

section \<open>Witnesses\<close>

theorem callback_success_finalizes_witness:
  "\<exists>P ks contracts ops cp raw sig (w :: callback_world) r w' k p. cw_inbox w \<noteq> []
    \<and> process P ks contracts ops cp RESULT_CB raw sig (Aware 99) w = (Inr r, w') \<and> cr_duplicate r
    \<and> dict_get (ex_plans (cw_execs w')) k = Some p \<and> pl_status p = PLAN_FINALIZED"
proof -
  obtain s a p0 where r: "exec_reach demo_platform empty_execution_store s" and a: "dict_get (ex_attempts s) (at_rtt_id a) = Some a"
    "at_state a = ATT_CREATED" by (rule demo_in_flight)
  obtain h where h: "payload_digest (normalized_payload demo_result) = Inr h" using normalize_digest [OF demo_normalized(1)] by blast
  let ?key = "(mpesa_provider, callback_event_id RESULT_CB demo_result)"
  define pending where "pending = [(?key, \<lparr>cb_provider_id = mpesa_provider, cb_provider_event_id = snd ?key, cb_payload_sha256 = h,
     cb_normalized_payload = normalized_payload demo_result, cb_signature_valid = True, cb_state = CB_RECEIVED,
     cb_received_at = 50, cb_applied_at = None\<rparr>)]"
  have p: "awaiting pending RESULT_CB demo_result" "pending \<noteq> []" "dict_has pending ?key"
    using h by (simp_all add: awaiting_def pending_def)
  let ?w = "\<lparr>cw_inbox = pending, cw_execs = s, cw_settle = empty_settlement_store\<rparr>"
  have code: "mp_result_code demo_result = 0" "sb_rtt_id (demo_submission (at_rtt_id a)) = at_rtt_id a" "cp_settlements demo_processor = None"
    by (simp_all add: demo_result_def demo_submission_def demo_processor_def)
  have "\<exists>x w' p. process demo_platform demo_keys empty_contract_store (demo_operations (at_rtt_id a)) demo_processor RESULT_CB demo_body
        demo_signature (Aware 99) ?w = (x, w')
      \<and> dict_get (ex_plans (cw_execs w')) (at_plan_id a) = Some p \<and> pl_status p = PLAN_FINALIZED
      \<and> (cp_settlements demo_processor = None \<longrightarrow> x = Inr \<lparr>cr_provider_event_id = ''MPESA-RESULT-'' @ mp_conversation_id demo_result,
           cr_rtt_id = Some (sb_rtt_id (demo_submission (at_rtt_id a))), cr_disposition = ''CONFIRMED_SUCCESS'', cr_duplicate = dict_has (cw_inbox ?w) ?key\<rparr>
         \<and> (\<exists>q. dict_get (cw_inbox w') ?key = Some q \<and> cb_state q = CB_APPLIED))"
    by (rule callback_success_finalizes [OF _ demo_normalized(2) demo_authentic demo_normalized(1) demo_correlated code(1)])
       (use r a p(1) code(2) in simp_all)
  then obtain x w' p where x: "process demo_platform demo_keys empty_contract_store (demo_operations (at_rtt_id a)) demo_processor RESULT_CB demo_body
        demo_signature (Aware 99) ?w = (Inr x, w')" "dict_get (ex_plans (cw_execs w')) (at_plan_id a) = Some p" "pl_status p = PLAN_FINALIZED"
    "cr_duplicate x" using code(3) p(3) by auto
  moreover have "cw_inbox ?w \<noteq> []" using p(2) by simp
  ultimately show ?thesis by blast
qed

theorem callback_replay_witness:
  "\<exists>P ks contracts ops cp raw sig (w :: callback_world) r w'. process P ks contracts ops cp RESULT_CB raw sig (Aware 99) w = (Inr r, w')
    \<and> process P ks contracts ops cp RESULT_CB raw sig (Aware 100) w' =
      (Inr (r\<lparr>cr_disposition := ''ALREADY_APPLIED'', cr_duplicate := True\<rparr>), w')"
proof -
  obtain ks contracts and w w' :: callback_world and a :: rtt_attempt and r where
    p: "process demo_platform ks contracts (demo_operations (at_rtt_id a)) demo_processor RESULT_CB demo_body demo_signature (Aware 99) w
       = (Inr r, w')" by (rule demo_confirmed) blast
  from callback_replay [OF p, of 100] p show ?thesis by blast
qed

theorem callback_gated_witness:
  "\<exists>P ks contracts ops cp raw sig (w :: callback_world) x w' n. process P ks contracts ops cp RESULT_CB raw sig (Aware 99) w = (x, w')
    \<and> cw_execs w' \<noteq> cw_execs w \<and> normalize raw = Inr n \<and> (\<exists>txn. mp_transaction_id n = Some txn)"
proof -
  obtain ks contracts and w w' :: callback_world and a :: rtt_attempt and p r where
    x: "process demo_platform ks contracts (demo_operations (at_rtt_id a)) demo_processor RESULT_CB demo_body demo_signature (Aware 99) w
       = (Inr r, w')" and p: "dict_get (ex_plans (cw_execs w')) (at_plan_id a) = Some p" "pl_status p = PLAN_FINALIZED"
    "dict_get (ex_plans (cw_execs w)) (at_plan_id a) \<noteq> Some p" by (rule demo_confirmed) blast
  have ne: "cw_execs w' \<noteq> cw_execs w" using p by auto
  then have "cw_execs w' \<noteq> cw_execs w \<or> cw_settle w' \<noteq> cw_settle w" ..
  from callback_gated [OF x this] obtain n where "normalize demo_body = Inr n" "\<exists>txn. mp_transaction_id n = Some txn"
    using p by blast
  with x ne show ?thesis by blast
qed

theorem callback_refines_execution_witness:
  "\<exists>P ks contracts ops cp raw sig (w :: callback_world) x w'. process P ks contracts ops cp RESULT_CB raw sig (Aware 99) w = (x, w')
    \<and> exec_reach P empty_execution_store (cw_execs w) \<and> exec_step P (cw_execs w) (cw_execs w')"
proof -
  obtain ks contracts and w w' :: callback_world and a :: rtt_attempt and p r where
    reach: "exec_reach demo_platform empty_execution_store (cw_execs w)" and
    x: "process demo_platform ks contracts (demo_operations (at_rtt_id a)) demo_processor RESULT_CB demo_body demo_signature (Aware 99) w
       = (Inr r, w')" and p: "dict_get (ex_plans (cw_execs w')) (at_plan_id a) = Some p"
    "dict_get (ex_plans (cw_execs w)) (at_plan_id a) \<noteq> Some p" by (rule demo_confirmed) blast
  have "cw_execs w' \<noteq> cw_execs w" using p by auto
  then show ?thesis using callback_refines_execution [OF x reach] x reach by blast
qed

end
