(* ===== verification/Identity.thy ===== *)
theory Identity
  imports Hmac Signature_Service Store_Interfaces
begin

text \<open>
  Identity continuity (\<^verbatim>\<open>railone_identity\<close>): institutional attestations and their validation, the keyed
  fingerprint that makes an identity deterministic, the repository with its append-only revisions, and the
  service that onboards and revises identities.  Unicode normalization is the identity on ASCII text.
\<close>

section \<open>Records\<close>

datatype trust_tier = T0 | T1 | T2 | T3 | T4 | T5

definition trust_tier_of :: "string \<Rightarrow> trust_tier option" where
  \<comment> \<open>\<^verbatim>\<open>TrustTier(value)\<close>\<close>
  "trust_tier_of s = map_of [(''T0'', T0), (''T1'', T1), (''T2'', T2), (''T3'', T3), (''T4'', T4), (''T5'', T5)] s"

datatype identity_status = ID_ACTIVE | ID_REVERIFICATION_REQUIRED | ID_SUSPENDED | ID_REVOKED

record identity_genesis =
  ig_rig_id :: string
  ig_continuity_uid :: string
  ig_continuity_key_id :: string
  ig_identity_fingerprint :: string
  ig_verification_provider_id :: string
  ig_verification_reference :: string
  ig_evidence_sha256 :: string
  ig_attestation_id :: string
  ig_created_at :: instant

record identity_revision =
  iv_riv_id :: string
  iv_rio_id :: string
  iv_continuity_uid :: string
  iv_revision :: int
  iv_trust_tier :: trust_tier
  iv_status :: identity_status
  iv_reason :: string
  iv_attestation_id :: string
  iv_created_at :: instant

record identity_object =
  io_rio_id :: string
  io_railone_id :: string
  io_continuity_uid :: string
  io_rig_id :: string
  io_active_riv_id :: string
  io_corridor :: string
  io_status :: identity_status
  io_created_at :: instant

record identity_bundle =
  ib_genesis :: identity_genesis
  ib_identity :: identity_object
  ib_active_revision :: identity_revision

section \<open>Attestations\<close>

record attestation_result =
  av_valid :: bool
  av_reason :: string
  av_claims :: "pyval option"

definition attestation_rejected :: "string \<Rightarrow> attestation_result" where
  "attestation_rejected reason = \<lparr>av_valid = False, av_reason = reason, av_claims = None\<rparr>"

definition required_claims :: "string list" where
  "required_claims = [''attestation_id'', ''provider_id'', ''provider_subject_reference'', ''verification_reference'',
     ''country_code'', ''verification_result'', ''trust_tier'', ''evidence_sha256'']"

definition claim_ok :: "pyval \<Rightarrow> string \<Rightarrow> bool" where
  "claim_ok claims k \<longleftrightarrow> (case py_get claims k of PyStr s \<Rightarrow> strip s \<noteq> [] | _ \<Rightarrow> False)"

definition claim_text :: "pyval \<Rightarrow> string \<Rightarrow> string" where
  \<comment> \<open>\<^verbatim>\<open>claims[k]\<close>, once it is known to be text\<close>
  "claim_text claims k = (case py_get claims k of PyStr s \<Rightarrow> s | _ \<Rightarrow> [])"

definition sha256_pattern :: "string \<Rightarrow> bool" where
  "sha256_pattern s \<longleftrightarrow> length s = 64 \<and> hex_text s"

definition verify_attestation ::
  "platform \<Rightarrow> key_provider \<Rightarrow> envelope \<Rightarrow> string \<Rightarrow> instant \<Rightarrow> attestation_result res" where
  "verify_attestation P ks env expected_provider_id at =
     rbind (verify_artifact P ks env (Some IDENTITY_ATTESTATION) False) (\<lambda>signature_result.
     Inr (if \<not> vr_valid signature_result then attestation_rejected (vr_reason signature_result)
     else let claims = env_payload env in
     case find (\<lambda>k. \<not> claim_ok claims k) required_claims of
       Some k \<Rightarrow> attestation_rejected (upper k @ ''_INVALID'')
     | None \<Rightarrow>
       if claim_text claims ''provider_id'' \<noteq> expected_provider_id then attestation_rejected ''PROVIDER_MISMATCH''
       else if PyStr (claim_text claims ''provider_id'') \<noteq> py_get (env_protected env) ''iss''
       then attestation_rejected ''ATTESTATION_ISSUER_MISMATCH''
       else if claim_text claims ''verification_result'' \<noteq> ''VERIFIED'' then attestation_rejected ''IDENTITY_NOT_VERIFIED''
       else if trust_tier_of (claim_text claims ''trust_tier'') = None then attestation_rejected ''TRUST_TIER_INVALID''
       else if \<not> sha256_pattern (claim_text claims ''evidence_sha256'') then attestation_rejected ''EVIDENCE_HASH_INVALID''
       else case (as_int (py_get claims ''issued_at''), as_int (py_get claims ''expires_at'')) of
         (Some issued_at, Some expires_at) \<Rightarrow>
           if expires_at \<le> issued_at then attestation_rejected ''ATTESTATION_WINDOW_INVALID''
           else if epoch at < issued_at then attestation_rejected ''ATTESTATION_NOT_YET_VALID''
           else if epoch at \<ge> expires_at then attestation_rejected ''ATTESTATION_EXPIRED''
           else \<lparr>av_valid = True, av_reason = ''VALID'', av_claims = Some claims\<rparr>
       | _ \<Rightarrow> attestation_rejected ''ATTESTATION_TIME_INVALID''))"

section \<open>Fingerprints\<close>

definition normalize_seed :: "string \<Rightarrow> string res" where
  "normalize_seed value =
     (let normalized = upper (strip value) in
      if normalized = [] then Inl (Raise ValueError ''identity seed value cannot be empty'') else Inr normalized)"

record identity_seed =
  sd_provider_id :: string
  sd_provider_subject_reference :: string
  sd_country_code :: string

definition canonical_payload :: "identity_seed \<Rightarrow> identity_seed res" where
  "canonical_payload seed =
     rbind (normalize_seed (sd_provider_id seed)) (\<lambda>p.
     rbind (normalize_seed (sd_provider_subject_reference seed)) (\<lambda>s.
     rbind (normalize_seed (sd_country_code seed)) (\<lambda>c.
     Inr \<lparr>sd_provider_id = p, sd_provider_subject_reference = s, sd_country_code = c\<rparr>)))"

definition seed_payload :: "identity_seed \<Rightarrow> pyval" where
  "seed_payload s = obj [(''provider_id'', PyStr (sd_provider_id s)),
     (''provider_subject_reference'', PyStr (sd_provider_subject_reference s)), (''country_code'', PyStr (sd_country_code s))]"

type_synonym continuity_secrets = "(string, string) dict"

definition register_secret :: "string \<Rightarrow> string \<Rightarrow> (continuity_secrets, unit) st" where
  "register_secret key_id secret s =
     (if length secret < 32 then (Inl (Raise ValueError ''continuity secret must contain at least 32 bytes''), s)
      else if dict_has s key_id then (Inl (Raise ValueError (''duplicate continuity key: '' @ key_id)), s)
      else (Inr (), dict_set key_id secret s))"

definition derive :: "continuity_secrets \<Rightarrow> string \<Rightarrow> string \<Rightarrow> nat list res" where
  "derive secrets key_id message =
     (case dict_get secrets key_id of
        None \<Rightarrow> Inl (Raise KeyError (''continuity key not found: '' @ key_id))
      | Some secret \<Rightarrow> Inr (hmac_sha256 secret message))"

definition b32_alphabet :: string where
  "b32_alphabet = ''ABCDEFGHIJKLMNOPQRSTUVWXYZ234567''"

definition b32_text :: "nat list \<Rightarrow> string" where
  \<comment> \<open>\<^verbatim>\<open>base64.b32encode(bs).decode("ascii").rstrip("=")\<close>\<close>
  "b32_text bs =
     (let n = 8 * length bs; k = (n + 4) div 5; v = foldl (\<lambda>a b. a * 256 + b) 0 bs * 2 ^ (5 * k - n)
      in map (\<lambda>i. b32_alphabet ! ((v div 32 ^ (k - 1 - i)) mod 32)) [0..<k])"

section \<open>The repository\<close>

record identity_repository =
  ir_by_fingerprint :: "(string, identity_bundle) dict"
  ir_by_continuity_uid :: "(string, identity_bundle) dict"
  ir_revisions :: "(string, identity_revision list) dict"

definition empty_identity_repository :: identity_repository where
  "empty_identity_repository = \<lparr>ir_by_fingerprint = [], ir_by_continuity_uid = [], ir_revisions = []\<rparr>"

definition get_by_fingerprint :: "string \<Rightarrow> identity_repository \<Rightarrow> identity_bundle option" where
  "get_by_fingerprint fingerprint s = dict_get (ir_by_fingerprint s) fingerprint"

definition get_by_continuity_uid :: "string \<Rightarrow> identity_repository \<Rightarrow> identity_bundle option" where
  "get_by_continuity_uid uid s = dict_get (ir_by_continuity_uid s) uid"

definition list_revisions :: "string \<Rightarrow> identity_repository \<Rightarrow> identity_revision list" where
  "list_revisions uid s = (case dict_get (ir_revisions s) uid of None \<Rightarrow> [] | Some rs \<Rightarrow> rs)"

abbreviation bundle_fingerprint :: "identity_bundle \<Rightarrow> string" where
  "bundle_fingerprint b \<equiv> ig_identity_fingerprint (ib_genesis b)"

abbreviation bundle_uid :: "identity_bundle \<Rightarrow> string" where
  "bundle_uid b \<equiv> io_continuity_uid (ib_identity b)"

abbreviation bundle_revision :: "identity_bundle \<Rightarrow> int" where
  "bundle_revision b \<equiv> iv_revision (ib_active_revision b)"

definition save_identity :: "identity_bundle \<Rightarrow> (identity_repository, unit) st" where
  "save_identity b s =
     (if dict_has (ir_by_fingerprint s) (bundle_fingerprint b)
      then (Inl (Raise ValueError ''identity fingerprint already exists''), s)
      else if dict_has (ir_by_continuity_uid s) (bundle_uid b)
      then (Inl (Raise ValueError ''continuity UID already exists''), s)
      else (Inr (), s\<lparr>ir_by_fingerprint := dict_set (bundle_fingerprint b) b (ir_by_fingerprint s),
                     ir_by_continuity_uid := dict_set (bundle_uid b) b (ir_by_continuity_uid s),
                     ir_revisions := dict_set (bundle_uid b) [ib_active_revision b] (ir_revisions s)\<rparr>))"

definition stable_fields :: "identity_bundle \<Rightarrow> identity_genesis \<times> string \<times> string \<times> string \<times> string \<times> string \<times> instant" where
  "stable_fields b = (ib_genesis b, io_rio_id (ib_identity b), io_railone_id (ib_identity b), bundle_uid b,
     io_rig_id (ib_identity b), io_corridor (ib_identity b), io_created_at (ib_identity b))"

definition append_revision :: "int \<Rightarrow> identity_bundle \<Rightarrow> (identity_repository, unit) st" where
  "append_revision expected_revision b s =
     (let uid = bundle_uid b; r = ib_active_revision b in
      case dict_get (ir_by_continuity_uid s) uid of
        None \<Rightarrow> (Inl (Raise LookupError (''continuity identity not found: '' @ uid)), s)
      | Some current \<Rightarrow>
          if bundle_revision current \<noteq> expected_revision
          then (Inl (Raise RuntimeError ''identity revision changed concurrently''), s)
          else if iv_revision r \<noteq> expected_revision + 1
          then (Inl (Raise ValueError ''identity revision must advance exactly once''), s)
          else if stable_fields current \<noteq> stable_fields b
          then (Inl (Raise ValueError ''immutable identity anchor fields cannot change''), s)
          else if io_active_riv_id (ib_identity b) \<noteq> iv_riv_id r
          then (Inl (Raise ValueError ''identity projection must point to the active revision''), s)
          else if io_status (ib_identity b) \<noteq> iv_status r
          then (Inl (Raise ValueError ''identity projection status must match active revision''), s)
          else if iv_rio_id r \<noteq> io_rio_id (ib_identity b) \<or> iv_continuity_uid r \<noteq> uid
          then (Inl (Raise ValueError ''identity revision lineage does not match projection''), s)
          else if \<exists>old\<in>set (list_revisions uid s). iv_attestation_id old = iv_attestation_id r
          then (Inl (Raise ValueError ''identity attestation was already used by a revision''), s)
          else (Inr (), s\<lparr>ir_revisions := dict_set uid (list_revisions uid s @ [r]) (ir_revisions s),
                         ir_by_continuity_uid := dict_set uid b (ir_by_continuity_uid s),
                         ir_by_fingerprint := dict_set (bundle_fingerprint current) b (ir_by_fingerprint s)\<rparr>))"

section \<open>The continuity service\<close>

record continuity_service =
  cn_continuity_key_id :: string
  cn_secrets :: continuity_secrets

definition continuity_domain :: string where
  "continuity_domain = ''RAILONE-IDENTITY-CONTINUITY-V1'' @ [CHR 0x00]"

definition checked_claims ::
  "platform \<Rightarrow> key_provider \<Rightarrow> identity_seed \<Rightarrow> envelope \<Rightarrow> instant \<Rightarrow> pyval res" where
  \<comment> \<open>an attestation of the normalized seed\<close>
  "checked_claims P ks seed attestation instant =
     rbind (verify_attestation P ks attestation (sd_provider_id seed) instant) (\<lambda>validation.
     case av_claims validation of
       None \<Rightarrow> Inl (Raise PermissionError (''identity attestation rejected: '' @ av_reason validation))
     | Some claims \<Rightarrow>
         if \<not> av_valid validation
         then Inl (Raise PermissionError (''identity attestation rejected: '' @ av_reason validation))
         else rbind (normalize_seed (claim_text claims ''provider_subject_reference'')) (\<lambda>subject.
              rbind (guard_res (subject \<noteq> sd_provider_subject_reference seed) PermissionError
                       ''identity attestation subject mismatch'') (\<lambda>_.
              rbind (normalize_seed (claim_text claims ''country_code'')) (\<lambda>country.
              rbind (guard_res (country \<noteq> sd_country_code seed) PermissionError
                       ''identity attestation country mismatch'') (\<lambda>_.
              Inr claims)))))"

definition seed_digest :: "continuity_service \<Rightarrow> identity_seed \<Rightarrow> nat list res" where
  "seed_digest svc seed =
     rbind (canonical_json_bytes (seed_payload seed)) (\<lambda>b.
     derive (cn_secrets svc) (cn_continuity_key_id svc) (continuity_domain @ b))"

definition tier_claim :: "pyval \<Rightarrow> trust_tier res" where
  "tier_claim claims =
     (case trust_tier_of (claim_text claims ''trust_tier'') of
        None \<Rightarrow> Inl (Raise ValueError ''not a valid TrustTier'') | Some t \<Rightarrow> Inr t)"

definition new_bundle ::
  "continuity_service \<Rightarrow> identity_seed \<Rightarrow> pyval \<Rightarrow> nat list \<Rightarrow> string \<Rightarrow> instant \<Rightarrow> identity_bundle res" where
  "new_bundle svc seed claims digest corridor instant =
     (let segment = b32_text (take 20 digest) in
      rbind (normalize_seed corridor) (\<lambda>normalized_corridor.
      rbind (tier_claim claims) (\<lambda>tier.
      Inr \<lparr>ib_genesis = \<lparr>ig_rig_id = ''RIG-'' @ segment, ig_continuity_uid = ''CUID-'' @ segment,
              ig_continuity_key_id = cn_continuity_key_id svc, ig_identity_fingerprint = hex_of_bytes digest,
              ig_verification_provider_id = sd_provider_id seed,
              ig_verification_reference = claim_text claims ''verification_reference'',
              ig_evidence_sha256 = claim_text claims ''evidence_sha256'',
              ig_attestation_id = claim_text claims ''attestation_id'', ig_created_at = instant\<rparr>,
           ib_identity = \<lparr>io_rio_id = ''RIO-'' @ segment, io_railone_id = ''R1-'' @ normalized_corridor @ ''-'' @ segment,
              io_continuity_uid = ''CUID-'' @ segment, io_rig_id = ''RIG-'' @ segment,
              io_active_riv_id = ''RIV-'' @ segment @ ''-R1'', io_corridor = normalized_corridor,
              io_status = ID_ACTIVE, io_created_at = instant\<rparr>,
           ib_active_revision = \<lparr>iv_riv_id = ''RIV-'' @ segment @ ''-R1'', iv_rio_id = ''RIO-'' @ segment,
              iv_continuity_uid = ''CUID-'' @ segment, iv_revision = 1, iv_trust_tier = tier, iv_status = ID_ACTIVE,
              iv_reason = ''INITIAL_VERIFIED_ONBOARDING'', iv_attestation_id = claim_text claims ''attestation_id'',
              iv_created_at = instant\<rparr>\<rparr>)))"

definition onboard ::
  "platform \<Rightarrow> key_provider \<Rightarrow> continuity_service \<Rightarrow> identity_seed \<Rightarrow> envelope \<Rightarrow> string \<Rightarrow> datetime \<Rightarrow>
    (identity_repository, identity_bundle \<times> bool) st" where
  "onboard P ks svc seed attestation corridor at =
     sbind (slift (require_aware ''identity timestamp'' at)) (\<lambda>instant.
     sbind (slift (canonical_payload seed)) (\<lambda>normalized.
     sbind (slift (checked_claims P ks normalized attestation instant)) (\<lambda>claims.
     sbind (slift (seed_digest svc normalized)) (\<lambda>digest. \<lambda>s.
     case get_by_fingerprint (hex_of_bytes digest) s of
       Some existing \<Rightarrow> (Inr (existing, True), s)
     | None \<Rightarrow> sbind (slift (new_bundle svc normalized claims digest corridor instant)) (\<lambda>bundle.
               sbind (save_identity bundle) (\<lambda>_. sret (bundle, False))) s))))"

definition get_identity :: "string \<Rightarrow> identity_repository \<Rightarrow> identity_bundle res" where
  "get_identity uid s =
     rbind (normalize_seed uid) (\<lambda>normalized.
     case get_by_continuity_uid normalized s of
       None \<Rightarrow> Inl (Raise LookupError (''continuity identity not found: '' @ normalized))
     | Some b \<Rightarrow> Inr b)"

definition identity_history :: "string \<Rightarrow> identity_repository \<Rightarrow> identity_revision list res" where
  "identity_history uid s = rbind (get_identity uid s) (\<lambda>b. Inr (list_revisions (bundle_uid b) s))"

definition revised ::
  "identity_bundle \<Rightarrow> identity_status \<Rightarrow> string \<Rightarrow> trust_tier \<Rightarrow> string \<Rightarrow> instant \<Rightarrow> identity_bundle" where
  "revised current status reason tier attestation_id instant =
     (let n = bundle_revision current + 1; riv_id = ''RIV-'' @ drop 5 (bundle_uid current) @ ''-R'' @ show_int n in
      \<lparr>ib_genesis = ib_genesis current,
       ib_identity = (ib_identity current)\<lparr>io_active_riv_id := riv_id, io_status := status\<rparr>,
       ib_active_revision = \<lparr>iv_riv_id = riv_id, iv_rio_id = io_rio_id (ib_identity current),
          iv_continuity_uid = bundle_uid current, iv_revision = n, iv_trust_tier = tier, iv_status = status,
          iv_reason = reason, iv_attestation_id = attestation_id, iv_created_at = instant\<rparr>\<rparr>)"

definition prepare_revision ::
  "platform \<Rightarrow> key_provider \<Rightarrow> continuity_service \<Rightarrow> identity_seed \<Rightarrow> envelope \<Rightarrow> string \<Rightarrow> datetime \<Rightarrow>
    (string \<times> pyval \<times> string \<times> instant) res" where
  \<comment> \<open>what a revision checks before it reads the repository: reason, claims, fingerprint and instant\<close>
  "prepare_revision P ks svc seed attestation reason at =
     rbind (require_aware ''identity timestamp'' at) (\<lambda>instant.
     rbind (normalize_seed reason) (\<lambda>normalized_reason.
     rbind (canonical_payload seed) (\<lambda>normalized.
     rbind (checked_claims P ks normalized attestation instant) (\<lambda>claims.
     rbind (seed_digest svc normalized) (\<lambda>digest.
     Inr (normalized_reason, claims, hex_of_bytes digest, instant))))))"

definition revision_of :: "identity_bundle \<Rightarrow> identity_status \<Rightarrow> string \<Rightarrow> pyval \<Rightarrow> instant \<Rightarrow> identity_bundle res" where
  "revision_of current status reason claims instant =
     rbind (guard_res (io_status (ib_identity current) = ID_REVOKED) PermissionError ''revoked identity cannot be revised'') (\<lambda>_.
     rbind (tier_claim claims) (\<lambda>tier.
     Inr (revised current status reason tier (claim_text claims ''attestation_id'') instant)))"

definition revise ::
  "platform \<Rightarrow> key_provider \<Rightarrow> continuity_service \<Rightarrow> identity_seed \<Rightarrow> envelope \<Rightarrow> identity_status \<Rightarrow> string \<Rightarrow> datetime \<Rightarrow>
    (identity_repository, identity_bundle) st" where
  "revise P ks svc seed attestation status reason at =
     sbind (slift (prepare_revision P ks svc seed attestation reason at)) (\<lambda>(normalized_reason, claims, fingerprint, instant). \<lambda>s.
     case get_by_fingerprint fingerprint s of
       None \<Rightarrow> (Inl (Raise LookupError ''identity must be onboarded before it can be revised''), s)
     | Some current \<Rightarrow>
         sbind (slift (revision_of current status normalized_reason claims instant)) (\<lambda>updated.
         sbind (append_revision (bundle_revision current) updated) (\<lambda>_. sret updated)) s)"

end
