(* ===== verification/Identity_Properties.thy ===== *)
theory Identity_Properties
  imports Identity "HOL-Library.Sublist"
begin

text \<open>
  The identity repository under concurrent onboarding and revision: an append-only history per identity, anchors
  that never change, at most one use of an attestation, and revocation that is final.
\<close>

section \<open>The invariant\<close>

definition bundle_history :: "identity_bundle \<Rightarrow> identity_revision list \<Rightarrow> bool" where
  "bundle_history b revs \<longleftrightarrow> revs \<noteq> [] \<and> last revs = ib_active_revision b
     \<and> map iv_revision revs = map int [1..<Suc (length revs)] \<and> distinct (map iv_attestation_id revs)
     \<and> (\<forall>r\<in>set revs. iv_rio_id r = io_rio_id (ib_identity b) \<and> iv_continuity_uid r = bundle_uid b)
     \<and> (\<forall>r\<in>set (butlast revs). iv_status r \<noteq> ID_REVOKED)
     \<and> io_status (ib_identity b) = iv_status (ib_active_revision b)
     \<and> io_active_riv_id (ib_identity b) = iv_riv_id (ib_active_revision b)"

definition repo_inv :: "identity_repository \<Rightarrow> bool" where
  "repo_inv s \<longleftrightarrow>
     (\<forall>u b. dict_get (ir_by_continuity_uid s) u = Some b \<longrightarrow> bundle_uid b = u
        \<and> dict_get (ir_by_fingerprint s) (bundle_fingerprint b) = Some b
        \<and> (\<exists>revs. dict_get (ir_revisions s) u = Some revs \<and> bundle_history b revs))
     \<and> (\<forall>f b. dict_get (ir_by_fingerprint s) f = Some b \<longrightarrow> bundle_fingerprint b = f
        \<and> dict_get (ir_by_continuity_uid s) (bundle_uid b) = Some b)"

lemma repo_invD:
  assumes "repo_inv s"
  shows "dict_get (ir_by_continuity_uid s) u = Some b \<Longrightarrow> bundle_uid b = u"
    "dict_get (ir_by_continuity_uid s) u = Some b \<Longrightarrow> dict_get (ir_by_fingerprint s) (bundle_fingerprint b) = Some b"
    "dict_get (ir_by_continuity_uid s) u = Some b \<Longrightarrow> \<exists>revs. dict_get (ir_revisions s) u = Some revs \<and> bundle_history b revs"
    "dict_get (ir_by_fingerprint s) f = Some b \<Longrightarrow> bundle_fingerprint b = f"
    "dict_get (ir_by_fingerprint s) f = Some b \<Longrightarrow> dict_get (ir_by_continuity_uid s) (bundle_uid b) = Some b"
  using assms by (auto simp: repo_inv_def)

lemma history_revisions:
  assumes "repo_inv s" "dict_get (ir_by_continuity_uid s) u = Some b"
  shows "bundle_history b (list_revisions u s)"
  using repo_invD(3) [OF assms] by (auto simp: list_revisions_def)

definition put_bundle :: "identity_bundle \<Rightarrow> identity_revision list \<Rightarrow> identity_repository \<Rightarrow> identity_repository" where
  "put_bundle b revs s = s\<lparr>ir_by_fingerprint := dict_set (bundle_fingerprint b) b (ir_by_fingerprint s),
     ir_by_continuity_uid := dict_set (bundle_uid b) b (ir_by_continuity_uid s),
     ir_revisions := dict_set (bundle_uid b) revs (ir_revisions s)\<rparr>"

lemma repo_inv_put:
  assumes "repo_inv s" "bundle_history b revs"
    and "\<And>c. dict_get (ir_by_fingerprint s) (bundle_fingerprint c) = Some c \<Longrightarrow>
      bundle_fingerprint c = bundle_fingerprint b \<longleftrightarrow> bundle_uid c = bundle_uid b"
  shows "repo_inv (put_bundle b revs s)"
  unfolding repo_inv_def
proof (intro conjI allI impI)
  fix u c assume c: "dict_get (ir_by_continuity_uid (put_bundle b revs s)) u = Some c"
  show "bundle_uid c = u" using c repo_invD(1) [OF assms(1)] by (auto simp: put_bundle_def split: if_splits)
  show "\<exists>revs'. dict_get (ir_revisions (put_bundle b revs s)) u = Some revs' \<and> bundle_history c revs'"
    using c repo_invD(3) [OF assms(1)] assms(2) by (auto simp: put_bundle_def split: if_splits)
  show "dict_get (ir_by_fingerprint (put_bundle b revs s)) (bundle_fingerprint c) = Some c"
    using c repo_invD(1,2) [OF assms(1)] assms(3) [of c] by (auto simp: put_bundle_def split: if_splits)
next
  fix f c assume c: "dict_get (ir_by_fingerprint (put_bundle b revs s)) f = Some c"
  show "bundle_fingerprint c = f" using c repo_invD(4) [OF assms(1)] by (auto simp: put_bundle_def split: if_splits)
  show "dict_get (ir_by_continuity_uid (put_bundle b revs s)) (bundle_uid c) = Some c"
    using c repo_invD(4,5) [OF assms(1), of f c] assms(3) [of c] by (auto simp: put_bundle_def split: if_splits)
qed

section \<open>What an update may change\<close>

definition repo_extends :: "identity_repository \<Rightarrow> identity_repository \<Rightarrow> bool" where
  "repo_extends s s' \<longleftrightarrow> (\<forall>u b. dict_get (ir_by_continuity_uid s) u = Some b \<longrightarrow>
     (\<exists>b'. dict_get (ir_by_continuity_uid s') u = Some b' \<and> stable_fields b' = stable_fields b
        \<and> prefix (list_revisions u s) (list_revisions u s')
        \<and> (b' = b \<and> list_revisions u s' = list_revisions u s
            \<or> io_status (ib_identity b) \<noteq> ID_REVOKED \<and> bundle_revision b < bundle_revision b')))"

lemma repo_extends_refl: "repo_extends s s"
  by (simp add: repo_extends_def)

lemma repo_extendsE:
  assumes "repo_extends s s'" "dict_get (ir_by_continuity_uid s) u = Some b"
  obtains b' where "dict_get (ir_by_continuity_uid s') u = Some b'" "stable_fields b' = stable_fields b"
    "prefix (list_revisions u s) (list_revisions u s')"
    "b' = b \<and> list_revisions u s' = list_revisions u s \<or> io_status (ib_identity b) \<noteq> ID_REVOKED \<and> bundle_revision b < bundle_revision b'"
  using assms unfolding repo_extends_def by blast

lemma repo_extends_trans:
  assumes "repo_extends s t" "repo_extends t w"
  shows "repo_extends s w"
  unfolding repo_extends_def
proof (intro allI impI)
  fix u b assume b: "dict_get (ir_by_continuity_uid s) u = Some b"
  obtain b1 where b1: "dict_get (ir_by_continuity_uid t) u = Some b1" "stable_fields b1 = stable_fields b"
    "prefix (list_revisions u s) (list_revisions u t)"
    "b1 = b \<and> list_revisions u t = list_revisions u s \<or> io_status (ib_identity b) \<noteq> ID_REVOKED \<and> bundle_revision b < bundle_revision b1"
    using assms(1) b by (rule repo_extendsE)
  obtain b2 where b2: "dict_get (ir_by_continuity_uid w) u = Some b2" "stable_fields b2 = stable_fields b1"
    "prefix (list_revisions u t) (list_revisions u w)"
    "b2 = b1 \<and> list_revisions u w = list_revisions u t \<or> io_status (ib_identity b1) \<noteq> ID_REVOKED \<and> bundle_revision b1 < bundle_revision b2"
    using assms(2) b1(1) by (rule repo_extendsE)
  have "prefix (list_revisions u s) (list_revisions u w)" using b1(3) b2(3) by (rule prefix_order.trans)
  moreover have "b2 = b \<and> list_revisions u w = list_revisions u s \<or> io_status (ib_identity b) \<noteq> ID_REVOKED \<and> bundle_revision b < bundle_revision b2"
    using b1(4) b2(4) by auto
  ultimately show "\<exists>b'. dict_get (ir_by_continuity_uid w) u = Some b' \<and> stable_fields b' = stable_fields b
      \<and> prefix (list_revisions u s) (list_revisions u w)
      \<and> (b' = b \<and> list_revisions u w = list_revisions u s \<or> io_status (ib_identity b) \<noteq> ID_REVOKED \<and> bundle_revision b < bundle_revision b')"
    using b1(2) b2(1,2) by auto
qed

lemma save_cases:
  assumes "save_identity b s = (x, s')"
  obtains e where "x = Inl e" "s' = s"
  | "x = Inr ()" "dict_get (ir_by_fingerprint s) (bundle_fingerprint b) = None" "dict_get (ir_by_continuity_uid s) (bundle_uid b) = None"
      "s' = put_bundle b [ib_active_revision b] s"
  using assms by (auto simp: save_identity_def put_bundle_def split: if_splits)

lemma append_cases:
  assumes "append_revision n b s = (x, s')"
  obtains e where "x = Inl e" "s' = s"
  | c where "x = Inr ()" "dict_get (ir_by_continuity_uid s) (bundle_uid b) = Some c" "bundle_revision c = n" "bundle_revision b = n + 1"
      "stable_fields c = stable_fields b" "io_active_riv_id (ib_identity b) = iv_riv_id (ib_active_revision b)"
      "io_status (ib_identity b) = iv_status (ib_active_revision b)" "iv_rio_id (ib_active_revision b) = io_rio_id (ib_identity b)"
      "iv_continuity_uid (ib_active_revision b) = bundle_uid b"
      "iv_attestation_id (ib_active_revision b) \<notin> iv_attestation_id ` set (list_revisions (bundle_uid b) s)"
      "s' = put_bundle b (list_revisions (bundle_uid b) s @ [ib_active_revision b]) s"
proof (cases x)
  case (Inl e)
  then have "s' = s" using assms by (auto simp: append_revision_def Let_def split: option.splits if_splits)
  then show thesis using Inl that(1) by blast
next
  case (Inr u)
  obtain c where c: "dict_get (ir_by_continuity_uid s) (bundle_uid b) = Some c"
    using assms Inr by (auto simp: append_revision_def Let_def split: option.splits)
  have fp: "bundle_fingerprint c = bundle_fingerprint b" if "stable_fields c = stable_fields b" using that by (simp add: stable_fields_def)
  show thesis
    by (rule that(2) [OF _ c]) (use assms Inr c fp in \<open>auto simp: append_revision_def Let_def put_bundle_def split: if_splits\<close>)
qed

lemma put_extends:
  assumes "repo_inv s" and "\<And>c. dict_get (ir_by_continuity_uid s) (bundle_uid b) = Some c \<Longrightarrow> stable_fields b = stable_fields c
      \<and> prefix (list_revisions (bundle_uid b) s) revs \<and> io_status (ib_identity c) \<noteq> ID_REVOKED \<and> bundle_revision c < bundle_revision b"
  shows "repo_extends s (put_bundle b revs s)"
  unfolding repo_extends_def
proof (intro allI impI)
  fix u c assume c: "dict_get (ir_by_continuity_uid s) u = Some c"
  show "\<exists>b'. dict_get (ir_by_continuity_uid (put_bundle b revs s)) u = Some b' \<and> stable_fields b' = stable_fields c
      \<and> prefix (list_revisions u s) (list_revisions u (put_bundle b revs s))
      \<and> (b' = c \<and> list_revisions u (put_bundle b revs s) = list_revisions u s
         \<or> io_status (ib_identity c) \<noteq> ID_REVOKED \<and> bundle_revision c < bundle_revision b')"
  proof (cases "u = bundle_uid b")
    case True
    then show ?thesis using c assms(2) [of c] by (auto simp: put_bundle_def list_revisions_def)
  next
    case False
    then show ?thesis using c by (auto simp: put_bundle_def list_revisions_def)
  qed
qed

section \<open>Concurrent onboarding and revision\<close>

text \<open>
  Any number of services work on one repository.  A revision reads a bundle, checks it and appends; other
  services may act in between, so a step appends on the strength of any bundle read earlier.
\<close>

record identity_system =
  is_repo :: identity_repository
  is_reads :: "identity_bundle list"

definition identity_start :: identity_system where
  "identity_start = \<lparr>is_repo = empty_identity_repository, is_reads = []\<rparr>"

inductive identity_step :: "identity_system \<Rightarrow> identity_system \<Rightarrow> bool" where
  id_save: "new_bundle svc seed claims digest corridor t = Inr b \<Longrightarrow> save_identity b (is_repo y) = (x, s') \<Longrightarrow>
    identity_step y (y\<lparr>is_repo := s'\<rparr>)"
| id_read: "get_by_fingerprint f (is_repo y) = Some b \<Longrightarrow> identity_step y (y\<lparr>is_reads := b # is_reads y\<rparr>)"
| id_append: "b \<in> set (is_reads y) \<Longrightarrow> revision_of b status reason claims t = Inr b' \<Longrightarrow>
    append_revision (bundle_revision b) b' (is_repo y) = (x, s') \<Longrightarrow> identity_step y (y\<lparr>is_repo := s'\<rparr>)"

definition read_ok :: "identity_repository \<Rightarrow> identity_bundle \<Rightarrow> bool" where
  "read_ok s b \<longleftrightarrow> (\<exists>c. dict_get (ir_by_continuity_uid s) (bundle_uid b) = Some c \<and> stable_fields c = stable_fields b
     \<and> bundle_revision b \<le> bundle_revision c \<and> (bundle_revision b = bundle_revision c \<longrightarrow> b = c))"

lemma read_ok_extends: "repo_extends s s' \<Longrightarrow> read_ok s b \<Longrightarrow> read_ok s' b"
  unfolding read_ok_def by (elim exE conjE) (erule (1) repo_extendsE, auto)

definition identity_inv :: "identity_system \<Rightarrow> bool" where
  "identity_inv y \<longleftrightarrow> repo_inv (is_repo y) \<and> (\<forall>b\<in>set (is_reads y). read_ok (is_repo y) b)"

lemma new_bundle_history:
  assumes "new_bundle svc seed claims digest corridor t = Inr b"
  shows "bundle_history b [ib_active_revision b]"
  using assms unfolding new_bundle_def Let_def by (elim rbind_InrE) (auto simp: bundle_history_def)

lemma save_inv:
  assumes "repo_inv s" "new_bundle svc seed claims digest corridor t = Inr b" "save_identity b s = (x, s')"
  shows "repo_inv s'" "repo_extends s s'"
proof -
  have "repo_inv s' \<and> repo_extends s s'"
    using assms(3)
  proof (cases rule: save_cases)
    case 2
    have "bundle_fingerprint c = bundle_fingerprint b \<longleftrightarrow> bundle_uid c = bundle_uid b"
      if "dict_get (ir_by_fingerprint s) (bundle_fingerprint c) = Some c" for c
      using that 2(2,3) repo_invD(5) [OF assms(1) that] by auto
    then show ?thesis using repo_inv_put [OF assms(1) new_bundle_history [OF assms(2)]] put_extends [OF assms(1), of b] 2 by simp
  qed (use assms(1) repo_extends_refl in simp)
  then show "repo_inv s'" "repo_extends s s'" by simp_all
qed

lemma revision_ofD:
  assumes "revision_of b status reason claims t = Inr b'"
  shows "io_status (ib_identity b) \<noteq> ID_REVOKED" "stable_fields b' = stable_fields b" "bundle_revision b' = bundle_revision b + 1"
    "bundle_uid b' = bundle_uid b" "io_rio_id (ib_identity b') = io_rio_id (ib_identity b)"
  using assms unfolding revision_of_def
  by (auto simp: rbind_eq_Inr guard_res_eq_Inr revised_def Let_def stable_fields_def)

lemma history_snoc:
  assumes h: "bundle_history b revs" and st: "io_status (ib_identity b) \<noteq> ID_REVOKED" and n: "bundle_revision b' = bundle_revision b + 1"
    and ids: "io_rio_id (ib_identity b') = io_rio_id (ib_identity b)" "bundle_uid b' = bundle_uid b"
    and r: "io_active_riv_id (ib_identity b') = iv_riv_id (ib_active_revision b')" "io_status (ib_identity b') = iv_status (ib_active_revision b')"
      "iv_rio_id (ib_active_revision b') = io_rio_id (ib_identity b')" "iv_continuity_uid (ib_active_revision b') = bundle_uid b'"
      "iv_attestation_id (ib_active_revision b') \<notin> iv_attestation_id ` set revs"
  shows "bundle_history b' (revs @ [ib_active_revision b'])"
proof -
  have ne: "revs \<noteq> []" and num: "map iv_revision revs = map int [1..<Suc (length revs)]" and l: "last revs = ib_active_revision b"
    using h by (auto simp: bundle_history_def)
  have "iv_revision (last revs) = last (map int [1..<Suc (length revs)])" using num ne by (metis last_map)
  then have "bundle_revision b = int (length revs)" using ne l by (cases revs) auto
  then have m: "map iv_revision (revs @ [ib_active_revision b']) = map int [1..<Suc (length (revs @ [ib_active_revision b']))]"
    using num n by simp
  have "set revs = insert (last revs) (set (butlast revs))"
    using ne by (metis append_butlast_last_id list.simps(15) rotate1.simps(2) set_rotate1)
  then have "\<forall>q\<in>set revs. iv_status q \<noteq> ID_REVOKED" using h st l by (auto simp: bundle_history_def)
  moreover have "distinct (map iv_attestation_id (revs @ [ib_active_revision b']))" using h r(5) by (simp add: bundle_history_def)
  moreover have "\<forall>q\<in>set revs. iv_rio_id q = io_rio_id (ib_identity b') \<and> iv_continuity_uid q = bundle_uid b'"
    using h ids by (simp add: bundle_history_def)
  ultimately show ?thesis using m r unfolding bundle_history_def by simp
qed

lemma append_inv:
  assumes "repo_inv s" "read_ok s b" "revision_of b status reason claims t = Inr b'" "append_revision (bundle_revision b) b' s = (x, s')"
  shows "repo_inv s'" "repo_extends s s'"
proof -
  note rv = revision_ofD [OF assms(3)]
  have "repo_inv s' \<and> repo_extends s s'"
    using assms(4)
  proof (cases rule: append_cases)
    case (2 c)
    have cb: "c = b" using assms(2) 2(2,3) rv(4) by (auto simp: read_ok_def)
    let ?u = "bundle_uid b'" and ?revs = "list_revisions (bundle_uid b') s"
    have h: "bundle_history b ?revs" using history_revisions [OF assms(1) 2(2)] cb by simp
    have fp: "bundle_fingerprint b' = bundle_fingerprint b" using rv(2) by (simp add: stable_fields_def)
    have "bundle_history b' (?revs @ [ib_active_revision b'])"
      by (rule history_snoc [OF h rv(1,3,5,4)]) (use 2 in auto)
    moreover have "bundle_fingerprint d = bundle_fingerprint b' \<longleftrightarrow> bundle_uid d = bundle_uid b'"
      if d: "dict_get (ir_by_fingerprint s) (bundle_fingerprint d) = Some d" for d
    proof -
      have b: "dict_get (ir_by_fingerprint s) (bundle_fingerprint b) = Some b" using repo_invD(2) [OF assms(1) 2(2)] cb by simp
      have "d = b" if "bundle_fingerprint d = bundle_fingerprint b'" using trans [OF d [unfolded that fp, symmetric] b] by (rule option.inject [THEN iffD1])
      moreover have "d = b" if "bundle_uid d = bundle_uid b'" 
        using trans [OF repo_invD(5) [OF assms(1) d, unfolded that, symmetric] 2(2) [unfolded cb]] by (rule option.inject [THEN iffD1])
      ultimately show ?thesis using fp rv(4) by metis
    qed
    ultimately have "repo_inv s'" using repo_inv_put [OF assms(1)] 2(11) by simp
    moreover have "repo_extends s s'" unfolding 2(11)
      by (rule put_extends [OF assms(1)]) (use 2(2) cb rv in auto)
    ultimately show ?thesis by simp
  qed (use assms(1) repo_extends_refl in simp)
  then show "repo_inv s'" "repo_extends s s'" by simp_all
qed

lemma identity_step_inv:
  assumes "identity_step y y'" "identity_inv y"
  shows "identity_inv y' \<and> repo_extends (is_repo y) (is_repo y')"
proof -
  have i: "repo_inv (is_repo y)" "\<And>b. b \<in> set (is_reads y) \<Longrightarrow> read_ok (is_repo y) b" using assms(2) by (auto simp: identity_inv_def)
  have upd: "identity_inv (y\<lparr>is_repo := s'\<rparr>) \<and> repo_extends (is_repo y) s'" if "repo_inv s'" "repo_extends (is_repo y) s'" for s'
    using that i(2) read_ok_extends by (auto simp: identity_inv_def)
  from assms(1) show ?thesis
  proof cases
    case (id_save svc seed claims digest corridor t b x s')
    then show ?thesis using upd save_inv [OF i(1) id_save(2,3)] by simp
  next
    case (id_read f b)
    then have "read_ok (is_repo y) b" using repo_invD(5) [OF i(1)] by (auto simp: read_ok_def get_by_fingerprint_def)
    then show ?thesis using id_read i repo_extends_refl by (auto simp: identity_inv_def)
  next
    case (id_append b status reason claims t b' x s')
    then show ?thesis using upd append_inv [OF i(1) i(2) id_append(3,4)] by simp
  qed
qed

lemma identity_reach: "identity_step\<^sup>*\<^sup>* y y' \<Longrightarrow> identity_inv y \<Longrightarrow> identity_inv y' \<and> repo_extends (is_repo y) (is_repo y')"
proof (induction rule: rtranclp_induct)
  case (step y' y'')
  then show ?case using identity_step_inv [OF step(2)] repo_extends_trans by blast
qed (simp add: repo_extends_refl)

lemma identity_start_inv: "identity_inv identity_start"
  by (simp add: identity_inv_def identity_start_def empty_identity_repository_def repo_inv_def)

section \<open>The service's operations are runs\<close>

lemma onboard_cases:
  assumes "onboard P ks svc seed att corridor at s = (x, s')"
  obtains (raised) e where "x = Inl e" "s' = s"
  | (existing) t n claims digest b where "at = Aware t" "canonical_payload seed = Inr n" "checked_claims P ks n att t = Inr claims"
      "seed_digest svc n = Inr digest" "get_by_fingerprint (hex_of_bytes digest) s = Some b" "x = Inr (b, True)" "s' = s"
  | (created) t n claims digest b where "at = Aware t" "canonical_payload seed = Inr n" "checked_claims P ks n att t = Inr claims"
      "seed_digest svc n = Inr digest" "new_bundle svc n claims digest corridor t = Inr b" "save_identity b s = (Inr (), s')" "x = Inr (b, False)"
proof (cases x)
  case (Inl e)
  have "s' = s" using assms Inl unfolding onboard_def
    by (elim sbindE) (auto simp: slift_eq sbind_def slift_def sret_def split: option.splits sum.splits prod.splits elim: save_cases)
  then show thesis using Inl raised by blast
next
  case (Inr r)
  from assms [unfolded Inr onboard_def] obtain t n claims digest where
    st: "require_aware ''identity timestamp'' at = Inr t" "canonical_payload seed = Inr n" "checked_claims P ks n att t = Inr claims"
      "seed_digest svc n = Inr digest" and
    go: "(case get_by_fingerprint (hex_of_bytes digest) s of Some existing \<Rightarrow> (Inr (existing, True), s)
       | None \<Rightarrow> sbind (slift (new_bundle svc n claims digest corridor t)) (\<lambda>bundle.
               sbind (save_identity bundle) (\<lambda>_. sret (bundle, False))) s) = (Inr r, s')"
    by (elim sbindE) (auto simp: slift_eq)
  have t: "at = Aware t" using st(1) by (simp add: require_aware_def split: datetime.splits)
  show thesis
  proof (cases "get_by_fingerprint (hex_of_bytes digest) s")
    case None
    with go have "sbind (slift (new_bundle svc n claims digest corridor t)) (\<lambda>bundle.
               sbind (save_identity bundle) (\<lambda>_. sret (bundle, False))) s = (Inr r, s')" by simp
    then obtain b where "new_bundle svc n claims digest corridor t = Inr b" "save_identity b s = (Inr (), s')" "r = (b, False)"
      by (elim sbindE) (auto simp: slift_eq sret_eq)
    then show thesis using created [OF t st(2-4)] Inr by simp
  next
    case (Some b)
    then show thesis using existing [OF t st(2-4)] go Inr by simp
  qed
qed

lemma onboard_run:
  assumes "onboard P ks svc seed att corridor at (is_repo y) = (x, s')"
  shows "identity_step\<^sup>*\<^sup>* y (y\<lparr>is_repo := s'\<rparr>)"
  using assms
proof (cases rule: onboard_cases)
  case (created t n claims digest b)
  then show ?thesis using id_save [OF created(5,6)] by blast
qed simp_all

lemma revise_cases:
  assumes "revise P ks svc seed att status reason at s = (x, s')"
  obtains (raised) e where "x = Inl e" "s' = s"
  | (appended) nr claims fp t current b where "prepare_revision P ks svc seed att reason at = Inr (nr, claims, fp, t)"
      "get_by_fingerprint fp s = Some current" "revision_of current status nr claims t = Inr b"
      "append_revision (bundle_revision current) b s = (Inr (), s')" "x = Inr b"
proof (cases "prepare_revision P ks svc seed att reason at")
  case (Inl e)
  then show thesis using assms raised [of e] by (simp add: revise_def sbind_def slift_def)
next
  case (Inr p)
  obtain nr claims fp t where p: "p = (nr, claims, fp, t)" by (cases p) auto
  show thesis
  proof (cases "get_by_fingerprint fp s")
    case None
    then show thesis
      by (intro raised) (use assms Inr p in \<open>auto simp: revise_def sbind_def slift_def\<close>)
  next
    case (Some current)
    show thesis
    proof (cases "revision_of current status nr claims t")
      case (Inl e)
      then show thesis using assms Inr p Some raised [of e] by (simp add: revise_def sbind_def slift_def)
    next
      case r: (Inr b)
      obtain z w where a: "append_revision (bundle_revision current) b s = (z, w)" by (cases "append_revision (bundle_revision current) b s")
      show thesis
      proof (cases z)
        case (Inl e)
        then have "w = s" using a by (auto elim: append_cases)
        then show thesis using assms Inr p Some r a Inl raised [of e] by (simp add: revise_def sbind_def slift_def)
      next
        case z: (Inr u)
        have "x = Inr b" "s' = w" using assms Inr p Some r a z by (simp_all add: revise_def sbind_def slift_def sret_def)
        then show thesis using appended [of nr claims fp t current b] Inr p Some r a z by simp
      qed
    qed
  qed
qed

lemma revise_run:
  assumes "revise P ks svc seed att status reason at (is_repo y) = (x, s')"
  shows "\<exists>y'. identity_step\<^sup>*\<^sup>* y y' \<and> is_repo y' = s'"
  using assms
proof (cases rule: revise_cases)
  case raised
  then show ?thesis by blast
next
  case (appended nr claims fp t current b)
  let ?y = "y\<lparr>is_reads := current # is_reads y\<rparr>"
  have a: "identity_step y ?y" using appended(2) by (rule id_read)
  have "identity_step ?y (?y\<lparr>is_repo := s'\<rparr>)" by (rule id_append [of current]) (use appended in simp_all)
  with a have "identity_step\<^sup>*\<^sup>* y (?y\<lparr>is_repo := s'\<rparr>)" by (meson r_into_rtranclp rtranclp.rtrancl_into_rtrancl)
  then show ?thesis by (intro exI [of _ "?y\<lparr>is_repo := s'\<rparr>"]) simp
qed

lemma claims_sound:
  assumes "checked_claims P ks seed att t = Inr claims"
  shows "claims = env_payload att \<and> (\<exists>v. verify_artifact P ks att (Some IDENTITY_ATTESTATION) False = Inr v \<and> vr_valid v)
    \<and> claim_text claims ''provider_id'' = sd_provider_id seed \<and> py_get (env_protected att) ''iss'' = PyStr (sd_provider_id seed)
    \<and> claim_text claims ''verification_result'' = ''VERIFIED''
    \<and> upper (strip (claim_text claims ''provider_subject_reference'')) = sd_provider_subject_reference seed
    \<and> upper (strip (claim_text claims ''country_code'')) = sd_country_code seed
    \<and> (\<exists>i e. as_int (py_get claims ''issued_at'') = Some i \<and> as_int (py_get claims ''expires_at'') = Some e \<and> i \<le> epoch t \<and> epoch t < e)
    \<and> trust_tier_of (claim_text claims ''trust_tier'') \<noteq> None"
proof -
  obtain v where v: "verify_attestation P ks att (sd_provider_id seed) t = Inr v" "av_claims v = Some claims" "av_valid v"
    and n: "normalize_seed (claim_text claims ''provider_subject_reference'') = Inr (sd_provider_subject_reference seed)"
      "normalize_seed (claim_text claims ''country_code'') = Inr (sd_country_code seed)"
    using assms by (auto simp: checked_claims_def rbind_eq_Inr guard_res_eq_Inr split: option.splits if_splits)
  have s: "upper (strip (claim_text claims ''provider_subject_reference'')) = sd_provider_subject_reference seed"
    "upper (strip (claim_text claims ''country_code'')) = sd_country_code seed"
    using n by (auto simp: normalize_seed_def Let_def split: if_splits)
  from v obtain w where w: "verify_artifact P ks att (Some IDENTITY_ATTESTATION) False = Inr w"
    by (auto simp: verify_attestation_def rbind_eq_Inr)
  have rej: "\<not> av_valid (attestation_rejected r)" for r by (simp add: attestation_rejected_def)
  show ?thesis using v(1) [unfolded verify_attestation_def w rbind_Inr Let_def] v(2,3) s w
    by (auto simp: rej split: if_splits option.splits)
qed

section \<open>Properties\<close>

text \<open>
  C18. An identity's history is exact.  In every state that concurrent onboardings and revisions reach, each
  identity has revisions numbered 1, 2, ..., the last of which is the active one its projection shows; all
  belong to the identity, no attestation is used by two of them, and none but the last revokes it.  The index by
  fingerprint and the index by identifier hold the same bundle.  Every call of the service leads from such a
  state to such a state.\<close>

theorem identity_history_exact:
  assumes "identity_step\<^sup>*\<^sup>* identity_start y"
  shows "(\<forall>u b. get_by_continuity_uid u (is_repo y) = Some b \<longrightarrow> get_by_fingerprint (bundle_fingerprint b) (is_repo y) = Some b
      \<and> last (list_revisions u (is_repo y)) = ib_active_revision b
      \<and> map iv_revision (list_revisions u (is_repo y)) = map int [1..<Suc (length (list_revisions u (is_repo y)))]
      \<and> distinct (map iv_attestation_id (list_revisions u (is_repo y)))
      \<and> (\<forall>r\<in>set (list_revisions u (is_repo y)). iv_continuity_uid r = u)
      \<and> (\<forall>r\<in>set (butlast (list_revisions u (is_repo y))). iv_status r \<noteq> ID_REVOKED)
      \<and> io_status (ib_identity b) = iv_status (ib_active_revision b))
    \<and> (\<forall>P ks svc seed att corridor at x s'. onboard P ks svc seed att corridor at (is_repo y) = (x, s') \<longrightarrow>
         (\<exists>y'. identity_step\<^sup>*\<^sup>* identity_start y' \<and> is_repo y' = s'))
    \<and> (\<forall>P ks svc seed att status reason at x s'. revise P ks svc seed att status reason at (is_repo y) = (x, s') \<longrightarrow>
         (\<exists>y'. identity_step\<^sup>*\<^sup>* identity_start y' \<and> is_repo y' = s'))"
proof -
  have inv: "repo_inv (is_repo y)" using identity_reach [OF assms identity_start_inv] by (simp add: identity_inv_def)
  have "\<exists>y'. identity_step\<^sup>*\<^sup>* identity_start y' \<and> is_repo y' = s'"
    if "onboard P ks svc seed att corridor at (is_repo y) = (x, s')" for P ks svc seed att corridor at x s'
    using rtranclp_trans [OF assms onboard_run [OF that]] by (intro exI [of _ "y\<lparr>is_repo := s'\<rparr>"]) simp
  moreover have "\<exists>y'. identity_step\<^sup>*\<^sup>* identity_start y' \<and> is_repo y' = s'"
    if "revise P ks svc seed att status reason at (is_repo y) = (x, s')" for P ks svc seed att status reason at x s'
    using revise_run [OF that] rtranclp_trans [OF assms] by blast
  moreover have "get_by_fingerprint (bundle_fingerprint b) (is_repo y) = Some b \<and> bundle_uid b = u \<and> bundle_history b (list_revisions u (is_repo y))"
    if "get_by_continuity_uid u (is_repo y) = Some b" for u b
    using that repo_invD(1,2) [OF inv] history_revisions [OF inv] by (simp add: get_by_continuity_uid_def get_by_fingerprint_def)
  ultimately show ?thesis by (simp add: bundle_history_def)
qed

text \<open>
  C19. Anchors are immutable and revocation is final.  Whatever happens after an identity exists, its genesis,
  identifiers, corridor and creation time stay as they are and its history only grows; once it is revoked, its
  bundle and its history never change again, even by services that read the identity before the revocation.\<close>

theorem revocation_final:
  assumes "identity_step\<^sup>*\<^sup>* identity_start y" "identity_step\<^sup>*\<^sup>* y y'" "get_by_continuity_uid u (is_repo y) = Some b"
  shows "\<exists>b'. get_by_continuity_uid u (is_repo y') = Some b' \<and> stable_fields b' = stable_fields b
    \<and> prefix (list_revisions u (is_repo y)) (list_revisions u (is_repo y'))
    \<and> (io_status (ib_identity b) = ID_REVOKED \<longrightarrow> b' = b \<and> list_revisions u (is_repo y') = list_revisions u (is_repo y))"
proof -
  have "identity_inv y" using identity_reach [OF assms(1) identity_start_inv] by blast
  then have e: "repo_extends (is_repo y) (is_repo y')" using identity_reach [OF assms(2)] by blast
  show ?thesis using repo_extendsE [OF e] assms(3) unfolding get_by_continuity_uid_def by metis
qed

text \<open>
  Onboarding is deterministic.  Onboarding succeeds only on an institution's verified, unexpired attestation
  of the very subject, and stores the identity.  From then on, whatever happens, any valid attestation of the
  same subject, however its seed is spelled and at whatever time, finds the same identity and changes nothing.\<close>

theorem onboarding_deterministic:
  assumes "identity_step\<^sup>*\<^sup>* identity_start y" "onboard P ks svc seed att corridor at (is_repo y) = (Inr (b, e), s')"
    and "identity_step\<^sup>*\<^sup>* (y\<lparr>is_repo := s'\<rparr>) y'" "canonical_payload seed' = canonical_payload seed"
    and "canonical_payload seed' = Inr n" "checked_claims P' ks' n att' t' = Inr claims'"
  shows "\<exists>b'. onboard P' ks' svc seed' att' corridor' (Aware t') (is_repo y') = (Inr (b', True), is_repo y')
      \<and> stable_fields b' = stable_fields b
    \<and> (\<exists>t v i x. at = Aware t \<and> verify_artifact P ks att (Some IDENTITY_ATTESTATION) False = Inr v \<and> vr_valid v
        \<and> py_get (env_protected att) ''iss'' = PyStr (sd_provider_id n)
        \<and> upper (strip (claim_text (env_payload att) ''provider_subject_reference'')) = sd_provider_subject_reference n
        \<and> as_int (py_get (env_payload att) ''issued_at'') = Some i \<and> as_int (py_get (env_payload att) ''expires_at'') = Some x
        \<and> i \<le> epoch t \<and> epoch t < x)"
proof -
  have inv: "identity_inv y" using identity_reach [OF assms(1) identity_start_inv] by blast
  have inv': "identity_inv (y\<lparr>is_repo := s'\<rparr>)" using identity_reach [OF onboard_run [OF assms(2)] inv] by blast
  have ext: "repo_extends s' (is_repo y')" "identity_inv y'" using identity_reach [OF assms(3) inv'] by simp_all
  obtain t n0 claims digest where o: "at = Aware t" "canonical_payload seed = Inr n0" "checked_claims P ks n0 att t = Inr claims"
    "seed_digest svc n0 = Inr digest" "dict_get (ir_by_fingerprint s') (hex_of_bytes digest) = Some b"
    using assms(2)
  proof (cases rule: onboard_cases)
    case (existing t n claims digest c)
    then show ?thesis using that by (simp add: get_by_fingerprint_def)
  next
    case (created t n claims digest c)
    have "bundle_fingerprint c = hex_of_bytes digest" using created(5) unfolding new_bundle_def Let_def by (elim rbind_InrE) auto
    then have "dict_get (ir_by_fingerprint s') (hex_of_bytes digest) = Some c"
      using created(6) by (auto elim!: save_cases simp: put_bundle_def)
    then show ?thesis using that created by simp
  qed simp
  have n: "n0 = n" using o(2) assms(4,5) by simp
  have r: "repo_inv s'" using inv' by (simp add: identity_inv_def)
  obtain b' where b': "dict_get (ir_by_continuity_uid (is_repo y')) (bundle_uid b) = Some b'" "stable_fields b' = stable_fields b"
    using ext(1) repo_invD(5) [OF r o(5)] by (rule repo_extendsE)
  have "bundle_fingerprint b' = hex_of_bytes digest" using b'(2) repo_invD(4) [OF r o(5)] by (simp add: stable_fields_def)
  then have "get_by_fingerprint (hex_of_bytes digest) (is_repo y') = Some b'"
    using repo_invD(2) [OF _ b'(1)] ext(2) by (simp add: identity_inv_def get_by_fingerprint_def)
  then have "onboard P' ks' svc seed' att' corridor' (Aware t') (is_repo y') = (Inr (b', True), is_repo y')"
    using assms(5,6) o(4) n by (simp add: onboard_def sbind_def slift_def)
  moreover note claims_sound [OF o(3)]
  ultimately show ?thesis using b'(2) o(1) n by blast
qed

end
