(* ===== verification/Identity_Run.thy ===== *)
theory Identity_Run
  imports Identity_Properties Acceptance
begin

text \<open>
  An identity that is onboarded from one attestation and revoked on a second one: the hypotheses of the identity
  properties are met by a concrete run.
\<close>

definition provider_keys :: key_provider where
  "provider_keys = \<lparr>kp_records = [(''ki'', (demo_key ''ki'' IDENTITY_SIGNING)\<lparr>kr_owner_id := ''PROV''\<rparr>)],
     kp_private_keys = [(''ki'', ''si'')]\<rparr>"

lemma provider_keys_inv: "kp_inv demo_platform provider_keys"
  by (auto simp: kp_defs provider_keys_def demo_key_def from_epoch_def split: if_splits)

lemma provider_can_sign: "can_sign demo_platform provider_keys ''ki'' IDENTITY_SIGNING (from_epoch 10)"
  by (simp add: can_sign_def permits_signing_at_def from_epoch_def provider_keys_def demo_key_def get_key_record_def)

definition subject_claims :: "string \<Rightarrow> pyval" where
  "subject_claims aid = obj [(''attestation_id'', PyStr aid), (''provider_id'', PyStr ''PROV''),
     (''provider_subject_reference'', PyStr '' sub-1''), (''verification_reference'', PyStr ''VR''), (''country_code'', PyStr ''ke''),
     (''verification_result'', PyStr ''VERIFIED''), (''trust_tier'', PyStr ''T2''), (''evidence_sha256'', PyStr (replicate 64 CHR ''a'')),
     (''issued_at'', PyInt 5), (''expires_at'', PyInt 100)]"

definition subject_seed :: identity_seed where
  "subject_seed = \<lparr>sd_provider_id = ''PROV'', sd_provider_subject_reference = ''SUB-1'', sd_country_code = ''KE''\<rparr>"

definition spelled_seed :: identity_seed where
  "spelled_seed = \<lparr>sd_provider_id = '' prov'', sd_provider_subject_reference = ''sub-1 '', sd_country_code = ''Ke''\<rparr>"

lemma seeds_normal: "canonical_payload subject_seed = Inr subject_seed" "canonical_payload spelled_seed = Inr subject_seed"
  by code_simp+

definition subject_service :: continuity_service where
  "subject_service = \<lparr>cn_continuity_key_id = ''CK'', cn_secrets = [(''CK'', replicate 32 CHR ''s'')]\<rparr>"

lemma subject_claims_accepted:
  assumes "aid \<in> {''A1'', ''A2''}"
  shows "find (\<lambda>k. \<not> claim_ok (freeze (subject_claims aid)) k) required_claims = None"
    "claim_text (freeze (subject_claims aid)) ''provider_id'' = ''PROV''"
    "claim_text (freeze (subject_claims aid)) ''verification_result'' = ''VERIFIED''"
    "trust_tier_of (claim_text (freeze (subject_claims aid)) ''trust_tier'') = Some T2"
    "sha256_pattern (claim_text (freeze (subject_claims aid)) ''evidence_sha256'')"
    "as_int (py_get (freeze (subject_claims aid)) ''issued_at'') = Some 5"
    "as_int (py_get (freeze (subject_claims aid)) ''expires_at'') = Some 100"
    "normalize_seed (claim_text (freeze (subject_claims aid)) ''provider_subject_reference'') = Inr ''SUB-1''"
    "normalize_seed (claim_text (freeze (subject_claims aid)) ''country_code'') = Inr ''KE''"
    "claim_text (freeze (subject_claims aid)) ''attestation_id'' = aid"
  using assms by (elim insertE emptyE; simp; code_simp)+

lemma subject_attested:
  assumes "aid \<in> {''A1'', ''A2''}"
  obtains att where "checked_claims demo_platform provider_keys subject_seed att (from_epoch 20) = Inr (freeze (subject_claims aid))"
proof -
  have "plain (subject_claims aid)" by (simp add: subject_claims_def plain_obj)
  then obtain att where sg: "sign_artifact demo_platform provider_keys IDENTITY_ATTESTATION (subject_claims aid) ''ki'' (Aware (from_epoch 10)) = Inr att"
    using can_sign_ok [of demo_platform provider_keys "''ki''" IDENTITY_ATTESTATION "from_epoch 10"] provider_can_sign by auto
  note v = signed_now_verifies [OF demo_correct provider_keys_inv sg]
  from sg have p: "env_payload att = freeze (subject_claims aid)" and i: "py_get (env_protected att) ''iss'' = PyStr ''PROV''"
    by (auto elim!: sign_artifactD simp: protected_header_def provider_keys_def get_key_record_def py_get_def)
  have "verify_attestation demo_platform provider_keys att ''PROV'' (from_epoch 20)
      = Inr \<lparr>av_valid = True, av_reason = ''VALID'', av_claims = Some (freeze (subject_claims aid))\<rparr>"
    using v i by (simp add: verify_attestation_def Let_def p subject_claims_accepted [OF assms])
  then have "checked_claims demo_platform provider_keys subject_seed att (from_epoch 20) = Inr (freeze (subject_claims aid))"
    by (simp add: checked_claims_def subject_seed_def subject_claims_accepted [OF assms])
  then show thesis by (rule that)
qed

lemma subject_digest: "\<exists>d. seed_digest subject_service subject_seed = Inr d"
proof -
  have "plain (seed_payload subject_seed)" by (simp add: seed_payload_def plain_obj)
  then show ?thesis by (simp add: canonical_plain seed_digest_def derive_def subject_service_def)
qed


lemma subject_onboarded:
  assumes "checked_claims demo_platform provider_keys subject_seed att (from_epoch 20) = Inr (freeze (subject_claims ''A1''))"
    and "seed_digest subject_service subject_seed = Inr d"
  obtains b where "onboard demo_platform provider_keys subject_service spelled_seed att ''ke-ug'' (Aware (from_epoch 20)) empty_identity_repository
      = (Inr (b, False), put_bundle b [ib_active_revision b] empty_identity_repository)"
    "bundle_revision b = 1" "iv_attestation_id (ib_active_revision b) = ''A1''" "io_status (ib_identity b) = ID_ACTIVE"
    "bundle_fingerprint b = hex_of_bytes d"
proof -
  have c: "normalize_seed ''ke-ug'' = Inr ''KE-UG''" by code_simp
  note cl = subject_claims_accepted [of "''A1''", simplified]
  obtain b where b: "new_bundle subject_service subject_seed (freeze (subject_claims ''A1'')) d ''ke-ug'' (from_epoch 20) = Inr b"
    and p: "bundle_revision b = 1" "iv_attestation_id (ib_active_revision b) = ''A1''" "io_status (ib_identity b) = ID_ACTIVE"
      "bundle_fingerprint b = hex_of_bytes d"
    by (simp add: new_bundle_def Let_def c tier_claim_def cl)
  have "save_identity b empty_identity_repository = (Inr (), put_bundle b [ib_active_revision b] empty_identity_repository)"
    by (simp add: save_identity_def put_bundle_def empty_identity_repository_def)
  then have "onboard demo_platform provider_keys subject_service spelled_seed att ''ke-ug'' (Aware (from_epoch 20)) empty_identity_repository
      = (Inr (b, False), put_bundle b [ib_active_revision b] empty_identity_repository)"
    using assms b by (simp add: onboard_def sbind_def slift_def sret_def require_aware_def seeds_normal get_by_fingerprint_def
        empty_identity_repository_def)
  then show thesis using p by (rule that)
qed

lemma subject_revoked:
  assumes "checked_claims demo_platform provider_keys subject_seed att (from_epoch 20) = Inr (freeze (subject_claims ''A2''))"
    and "seed_digest subject_service subject_seed = Inr d"
    and "bundle_revision b = 1" "iv_attestation_id (ib_active_revision b) = ''A1''" "io_status (ib_identity b) = ID_ACTIVE"
      "bundle_fingerprint b = hex_of_bytes d"
  obtains b' where "revise demo_platform provider_keys subject_service subject_seed att ID_REVOKED ''fraud'' (Aware (from_epoch 20))
        (put_bundle b [ib_active_revision b] empty_identity_repository)
      = (Inr b', put_bundle b' [ib_active_revision b, ib_active_revision b'] (put_bundle b [ib_active_revision b] empty_identity_repository))"
    "io_status (ib_identity b') = ID_REVOKED" "bundle_revision b' = 2" "bundle_uid b' = bundle_uid b"
proof -
  have c: "normalize_seed ''fraud'' = Inr ''FRAUD''" by code_simp
  note cl = subject_claims_accepted [of "''A2''", simplified]
  let ?s = "put_bundle b [ib_active_revision b] empty_identity_repository"
  obtain b' where b': "revision_of b ID_REVOKED ''FRAUD'' (freeze (subject_claims ''A2'')) (from_epoch 20) = Inr b'"
    and r: "b' = revised b ID_REVOKED ''FRAUD'' T2 ''A2'' (from_epoch 20)"
    using assms(5) by (simp add: revision_of_def tier_claim_def cl guard_res_def)
  note n = revision_ofD [OF b']
  have fp: "bundle_fingerprint b' = bundle_fingerprint b" using n(2) by (simp add: stable_fields_def)
  have l: "list_revisions (bundle_uid b') ?s = [ib_active_revision b]" using n(4) by (simp add: list_revisions_def put_bundle_def)
  have "append_revision 1 b' ?s = (Inr (), put_bundle b' [ib_active_revision b, ib_active_revision b'] ?s)"
    using n(2,4) l fp assms(3,4) unfolding append_revision_def Let_def
    by (simp add: r revised_def Let_def put_bundle_def empty_identity_repository_def stable_fields_def)
  moreover have "get_by_fingerprint (hex_of_bytes d) ?s = Some b"
    using assms(6) by (simp add: get_by_fingerprint_def put_bundle_def)
  ultimately have "revise demo_platform provider_keys subject_service subject_seed att ID_REVOKED ''fraud'' (Aware (from_epoch 20)) ?s
      = (Inr b', put_bundle b' [ib_active_revision b, ib_active_revision b'] ?s)"
    using assms(1-3) b' by (simp add: revise_def prepare_revision_def c seeds_normal sbind_def slift_def sret_def require_aware_def)
  moreover have "io_status (ib_identity b') = ID_REVOKED" "bundle_revision b' = 2"
    using assms(3) by (simp_all add: r revised_def Let_def)
  ultimately show thesis using n(4) that by blast
qed


text \<open>The whole run: onboarded, then revoked.\<close>

lemma subject_run:
  obtains att b b' y y' where
    "onboard demo_platform provider_keys subject_service spelled_seed att ''ke-ug'' (Aware (from_epoch 20)) (is_repo identity_start) = (Inr (b, False), is_repo y)"
    "y = identity_start\<lparr>is_repo := is_repo y\<rparr>" "identity_step\<^sup>*\<^sup>* identity_start y" "identity_step\<^sup>*\<^sup>* y y'"
    "checked_claims demo_platform provider_keys subject_seed att (from_epoch 20) = Inr (freeze (subject_claims ''A1''))"
    "get_by_continuity_uid (bundle_uid b) (is_repo y') = Some b'" "io_status (ib_identity b') = ID_REVOKED"
    "list_revisions (bundle_uid b) (is_repo y') = [ib_active_revision b, ib_active_revision b']"
proof -
  obtain a1 where a1: "checked_claims demo_platform provider_keys subject_seed a1 (from_epoch 20) = Inr (freeze (subject_claims ''A1''))"
    by (rule subject_attested [of "''A1''"]) simp
  obtain a2 where a2: "checked_claims demo_platform provider_keys subject_seed a2 (from_epoch 20) = Inr (freeze (subject_claims ''A2''))"
    by (rule subject_attested [of "''A2''"]) simp
  obtain d where d: "seed_digest subject_service subject_seed = Inr d" using subject_digest by blast
  obtain b where b: "onboard demo_platform provider_keys subject_service spelled_seed a1 ''ke-ug'' (Aware (from_epoch 20)) empty_identity_repository
      = (Inr (b, False), put_bundle b [ib_active_revision b] empty_identity_repository)"
    "bundle_revision b = 1" "iv_attestation_id (ib_active_revision b) = ''A1''" "io_status (ib_identity b) = ID_ACTIVE"
    "bundle_fingerprint b = hex_of_bytes d" by (rule subject_onboarded [OF a1 d])
  let ?s = "put_bundle b [ib_active_revision b] empty_identity_repository"
  obtain b' where b': "revise demo_platform provider_keys subject_service subject_seed a2 ID_REVOKED ''fraud'' (Aware (from_epoch 20)) ?s
      = (Inr b', put_bundle b' [ib_active_revision b, ib_active_revision b'] ?s)"
    "io_status (ib_identity b') = ID_REVOKED" "bundle_revision b' = 2" "bundle_uid b' = bundle_uid b"
    by (rule subject_revoked [OF a2 d b(2-5)])
  let ?y = "identity_start\<lparr>is_repo := ?s\<rparr>"
  have e: "is_repo identity_start = empty_identity_repository" by (simp add: identity_start_def)
  have r1: "identity_step\<^sup>*\<^sup>* identity_start ?y"
    using onboard_run [of demo_platform provider_keys subject_service spelled_seed a1 "''ke-ug''" "Aware (from_epoch 20)" identity_start] b(1) e by simp
  obtain y' where r2: "identity_step\<^sup>*\<^sup>* ?y y'" "is_repo y' = put_bundle b' [ib_active_revision b, ib_active_revision b'] ?s"
    using revise_run [of demo_platform provider_keys subject_service subject_seed a2 ID_REVOKED "''fraud''" "Aware (from_epoch 20)" ?y] b'(1) by auto
  show thesis
    by (rule that [of a1 b ?y y' b'])
      (use a1 b(1) b'(2,4) r1 r2 e in \<open>simp_all add: get_by_continuity_uid_def list_revisions_def put_bundle_def\<close>)
qed

theorem identity_history_exact_witness:
  "\<exists>y u. identity_step\<^sup>*\<^sup>* identity_start y \<and> length (list_revisions u (is_repo y)) = 2
     \<and> map iv_revision (list_revisions u (is_repo y)) = [1, 2] \<and> distinct (map iv_attestation_id (list_revisions u (is_repo y)))"
proof -
  obtain att b b' y y' where r: "identity_step\<^sup>*\<^sup>* identity_start y" "identity_step\<^sup>*\<^sup>* y y'"
    "get_by_continuity_uid (bundle_uid b) (is_repo y') = Some b'" and
    l: "list_revisions (bundle_uid b) (is_repo y') = [ib_active_revision b, ib_active_revision b']"
    by (rule subject_run) blast
  have s: "identity_step\<^sup>*\<^sup>* identity_start y'" using r(1,2) by simp
  have "map iv_revision (list_revisions (bundle_uid b) (is_repo y')) = map int [1..<Suc (length (list_revisions (bundle_uid b) (is_repo y')))]"
    "distinct (map iv_attestation_id (list_revisions (bundle_uid b) (is_repo y')))" 
    using identity_history_exact [OF s, THEN conjunct1, rule_format, OF r(3)] by simp_all
  then have "map iv_revision (list_revisions (bundle_uid b) (is_repo y')) = [1, 2]"
    "distinct (map iv_attestation_id (list_revisions (bundle_uid b) (is_repo y')))" by (simp_all add: l upt_rec)
  with s l show ?thesis by (intro exI [of _ y'] exI [of _ "bundle_uid b"]) simp
qed

theorem revocation_final_witness:
  "\<exists>y y' u b. identity_step\<^sup>*\<^sup>* identity_start y \<and> identity_step\<^sup>*\<^sup>* y y' \<and> get_by_continuity_uid u (is_repo y) = Some b
     \<and> (\<exists>b'. get_by_continuity_uid u (is_repo y') = Some b' \<and> stable_fields b' = stable_fields b
        \<and> io_status (ib_identity b') = ID_REVOKED)"
proof -
  obtain att b b' y y' where r: "onboard demo_platform provider_keys subject_service spelled_seed att ''ke-ug'' (Aware (from_epoch 20)) (is_repo identity_start) = (Inr (b, False), is_repo y)"
    "identity_step\<^sup>*\<^sup>* identity_start y" "identity_step\<^sup>*\<^sup>* y y'"
    "get_by_continuity_uid (bundle_uid b) (is_repo y') = Some b'" "io_status (ib_identity b') = ID_REVOKED"
    by (rule subject_run) blast
  have g: "get_by_continuity_uid (bundle_uid b) (is_repo y) = Some b"
    using r(1) by (auto elim!: onboard_cases save_cases simp: put_bundle_def get_by_continuity_uid_def)
  have "stable_fields b' = stable_fields b" using revocation_final [OF r(2,3) g] r(4) by auto
  with g r(2-5) show ?thesis by blast
qed

theorem onboarding_deterministic_witness:
  "\<exists>y y' att b e s'. identity_step\<^sup>*\<^sup>* identity_start y
     \<and> onboard demo_platform provider_keys subject_service spelled_seed att ''ke-ug'' (Aware (from_epoch 20)) (is_repo y) = (Inr (b, e), s')
     \<and> identity_step\<^sup>*\<^sup>* (y\<lparr>is_repo := s'\<rparr>) y'
     \<and> (\<exists>b'. onboard demo_platform provider_keys subject_service subject_seed att ''ug'' (Aware (from_epoch 20)) (is_repo y')
          = (Inr (b', True), is_repo y') \<and> stable_fields b' = stable_fields b)"
proof -
  obtain att b b' y y' where r: "onboard demo_platform provider_keys subject_service spelled_seed att ''ke-ug'' (Aware (from_epoch 20)) (is_repo identity_start) = (Inr (b, False), is_repo y)"
    "y = identity_start\<lparr>is_repo := is_repo y\<rparr>" "identity_step\<^sup>*\<^sup>* y y'"
    "checked_claims demo_platform provider_keys subject_seed att (from_epoch 20) = Inr (freeze (subject_claims ''A1''))"
    by (rule subject_run) blast
  have y: "identity_step\<^sup>*\<^sup>* (identity_start\<lparr>is_repo := is_repo y\<rparr>) y'" using r(2,3) by simp
  have c: "canonical_payload subject_seed = canonical_payload spelled_seed" by (simp add: seeds_normal)
  show ?thesis
    using onboarding_deterministic [OF rtranclp.rtrancl_refl r(1) y c seeds_normal(1) r(4), of "''ug''"] r(1) y
    by (intro exI [of _ identity_start] exI [of _ y'] exI [of _ att] exI [of _ b] exI [of _ False] exI [of _ "is_repo y"]) auto
qed

end
