(* ===== verification/History.thy ===== *)
theory History
  imports Projection Identity
begin

text \<open>
  Transaction history (\<^verbatim>\<open>railone_history\<close>): the indexer that projects a signed UTT for the subjects it
  concerns, the store of projections, links and access audits, and the service that answers permissioned
  queries page by page.  What the indexer reads from a signed payload stays dynamic (\<^typ>\<open>pyval\<close>).  A Python set
  is a list without duplicates; nothing below depends on its order.
\<close>

section \<open>Records\<close>

datatype subject_kind = SUBJ_CONTINUITY_UID | SUBJ_MERCHANT_ID | SUBJ_BRANCH_ID | SUBJ_PARTNER_ID

fun subject_kind_value :: "subject_kind \<Rightarrow> string" where
  "subject_kind_value SUBJ_CONTINUITY_UID = ''CONTINUITY_UID''"
| "subject_kind_value SUBJ_MERCHANT_ID = ''MERCHANT_ID''"
| "subject_kind_value SUBJ_BRANCH_ID = ''BRANCH_ID''"
| "subject_kind_value SUBJ_PARTNER_ID = ''PARTNER_ID''"

datatype transaction_role = TX_PAYER | TX_BENEFICIARY | TX_AUTHORIZER | TX_ORIGIN_MERCHANT | TX_ORIGIN_BRANCH | TX_ORIGIN_PARTNER

fun transaction_role_value :: "transaction_role \<Rightarrow> string" where
  "transaction_role_value TX_PAYER = ''PAYER''"
| "transaction_role_value TX_BENEFICIARY = ''BENEFICIARY''"
| "transaction_role_value TX_AUTHORIZER = ''AUTHORIZER''"
| "transaction_role_value TX_ORIGIN_MERCHANT = ''ORIGIN_MERCHANT''"
| "transaction_role_value TX_ORIGIN_BRANCH = ''ORIGIN_BRANCH''"
| "transaction_role_value TX_ORIGIN_PARTNER = ''ORIGIN_PARTNER''"

datatype access_outcome = ACCESS_ALLOWED | ACCESS_DENIED

definition read_any_permission :: string where
  "read_any_permission = ''railone.transactions.read:any''"

record utt_projection =
  up_utt_id :: string
  up_utt_payload_sha256 :: pyval
  up_quote_id :: pyval
  up_purpose :: pyval
  up_context_type :: pyval
  up_amount_minor :: pyval
  up_currency_from :: pyval
  up_receive_amount_minor :: pyval
  up_currency_to :: pyval
  up_commercial_state :: pyval
  up_accepted_at :: instant
  up_indexed_at :: instant

record subject_link =
  sl_utt_id :: string
  sl_subject_kind :: subject_kind
  sl_subject_id :: string
  sl_roles :: "transaction_role list"
  sl_linked_at :: instant

record read_context =
  rx_principal_id :: string
  rx_continuity_uid :: "string option"
  rx_merchant_ids :: "string list"
  rx_branch_ids :: "string list"
  rx_partner_ids :: "string list"
  rx_permissions :: "string list"
  rx_access_reason :: "string option"

record history_entry =
  he_transaction :: utt_projection
  he_matched_roles :: "transaction_role list"

record history_page =
  hp_entries :: "history_entry list"
  hp_next_cursor :: "string option"

record access_audit =
  aa_audit_id :: string
  aa_principal_id :: string
  aa_target_kind :: string
  aa_target_id :: string
  aa_outcome :: access_outcome
  aa_access_reason :: string
  aa_occurred_at :: instant

definition utc_datetime_from_epoch :: "pyval \<Rightarrow> instant res" where
  "utc_datetime_from_epoch value =
     (case strict_int value of
        None \<Rightarrow> Inl (Raise TypeError ''epoch timestamp must be an integer'')
      | Some n \<Rightarrow> fromtimestamp n)"

section \<open>The store\<close>

type_synonym subject = "subject_kind \<times> string"

record history_store =
  hs_projections :: "(string, utt_projection) dict"
  hs_links_by_utt :: "(string, subject_link list) dict"
  hs_utts_by_subject :: "(subject, string list) dict"
  hs_audits :: "access_audit list"

definition empty_history_store :: history_store where
  "empty_history_store = \<lparr>hs_projections = [], hs_links_by_utt = [], hs_utts_by_subject = [], hs_audits = []\<rparr>"

abbreviation link_subject :: "subject_link \<Rightarrow> subject" where
  "link_subject l \<equiv> (sl_subject_kind l, sl_subject_id l)"

definition set_add :: "'a \<Rightarrow> 'a list \<Rightarrow> 'a list" where
  "set_add x xs = (if x \<in> set xs then xs else xs @ [x])"

definition dict_members :: "('k, 'a list) dict \<Rightarrow> 'k \<Rightarrow> 'a list" where
  \<comment> \<open>\<^verbatim>\<open>d.get(k, set())\<close>\<close>
  "dict_members d k = (case dict_get d k of None \<Rightarrow> [] | Some xs \<Rightarrow> xs)"

definition dict_add :: "'k \<Rightarrow> 'a \<Rightarrow> ('k, 'a list) dict \<Rightarrow> ('k, 'a list) dict" where
  \<comment> \<open>\<^verbatim>\<open>d.setdefault(k, set()).add(x)\<close>\<close>
  "dict_add k x d = dict_set k (set_add x (dict_members d k)) d"

definition commit_projection :: "utt_projection \<Rightarrow> subject_link list \<Rightarrow> (history_store, utt_projection) st" where
  "commit_projection p links s =
     (case dict_get (hs_projections s) (up_utt_id p) of
        Some existing \<Rightarrow>
          if up_utt_payload_sha256 existing \<noteq> up_utt_payload_sha256 p
          then (Inl (Raise RuntimeError ''UTT transaction projection conflict''), s)
          else (Inr existing, s)
      | None \<Rightarrow>
          if links = [] then (Inl (Raise ValueError ''UTT transaction projection requires at least one subject''), s)
          else if \<exists>l\<in>set links. sl_utt_id l \<noteq> up_utt_id p
          then (Inl (Raise ValueError ''transaction link UTT does not match projection''), s)
          else if length (remdups (map link_subject links)) \<noteq> length links
          then (Inl (Raise ValueError ''transaction subject links must be aggregated''), s)
          else (Inr p, s\<lparr>hs_projections := dict_set (up_utt_id p) p (hs_projections s),
                  hs_links_by_utt := dict_set (up_utt_id p) links (hs_links_by_utt s),
                  hs_utts_by_subject := fold (\<lambda>l. dict_add (link_subject l) (up_utt_id p)) links (hs_utts_by_subject s)\<rparr>))"

definition require_projection :: "string \<Rightarrow> history_store \<Rightarrow> utt_projection res" where
  "require_projection utt_id s =
     (case dict_get (hs_projections s) utt_id of
        None \<Rightarrow> Inl (Raise TransactionProjectionNotFoundError (''transaction projection not found: '' @ utt_id))
      | Some p \<Rightarrow> Inr p)"

definition dict_item :: "(string, 'v) dict \<Rightarrow> string \<Rightarrow> 'v res" where
  \<comment> \<open>\<^verbatim>\<open>d[k]\<close>\<close>
  "dict_item d k = (case dict_get d k of None \<Rightarrow> Inl (Raise KeyError k) | Some v \<Rightarrow> Inr v)"

definition links_for_utt :: "string \<Rightarrow> history_store \<Rightarrow> subject_link list res" where
  "links_for_utt utt_id s = rbind (require_projection utt_id s) (\<lambda>_. dict_item (hs_links_by_utt s) utt_id)"

definition subject_row :: "subject_kind \<Rightarrow> string \<Rightarrow> history_store \<Rightarrow> string \<Rightarrow> (utt_projection \<times> subject_link) res" where
  "subject_row kind subject_id s utt_id =
     rbind (dict_item (hs_projections s) utt_id) (\<lambda>p.
     rbind (dict_item (hs_links_by_utt s) utt_id) (\<lambda>links.
     case find (\<lambda>l. sl_subject_kind l = kind \<and> sl_subject_id l = subject_id) links of
       None \<Rightarrow> Inl (Raise OtherException ''StopIteration'')
     | Some l \<Rightarrow> Inr (p, l)))"

definition sort_reverse :: "('a \<Rightarrow> 'k :: linorder) \<Rightarrow> 'a list \<Rightarrow> 'a list" where
  \<comment> \<open>\<^verbatim>\<open>xs.sort(key=k, reverse=True)\<close>: stable\<close>
  "sort_reverse k xs = rev (sort_key k (rev xs))"

definition list_for_subject :: "subject_kind \<Rightarrow> string \<Rightarrow> history_store \<Rightarrow> (utt_projection \<times> subject_link) list res" where
  "list_for_subject kind subject_id s =
     rbind (rmap (subject_row kind subject_id s) (dict_members (hs_utts_by_subject s) (kind, subject_id))) (\<lambda>rows.
     Inr (sort_reverse (\<lambda>row. (up_accepted_at (fst row), up_utt_id (fst row))) rows))"

definition append_audit :: "access_audit \<Rightarrow> (history_store, unit) st" where
  "append_audit a s =
     (if \<exists>b\<in>set (hs_audits s). aa_audit_id b = aa_audit_id a
      then (Inl (Raise RuntimeError ''transaction access audit identifier collision''), s)
      else (Inr (), s\<lparr>hs_audits := hs_audits s @ [a]\<rparr>))"

section \<open>The indexer\<close>

type_synonym subject_roles = "(subject, transaction_role list) dict"

definition text_value :: "string \<Rightarrow> pyval \<Rightarrow> string res" where
  \<comment> \<open>\<^verbatim>\<open>require_text(name, value)\<close> on a dynamic value\<close>
  "text_value name v = (case v of PyStr s \<Rightarrow> require_text name s | _ \<Rightarrow> Inl (Raise ValueError (name @ '' is required'')))"

definition require_identity :: "identity_repository \<Rightarrow> pyval \<Rightarrow> unit res" where
  "require_identity identities v =
     rbind (text_value ''continuity_uid'' v) (\<lambda>t.
     guard_res (get_by_continuity_uid (upper t) identities = None) PermissionError
       (''unknown continuity UID cannot be indexed: '' @ upper t))"

definition add_subject :: "subject_kind \<Rightarrow> pyval \<Rightarrow> transaction_role \<Rightarrow> subject_roles \<Rightarrow> subject_roles res" where
  "add_subject kind subject_id role d =
     rbind (text_value ''subject_id'' subject_id) (\<lambda>t. Inr (dict_add (kind, upper t) role d))"

definition add_origin :: "pyval \<Rightarrow> string \<Rightarrow> subject_kind \<Rightarrow> transaction_role \<Rightarrow> subject_roles \<Rightarrow> subject_roles res" where
  \<comment> \<open>\<^verbatim>\<open>if origin.get(k) is not None: add(kind, origin[k], role)\<close>\<close>
  "add_origin origin k kind role d =
     (if py_get origin k = PyNone then Inr d else add_subject kind (py_get origin k) role d)"

definition add_actor :: "identity_repository \<Rightarrow> pyval \<Rightarrow> transaction_role \<Rightarrow> subject_roles \<Rightarrow> subject_roles res" where
  "add_actor identities actor role d =
     rbind (text_item actor ''actor_type'') (\<lambda>ty.
     rbind (text_item actor ''actor_id'') (\<lambda>i.
     let actor_type = upper ty; actor_id = upper i in
     if starts_with actor_id ''CUID-'' then
       rbind (require_identity identities (PyStr actor_id)) (\<lambda>_. Inr (dict_add (SUBJ_CONTINUITY_UID, actor_id) role d))
     else if actor_type = ''MERCHANT'' then Inr (dict_add (SUBJ_MERCHANT_ID, actor_id) role d)
     else if actor_type = ''BRANCH'' then Inr (dict_add (SUBJ_BRANCH_ID, actor_id) role d)
     else if actor_type = ''PARTNER'' then Inr (dict_add (SUBJ_PARTNER_ID, actor_id) role d)
     else Inr d))"

definition origin_payer :: "identity_repository \<Rightarrow> pyval \<Rightarrow> subject_roles \<Rightarrow> subject_roles res" where
  "origin_payer identities origin d =
     (let uid = py_get origin ''continuity_uid'' in
      if uid = PyNone then Inr d
      else rbind (require_identity identities uid) (\<lambda>_.
           rbind (py_item origin ''context_type'') (\<lambda>c.
           add_subject SUBJ_CONTINUITY_UID uid (if c = PyStr ''P2P'' then TX_PAYER else TX_AUTHORIZER) d)))"

definition roles_by_subject :: "identity_repository \<Rightarrow> pyval \<Rightarrow> pyval \<Rightarrow> subject_roles res" where
  "roles_by_subject identities utt origin =
     rbind (origin_payer identities origin []) (\<lambda>d.
     rbind (add_origin origin ''merchant_id'' SUBJ_MERCHANT_ID TX_ORIGIN_MERCHANT d) (\<lambda>d.
     rbind (add_origin origin ''branch_id'' SUBJ_BRANCH_ID TX_ORIGIN_BRANCH d) (\<lambda>d.
     rbind (add_origin origin ''partner_id'' SUBJ_PARTNER_ID TX_ORIGIN_PARTNER d) (\<lambda>d.
     rbind (rbind (py_item utt ''payer'') (\<lambda>a. add_actor identities a TX_PAYER d)) (\<lambda>d.
     rbind (py_item utt ''beneficiary'') (\<lambda>a. add_actor identities a TX_BENEFICIARY d))))))"

definition subject_links :: "string \<Rightarrow> instant \<Rightarrow> subject_roles \<Rightarrow> subject_link list" where
  "subject_links utt_id indexed_at d =
     map (\<lambda>((kind, subject_id), roles). \<lparr>sl_utt_id = utt_id, sl_subject_kind = kind, sl_subject_id = subject_id,
            sl_roles = sort_key transaction_role_value roles, sl_linked_at = indexed_at\<rparr>)
       (sort_key (\<lambda>((kind, subject_id), roles). (subject_kind_value kind, subject_id)) d)"

definition projection_for :: "string \<Rightarrow> envelope \<Rightarrow> pyval \<Rightarrow> instant \<Rightarrow> utt_projection res" where
  "projection_for utt_id signed_utt origin indexed_at =
     (let utt = env_payload signed_utt in
      rbind (py_item (env_protected signed_utt) ''payload_sha256'') (\<lambda>sha.
      rbind (py_item utt ''quote_id'') (\<lambda>quote_id.
      rbind (py_item utt ''purpose'') (\<lambda>purpose.
      rbind (py_item origin ''context_type'') (\<lambda>context_type.
      rbind (py_item utt ''amount_minor'') (\<lambda>amount_minor.
      rbind (py_item utt ''currency_from'') (\<lambda>currency_from.
      rbind (py_item utt ''receive_amount_minor'') (\<lambda>receive_amount_minor.
      rbind (py_item utt ''currency_to'') (\<lambda>currency_to.
      rbind (py_item utt ''commercial_state'') (\<lambda>commercial_state.
      rbind (rbind (py_item utt ''accepted_at'') utc_datetime_from_epoch) (\<lambda>accepted_at.
      Inr \<lparr>up_utt_id = utt_id, up_utt_payload_sha256 = sha, up_quote_id = quote_id, up_purpose = purpose,
           up_context_type = context_type, up_amount_minor = amount_minor, up_currency_from = currency_from,
           up_receive_amount_minor = receive_amount_minor, up_currency_to = currency_to,
           up_commercial_state = commercial_state, up_accepted_at = accepted_at, up_indexed_at = indexed_at\<rparr>)))))))))))"

definition index_entry ::
  "platform \<Rightarrow> key_provider \<Rightarrow> contract_store \<Rightarrow> identity_repository \<Rightarrow> string \<Rightarrow> datetime \<Rightarrow>
    (utt_projection \<times> subject_link list) res" where
  "index_entry P ks contracts identities utt_id at =
     rbind (require_aware ''transaction-history timestamp'' at) (\<lambda>indexed_at.
     rbind (rbind (require_text ''utt_id'' utt_id) (\<lambda>i. require_utt i contracts)) (\<lambda>signed_utt.
     rbind (verify_artifact P ks signed_utt (Some UTT) False) (\<lambda>verification.
     rbind (guard_res (\<not> vr_valid verification) PermissionError (''UTT rejected: '' @ vr_reason verification)) (\<lambda>_.
     rbind (py_item (env_payload signed_utt) ''origin'') (\<lambda>origin.
     rbind (projection_for utt_id signed_utt origin indexed_at) (\<lambda>projection.
     rbind (roles_by_subject identities (env_payload signed_utt) origin) (\<lambda>roles.
     Inr (projection, subject_links utt_id indexed_at roles))))))))"

definition index_utt ::
  "platform \<Rightarrow> key_provider \<Rightarrow> contract_store \<Rightarrow> identity_repository \<Rightarrow> string \<Rightarrow> datetime \<Rightarrow>
    (history_store, utt_projection) st" where
  "index_utt P ks contracts identities utt_id at =
     sbind (slift (index_entry P ks contracts identities utt_id at)) (\<lambda>(projection, links).
     commit_projection projection links)"

section \<open>Permissioned queries\<close>

definition privileged :: "read_context \<Rightarrow> bool" where
  "privileged access \<longleftrightarrow> read_any_permission \<in> set (rx_permissions access)"

definition can_access :: "subject_kind \<Rightarrow> string \<Rightarrow> read_context \<Rightarrow> bool" where
  "can_access kind subject_id access \<longleftrightarrow> privileged access \<or>
     (let normalized = upper subject_id in
      case kind of
        SUBJ_CONTINUITY_UID \<Rightarrow> upper (case rx_continuity_uid access of None \<Rightarrow> [] | Some u \<Rightarrow> u) = normalized
      | SUBJ_MERCHANT_ID \<Rightarrow> normalized \<in> set (map upper (rx_merchant_ids access))
      | SUBJ_BRANCH_ID \<Rightarrow> normalized \<in> set (map upper (rx_branch_ids access))
      | SUBJ_PARTNER_ID \<Rightarrow> normalized \<in> set (map upper (rx_partner_ids access)))"

definition given_reason :: "read_context \<Rightarrow> string option" where
  "given_reason access =
     (case rx_access_reason access of None \<Rightarrow> None | Some r \<Rightarrow> if strip r = [] then None else Some (strip r))"

definition audit ::
  "string \<Rightarrow> read_context \<Rightarrow> string \<Rightarrow> string \<Rightarrow> bool \<Rightarrow> instant \<Rightarrow> string \<Rightarrow> (history_store, unit) st" where
  \<comment> \<open>\<open>nonce\<close> is \<^verbatim>\<open>uuid4().hex.upper()\<close>\<close>
  "audit nonce access target_kind target_id allowed at fallback_reason =
     sbind (slift (require_text ''principal_id'' (rx_principal_id access))) (\<lambda>principal.
     append_audit \<lparr>aa_audit_id = ''TXAUD-'' @ nonce, aa_principal_id = principal, aa_target_kind = target_kind,
       aa_target_id = target_id, aa_outcome = (if allowed then ACCESS_ALLOWED else ACCESS_DENIED),
       aa_access_reason = (case given_reason access of Some r \<Rightarrow> r | None \<Rightarrow> fallback_reason), aa_occurred_at = at\<rparr>)"

definition access_denied :: "string \<Rightarrow> error" where
  "access_denied msg = Raise TransactionAccessDeniedError msg"

definition require_privileged_reason :: "string \<Rightarrow> read_context \<Rightarrow> string \<Rightarrow> instant \<Rightarrow> (history_store, unit) st" where
  "require_privileged_reason nonce access target_id at =
     (if privileged access \<and> given_reason access = None
      then sbind (audit nonce access ''PRIVILEGED_QUERY'' target_id False at ''PRIVILEGED_REASON_REQUIRED'') (\<lambda>_.
           slift (Inl (access_denied ''privileged transaction access requires an access reason'')))
      else sret ())"

definition sorted_roles :: "transaction_role list \<Rightarrow> transaction_role list" where
  \<comment> \<open>\<^verbatim>\<open>sorted(set(roles), key=value)\<close>\<close>
  "sorted_roles roles = sort_key transaction_role_value (remdups roles)"

definition get_by_utt :: "string \<Rightarrow> string \<Rightarrow> read_context \<Rightarrow> datetime \<Rightarrow> (history_store, history_entry) st" where
  "get_by_utt nonce utt_id access at =
     sbind (slift (require_aware ''transaction-history timestamp'' at)) (\<lambda>instant.
     sbind (slift (require_text ''utt_id'' utt_id)) (\<lambda>normalized_utt.
     sbind (sget (require_projection normalized_utt)) (\<lambda>projection.
     sbind (sget (links_for_utt normalized_utt)) (\<lambda>links.
     sbind (require_privileged_reason nonce access normalized_utt instant) (\<lambda>_.
     let matched = concat (map sl_roles (filter (\<lambda>l. can_access (sl_subject_kind l) (sl_subject_id l) access) links));
         allowed = (matched \<noteq> [] \<or> privileged access) in
     sbind (audit nonce access ''UTT'' normalized_utt allowed instant ''SUBJECT_SCOPED_ACCESS'') (\<lambda>_.
     if \<not> allowed then slift (Inl (access_denied ''principal cannot read this UTT''))
     else sret \<lparr>he_transaction = projection, he_matched_roles = sorted_roles matched\<rparr>))))))"

definition encode_cursor :: "utt_projection \<Rightarrow> string" where
  "encode_cursor p = b64url_encode (show_int (epoch (up_accepted_at p)) @ ''|'' @ up_utt_id p)"

definition invalid_cursor :: error where
  "invalid_cursor = Raise ValueError ''invalid transaction-history cursor''"

definition decode_cursor :: "string \<Rightarrow> (int \<times> string) res" where
  "decode_cursor cursor =
     (case b64url_decode cursor of
        Inl e \<Rightarrow> Inl invalid_cursor
      | Inr decoded \<Rightarrow>
          (case dropWhile (\<lambda>c. c \<noteq> CHR ''|'') decoded of
             [] \<Rightarrow> Inl invalid_cursor
           | _ # utt_id \<Rightarrow>
               if \<not> starts_with utt_id ''UTT-'' then Inl invalid_cursor
               else case int_of_text (takeWhile (\<lambda>c. c \<noteq> CHR ''|'') decoded) of
                 None \<Rightarrow> Inl invalid_cursor
               | Some n \<Rightarrow> Inr (n, utt_id)))"

definition rows_before :: "string option \<Rightarrow> (utt_projection \<times> subject_link) list \<Rightarrow> (utt_projection \<times> subject_link) list res" where
  "rows_before cursor rows =
     (case cursor of
        None \<Rightarrow> Inr rows
      | Some c \<Rightarrow> rbind (decode_cursor c) (\<lambda>cursor_key.
          Inr (filter (\<lambda>row. (epoch (up_accepted_at (fst row)), up_utt_id (fst row)) < cursor_key) rows)))"

definition entry_of :: "utt_projection \<times> subject_link \<Rightarrow> history_entry" where
  "entry_of row = \<lparr>he_transaction = fst row, he_matched_roles = sl_roles (snd row)\<rparr>"

definition page_of :: "nat \<Rightarrow> (utt_projection \<times> subject_link) list \<Rightarrow> history_page" where
  "page_of limit rows =
     (let has_more = length (take (limit + 1) rows) > limit; visible = take limit (take (limit + 1) rows) in
      \<lparr>hp_entries = map entry_of visible,
       hp_next_cursor = (if has_more \<and> visible \<noteq> [] then Some (encode_cursor (fst (last visible))) else None)\<rparr>)"

definition list_by_subject ::
  "string \<Rightarrow> subject_kind \<Rightarrow> string \<Rightarrow> read_context \<Rightarrow> int \<Rightarrow> string option \<Rightarrow> datetime \<Rightarrow> (history_store, history_page) st" where
  "list_by_subject nonce kind subject_id access limit cursor at =
     sbind (slift (require_aware ''transaction-history timestamp'' at)) (\<lambda>instant.
     sbind (slift (rbind (require_text ''subject_id'' subject_id) (\<lambda>t. Inr (upper t)))) (\<lambda>normalized.
     sbind (slift (guard_res (\<not> (1 \<le> limit \<and> limit \<le> 100)) ValueError ''limit must be between 1 and 100'')) (\<lambda>_.
     sbind (require_privileged_reason nonce access normalized instant) (\<lambda>_.
     let allowed = can_access kind normalized access in
     sbind (audit nonce access (subject_kind_value kind) normalized allowed instant ''SUBJECT_SCOPED_ACCESS'') (\<lambda>_.
     if \<not> allowed then slift (Inl (access_denied ''principal cannot read this subject transaction history''))
     else sbind (sget (list_for_subject kind normalized)) (\<lambda>rows.
          sbind (slift (rows_before cursor rows)) (\<lambda>rows'.
          sret (page_of (nat limit) rows'))))))))"

definition list_by_continuity_uid ::
  "string \<Rightarrow> string \<Rightarrow> read_context \<Rightarrow> int \<Rightarrow> string option \<Rightarrow> datetime \<Rightarrow> (history_store, history_page) st" where
  "list_by_continuity_uid nonce continuity_uid = list_by_subject nonce SUBJ_CONTINUITY_UID continuity_uid"

end
