(* ===== verification/History_Properties.thy ===== *)
theory History_Properties
  imports History
begin

text \<open>
  The transaction history under any sequence of indexing and queries: the index by subject is exact,
  projections are written once, every answer is permissioned and audited, and following the cursors reads the
  whole history once.
\<close>

section \<open>Sets in dictionaries\<close>

lemma set_set_add [simp]: "set (set_add x xs) = insert x (set xs)"
  by (auto simp: set_add_def)

lemma distinct_set_add [simp]: "distinct (set_add x xs) \<longleftrightarrow> distinct xs"
  by (auto simp: set_add_def)

lemma dict_members_add: "dict_members (dict_add k x d) k' = (if k' = k then set_add x (dict_members d k) else dict_members d k')"
  by (simp add: dict_members_def dict_add_def)

lemma members_fold_add:
  "u' \<in> set (dict_members (fold (\<lambda>l. dict_add (f l) u) ls d) k) \<longleftrightarrow> u' \<in> set (dict_members d k) \<or> u' = u \<and> k \<in> f ` set ls"
  by (induction ls arbitrary: d) (auto simp: dict_members_add)

lemma distinct_fold_add:
  "(\<And>k. distinct (dict_members d k)) \<Longrightarrow> distinct (dict_members (fold (\<lambda>l. dict_add (f l) u) ls d) k)"
  by (induction ls arbitrary: d) (auto simp: dict_members_add)

lemma sbind_slift_Inr [simp]: "sbind (slift (Inr x)) f s = f x s"
  by (simp add: sbind_def slift_def)

lemma sbind_sget: "g s = Inr x \<Longrightarrow> sbind (sget g) f s = f x s"
  by (simp add: sbind_def sget_def)

section \<open>The invariant\<close>

definition projection_links_ok :: "history_store \<Rightarrow> string \<Rightarrow> utt_projection \<Rightarrow> subject_link list \<Rightarrow> bool" where
  "projection_links_ok s u p ls \<longleftrightarrow> up_utt_id p = u \<and> up_accepted_at p = from_epoch (epoch (up_accepted_at p))
     \<and> dict_get (hs_links_by_utt s) u = Some ls \<and> ls \<noteq> [] \<and> distinct (map link_subject ls) \<and> (\<forall>l\<in>set ls. sl_utt_id l = u)"

definition history_inv :: "history_store \<Rightarrow> bool" where
  "history_inv s \<longleftrightarrow>
     (\<forall>u p. dict_get (hs_projections s) u = Some p \<longrightarrow> (\<exists>ls. projection_links_ok s u p ls))
     \<and> (\<forall>u ls. dict_get (hs_links_by_utt s) u = Some ls \<longrightarrow> dict_has (hs_projections s) u)
     \<and> (\<forall>k u. u \<in> set (dict_members (hs_utts_by_subject s) k) \<longleftrightarrow>
          (\<exists>ls. dict_get (hs_links_by_utt s) u = Some ls \<and> k \<in> link_subject ` set ls))
     \<and> (\<forall>k. distinct (dict_members (hs_utts_by_subject s) k))"

lemma history_invD:
  assumes "history_inv s"
  shows "dict_get (hs_projections s) u = Some p \<Longrightarrow> \<exists>ls. projection_links_ok s u p ls"
    "dict_get (hs_links_by_utt s) u = Some ls \<Longrightarrow> \<exists>p. dict_get (hs_projections s) u = Some p"
    "u \<in> set (dict_members (hs_utts_by_subject s) k) \<longleftrightarrow> (\<exists>ls. dict_get (hs_links_by_utt s) u = Some ls \<and> k \<in> link_subject ` set ls)"
    "distinct (dict_members (hs_utts_by_subject s) k)"
  using assms unfolding history_inv_def by blast+

lemma history_inv_audits [simp]: "history_inv (s\<lparr>hs_audits := a\<rparr>) \<longleftrightarrow> history_inv s"
  by (simp add: history_inv_def projection_links_ok_def)

lemma history_inv_empty: "history_inv empty_history_store"
  by (simp add: history_inv_def empty_history_store_def dict_members_def)

lemma commit_cases:
  assumes "commit_projection p links s = (x, s')"
  obtains (raised) e where "x = Inl e" "s' = s"
  | (replayed) q where "x = Inr q" "s' = s" "dict_get (hs_projections s) (up_utt_id p) = Some q"
      "up_utt_payload_sha256 q = up_utt_payload_sha256 p"
  | (stored) "x = Inr p" "dict_get (hs_projections s) (up_utt_id p) = None" "links \<noteq> []" "\<forall>l\<in>set links. sl_utt_id l = up_utt_id p"
      "distinct (map link_subject links)"
      "s' = s\<lparr>hs_projections := dict_set (up_utt_id p) p (hs_projections s), hs_links_by_utt := dict_set (up_utt_id p) links (hs_links_by_utt s),
         hs_utts_by_subject := fold (\<lambda>l. dict_add (link_subject l) (up_utt_id p)) links (hs_utts_by_subject s)\<rparr>"
proof (cases "dict_get (hs_projections s) (up_utt_id p)")
  case (Some q)
  then show thesis using assms raised replayed by (auto simp: commit_projection_def split: if_splits)
next
  case None
  let ?bad = "links = [] \<or> (\<exists>l\<in>set links. sl_utt_id l \<noteq> up_utt_id p) \<or> length (remdups (map link_subject links)) \<noteq> length links"
  show thesis
  proof (cases ?bad)
    case True
    then have "\<exists>e. commit_projection p links s = (Inl e, s)" by (simp add: commit_projection_def None) blast
    then show thesis using raised assms by auto
  next
    case False
    then have "length (remdups (map link_subject links)) = length (map link_subject links)" by simp
    then have d: "distinct (map link_subject links)" by (simp only: length_remdups_eq remdups_id_iff_distinct)
    show thesis by (rule stored) (use False d assms None in \<open>simp_all add: commit_projection_def\<close>)
  qed
qed

lemma index_entryD:
  assumes "index_entry P ks contracts identities utt_id at = Inr (p, links)"
  shows "up_utt_id p = utt_id" "up_accepted_at p = from_epoch (epoch (up_accepted_at p))"
  using assms unfolding index_entry_def projection_for_def Let_def
  by (auto simp: rbind_eq_Inr utc_datetime_from_epoch_def split: option.splits dest!: fromtimestamp_Inr)

lemma commit_inv:
  assumes "history_inv s" "commit_projection p links s = (x, s')" "up_accepted_at p = from_epoch (epoch (up_accepted_at p))"
  shows "history_inv s'"
  using assms(2)
proof (cases rule: commit_cases)
  case stored
  have nl: "dict_get (hs_links_by_utt s) (up_utt_id p) = None"
    using history_invD(2) [OF assms(1), of "up_utt_id p"] stored(2) by (cases "dict_get (hs_links_by_utt s) (up_utt_id p)") auto
  show ?thesis
    unfolding history_inv_def
  proof (intro conjI allI impI)
    fix u q assume q: "dict_get (hs_projections s') u = Some q"
    show "\<exists>ls. projection_links_ok s' u q ls"
    proof (cases "u = up_utt_id p")
      case True
      then show ?thesis using q stored assms(3) by (auto simp: projection_links_ok_def)
    next
      case False
      then show ?thesis using q stored(6) history_invD(1) [OF assms(1), of u q] by (auto simp: projection_links_ok_def)
    qed
  next
    fix u ls assume "dict_get (hs_links_by_utt s') u = Some ls"
    then show "dict_has (hs_projections s') u" using stored(6) history_invD(2) [OF assms(1), of u ls] by (auto split: if_splits)
  next
    fix k u
    show "u \<in> set (dict_members (hs_utts_by_subject s') k) \<longleftrightarrow> (\<exists>ls. dict_get (hs_links_by_utt s') u = Some ls \<and> k \<in> link_subject ` set ls)"
      using nl by (auto simp: stored(6) members_fold_add history_invD(3) [OF assms(1)])
  next
    fix k show "distinct (dict_members (hs_utts_by_subject s') k)"
      using distinct_fold_add [OF history_invD(4) [OF assms(1)]] by (simp add: stored(6))
  qed
qed (use assms(1) in simp_all)

section \<open>Runs\<close>

inductive history_step :: "history_store \<Rightarrow> history_store \<Rightarrow> bool" where
  h_index: "index_utt P ks contracts identities utt_id at s = (x, s') \<Longrightarrow> history_step s s'"
| h_get: "get_by_utt nonce utt_id access at s = (x, s') \<Longrightarrow> history_step s s'"
| h_list: "list_by_subject nonce kind subject_id access limit cursor at s = (x, s') \<Longrightarrow> history_step s s'"

definition only_audits :: "history_store \<Rightarrow> history_store \<Rightarrow> bool" where
  "only_audits s s' \<longleftrightarrow> s' = s\<lparr>hs_audits := hs_audits s'\<rparr>"

lemma only_audits_refl [simp]: "only_audits s s"
  by (simp add: only_audits_def)

lemma only_audits_trans: "only_audits s t \<Longrightarrow> only_audits t w \<Longrightarrow> only_audits s w"
  by (cases s; cases t; cases w) (simp add: only_audits_def)

definition audited :: "history_store \<Rightarrow> history_store \<Rightarrow> read_context \<Rightarrow> string \<Rightarrow> access_outcome \<Rightarrow> bool" where
  \<comment> \<open>exactly one audit was written, for this principal, target and outcome\<close>
  "audited s s' access target oc \<longleftrightarrow> (\<exists>a. s' = s\<lparr>hs_audits := hs_audits s @ [a]\<rparr> \<and> aa_outcome a = oc
     \<and> aa_principal_id a = strip (rx_principal_id access) \<and> aa_target_id a = target
     \<and> (\<forall>r. given_reason access = Some r \<longrightarrow> aa_access_reason a = r))"

lemma audited_only: "audited s s' access target oc \<Longrightarrow> only_audits s s'"
  by (auto simp: audited_def only_audits_def)

definition audit_record :: "string \<Rightarrow> read_context \<Rightarrow> string \<Rightarrow> string \<Rightarrow> bool \<Rightarrow> instant \<Rightarrow> string \<Rightarrow> access_audit" where
  "audit_record nonce access tk ti allowed at fb = \<lparr>aa_audit_id = ''TXAUD-'' @ nonce, aa_principal_id = strip (rx_principal_id access),
     aa_target_kind = tk, aa_target_id = ti, aa_outcome = (if allowed then ACCESS_ALLOWED else ACCESS_DENIED),
     aa_access_reason = (case given_reason access of Some r \<Rightarrow> r | None \<Rightarrow> fb), aa_occurred_at = at\<rparr>"

definition audit_possible :: "string \<Rightarrow> read_context \<Rightarrow> history_store \<Rightarrow> bool" where
  "audit_possible nonce access s \<longleftrightarrow> strip (rx_principal_id access) \<noteq> [] \<and> (\<forall>b\<in>set (hs_audits s). aa_audit_id b \<noteq> ''TXAUD-'' @ nonce)"

lemma audit_done:
  "audit_possible nonce access s \<Longrightarrow>
     audit nonce access tk ti allowed at fb s = (Inr (), s\<lparr>hs_audits := hs_audits s @ [audit_record nonce access tk ti allowed at fb]\<rparr>)"
  by (simp add: audit_possible_def audit_def sbind_def slift_def require_text_def append_audit_def audit_record_def)

lemma audit_raises:
  "\<not> audit_possible nonce access s \<Longrightarrow>
     \<exists>e. audit nonce access tk ti allowed at fb s = (Inl e, s) \<and> exc_of e \<noteq> TransactionAccessDeniedError"
  by (cases "strip (rx_principal_id access) = []")
    (auto simp: audit_possible_def audit_def sbind_def slift_def require_text_def append_audit_def)

lemma audited_record:
  "audited s (s\<lparr>hs_audits := hs_audits s @ [audit_record nonce access tk ti allowed at fb]\<rparr>) access ti (if allowed then ACCESS_ALLOWED else ACCESS_DENIED)"
  unfolding audited_def by (intro exI [of _ "audit_record nonce access tk ti allowed at fb"]) (simp add: audit_record_def)

lemma audit_cases:
  assumes "audit nonce access tk ti allowed at fb s = (x, s')"
  obtains (raised) e where "x = Inl e" "s' = s" "exc_of e \<noteq> TransactionAccessDeniedError" "\<not> audit_possible nonce access s"
  | (written) "x = Inr ()" "audited s s' access ti (if allowed then ACCESS_ALLOWED else ACCESS_DENIED)"
proof (cases "audit_possible nonce access s")
  case True
  then show thesis using assms written audited_record by (simp add: audit_done) blast
next
  case False
  then show thesis using audit_raises [OF False, of tk ti allowed at fb] assms raised by auto
qed

definition permitted :: "subject_kind \<Rightarrow> string \<Rightarrow> read_context \<Rightarrow> bool" where
  \<comment> \<open>the policy: a privileged reader states a reason, another reader is one of the subjects\<close>
  "permitted kind subject_id access \<longleftrightarrow>
     (if privileged access then given_reason access \<noteq> None else can_access kind subject_id access)"

lemma reason_cases:
  assumes "require_privileged_reason nonce access target at s = (x, s')"
  obtains (raised) e where "x = Inl e" "s' = s" "exc_of e \<noteq> TransactionAccessDeniedError" "\<not> audit_possible nonce access s"
  | (denied) m where "x = Inl (access_denied m)" "privileged access" "given_reason access = None" "audited s s' access target ACCESS_DENIED"
  | (passed) "x = Inr ()" "s' = s" "privileged access \<longrightarrow> given_reason access \<noteq> None"
proof (cases "privileged access \<and> given_reason access = None")
  case True
  obtain z t where a: "audit nonce access ''PRIVILEGED_QUERY'' target False at ''PRIVILEGED_REASON_REQUIRED'' s = (z, t)" by fastforce
  then show thesis
  proof (cases rule: audit_cases)
    case (raised e)
    then show thesis using that(1) [of e] assms True a by (auto simp: require_privileged_reason_def sbind_def)
  next
    case written
    then show thesis using that(2) assms True a by (auto simp: require_privileged_reason_def sbind_def slift_def)
  qed
next
  case False
  then show thesis using that(3) assms by (auto simp: require_privileged_reason_def sret_def)
qed

lemma list_cases:
  assumes "list_by_subject nonce kind sid access limit cursor at s = (x, s')"
  defines "k \<equiv> upper (strip sid)"
  obtains (raised) e where "x = Inl e" "s' = s" "exc_of e \<noteq> TransactionAccessDeniedError"
      "(\<forall>t. at \<noteq> Aware t) \<or> strip sid = [] \<or> limit < 1 \<or> 100 < limit \<or> \<not> audit_possible nonce access s"
  | (denied) m where "x = Inl (access_denied m)" "audited s s' access k ACCESS_DENIED" "\<not> permitted kind k access"
  | (allowed) "permitted kind k access" "audited s s' access k ACCESS_ALLOWED" "1 \<le> limit" "limit \<le> 100"
      "x = rbind (list_for_subject kind k s') (\<lambda>rows. rbind (rows_before cursor rows) (\<lambda>rows'. Inr (page_of (nat limit) rows')))"
proof (cases "(\<forall>t. at \<noteq> Aware t) \<or> strip sid = [] \<or> limit < 1 \<or> 100 < limit")
  case True
  then show thesis using assms raised
    by (cases at) (auto simp: list_by_subject_def sbind_def slift_def require_aware_def require_text_def guard_res_def split: if_splits)
next
  case False
  then obtain t where t: "at = Aware t" and sid: "strip sid \<noteq> []" and lim: "1 \<le> limit" "limit \<le> 100" by force
  obtain z w where r: "require_privileged_reason nonce access k t s = (z, w)" by fastforce
  let ?al = "can_access kind k access"
  have eq: "list_by_subject nonce kind sid access limit cursor at s = sbind (require_privileged_reason nonce access k t) (\<lambda>_.
      sbind (audit nonce access (subject_kind_value kind) k ?al t ''SUBJECT_SCOPED_ACCESS'') (\<lambda>_.
      if \<not> ?al then slift (Inl (access_denied ''principal cannot read this subject transaction history''))
      else sbind (sget (list_for_subject kind k)) (\<lambda>rows. sbind (slift (rows_before cursor rows)) (\<lambda>rows'. sret (page_of (nat limit) rows'))))) s"
    using t sid lim by (simp add: list_by_subject_def require_text_def k_def Let_def)
  from r show thesis
  proof (cases rule: reason_cases)
    case (raised e)
    then show thesis using that(1) [of e] assms(1) eq r by (auto simp: sbind_def)
  next
    case (denied m)
    then show thesis using that(2) [of m] assms(1) eq r by (auto simp: sbind_def permitted_def)
  next
    case passed
    obtain y v where a: "audit nonce access (subject_kind_value kind) k ?al t ''SUBJECT_SCOPED_ACCESS'' s = (y, v)" by fastforce
    then show thesis
    proof (cases rule: audit_cases)
      case (raised e)
      then show thesis using that(1) [of e] assms(1) eq r a passed by (auto simp: sbind_def)
    next
      case written
      have pr: "permitted kind k access \<longleftrightarrow> ?al" using passed(3) by (auto simp: permitted_def can_access_def)
      show thesis
      proof (cases ?al)
        case True
        have "s' = v" "x = rbind (list_for_subject kind k v) (\<lambda>rows. rbind (rows_before cursor rows) (\<lambda>rows'. Inr (page_of (nat limit) rows')))"
          using assms(1) eq r a passed written True
          by (auto simp: sbind_def slift_def sget_def sret_def split: sum.splits)
        then show thesis using that(3) pr written True lim by simp
      next
        case False
        then show thesis using that(2) assms(1) eq r a passed written pr by (auto simp: sbind_def slift_def)
      qed
    qed
  qed
qed

lemma get_cases:
  assumes "get_by_utt nonce utt_id access at s = (x, s')"
  defines "u \<equiv> strip utt_id"
  obtains (raised) e where "x = Inl e" "s' = s" "exc_of e \<noteq> TransactionAccessDeniedError"
      "(\<forall>t. at \<noteq> Aware t) \<or> u = [] \<or> dict_get (hs_projections s) u = None \<or> dict_get (hs_links_by_utt s) u = None \<or> \<not> audit_possible nonce access s"
  | (denied) m ls where "x = Inl (access_denied m)" "audited s s' access u ACCESS_DENIED" "dict_get (hs_links_by_utt s) u = Some ls"
      "privileged access \<and> given_reason access = None
       \<or> \<not> privileged access \<and> (\<forall>l\<in>set ls. sl_roles l \<noteq> [] \<longrightarrow> \<not> can_access (sl_subject_kind l) (sl_subject_id l) access)"
  | (allowed) p ls en where "dict_get (hs_projections s) u = Some p" "dict_get (hs_links_by_utt s) u = Some ls"
      "audited s s' access u ACCESS_ALLOWED" "x = Inr en" "he_transaction en = p"
      "he_matched_roles en = sorted_roles (concat (map sl_roles (filter (\<lambda>l. can_access (sl_subject_kind l) (sl_subject_id l) access) ls)))"
      "privileged access \<and> given_reason access \<noteq> None
       \<or> \<not> privileged access \<and> (\<exists>l\<in>set ls. sl_roles l \<noteq> [] \<and> can_access (sl_subject_kind l) (sl_subject_id l) access)"
proof (cases "(\<forall>t. at \<noteq> Aware t) \<or> u = [] \<or> dict_get (hs_projections s) u = None \<or> dict_get (hs_links_by_utt s) u = None")
  case True
  then show thesis using assms(1) raised unfolding u_def
    by (cases at; cases "dict_get (hs_projections s) (strip utt_id)")
      (auto simp: get_by_utt_def sbind_def slift_def sget_def require_aware_def require_text_def require_projection_def
        links_for_utt_def dict_item_def split: if_splits)
next
  case False
  then obtain t p ls where t: "at = Aware t" and u: "u \<noteq> []" and p: "dict_get (hs_projections s) u = Some p"
    and ls: "dict_get (hs_links_by_utt s) u = Some ls" by force
  define M where "M = concat (map sl_roles (filter (\<lambda>l. can_access (sl_subject_kind l) (sl_subject_id l) access) ls))"
  define A where "A \<longleftrightarrow> M \<noteq> [] \<or> privileged access"
  have m: "M \<noteq> [] \<longleftrightarrow> (\<exists>l\<in>set ls. sl_roles l \<noteq> [] \<and> can_access (sl_subject_kind l) (sl_subject_id l) access)" by (auto simp: M_def)
  have eq: "get_by_utt nonce utt_id access at s = sbind (require_privileged_reason nonce access u t) (\<lambda>_.
      sbind (audit nonce access ''UTT'' u A t ''SUBJECT_SCOPED_ACCESS'') (\<lambda>_.
      if \<not> A then slift (Inl (access_denied ''principal cannot read this UTT''))
      else sret \<lparr>he_transaction = p, he_matched_roles = sorted_roles M\<rparr>)) s"
    using t u p ls by (simp only: get_by_utt_def require_aware_Aware require_text_def u_def [symmetric] sbind_slift_Inr if_False
        require_projection_def option.case links_for_utt_def dict_item_def Let_def sbind_sget rbind_Inr M_def A_def)
  obtain z w where r: "require_privileged_reason nonce access u t s = (z, w)" by fastforce
  then show thesis
  proof (cases rule: reason_cases)
    case (raised e)
    then show thesis using that(1) [of e] assms(1) eq r by (auto simp: sbind_def)
  next
    case (denied m)
    then show thesis using that(2) [of m ls] assms(1) eq r ls by (auto simp: sbind_def)
  next
    case passed
    obtain y v where a: "audit nonce access ''UTT'' u A t ''SUBJECT_SCOPED_ACCESS'' s = (y, v)" by fastforce
    then show thesis
    proof (cases rule: audit_cases)
      case (raised e)
      then show thesis using that(1) [of e] assms(1) eq r a passed by (auto simp: sbind_def)
    next
      case written
      have al: "A \<longleftrightarrow> privileged access \<and> given_reason access \<noteq> None
          \<or> \<not> privileged access \<and> (\<exists>l\<in>set ls. sl_roles l \<noteq> [] \<and> can_access (sl_subject_kind l) (sl_subject_id l) access)"
        using passed(3) m unfolding A_def by blast
      show thesis
      proof (cases A)
        case True
        have "s' = v" "x = Inr \<lparr>he_transaction = p, he_matched_roles = sorted_roles M\<rparr>"
          using assms(1) eq r a passed written True by (simp_all add: sbind_def sret_def)
        then show thesis using that(3) [OF p ls, of "\<lparr>he_transaction = p, he_matched_roles = sorted_roles M\<rparr>"] written True al by (simp add: M_def)
      next
        case False
        have "s' = v" "x = Inl (access_denied ''principal cannot read this UTT'')"
          using assms(1) eq r a passed written False by (simp_all add: sbind_def slift_def)
        moreover have "audited s v access u ACCESS_DENIED" using written False by simp
        moreover have "\<not> privileged access" "\<forall>l\<in>set ls. sl_roles l \<noteq> [] \<longrightarrow> \<not> can_access (sl_subject_kind l) (sl_subject_id l) access"
          using False m unfolding A_def by blast+
        ultimately show thesis using that(2) ls by blast
      qed
    qed
  qed
qed

section \<open>The rows of a subject\<close>

abbreviation row_key :: "utt_projection \<times> subject_link \<Rightarrow> int \<times> string" where
  "row_key row \<equiv> (epoch (up_accepted_at (fst row)), up_utt_id (fst row))"

lemma rmap_total: "(\<And>x. x \<in> set xs \<Longrightarrow> \<exists>y. f x = Inr y) \<Longrightarrow> \<exists>ys. rmap f xs = Inr ys"
proof (induction xs)
  case (Cons x xs)
  then obtain ys y where "rmap f xs = Inr ys" "f x = Inr y" by (metis list.set_intros)
  then show ?case by simp
qed simp

lemma list_all2_source: "list_all2 R xs ys \<Longrightarrow> y \<in> set ys \<Longrightarrow> \<exists>x\<in>set xs. R x y"
  by (induction rule: list_all2_induct) auto

lemma sorted_wrt_refine:
  assumes "sorted_wrt R xs" "distinct (map f xs)" "\<And>a b. a \<in> set xs \<Longrightarrow> b \<in> set xs \<Longrightarrow> R a b \<Longrightarrow> f a \<noteq> f b \<Longrightarrow> Q a b"
  shows "sorted_wrt Q xs"
  using assms by (induction xs) auto

lemma subject_row_ok:
  assumes "history_inv s" "dict_get (hs_links_by_utt s) u = Some ls" "l \<in> set ls" "link_subject l = (kind, i)"
  shows "\<exists>p. dict_get (hs_projections s) u = Some p \<and> subject_row kind i s u = Inr (p, l)"
proof -
  obtain p where p: "dict_get (hs_projections s) u = Some p" using history_invD(2) [OF assms(1,2)] by blast
  then have d: "distinct (map link_subject ls)" using history_invD(1) [OF assms(1) p] assms(2) by (auto simp: projection_links_ok_def)
  have "find (\<lambda>l. sl_subject_kind l = kind \<and> sl_subject_id l = i) ls = Some l"
  proof -
    obtain j where j: "j < length ls" "ls ! j = l" using assms(3) by (auto simp: in_set_conv_nth)
    have "\<not> (sl_subject_kind (ls ! n) = kind \<and> sl_subject_id (ls ! n) = i)" if "n < j" for n
      using d j that assms(4) by (auto simp: distinct_conv_nth)
    then show ?thesis using j assms(4) by (auto simp: find_Some_iff)
  qed
  then show ?thesis using p assms(2) by (simp add: subject_row_def dict_item_def)
qed

lemma subject_row_Inr:
  assumes "subject_row kind i s u = Inr (p, l)"
  shows "dict_get (hs_projections s) u = Some p" "\<exists>ls. dict_get (hs_links_by_utt s) u = Some ls \<and> l \<in> set ls" "link_subject l = (kind, i)"
  using assms by (auto simp: subject_row_def dict_item_def rbind_eq_Inr find_Some_iff split: option.splits)

lemma list_for_subject_exact:
  assumes "history_inv s"
  obtains rows where "list_for_subject kind i s = Inr rows" "sorted_wrt (\<lambda>a b. row_key b < row_key a) rows" "distinct rows"
    "\<forall>p l. (p, l) \<in> set rows \<longleftrightarrow> dict_get (hs_projections s) (up_utt_id p) = Some p
        \<and> (\<exists>ls. dict_get (hs_links_by_utt s) (up_utt_id p) = Some ls \<and> l \<in> set ls) \<and> link_subject l = (kind, i)"
proof -
  let ?us = "dict_members (hs_utts_by_subject s) (kind, i)"
  let ?k = "\<lambda>row. (up_accepted_at (fst row), up_utt_id (fst row))"
  have row: "\<exists>ls l p. dict_get (hs_links_by_utt s) u = Some ls \<and> l \<in> set ls \<and> link_subject l = (kind, i)
      \<and> dict_get (hs_projections s) u = Some p \<and> subject_row kind i s u = Inr (p, l)" if "u \<in> set ?us" for u
    using that subject_row_ok [OF assms] unfolding history_invD(3) [OF assms] by fastforce
  then obtain ys where ys: "rmap (subject_row kind i s) ?us = Inr ys" using rmap_total [of ?us "subject_row kind i s"] by blast
  then have l2: "list_all2 (\<lambda>u y. subject_row kind i s u = Inr y) ?us ys" by (simp add: rmap_eq_Inr)
  have uid: "up_utt_id (fst y) = u" "up_accepted_at (fst y) = from_epoch (epoch (up_accepted_at (fst y)))" if "subject_row kind i s u = Inr y" for u y
    using subject_row_Inr(1) [of kind i s u "fst y" "snd y"] that history_invD(1) [OF assms] by (auto simp: projection_links_ok_def)
  have ids: "map (\<lambda>y. up_utt_id (fst y)) ys = ?us"
    using l2 by (induction rule: list_all2_induct) (simp_all add: uid)
  have acc: "up_accepted_at (fst y) = from_epoch (epoch (up_accepted_at (fst y)))" if "y \<in> set ys" for y
    using list_all2_source [OF l2 that] uid(2) by blast
  let ?rows = "sort_reverse ?k ys"
  have m: "set ?rows = set ys" "distinct (map (\<lambda>y. up_utt_id (fst y)) ?rows)"
    using history_invD(4) [OF assms, of "(kind, i)"] unfolding ids [symmetric] sort_reverse_def
    by (simp_all add: rev_map [symmetric] distinct_map) 
  have "sorted (map ?k (sort_key ?k (rev ys)))" by simp
  then have "sorted_wrt (\<lambda>a b. ?k b \<le> ?k a) ?rows" by (simp add: sort_reverse_def sorted_wrt_rev sorted_map)
  then have "sorted_wrt (\<lambda>a b. row_key b < row_key a) ?rows"
  proof (rule sorted_wrt_refine [OF _ m(2)])
    fix a b assume "a \<in> set ?rows" "b \<in> set ?rows" "?k b \<le> ?k a" "up_utt_id (fst a) \<noteq> up_utt_id (fst b)"
    then show "row_key b < row_key a" using acc [of a] acc [of b] m(1) by (auto simp: from_epoch_def less_le)
  qed
  note srt = this
  have dst: "distinct ?rows" using m(2) by (simp add: distinct_map)
  have ok: "list_for_subject kind i s = Inr ?rows" using ys by (simp add: list_for_subject_def)
  show thesis
  proof (rule that [OF ok srt dst], intro allI)
    fix p l
    show "(p, l) \<in> set ?rows \<longleftrightarrow> dict_get (hs_projections s) (up_utt_id p) = Some p
        \<and> (\<exists>ls. dict_get (hs_links_by_utt s) (up_utt_id p) = Some ls \<and> l \<in> set ls) \<and> link_subject l = (kind, i)" (is "_ \<longleftrightarrow> ?R")
    proof
      assume "(p, l) \<in> set ?rows"
      then obtain u where "subject_row kind i s u = Inr (p, l)" using list_all2_source [OF l2] m(1) by blast
      then show ?R using subject_row_Inr [of kind i s u p l] uid(1) [of u "(p, l)"] by simp
    next
      assume r: ?R
      then have "up_utt_id p \<in> set ?us" unfolding history_invD(3) [OF assms] by force
      then obtain y where y: "y \<in> set ys" "up_utt_id (fst y) = up_utt_id p" unfolding ids [symmetric] by auto
      obtain u where u: "subject_row kind i s u = Inr y" using list_all2_source [OF l2 y(1)] by blast
      have "subject_row kind i s (up_utt_id p) = Inr (p, l)" using r subject_row_ok [OF assms] by fastforce
      then have "y = (p, l)" using u uid(1) [OF u] y(2) by simp
      then show "(p, l) \<in> set ?rows" using y(1) m(1) by simp
    qed
  qed
qed

section \<open>Cursors\<close>

lemma digit_groups_digits: "list_all is_digit cs \<Longrightarrow> cs \<noteq> [] \<or> d \<Longrightarrow> digit_groups d cs acc = Some (foldl (\<lambda>a c. 10 * a + int (of_char c) - 48) acc cs)"
  by (induction cs arbitrary: d acc) auto

lemma value_int: "list_all is_digit cs \<Longrightarrow> foldl (\<lambda>a c. 10 * a + int (of_char c) - 48) (int n) cs = int (foldl (\<lambda>a c. 10 * a + (of_char c - 48)) n cs)"
proof (induction cs arbitrary: n)
  case (Cons c cs)
  then have e: "10 * int n + int (of_char c) - 48 = int (10 * n + (of_char c - 48))" by (simp add: is_digit_def Let_def of_nat_diff)
  show ?case unfolding foldl_Cons e by (rule Cons.IH) (use Cons.prems in simp)
qed simp

lemma digit_groups_show: "digit_groups False (show_nat n) 0 = Some (int n)"
  using digit_groups_digits [OF show_nat_digits, of n False 0] value_int [OF show_nat_digits, of 0 n] value_show_nat [of n]
  by (simp add: value_of_digits_def)

lemma digit_not_space: "is_digit c \<Longrightarrow> \<not> is_space c"
  by (auto simp: is_digit_def is_space_def Let_def)

lemma show_int_chars: "c \<in> set (show_int n) \<Longrightarrow> c = CHR ''-'' \<or> is_digit c"
  using show_nat_digits by (auto simp: show_int_def list_all_iff split: if_splits)

lemma strip_show_int: "strip (show_int n) = show_int n"
proof (rule strip_id, rule disjI2)
  have ne: "show_int n \<noteq> []" by (simp add: show_int_def)
  have "\<not> is_space c" if "c \<in> set (show_int n)" for c
    using show_int_chars [OF that] digit_not_space by (auto simp: is_space_def)
  then show "\<not> is_space (hd (show_int n)) \<and> \<not> is_space (last (show_int n))" using ne by simp
qed

lemma int_of_show: "int_of_text (show_int n) = Some n"
proof (cases "n < 0")
  case True
  then show ?thesis unfolding int_of_text_def strip_show_int by (simp add: show_int_def digit_groups_show)
next
  case False
  obtain c cs where c: "show_nat (nat n) = c # cs" by (cases "show_nat (nat n)") auto
  then have "is_digit c" using show_nat_digits [of "nat n"] by simp
  then have "c \<noteq> CHR ''-''" "c \<noteq> CHR ''+''" by (auto simp: is_digit_def)
  then show ?thesis using False c digit_groups_show [of "nat n"] unfolding int_of_text_def strip_show_int by (simp add: show_int_def)
qed

lemma cursor_roundtrip:
  assumes "starts_with (up_utt_id p) ''UTT-''"
  shows "decode_cursor (encode_cursor p) = Inr (epoch (up_accepted_at p), up_utt_id p)"
proof -
  let ?e = "show_int (epoch (up_accepted_at p))"
  have "\<forall>c\<in>set ?e. c \<noteq> CHR ''|''" using show_int_chars by (fastforce simp: is_digit_def)
  then have "takeWhile (\<lambda>c. c \<noteq> CHR ''|'') (?e @ ''|'' @ up_utt_id p) = ?e"
    "dropWhile (\<lambda>c. c \<noteq> CHR ''|'') (?e @ ''|'' @ up_utt_id p) = CHR ''|'' # up_utt_id p"
    by (simp_all add: takeWhile_append2 dropWhile_append2)
  then show ?thesis using assms by (simp add: decode_cursor_def encode_cursor_def int_of_show)
qed

section \<open>Pages\<close>

lemma filter_below:
  assumes "sorted_wrt (\<lambda>a b. row_key b < row_key a) (xs @ r # ys)"
  shows "filter (\<lambda>row. row_key row < row_key r) (xs @ r # ys) = ys"
proof -
  have x: "\<forall>a\<in>set xs. row_key r < row_key a" and y: "\<forall>b\<in>set ys. row_key b < row_key r" using assms by (auto simp: sorted_wrt_append)
  have "filter (\<lambda>row. row_key row < row_key r) xs = []" using x by (auto simp: filter_empty_conv dest: less_asym)
  moreover have "filter (\<lambda>row. row_key row < row_key r) ys = ys" using y by (auto simp: filter_id_conv)
  ultimately show ?thesis by simp
qed

lemma page_split:
  assumes srt: "sorted_wrt (\<lambda>a b. row_key b < row_key a) rows" and pre: "\<forall>row\<in>set rows. starts_with (up_utt_id (fst row)) ''UTT-''"
    and cur: "rows_before cursor rows = Inr ys" "rows = xs @ ys" and lim: "0 < n"
  shows "hp_entries (page_of n ys) = map entry_of (take n ys)"
    "hp_next_cursor (page_of n ys) = None \<Longrightarrow> length ys \<le> n"
    "hp_next_cursor (page_of n ys) = Some c \<Longrightarrow> n < length ys \<and> rows_before (Some c) rows = Inr (drop n ys)"
proof -
  show "hp_entries (page_of n ys) = map entry_of (take n ys)" by (simp add: page_of_def Let_def min_def)
  show "hp_next_cursor (page_of n ys) = None \<Longrightarrow> length ys \<le> n" using lim by (auto simp: page_of_def Let_def split: if_splits)
  assume "hp_next_cursor (page_of n ys) = Some c"
  then have more: "n < length ys" and c: "c = encode_cursor (fst (last (take n ys)))"
    by (auto simp: page_of_def Let_def min_def split: if_splits)
  have ne: "take n ys \<noteq> []" using more lim by auto
  have "xs @ ys = xs @ (butlast (take n ys) @ [last (take n ys)]) @ drop n ys" using ne by simp
  then have r: "rows = (xs @ butlast (take n ys)) @ last (take n ys) # drop n ys" using cur(2) by simp
  then have "last (take n ys) \<in> set rows" by simp
  then have "decode_cursor c = Inr (row_key (last (take n ys)))" using cursor_roundtrip pre c by simp
  moreover have "filter (\<lambda>row. row_key row < row_key (last (take n ys))) rows = drop n ys" using filter_below srt unfolding r by blast
  ultimately show "n < length ys \<and> rows_before (Some c) rows = Inr (drop n ys)" using more by (simp add: rows_before_def)
qed

text \<open>A reader that follows the cursors, with one audit identifier for each query.\<close>

fun read_pages :: "subject_kind \<Rightarrow> string \<Rightarrow> read_context \<Rightarrow> int \<Rightarrow> datetime \<Rightarrow> string list \<Rightarrow> string option \<Rightarrow> (history_store, history_entry list) st" where
  "read_pages kind sid access limit at [] cursor = slift (Inl (Raise OtherException ''reader stopped early''))"
| "read_pages kind sid access limit at (nonce # nonces) cursor =
     sbind (list_by_subject nonce kind sid access limit cursor at) (\<lambda>page.
     case hp_next_cursor page of
       None \<Rightarrow> sret (hp_entries page)
     | Some c \<Rightarrow> sbind (read_pages kind sid access limit at nonces (Some c)) (\<lambda>rest. sret (hp_entries page @ rest)))"

lemma list_for_subject_audits [simp]: "list_for_subject kind i (s\<lparr>hs_audits := a\<rparr>) = list_for_subject kind i s"
  by (simp add: list_for_subject_def subject_row_def [abs_def])

definition fresh_nonces :: "string list \<Rightarrow> history_store \<Rightarrow> bool" where
  "fresh_nonces nonces s \<longleftrightarrow> distinct nonces \<and> (\<forall>n\<in>set nonces. \<forall>b\<in>set (hs_audits s). aa_audit_id b \<noteq> ''TXAUD-'' @ n)"

lemma list_permitted:
  assumes "permitted kind (upper (strip sid)) access" "strip (rx_principal_id access) \<noteq> []" "strip sid \<noteq> []" "1 \<le> limit" "limit \<le> 100"
    and "fresh_nonces (nonce # nonces) s" "list_for_subject kind (upper (strip sid)) s = Inr rows" "rows_before cursor rows = Inr ys"
  shows "\<exists>a. list_by_subject nonce kind sid access limit cursor (Aware t) s = (Inr (page_of (nat limit) ys), s\<lparr>hs_audits := hs_audits s @ [a]\<rparr>)
    \<and> fresh_nonces nonces (s\<lparr>hs_audits := hs_audits s @ [a]\<rparr>)"
proof -
  let ?k = "upper (strip sid)"
  let ?a = "audit_record nonce access (subject_kind_value kind) ?k True t ''SUBJECT_SCOPED_ACCESS''"
  have p: "audit_possible nonce access s" using assms(2,6) by (simp add: audit_possible_def fresh_nonces_def)
  have al: "can_access kind ?k access" "privileged access \<longrightarrow> given_reason access \<noteq> None"
    using assms(1) by (auto simp: permitted_def can_access_def split: if_splits)
  have pr: "require_privileged_reason nonce access ?k t s = (Inr (), s)"
    using al(2) by (auto simp: require_privileged_reason_def sret_def)
  have "list_by_subject nonce kind sid access limit cursor (Aware t) s = (Inr (page_of (nat limit) ys), s\<lparr>hs_audits := hs_audits s @ [?a]\<rparr>)"
    using assms(3-5,7,8) al(1) p by (simp add: list_by_subject_def require_text_def sbind_step [of "require_privileged_reason nonce access ?k t", OF pr] sbind_step [of "audit nonce access (subject_kind_value kind) ?k True t ''SUBJECT_SCOPED_ACCESS''", OF audit_done] sbind_sget sret_def)
  moreover have "fresh_nonces nonces (s\<lparr>hs_audits := hs_audits s @ [?a]\<rparr>)"
    using assms(6) by (auto simp: fresh_nonces_def audit_record_def)
  ultimately show ?thesis by blast
qed

lemma read_pages_all:
  assumes "permitted kind (upper (strip sid)) access" "strip (rx_principal_id access) \<noteq> []" "strip sid \<noteq> []" "1 \<le> limit" "limit \<le> 100"
    and srt: "sorted_wrt (\<lambda>a b. row_key b < row_key a) rows" and pre: "\<forall>row\<in>set rows. starts_with (up_utt_id (fst row)) ''UTT-''"
    and "fresh_nonces nonces s" "list_for_subject kind (upper (strip sid)) s = Inr rows" "rows_before cursor rows = Inr ys" "rows = xs @ ys"
      "length ys < nat limit * length nonces"
  shows "\<exists>as. read_pages kind sid access limit (Aware t) nonces cursor s = (Inr (map entry_of ys), s\<lparr>hs_audits := hs_audits s @ as\<rparr>)"
  using assms(8-12)
proof (induction nonces arbitrary: s cursor xs ys)
  case (Cons nonce nonces)
  obtain a where a: "list_by_subject nonce kind sid access limit cursor (Aware t) s = (Inr (page_of (nat limit) ys), s\<lparr>hs_audits := hs_audits s @ [a]\<rparr>)"
    and f: "fresh_nonces nonces (s\<lparr>hs_audits := hs_audits s @ [a]\<rparr>)"
    using list_permitted [OF assms(1-5) Cons.prems(1-3)] by blast
  note pg = page_split [OF srt pre Cons.prems(3,4), of "nat limit"]
  show ?case
  proof (cases "hp_next_cursor (page_of (nat limit) ys)")
    case None
    then show ?thesis using a pg(1,2) assms(4) by (auto simp: sbind_step [of "list_by_subject nonce kind sid access limit cursor (Aware t)", OF a] sret_def)
  next
    case (Some c)
    have d: "rows_before (Some c) rows = Inr (drop (nat limit) ys)" "nat limit < length ys" using pg(3) [OF _ Some] assms(4) by auto
    have r: "rows = (xs @ take (nat limit) ys) @ drop (nat limit) ys" using Cons.prems(4) by simp
    have n: "length (drop (nat limit) ys) < nat limit * length nonces" using Cons.prems(5) d(2) by simp
    obtain as where "read_pages kind sid access limit (Aware t) nonces (Some c) (s\<lparr>hs_audits := hs_audits s @ [a]\<rparr>)
        = (Inr (map entry_of (drop (nat limit) ys)), s\<lparr>hs_audits := hs_audits s @ [a] @ as\<rparr>)"
      using Cons.IH [OF f _ d(1) r n] Cons.prems(2) by auto
    then show ?thesis using Some pg(1) assms(4)
      by (intro exI [of _ "a # as"]) (simp add: a sbind_def sret_def map_append [symmetric] del: map_append)
  qed
qed simp

section \<open>Properties\<close>

lemma only_auditsE: assumes "only_audits s s'" obtains a where "s' = s\<lparr>hs_audits := a\<rparr>"
  using assms unfolding only_audits_def by blast

lemma get_only: "get_by_utt nonce utt_id access at s = (x, s') \<Longrightarrow> only_audits s s'"
  by (erule get_cases) (auto dest: audited_only)

lemma list_only: "list_by_subject nonce kind sid access limit cursor at s = (x, s') \<Longrightarrow> only_audits s s'"
  by (erule list_cases) (auto dest: audited_only)

lemma history_step_inv:
  assumes "history_step s s'" "history_inv s"
  shows "history_inv s' \<and> (\<forall>u p. dict_get (hs_projections s) u = Some p \<longrightarrow>
    dict_get (hs_projections s') u = Some p \<and> dict_get (hs_links_by_utt s') u = dict_get (hs_links_by_utt s) u)"
proof -
  have audits: "?thesis" if "only_audits s s'"
    using only_auditsE [OF that] assms(2) by fastforce
  from assms(1) show ?thesis
  proof cases
    case (h_index P ks contracts identities utt_id at x)
    show ?thesis
    proof (cases "index_entry P ks contracts identities utt_id at")
      case (Inl e)
      then show ?thesis using h_index assms(2) by (simp add: index_utt_def sbind_def slift_def)
    next
      case (Inr pl)
      obtain p links where pl: "pl = (p, links)" by fastforce
      have c: "commit_projection p links s = (x, s')" using h_index Inr pl by (simp add: index_utt_def)
      have "history_inv s'" using commit_inv [OF assms(2) c] index_entryD [of P ks contracts identities utt_id at p links] Inr pl by simp
      moreover have "dict_get (hs_projections s') u = Some q \<and> dict_get (hs_links_by_utt s') u = dict_get (hs_links_by_utt s) u"
        if "dict_get (hs_projections s) u = Some q" for u q
        using c by (cases rule: commit_cases) (use that in auto)
      ultimately show ?thesis by blast
    qed
  next
    case (h_get nonce utt_id access at x)
    then show ?thesis using audits get_only by blast
  next
    case (h_list nonce kind sid access limit cursor at x)
    then show ?thesis using audits list_only by blast
  qed
qed

lemma history_reach:
  "history_step\<^sup>*\<^sup>* s s' \<Longrightarrow> history_inv s \<Longrightarrow> history_inv s' \<and> (\<forall>u p. dict_get (hs_projections s) u = Some p \<longrightarrow>
    dict_get (hs_projections s') u = Some p \<and> dict_get (hs_links_by_utt s') u = dict_get (hs_links_by_utt s) u)"
proof (induction rule: rtranclp_induct)
  case (step s' s'')
  then show ?case using history_step_inv [OF step(2)] by simp
qed simp

text \<open>
  C21. The transaction history of a subject is exact.  After any sequence of indexing calls and queries, the list
  for a subject never fails, and holds exactly the stored projections that are linked to the subject, each once and
  with its own link, in strictly decreasing order of acceptance time and UTT identifier.  A stored projection and
  its links are never changed or removed by what comes later.\<close>

theorem history_index_exact:
  assumes "history_step\<^sup>*\<^sup>* empty_history_store s"
  shows "(\<exists>rows. list_for_subject kind i s = Inr rows \<and> distinct rows \<and> sorted_wrt (\<lambda>a b. row_key b < row_key a) rows
      \<and> (\<forall>p l. (p, l) \<in> set rows \<longleftrightarrow> dict_get (hs_projections s) (up_utt_id p) = Some p
           \<and> (\<exists>ls. dict_get (hs_links_by_utt s) (up_utt_id p) = Some ls \<and> l \<in> set ls) \<and> link_subject l = (kind, i)))
    \<and> (\<forall>s' u p. history_step\<^sup>*\<^sup>* s s' \<longrightarrow> dict_get (hs_projections s) u = Some p \<longrightarrow>
         require_projection u s' = Inr p \<and> links_for_utt u s' = links_for_utt u s)"
proof -
  have inv: "history_inv s" using history_reach [OF assms history_inv_empty] by blast
  obtain rows where "list_for_subject kind i s = Inr rows" "sorted_wrt (\<lambda>a b. row_key b < row_key a) rows" "distinct rows"
    "\<forall>p l. (p, l) \<in> set rows \<longleftrightarrow> dict_get (hs_projections s) (up_utt_id p) = Some p
        \<and> (\<exists>ls. dict_get (hs_links_by_utt s) (up_utt_id p) = Some ls \<and> l \<in> set ls) \<and> link_subject l = (kind, i)"
    by (rule list_for_subject_exact [OF inv, of kind i])
  moreover have "require_projection u s' = Inr p \<and> links_for_utt u s' = links_for_utt u s"
    if "history_step\<^sup>*\<^sup>* s s'" "dict_get (hs_projections s) u = Some p" for s' u p
    using history_reach [OF that(1) inv] that(2) by (simp add: require_projection_def links_for_utt_def dict_item_def)
  ultimately show ?thesis by blast
qed

lemma rows_before_sub: "rows_before cursor rows = Inr ys \<Longrightarrow> set ys \<subseteq> set rows"
  by (auto simp: rows_before_def rbind_eq_Inr split: option.splits)

lemma decode_cursor_Inl: "decode_cursor c = Inl e \<Longrightarrow> e = invalid_cursor"
  by (auto simp: decode_cursor_def split: sum.splits list.splits option.splits if_splits)

lemma page_content:
  assumes "history_inv s" and x: "x = rbind (list_for_subject kind k s') (\<lambda>rows. rbind (rows_before cursor rows) (\<lambda>ys. Inr (page_of (nat limit) ys)))"
    and "only_audits s s'" "1 \<le> limit"
  shows "x = Inl e \<Longrightarrow> exc_of e \<noteq> TransactionAccessDeniedError"
    "x = Inr page \<Longrightarrow> int (length (hp_entries page)) \<le> limit \<and> (\<forall>e\<in>set (hp_entries page). \<exists>ls l. links_for_utt (up_utt_id (he_transaction e)) s = Inr ls
        \<and> l \<in> set ls \<and> link_subject l = (kind, k) \<and> he_matched_roles e = sl_roles l)"
proof -
  obtain rows where rows: "list_for_subject kind k s = Inr rows" "sorted_wrt (\<lambda>a b. row_key b < row_key a) rows" "distinct rows"
    "\<forall>p l. (p, l) \<in> set rows \<longleftrightarrow> dict_get (hs_projections s) (up_utt_id p) = Some p
        \<and> (\<exists>ls. dict_get (hs_links_by_utt s) (up_utt_id p) = Some ls \<and> l \<in> set ls) \<and> link_subject l = (kind, k)"
    by (rule list_for_subject_exact [OF assms(1), of kind k])
  have l: "list_for_subject kind k s' = Inr rows" using rows(1) only_auditsE [OF assms(3)] by fastforce
  show "x = Inl e \<Longrightarrow> exc_of e \<noteq> TransactionAccessDeniedError"
    using x l by (auto simp: rbind_eq_Inl rows_before_def invalid_cursor_def split: option.splits dest: decode_cursor_Inl)
  assume "x = Inr page"
  then obtain ys where ys: "rows_before cursor rows = Inr ys" "page = page_of (nat limit) ys" using x l by (auto simp: rbind_eq_Inr)
  have n: "hp_entries page = map entry_of (take (nat limit) ys)" by (simp add: ys(2) page_of_def Let_def min_def)
  have "\<exists>ls l. links_for_utt (up_utt_id (he_transaction e)) s = Inr ls \<and> l \<in> set ls \<and> link_subject l = (kind, k) \<and> he_matched_roles e = sl_roles l"
    if e: "e \<in> set (hp_entries page)" for e
  proof -
    obtain p l where "e = entry_of (p, l)" "(p, l) \<in> set rows" using e n rows_before_sub [OF ys(1)] by (auto dest: in_set_takeD)
    then show ?thesis using rows(4) [rule_format, of p l] by (auto simp: entry_of_def links_for_utt_def require_projection_def dict_item_def)
  qed
  moreover have "int (length (hp_entries page)) \<le> limit" using n assms(4) by simp
  ultimately show "int (length (hp_entries page)) \<le> limit \<and> (\<forall>e\<in>set (hp_entries page). \<exists>ls l. links_for_utt (up_utt_id (he_transaction e)) s = Inr ls
        \<and> l \<in> set ls \<and> link_subject l = (kind, k) \<and> he_matched_roles e = sl_roles l)" by blast
qed

text \<open>
  C20. Queries are permissioned and audited.  A page is returned only to a reader the policy permits: one of the
  subjects, or a privileged reader who states a reason; it shows only transactions linked to the subject, and
  exactly one audit records the access.  A reader the policy does not permit gets an access error and exactly one
  audit records the denial.  The same holds for reading one UTT, where an unprivileged reader is linked to
  it.  No query changes anything but the audits.\<close>

theorem queries_permissioned:
  assumes "history_step\<^sup>*\<^sup>* empty_history_store s" "list_by_subject nonce kind sid access limit cursor at s = (x, s')"
    and "get_by_utt nonce' utt_id access at s = (y, s'')"
  defines "k \<equiv> upper (strip sid)" and "u \<equiv> strip utt_id"
  shows "only_audits s s' \<and> only_audits s s''
    \<and> (case x of
         Inr page \<Rightarrow> permitted kind k access \<and> audited s s' access k ACCESS_ALLOWED \<and> int (length (hp_entries page)) \<le> limit
           \<and> (\<forall>e\<in>set (hp_entries page). \<exists>ls l. links_for_utt (up_utt_id (he_transaction e)) s = Inr ls
                \<and> l \<in> set ls \<and> link_subject l = (kind, k) \<and> he_matched_roles e = sl_roles l)
       | Inl e \<Rightarrow> exc_of e = TransactionAccessDeniedError \<longrightarrow> \<not> permitted kind k access \<and> audited s s' access k ACCESS_DENIED)
    \<and> (\<not> permitted kind k access \<longrightarrow> at = Aware t \<longrightarrow> k \<noteq> [] \<longrightarrow> 1 \<le> limit \<longrightarrow> limit \<le> 100 \<longrightarrow> audit_possible nonce access s \<longrightarrow>
         (\<exists>m. x = Inl (Raise TransactionAccessDeniedError m)))
    \<and> (case y of
         Inr e \<Rightarrow> audited s s'' access u ACCESS_ALLOWED \<and> require_projection u s = Inr (he_transaction e)
           \<and> (\<exists>ls. links_for_utt u s = Inr ls \<and> (privileged access \<and> given_reason access \<noteq> None
                \<or> (\<exists>l\<in>set ls. permitted (sl_subject_kind l) (sl_subject_id l) access)))
       | Inl e \<Rightarrow> exc_of e = TransactionAccessDeniedError \<longrightarrow> audited s s'' access u ACCESS_DENIED)"
proof -
  have inv: "history_inv s" using history_reach [OF assms(1) history_inv_empty] by blast
  have "only_audits s s'" "only_audits s s''" using list_only [OF assms(2)] get_only [OF assms(3)] .
  moreover have "case x of
         Inr page \<Rightarrow> permitted kind k access \<and> audited s s' access k ACCESS_ALLOWED \<and> int (length (hp_entries page)) \<le> limit
           \<and> (\<forall>e\<in>set (hp_entries page). \<exists>ls l. links_for_utt (up_utt_id (he_transaction e)) s = Inr ls
                \<and> l \<in> set ls \<and> link_subject l = (kind, k) \<and> he_matched_roles e = sl_roles l)
       | Inl e \<Rightarrow> exc_of e = TransactionAccessDeniedError \<longrightarrow> \<not> permitted kind k access \<and> audited s s' access k ACCESS_DENIED"
    using assms(2)
  proof (cases rule: list_cases)
    case allowed
    note c = page_content [OF inv allowed(5) audited_only [OF allowed(2)] allowed(3)]
    show ?thesis using c(1) c(2) allowed(1,2) unfolding k_def by (simp split: sum.splits)
  qed (auto simp: k_def access_denied_def)
  moreover have "\<not> permitted kind k access \<longrightarrow> at = Aware t \<longrightarrow> k \<noteq> [] \<longrightarrow> 1 \<le> limit \<longrightarrow> limit \<le> 100 \<longrightarrow> audit_possible nonce access s \<longrightarrow>
         (\<exists>m. x = Inl (Raise TransactionAccessDeniedError m))"
    using assms(2) by (cases rule: list_cases) (auto simp: k_def access_denied_def upper_def)
  moreover have "case y of
         Inr e \<Rightarrow> audited s s'' access u ACCESS_ALLOWED \<and> require_projection u s = Inr (he_transaction e)
           \<and> (\<exists>ls. links_for_utt u s = Inr ls \<and> (privileged access \<and> given_reason access \<noteq> None
                \<or> (\<exists>l\<in>set ls. permitted (sl_subject_kind l) (sl_subject_id l) access)))
       | Inl e \<Rightarrow> exc_of e = TransactionAccessDeniedError \<longrightarrow> audited s s'' access u ACCESS_DENIED"
    using assms(3) by (cases rule: get_cases)
      (auto simp: u_def access_denied_def require_projection_def links_for_utt_def dict_item_def permitted_def)
  ultimately show ?thesis by blast
qed


text \<open>
  A padded identifier hides a transaction.  The indexer looks the UTT up under the stripped identifier but
  stores the projection under the identifier as given, so indexing with surrounding white space succeeds and
  leaves a projection that no query for the UTT finds.\<close>

theorem padded_index_hidden:
  assumes "index_utt P ks contracts identities utt_id at s = (Inr p, s')" "strip utt_id \<noteq> utt_id"
    and "dict_get (hs_projections s) (strip utt_id) = None" "dict_get (hs_projections s) utt_id = None"
  shows "dict_get (hs_projections s') utt_id = Some p
    \<and> (\<exists>m. get_by_utt nonce utt_id access (Aware t) s' = (Inl (Raise TransactionProjectionNotFoundError m), s'))"
proof -
  obtain q links where q: "index_entry P ks contracts identities utt_id at = Inr (q, links)"
    and c: "commit_projection q links s = (Inr p, s')" using assms(1) by (auto simp: index_utt_def sbind_eq_Inr slift_eq)
  have u: "up_utt_id q = utt_id" using index_entryD(1) [OF q] .
  have ne: "strip utt_id \<noteq> []" using q unfolding index_entry_def by (auto simp: rbind_eq_Inr require_text_Inr)
  from c show ?thesis
    by (cases rule: commit_cases)
      (use assms(2-4) u ne in \<open>auto simp: get_by_utt_def require_text_def sbind_def slift_def sget_def require_projection_def\<close>)
qed

end
