(* ===== verification/History_Run.thy ===== *)
theory History_Run
  imports History_Properties Acceptance
begin

text \<open>
  Two transactions of a merchant are indexed and read back page by page: the hypotheses of the history
  properties are met by a concrete run.
\<close>

definition shop_utt :: "int \<Rightarrow> pyval" where
  "shop_utt n = obj [(''quote_id'', PyStr ''Q''), (''purpose'', PyStr ''REFUND''),
     (''origin'', obj [(''context_type'', PyStr ''MERCHANT''), (''merchant_id'', PyStr '' m1'')]), (''amount_minor'', PyInt 5),
     (''currency_from'', PyStr ''KES''), (''receive_amount_minor'', PyInt 4), (''currency_to'', PyStr ''UGX''),
     (''commercial_state'', PyStr ''ACCEPTED''), (''accepted_at'', PyInt n),
     (''payer'', obj [(''actor_type'', PyStr ''USER''), (''actor_id'', PyStr ''alice'')]),
     (''beneficiary'', obj [(''actor_type'', PyStr ''merchant''), (''actor_id'', PyStr ''M1'')])]"

definition shop_projection :: "string \<Rightarrow> int \<Rightarrow> pyval \<Rightarrow> utt_projection" where
  "shop_projection u n h = \<lparr>up_utt_id = u, up_utt_payload_sha256 = h, up_quote_id = PyStr ''Q'', up_purpose = PyStr ''REFUND'',
     up_context_type = PyStr ''MERCHANT'', up_amount_minor = PyInt 5, up_currency_from = PyStr ''KES'', up_receive_amount_minor = PyInt 4,
     up_currency_to = PyStr ''UGX'', up_commercial_state = PyStr ''ACCEPTED'', up_accepted_at = from_epoch n, up_indexed_at = from_epoch 20\<rparr>"

definition shop_link :: "string \<Rightarrow> subject_link" where
  "shop_link u = \<lparr>sl_utt_id = u, sl_subject_kind = SUBJ_MERCHANT_ID, sl_subject_id = ''M1'',
     sl_roles = [TX_BENEFICIARY, TX_ORIGIN_MERCHANT], sl_linked_at = from_epoch 20\<rparr>"

definition shop_origin :: pyval where
  "shop_origin = freeze (obj [(''context_type'', PyStr ''MERCHANT''), (''merchant_id'', PyStr '' m1'')])"

lemma shop_items:
  assumes "n \<in> {10, 11}"
  shows "py_item (freeze (shop_utt n)) ''origin'' = Inr shop_origin" "py_item (freeze (shop_utt n)) ''quote_id'' = Inr (PyStr ''Q'')"
    "py_item (freeze (shop_utt n)) ''purpose'' = Inr (PyStr ''REFUND'')" "py_item shop_origin ''context_type'' = Inr (PyStr ''MERCHANT'')"
    "py_item (freeze (shop_utt n)) ''amount_minor'' = Inr (PyInt 5)" "py_item (freeze (shop_utt n)) ''currency_from'' = Inr (PyStr ''KES'')"
    "py_item (freeze (shop_utt n)) ''receive_amount_minor'' = Inr (PyInt 4)" "py_item (freeze (shop_utt n)) ''currency_to'' = Inr (PyStr ''UGX'')"
    "py_item (freeze (shop_utt n)) ''commercial_state'' = Inr (PyStr ''ACCEPTED'')"
    "rbind (py_item (freeze (shop_utt n)) ''accepted_at'') utc_datetime_from_epoch = Inr (from_epoch n)"
    "roles_by_subject empty_identity_repository (freeze (shop_utt n)) shop_origin
       = Inr [((SUBJ_MERCHANT_ID, ''M1''), [TX_ORIGIN_MERCHANT, TX_BENEFICIARY])]"
  using assms by (elim insertE emptyE; simp; code_simp)+

lemma shop_links: "subject_links u (from_epoch 20) [((SUBJ_MERCHANT_ID, ''M1''), [TX_ORIGIN_MERCHANT, TX_BENEFICIARY])] = [shop_link u]"
  by (simp add: subject_links_def shop_link_def)

lemma shop_entry:
  assumes "n \<in> {10, 11}" "sign_artifact demo_platform demo_keys UTT (shop_utt n) ''ke'' (Aware (from_epoch n)) = Inr su"
    and "require_utt (strip u) contracts = Inr su" "strip u \<noteq> []"
  shows "\<exists>h. index_entry demo_platform demo_keys contracts empty_identity_repository u (Aware (from_epoch 20)) = Inr (shop_projection u n h, [shop_link u])"
proof -
  have v: "verify_artifact demo_platform demo_keys su (Some UTT) False =
      Inr \<lparr>vr_valid = True, vr_reason = ''VALID'', vr_key_id = Some ''ke'', vr_artifact_type = Some UTT\<rparr>"
    using signed_now_verifies [OF demo_correct demo_keys_inv assms(2)] assms(1) by auto
  obtain h where h: "py_item (env_protected su) ''payload_sha256'' = Inr h" and p: "env_payload su = freeze (shop_utt n)"
    using assms(2) by (auto elim!: sign_artifactD simp: protected_header_def py_item_def obj_def)
  have "projection_for u su shop_origin (from_epoch 20) = Inr (shop_projection u n h)"
    by (simp add: projection_for_def Let_def h p shop_items [OF assms(1)] shop_projection_def)
  then show ?thesis
    using v assms(3,4) by (intro exI [of _ h]) (simp add: index_entry_def require_text_def p shop_items [OF assms(1)] shop_links)
qed


definition shop_store :: "pyval \<Rightarrow> pyval \<Rightarrow> history_store" where
  "shop_store h1 h2 = \<lparr>hs_projections = [(''UTT-1'', shop_projection ''UTT-1'' 10 h1), (''UTT-2'', shop_projection ''UTT-2'' 11 h2)],
     hs_links_by_utt = [(''UTT-1'', [shop_link ''UTT-1'']), (''UTT-2'', [shop_link ''UTT-2''])],
     hs_utts_by_subject = [((SUBJ_MERCHANT_ID, ''M1''), [''UTT-1'', ''UTT-2''])], hs_audits = []\<rparr>"

lemma shop_signed:
  assumes "n \<in> {10, 11}"
  obtains su where "sign_artifact demo_platform demo_keys UTT (shop_utt n) ''ke'' (Aware (from_epoch n)) = Inr su"
proof -
  have "plain (shop_utt n)" by (simp add: shop_utt_def plain_obj)
  moreover have "can_sign demo_platform demo_keys ''ke'' EXECUTION_SIGNING (from_epoch n)"
    using assms by (auto simp: can_sign_def permits_signing_at_def from_epoch_def)
  ultimately show thesis using can_sign_ok [of demo_platform demo_keys "''ke''" UTT "from_epoch n" "shop_utt n"] that by auto
qed

lemma shop_run: obtains h1 h2 where "history_step\<^sup>*\<^sup>* empty_history_store (shop_store h1 h2)"
proof -
  obtain su1 where su1: "sign_artifact demo_platform demo_keys UTT (shop_utt 10) ''ke'' (Aware (from_epoch 10)) = Inr su1"
    by (rule shop_signed [of 10]) simp
  obtain su2 where su2: "sign_artifact demo_platform demo_keys UTT (shop_utt 11) ''ke'' (Aware (from_epoch 11)) = Inr su2"
    by (rule shop_signed [of 11]) simp
  let ?c = "\<lparr>cs_idempotency = [], cs_quote_to_utt = [], cs_utts = [(''UTT-1'', su1), (''UTT-2'', su2)]\<rparr>"
  let ?at = "Aware (from_epoch 20)"
  have st: "strip ''UTT-1'' = ''UTT-1''" "strip ''UTT-2'' = ''UTT-2''" by code_simp+
  obtain h1 where h1: "index_entry demo_platform demo_keys ?c empty_identity_repository ''UTT-1'' ?at = Inr (shop_projection ''UTT-1'' 10 h1, [shop_link ''UTT-1''])"
    using shop_entry [OF _ su1, of "''UTT-1''" ?c] st(1) by (auto simp: require_utt_def)
  obtain h2 where h2: "index_entry demo_platform demo_keys ?c empty_identity_repository ''UTT-2'' ?at = Inr (shop_projection ''UTT-2'' 11 h2, [shop_link ''UTT-2''])"
    using shop_entry [OF _ su2, of "''UTT-2''" ?c] st(2) by (auto simp: require_utt_def)
  let ?s = "snd (index_utt demo_platform demo_keys ?c empty_identity_repository ''UTT-1'' ?at empty_history_store)"
  have "history_step empty_history_store ?s" by (rule h_index) (rule surjective_pairing)
  moreover have "index_utt demo_platform demo_keys ?c empty_identity_repository ''UTT-2'' ?at ?s = (Inr (shop_projection ''UTT-2'' 11 h2), shop_store h1 h2)"
    by (simp add: index_utt_def h1 h2 commit_projection_def empty_history_store_def shop_store_def shop_projection_def shop_link_def
        dict_add_def dict_members_def set_add_def)
  ultimately have "history_step\<^sup>*\<^sup>* empty_history_store (shop_store h1 h2)" by (meson h_index r_into_rtranclp rtranclp.rtrancl_into_rtrancl)
  then show thesis by (rule that)
qed

definition shop_reader :: read_context where
  "shop_reader = \<lparr>rx_principal_id = ''clerk'', rx_continuity_uid = None, rx_merchant_ids = [''m1''], rx_branch_ids = [], rx_partner_ids = [],
     rx_permissions = [], rx_access_reason = None\<rparr>"

lemma shop_rows: "list_for_subject SUBJ_MERCHANT_ID ''M1'' (shop_store h1 h2) =
    Inr [(shop_projection ''UTT-2'' 11 h2, shop_link ''UTT-2''), (shop_projection ''UTT-1'' 10 h1, shop_link ''UTT-1'')]"
  by (simp add: list_for_subject_def shop_store_def dict_members_def subject_row_def dict_item_def sort_reverse_def
      shop_link_def shop_projection_def from_epoch_def)

lemma shop_subject: "upper (strip ''m1 '') = ''M1''" "strip ''m1 '' \<noteq> []" "strip ''clerk'' \<noteq> []" "strip ''UTT-1'' = ''UTT-1''"
  by code_simp+

lemma shop_permitted: "permitted SUBJ_MERCHANT_ID ''M1'' shop_reader" "\<not> permitted SUBJ_BRANCH_ID ''M1'' shop_reader"
  by code_simp+

theorem history_index_exact_witness:
  "\<exists>h1 h2. history_step\<^sup>*\<^sup>* empty_history_store (shop_store h1 h2)
     \<and> (\<exists>rows. list_for_subject SUBJ_MERCHANT_ID ''M1'' (shop_store h1 h2) = Inr rows \<and> distinct rows \<and> length rows = 2)"
proof -
  obtain h1 h2 where s: "history_step\<^sup>*\<^sup>* empty_history_store (shop_store h1 h2)" by (rule shop_run)
  obtain rows where "list_for_subject SUBJ_MERCHANT_ID ''M1'' (shop_store h1 h2) = Inr rows" "distinct rows"
    using history_index_exact [OF s, of SUBJ_MERCHANT_ID "''M1''", THEN conjunct1] by blast
  moreover from this(1) have "length rows = 2" using shop_rows [of h1 h2] by auto
  ultimately show ?thesis using s by blast
qed

theorem queries_permissioned_witness:
  "\<exists>h1 h2 (s' :: history_store). history_step\<^sup>*\<^sup>* empty_history_store (shop_store h1 h2)
     \<and> (\<exists>m. list_by_subject ''a'' SUBJ_BRANCH_ID ''m1 '' shop_reader 50 None (Aware (from_epoch 30)) (shop_store h1 h2)
          = (Inl (Raise TransactionAccessDeniedError m), s'))
     \<and> audited (shop_store h1 h2) s' shop_reader ''M1'' ACCESS_DENIED"
proof -
  obtain h1 h2 where s: "history_step\<^sup>*\<^sup>* empty_history_store (shop_store h1 h2)" by (rule shop_run)
  obtain x s' where l: "list_by_subject ''a'' SUBJ_BRANCH_ID ''m1 '' shop_reader 50 None (Aware (from_epoch 30)) (shop_store h1 h2) = (x, s')"
    by fastforce
  obtain y s'' where g: "get_by_utt ''b'' ''UTT-1'' shop_reader (Aware (from_epoch 30)) (shop_store h1 h2) = (y, s'')" by fastforce
  have "audit_possible ''a'' shop_reader (shop_store h1 h2)"
    using shop_subject(3) by (simp add: audit_possible_def shop_store_def shop_reader_def)
  then have "\<exists>m. x = Inl (Raise TransactionAccessDeniedError m)"
    using queries_permissioned [OF s l g, of "from_epoch 30"] shop_permitted(2) by (simp add: shop_subject)
  moreover from this have "audited (shop_store h1 h2) s' shop_reader ''M1'' ACCESS_DENIED"
    using queries_permissioned [OF s l g] by (auto simp: shop_subject)
  ultimately show ?thesis using s l by auto
qed


theorem padded_index_hidden_witness:
  "\<exists>contracts s' p m. index_utt demo_platform demo_keys contracts empty_identity_repository '' UTT-1'' (Aware (from_epoch 20)) empty_history_store = (Inr p, s')
     \<and> get_by_utt ''a'' '' UTT-1'' shop_reader (Aware (from_epoch 30)) s' = (Inl (Raise TransactionProjectionNotFoundError m), s')"
proof -
  obtain su where su: "sign_artifact demo_platform demo_keys UTT (shop_utt 10) ''ke'' (Aware (from_epoch 10)) = Inr su"
    by (rule shop_signed [of 10]) simp
  let ?c = "\<lparr>cs_idempotency = [], cs_quote_to_utt = [], cs_utts = [(''UTT-1'', su)]\<rparr>"
  have st: "strip '' UTT-1'' = ''UTT-1''" by code_simp
  obtain h where h: "index_entry demo_platform demo_keys ?c empty_identity_repository '' UTT-1'' (Aware (from_epoch 20)) = Inr (shop_projection '' UTT-1'' 10 h, [shop_link '' UTT-1''])"
    using shop_entry [OF _ su, of "'' UTT-1''" ?c] st by (auto simp: require_utt_def)
  obtain p s' where i: "index_utt demo_platform demo_keys ?c empty_identity_repository '' UTT-1'' (Aware (from_epoch 20)) empty_history_store = (Inr p, s')"
    by (simp add: index_utt_def h commit_projection_def empty_history_store_def shop_projection_def shop_link_def)
  show ?thesis using padded_index_hidden [OF i, of "''a''" shop_reader "from_epoch 30"] st i by (auto simp: empty_history_store_def)
qed

end
