(* ===== verification/Access_Token.thy ===== *)
theory Access_Token
  imports History Json_Loads
begin

text \<open>
  Access tokens (\<^verbatim>\<open>railone_api/auth.py\<close>): Ed25519-signed JWTs with actor scopes, their issue, verification and
  revocation.  \<^verbatim>\<open>json.loads\<close> of bytes is modelled for UTF-8 text; the detection of UTF-16 and UTF-32 is not.
\<close>

section \<open>Scopes and principals\<close>

datatype principal_type = HUMAN | MERCHANT_SERVICE | PARTNER_SERVICE | OPERATOR

fun principal_type_value :: "principal_type \<Rightarrow> string" where
  "principal_type_value HUMAN = ''HUMAN''"
| "principal_type_value MERCHANT_SERVICE = ''MERCHANT_SERVICE''"
| "principal_type_value PARTNER_SERVICE = ''PARTNER_SERVICE''"
| "principal_type_value OPERATOR = ''OPERATOR''"

definition principal_type_of :: "pyval \<Rightarrow> principal_type res" where
  "principal_type_of v = (case find (\<lambda>t. v = PyStr (principal_type_value t)) [HUMAN, MERCHANT_SERVICE, PARTNER_SERVICE, OPERATOR] of
     Some t \<Rightarrow> Inr t | None \<Rightarrow> Inl (Raise ValueError ''not a valid PrincipalType''))"

record actor_scopes =
  as_continuity_uid :: "string option"
  as_merchant_ids :: "string list"
  as_branch_ids :: "string list"
  as_partner_ids :: "string list"
  as_permissions :: "string list"

definition normalized_values :: "string \<Rightarrow> string \<Rightarrow> (string \<Rightarrow> string) \<Rightarrow> string list \<Rightarrow> string list res" where
  \<comment> \<open>what \<^verbatim>\<open>_normalized_ids\<close> and \<^verbatim>\<open>_normalized_permissions\<close> share\<close>
  "normalized_values unique_msg long_msg f values =
     (let normalized = sort (remdups (map f (filter (\<lambda>v. strip v \<noteq> []) values))) in
      rbind (guard_res (length normalized \<noteq> length values) ValueError unique_msg) (\<lambda>_.
      rbind (guard_res (\<exists>v\<in>set normalized. length v > 128) ValueError long_msg) (\<lambda>_.
      Inr normalized)))"

definition normalized_ids :: "string \<Rightarrow> string list \<Rightarrow> string list res" where
  "normalized_ids name = normalized_values (name @ '' must contain unique non-empty identifiers'')
     (name @ '' identifiers cannot exceed 128 characters'') (\<lambda>v. upper (strip v))"

definition normalized_permissions :: "string list \<Rightarrow> string list res" where
  "normalized_permissions = normalized_values ''permissions must contain unique non-empty values''
     ''permissions cannot exceed 128 characters'' strip"

definition contuid_form :: "string \<Rightarrow> bool" where
  \<comment> \<open>\<^verbatim>\<open>re.fullmatch(r"CUID-[A-Z2-7]{32}", s)\<close>\<close>
  "contuid_form s \<longleftrightarrow> starts_with s ''CUID-'' \<and> length s = 37 \<and> list_all (\<lambda>c. c \<in> set b32_alphabet) (drop 5 s)"

definition normalized_uid :: "string option \<Rightarrow> string option res" where
  "normalized_uid uid =
     (case uid of
        None \<Rightarrow> Inr None
      | Some u \<Rightarrow> rbind (guard_res (\<not> contuid_form (upper (strip u))) ValueError ''continuity_uid must be a RailOne ContUID'') (\<lambda>_.
                 Inr (Some (upper (strip u)))))"

definition total_scopes :: "actor_scopes \<Rightarrow> nat" where
  "total_scopes a = length (as_merchant_ids a) + length (as_branch_ids a) + length (as_partner_ids a) + length (as_permissions a)
     + (case as_continuity_uid a of None \<Rightarrow> 0 | Some u \<Rightarrow> if u = [] then 0 else 1)"

definition normalized :: "actor_scopes \<Rightarrow> actor_scopes res" where
  "normalized a =
     rbind (normalized_uid (as_continuity_uid a)) (\<lambda>uid.
     rbind (normalized_ids ''merchant_ids'' (as_merchant_ids a)) (\<lambda>ms.
     rbind (normalized_ids ''branch_ids'' (as_branch_ids a)) (\<lambda>bs.
     rbind (normalized_ids ''partner_ids'' (as_partner_ids a)) (\<lambda>ps.
     rbind (normalized_permissions (as_permissions a)) (\<lambda>perms.
     let b = \<lparr>as_continuity_uid = uid, as_merchant_ids = ms, as_branch_ids = bs, as_partner_ids = ps, as_permissions = perms\<rparr> in
     rbind (guard_res (total_scopes b > 200) ValueError ''access token exceeds the actor-scope limit'') (\<lambda>_.
     Inr b))))))"

definition transaction_context :: "actor_scopes \<Rightarrow> string \<Rightarrow> string option \<Rightarrow> read_context res" where
  "transaction_context a principal_id access_reason =
     rbind (normalized a) (\<lambda>b. Inr \<lparr>rx_principal_id = principal_id, rx_continuity_uid = as_continuity_uid b,
       rx_merchant_ids = as_merchant_ids b, rx_branch_ids = as_branch_ids b, rx_partner_ids = as_partner_ids b,
       rx_permissions = as_permissions b, rx_access_reason = access_reason\<rparr>)"

definition validate_principal_scope :: "principal_type \<Rightarrow> actor_scopes \<Rightarrow> unit res" where
  "validate_principal_scope ty a =
     rbind (guard_res (read_any_permission \<in> set (as_permissions a) \<and> ty \<noteq> OPERATOR) ValueError
              ''privileged transaction permission requires OPERATOR principal type'') (\<lambda>_.
     rbind (guard_res (ty = MERCHANT_SERVICE \<and> as_merchant_ids a = []) ValueError
              ''merchant service requires at least one merchant scope'') (\<lambda>_.
     guard_res (ty = PARTNER_SERVICE \<and> as_partner_ids a = []) ValueError
              ''partner service requires at least one partner scope''))"

record authenticated_principal =
  ap_principal_id :: string
  ap_principal_type :: principal_type
  ap_token_id :: string
  ap_issuer :: string
  ap_audience :: string
  ap_scopes :: actor_scopes
  ap_issued_at :: instant
  ap_expires_at :: instant

definition token_error :: "string \<Rightarrow> error" where
  "token_error code = Raise AccessTokenError code"

section \<open>Revocations\<close>

type_synonym revocation_store = "(string, instant \<times> string) dict"

definition is_revoked :: "string \<Rightarrow> revocation_store \<Rightarrow> bool" where
  "is_revoked token_id s \<longleftrightarrow> dict_has s token_id"

definition revoke_token_id :: "string \<Rightarrow> instant \<Rightarrow> string \<Rightarrow> (revocation_store, unit) st" where
  "revoke_token_id token_id expires_at reason s =
     (if strip reason = [] then (Inl (Raise ValueError ''token revocation reason is required''), s)
      else let material = (expires_at, upper (strip reason)) in
        case dict_get s token_id of
          Some prior \<Rightarrow> if prior \<noteq> material then (Inl (Raise RuntimeError ''token revocation conflict''), s)
                        else (Inr (), dict_set token_id material s)
        | None \<Rightarrow> (Inr (), dict_set token_id material s))"

section \<open>The token service\<close>

record token_service =
  tk_issuer :: string
  tk_audience :: string
  tk_max_ttl_seconds :: int
  tk_clock_skew_seconds :: int

definition token_service_init :: "string \<Rightarrow> string \<Rightarrow> int \<Rightarrow> int \<Rightarrow> token_service res" where
  "token_service_init issuer audience max_ttl_seconds clock_skew_seconds =
     rbind (guard_res (strip issuer = [] \<or> strip audience = []) ValueError ''token issuer and audience are required'') (\<lambda>_.
     rbind (guard_res (\<not> (60 \<le> max_ttl_seconds \<and> max_ttl_seconds \<le> 3600)) ValueError
              ''maximum token TTL must be between 60 and 3600 seconds'') (\<lambda>_.
     Inr \<lparr>tk_issuer = strip issuer, tk_audience = strip audience, tk_max_ttl_seconds = max_ttl_seconds,
          tk_clock_skew_seconds = clock_skew_seconds\<rparr>))"

definition json_text :: "pyval \<Rightarrow> string res" where
  \<comment> \<open>\<^verbatim>\<open>_json(value)\<close>\<close>
  "json_text v = (case json_dumps v of None \<Rightarrow> Inl (Raise TypeError ''Object is not JSON serializable'') | Some t \<Rightarrow> Inr t)"

definition token_header :: "string \<Rightarrow> pyval" where
  "token_header key_id = obj [(''alg'', PyStr ''EdDSA''), (''kid'', PyStr key_id), (''typ'', PyStr ''JWT'')]"

definition scope_claim :: "actor_scopes \<Rightarrow> pyval" where
  "scope_claim a = obj [(''continuity_uid'', case as_continuity_uid a of None \<Rightarrow> PyNone | Some u \<Rightarrow> PyStr u),
     (''merchant_ids'', PyList (map PyStr (as_merchant_ids a))), (''branch_ids'', PyList (map PyStr (as_branch_ids a))),
     (''partner_ids'', PyList (map PyStr (as_partner_ids a))), (''permissions'', PyList (map PyStr (as_permissions a)))]"

definition token_claims ::
  "token_service \<Rightarrow> string \<Rightarrow> string \<Rightarrow> principal_type \<Rightarrow> instant \<Rightarrow> instant \<Rightarrow> actor_scopes \<Rightarrow> pyval" where
  "token_claims svc sub jti ty instant expires a = obj [(''iss'', PyStr (tk_issuer svc)), (''aud'', PyStr (tk_audience svc)),
     (''sub'', PyStr sub), (''jti'', PyStr jti), (''principal_type'', PyStr (principal_type_value ty)),
     (''iat'', PyInt (epoch instant)), (''nbf'', PyInt (epoch instant)), (''exp'', PyInt (epoch expires)),
     (''scope'', scope_claim a)]"

definition sign_token :: "platform \<Rightarrow> key_provider \<Rightarrow> string \<Rightarrow> pyval \<Rightarrow> pyval \<Rightarrow> string res" where
  "sign_token P ks key_id header claims =
     rbind (json_text header) (\<lambda>h. rbind (json_text claims) (\<lambda>c.
     let inp = b64url_encode h @ ''.'' @ b64url_encode c in
     rbind (kp_sign P ks key_id inp) (\<lambda>signature. Inr (inp @ ''.'' @ b64url_encode signature))))"

definition token_jti :: "string \<Rightarrow> string option \<Rightarrow> string" where
  \<comment> \<open>\<^verbatim>\<open>token_id or f"AT-{uuid4().hex.upper()}"\<close>\<close>
  "token_jti nonce token_id = (case token_id of Some i \<Rightarrow> if i = [] then ''AT-'' @ nonce else i | None \<Rightarrow> ''AT-'' @ nonce)"

definition issue_token ::
  "platform \<Rightarrow> key_provider \<Rightarrow> token_service \<Rightarrow> string \<Rightarrow> string \<Rightarrow> principal_type \<Rightarrow> actor_scopes \<Rightarrow> string \<Rightarrow> int \<Rightarrow>
    string option \<Rightarrow> datetime \<Rightarrow> string res" where
  \<comment> \<open>\<open>nonce\<close> is \<^verbatim>\<open>uuid4().hex.upper()\<close>\<close>
  "issue_token P ks svc nonce principal_id ty scopes key_id ttl_seconds token_id at =
     rbind (require_aware ''access-token timestamp'' at) (\<lambda>instant.
     rbind (guard_res (strip principal_id = []) ValueError ''principal_id is required'') (\<lambda>_.
     rbind (guard_res (\<not> (60 \<le> ttl_seconds \<and> ttl_seconds \<le> tk_max_ttl_seconds svc)) ValueError ''token TTL exceeds policy'') (\<lambda>_.
     case get_key_record ks key_id of
       None \<Rightarrow> Inl (Raise KeyError (''unknown access-token signing key: '' @ key_id))
     | Some r \<Rightarrow>
         rbind (guard_res (kr_purpose r \<noteq> ACCESS_TOKEN_SIGNING) PermissionError ''key is not authorized for access-token signing'') (\<lambda>_.
         rbind (guard_res (\<not> permits_signing_at r instant) PermissionError ''access-token signing key is not active'') (\<lambda>_.
         rbind (normalized scopes) (\<lambda>norm.
         rbind (validate_principal_scope ty norm) (\<lambda>_.
         let jti = token_jti nonce token_id; expires = instant + usec ttl_seconds in
         rbind (guard_res (expires > kr_not_after r) ValueError ''access token cannot outlive its signing key'') (\<lambda>_.
         sign_token P ks key_id (token_header key_id) (token_claims svc (strip principal_id) jti ty instant expires norm)))))))))"

section \<open>Verification\<close>

fun split_dots :: "string \<Rightarrow> string list" where
  \<comment> \<open>\<^verbatim>\<open>s.split(".")\<close>\<close>
  "split_dots [] = [[]]"
| "split_dots (c # cs) =
     (if c = CHR ''.'' then [] # split_dots cs
      else case split_dots cs of [] \<Rightarrow> [[c]] | p # ps \<Rightarrow> (c # p) # ps)"

definition decoded_json :: "string \<Rightarrow> pyval res" where
  "decoded_json part = rbind (b64url_decode part) json_loads"

definition token_parts :: "string \<Rightarrow> (string \<times> string \<times> string \<times> pyval \<times> pyval) res" where
  "token_parts token =
     (case split_dots token of
        [h, c, s] \<Rightarrow>
          (case (decoded_json h, decoded_json c) of
             (Inr header, Inr claims) \<Rightarrow> Inr (h, c, s, header, claims)
           | _ \<Rightarrow> Inl (token_error ''TOKEN_MALFORMED''))
      | _ \<Rightarrow> Inl (token_error ''TOKEN_MALFORMED''))"

definition dict_keys :: "pyval \<Rightarrow> pyval list option" where
  \<comment> \<open>the keys of a mapping, \<^const>\<open>None\<close> for another value\<close>
  "dict_keys v = (case v of PyDict kvs \<Rightarrow> Some (map fst kvs) | _ \<Rightarrow> None)"

definition token_key :: "key_provider \<Rightarrow> pyval \<Rightarrow> key_record res" where
  "token_key ks header =
     (case dict_keys header of
        None \<Rightarrow> Inl (token_error ''TOKEN_MALFORMED'')
      | Some hks \<Rightarrow>
          if set hks \<noteq> {PyStr ''alg'', PyStr ''kid'', PyStr ''typ''} then Inl (token_error ''TOKEN_HEADER_INVALID'')
          else if py_get header ''alg'' \<noteq> PyStr ''EdDSA'' \<or> py_get header ''typ'' \<noteq> PyStr ''JWT''
          then Inl (token_error ''TOKEN_ALGORITHM_REJECTED'')
          else case (case py_get header ''kid'' of PyStr kid \<Rightarrow> get_key_record ks kid | _ \<Rightarrow> None) of
            None \<Rightarrow> Inl (token_error ''TOKEN_KEY_NOT_FOUND'')
          | Some r \<Rightarrow>
              if kr_purpose r \<noteq> ACCESS_TOKEN_SIGNING then Inl (token_error ''TOKEN_KEY_PURPOSE_MISMATCH'')
              else if kr_status r = KEY_REVOKED then Inl (token_error ''TOKEN_KEY_REVOKED'')
              else Inr r)"

definition token_signature_ok :: "platform \<Rightarrow> key_record \<Rightarrow> string \<Rightarrow> string \<Rightarrow> string \<Rightarrow> bool" where
  \<comment> \<open>no \<^verbatim>\<open>InvalidSignature\<close> or \<^verbatim>\<open>ValueError\<close> from the signature check\<close>
  "token_signature_ok P r h c s \<longleftrightarrow> length (kr_public_key r) = 32
     \<and> (case b64url_decode s of Inl e \<Rightarrow> False | Inr signature \<Rightarrow> ed_verify P (kr_public_key r) signature (h @ ''.'' @ c))"

definition epoch_claim :: "pyval \<Rightarrow> string \<Rightarrow> instant res" where
  "epoch_claim claims name =
     rbind (py_item claims name) (\<lambda>v.
     case strict_int v of
       None \<Rightarrow> Inl (Raise ValueError (name @ '' must be an integer epoch timestamp''))
     | Some n \<Rightarrow> fromtimestamp n)"

definition text_claim :: "pyval \<Rightarrow> string \<Rightarrow> string res" where
  "text_claim claims name =
     rbind (py_item claims name) (\<lambda>v. case v of PyStr s \<Rightarrow> Inr s | _ \<Rightarrow> Inl (Raise ValueError ''sub and jti must be strings''))"

definition py_text :: "pyval \<Rightarrow> string res" where
  "py_text v = (case v of PyStr s \<Rightarrow> Inr s | _ \<Rightarrow> Inl (Raise TypeError ''must contain strings''))"

definition scope_list :: "pyval \<Rightarrow> string \<Rightarrow> string list res" where
  \<comment> \<open>\<^verbatim>\<open>tuple(raw_scope.get(name, ()))\<close> of an array of text\<close>
  "scope_list raw name =
     (case pget raw name of
        None \<Rightarrow> Inr []
      | Some (PyList vs) \<Rightarrow> rmap py_text vs
      | Some (PyTuple vs) \<Rightarrow> rmap py_text vs
      | Some _ \<Rightarrow> Inl (Raise ValueError (name @ '' must be an array'')))"

definition claimed_scopes :: "pyval \<Rightarrow> actor_scopes res" where
  "claimed_scopes raw =
     rbind (guard_res (dict_keys raw = None) ValueError ''scope must be an object'') (\<lambda>_.
     rbind (scope_list raw ''merchant_ids'') (\<lambda>ms.
     rbind (scope_list raw ''branch_ids'') (\<lambda>bs.
     rbind (scope_list raw ''partner_ids'') (\<lambda>ps.
     rbind (scope_list raw ''permissions'') (\<lambda>perms.
     rbind (case py_get raw ''continuity_uid'' of
              PyNone \<Rightarrow> Inr None | PyStr u \<Rightarrow> Inr (Some u)
            | _ \<Rightarrow> Inl (Raise TypeError ''continuity_uid must be a string'')) (\<lambda>uid.
     normalized \<lparr>as_continuity_uid = uid, as_merchant_ids = ms, as_branch_ids = bs, as_partner_ids = ps, as_permissions = perms\<rparr>))))))"

definition token_content :: "pyval \<Rightarrow> (instant \<times> instant \<times> instant \<times> string \<times> string \<times> principal_type \<times> actor_scopes) res" where
  \<comment> \<open>the body of the \<^verbatim>\<open>try\<close> block on the claims\<close>
  "token_content claims =
     rbind (epoch_claim claims ''iat'') (\<lambda>issued_at.
     rbind (epoch_claim claims ''nbf'') (\<lambda>not_before.
     rbind (epoch_claim claims ''exp'') (\<lambda>expires_at.
     rbind (text_claim claims ''sub'') (\<lambda>principal_id.
     rbind (text_claim claims ''jti'') (\<lambda>token_id.
     rbind (rbind (py_item claims ''principal_type'') principal_type_of) (\<lambda>ty.
     rbind (rbind (py_item claims ''scope'') claimed_scopes) (\<lambda>scopes.
     rbind (validate_principal_scope ty scopes) (\<lambda>_.
     Inr (issued_at, not_before, expires_at, principal_id, token_id, ty, scopes)))))))))"

definition checked_content ::
  "token_service \<Rightarrow> key_record \<Rightarrow> pyval \<Rightarrow> (instant \<times> instant \<times> instant \<times> string \<times> string \<times> principal_type \<times> actor_scopes) res" where
  "checked_content svc r claims =
     (if py_get claims ''iss'' \<noteq> PyStr (tk_issuer svc) \<or> py_get claims ''aud'' \<noteq> PyStr (tk_audience svc)
      then Inl (token_error ''TOKEN_ISSUER_OR_AUDIENCE_INVALID'')
      else case token_content claims of
        Inr content \<Rightarrow> Inr content
      | Inl e \<Rightarrow>
          if exc_isa (exc_of e) KeyError \<or> exc_isa (exc_of e) TypeError \<or> exc_isa (exc_of e) ValueError \<or> exc_isa (exc_of e) OverflowError
          then Inl (token_error ''TOKEN_CLAIMS_INVALID'') else Inl e)"

definition verify_token ::
  "platform \<Rightarrow> key_provider \<Rightarrow> token_service \<Rightarrow> revocation_store \<Rightarrow> string \<Rightarrow> datetime \<Rightarrow> authenticated_principal res" where
  "verify_token P ks svc revocations token at =
     rbind (require_aware ''access-token timestamp'' at) (\<lambda>instant.
     if strip token = [] then Inl (token_error ''BEARER_TOKEN_REQUIRED'')
     else if length token > 16384 then Inl (token_error ''TOKEN_TOO_LARGE'')
     else rbind (token_parts token) (\<lambda>(h, c, s, header, claims).
     if dict_keys header = None \<or> dict_keys claims = None then Inl (token_error ''TOKEN_MALFORMED'')
     else rbind (token_key ks header) (\<lambda>r.
     if \<not> token_signature_ok P r h c s then Inl (token_error ''TOKEN_SIGNATURE_INVALID'')
     else rbind (checked_content svc r claims) (\<lambda>(issued_at, not_before, expires_at, principal_id, token_id, ty, scopes).
     let skew = usec (tk_clock_skew_seconds svc) in
     if issued_at - skew > instant \<or> not_before - skew > instant then Inl (token_error ''TOKEN_NOT_YET_VALID'')
     else if instant \<ge> expires_at + skew then Inl (token_error ''TOKEN_EXPIRED'')
     else if expires_at \<le> issued_at \<or> expires_at - issued_at > usec (tk_max_ttl_seconds svc)
     then Inl (token_error ''TOKEN_LIFETIME_INVALID'')
     else if \<not> (kr_not_before r \<le> issued_at \<and> issued_at < kr_not_after r) \<or> expires_at > kr_not_after r
     then Inl (token_error ''TOKEN_OUTSIDE_KEY_LIFETIME'')
     else if strip principal_id = [] \<or> strip token_id = [] then Inl (token_error ''TOKEN_CLAIMS_INVALID'')
     else if is_revoked token_id revocations then Inl (token_error ''TOKEN_REVOKED'')
     else Inr \<lparr>ap_principal_id = principal_id, ap_principal_type = ty, ap_token_id = token_id, ap_issuer = tk_issuer svc,
            ap_audience = tk_audience svc, ap_scopes = scopes, ap_issued_at = issued_at, ap_expires_at = expires_at\<rparr>))))"

definition revoke_token ::
  "platform \<Rightarrow> key_provider \<Rightarrow> token_service \<Rightarrow> string \<Rightarrow> string \<Rightarrow> datetime \<Rightarrow> (revocation_store, unit) st" where
  "revoke_token P ks svc token reason at =
     sbind (slift (require_aware ''access-token timestamp'' at)) (\<lambda>instant.
     sbind (sget (\<lambda>s. verify_token P ks svc s token (Aware instant))) (\<lambda>principal.
     revoke_token_id (ap_token_id principal) (ap_expires_at principal) reason))"

end
