(* ===== verification/Token_Properties.thy ===== *)
theory Token_Properties
  imports Access_Token
begin

text \<open>
  What an accepted access token guarantees, and that what the service issues is accepted as it was issued.
\<close>

section \<open>Splitting and reading back\<close>

lemma b64_char_dot: "v < 64 \<Longrightarrow> b64_char v \<noteq> CHR ''.''"
  using b64_value_char [of v] by (auto simp: b64_value_def)

lemma b64_digits_bound: "\<forall>b\<in>set bs. b < 256 \<Longrightarrow> v \<in> set (b64_digits bs) \<Longrightarrow> v < 64"
proof (induction bs rule: b64_digits.induct)
  case (2 a)
  then show ?case using digit_bounds [of a a a] by auto
next
  case (3 a b)
  then show ?case using digit_bounds [of a b b] by auto
next
  case (4 a b c r)
  then show ?case using digit_bounds [of a b c] by (auto simp: less_imp_le_nat)
qed simp

lemma b64url_no_dot: "CHR ''.'' \<notin> set (b64url_encode x)"
proof
  assume "CHR ''.'' \<in> set (b64url_encode x)"
  then obtain v where v: "v \<in> set (b64_digits (map of_char x))" "b64_char v = CHR ''.''" by (auto simp: b64url_encode_def)
  have "\<forall>b\<in>set (map of_char x). b < (256::nat)" by auto
  from b64_digits_bound [OF this v(1)] v(2) show False using b64_char_dot by blast
qed

lemma split_dots_nonempty: "split_dots s \<noteq> []"
  by (induction s) (auto split: list.splits)

lemma split_dots_plain: "CHR ''.'' \<notin> set a \<Longrightarrow> split_dots a = [a]"
  by (induction a) auto

lemma split_dots_append: "CHR ''.'' \<notin> set a \<Longrightarrow> split_dots (a @ CHR ''.'' # s) = a # split_dots s"
  by (induction a) auto

lemma split_dots_join: "split_dots s = [a, b, c] \<Longrightarrow> s = a @ ''.'' @ b @ ''.'' @ c"
proof -
  have join: "s = concat (map (\<lambda>p. CHR ''.'' # p) (split_dots s)) \<or> True" by simp
  have "CHR ''.'' # s = concat (map (\<lambda>p. CHR ''.'' # p) (split_dots s))" for s
    by (induction s) (auto split: list.splits simp: split_dots_nonempty)
  from this [of s] show "split_dots s = [a, b, c] \<Longrightarrow> s = a @ ''.'' @ b @ ''.'' @ c" by simp
qed

lemma dumps_plain:
  "plain v \<Longrightarrow> json_dumps v = Some (flat (canon v))"
  "plain_items kvs \<Longrightarrow> dump_items kvs = Some (map (\<lambda>(k, v). (k, flat v)) (canon_items kvs))"
  "plain_seq vs \<Longrightarrow> dump_seq vs = Some (flat_seq (canon_seq vs))"
  by (induction v and kvs and vs rule: plain_plain_items_plain_seq.induct)
     (auto simp: flat_items_sort)

abbreviation norm_json :: "pyval \<Rightarrow> pyval" where
  "norm_json v \<equiv> from_json (canon v)"

lemma decoded_json_text:
  assumes "json_text v = Inr t" "plain v" "unique_keys v"
  shows "decoded_json (b64url_encode t) = Inr (norm_json v)"
  using assms loads_flat [OF canon_keys_ok(1) [OF assms(2,3)]] by (auto simp: json_text_def dumps_plain decoded_json_def)

lemma map_of_from_json: "map_of (from_json_items kvs) (PyStr k) = map_option from_json (map_of kvs k)"
  by (induction kvs) auto

lemma map_of_canon: "plain_items kvs \<Longrightarrow> map_of (canon_items kvs) k = map_option canon (map_of kvs (PyStr k))"
  by (induction kvs) auto

lemma map_of_sort_key: "distinct (map fst xs) \<Longrightarrow> map_of (sort_key fst xs) = map_of xs"
proof -
  assume d: "distinct (map fst xs)"
  have "mset (map fst (sort_key fst xs)) = mset (map fst xs)" by simp
  then have "distinct (map fst (sort_key fst xs))" using d mset_eq_imp_distinct_iff by blast
  then show ?thesis using d by (intro map_of_inject_set [THEN iffD2]) simp_all
qed

lemma pget_norm:
  assumes "plain (obj kvs)" "distinct (map fst kvs)"
  shows "pget (norm_json (obj kvs)) k = map_option norm_json (map_of kvs k)"
proof -
  let ?d = "map (\<lambda>(k, v). (PyStr k, v)) kvs"
  have p: "plain_items ?d" using assms(1) by (simp add: obj_def)
  have "distinct (map PyStr (map fst kvs))" using assms(2) by (simp only: distinct_map) (simp add: inj_on_def)
  then have "distinct (map fst ?d)" by (simp add: comp_def case_prod_beta)
  then have "distinct (map fst (canon_items ?d))" using canon_keys_distinct [OF p] by simp
  then have "pget (norm_json (obj kvs)) k = map_option from_json (map_of (canon_items ?d) k)"
    by (simp add: obj_def pget_def map_of_from_json map_of_sort_key)
  also have "map_of (canon_items ?d) k = map_option canon (map_of kvs k)"
    by (simp add: map_of_canon [OF p]) (induction kvs, auto)
  finally show ?thesis by (simp add: option.map_comp comp_def)
qed

lemma keys_norm: "dict_keys (norm_json (obj kvs)) = Some (map PyStr (map fst (sort_key fst (canon_items (map (\<lambda>(k, v). (PyStr k, v)) kvs)))))"
  by (simp add: obj_def dict_keys_def from_json_items_keys)

lemma canon_items_obj: "canon_items (map (\<lambda>(k, v). (PyStr k, v)) kvs) = map (\<lambda>(k, v). (k, canon v)) kvs"
  by (induction kvs) auto

lemma set_keys_norm: "dict_keys (norm_json (obj kvs)) = Some ks \<Longrightarrow> set ks = PyStr ` fst ` set kvs"
  by (force simp: keys_norm canon_items_obj)

lemma norm_texts [simp]: "norm_json (PyList (map PyStr xs)) = PyList (map PyStr xs)"
  by (induction xs) auto

section \<open>Normal scopes\<close>

lemma upper_space: "is_space (upper_char c) \<longleftrightarrow> is_space c"
  by (auto simp: upper_char_def is_space_def Let_def)

lemma strip_upper: "strip (upper s) = upper (strip s)"
  by (simp add: strip_def upper_def dropWhile_map rev_map comp_def upper_space)

lemma normalized_values_again:
  assumes "normalized_values m1 m2 f xs = Inr ys" "\<And>v. f (f v) = f v" "\<And>v. strip v \<noteq> [] \<Longrightarrow> strip (f v) \<noteq> []"
  shows "normalized_values m3 m4 f ys = Inr ys" "\<forall>y\<in>set ys. f y = y"
proof -
  let ?ys = "sort (remdups (map f (filter (\<lambda>v. strip v \<noteq> []) xs)))"
  have ys: "ys = ?ys" and long: "\<forall>v\<in>set ys. length v \<le> 128"
    using assms(1) by (auto simp: normalized_values_def Let_def rbind_eq_Inr guard_res_eq_Inr not_less)
  have fy: "f y = y" "strip y \<noteq> []" if "y \<in> set ys" for y using that assms(2,3) by (auto simp: ys)
  have "filter (\<lambda>v. strip v \<noteq> []) ys = ys" "map f ys = ys" using fy by (auto simp: filter_id_conv map_idI)
  moreover have "distinct ys" "sorted ys" by (simp_all add: ys)
  then have "sort (remdups ys) = ys" by (simp add: sorted_sort_id)
  ultimately show "normalized_values m3 m4 f ys = Inr ys" using long by (auto simp: normalized_values_def Let_def guard_res_def)
  show "\<forall>y\<in>set ys. f y = y" using fy by simp
qed

lemma normalized_uid_again: "normalized_uid u = Inr v \<Longrightarrow> normalized_uid v = Inr v"
  by (auto simp: normalized_uid_def rbind_eq_Inr guard_res_eq_Inr strip_upper split: option.splits)

lemma normalized_again:
  assumes "normalized a = Inr b"
  shows "normalized b = Inr b"
proof -
  have u: "upper (strip (upper (strip v))) = upper (strip v)" for v by (simp add: strip_upper)
  have s: "strip v \<noteq> [] \<Longrightarrow> strip (upper (strip v)) \<noteq> []" for v by (simp add: strip_upper) (simp add: upper_def)
  let ?f = "\<lambda>v. upper (strip v)"
  obtain uid ms bs ps perms where n: "normalized_uid (as_continuity_uid a) = Inr uid"
    "normalized_ids ''merchant_ids'' (as_merchant_ids a) = Inr ms" "normalized_ids ''branch_ids'' (as_branch_ids a) = Inr bs"
    "normalized_ids ''partner_ids'' (as_partner_ids a) = Inr ps" "normalized_permissions (as_permissions a) = Inr perms"
    and b: "b = \<lparr>as_continuity_uid = uid, as_merchant_ids = ms, as_branch_ids = bs, as_partner_ids = ps, as_permissions = perms\<rparr>"
    and t: "\<not> total_scopes b > 200"
    using assms unfolding normalized_def Let_def by (elim rbind_InrE) (auto simp: guard_res_eq_Inr)
  note again = normalized_values_again(1) [where f = ?f, OF _ u s] normalized_values_again(1) [where f = strip, OF _ strip_idem]
  have "normalized_uid uid = Inr uid" "normalized_ids ''merchant_ids'' ms = Inr ms" "normalized_ids ''branch_ids'' bs = Inr bs"
    "normalized_ids ''partner_ids'' ps = Inr ps" "normalized_permissions perms = Inr perms"
    using n normalized_uid_again again unfolding normalized_ids_def normalized_permissions_def by simp_all
  then show ?thesis using t b by (simp add: normalized_def Let_def)
qed

section \<open>Accepted tokens\<close>

lemma token_partsD:
  assumes "token_parts token = Inr (h, c, s, header, claims)"
  shows "token = h @ ''.'' @ c @ ''.'' @ s" "decoded_json h = Inr header" "decoded_json c = Inr claims"
  using assms split_dots_join unfolding token_parts_def by (auto split: list.splits sum.splits)

lemma token_keyD:
  assumes "token_key ks header = Inr r"
  shows "\<exists>kid. py_get header ''kid'' = PyStr kid \<and> get_key_record ks kid = Some r" "kr_purpose r = ACCESS_TOKEN_SIGNING" "kr_status r \<noteq> KEY_REVOKED"
    "py_get header ''alg'' = PyStr ''EdDSA''"
  using assms unfolding token_key_def by (auto split: option.splits if_splits pyval.splits)

lemma token_contentD:
  assumes "token_content claims = Inr (i, n, e, sub, jti, ty, scopes)"
  shows "normalized scopes = Inr scopes" "validate_principal_scope ty scopes = Inr ()"
proof -
  obtain raw where "claimed_scopes raw = Inr scopes" and v: "validate_principal_scope ty scopes = Inr ()"
    using assms unfolding token_content_def by (elim rbind_InrE) auto
  then obtain a where "normalized a = Inr scopes" unfolding claimed_scopes_def by (elim rbind_InrE) auto
  then show "normalized scopes = Inr scopes" by (rule normalized_again)
  show "validate_principal_scope ty scopes = Inr ()" by (rule v)
qed

lemma verify_tokenE:
  assumes "verify_token P ks svc rvs token at = Inr pr"
  obtains t h c s header claims r i n e sub jti ty scopes where "at = Aware t" "length token \<le> 16384"
    "token_parts token = Inr (h, c, s, header, claims)" "token_key ks header = Inr r" "token_signature_ok P r h c s"
    "token_content claims = Inr (i, n, e, sub, jti, ty, scopes)"
    "py_get claims ''iss'' = PyStr (tk_issuer svc)" "py_get claims ''aud'' = PyStr (tk_audience svc)"
    "i - usec (tk_clock_skew_seconds svc) \<le> t" "n - usec (tk_clock_skew_seconds svc) \<le> t" "t < e + usec (tk_clock_skew_seconds svc)"
    "i < e" "e - i \<le> usec (tk_max_ttl_seconds svc)" "kr_not_before r \<le> i" "e \<le> kr_not_after r" "strip sub \<noteq> []" "\<not> is_revoked jti rvs"
    "pr = \<lparr>ap_principal_id = sub, ap_principal_type = ty, ap_token_id = jti, ap_issuer = tk_issuer svc,
       ap_audience = tk_audience svc, ap_scopes = scopes, ap_issued_at = i, ap_expires_at = e\<rparr>"
proof -
  obtain t where t: "at = Aware t" using assms unfolding verify_token_def by (auto simp: rbind_eq_Inr require_aware_Inr)
  have v: "strip token \<noteq> []" "length token \<le> 16384" using assms t unfolding verify_token_def by (auto split: if_splits)
  obtain h c s header claims where p: "token_parts token = Inr (h, c, s, header, claims)" "dict_keys header \<noteq> None" "dict_keys claims \<noteq> None"
    using assms t v unfolding verify_token_def by (auto simp: rbind_eq_Inr split: if_splits)
  obtain r where r: "token_key ks header = Inr r" "token_signature_ok P r h c s"
    using assms t v p unfolding verify_token_def by (auto simp: rbind_eq_Inr split: if_splits)
  obtain i n e sub jti ty scopes where c: "checked_content svc r claims = Inr (i, n, e, sub, jti, ty, scopes)"
    using assms t v p r unfolding verify_token_def by (auto simp: rbind_eq_Inr split: if_splits)
  have cc: "token_content claims = Inr (i, n, e, sub, jti, ty, scopes)"
    "py_get claims ''iss'' = PyStr (tk_issuer svc)" "py_get claims ''aud'' = PyStr (tk_audience svc)"
    using c unfolding checked_content_def by (auto split: if_splits sum.splits)
  show thesis
    by (rule that [OF t v(2) p(1) r cc])
      (use assms t v p r c in \<open>simp_all add: verify_token_def Let_def split: if_splits\<close>)
qed

section \<open>Revocations last\<close>

fun later_revocations :: "platform \<Rightarrow> token_service \<Rightarrow> (key_provider \<times> string \<times> string \<times> datetime) list \<Rightarrow> revocation_store \<Rightarrow> revocation_store" where
  \<comment> \<open>the store after a sequence of revocation calls, successful or not, each under the keys of its time\<close>
  "later_revocations P svc [] s = s"
| "later_revocations P svc ((ks, token, reason, at) # calls) s = later_revocations P svc calls (snd (revoke_token P ks svc token reason at s))"

lemma revoke_token_id_keeps: "is_revoked i s \<Longrightarrow> is_revoked i (snd (revoke_token_id j e reason s))"
  by (auto simp: revoke_token_id_def is_revoked_def Let_def split: option.splits)

lemma revoke_token_keeps:
  assumes "is_revoked i s"
  shows "is_revoked i (snd (revoke_token P ks svc token reason at s))"
proof (cases "revoke_token P ks svc token reason at s")
  case (Pair r s')
  then consider "s' = s" | j e where "revoke_token_id j e reason s = (r, s')"
    unfolding revoke_token_def by (elim sbindE) (auto simp: slift_eq sget_eq)
  then show ?thesis using assms revoke_token_id_keeps [OF assms, of _ _ reason] Pair by cases (auto, metis snd_conv)
qed

lemma later_revocations_keep: "is_revoked i s \<Longrightarrow> is_revoked i (later_revocations P svc calls s)"
  by (induction P svc calls s rule: later_revocations.induct) (simp_all add: revoke_token_keeps)

lemma revoke_token_revokes:
  assumes "revoke_token P ks svc token reason at s = (Inr (), s')" "token_parts token = Inr (h, c, sg, header, claims)"
    and "token_content claims = Inr (i, n, e, sub, jti, ty, scopes)"
  shows "is_revoked jti s'"
proof -
  obtain q where "verify_token P ks svc s token at = Inr q" and q: "revoke_token_id (ap_token_id q) (ap_expires_at q) reason s = (Inr (), s')"
    using assms(1) unfolding revoke_token_def by (auto simp: sbind_eq_Inr slift_eq sget_eq require_aware_Inr)
  then have "ap_token_id q = jti" using assms(2,3) by (auto elim!: verify_tokenE)
  then show ?thesis using q unfolding revoke_token_id_def by (auto simp: is_revoked_def Let_def split: if_splits option.splits)
qed

definition claims_match :: "token_service \<Rightarrow> string \<Rightarrow> instant \<Rightarrow> authenticated_principal \<Rightarrow> bool" where
  \<comment> \<open>the presented claims name this service, have begun at the instant, and are the principal's\<close>
  "claims_match svc c t pr \<longleftrightarrow> (\<exists>claims n. decoded_json c = Inr claims
     \<and> py_get claims ''iss'' = PyStr (tk_issuer svc) \<and> py_get claims ''aud'' = PyStr (tk_audience svc)
     \<and> epoch_claim claims ''nbf'' = Inr n \<and> n - usec (tk_clock_skew_seconds svc) \<le> t
     \<and> epoch_claim claims ''iat'' = Inr (ap_issued_at pr) \<and> epoch_claim claims ''exp'' = Inr (ap_expires_at pr)
     \<and> text_claim claims ''sub'' = Inr (ap_principal_id pr) \<and> text_claim claims ''jti'' = Inr (ap_token_id pr))"

lemma token_content_claims:
  assumes "token_content claims = Inr (i, n, e, sub, jti, ty, scopes)"
  shows "epoch_claim claims ''iat'' = Inr i" "epoch_claim claims ''nbf'' = Inr n" "epoch_claim claims ''exp'' = Inr e"
    "text_claim claims ''sub'' = Inr sub" "text_claim claims ''jti'' = Inr jti"
  using assms unfolding token_content_def by (elim rbind_InrE, simp)+

text \<open>
  C25. An accepted access token is genuine.  When verification succeeds, the token is a header, claims and a
  signature by a registered, unrevoked key for access tokens that verifies over exactly the header and claims
  presented; the claims name this issuer and audience in \<open>iss\<close> and \<open>aud\<close>, their \<open>nbf\<close> and \<open>iat\<close> have come and their \<open>exp\<close> has
  not passed, up to the clock skew, and their subject, token identifier and times are those of the principal returned; the
  token's window lies inside the key's life and is no longer than the policy allows, and the token is not
  revoked; its scopes are in normal form, and only an operator holds the permission to read any transaction.  Once
  the token is revoked it is never accepted again: neither in that store nor after any later sequence of
  revocation calls, successful or not, at any instant and under any keys and service configuration.\<close>

theorem access_token_sound:
  assumes "verify_token P ks svc rvs token at = Inr pr"
  shows "(\<exists>t h c s sig kid r. at = Aware t \<and> token = h @ ''.'' @ c @ ''.'' @ s \<and> get_key_record ks kid = Some r
      \<and> kr_purpose r = ACCESS_TOKEN_SIGNING \<and> kr_status r \<noteq> KEY_REVOKED \<and> b64url_decode s = Inr sig
      \<and> ed_verify P (kr_public_key r) sig (h @ ''.'' @ c) \<and> claims_match svc c t pr
      \<and> ap_issued_at pr - usec (tk_clock_skew_seconds svc) \<le> t \<and> t < ap_expires_at pr + usec (tk_clock_skew_seconds svc)
      \<and> ap_issued_at pr < ap_expires_at pr \<and> ap_expires_at pr - ap_issued_at pr \<le> usec (tk_max_ttl_seconds svc)
      \<and> kr_not_before r \<le> ap_issued_at pr \<and> ap_expires_at pr \<le> kr_not_after r)
    \<and> ap_issuer pr = tk_issuer svc \<and> ap_audience pr = tk_audience svc \<and> \<not> is_revoked (ap_token_id pr) rvs
    \<and> normalized (ap_scopes pr) = Inr (ap_scopes pr)
    \<and> (read_any_permission \<in> set (as_permissions (ap_scopes pr)) \<longrightarrow> ap_principal_type pr = OPERATOR)
    \<and> (\<forall>reason at' rv'. revoke_token P ks svc token reason at' rvs = (Inr (), rv') \<longrightarrow>
         (\<forall>calls ks' svc' at''. \<nexists>pr'. verify_token P ks' svc' (later_revocations P svc calls rv') token at'' = Inr pr'))"
proof -
  obtain t h c s header claims r i n e sub jti ty scopes where v: "at = Aware t" "length token \<le> 16384"
    "token_parts token = Inr (h, c, s, header, claims)" "token_key ks header = Inr r" "token_signature_ok P r h c s"
    "token_content claims = Inr (i, n, e, sub, jti, ty, scopes)"
    "py_get claims ''iss'' = PyStr (tk_issuer svc)" "py_get claims ''aud'' = PyStr (tk_audience svc)"
    "i - usec (tk_clock_skew_seconds svc) \<le> t" "n - usec (tk_clock_skew_seconds svc) \<le> t" "t < e + usec (tk_clock_skew_seconds svc)"
    "i < e" "e - i \<le> usec (tk_max_ttl_seconds svc)" "kr_not_before r \<le> i" "e \<le> kr_not_after r" "strip sub \<noteq> []" "\<not> is_revoked jti rvs"
    "pr = \<lparr>ap_principal_id = sub, ap_principal_type = ty, ap_token_id = jti, ap_issuer = tk_issuer svc,
       ap_audience = tk_audience svc, ap_scopes = scopes, ap_issued_at = i, ap_expires_at = e\<rparr>"
    using assms by (rule verify_tokenE)
  obtain kid where kid: "get_key_record ks kid = Some r" using token_keyD(1) [OF v(4)] by blast
  obtain sig where sig: "b64url_decode s = Inr sig" "ed_verify P (kr_public_key r) sig (h @ ''.'' @ c)"
    using v(5) unfolding token_signature_ok_def by (auto split: sum.splits)
  have op: "read_any_permission \<in> set (as_permissions scopes) \<longrightarrow> ty = OPERATOR"
    using token_contentD(2) [OF v(6)] unfolding validate_principal_scope_def by (auto simp: rbind_eq_Inr guard_res_eq_Inr)
  have rv: "\<nexists>pr'. verify_token P ks' svc' (later_revocations P svc calls rv') token at'' = Inr pr'"
    if "revoke_token P ks svc token reason at' rvs = (Inr (), rv')" for reason at' rv' calls ks' svc' at''
  proof
    have "is_revoked jti (later_revocations P svc calls rv')"
      using later_revocations_keep [OF revoke_token_revokes [OF that v(3,6)]] .
    then show "\<exists>pr'. verify_token P ks' svc' (later_revocations P svc calls rv') token at'' = Inr pr' \<Longrightarrow> False"
      using v(3,6) by (auto elim!: verify_tokenE)
  qed
  have pr: "ap_issued_at pr = i" "ap_expires_at pr = e" "ap_token_id pr = jti" "ap_scopes pr = scopes" "ap_principal_type pr = ty"
    "ap_principal_id pr = sub" "ap_issuer pr = tk_issuer svc" "ap_audience pr = tk_audience svc" by (simp_all add: v(18))
  have cl: "claims_match svc c t pr"
    unfolding claims_match_def pr using token_partsD(3) [OF v(3)] v(7,8,10) token_content_claims [OF v(6)] by blast
  have ex: "at = Aware t \<and> token = h @ ''.'' @ c @ ''.'' @ s \<and> get_key_record ks kid = Some r
      \<and> kr_purpose r = ACCESS_TOKEN_SIGNING \<and> kr_status r \<noteq> KEY_REVOKED \<and> b64url_decode s = Inr sig
      \<and> ed_verify P (kr_public_key r) sig (h @ ''.'' @ c) \<and> claims_match svc c t pr
      \<and> i - usec (tk_clock_skew_seconds svc) \<le> t \<and> t < e + usec (tk_clock_skew_seconds svc)
      \<and> i < e \<and> e - i \<le> usec (tk_max_ttl_seconds svc) \<and> kr_not_before r \<le> i \<and> e \<le> kr_not_after r"
    using v(1,9,11-15) kid sig token_partsD(1) [OF v(3)] token_keyD(2,3) [OF v(4)] cl by blast
  show ?thesis unfolding pr using ex op rv token_contentD(1) [OF v(6)] v(17) by blast
qed

section \<open>Issued tokens\<close>

lemma plain_scope_claim: "plain (scope_claim a)" "unique_keys (scope_claim a)"
proof -
  have "plain_seq (map PyStr xs)" "unique_keys_seq (map PyStr xs)" for xs by (induction xs) auto
  then show "plain (scope_claim a)" "unique_keys (scope_claim a)" by (auto simp: scope_claim_def obj_def split: option.splits)
qed

lemma plain_token: "plain (token_header k)" "unique_keys (token_header k)" "plain (token_claims svc sub jti ty i e a)"
    "unique_keys (token_claims svc sub jti ty i e a)"
  using plain_scope_claim by (simp_all add: token_header_def token_claims_def obj_def)

lemma rmap_py_text: "rmap py_text (map PyStr xs) = Inr xs"
  by (induction xs) (auto simp: py_text_def)

lemma claimed_norm: "claimed_scopes (norm_json (scope_claim a)) = normalized a"
proof -
  note g = pget_norm [OF plain_scope_claim(1) [of a, unfolded scope_claim_def], simplified]
  have l: "scope_list (norm_json (scope_claim a)) ''merchant_ids'' = Inr (as_merchant_ids a)"
    "scope_list (norm_json (scope_claim a)) ''branch_ids'' = Inr (as_branch_ids a)"
    "scope_list (norm_json (scope_claim a)) ''partner_ids'' = Inr (as_partner_ids a)"
    "scope_list (norm_json (scope_claim a)) ''permissions'' = Inr (as_permissions a)"
    using norm_texts by (simp_all add: scope_list_def scope_claim_def g rmap_py_text del: from_json.simps canon.simps)
  have k: "dict_keys (norm_json (scope_claim a)) \<noteq> None" by (simp add: scope_claim_def keys_norm)
  have u: "py_get (norm_json (scope_claim a)) ''continuity_uid'' = (case as_continuity_uid a of None \<Rightarrow> PyNone | Some u \<Rightarrow> PyStr u)"
    by (simp add: py_get_def scope_claim_def g split: option.splits)
  obtain ks where "dict_keys (norm_json (scope_claim a)) = Some ks" using k by blast
  then show ?thesis by (cases "as_continuity_uid a") (simp_all add: claimed_scopes_def l u normalized_def)
qed

lemma claims_items:
  fixes svc sub jti ty i e a
  defines "v \<equiv> norm_json (token_claims svc sub jti ty i e a)"
  shows "py_get v ''iss'' = PyStr (tk_issuer svc)" "py_get v ''aud'' = PyStr (tk_audience svc)"
    "py_item v ''sub'' = Inr (PyStr sub)" "py_item v ''jti'' = Inr (PyStr jti)" "py_item v ''iat'' = Inr (PyInt (epoch i))"
    "py_item v ''nbf'' = Inr (PyInt (epoch i))" "py_item v ''exp'' = Inr (PyInt (epoch e))"
    "py_item v ''principal_type'' = Inr (PyStr (principal_type_value ty))" "py_item v ''scope'' = Inr (norm_json (scope_claim a))"
    "dict_keys v \<noteq> None"
proof -
  note g = pget_norm [OF plain_token(3) [of svc sub jti ty i e a, unfolded token_claims_def], simplified]
  show "py_get v ''iss'' = PyStr (tk_issuer svc)" "py_get v ''aud'' = PyStr (tk_audience svc)"
    by (simp_all add: v_def token_claims_def py_get_def g)
  show "py_item v ''sub'' = Inr (PyStr sub)" "py_item v ''jti'' = Inr (PyStr jti)" "py_item v ''iat'' = Inr (PyInt (epoch i))"
    "py_item v ''nbf'' = Inr (PyInt (epoch i))" "py_item v ''exp'' = Inr (PyInt (epoch e))"
    "py_item v ''principal_type'' = Inr (PyStr (principal_type_value ty))" "py_item v ''scope'' = Inr (norm_json (scope_claim a))"
    by (simp_all add: v_def token_claims_def py_item_Inr g)
  show "dict_keys v \<noteq> None" by (simp add: v_def token_claims_def keys_norm)
qed

lemma principal_type_of_value: "principal_type_of (PyStr (principal_type_value ty)) = Inr ty"
  by (cases ty) (simp_all add: principal_type_of_def)

lemma issued_content:
  assumes "normalized a = Inr a" "validate_principal_scope ty a = Inr ()" "fromtimestamp (epoch i) = Inr i'" "fromtimestamp (epoch e) = Inr e'"
  shows "checked_content svc r (norm_json (token_claims svc sub jti ty i e a)) = Inr (i', i', e', sub, jti, ty, a)"
  using assms claims_items [of svc sub jti ty i e a]
  by (simp add: checked_content_def token_content_def epoch_claim_def text_claim_def strict_int_def principal_type_of_value claimed_norm)

lemma issued_header:
  assumes "get_key_record ks kid = Some r" "kr_purpose r = ACCESS_TOKEN_SIGNING" "kr_status r \<noteq> KEY_REVOKED"
  shows "token_key ks (norm_json (token_header kid)) = Inr r" "dict_keys (norm_json (token_header kid)) \<noteq> None"
proof -
  note g = pget_norm [OF plain_token(1) [of kid, unfolded token_header_def], simplified]
  obtain hks where k: "dict_keys (norm_json (token_header kid)) = Some hks" by (simp add: token_header_def keys_norm)
  then have "set hks = {PyStr ''alg'', PyStr ''kid'', PyStr ''typ''}" using set_keys_norm unfolding token_header_def by fastforce
  then show "token_key ks (norm_json (token_header kid)) = Inr r"
    using k assms by (simp add: token_key_def) (simp add: token_header_def py_get_def g)
  show "dict_keys (norm_json (token_header kid)) \<noteq> None" using k by simp
qed

lemma signed_parts:
  assumes "sign_token P ks kid header claims = Inr token" "plain header" "unique_keys header" "plain claims" "unique_keys claims"
  obtains h c sk where "token_parts token = Inr (h, c, b64url_encode (ed_sign P sk (h @ ''.'' @ c)), norm_json header, norm_json claims)"
    "dict_get (kp_private_keys ks) kid = Some sk"
proof -
  obtain h c sk where t: "json_text header = Inr h" "json_text claims = Inr c" "dict_get (kp_private_keys ks) kid = Some sk"
    "token = b64url_encode h @ ''.'' @ b64url_encode c @ ''.'' @ b64url_encode (ed_sign P sk (b64url_encode h @ ''.'' @ b64url_encode c))"
    using assms(1) by (auto simp: sign_token_def rbind_eq_Inr Let_def kp_sign_def split: option.splits)
  have "split_dots token = [b64url_encode h, b64url_encode c, b64url_encode (ed_sign P sk (b64url_encode h @ ''.'' @ b64url_encode c))]"
    using b64url_no_dot by (simp add: t(4) split_dots_append split_dots_plain)
  then show thesis using that [of "b64url_encode h" "b64url_encode c" sk] t decoded_json_text [OF t(1) assms(2,3)] decoded_json_text [OF t(2) assms(4,5)]
    by (simp add: token_parts_def)
qed

lemma epoch_add: "0 \<le> t \<Longrightarrow> 0 \<le> n \<Longrightarrow> epoch (t + usec n) = epoch t + n"
  by (simp add: epoch_def usec_def)

lemma epoch_floor: "0 \<le> t \<Longrightarrow> from_epoch (epoch t) \<le> t"
  by (simp add: epoch_def from_epoch_def)

lemma fromtimestamp_ok: "0 \<le> t \<Longrightarrow> t < from_epoch 253402300800 \<Longrightarrow> fromtimestamp (epoch t) = Inr (from_epoch (epoch t))"
  using epoch_floor [of t] by (simp add: fromtimestamp_def from_epoch_def epoch_def)

lemma token_jti_nonempty: "(\<And>i. token_id = Some i \<Longrightarrow> i \<noteq> [] \<Longrightarrow> strip i \<noteq> []) \<Longrightarrow> strip (token_jti nonce token_id) \<noteq> []"
proof -
  have "strip (CHR ''A'' # s) \<noteq> []" for s by (simp add: strip_def is_space_def)
  then show "(\<And>i. token_id = Some i \<Longrightarrow> i \<noteq> [] \<Longrightarrow> strip i \<noteq> []) \<Longrightarrow> ?thesis"
    by (auto simp: token_jti_def split: option.splits)
qed

lemma strip_dot: "strip (a @ CHR ''.'' # b) \<noteq> []"
proof -
  have d: "CHR ''.'' \<in> set (dropWhile is_space xs)" if "CHR ''.'' \<in> set xs" for xs
    using that by (induction xs) (auto simp: is_space_def)
  have "CHR ''.'' \<in> set (strip (a @ CHR ''.'' # b))" unfolding strip_def set_rev by (rule d) (simp add: d)
  then show ?thesis by auto
qed

lemma issue_tokenE:
  assumes "issue_token P ks svc nonce pid ty scopes kid ttl tok (Aware t) = Inr token"
  obtains r norm where "get_key_record ks kid = Some r" "kr_purpose r = ACCESS_TOKEN_SIGNING" "permits_signing_at r t" "strip pid \<noteq> []"
    "60 \<le> ttl" "ttl \<le> tk_max_ttl_seconds svc" "normalized scopes = Inr norm" "validate_principal_scope ty norm = Inr ()"
    "t + usec ttl \<le> kr_not_after r"
    "sign_token P ks kid (token_header kid) (token_claims svc (strip pid) (token_jti nonce tok) ty t (t + usec ttl) norm) = Inr token"
  using assms unfolding issue_token_def Let_def
  by (auto simp: rbind_eq_Inr guard_res_eq_Inr not_less split: option.splits)

lemma issued_verifies:
  assumes "ed25519_correct P" "kp_inv P ks" "issue_token P ks svc nonce pid ty scopes kid ttl tok (Aware t) = Inr token"
    and "0 \<le> t" "t + usec ttl < from_epoch 253402300800" "length token \<le> 16384"
    and "\<And>r. get_key_record ks kid = Some r \<Longrightarrow> kr_not_before r \<le> from_epoch (epoch t)"
    and "\<And>i. tok = Some i \<Longrightarrow> i \<noteq> [] \<Longrightarrow> strip i \<noteq> []" "\<not> is_revoked (token_jti nonce tok) rvs"
    and "from_epoch (epoch t) - usec (tk_clock_skew_seconds svc) \<le> t'" "t' < from_epoch (epoch t + ttl) + usec (tk_clock_skew_seconds svc)"
  shows "\<exists>norm. normalized scopes = Inr norm \<and> verify_token P ks svc rvs token (Aware t') =
    Inr \<lparr>ap_principal_id = strip pid, ap_principal_type = ty, ap_token_id = token_jti nonce tok, ap_issuer = tk_issuer svc,
      ap_audience = tk_audience svc, ap_scopes = norm, ap_issued_at = from_epoch (epoch t), ap_expires_at = from_epoch (epoch t + ttl)\<rparr>"
proof -
  obtain r norm where r: "get_key_record ks kid = Some r" "kr_purpose r = ACCESS_TOKEN_SIGNING" "permits_signing_at r t" "strip pid \<noteq> []"
    "60 \<le> ttl" "ttl \<le> tk_max_ttl_seconds svc" "normalized scopes = Inr norm" "validate_principal_scope ty norm = Inr ()"
    "t + usec ttl \<le> kr_not_after r"
    "sign_token P ks kid (token_header kid) (token_claims svc (strip pid) (token_jti nonce tok) ty t (t + usec ttl) norm) = Inr token"
    using assms(3) by (rule issue_tokenE)
  let ?i = "from_epoch (epoch t)" and ?e = "from_epoch (epoch t + ttl)"
  let ?claims = "token_claims svc (strip pid) (token_jti nonce tok) ty t (t + usec ttl) norm"
  obtain h c sk where p: "token_parts token = Inr (h, c, b64url_encode (ed_sign P sk (h @ ''.'' @ c)), norm_json (token_header kid), norm_json ?claims)"
    and sk: "dict_get (kp_private_keys ks) kid = Some sk" by (rule signed_parts [OF r(10) plain_token])
  have pk: "kr_public_key r = ed_public P sk" using kp_inv_public(1) [OF assms(2) r(1) sk] .
  have sig: "token_signature_ok P r h c (b64url_encode (ed_sign P sk (h @ ''.'' @ c)))"
    using assms(1) by (simp add: token_signature_ok_def pk ed25519_correct_def)
  have ep: "epoch (t + usec ttl) = epoch t + ttl" using epoch_add [of t ttl] assms(4) r(5) by simp
  have ft: "fromtimestamp (epoch t) = Inr ?i" "fromtimestamp (epoch (t + usec ttl)) = Inr ?e"
    using fromtimestamp_ok [of t] fromtimestamp_ok [of "t + usec ttl"] assms(4,5) r(5) ep by (simp_all add: usec_def)
  have c: "checked_content svc r (norm_json ?claims) = Inr (?i, ?i, ?e, strip pid, token_jti nonce tok, ty, norm)"
    by (rule issued_content [OF normalized_again [OF r(7)] r(8) ft])
  have k: "token_key ks (norm_json (token_header kid)) = Inr r" "dict_keys (norm_json (token_header kid)) \<noteq> None"
    using issued_header [OF r(1,2)] r(3) by (simp_all add: permits_signing_at_def)
  have tk: "strip token \<noteq> []" using token_partsD(1) [OF p] strip_dot by simp
  have win: "?e = ?i + usec ttl" "?i \<le> t" "t < kr_not_after r" "kr_not_before r \<le> ?i"
    using epoch_floor [OF assms(4)] assms(7) [OF r(1)] r(3) by (simp_all add: from_epoch_def usec_def algebra_simps permits_signing_at_def)
  show ?thesis
    using r(4-7,9) p k c sig assms(6,9-11) win tk claims_items(10) token_jti_nonempty [of tok nonce] assms(8)
    by (simp add: verify_token_def Let_def) (simp add: usec_def)
qed

text \<open>
  C26. An issued token is accepted as issued, under the conditions the code needs.  Let the service issue a token of at most
  16384 characters, at an instant between 1970 and the year 10000 whose whole second already lies in the key's life, with no
  token identifier, an empty one or one that is not blank.  Then, as long as its identifier is not revoked, it verifies at every
  instant from its issue second to its expiry, within the clock skew, and yields the principal it was issued to: the identifier
  without surrounding white space, the type, the normalized scopes, the token identifier and the window in whole seconds.
  Longer tokens and tokens with a blank identifier are issued by the code but never accepted.\<close>

theorem access_token_roundtrip:
  assumes "ed25519_correct P" "kp_inv P ks" "issue_token P ks svc nonce pid ty scopes kid ttl tok (Aware t) = Inr token"
    and "0 \<le> t" "t + usec ttl < from_epoch 253402300800" "length token \<le> 16384"
    and "\<And>r. get_key_record ks kid = Some r \<Longrightarrow> kr_not_before r \<le> from_epoch (epoch t)"
    and "\<And>i. tok = Some i \<Longrightarrow> i \<noteq> [] \<Longrightarrow> strip i \<noteq> []" "\<not> is_revoked (token_jti nonce tok) rvs"
    and "from_epoch (epoch t) - usec (tk_clock_skew_seconds svc) \<le> t'" "t' < from_epoch (epoch t + ttl) + usec (tk_clock_skew_seconds svc)"
  shows "\<exists>norm. normalized scopes = Inr norm \<and> verify_token P ks svc rvs token (Aware t') =
    Inr \<lparr>ap_principal_id = strip pid, ap_principal_type = ty, ap_token_id = token_jti nonce tok, ap_issuer = tk_issuer svc,
      ap_audience = tk_audience svc, ap_scopes = norm, ap_issued_at = from_epoch (epoch t), ap_expires_at = from_epoch (epoch t + ttl)\<rparr>"
  using assms by (rule issued_verifies)

end
