(* ===== verification/Api_Guard.thy ===== *)
theory Api_Guard
  imports Access_Token
begin

text \<open>
  The authenticated API boundary (\<^verbatim>\<open>railone_api/guard.py\<close>, \<^verbatim>\<open>facade.py\<close>): fixed-window rate limiting, signed
  request audits, the guard every call goes through, and the facade that offers the transaction history and
  the provider outcomes.  A request acts on one world: the rate windows, the audits, the revocations and the
  history store.
\<close>

section \<open>Rate limits\<close>

record rate_decision =
  rl_allowed :: bool
  rl_limit :: int
  rl_remaining :: int
  rl_reset_at :: instant

type_synonym rate_windows = "(string, instant \<times> int \<times> int) dict"

definition rate_policy :: "int \<Rightarrow> int \<Rightarrow> unit res" where
  "rate_policy limit window_seconds =
     rbind (guard_res (\<not> (1 \<le> limit \<and> limit \<le> 10000)) ValueError ''rate limit must be between 1 and 10000'') (\<lambda>_.
     guard_res (\<not> (1 \<le> window_seconds \<and> window_seconds \<le> 3600)) ValueError
       ''rate-limit window must be between 1 and 3600 seconds'')"

definition next_window :: "(instant \<times> int \<times> int) option \<Rightarrow> instant \<Rightarrow> instant \<times> int" where
  "next_window current at =
     (case current of
        None \<Rightarrow> (at, 1)
      | Some (started_at, n, window) \<Rightarrow> if started_at + usec window \<le> at then (at, 1) else (started_at, n + 1))"

definition consume_rate :: "string \<Rightarrow> int \<Rightarrow> int \<Rightarrow> instant \<Rightarrow> (rate_windows, rate_decision) st" where
  "consume_rate scope_key limit window_seconds at =
     sbind (slift (rate_policy limit window_seconds)) (\<lambda>_. \<lambda>s.
     let (started_at, n) = next_window (dict_get s scope_key) at in
     (Inr \<lparr>rl_allowed = (n \<le> limit), rl_limit = limit, rl_remaining = max 0 (limit - n),
           rl_reset_at = started_at + usec window_seconds\<rparr>,
      dict_set scope_key (started_at, n, window_seconds) s))"

section \<open>Requests and audits\<close>

datatype api_outcome = API_ALLOWED | API_DENIED | API_RATE_LIMITED | API_ERROR

fun api_outcome_value :: "api_outcome \<Rightarrow> string" where
  "api_outcome_value API_ALLOWED = ''ALLOWED''"
| "api_outcome_value API_DENIED = ''DENIED''"
| "api_outcome_value API_RATE_LIMITED = ''RATE_LIMITED''"
| "api_outcome_value API_ERROR = ''ERROR''"

record api_request =
  rq_request_id :: string
  rq_method :: string
  rq_route_template :: string
  rq_access_reason :: "string option"

definition validate_request :: "api_request \<Rightarrow> unit res" where
  "validate_request request =
     rbind (guard_res (strip (rq_request_id request) = [] \<or> length (rq_request_id request) > 128) ValueError
              ''request_id must contain 1 to 128 characters'') (\<lambda>_.
     rbind (guard_res (upper (rq_method request) \<notin> set [''GET'', ''POST'', ''PUT'', ''PATCH'', ''DELETE'']) ValueError
              ''unsupported HTTP method'') (\<lambda>_.
     guard_res (\<not> starts_with (rq_route_template request) ''/'' \<or> length (rq_route_template request) > 256
                \<or> CHR ''?'' \<in> set (rq_route_template request)) ValueError
              ''route_template must be a normalized route without query data''))"

record api_audit =
  au_audit_id :: string
  au_request_id :: string
  au_principal_id :: string
  au_token_id :: "string option"
  au_method :: string
  au_route_template :: string
  au_outcome :: api_outcome
  au_status_code :: int
  au_reason_code :: string
  au_occurred_at :: instant
  au_signed_audit :: envelope

type_synonym api_audit_store = "(string, api_audit) dict"

definition append_api_audit :: "api_audit \<Rightarrow> (api_audit_store, unit) st" where
  "append_api_audit a s =
     (if dict_has s (au_audit_id a) then (Inl (Raise RuntimeError ''API audit identifier collision''), s)
      else (Inr (), dict_set (au_audit_id a) a s))"

record api_guard =
  gd_tokens :: token_service
  gd_audit_signing_key_id :: string
  gd_limit :: int
  gd_window_seconds :: int

definition api_guard_init :: "token_service \<Rightarrow> string \<Rightarrow> int \<Rightarrow> int \<Rightarrow> api_guard res" where
  "api_guard_init tokens audit_signing_key_id requests_per_window window_seconds =
     rbind (rate_policy requests_per_window window_seconds) (\<lambda>_.
     Inr \<lparr>gd_tokens = tokens, gd_audit_signing_key_id = audit_signing_key_id, gd_limit = requests_per_window,
          gd_window_seconds = window_seconds\<rparr>)"

definition audit_core ::
  "api_request \<Rightarrow> authenticated_principal option \<Rightarrow> api_outcome \<Rightarrow> int \<Rightarrow> string \<Rightarrow> instant \<Rightarrow> (string \<times> pyval) list" where
  "audit_core request caller oc status_code reason_code at =
     [(''request_id'', PyStr (rq_request_id request)),
      (''principal_id'', PyStr (case caller of Some p \<Rightarrow> ap_principal_id p | None \<Rightarrow> ''UNAUTHENTICATED'')),
      (''token_id'', case caller of Some p \<Rightarrow> PyStr (ap_token_id p) | None \<Rightarrow> PyNone),
      (''method'', PyStr (upper (rq_method request))), (''route_template'', PyStr (rq_route_template request)),
      (''outcome'', PyStr (api_outcome_value oc)), (''status_code'', PyInt status_code), (''reason_code'', PyStr reason_code),
      (''occurred_at'', PyInt (epoch at))]"

definition api_audit_for ::
  "platform \<Rightarrow> key_provider \<Rightarrow> api_guard \<Rightarrow> api_request \<Rightarrow> authenticated_principal option \<Rightarrow> api_outcome \<Rightarrow> int \<Rightarrow> string \<Rightarrow>
    instant \<Rightarrow> api_audit res" where
  "api_audit_for P ks g request caller oc status_code reason_code at =
     (let core = audit_core request caller oc status_code reason_code at in
      rbind (content_id ''APIAUD'' (obj core)) (\<lambda>audit_id.
      rbind (sign_artifact P ks API_REQUEST_AUDIT (obj ((''audit_id'', PyStr audit_id) # core)) (gd_audit_signing_key_id g) (Aware at)) (\<lambda>signed.
      Inr \<lparr>au_audit_id = audit_id, au_request_id = rq_request_id request,
           au_principal_id = (case caller of Some p \<Rightarrow> ap_principal_id p | None \<Rightarrow> ''UNAUTHENTICATED''),
           au_token_id = map_option ap_token_id caller, au_method = upper (rq_method request),
           au_route_template = rq_route_template request, au_outcome = oc, au_status_code = status_code,
           au_reason_code = reason_code, au_occurred_at = at, au_signed_audit = signed\<rparr>)))"

section \<open>The guard\<close>

record api_world =
  aw_windows :: rate_windows
  aw_audits :: api_audit_store
  aw_revocations :: revocation_store
  aw_history :: history_store

definition guard_audit ::
  "platform \<Rightarrow> key_provider \<Rightarrow> api_guard \<Rightarrow> api_request \<Rightarrow> authenticated_principal option \<Rightarrow> api_outcome \<Rightarrow> int \<Rightarrow> string \<Rightarrow>
    instant \<Rightarrow> (api_world, unit) st" where
  "guard_audit P ks g request caller oc status_code reason_code at w =
     (case rbind (api_audit_for P ks g request caller oc status_code reason_code at) (\<lambda>a. Inr (append_api_audit a (aw_audits w))) of
        Inl e \<Rightarrow> (Inl e, w)
      | Inr (r, audits) \<Rightarrow> (r, w\<lparr>aw_audits := audits\<rparr>))"

fun exc_name :: "exc \<Rightarrow> string" where
  \<comment> \<open>\<^verbatim>\<open>type(exc).__name__\<close> of what an operation of the facade raises\<close>
  "exc_name ValueError = ''ValueError''"
| "exc_name TypeError = ''TypeError''"
| "exc_name KeyError = ''KeyError''"
| "exc_name LookupError = ''LookupError''"
| "exc_name PermissionError = ''PermissionError''"
| "exc_name RuntimeError = ''RuntimeError''"
| "exc_name OverflowError = ''OverflowError''"
| "exc_name TransactionProjectionNotFoundError = ''TransactionProjectionNotFoundError''"
| "exc_name TransactionAccessDeniedError = ''TransactionAccessDeniedError''"
| "exc_name AccessTokenError = ''AccessTokenError''"
| "exc_name _ = ''Exception''"

definition failure_status :: "error \<Rightarrow> api_outcome \<times> int" where
  \<comment> \<open>the three \<^verbatim>\<open>except\<close> clauses around the operation\<close>
  "failure_status e =
     (if exc_isa (exc_of e) PermissionError then (API_DENIED, 403)
      else if exc_isa (exc_of e) LookupError then (API_DENIED, 404) else (API_ERROR, 500))"

definition run_operation ::
  "platform \<Rightarrow> key_provider \<Rightarrow> api_guard \<Rightarrow> api_request \<Rightarrow> authenticated_principal \<Rightarrow> rate_decision \<Rightarrow>
    (authenticated_principal \<Rightarrow> (history_store, 'a) st) \<Rightarrow> instant \<Rightarrow> (api_world, 'a \<times> rate_decision) st" where
  "run_operation P ks g request caller decision operation at w =
     (case operation caller (aw_history w) of
        (Inl e, h) \<Rightarrow>
          sbind (guard_audit P ks g request (Some caller) (fst (failure_status e)) (snd (failure_status e))
                   (upper (exc_name (exc_of e))) at) (\<lambda>_. slift (Inl e)) (w\<lparr>aw_history := h\<rparr>)
      | (Inr x, h) \<Rightarrow>
          sbind (guard_audit P ks g request (Some caller) API_ALLOWED 200 ''REQUEST_ALLOWED'' at) (\<lambda>_. sret (x, decision))
            (w\<lparr>aw_history := h\<rparr>))"

definition on_windows :: "(rate_windows, 'a) st \<Rightarrow> (api_world, 'a) st" where
  "on_windows m w = (case m (aw_windows w) of (r, s) \<Rightarrow> (r, w\<lparr>aw_windows := s\<rparr>))"

definition rate_limited :: error where
  "rate_limited = Raise ApiRateLimitExceededError ''API_RATE_LIMIT_EXCEEDED''"

definition admit ::
  "platform \<Rightarrow> key_provider \<Rightarrow> api_guard \<Rightarrow> api_request \<Rightarrow> authenticated_principal \<Rightarrow> instant \<Rightarrow> (api_world, rate_decision) st" where
  \<comment> \<open>the rate limit of an authenticated request\<close>
  "admit P ks g request caller at =
     sbind (on_windows (consume_rate (ap_principal_id caller @ '':'' @ rq_route_template request) (gd_limit g) (gd_window_seconds g) at)) (\<lambda>decision.
     if \<not> rl_allowed decision
     then sbind (guard_audit P ks g request (Some caller) API_RATE_LIMITED 429 ''API_RATE_LIMIT_EXCEEDED'' at) (\<lambda>_. slift (Inl rate_limited))
     else sret decision)"

fun error_text :: "error \<Rightarrow> string" where
  "error_text (Raise _ msg) = msg"

definition execute ::
  "platform \<Rightarrow> key_provider \<Rightarrow> api_guard \<Rightarrow> string \<Rightarrow> api_request \<Rightarrow> (authenticated_principal \<Rightarrow> (history_store, 'a) st) \<Rightarrow>
    datetime \<Rightarrow> (api_world, 'a \<times> rate_decision) st" where
  "execute P ks g bearer_token request operation at =
     sbind (slift (require_aware ''API request timestamp'' at)) (\<lambda>instant.
     sbind (slift (validate_request request)) (\<lambda>_. \<lambda>w.
     case verify_token P ks (gd_tokens g) (aw_revocations w) bearer_token (Aware instant) of
       Inl e \<Rightarrow>
         if exc_isa (exc_of e) AccessTokenError
         then sbind (guard_audit P ks g request None API_DENIED 401 (error_text e) instant) (\<lambda>_. slift (Inl e)) w
         else (Inl e, w)
     | Inr caller \<Rightarrow>
         sbind (admit P ks g request caller instant) (\<lambda>decision.
         run_operation P ks g request caller decision operation instant) w))"

section \<open>The facade\<close>

definition get_route :: "string \<Rightarrow> string \<Rightarrow> string option \<Rightarrow> api_request" where
  "get_route request_id route access_reason =
     \<lparr>rq_request_id = request_id, rq_method = ''GET'', rq_route_template = route, rq_access_reason = access_reason\<rparr>"

definition api_me ::
  "platform \<Rightarrow> key_provider \<Rightarrow> api_guard \<Rightarrow> string \<Rightarrow> string \<Rightarrow> datetime \<Rightarrow> (api_world, authenticated_principal \<times> rate_decision) st" where
  "api_me P ks g bearer_token request_id at = execute P ks g bearer_token (get_route request_id ''/v1/auth/me'' None) sret at"

definition api_get_transaction ::
  "platform \<Rightarrow> key_provider \<Rightarrow> api_guard \<Rightarrow> string \<Rightarrow> string \<Rightarrow> string \<Rightarrow> string \<Rightarrow> string option \<Rightarrow> datetime \<Rightarrow>
    (api_world, history_entry \<times> rate_decision) st" where
  "api_get_transaction P ks g nonce bearer_token request_id utt_id access_reason at =
     execute P ks g bearer_token (get_route request_id ''/v1/transactions/{utt_id}'' access_reason)
       (\<lambda>caller. sbind (slift (transaction_context (ap_scopes caller) (ap_principal_id caller) access_reason)) (\<lambda>access.
          get_by_utt nonce utt_id access at)) at"

definition api_list_transactions ::
  "platform \<Rightarrow> key_provider \<Rightarrow> api_guard \<Rightarrow> string \<Rightarrow> string \<Rightarrow> string \<Rightarrow> subject_kind \<Rightarrow> string \<Rightarrow> int \<Rightarrow> string option \<Rightarrow>
    string option \<Rightarrow> datetime \<Rightarrow> (api_world, history_page \<times> rate_decision) st" where
  "api_list_transactions P ks g nonce bearer_token request_id kind subject_id limit cursor access_reason at =
     execute P ks g bearer_token (get_route request_id ''/v1/transactions'' access_reason)
       (\<lambda>caller. sbind (slift (transaction_context (ap_scopes caller) (ap_principal_id caller) access_reason)) (\<lambda>access.
          list_by_subject nonce kind subject_id access limit cursor at)) at"

definition outcome_operation ::
  "projection_store \<Rightarrow> string \<Rightarrow> string \<Rightarrow> string option \<Rightarrow> datetime \<Rightarrow> authenticated_principal \<Rightarrow> (history_store, outcome_projection) st" where
  "outcome_operation outcomes nonce submission_id access_reason at caller =
     (case get_projection submission_id outcomes of
        None \<Rightarrow> slift (Inl (Raise LookupError (''provider outcome not found: '' @ submission_id)))
      | Some projection \<Rightarrow>
          sbind (slift (transaction_context (ap_scopes caller) (ap_principal_id caller) access_reason)) (\<lambda>access.
          sbind (get_by_utt nonce (pj_utt_id projection) access at) (\<lambda>_. sret projection)))"

definition api_get_provider_outcome ::
  "platform \<Rightarrow> key_provider \<Rightarrow> api_guard \<Rightarrow> projection_store \<Rightarrow> string \<Rightarrow> string \<Rightarrow> string \<Rightarrow> string \<Rightarrow> string option \<Rightarrow> datetime \<Rightarrow>
    (api_world, outcome_projection \<times> rate_decision) st" where
  "api_get_provider_outcome P ks g outcomes nonce bearer_token request_id submission_id access_reason at =
     execute P ks g bearer_token (get_route request_id ''/v1/provider-submissions/{submission_id}'' access_reason)
       (outcome_operation outcomes nonce submission_id access_reason at) at"

end
