(* ===== verification/Rate_Limit.thy ===== *)
theory Rate_Limit
  imports Api_Guard
begin

text \<open>
  The fixed-window limiter over a sequence of requests: how many requests any interval of one window's length
  admits, and which requests are refused.
\<close>

section \<open>Windows that are apart\<close>

text \<open>A trace lists the admitted requests of one scope as pairs of window start and time.\<close>

definition windows_ok :: "int \<Rightarrow> int \<Rightarrow> (int \<times> int) list \<Rightarrow> bool" where
  "windows_ok l W T \<longleftrightarrow> (\<forall>(s, t)\<in>set T. s \<le> t \<and> t < s + W)
     \<and> (\<forall>x\<in>set T. \<forall>y\<in>set T. fst x = fst y \<or> fst x + W \<le> fst y \<or> fst y + W \<le> fst x)
     \<and> (\<forall>s. int (length (filter (\<lambda>x. fst x = s) T)) \<le> l)"

lemma length_filter_cover:
  "(\<And>x. x \<in> set xs \<Longrightarrow> P x \<Longrightarrow> Q x \<or> R x) \<Longrightarrow> length (filter P xs) \<le> length (filter Q xs) + length (filter R xs)"
  by (induction xs) (auto simp: le_Suc_eq intro: le_SucI)

lemma windows_bound:
  assumes "windows_ok l W T" "0 \<le> l"
  shows "int (length (filter (\<lambda>(s, t). t0 \<le> t \<and> t < t0 + W) T)) \<le> 2 * l"
proof -
  let ?P = "\<lambda>(s, t). t0 \<le> t \<and> t < t0 + W"
  let ?S = "fst ` set (filter ?P T)"
  have n: "int (length (filter (\<lambda>x. fst x = s) T)) \<le> l" for s using assms(1) by (simp add: windows_ok_def)
  show ?thesis
  proof (cases "filter ?P T = []")
    case True
    then show ?thesis using assms(2) by simp
  next
    case False
    define a where "a = Min ?S"
    have "?S \<noteq> {}" using False by (simp only: image_is_empty set_empty) simp
    then have a: "a \<in> ?S" "\<And>s. s \<in> ?S \<Longrightarrow> a \<le> s" unfolding a_def by (intro Min_in Min_le; simp)+
    have range: "t0 - W < s \<and> s < t0 + W" if "s \<in> ?S" for s
      using that assms(1) by (fastforce simp: windows_ok_def)
    have apart: "s = s' \<or> s + W \<le> s' \<or> s' + W \<le> s" if "s \<in> ?S" "s' \<in> ?S" for s s'
      using that assms(1) unfolding windows_ok_def by fastforce
    obtain b where b: "\<And>s. s \<in> ?S \<Longrightarrow> s = a \<or> s = b"
    proof (cases "?S \<subseteq> {a}")
      case False
      then obtain b where b: "b \<in> ?S" "b \<noteq> a" by blast
      have "s = a \<or> s = b" if s: "s \<in> ?S" for s
        using apart [OF a(1) b(1)] apart [OF a(1) s] apart [OF b(1) s] a(2) [OF b(1)] a(2) [OF s]
          range [OF a(1)] range [OF b(1)] range [OF s] b(2) by linarith
      then show thesis by (rule that)
    qed blast
    have "length (filter ?P T) \<le> length (filter (\<lambda>x. fst x = a) T) + length (filter (\<lambda>x. fst x = b) T)"
      by (rule length_filter_cover) (use b in force)
    then show ?thesis using n [of a] n [of b] by linarith
  qed
qed

lemma windows_Cons_same:
  assumes "windows_ok l W T" "\<forall>(s, t)\<in>set T. s = s0 \<or> s0 + W \<le> s" "int (length (filter (\<lambda>x. fst x = s0) T)) + 1 \<le> l" "s0 \<le> t" "t < s0 + W"
  shows "windows_ok l W ((s0, t) # T)"
  using assms unfolding windows_ok_def by (auto simp: split_beta)

section \<open>The decisions of the limiter\<close>

fun decisions :: "int \<Rightarrow> int \<Rightarrow> (string \<times> instant) list \<Rightarrow> rate_windows \<Rightarrow> (string \<times> instant \<times> rate_decision) list" where
  \<comment> \<open>the requests of a sequence with what the limiter decides on each\<close>
  "decisions l W [] s = []"
| "decisions l W ((k, t) # es) s =
     (case consume_rate k l W t s of
        (Inr d, s') \<Rightarrow> (k, t, d) # decisions l W es s'
      | (Inl e, s') \<Rightarrow> decisions l W es s')"

definition trace_of :: "string \<Rightarrow> int \<Rightarrow> (string \<times> instant \<times> rate_decision) list \<Rightarrow> (int \<times> int) list" where
  "trace_of k W D = map (\<lambda>(k', t, d). (rl_reset_at d - usec W, t)) (filter (\<lambda>(k', t, d). k' = k \<and> rl_allowed d) D)"

definition policy_ok :: "int \<Rightarrow> int \<Rightarrow> bool" where
  "policy_ok l W \<longleftrightarrow> 1 \<le> l \<and> l \<le> 10000 \<and> 1 \<le> W \<and> W \<le> 3600"

lemma consume_rate_policy:
  assumes "policy_ok l W"
  shows "consume_rate k l W t s = (let (start, n) = next_window (dict_get s k) t in
    (Inr \<lparr>rl_allowed = (n \<le> l), rl_limit = l, rl_remaining = max 0 (l - n), rl_reset_at = start + usec W\<rparr>, dict_set k (start, n, W) s))"
  using assms by (simp add: consume_rate_def rate_policy_def policy_ok_def sbind_def slift_def)

text \<open>
  From a window that started at \<open>s0\<close> with \<open>n\<close> requests, what follows is a trace of separate windows, of which the
  first continues the current one.
\<close>

definition follows :: "int \<Rightarrow> int \<Rightarrow> (int \<times> int \<times> int) option \<Rightarrow> (int \<times> int) list \<Rightarrow> bool" where
  "follows l W cur T \<longleftrightarrow> windows_ok l (usec W) T \<and>
     (case cur of None \<Rightarrow> True
      | Some (s0, n, _) \<Rightarrow> (\<forall>(s, t)\<in>set T. s = s0 \<or> s0 + usec W \<le> s) \<and> int (length (filter (\<lambda>x. fst x = s0) T)) \<le> max 0 (l - n))"

lemma follows_decisions:
  assumes "policy_ok l W" "sorted (map snd es)" "\<And>s0 n W'. dict_get s k = Some (s0, n, W') \<Longrightarrow> W' = W \<and> 1 \<le> n \<and> (\<forall>t\<in>snd ` set es. s0 \<le> t)"
  shows "follows l W (dict_get s k) (trace_of k W (decisions l W es s))"
  using assms(2,3)
proof (induction es arbitrary: s)
  case Nil
  then show ?case using assms(1) by (auto simp: follows_def windows_ok_def trace_of_def policy_ok_def split: option.splits)
next
  case (Cons e es)
  obtain k' t where e: "e = (k', t)" by fastforce
  obtain st n where w: "next_window (dict_get s k') t = (st, n)" by fastforce
  let ?s = "dict_set k' (st, n, W) s" and ?d = "\<lparr>rl_allowed = (n \<le> l), rl_limit = l, rl_remaining = max 0 (l - n), rl_reset_at = st + usec W\<rparr>"
  have D: "decisions l W (e # es) s = (k', t, ?d) # decisions l W es ?s" by (simp add: e consume_rate_policy [OF assms(1)] w)
  have W: "0 < usec W" using assms(1) by (simp add: policy_ok_def usec_def)
  have later: "\<forall>u\<in>snd ` set es. t \<le> u" and srt: "sorted (map snd es)" using Cons.prems(1) e by auto
  show ?case
  proof (cases "k' = k")
    case False
    then have "follows l W (dict_get ?s k) (trace_of k W (decisions l W es ?s))"
      by (intro Cons.IH [OF srt]) (use Cons.prems(2) in auto)
    then show ?thesis using False by (simp add: D trace_of_def)
  next
    case True
    let ?T = "trace_of k W (decisions l W es ?s)"
    have st: "st \<le> t" "1 \<le> n" "t < st + usec W"
      using w True Cons.prems(2) e W by (auto simp: next_window_def split: option.splits if_splits)
    have "follows l W (dict_get ?s k) ?T" by (rule Cons.IH [OF srt]) (use True st later in auto)
    then have f: "windows_ok l (usec W) ?T" "\<forall>(s, t)\<in>set ?T. s = st \<or> st + usec W \<le> s" "int (length (filter (\<lambda>x. fst x = st) ?T)) \<le> max 0 (l - n)"
      using True by (simp_all add: follows_def)
    have tr: "trace_of k W (decisions l W (e # es) s) = (if n \<le> l then (st, t) # ?T else ?T)" by (simp add: D trace_of_def True)
    have ok: "windows_ok l (usec W) (trace_of k W (decisions l W (e # es) s))"
      unfolding tr using f st windows_Cons_same [OF f(1,2) _ st(1,3)] by auto
    have "(\<forall>(s, t)\<in>set (trace_of k W (decisions l W (e # es) s)). s = s0 \<or> s0 + usec W \<le> s)
        \<and> int (length (filter (\<lambda>x. fst x = s0) (trace_of k W (decisions l W (e # es) s)))) \<le> max 0 (l - m)"
      if c: "dict_get s k = Some (s0, m, W')" for s0 m W'
    proof (cases "s0 + usec W \<le> t")
      case True
      then have "st = t" "n = 1" using w c Cons.prems(2) [OF c] \<open>k' = k\<close> by (auto simp: next_window_def)
      have "s0 + usec W \<le> fst x" if "x \<in> set (trace_of k W (decisions l W (e # es) s))" for x
        using that True f(2) W \<open>st = t\<close> unfolding tr by (cases x) (auto split: if_splits)
      moreover from this have "filter (\<lambda>x. fst x = s0) (trace_of k W (decisions l W (e # es) s)) = []" using W by (force simp: filter_empty_conv)
      ultimately show ?thesis by auto
    next
      case False
      then have "st = s0" "n = m + 1" using w c Cons.prems(2) [OF c] \<open>k' = k\<close> by (auto simp: next_window_def)
      then show ?thesis using f(2,3) unfolding tr by auto
    qed
    then show ?thesis using ok by (auto simp: follows_def split: option.splits)
  qed
qed

text \<open>A refused request has a full quota of requests before it within one window's length.\<close>

lemma decisions_times: "(k, t, d) \<in> set (decisions l W es s) \<Longrightarrow> t \<in> snd ` set es"
proof (induction es arbitrary: s)
  case (Cons e es)
  obtain k' t' z s' where e: "e = (k', t')" "consume_rate k' l W t' s = (z, s')" by fastforce
  show ?case using Cons.prems Cons.IH [of s'] by (cases z) (auto simp: e)
qed simp

lemma refused_full:
  fixes D k t W
  defines "c \<equiv> int (length (filter (\<lambda>(k', t', d'). k' = k \<and> t - usec W < t') D))"
  assumes "policy_ok l W" "sorted (map snd es)" "decisions l W es s = D @ (k, t, d) # D'" "\<not> rl_allowed d"
    and "\<And>s0 n W'. dict_get s k = Some (s0, n, W') \<Longrightarrow> W' = W \<and> (\<forall>t\<in>snd ` set es. s0 \<le> t)"
  shows "case dict_get s k of None \<Rightarrow> l \<le> c | Some (s0, n, _) \<Rightarrow> if t < s0 + usec W then l \<le> n + c else l \<le> c"
  using assms(3,4,6) unfolding c_def
proof (induction es arbitrary: s D)
  case (Cons e es)
  obtain k' t1 where e: "e = (k', t1)" by fastforce
  obtain st n1 where w: "next_window (dict_get s k') t1 = (st, n1)" by fastforce
  let ?s = "dict_set k' (st, n1, W) s" and ?d = "\<lparr>rl_allowed = (n1 \<le> l), rl_limit = l, rl_remaining = max 0 (l - n1), rl_reset_at = st + usec W\<rparr>"
  have D: "(k', t1, ?d) # decisions l W es ?s = D @ (k, t, d) # D'" using Cons.prems(2) by (simp add: e consume_rate_policy [OF assms(2)] w)
  have W: "0 < usec W" "1 \<le> l" using assms(2) by (simp_all add: policy_ok_def usec_def)
  have later: "\<forall>u\<in>snd ` set es. t1 \<le> u" and srt: "sorted (map snd es)" using Cons.prems(1) e by auto
  have s0: "s0 \<le> t1 \<and> W' = W" if "dict_get s k = Some (s0, n, W')" for s0 n W' using Cons.prems(3) [OF that] e by auto
  show ?case
  proof (cases D)
    case Nil
    then have "k' = k" "t1 = t" "\<not> n1 \<le> l" using D assms(5) by auto
    then show ?thesis using w W Nil s0 by (auto simp: next_window_def split: option.splits if_splits)
  next
    case DD: (Cons x D1)
    then have x: "x = (k', t1, ?d)" and D1: "decisions l W es ?s = D1 @ (k, t, d) # D'" using D by auto
    have t: "t1 \<le> t" using later decisions_times [of k t d l W es ?s] D1 by auto
    have st: "st \<le> t1" if "k' = k" using w that s0 by (auto simp: next_window_def split: option.splits if_splits)
    have ih: "case dict_get ?s k of None \<Rightarrow> l \<le> int (length (filter (\<lambda>(k', t', d'). k' = k \<and> t - usec W < t') D1))
        | Some (s0, n, _) \<Rightarrow> if t < s0 + usec W then l \<le> n + int (length (filter (\<lambda>(k', t', d'). k' = k \<and> t - usec W < t') D1))
            else l \<le> int (length (filter (\<lambda>(k', t', d'). k' = k \<and> t - usec W < t') D1))"
      by (rule Cons.IH [OF srt D1]) (use later st Cons.prems(3) e in \<open>auto split: if_splits\<close>)
    show ?thesis
    proof (cases "k' = k")
      case False
      then show ?thesis using ih by (cases "dict_get s k") (auto simp: DD x)
    next
      case True
      then show ?thesis using ih w t s0 W
        by (cases "dict_get s k") (auto simp: DD x next_window_def split: if_splits)
    qed
  qed
qed simp

text \<open>
  C27. The rate limit bounds and admits.  For any sequence of requests in order of time, of any scopes, any interval
  of one window's length admits at most twice the limit of requests of a scope (a fixed window admits at most
  the limit, and an interval meets at most two).  A request is refused only when at least the limit of requests
  of its scope came before it within one window's length, so a client that stays within the limit in every
  interval is never refused.\<close>

theorem rate_limit_bounds:
  assumes "policy_ok l W" "sorted (map snd es)"
  shows "int (length (filter (\<lambda>(k', t, d). k' = k \<and> rl_allowed d \<and> t0 \<le> t \<and> t < t0 + usec W) (decisions l W es []))) \<le> 2 * l
    \<and> (\<forall>D t d D'. decisions l W es [] = D @ (k, t, d) # D' \<longrightarrow> \<not> rl_allowed d \<longrightarrow>
         l \<le> int (length (filter (\<lambda>(k', t', d'). k' = k \<and> t - usec W < t') D)))"
proof -
  let ?D = "decisions l W es []"
  have "follows l W None (trace_of k W ?D)" using follows_decisions [OF assms, of "[]" k] by simp
  then have "int (length (filter (\<lambda>(s, t). t0 \<le> t \<and> t < t0 + usec W) (trace_of k W ?D))) \<le> 2 * l"
    using windows_bound assms(1) by (auto simp: follows_def policy_ok_def)
  moreover have "length (filter (\<lambda>(s, t). t0 \<le> t \<and> t < t0 + usec W) (trace_of k W D))
      = length (filter (\<lambda>(k', t, d). k' = k \<and> rl_allowed d \<and> t0 \<le> t \<and> t < t0 + usec W) D)" for D
    by (induction D) (auto simp: trace_of_def)
  moreover have "l \<le> int (length (filter (\<lambda>(k', t', d'). k' = k \<and> t - usec W < t') D))"
    if "?D = D @ (k, t, d) # D'" "\<not> rl_allowed d" for D t d D'
    using refused_full [OF assms that] by simp
  ultimately show ?thesis by simp
qed

theorem rate_limit_bounds_witness:
  "\<exists>D d. decisions 2 1 [(''a'', 0), (''b'', 1), (''a'', 5), (''a'', 7)] [] = D @ [(''a'', 7, d)] \<and> \<not> rl_allowed d
     \<and> 2 \<le> int (length (filter (\<lambda>(k', t', d'). k' = ''a'' \<and> 7 - usec 1 < t') D))"
proof -
  have p: "policy_ok 2 1" "sorted (map snd [(''a'', 0), (''b'', 1), (''a'', 5), (''a'', 7 :: int)])" by (simp_all add: policy_ok_def)
  obtain D d where D: "decisions 2 1 [(''a'', 0), (''b'', 1), (''a'', 5), (''a'', 7)] [] = D @ [(''a'', 7, d)]" "\<not> rl_allowed d"
    by (simp add: consume_rate_policy [OF p(1)] next_window_def usec_def)
  with rate_limit_bounds [OF p, of "''a''" 0] show ?thesis by blast
qed

end
