(* ===== verification/Api_Properties.thy ===== *)
theory Api_Properties
  imports Token_Properties History_Properties Rate_Limit
begin

text \<open>
  The guard around every API call: an operation runs only for an authenticated and admitted caller, every answer
  is audited with a signature, and the transaction history is read only within the caller's scopes.
\<close>

section \<open>What the guard does\<close>

definition new_audit ::
  "platform \<Rightarrow> key_provider \<Rightarrow> api_guard \<Rightarrow> api_world \<Rightarrow> api_world \<Rightarrow> api_request \<Rightarrow> authenticated_principal option \<Rightarrow> api_outcome \<Rightarrow> int \<Rightarrow> string \<Rightarrow> instant \<Rightarrow> bool" where
  \<comment> \<open>exactly one audit was added: the signed audit of this request and outcome\<close>
  "new_audit P ks g w w' request caller oc status reason at \<longleftrightarrow> (\<exists>a. api_audit_for P ks g request caller oc status reason at = Inr a
     \<and> dict_get (aw_audits w) (au_audit_id a) = None \<and> aw_audits w' = dict_set (au_audit_id a) a (aw_audits w))"

lemma api_audit_forD:
  assumes "api_audit_for P ks g request caller oc status reason at = Inr a"
  shows "au_outcome a = oc" "au_status_code a = status" "au_request_id a = rq_request_id request" "au_token_id a = map_option ap_token_id caller"
    "au_principal_id a = (case caller of Some p \<Rightarrow> ap_principal_id p | None \<Rightarrow> ''UNAUTHENTICATED'')"
    "content_id ''APIAUD'' (obj (audit_core request caller oc status reason at)) = Inr (au_audit_id a)"
  using assms unfolding api_audit_for_def Let_def by (auto simp: rbind_eq_Inr)

lemma guard_audit_cases:
  assumes "guard_audit P ks g request caller oc status reason at w = (x, w')"
  obtains (raised) e where "x = Inl e" "w' = w"
  | (written) a where "x = Inr ()" "api_audit_for P ks g request caller oc status reason at = Inr a" "w' = w\<lparr>aw_audits := aw_audits w'\<rparr>"
      "new_audit P ks g w w' request caller oc status reason at"
proof (cases "api_audit_for P ks g request caller oc status reason at")
  case (Inl e)
  then show thesis using raised [of e] assms by (simp add: guard_audit_def)
next
  case (Inr a)
  show thesis
  proof (cases "dict_get (aw_audits w) (au_audit_id a)")
    case None
    then have "x = Inr ()" "w' = w\<lparr>aw_audits := dict_set (au_audit_id a) a (aw_audits w)\<rparr>"
      using assms Inr by (simp_all add: guard_audit_def append_api_audit_def)
    then show thesis using written [OF _ Inr] None Inr by (auto simp: new_audit_def)
  next
    case (Some b)
    then show thesis using raised [of "Raise RuntimeError ''API audit identifier collision''"] assms Inr by (simp add: guard_audit_def append_api_audit_def)
  qed
qed

lemma admit_cases:
  assumes "admit P ks g request caller at w = (x, w')"
  obtains (raised) e where "x = Inl e" "aw_history w' = aw_history w" "aw_revocations w' = aw_revocations w"
  | (admitted) d ws where "x = Inr d" "rl_allowed d" "w' = w\<lparr>aw_windows := ws\<rparr>"
      "consume_rate (ap_principal_id caller @ '':'' @ rq_route_template request) (gd_limit g) (gd_window_seconds g) at (aw_windows w) = (Inr d, ws)"
proof -
  obtain z ws where z: "consume_rate (ap_principal_id caller @ '':'' @ rq_route_template request) (gd_limit g) (gd_window_seconds g) at (aw_windows w) = (z, ws)"
    by fastforce
  show thesis
  proof (cases z)
    case (Inl e)
    then show thesis using raised [of e] assms z by (auto simp: admit_def sbind_def on_windows_def)
  next
    case (Inr d)
    show thesis
    proof (cases "rl_allowed d")
      case True
      then show thesis using admitted [of d ws] assms z Inr by (auto simp: admit_def sbind_def on_windows_def sret_def)
    next
      case False
      obtain y v where y: "guard_audit P ks g request (Some caller) API_RATE_LIMITED 429 ''API_RATE_LIMIT_EXCEEDED'' at (w\<lparr>aw_windows := ws\<rparr>) = (y, v)"
        by fastforce
      have "aw_history v = aw_history w \<and> aw_revocations v = aw_revocations w"
        using y by (cases rule: guard_audit_cases) (auto dest: arg_cong [of _ _ aw_history] arg_cong [of _ _ aw_revocations])
      moreover have "\<exists>e. x = Inl e \<and> w' = v" using assms z Inr False y
        by (cases y) (auto simp: admit_def sbind_def on_windows_def slift_def)
      ultimately show thesis using raised by blast
    qed
  qed
qed

lemma execute_cases:
  assumes "execute P ks g token request operation at w = (x, w')"
  obtains (refused) e where "x = Inl e" "aw_history w' = aw_history w"
      "\<nexists>t pr. at = Aware t \<and> verify_token P ks (gd_tokens g) (aw_revocations w) token (Aware t) = Inr pr
         \<and> (\<exists>d v. admit P ks g request pr t w = (Inr d, v))"
  | (rejected) e where "x = Inl e" "aw_history w' = aw_history w" "validate_request request \<noteq> Inr ()"
  | (ran) t pr d v where "at = Aware t" "verify_token P ks (gd_tokens g) (aw_revocations w) token (Aware t) = Inr pr"
      "admit P ks g request pr t w = (Inr d, v)" "run_operation P ks g request pr d operation t v = (x, w')"
proof (cases "\<exists>t. at = Aware t \<and> validate_request request = Inr ()")
  case False
  then show thesis using assms refused rejected
    by (cases at; cases "validate_request request") (auto simp: execute_def sbind_def slift_def require_aware_def)
next
  case True
  then obtain t where t: "at = Aware t" "validate_request request = Inr ()" by blast
  let ?v = "verify_token P ks (gd_tokens g) (aw_revocations w) token (Aware t)"
  show thesis
  proof (cases ?v)
    case (Inl e)
    obtain y v where y: "guard_audit P ks g request None API_DENIED 401 (error_text e) t w = (y, v)" by fastforce
    have "aw_history v = aw_history w" using y by (cases rule: guard_audit_cases) (auto dest: arg_cong [of _ _ aw_history])
    moreover have "\<exists>e. x = Inl e \<and> (w' = v \<or> w' = w)" using assms t Inl y
      by (cases y) (auto simp: execute_def sbind_def slift_def split: if_splits)
    ultimately show thesis using refused t Inl by auto
  next
    case (Inr pr)
    obtain z v where z: "admit P ks g request pr t w = (z, v)" by fastforce
    have ex: "execute P ks g token request operation at w = sbind (admit P ks g request pr t) (\<lambda>d. run_operation P ks g request pr d operation t) w"
      using t Inr by (simp add: execute_def)
    show thesis
    proof (cases z)
      case (Inl e)
      have "aw_history v = aw_history w" using z Inl by (auto elim: admit_cases)
      then show thesis using refused [of e] assms ex z Inl t Inr by (auto simp: sbind_def)
    next
      case d: (Inr d)
      then show thesis using ran [OF t(1) Inr] assms ex z by (auto simp: sbind_def)
    qed
  qed
qed

lemma run_operation_cases:
  assumes "run_operation P ks g request pr d operation t v = (x, w')"
  obtains (succeeded) r h where "operation pr (aw_history v) = (Inr r, h)" "x = Inr (r, d)" "aw_history w' = h"
      "new_audit P ks g v w' request (Some pr) API_ALLOWED 200 ''REQUEST_ALLOWED'' t"
  | (failed) e h where "operation pr (aw_history v) = (Inl e, h)" "\<exists>e'. x = Inl e'" "aw_history w' = h"
  | (unaudited) r h e where "operation pr (aw_history v) = (Inr r, h)" "x = Inl e" "aw_history w' = h" "aw_audits w' = aw_audits v"
proof -
  obtain z h where z: "operation pr (aw_history v) = (z, h)" by fastforce
  show thesis
  proof (cases z)
    case (Inl e)
    obtain y u where y: "guard_audit P ks g request (Some pr) (fst (failure_status e)) (snd (failure_status e)) (upper (exc_name (exc_of e))) t (v\<lparr>aw_history := h\<rparr>) = (y, u)"
      by fastforce
    have "aw_history u = h" using y by (cases rule: guard_audit_cases) (auto dest: arg_cong [of _ _ aw_history])
    moreover have "w' = u \<and> (\<exists>e'. x = Inl e')" using assms z Inl y by (cases y) (auto simp: run_operation_def sbind_def slift_def)
    ultimately show thesis using failed z Inl by blast
  next
    case (Inr r)
    obtain y u where y: "guard_audit P ks g request (Some pr) API_ALLOWED 200 ''REQUEST_ALLOWED'' t (v\<lparr>aw_history := h\<rparr>) = (y, u)" by fastforce
    have x: "w' = u" "x = (case y of Inl e \<Rightarrow> Inl e | Inr _ \<Rightarrow> Inr (r, d))"
      using assms z Inr y by (auto simp: run_operation_def sbind_def sret_def split: sum.splits)
    from y show thesis
    proof (cases rule: guard_audit_cases)
      case (raised e)
      then show thesis using unaudited z Inr x by simp
    next
      case (written a)
      have "aw_history u = h" using arg_cong [OF written(3), of aw_history] by simp
      moreover have "new_audit P ks g v u request (Some pr) API_ALLOWED 200 ''REQUEST_ALLOWED'' t" using written(4) by (simp add: new_audit_def)
      ultimately show thesis using succeeded z Inr x written(1) by simp
    qed
  qed
qed

lemma execute_Inr:
  assumes "execute P ks g token request operation at w = (Inr (r, d), w')"
  obtains t pr ws where "at = Aware t" "verify_token P ks (gd_tokens g) (aw_revocations w) token (Aware t) = Inr pr"
    "consume_rate (ap_principal_id pr @ '':'' @ rq_route_template request) (gd_limit g) (gd_window_seconds g) t (aw_windows w) = (Inr d, ws)" "rl_allowed d"
    "operation pr (aw_history w) = (Inr r, aw_history w')" "new_audit P ks g w w' request (Some pr) API_ALLOWED 200 ''REQUEST_ALLOWED'' t"
  using assms
proof (cases rule: execute_cases)
  case (ran t pr d' v)
  from ran(4) have r: "operation pr (aw_history v) = (Inr r, aw_history w')" "d' = d" "new_audit P ks g v w' request (Some pr) API_ALLOWED 200 ''REQUEST_ALLOWED'' t"
    by (cases rule: run_operation_cases; simp)+
  from ran(3) show thesis
    by (cases rule: admit_cases) (use that [OF ran(1,2)] r in \<open>auto simp: new_audit_def\<close>)
qed simp_all

lemma same_caller:
  assumes "verify_token P ks svc rvs token at = Inr p" "verify_token P ks svc rvs' token at' = Inr q"
  shows "p = q"
  using assms by (elim verify_tokenE) auto

definition scoped_caller :: "platform \<Rightarrow> key_provider \<Rightarrow> api_guard \<Rightarrow> api_world \<Rightarrow> string \<Rightarrow> datetime \<Rightarrow> string option \<Rightarrow> read_context \<Rightarrow> bool" where
  \<comment> \<open>the token verifies, its scopes are the read context, and only an operator with a reason is privileged\<close>
  "scoped_caller P ks g w token at reason access \<longleftrightarrow> (\<exists>pr. verify_token P ks (gd_tokens g) (aw_revocations w) token at = Inr pr
     \<and> transaction_context (ap_scopes pr) (ap_principal_id pr) reason = Inr access
     \<and> (privileged access \<longrightarrow> ap_principal_type pr = OPERATOR \<and> given_reason access \<noteq> None))"

lemma privileged_operator:
  assumes "verify_token P ks svc rvs token at = Inr pr" "transaction_context (ap_scopes pr) pid reason = Inr access" "privileged access"
  shows "ap_principal_type pr = OPERATOR"
proof -
  have n: "normalized (ap_scopes pr) = Inr (ap_scopes pr)" "validate_principal_scope (ap_principal_type pr) (ap_scopes pr) = Inr ()"
    using assms(1) token_contentD by (auto elim!: verify_tokenE)
  then have "read_any_permission \<in> set (as_permissions (ap_scopes pr))" using assms(2,3) by (auto simp: transaction_context_def privileged_def)
  then show ?thesis using n(2) unfolding validate_principal_scope_def by (auto simp: rbind_eq_Inr guard_res_eq_Inr)
qed

lemma scoped_get:
  assumes "verify_token P ks (gd_tokens g) (aw_revocations w) token at = Inr pr"
    and "sbind (slift (transaction_context (ap_scopes pr) (ap_principal_id pr) reason)) (\<lambda>access. get_by_utt nonce utt_id access at) h = (Inr en, h')"
  shows "\<exists>access ls. scoped_caller P ks g w token at reason access \<and> require_projection (strip utt_id) h = Inr (he_transaction en)
    \<and> links_for_utt (strip utt_id) h = Inr ls \<and> (privileged access \<or> (\<exists>l\<in>set ls. can_access (sl_subject_kind l) (sl_subject_id l) access))
    \<and> audited h h' access (strip utt_id) ACCESS_ALLOWED"
proof -
  obtain access where c: "transaction_context (ap_scopes pr) (ap_principal_id pr) reason = Inr access" and q: "get_by_utt nonce utt_id access at h = (Inr en, h')"
    using assms(2) by (auto simp: sbind_eq_Inr slift_eq)
  from q show ?thesis
  proof (cases rule: get_cases)
    case (allowed p ls en')
    have "scoped_caller P ks g w token at reason access"
      using assms(1) c allowed(7) privileged_operator [OF assms(1) c] unfolding scoped_caller_def by blast
    moreover have "require_projection (strip utt_id) h = Inr (he_transaction en)" "links_for_utt (strip utt_id) h = Inr ls"
      using allowed by (simp_all add: require_projection_def links_for_utt_def dict_item_def)
    ultimately show ?thesis using allowed(3,7) by blast
  qed simp_all
qed

lemma scoped_list:
  assumes "history_inv h" "verify_token P ks (gd_tokens g) (aw_revocations w) token at = Inr pr"
    and "sbind (slift (transaction_context (ap_scopes pr) (ap_principal_id pr) reason)) (\<lambda>access. list_by_subject nonce kind sid access limit cursor at) h = (Inr page, h')"
  shows "\<exists>access. scoped_caller P ks g w token at reason access \<and> can_access kind (upper (strip sid)) access
    \<and> audited h h' access (upper (strip sid)) ACCESS_ALLOWED
    \<and> (\<forall>e\<in>set (hp_entries page). \<exists>ls l. links_for_utt (up_utt_id (he_transaction e)) h = Inr ls \<and> l \<in> set ls
         \<and> link_subject l = (kind, upper (strip sid)) \<and> he_matched_roles e = sl_roles l)"
proof -
  obtain access where c: "transaction_context (ap_scopes pr) (ap_principal_id pr) reason = Inr access"
    and q: "list_by_subject nonce kind sid access limit cursor at h = (Inr page, h')"
    using assms(3) by (auto simp: sbind_eq_Inr slift_eq)
  from q show ?thesis
  proof (cases rule: list_cases)
    case allowed
    have "scoped_caller P ks g w token at reason access"
      using assms(2) c allowed(1) privileged_operator [OF assms(2) c] unfolding scoped_caller_def permitted_def by auto
    moreover have "can_access kind (upper (strip sid)) access" using allowed(1) by (auto simp: permitted_def can_access_def split: if_splits)
    ultimately show ?thesis using allowed(2) page_content(2) [OF assms(1) allowed(5) audited_only [OF allowed(2)] allowed(3), of page] by blast
  qed simp_all
qed

section \<open>Properties\<close>

text \<open>
  C23. Every API call is authenticated, admitted and accounted for.  The history is touched, or a result returned,
  only if the bearer token verifies and the rate limiter admits its caller; then the operation has run exactly
  once, for that caller, and on success exactly one signed audit of the request is added.\<close>

theorem api_guarded:
  assumes "execute P ks g token request operation at w = (x, w')" "aw_history w' \<noteq> aw_history w \<or> (\<exists>r. x = Inr r)"
  shows "\<exists>t pr d ws. at = Aware t \<and> verify_token P ks (gd_tokens g) (aw_revocations w) token (Aware t) = Inr pr
    \<and> consume_rate (ap_principal_id pr @ '':'' @ rq_route_template request) (gd_limit g) (gd_window_seconds g) t (aw_windows w) = (Inr d, ws)
    \<and> rl_allowed d \<and> aw_history w' = snd (operation pr (aw_history w))
    \<and> (\<forall>r d'. x = Inr (r, d') \<longrightarrow> fst (operation pr (aw_history w)) = Inr r \<and> d' = d
         \<and> new_audit P ks g w w' request (Some pr) API_ALLOWED 200 ''REQUEST_ALLOWED'' t)"
  using assms(1)
proof (cases rule: execute_cases)
  case (ran t pr d v)
  obtain ws where v: "rl_allowed d" "v = w\<lparr>aw_windows := ws\<rparr>"
    "consume_rate (ap_principal_id pr @ '':'' @ rq_route_template request) (gd_limit g) (gd_window_seconds g) t (aw_windows w) = (Inr d, ws)"
    using ran(3) by (auto elim: admit_cases)
  have h: "aw_history v = aw_history w" by (simp add: v(2))
  from ran(4) have "aw_history w' = snd (operation pr (aw_history w))
      \<and> (\<forall>r d'. x = Inr (r, d') \<longrightarrow> fst (operation pr (aw_history w)) = Inr r \<and> d' = d
         \<and> new_audit P ks g w w' request (Some pr) API_ALLOWED 200 ''REQUEST_ALLOWED'' t)"
    by (cases rule: run_operation_cases) (auto simp: h new_audit_def v(2))
  then show ?thesis using ran(1,2) v(1,3) by blast
qed (use assms(2) in simp_all)

text \<open>
  C24. The API reads history within the caller's scopes.  A transaction the API returns, or whose provider outcome
  it returns, is the stored projection of that UTT; the caller presented a valid token whose scopes contain
  a subject the transaction is linked to, or is an operator who may read any transaction and states a
  reason.  A page shows only transactions linked to the subject asked for, under the same policy.  Each read is
  recorded by one audit of the history and one signed audit of the API.\<close>

theorem api_reads_scoped:
  assumes "history_step\<^sup>*\<^sup>* empty_history_store (aw_history w)"
  shows "(api_get_transaction P ks g nonce token request_id utt_id reason at w = (Inr (entry, d), w') \<longrightarrow>
      (\<exists>access ls pr t. scoped_caller P ks g w token at reason access \<and> require_projection (strip utt_id) (aw_history w) = Inr (he_transaction entry)
        \<and> links_for_utt (strip utt_id) (aw_history w) = Inr ls \<and> (privileged access \<or> (\<exists>l\<in>set ls. can_access (sl_subject_kind l) (sl_subject_id l) access))
        \<and> audited (aw_history w) (aw_history w') access (strip utt_id) ACCESS_ALLOWED
        \<and> new_audit P ks g w w' (get_route request_id ''/v1/transactions/{utt_id}'' reason) (Some pr) API_ALLOWED 200 ''REQUEST_ALLOWED'' t))
    \<and> (api_get_provider_outcome P ks g outcomes nonce token request_id submission_id reason at w = (Inr (pj, d), w') \<longrightarrow>
      get_projection submission_id outcomes = Some pj
      \<and> (\<exists>access ls. scoped_caller P ks g w token at reason access \<and> links_for_utt (strip (pj_utt_id pj)) (aw_history w) = Inr ls
          \<and> (privileged access \<or> (\<exists>l\<in>set ls. can_access (sl_subject_kind l) (sl_subject_id l) access))))
    \<and> (api_list_transactions P ks g nonce token request_id kind sid limit cursor reason at w = (Inr (page, d), w') \<longrightarrow>
      (\<exists>access. scoped_caller P ks g w token at reason access \<and> can_access kind (upper (strip sid)) access
        \<and> audited (aw_history w) (aw_history w') access (upper (strip sid)) ACCESS_ALLOWED
        \<and> (\<forall>e\<in>set (hp_entries page). \<exists>ls l. links_for_utt (up_utt_id (he_transaction e)) (aw_history w) = Inr ls \<and> l \<in> set ls
             \<and> link_subject l = (kind, upper (strip sid)) \<and> he_matched_roles e = sl_roles l)))"
proof (intro conjI impI)
  assume "api_get_transaction P ks g nonce token request_id utt_id reason at w = (Inr (entry, d), w')"
  then obtain t pr where e: "at = Aware t" "verify_token P ks (gd_tokens g) (aw_revocations w) token (Aware t) = Inr pr"
    "sbind (slift (transaction_context (ap_scopes pr) (ap_principal_id pr) reason)) (\<lambda>access. get_by_utt nonce utt_id access at) (aw_history w) = (Inr entry, aw_history w')"
    "new_audit P ks g w w' (get_route request_id ''/v1/transactions/{utt_id}'' reason) (Some pr) API_ALLOWED 200 ''REQUEST_ALLOWED'' t"
    unfolding api_get_transaction_def by (rule execute_Inr) blast
  have v: "verify_token P ks (gd_tokens g) (aw_revocations w) token at = Inr pr" using e(1,2) by simp
  show "\<exists>access ls pr t. scoped_caller P ks g w token at reason access \<and> require_projection (strip utt_id) (aw_history w) = Inr (he_transaction entry)
        \<and> links_for_utt (strip utt_id) (aw_history w) = Inr ls \<and> (privileged access \<or> (\<exists>l\<in>set ls. can_access (sl_subject_kind l) (sl_subject_id l) access))
        \<and> audited (aw_history w) (aw_history w') access (strip utt_id) ACCESS_ALLOWED
        \<and> new_audit P ks g w w' (get_route request_id ''/v1/transactions/{utt_id}'' reason) (Some pr) API_ALLOWED 200 ''REQUEST_ALLOWED'' t"
    using scoped_get [OF v e(3)] e(4) by blast
next
  assume "api_get_provider_outcome P ks g outcomes nonce token request_id submission_id reason at w = (Inr (pj, d), w')"
  then obtain pr where v: "verify_token P ks (gd_tokens g) (aw_revocations w) token at = Inr pr"
    and "outcome_operation outcomes nonce submission_id reason at pr (aw_history w) = (Inr pj, aw_history w')"
    unfolding api_get_provider_outcome_def by (rule execute_Inr) simp
  then obtain en where g: "get_projection submission_id outcomes = Some pj"
    and "sbind (slift (transaction_context (ap_scopes pr) (ap_principal_id pr) reason)) (\<lambda>access. get_by_utt nonce (pj_utt_id pj) access at) (aw_history w) = (Inr en, aw_history w')"
    unfolding outcome_operation_def by (auto simp: sbind_eq_Inr slift_eq sret_eq split: option.splits)
  from scoped_get [OF v this(2)] g show "get_projection submission_id outcomes = Some pj"
    "\<exists>access ls. scoped_caller P ks g w token at reason access \<and> links_for_utt (strip (pj_utt_id pj)) (aw_history w) = Inr ls
          \<and> (privileged access \<or> (\<exists>l\<in>set ls. can_access (sl_subject_kind l) (sl_subject_id l) access))" by blast+
next
  have inv: "history_inv (aw_history w)" using history_reach [OF assms history_inv_empty] by blast
  assume "api_list_transactions P ks g nonce token request_id kind sid limit cursor reason at w = (Inr (page, d), w')"
  then obtain pr where v: "verify_token P ks (gd_tokens g) (aw_revocations w) token at = Inr pr"
    and l: "sbind (slift (transaction_context (ap_scopes pr) (ap_principal_id pr) reason)) (\<lambda>access. list_by_subject nonce kind sid access limit cursor at) (aw_history w) = (Inr page, aw_history w')"
    unfolding api_list_transactions_def by (rule execute_Inr) simp
  show "\<exists>access. scoped_caller P ks g w token at reason access \<and> can_access kind (upper (strip sid)) access
        \<and> audited (aw_history w) (aw_history w') access (upper (strip sid)) ACCESS_ALLOWED
        \<and> (\<forall>e\<in>set (hp_entries page). \<exists>ls l. links_for_utt (up_utt_id (he_transaction e)) (aw_history w) = Inr ls \<and> l \<in> set ls
             \<and> link_subject l = (kind, upper (strip sid)) \<and> he_matched_roles e = sl_roles l)"
    using scoped_list [OF inv v l] .
qed

text \<open>
  A request identifier repeated within a second is not audited.  The identifier of an API audit is a digest of
  the request, its outcome and the whole second.  When a caller repeats a successful request with the same
  identifier within the same second, the repeated call can only raise, although the limiter admits it and its
  operation runs; the audits do not record it.\<close>

theorem repeated_request_unaudited:
  assumes "execute P ks g token request operation (Aware t) w = (Inr (r, d), w1)" "epoch t' = epoch t"
    and "execute P ks g token request operation (Aware t') w1 = (x, w2)"
  shows "(\<exists>e. x = Inl e) \<and> (\<forall>pr d' v r' h'. verify_token P ks (gd_tokens g) (aw_revocations w1) token (Aware t') = Inr pr \<longrightarrow>
      validate_request request = Inr () \<longrightarrow> admit P ks g request pr t' w1 = (Inr d', v) \<longrightarrow> operation pr (aw_history w1) = (Inr r', h') \<longrightarrow>
      aw_history w2 = h' \<and> aw_audits w2 = aw_audits w1)"
proof -
  obtain t0 p0 ws where f: "Aware t = Aware t0" "verify_token P ks (gd_tokens g) (aw_revocations w) token (Aware t0) = Inr p0"
    "new_audit P ks g w w1 request (Some p0) API_ALLOWED 200 ''REQUEST_ALLOWED'' t0" using assms(1) by (rule execute_Inr) blast
  from f(1,3) obtain i where i: "content_id ''APIAUD'' (obj (audit_core request (Some p0) API_ALLOWED 200 ''REQUEST_ALLOWED'' t)) = Inr i" "dict_get (aw_audits w1) i \<noteq> None"
    unfolding new_audit_def by (auto dest!: api_audit_forD(6))
  have no: "\<not> new_audit P ks g v w2 request (Some q) API_ALLOWED 200 ''REQUEST_ALLOWED'' t'" if "q = p0" "aw_audits v = aw_audits w1" for q v
  proof
    assume "new_audit P ks g v w2 request (Some q) API_ALLOWED 200 ''REQUEST_ALLOWED'' t'"
    then obtain a where a: "api_audit_for P ks g request (Some q) API_ALLOWED 200 ''REQUEST_ALLOWED'' t' = Inr a" "dict_get (aw_audits v) (au_audit_id a) = None"
      unfolding new_audit_def by blast
    have "audit_core request (Some q) API_ALLOWED 200 ''REQUEST_ALLOWED'' t' = audit_core request (Some p0) API_ALLOWED 200 ''REQUEST_ALLOWED'' t"
      using that(1) assms(2) by (simp add: audit_core_def)
    then show False using api_audit_forD(6) [OF a(1)] i a(2) that(2) by simp
  qed
  from assms(3) show ?thesis
  proof (cases rule: execute_cases)
    case (ran t2 q d2 v)
    have q: "q = p0" "t2 = t'" using same_caller f(2) ran(1,2) by auto
    have v: "aw_audits v = aw_audits w1" "aw_history v = aw_history w1" using ran(3) by (auto elim: admit_cases)
    from ran(4) show ?thesis
      by (cases rule: run_operation_cases) (use no [OF q(1) v(1)] q ran(1,2) v in \<open>auto\<close>)
  qed auto
qed

end
