(* ===== verification/Api_Run.thy ===== *)
theory Api_Run
  imports Api_Properties History_Run
begin

text \<open>
  A merchant's service obtains a token and reads a transaction through the API: the hypotheses of the API
  properties are met by a concrete run.
\<close>

section \<open>An issued token\<close>

definition api_keys :: key_provider where
  "api_keys = \<lparr>kp_records = [(''kt'', demo_key ''kt'' ACCESS_TOKEN_SIGNING), (''ka'', demo_key ''ka'' API_AUDIT_SIGNING)],
     kp_private_keys = [(''kt'', ''st''), (''ka'', ''sa'')]\<rparr>"

lemma api_keys_inv: "kp_inv demo_platform api_keys"
  by (auto simp: kp_defs api_keys_def demo_key_def from_epoch_def split: if_splits)

definition shop_tokens :: token_service where
  "shop_tokens = \<lparr>tk_issuer = ''railone'', tk_audience = ''railone-api'', tk_max_ttl_seconds = 900, tk_clock_skew_seconds = 30\<rparr>"

definition shop_scopes :: actor_scopes where
  "shop_scopes = \<lparr>as_continuity_uid = None, as_merchant_ids = [''M1''], as_branch_ids = [], as_partner_ids = [], as_permissions = []\<rparr>"

lemma shop_scopes_normal: "normalized shop_scopes = Inr shop_scopes" "validate_principal_scope MERCHANT_SERVICE shop_scopes = Inr ()"
  "strip ''clerk'' = ''clerk''"
  by code_simp+

lemma length_b64_digits: "length (b64_digits bs) \<le> 2 * length bs"
  by (induction bs rule: b64_digits.induct) auto

lemma length_b64url: "length (b64url_encode x) \<le> 2 * length x"
  using length_b64_digits [of "map of_char x"] by (simp add: b64url_encode_def)

definition shop_claims :: pyval where
  "shop_claims = token_claims shop_tokens ''clerk'' ''AT-1'' MERCHANT_SERVICE (from_epoch 30) (from_epoch 30 + usec 900) shop_scopes"

lemma shop_header: "\<exists>h. json_text (token_header ''kt'') = Inr h \<and> length h \<le> 100"
  by (simp add: json_text_def token_header_def obj_def) (code_simp)

lemma shop_claims_text: "\<exists>c. json_text shop_claims = Inr c \<and> length c \<le> 500"
proof -
  have "json_text shop_claims = Inr (flat (canon shop_claims))"
    using dumps_plain(1) plain_token(3) by (simp add: json_text_def shop_claims_def)
  moreover have "length (flat (canon shop_claims)) \<le> 500" by code_simp
  ultimately show ?thesis by blast
qed

lemma api_keys_get [simp]:
  "get_key_record api_keys ''kt'' = Some (demo_key ''kt'' ACCESS_TOKEN_SIGNING)" "get_key_record api_keys ''ka'' = Some (demo_key ''ka'' API_AUDIT_SIGNING)"
  "dict_get (kp_private_keys api_keys) ''kt'' = Some ''st''" "dict_get (kp_private_keys api_keys) ''ka'' = Some ''sa''"
  by (simp_all add: api_keys_def get_key_record_def)

abbreviation shop_issue :: "string res" where
  "shop_issue \<equiv> issue_token demo_platform api_keys shop_tokens [] ''clerk'' MERCHANT_SERVICE shop_scopes ''kt'' 900 (Some ''AT-1'') (Aware (from_epoch 30))"

definition shop_principal :: authenticated_principal where
  "shop_principal = \<lparr>ap_principal_id = ''clerk'', ap_principal_type = MERCHANT_SERVICE, ap_token_id = ''AT-1'', ap_issuer = ''railone'',
     ap_audience = ''railone-api'', ap_scopes = shop_scopes, ap_issued_at = from_epoch 30, ap_expires_at = from_epoch 930\<rparr>"

lemma shop_issued: obtains token where "shop_issue = Inr token" "length token \<le> 16384"
proof -
  obtain h c where h: "json_text (token_header ''kt'') = Inr h" "length h \<le> 100" and c: "json_text shop_claims = Inr c" "length c \<le> 500"
    using shop_header shop_claims_text by blast
  let ?i = "b64url_encode h @ ''.'' @ b64url_encode c"
  have k: "permits_signing_at (demo_key ''kt'' ACCESS_TOKEN_SIGNING) (from_epoch 30)" "\<not> kr_not_after (demo_key ''kt'' ACCESS_TOKEN_SIGNING) < from_epoch 30 + usec 900"
    by (simp_all add: permits_signing_at_def demo_key_def from_epoch_def usec_def)
  have "shop_issue = sign_token demo_platform api_keys ''kt'' (token_header ''kt'') shop_claims"
    using k by (simp add: issue_token_def shop_scopes_normal Let_def token_jti_def shop_claims_def shop_tokens_def demo_key_def)
  also have "\<dots> = Inr (?i @ ''.'' @ b64url_encode ?i)" by (simp add: sign_token_def h(1) c(1) Let_def kp_sign_def)
  finally show thesis
    by (rule that) (use h(2) c(2) length_b64url [of h] length_b64url [of c] length_b64url [of ?i] in \<open>simp\<close>)
qed

lemma shop_epoch: "epoch (from_epoch 30) = 30"
  by (simp add: epoch_def from_epoch_def)

lemma shop_conditions:
  "0 \<le> from_epoch 30" "from_epoch 30 + usec 900 < from_epoch 253402300800"
  "get_key_record api_keys ''kt'' = Some r \<Longrightarrow> kr_not_before r \<le> from_epoch (epoch (from_epoch 30))"
  "Some ''AT-1'' = Some i \<Longrightarrow> i \<noteq> [] \<Longrightarrow> strip i \<noteq> []" "\<not> is_revoked (token_jti [] (Some ''AT-1'')) []"
  "from_epoch (epoch (from_epoch 30)) - usec (tk_clock_skew_seconds shop_tokens) \<le> from_epoch 40"
  "from_epoch 40 < from_epoch (epoch (from_epoch 30) + 900) + usec (tk_clock_skew_seconds shop_tokens)"
proof -
  have "strip ''AT-1'' \<noteq> []" by code_simp
  then show "Some ''AT-1'' = Some i \<Longrightarrow> i \<noteq> [] \<Longrightarrow> strip i \<noteq> []" by auto
qed (auto simp: shop_epoch shop_tokens_def is_revoked_def demo_key_def, auto simp: from_epoch_def usec_def)

lemma shop_verified:
  assumes "shop_issue = Inr token" "length token \<le> 16384"
  shows "verify_token demo_platform api_keys shop_tokens [] token (Aware (from_epoch 40)) = Inr shop_principal"
  using issued_verifies [OF demo_correct api_keys_inv assms(1) shop_conditions(1,2) assms(2) shop_conditions(3-7)] shop_scopes_normal
  by (simp add: shop_epoch shop_principal_def shop_tokens_def token_jti_def)

theorem access_token_roundtrip_witness:
  "\<exists>token. shop_issue = Inr token \<and> verify_token demo_platform api_keys shop_tokens [] token (Aware (from_epoch 40)) = Inr shop_principal"
proof -
  obtain token where t: "shop_issue = Inr token" "length token \<le> 16384" by (rule shop_issued)
  show ?thesis
    using access_token_roundtrip [OF demo_correct api_keys_inv t(1) shop_conditions(1,2) t(2) shop_conditions(3-7)] t(1) shop_scopes_normal
    by (simp add: shop_epoch shop_principal_def shop_tokens_def token_jti_def)
qed

theorem access_token_sound_witness:
  "\<exists>token rv. verify_token demo_platform api_keys shop_tokens [] token (Aware (from_epoch 40)) = Inr shop_principal
     \<and> revoke_token demo_platform api_keys shop_tokens token ''stolen'' (Aware (from_epoch 40)) [] = (Inr (), rv)
     \<and> (\<nexists>pr. verify_token demo_platform api_keys shop_tokens
          (later_revocations demo_platform shop_tokens [(api_keys, ''x'', ''other'', Aware (from_epoch 45))] rv) token (Aware (from_epoch 50)) = Inr pr)"
proof -
  obtain token where "shop_issue = Inr token" "length token \<le> 16384" by (rule shop_issued)
  then have v: "verify_token demo_platform api_keys shop_tokens [] token (Aware (from_epoch 40)) = Inr shop_principal" by (rule shop_verified)
  have "strip ''stolen'' \<noteq> []" by code_simp
  then obtain rv where r: "revoke_token demo_platform api_keys shop_tokens token ''stolen'' (Aware (from_epoch 40)) [] = (Inr (), rv)"
    using v by (simp add: revoke_token_def sbind_sget revoke_token_id_def Let_def)
  have "\<forall>reason at' rv'. revoke_token demo_platform api_keys shop_tokens token reason at' [] = (Inr (), rv') \<longrightarrow>
      (\<forall>calls ks' svc' at''. \<nexists>pr'. verify_token demo_platform ks' svc' (later_revocations demo_platform shop_tokens calls rv') token at'' = Inr pr')"
    using access_token_sound [OF v] by (elim conjE)
  from this [rule_format, OF r] v r show ?thesis by blast
qed

section \<open>A guarded read\<close>

definition shop_guard :: api_guard where
  "shop_guard = \<lparr>gd_tokens = shop_tokens, gd_audit_signing_key_id = ''ka'', gd_limit = 60, gd_window_seconds = 60\<rparr>"

definition shop_world :: "history_store \<Rightarrow> api_world" where
  "shop_world h = \<lparr>aw_windows = [], aw_audits = [], aw_revocations = [], aw_history = h\<rparr>"

lemma plain_audit_core: "plain (obj (audit_core rq caller oc status reason t))"
    "plain (obj ((''audit_id'', PyStr i) # audit_core rq caller oc status reason t))"
  by (auto simp: audit_core_def plain_obj split: option.splits)

lemma shop_audit: "\<exists>a. api_audit_for demo_platform api_keys shop_guard rq caller oc status reason (from_epoch 40) = Inr a"
proof -
  obtain i where i: "content_id ''APIAUD'' (obj (audit_core rq caller oc status reason (from_epoch 40))) = Inr i"
    using content_id_ok [OF plain_audit_core(1)] by blast
  have "can_sign demo_platform api_keys ''ka'' (purpose_by_artifact API_REQUEST_AUDIT) (from_epoch 40)"
    by (simp add: can_sign_def permits_signing_at_def demo_key_def from_epoch_def)
  from can_sign_ok [OF this plain_audit_core(2) [of i rq caller oc status reason "from_epoch 40"]] show ?thesis
    by (auto simp: api_audit_for_def Let_def i shop_guard_def)
qed

lemma shop_execute:
  assumes "shop_issue = Inr token" "length token \<le> 16384" "validate_request rq = Inr ()" "operation shop_principal h = (Inr x, h')"
  obtains d w' where "execute demo_platform api_keys shop_guard token rq operation (Aware (from_epoch 40)) (shop_world h) = (Inr (x, d), w')"
    "aw_history w' = h'"
proof -
  obtain a where a: "api_audit_for demo_platform api_keys shop_guard rq (Some shop_principal) API_ALLOWED 200 ''REQUEST_ALLOWED'' (from_epoch 40) = Inr a"
    using shop_audit by blast
  have v: "verify_token demo_platform api_keys (gd_tokens shop_guard) (aw_revocations (shop_world h)) token (Aware (from_epoch 40)) = Inr shop_principal"
    using shop_verified [OF assms(1,2)] by (simp add: shop_guard_def shop_world_def)
  obtain d ws where adm: "admit demo_platform api_keys shop_guard rq shop_principal (from_epoch 40) (shop_world h) = (Inr d, (shop_world h)\<lparr>aw_windows := ws\<rparr>)"
    by (simp add: admit_def sbind_def on_windows_def consume_rate_def slift_def rate_policy_def guard_res_def shop_guard_def shop_world_def next_window_def sret_def)
  have "execute demo_platform api_keys shop_guard token rq operation (Aware (from_epoch 40)) (shop_world h)
      = (Inr (x, d), (shop_world h)\<lparr>aw_windows := ws, aw_history := h', aw_audits := [(au_audit_id a, a)]\<rparr>)"
    using assms(3,4) v a
    by (simp add: execute_def sbind_step [of "admit demo_platform api_keys shop_guard rq shop_principal (from_epoch 40)", OF adm] run_operation_def)
      (simp add: shop_world_def guard_audit_def append_api_audit_def sbind_def sret_def)
  then show thesis by (rule that) simp
qed

lemma shop_route: "validate_request (get_route ''R-1'' ''/v1/transactions/{utt_id}'' None) = Inr ()"
  by code_simp

lemma shop_get:
  obtains en h' where "sbind (slift (transaction_context (ap_scopes shop_principal) (ap_principal_id shop_principal) None))
    (\<lambda>access. get_by_utt ''N'' ''UTT-1'' access (Aware (from_epoch 40))) (shop_store h1 h2) = (Inr en, h')"
proof -
  let ?access = "\<lparr>rx_principal_id = ''clerk'', rx_continuity_uid = None, rx_merchant_ids = [''M1''], rx_branch_ids = [], rx_partner_ids = [],
     rx_permissions = [], rx_access_reason = None\<rparr>"
  have t: "transaction_context (ap_scopes shop_principal) (ap_principal_id shop_principal) None = Inr ?access"
    by (simp add: transaction_context_def shop_principal_def shop_scopes_normal) (simp add: shop_scopes_def)
  have p: "audit_possible ''N'' ?access (shop_store h1 h2)" using shop_subject(3) by (simp add: audit_possible_def shop_store_def)
  have c: "can_access SUBJ_MERCHANT_ID ''M1'' ?access" "\<not> privileged ?access" by code_simp+
  obtain x h' where g: "get_by_utt ''N'' ''UTT-1'' ?access (Aware (from_epoch 40)) (shop_store h1 h2) = (x, h')" by fastforce
  then have "\<exists>en. x = Inr en"
  proof (cases rule: get_cases)
    case (raised e)
    then show ?thesis using p by (simp add: shop_subject shop_store_def)
  next
    case (denied m ls)
    then show ?thesis using c by (auto simp: shop_subject shop_store_def shop_link_def)
  qed simp
  then show thesis using that g t by auto
qed

lemma shop_read:
  obtains token en d w' h1 h2 where "history_step\<^sup>*\<^sup>* empty_history_store (shop_store h1 h2)"
    "api_get_transaction demo_platform api_keys shop_guard ''N'' token ''R-1'' ''UTT-1'' None (Aware (from_epoch 40)) (shop_world (shop_store h1 h2)) = (Inr (en, d), w')"
proof -
  obtain token where t: "shop_issue = Inr token" "length token \<le> 16384" by (rule shop_issued)
  obtain h1 h2 where s: "history_step\<^sup>*\<^sup>* empty_history_store (shop_store h1 h2)" by (rule shop_run)
  obtain en h' where g: "sbind (slift (transaction_context (ap_scopes shop_principal) (ap_principal_id shop_principal) None))
    (\<lambda>access. get_by_utt ''N'' ''UTT-1'' access (Aware (from_epoch 40))) (shop_store h1 h2) = (Inr en, h')" by (rule shop_get)
  show thesis
    by (rule shop_execute [OF t shop_route, of "\<lambda>caller. sbind (slift (transaction_context (ap_scopes caller) (ap_principal_id caller) None))
        (\<lambda>access. get_by_utt ''N'' ''UTT-1'' access (Aware (from_epoch 40)))", OF g]) (rule that [OF s], simp only: api_get_transaction_def)
qed

theorem api_guarded_witness:
  "\<exists>token en d w' h1 h2. api_get_transaction demo_platform api_keys shop_guard ''N'' token ''R-1'' ''UTT-1'' None (Aware (from_epoch 40)) (shop_world (shop_store h1 h2))
     = (Inr (en, d), w') \<and> rl_allowed d
     \<and> (\<exists>pr. verify_token demo_platform api_keys shop_tokens [] token (Aware (from_epoch 40)) = Inr pr
          \<and> new_audit demo_platform api_keys shop_guard (shop_world (shop_store h1 h2)) w' (get_route ''R-1'' ''/v1/transactions/{utt_id}'' None)
              (Some pr) API_ALLOWED 200 ''REQUEST_ALLOWED'' (from_epoch 40))"
proof -
  obtain token en d w' h1 h2 where r: "api_get_transaction demo_platform api_keys shop_guard ''N'' token ''R-1'' ''UTT-1'' None (Aware (from_epoch 40)) (shop_world (shop_store h1 h2)) = (Inr (en, d), w')"
    by (rule shop_read)
  from api_guarded [OF this [unfolded api_get_transaction_def]] obtain pr d' where "rl_allowed d'"
    "verify_token demo_platform api_keys shop_tokens [] token (Aware (from_epoch 40)) = Inr pr" "d = d'"
    "new_audit demo_platform api_keys shop_guard (shop_world (shop_store h1 h2)) w' (get_route ''R-1'' ''/v1/transactions/{utt_id}'' None)
              (Some pr) API_ALLOWED 200 ''REQUEST_ALLOWED'' (from_epoch 40)"
    by (auto simp: shop_guard_def shop_world_def)
  then show ?thesis using r by blast
qed

theorem api_reads_scoped_witness:
  "\<exists>token en d w' h1 h2 access. api_get_transaction demo_platform api_keys shop_guard ''N'' token ''R-1'' ''UTT-1'' None (Aware (from_epoch 40)) (shop_world (shop_store h1 h2))
     = (Inr (en, d), w') \<and> scoped_caller demo_platform api_keys shop_guard (shop_world (shop_store h1 h2)) token (Aware (from_epoch 40)) None access
     \<and> audited (shop_store h1 h2) (aw_history w') access ''UTT-1'' ACCESS_ALLOWED"
proof -
  obtain token en d w' h1 h2 where s: "history_step\<^sup>*\<^sup>* empty_history_store (shop_store h1 h2)"
    and r: "api_get_transaction demo_platform api_keys shop_guard ''N'' token ''R-1'' ''UTT-1'' None (Aware (from_epoch 40)) (shop_world (shop_store h1 h2)) = (Inr (en, d), w')"
    by (rule shop_read)
  have h: "aw_history (shop_world (shop_store h1 h2)) = shop_store h1 h2" by (simp add: shop_world_def)
  from api_reads_scoped [of "shop_world (shop_store h1 h2)", unfolded h, OF s] r shop_subject(4) show ?thesis by metis
qed

theorem repeated_request_unaudited_witness:
  "\<exists>token p d w1 x w2. execute demo_platform api_keys shop_guard token (get_route ''R-1'' ''/v1/transactions/{utt_id}'' None) sret (Aware (from_epoch 40)) (shop_world empty_history_store) = (Inr (p, d), w1)
     \<and> execute demo_platform api_keys shop_guard token (get_route ''R-1'' ''/v1/transactions/{utt_id}'' None) sret (Aware (from_epoch 40)) w1 = (x, w2) \<and> (\<exists>e. x = Inl e)"
proof -
  obtain token where t: "shop_issue = Inr token" "length token \<le> 16384" by (rule shop_issued)
  obtain d w1 where e: "execute demo_platform api_keys shop_guard token (get_route ''R-1'' ''/v1/transactions/{utt_id}'' None) sret (Aware (from_epoch 40)) (shop_world empty_history_store) = (Inr (shop_principal, d), w1)"
    by (rule shop_execute [OF t shop_route, of sret]) (simp_all add: sret_def)
  obtain x w2 where "execute demo_platform api_keys shop_guard token (get_route ''R-1'' ''/v1/transactions/{utt_id}'' None) sret (Aware (from_epoch 40)) w1 = (x, w2)"
    by fastforce
  with repeated_request_unaudited [OF e refl this] e show ?thesis by blast
qed

end
