(* ===== verification/Mpesa_Adapter.thy ===== *)
theory Mpesa_Adapter
  imports Mpesa_Callback Provider_Submission Projection Base64url
begin

text \<open>
  The M-PESA B2C adapter (\<^verbatim>\<open>railone_providers/mpesa.py\<close>): configuration, OAuth tokens with their cache, and the
  submission of a payment with the classification of its outcome.

  The HTTP transport is a parameter: it answers a request, given the requests sent before, or raises.  The
  state is the token cache and the requests sent.  A number in a response that is not an integer, and the
  text of a container there, take error branches of their own.
\<close>

section \<open>Configuration and credentials\<close>

record mpesa_credentials =
  mc_consumer_key :: string
  mc_consumer_secret :: string
  mc_initiator_name :: string
  mc_security_credential :: string
  mc_business_shortcode :: string

record mpesa_config =
  mf_base_url :: string
  mf_oauth_path :: string
  mf_b2c_path :: string
  mf_result_url :: string
  mf_timeout_url :: string
  mf_command_id :: string
  mf_timeout_seconds :: int

definition validate_config :: "mpesa_config \<Rightarrow> unit res" where
  "validate_config c =
     rbind (guard_res (\<not> starts_with (mf_base_url c) ''https://'') ValueError ''M-PESA base URL must use HTTPS'') (\<lambda>_.
     rbind (guard_res (\<not> starts_with (mf_result_url c) ''https://'') ValueError ''M-PESA result_url must use HTTPS'') (\<lambda>_.
     rbind (guard_res (\<not> starts_with (mf_timeout_url c) ''https://'') ValueError ''M-PESA timeout_url must use HTTPS'') (\<lambda>_.
     rbind (guard_res (mf_command_id c \<notin> set [''BusinessPayment'', ''SalaryPayment'', ''PromotionPayment'']) ValueError
              ''unsupported M-PESA B2C command'') (\<lambda>_.
     guard_res (\<not> (1 \<le> mf_timeout_seconds c \<and> mf_timeout_seconds c \<le> 60)) ValueError
              ''M-PESA timeout must be between 1 and 60 seconds''))))"

definition env_text :: "(string, string) dict \<Rightarrow> string \<Rightarrow> string" where
  "env_text env name = (case dict_get env name of None \<Rightarrow> [] | Some v \<Rightarrow> v)"

definition environment_credentials :: "(string, string) dict \<Rightarrow> mpesa_credentials res" where
  "environment_credentials env =
     (let values = [(''consumer_key'', env_text env ''RAILONE_MPESA_CONSUMER_KEY''),
        (''consumer_secret'', env_text env ''RAILONE_MPESA_CONSUMER_SECRET''),
        (''initiator_name'', env_text env ''RAILONE_MPESA_INITIATOR_NAME''),
        (''security_credential'', env_text env ''RAILONE_MPESA_SECURITY_CREDENTIAL''),
        (''business_shortcode'', env_text env ''RAILONE_MPESA_SHORTCODE'')];
        missing = map fst (filter (\<lambda>(name, v). strip v = []) values) in
      if missing \<noteq> [] then Inl (Raise RuntimeError (''missing M-PESA credentials: '' @ concat (map (\<lambda>n. n @ '', '') (butlast missing)) @ last missing))
      else Inr \<lparr>mc_consumer_key = env_text env ''RAILONE_MPESA_CONSUMER_KEY'',
        mc_consumer_secret = env_text env ''RAILONE_MPESA_CONSUMER_SECRET'',
        mc_initiator_name = env_text env ''RAILONE_MPESA_INITIATOR_NAME'',
        mc_security_credential = env_text env ''RAILONE_MPESA_SECURITY_CREDENTIAL'',
        mc_business_shortcode = env_text env ''RAILONE_MPESA_SHORTCODE''\<rparr>)"

section \<open>HTTP\<close>

record http_request =
  ht_method :: string
  ht_url :: string
  ht_headers :: "(string, string) dict"
  ht_body :: "string option"
  ht_timeout_seconds :: int

record http_response =
  hr_status_code :: int
  hr_body :: string

type_synonym transport = "http_request list \<Rightarrow> http_request \<Rightarrow> http_response res"

record mpesa_world =
  mw_cached :: "(string \<times> instant) option"
  mw_requests :: "http_request list"

definition send_request :: "transport \<Rightarrow> http_request \<Rightarrow> (mpesa_world, http_response) st" where
  "send_request tr q w = (tr (mw_requests w) q, w\<lparr>mw_requests := mw_requests w @ [q]\<rparr>)"

definition json_object :: "http_response \<Rightarrow> pyval res" where
  "json_object r =
     rbind (json_loads (hr_body r)) (\<lambda>v.
     case v of PyDict _ \<Rightarrow> Inr v | _ \<Rightarrow> Inl (Raise ValueError ''provider response must be a JSON object''))"

definition rstrip_slash :: "string \<Rightarrow> string" where
  "rstrip_slash s = rev (dropWhile (\<lambda>c. c = CHR ''/'') (rev s))"

definition b64_encode :: "string \<Rightarrow> string" where
  \<comment> \<open>\<^verbatim>\<open>base64.b64encode\<close>: the standard alphabet and padding\<close>
  "b64_encode s = map (\<lambda>c. if c = CHR ''-'' then CHR ''+'' else if c = CHR ''_'' then CHR ''/'' else c) (b64url_encode s)
     @ b64_padding (length (b64url_encode s))"

section \<open>OAuth tokens\<close>

definition oauth_request :: "mpesa_config \<Rightarrow> mpesa_credentials \<Rightarrow> http_request" where
  "oauth_request c cr =
     \<lparr>ht_method = ''GET'', ht_url = rstrip_slash (mf_base_url c) @ mf_oauth_path c,
      ht_headers = [(''Authorization'', ''Basic '' @ b64_encode (mc_consumer_key cr @ '':'' @ mc_consumer_secret cr)),
        (''Accept'', ''application/json'')],
      ht_body = None, ht_timeout_seconds = mf_timeout_seconds c\<rparr>"

definition expiry_seconds :: "pyval \<Rightarrow> int res" where
  "expiry_seconds v =
     (case v of
        PyFloat None \<Rightarrow> Inl (Raise OtherException ''a number that is not an integer is not modelled'')
      | _ \<Rightarrow> (case py_int v of Inr n \<Rightarrow> Inr n | Inl e \<Rightarrow> Inl (Raise RuntimeError ''M-PESA OAuth expiry is invalid'')))"

definition granted_token :: "http_response \<Rightarrow> (string \<times> int) res" where
  "granted_token response =
     rbind (guard_res (hr_status_code response \<noteq> 200) RuntimeError ''M-PESA OAuth request was rejected'') (\<lambda>_.
     rbind (json_object response) (\<lambda>payload.
     rbind (case py_get payload ''access_token'' of
              PyStr token \<Rightarrow> if token = [] then Inl (Raise RuntimeError ''M-PESA OAuth response omitted access_token'') else Inr token
            | _ \<Rightarrow> Inl (Raise RuntimeError ''M-PESA OAuth response omitted access_token'')) (\<lambda>token.
     rbind (expiry_seconds (case pget payload ''expires_in'' of None \<Rightarrow> PyInt 3599 | Some v \<Rightarrow> v)) (\<lambda>expires_in.
     rbind (guard_res (\<not> (60 \<le> expires_in \<and> expires_in \<le> 86400)) RuntimeError ''M-PESA OAuth expiry is outside policy'') (\<lambda>_.
     Inr (token, expires_in))))))"

definition oauth_token :: "mpesa_config \<Rightarrow> mpesa_credentials res \<Rightarrow> transport \<Rightarrow> instant \<Rightarrow> (mpesa_world, string) st" where
  "oauth_token c credentials tr instant w =
     (case mw_cached w of
        Some (token, expires) \<Rightarrow>
          if expires > instant + usec 30 then (Inr token, w)
          else sbind (slift credentials) (\<lambda>cr. sbind (send_request tr (oauth_request c cr)) (\<lambda>response.
               sbind (slift (granted_token response)) (\<lambda>(token, expires_in). \<lambda>w.
               (Inr token, w\<lparr>mw_cached := Some (token, instant + usec expires_in)\<rparr>)))) w
      | None \<Rightarrow>
          sbind (slift credentials) (\<lambda>cr. sbind (send_request tr (oauth_request c cr)) (\<lambda>response.
          sbind (slift (granted_token response)) (\<lambda>(token, expires_in). \<lambda>w.
          (Inr token, w\<lparr>mw_cached := Some (token, instant + usec expires_in)\<rparr>)))) w)"

section \<open>Submission\<close>

definition mpesa_terminal :: "string \<Rightarrow> submission_result" where
  "mpesa_terminal code = \<lparr>sv_outcome = OUT_REJECTED, sv_code = code, sv_external_reference = None,
     sv_rejection_disposition = Some REJ_TERMINAL, sv_provider_context = []\<rparr>"

definition mpesa_unknown :: "string \<Rightarrow> submission_result" where
  "mpesa_unknown code = \<lparr>sv_outcome = OUT_UNKNOWN, sv_code = code, sv_external_reference = None,
     sv_rejection_disposition = None, sv_provider_context = []\<rparr>"

definition auth_unavailable :: submission_result where
  "auth_unavailable = \<lparr>sv_outcome = OUT_REJECTED, sv_code = ''MPESA_AUTH_UNAVAILABLE'', sv_external_reference = None,
     sv_rejection_disposition = Some REJ_RETRYABLE, sv_provider_context = []\<rparr>"

definition msisdn_form :: "string \<Rightarrow> bool" where
  \<comment> \<open>\<^verbatim>\<open>re.fullmatch(r"254[17][0-9]{8}", s)\<close>\<close>
  "msisdn_form s \<longleftrightarrow> length s = 12 \<and> starts_with s ''254'' \<and> s ! 3 \<in> {CHR ''1'', CHR ''7''} \<and> list_all is_digit (drop 4 s)"

definition shortcode_form :: "string \<Rightarrow> bool" where
  "shortcode_form s \<longleftrightarrow> 5 \<le> length s \<and> length s \<le> 10 \<and> list_all is_digit s"

fun collapse :: "bool \<Rightarrow> string \<Rightarrow> string" where
  \<comment> \<open>\<^verbatim>\<open>re.sub(r"[^A-Z0-9]+", "_", s)\<close>; the flag tells that a run has been replaced already\<close>
  "collapse run [] = []"
| "collapse run (c # cs) =
     (if is_digit c \<or> (CHR ''A'' \<le> c \<and> c \<le> CHR ''Z'') then c # collapse False cs
      else if run then collapse True cs else CHR ''_'' # collapse True cs)"

definition strip_char :: "char \<Rightarrow> string \<Rightarrow> string" where
  "strip_char x s = rev (dropWhile (\<lambda>c. c = x) (rev (dropWhile (\<lambda>c. c = x) s)))"

definition safe_code :: "string \<Rightarrow> string" where
  "safe_code v = (let t = take 80 (strip_char (CHR ''_'') (collapse False (upper v))) in if t = [] then ''UNKNOWN'' else t)"

definition amount_int :: "pyval \<Rightarrow> int res" where
  \<comment> \<open>the operand of \<^verbatim>\<open>divmod(amount_minor, 100)\<close>\<close>
  "amount_int v = (case v of PyInt n \<Rightarrow> Inr n | PyBool b \<Rightarrow> Inr (of_bool b)
     | _ \<Rightarrow> Inl (Raise TypeError ''unsupported operand type(s) for divmod()''))"

datatype precheck = Refused submission_result | Payable int string

definition precheck_request :: "provider_request \<Rightarrow> precheck res" where
  \<comment> \<open>the checks before credentials are read\<close>
  "precheck_request q =
     (if pr_provider_id q \<noteq> mpesa_provider then Inl (Raise ValueError (''M-PESA adapter received another provider'' @ CHR 0x27 # ''s request''))
      else if pr_rail q \<noteq> PyStr ''MOBILE_MONEY'' then Inr (Refused (mpesa_terminal ''MPESA_RAIL_UNSUPPORTED''))
      else if pr_currency_from q \<noteq> PyStr ''KES'' \<or> pr_currency_to q \<noteq> PyStr ''KES'' then Inr (Refused (mpesa_terminal ''MPESA_CURRENCY_UNSUPPORTED''))
      else if pr_amount_minor q \<noteq> pr_receive_amount_minor q then Inr (Refused (mpesa_terminal ''MPESA_DOMESTIC_AMOUNT_MISMATCH''))
      else rbind (amount_int (pr_amount_minor q)) (\<lambda>minor.
        let amount = minor div 100; remainder = minor mod 100; msisdn = strip (pr_beneficiary_account_reference q) in
        if remainder \<noteq> 0 \<or> amount \<le> 0 then Inr (Refused (mpesa_terminal ''MPESA_WHOLE_KES_REQUIRED''))
        else if \<not> msisdn_form msisdn then Inr (Refused (mpesa_terminal ''MPESA_BENEFICIARY_MSISDN_INVALID''))
        else Inr (Payable amount msisdn)))"

definition payment_payload :: "mpesa_config \<Rightarrow> mpesa_credentials \<Rightarrow> provider_request \<Rightarrow> int \<Rightarrow> string \<Rightarrow> (string \<times> string) list" where
  \<comment> \<open>the items of the payment, each value as JSON text\<close>
  "payment_payload c cr q amount msisdn =
     [(''InitiatorName'', quote (mc_initiator_name cr)), (''SecurityCredential'', quote (mc_security_credential cr)),
      (''CommandID'', quote (mf_command_id c)), (''Amount'', show_int amount),
      (''PartyA'', quote (mc_business_shortcode cr)), (''PartyB'', quote msisdn),
      (''Remarks'', quote (take 100 (''RailOne '' @ pr_rtt_id q))), (''QueueTimeOutURL'', quote (mf_timeout_url c)),
      (''ResultURL'', quote (mf_result_url c)), (''Occasion'', quote (take 100 (pr_idempotency_key q)))]"

definition payment_request :: "mpesa_config \<Rightarrow> mpesa_credentials \<Rightarrow> provider_request \<Rightarrow> int \<Rightarrow> string \<Rightarrow> string \<Rightarrow> http_request" where
  "payment_request c cr q amount msisdn access_token =
     \<lparr>ht_method = ''POST'', ht_url = rstrip_slash (mf_base_url c) @ mf_b2c_path c,
      ht_headers = [(''Authorization'', ''Bearer '' @ access_token), (''Accept'', ''application/json''),
        (''Content-Type'', ''application/json'')],
      ht_body = Some (''{'' @ join_comma (map (\<lambda>(k, v). quote k @ '':'' @ v) (payment_payload c cr q amount msisdn)) @ ''}''),
      ht_timeout_seconds = mf_timeout_seconds c\<rparr>"

definition classify_result :: "provider_request \<Rightarrow> int \<Rightarrow> pyval \<Rightarrow> submission_result res" where
  "classify_result q status result =
     rbind (py_str (case pget result ''ResponseCode'' of None \<Rightarrow> PyStr [] | Some v \<Rightarrow> v)) (\<lambda>response_code.
     if 200 \<le> status \<and> status < 300 \<and> response_code = ''0''
     then (case (py_get result ''ConversationID'', py_get result ''OriginatorConversationID'') of
             (PyStr conversation_id, PyStr originator_id) \<Rightarrow>
               if conversation_id = [] \<or> originator_id = [] then Inr (mpesa_unknown ''MPESA_ACCEPTANCE_REFERENCE_MISSING'')
               else rbind (py_str (pr_amount_minor q)) (\<lambda>amount.
                 Inr \<lparr>sv_outcome = OUT_ACCEPTED, sv_code = ''MPESA_ACCEPTED_FOR_PROCESSING'', sv_external_reference = Some conversation_id,
                      sv_rejection_disposition = None,
                      sv_provider_context = [(''amount_minor'', amount), (''originator_conversation_id'', originator_id)]\<rparr>)
           | _ \<Rightarrow> Inr (mpesa_unknown ''MPESA_ACCEPTANCE_REFERENCE_MISSING''))
     else if response_code \<noteq> [] then Inr (mpesa_terminal (''MPESA_REJECTED_'' @ safe_code response_code))
     else Inr (mpesa_unknown (''MPESA_HTTP_'' @ show_int status @ ''_OUTCOME_UNKNOWN'')))"

definition classify_response :: "provider_request \<Rightarrow> http_response \<Rightarrow> submission_result res" where
  "classify_response q response =
     (case json_object response of
        Inl e \<Rightarrow> if exc_isa (exc_of e) ValueError then Inr (mpesa_unknown ''MPESA_RESPONSE_UNPARSEABLE'') else Inl e
      | Inr result \<Rightarrow> classify_result q (hr_status_code response) result)"

definition mpesa_submit ::
  "mpesa_config \<Rightarrow> mpesa_credentials res \<Rightarrow> transport \<Rightarrow> instant \<Rightarrow> provider_request \<Rightarrow> (mpesa_world, submission_result) st" where
  \<comment> \<open>\<open>now\<close> is the time the token provider reads\<close>
  "mpesa_submit c credentials tr now q =
     sbind (slift (precheck_request q)) (\<lambda>checked.
     case checked of
       Refused result \<Rightarrow> sret result
     | Payable amount msisdn \<Rightarrow> \<lambda>w.
         (case sbind (slift credentials) (\<lambda>cr. sbind (oauth_token c credentials tr now) (\<lambda>token. sret (cr, token))) w of
            (Inl e, w') \<Rightarrow> (Inr auth_unavailable, w')
          | (Inr (cr, access_token), w') \<Rightarrow>
              if \<not> shortcode_form (mc_business_shortcode cr) then (Inr (mpesa_terminal ''MPESA_SHORTCODE_INVALID''), w')
              else sbind (send_request tr (payment_request c cr q amount msisdn access_token)) (\<lambda>response.
                   slift (classify_response q response)) w'))"

end
