(* ===== verification/Mpesa_Properties.thy ===== *)
theory Mpesa_Properties
  imports Mpesa_Adapter
begin

text \<open>
  What the M-PESA adapter guarantees about money: when a payment request is sent, what it asks for, and that
  the outcome it reports allows a retry only if no payment was requested.
\<close>

section \<open>Tokens send no payment\<close>

definition payments :: "http_request list \<Rightarrow> http_request list" where
  "payments = filter (\<lambda>r. ht_method r = ''POST'')"

lemma oauth_fetch:
  assumes "sbind (slift credentials) (\<lambda>cr. sbind (send_request tr (oauth_request c cr)) (\<lambda>response.
      sbind (slift (granted_token response)) (\<lambda>(token, expires_in). \<lambda>w.
      (Inr token, w\<lparr>mw_cached := Some (token, instant + usec expires_in)\<rparr>)))) w = (x, w')"
  shows "mw_requests w' = mw_requests w \<or> (\<exists>cr. credentials = Inr cr \<and> mw_requests w' = mw_requests w @ [oauth_request c cr])"
  using assms by (cases credentials)
    (auto simp: sbind_def slift_def send_request_def split: sum.splits prod.splits)

lemma oauth_sends:
  assumes "oauth_token c credentials tr instant w = (x, w')"
  shows "mw_requests w' = mw_requests w \<or> (\<exists>cr. credentials = Inr cr \<and> mw_requests w' = mw_requests w @ [oauth_request c cr])"
proof (cases "mw_cached w")
  case None
  then show ?thesis using assms oauth_fetch by (simp add: oauth_token_def)
next
  case (Some te)
  then show ?thesis using assms oauth_fetch by (cases te) (auto simp: oauth_token_def split: if_splits)
qed

lemma oauth_not_payment [simp]: "payments [oauth_request c cr] = []" "payments [payment_request c cr q a m t] = [payment_request c cr q a m t]"
  "payments [] = []" "payments (xs @ ys) = payments xs @ payments ys"
  by (simp_all add: payments_def oauth_request_def payment_request_def)

definition login :: "mpesa_config \<Rightarrow> mpesa_credentials res \<Rightarrow> transport \<Rightarrow> instant \<Rightarrow> (mpesa_world, mpesa_credentials \<times> string) st" where
  "login c credentials tr now = sbind (slift credentials) (\<lambda>cr. sbind (oauth_token c credentials tr now) (\<lambda>token. sret (cr, token)))"

lemma login_sends:
  assumes "login c credentials tr now w = (x, w')"
  obtains sent where "mw_requests w' = mw_requests w @ sent" "payments sent = []" "\<forall>cr t. x = Inr (cr, t) \<longrightarrow> credentials = Inr cr"
proof (cases credentials)
  case (Inl e)
  then show thesis using assms that [of "[]"] by (auto simp: login_def sbind_def slift_def)
next
  case (Inr cr)
  obtain y v where o: "oauth_token c credentials tr now w = (y, v)" by fastforce
  have "w' = v \<and> (\<forall>cr' t. x = Inr (cr', t) \<longrightarrow> cr' = cr)"
    using assms o Inr by (cases y) (auto simp: login_def sbind_def slift_def sret_def)
  with oauth_sends [OF o] show thesis using that [of "[]"] that [of "[oauth_request c cr]"] Inr by auto
qed

section \<open>The submission by cases\<close>

lemma mpesa_submit_unfold:
  "mpesa_submit c credentials tr now q w =
     (case precheck_request q of
        Inl e \<Rightarrow> (Inl e, w)
      | Inr (Refused result) \<Rightarrow> (Inr result, w)
      | Inr (Payable amount msisdn) \<Rightarrow>
         (case login c credentials tr now w of
            (Inl e, w') \<Rightarrow> (Inr auth_unavailable, w')
          | (Inr (cr, access_token), w') \<Rightarrow>
              if \<not> shortcode_form (mc_business_shortcode cr) then (Inr (mpesa_terminal ''MPESA_SHORTCODE_INVALID''), w')
              else sbind (send_request tr (payment_request c cr q amount msisdn access_token)) (\<lambda>response.
                   slift (classify_response q response)) w'))"
  by (cases "precheck_request q") (simp_all add: mpesa_submit_def login_def sbind_def slift_def sret_def split: precheck.splits)

lemma precheckD:
  assumes "precheck_request q = Inr (Payable amount msisdn)"
  shows "pr_provider_id q = mpesa_provider" "pr_rail q = PyStr ''MOBILE_MONEY''" "pr_currency_from q = PyStr ''KES''" "pr_currency_to q = PyStr ''KES''"
    "pr_amount_minor q = PyInt (100 * amount)" "pr_receive_amount_minor q = PyInt (100 * amount)" "0 < amount"
    "msisdn = strip (pr_beneficiary_account_reference q)" "msisdn_form msisdn"
proof -
  have s: "pr_provider_id q = mpesa_provider" by (rule ccontr) (use assms in \<open>simp add: precheck_request_def\<close>)
  have t: "pr_rail q = PyStr ''MOBILE_MONEY''" by (rule ccontr) (use assms s in \<open>simp add: precheck_request_def\<close>)
  have u: "pr_currency_from q = PyStr ''KES''" by (rule ccontr) (use assms s t in \<open>simp add: precheck_request_def\<close>)
  have v: "pr_currency_to q = PyStr ''KES''" by (rule ccontr) (use assms s t u in \<open>simp add: precheck_request_def\<close>)
  have r: "pr_receive_amount_minor q = pr_amount_minor q"
  proof (rule ccontr)
    assume "pr_receive_amount_minor q \<noteq> pr_amount_minor q"
    then have "precheck_request q = Inr (Refused (mpesa_terminal ''MPESA_DOMESTIC_AMOUNT_MISMATCH''))"
      by (simp add: precheck_request_def s t u v)
    then show False using assms by simp
  qed
  show "pr_provider_id q = mpesa_provider" "pr_rail q = PyStr ''MOBILE_MONEY''" "pr_currency_from q = PyStr ''KES''" "pr_currency_to q = PyStr ''KES''"
    by (fact s t u v)+
  have k: "rbind (amount_int (pr_amount_minor q)) (\<lambda>minor.
        if minor mod 100 \<noteq> 0 \<or> minor div 100 \<le> 0 then Inr (Refused (mpesa_terminal ''MPESA_WHOLE_KES_REQUIRED''))
        else if \<not> msisdn_form (strip (pr_beneficiary_account_reference q)) then Inr (Refused (mpesa_terminal ''MPESA_BENEFICIARY_MSISDN_INVALID''))
        else Inr (Payable (minor div 100) (strip (pr_beneficiary_account_reference q)))) = Inr (Payable amount msisdn)"
    using assms unfolding precheck_request_def Let_def by (simp only: s t u v r simp_thms if_False)
  from k obtain minor where mi: "amount_int (pr_amount_minor q) = Inr minor" "minor mod 100 = 0" "amount = minor div 100" "0 < amount"
    "msisdn = strip (pr_beneficiary_account_reference q)" "msisdn_form msisdn" by (auto simp: rbind_eq_Inr split: if_splits)
  have "minor = 100 * amount" using mult_div_mod_eq [of 100 minor] unfolding mi(2,3) by simp
  moreover have "pr_amount_minor q = PyInt minor"
    using mi(1,3,4) by (cases "pr_amount_minor q") (auto simp: amount_int_def split: if_splits)
  ultimately show "pr_amount_minor q = PyInt (100 * amount)" "pr_receive_amount_minor q = PyInt (100 * amount)" using r by simp_all
  show "0 < amount" "msisdn = strip (pr_beneficiary_account_reference q)" "msisdn_form msisdn" by (fact mi)+
qed

lemma refusedD: "precheck_request q = Inr (Refused v) \<Longrightarrow> sv_outcome v = OUT_REJECTED \<and> sv_rejection_disposition v = Some REJ_TERMINAL"
  unfolding precheck_request_def by (auto simp: Let_def rbind_eq_Inr mpesa_terminal_def split: if_splits)

lemma mpesa_submit_cases:
  assumes "mpesa_submit c credentials tr now q w = (x, w')"
  obtains (unsent) sent where "mw_requests w' = mw_requests w @ sent" "payments sent = []"
      "(\<exists>e. x = Inl e) \<or> (\<exists>v. x = Inr v \<and> sv_outcome v = OUT_REJECTED)"
  | (sent) before cr amount msisdn token y where "payments before = []" "credentials = Inr cr" "precheck_request q = Inr (Payable amount msisdn)"
      "mw_requests w' = mw_requests w @ before @ [payment_request c cr q amount msisdn token]"
      "tr (mw_requests w @ before) (payment_request c cr q amount msisdn token) = y" "x = rbind y (classify_response q)"
proof (cases "precheck_request q")
  case (Inl e)
  then show thesis using assms unsent [of "[]"] by (auto simp: mpesa_submit_unfold)
next
  case (Inr checked)
  show thesis
  proof (cases checked)
    case (Refused v)
    then show thesis using assms Inr unsent [of "[]"] refusedD [of q v] by (auto simp: mpesa_submit_unfold)
  next
    case (Payable amount msisdn)
    obtain z u where l: "login c credentials tr now w = (z, u)" by fastforce
    obtain before where b: "mw_requests u = mw_requests w @ before" "payments before = []" "\<forall>cr t. z = Inr (cr, t) \<longrightarrow> credentials = Inr cr"
      using l by (rule login_sends)
    show thesis
    proof (cases "\<exists>cr t. z = Inr (cr, t) \<and> shortcode_form (mc_business_shortcode cr)")
      case True
      then obtain cr t where z: "z = Inr (cr, t)" "shortcode_form (mc_business_shortcode cr)" by blast
      let ?p = "payment_request c cr q amount msisdn t"
      have "x = rbind (tr (mw_requests u) ?p) (classify_response q) \<and> w' = u\<lparr>mw_requests := mw_requests u @ [?p]\<rparr>"
        using assms Inr Payable l z by (cases "tr (mw_requests u) ?p")
          (auto simp: mpesa_submit_unfold sbind_def slift_def send_request_def)
      then show thesis using sent [of before cr amount msisdn t] b z(1) Inr Payable by simp
    next
      case False
      then have "w' = u \<and> (\<exists>v. x = Inr v \<and> sv_outcome v = OUT_REJECTED)"
        using assms Inr Payable l by (cases z) (auto simp: mpesa_submit_unfold auth_unavailable_def mpesa_terminal_def split: if_splits)
      then show thesis using unsent [of before] b by auto
    qed
  qed
qed

definition response_code :: "http_response \<Rightarrow> string \<Rightarrow> bool" where
  \<comment> \<open>the response is a JSON object with this response code\<close>
  "response_code response code \<longleftrightarrow> (\<exists>result t. json_object response = Inr result \<and> pget result ''ResponseCode'' = Some t \<and> py_str t = Inr code)"

lemma classifyD:
  assumes "classify_response q response = Inr v"
  shows "sv_rejection_disposition v \<noteq> Some REJ_RETRYABLE"
    "sv_outcome v = OUT_ACCEPTED \<Longrightarrow> \<exists>conv orig amount. response_code response ''0'' \<and> 200 \<le> hr_status_code response \<and> hr_status_code response < 300
       \<and> conv \<noteq> [] \<and> orig \<noteq> [] \<and> py_str (pr_amount_minor q) = Inr amount
       \<and> v = \<lparr>sv_outcome = OUT_ACCEPTED, sv_code = ''MPESA_ACCEPTED_FOR_PROCESSING'', sv_external_reference = Some conv,
              sv_rejection_disposition = None, sv_provider_context = [(''amount_minor'', amount), (''originator_conversation_id'', orig)]\<rparr>"
    "sv_outcome v = OUT_REJECTED \<Longrightarrow> \<exists>code. response_code response code \<and> code \<noteq> []"
proof -
  consider (bad) code where "v = mpesa_unknown code"
    | (rejected) code where "v = mpesa_terminal (''MPESA_REJECTED_'' @ safe_code code)" "response_code response code" "code \<noteq> []"
    | (accepted) conv orig amount where "response_code response ''0''" "200 \<le> hr_status_code response" "hr_status_code response < 300"
        "conv \<noteq> []" "orig \<noteq> []" "py_str (pr_amount_minor q) = Inr amount"
        "v = \<lparr>sv_outcome = OUT_ACCEPTED, sv_code = ''MPESA_ACCEPTED_FOR_PROCESSING'', sv_external_reference = Some conv,
              sv_rejection_disposition = None, sv_provider_context = [(''amount_minor'', amount), (''originator_conversation_id'', orig)]\<rparr>"
  proof (cases "json_object response")
    case (Inl e)
    then show thesis using bad assms by (auto simp: classify_response_def split: if_splits)
  next
    case (Inr result)
    then obtain code where code: "py_str (case pget result ''ResponseCode'' of None \<Rightarrow> PyStr [] | Some v \<Rightarrow> v) = Inr code"
      using assms by (auto simp: classify_response_def classify_result_def rbind_eq_Inr)
    have r: "response_code response code" if "code \<noteq> []"
      using that code Inr unfolding response_code_def by (cases "pget result ''ResponseCode''") (auto simp: py_str_def)
    have v: "classify_result q (hr_status_code response) result = Inr v" using assms Inr by (simp add: classify_response_def)
    show thesis
    proof (cases "200 \<le> hr_status_code response \<and> hr_status_code response < 300 \<and> code = ''0''")
      case True
      then show thesis using v code r bad accepted unfolding classify_result_def
        by (auto simp: rbind_eq_Inr split: pyval.splits if_splits)
    next
      case False
      then show thesis using v code r bad rejected unfolding classify_result_def by (auto split: if_splits)
    qed
  qed
  note c = this
  show "sv_rejection_disposition v \<noteq> Some REJ_RETRYABLE"
    using c by cases (simp_all add: mpesa_unknown_def mpesa_terminal_def)
  show "sv_outcome v = OUT_ACCEPTED \<Longrightarrow> \<exists>conv orig amount. response_code response ''0'' \<and> 200 \<le> hr_status_code response \<and> hr_status_code response < 300
       \<and> conv \<noteq> [] \<and> orig \<noteq> [] \<and> py_str (pr_amount_minor q) = Inr amount
       \<and> v = \<lparr>sv_outcome = OUT_ACCEPTED, sv_code = ''MPESA_ACCEPTED_FOR_PROCESSING'', sv_external_reference = Some conv,
              sv_rejection_disposition = None, sv_provider_context = [(''amount_minor'', amount), (''originator_conversation_id'', orig)]\<rparr>"
    using c by cases (auto simp: mpesa_unknown_def mpesa_terminal_def)
  show "sv_outcome v = OUT_REJECTED \<Longrightarrow> \<exists>code. response_code response code \<and> code \<noteq> []"
    using c by cases (auto simp: mpesa_unknown_def)
qed

section \<open>Properties\<close>

text \<open>
  C28. A retry never follows a payment request.  One submission sends at most one payment request, its last request,
  and only for a valid instruction: whole shillings, KES to KES, the same amount on both sides, a Kenyan mobile
  number, with the provider amount a hundredth of the instructed one.  If none was sent the result is a rejection
  or an exception; if one was sent, the result is never a retryable rejection, it is an acceptance only for a
  2xx response with code 0 and both references, and a rejection only for a response with an explicit code.\<close>

theorem mpesa_payment_safe:
  assumes "mpesa_submit c credentials tr now q w = (x, w')"
  shows "\<exists>before paid. mw_requests w' = mw_requests w @ before @ paid \<and> payments before = []
    \<and> (paid = [] \<longrightarrow> (\<exists>e. x = Inl e) \<or> (\<exists>v. x = Inr v \<and> sv_outcome v = OUT_REJECTED))
    \<and> (paid \<noteq> [] \<longrightarrow> (\<exists>cr token amount.
         paid = [payment_request c cr q amount (strip (pr_beneficiary_account_reference q)) token] \<and> credentials = Inr cr
       \<and> pr_provider_id q = mpesa_provider \<and> pr_rail q = PyStr ''MOBILE_MONEY''
       \<and> pr_currency_from q = PyStr ''KES'' \<and> pr_currency_to q = PyStr ''KES'' \<and> msisdn_form (strip (pr_beneficiary_account_reference q))
       \<and> 0 < amount \<and> pr_amount_minor q = PyInt (100 * amount) \<and> pr_receive_amount_minor q = PyInt (100 * amount)
       \<and> (\<forall>v. x = Inr v \<longrightarrow> (\<exists>response. tr (mw_requests w @ before) (hd paid) = Inr response
            \<and> sv_rejection_disposition v \<noteq> Some REJ_RETRYABLE
            \<and> (sv_outcome v = OUT_ACCEPTED \<longrightarrow> response_code response ''0'' \<and> 200 \<le> hr_status_code response \<and> hr_status_code response < 300
                 \<and> sv_external_reference v \<noteq> None)
            \<and> (sv_outcome v = OUT_REJECTED \<longrightarrow> (\<exists>code. response_code response code \<and> code \<noteq> []))))))"
  using assms
proof (cases rule: mpesa_submit_cases)
  case (unsent sent)
  then show ?thesis by (intro exI [of _ sent] exI [of _ "[]"]) auto
next
  case (sent before cr amount msisdn token y)
  let ?p = "payment_request c cr q amount msisdn token"
  note p = precheckD [OF sent(3)]
  have "\<exists>response. tr (mw_requests w @ before) ?p = Inr response \<and> sv_rejection_disposition v \<noteq> Some REJ_RETRYABLE
      \<and> (sv_outcome v = OUT_ACCEPTED \<longrightarrow> response_code response ''0'' \<and> 200 \<le> hr_status_code response \<and> hr_status_code response < 300
           \<and> sv_external_reference v \<noteq> None)
      \<and> (sv_outcome v = OUT_REJECTED \<longrightarrow> (\<exists>code. response_code response code \<and> code \<noteq> []))" if x: "x = Inr v" for v
  proof -
    obtain response where "y = Inr response" and c: "classify_response q response = Inr v"
      using sent(6) x by (cases y) auto
    then show ?thesis using sent(5) classifyD [OF c] by auto
  qed
  then show ?thesis using p sent(1,2,4)
    by (intro exI [of _ before] exI [of _ "[?p]"]) auto
qed

text \<open>
  C32. A callback confirms exactly the payment that was sent.  When the adapter reports an acceptance and the
  coordinator records it, the evidence of a success callback is accepted if and only if it names a transaction,
  its receipt agrees, and its amount is the amount of the payment request that was sent; and the originator
  identifier it is correlated with is the provider's.\<close>

theorem mpesa_callback_matches:
  assumes "mpesa_submit c credentials tr now q w = (Inr v, w')" "sv_outcome v = OUT_ACCEPTED"
    and "completed P ks svc r v at = Inr (r', event)"
  shows "\<exists>cr token amount originator.
      last (mw_requests w') = payment_request c cr q amount (strip (pr_beneficiary_account_reference q)) token
    \<and> pr_amount_minor q = PyInt (100 * amount) \<and> sb_external_reference r' = sv_external_reference v
    \<and> dict_get (submission_context r') ''originator_conversation_id'' = Some originator
    \<and> (verify_success_evidence n (submission_context r') = Inr () \<longleftrightarrow>
         (\<exists>t. mp_transaction_id n = Some t \<and> t \<noteq> [] \<and> callback_amount n = Some amount
            \<and> (dict_get (mp_parameters n) ''TransactionReceipt'' = None \<or> dict_get (mp_parameters n) ''TransactionReceipt'' = Some (PyStr t))))"
  using assms(1)
proof (cases rule: mpesa_submit_cases)
  case (unsent sent)
  then show ?thesis using assms(2) by simp
next
  case (sent before cr amount msisdn token y)
  note p = precheckD [OF sent(3)]
  obtain response where c: "classify_response q response = Inr v" using sent(6) by (cases y) auto
  obtain conv orig where v: "v = \<lparr>sv_outcome = OUT_ACCEPTED, sv_code = ''MPESA_ACCEPTED_FOR_PROCESSING'', sv_external_reference = Some conv,
      sv_rejection_disposition = None, sv_provider_context = [(''amount_minor'', show_int (100 * amount)), (''originator_conversation_id'', orig)]\<rparr>"
    using classifyD(2) [OF c assms(2)] p(5) by (auto simp: py_str_def)
  let ?ctx = "[(''amount_minor'', show_int (100 * amount)), (''originator_conversation_id'', orig)]"
  have r': "sb_provider_context r' = ?ctx" "sb_external_reference r' = Some conv"
    using assms(3) unfolding completed_def Let_def by (auto simp: v rbind_eq_Inr provider_context_def)
  have ctx: "dict_get (submission_context r') ''amount_minor'' = Some (show_int (100 * amount))"
    "dict_get (submission_context r') ''originator_conversation_id'' = Some orig"
    by (simp_all add: submission_context_def r')
  have digits: "digits_only (show_int (100 * amount))" "int (value_of_digits (show_int (100 * amount))) = 100 * amount"
    using p(7) by (simp_all add: digits_only_def show_int_def show_nat_digits)
  have "verify_success_evidence n (submission_context r') = Inr () \<longleftrightarrow>
         (\<exists>t. mp_transaction_id n = Some t \<and> t \<noteq> [] \<and> callback_amount n = Some amount
            \<and> (dict_get (mp_parameters n) ''TransactionReceipt'' = None \<or> dict_get (mp_parameters n) ''TransactionReceipt'' = Some (PyStr t)))"
    unfolding verify_success_evidence_def ctx by (auto simp: digits split: option.splits)
  then show ?thesis using sent(4) ctx(2) r'(2) p(5,8) by (auto simp: v)
qed

end
