(* ===== verification/Mpesa_Run.thy ===== *)
theory Mpesa_Run
  imports Mpesa_Properties
begin

text \<open>A payment of seven shillings through the adapter: the hypotheses of its properties are met by a concrete run.\<close>

definition pay_config :: mpesa_config where
  "pay_config = \<lparr>mf_base_url = ''https://m/'', mf_oauth_path = ''/oauth'', mf_b2c_path = ''/b2c'', mf_result_url = ''https://r'',
     mf_timeout_url = ''https://t'', mf_command_id = ''BusinessPayment'', mf_timeout_seconds = 15\<rparr>"

definition pay_credentials :: mpesa_credentials where
  "pay_credentials = \<lparr>mc_consumer_key = ''k'', mc_consumer_secret = ''s'', mc_initiator_name = ''i'', mc_security_credential = ''c'',
     mc_business_shortcode = ''600000''\<rparr>"

definition pay_request :: provider_request where
  "pay_request = \<lparr>pr_idempotency_key = ''K'', pr_request_sha256 = [], pr_utt_id = ''U'', pr_rtt_id = ''R'', pr_attempt_number = 1,
     pr_provider_id = ''MPESA-KE'', pr_adapter_binding_ref = PyNone, pr_rail = PyStr ''MOBILE_MONEY'', pr_amount_minor = PyInt 700,
     pr_currency_from = PyStr ''KES'', pr_receive_amount_minor = PyInt 700, pr_currency_to = PyStr ''KES'', pr_source_institution_id = ''A'',
     pr_destination_institution_id = ''B'', pr_payer_account_reference = ''p'', pr_beneficiary_account_reference = ''254712345678''\<rparr>"

definition oauth_answer :: http_response where
  "oauth_answer = \<lparr>hr_status_code = 200, hr_body = flat (canon (obj [(''access_token'', PyStr ''T'')]))\<rparr>"

definition payment_answer :: http_response where
  "payment_answer = \<lparr>hr_status_code = 200, hr_body = flat (canon (obj [(''ConversationID'', PyStr ''C''), (''OriginatorConversationID'', PyStr ''O''),
     (''ResponseCode'', PyStr ''0'')]))\<rparr>"

definition pay_transport :: transport where
  "pay_transport sent q = Inr (if ht_method q = ''GET'' then oauth_answer else payment_answer)"

definition pay_accepted :: submission_result where
  "pay_accepted = \<lparr>sv_outcome = OUT_ACCEPTED, sv_code = ''MPESA_ACCEPTED_FOR_PROCESSING'', sv_external_reference = Some ''C'',
     sv_rejection_disposition = None, sv_provider_context = [(''amount_minor'', ''700''), (''originator_conversation_id'', ''O'')]\<rparr>"

definition pay_world :: mpesa_world where
  "pay_world = \<lparr>mw_cached = None, mw_requests = []\<rparr>"

definition pay_done :: mpesa_world where
  "pay_done = \<lparr>mw_cached = Some (''T'', usec 3599), mw_requests = [oauth_request pay_config pay_credentials,
     payment_request pay_config pay_credentials pay_request 7 ''254712345678'' ''T'']\<rparr>"

lemma pay_objects: "json_object oauth_answer = Inr (obj [(''access_token'', PyStr ''T'')])"
  "json_object payment_answer = Inr (obj [(''ConversationID'', PyStr ''C''), (''OriginatorConversationID'', PyStr ''O''), (''ResponseCode'', PyStr ''0'')])"
proof -
  have "keys_ok (canon (obj [(''access_token'', PyStr ''T'')]))"
    "keys_ok (canon (obj [(''ConversationID'', PyStr ''C''), (''OriginatorConversationID'', PyStr ''O''), (''ResponseCode'', PyStr ''0'')]))" by code_simp+
  then show "json_object oauth_answer = Inr (obj [(''access_token'', PyStr ''T'')])"
    "json_object payment_answer = Inr (obj [(''ConversationID'', PyStr ''C''), (''OriginatorConversationID'', PyStr ''O''), (''ResponseCode'', PyStr ''0'')])"
    unfolding json_object_def oauth_answer_def payment_answer_def by (simp_all add: loads_flat, simp_all add: obj_def)
qed

lemma pay_token: "granted_token oauth_answer = Inr (''T'', 3599)"
  by (simp add: granted_token_def pay_objects) (simp add: oauth_answer_def obj_def py_get_def pget_def expiry_seconds_def py_int_def)

lemma pay_amount: "show_int 700 = ''700''"
  by code_simp

lemma pay_classified: "classify_response pay_request payment_answer = Inr pay_accepted"
  by (simp add: classify_response_def pay_objects classify_result_def)
    (simp add: payment_answer_def obj_def py_get_def pget_def py_str_def pay_request_def pay_accepted_def pay_amount)

lemma pay_checked: "precheck_request pay_request = Inr (Payable 7 ''254712345678'')"
  by code_simp

lemma pay_run: "mpesa_submit pay_config (Inr pay_credentials) pay_transport 0 pay_request pay_world = (Inr pay_accepted, pay_done)"
proof -
  have g: "ht_method (oauth_request pay_config pay_credentials) = ''GET''"
    "ht_method (payment_request pay_config pay_credentials pay_request 7 ''254712345678'' ''T'') = ''POST''"
    by (simp_all add: oauth_request_def payment_request_def)
  have "login pay_config (Inr pay_credentials) pay_transport 0 pay_world = (Inr (pay_credentials, ''T''),
      \<lparr>mw_cached = Some (''T'', usec 3599), mw_requests = [oauth_request pay_config pay_credentials]\<rparr>)"
    by (simp add: login_def sbind_def slift_def sret_def oauth_token_def pay_world_def send_request_def pay_transport_def g pay_token)
  moreover have "shortcode_form (mc_business_shortcode pay_credentials)" by code_simp
  ultimately show ?thesis
    by (simp add: mpesa_submit_unfold pay_checked sbind_def slift_def send_request_def pay_transport_def g pay_classified pay_done_def)
qed

theorem mpesa_payment_safe_witness:
  "mpesa_submit pay_config (Inr pay_credentials) pay_transport 0 pay_request pay_world = (Inr pay_accepted, pay_done)
   \<and> (\<exists>before paid. mw_requests pay_done = mw_requests pay_world @ before @ paid \<and> payments before = [] \<and> length paid = 1)"
proof -
  from mpesa_payment_safe [OF pay_run] obtain before paid where b: "mw_requests pay_done = mw_requests pay_world @ before @ paid" "payments before = []"
    and e: "paid = [] \<Longrightarrow> (\<exists>e. Inr pay_accepted = Inl e) \<or> (\<exists>v. Inr pay_accepted = Inr v \<and> sv_outcome v = OUT_REJECTED)"
    and p: "paid \<noteq> [] \<Longrightarrow> \<exists>x. paid = [x]" by blast
  have "paid \<noteq> []" using e by (auto simp: pay_accepted_def)
  then show ?thesis using b p pay_run by (metis length_0_conv length_Suc_conv One_nat_def)
qed

definition pay_record :: submission_record where
  "pay_record = \<lparr>sb_submission_id = ''S'', sb_idempotency_key = ''K'', sb_request_sha256 = [], sb_utt_id = ''U'', sb_rtt_id = ''R'',
     sb_provider_id = ''MPESA-KE'', sb_state = SUB_DISPATCHING, sb_dispatch_attempts = 1, sb_normalized_code = None, sb_external_reference = None,
     sb_rejection_disposition = None, sb_provider_context = [], sb_version = 2, sb_created_at = 0, sb_updated_at = 0\<rparr>"

definition pay_service :: submission_service where
  "pay_service = \<lparr>ss_resolve = (\<lambda>_ _. Inr []), ss_event_signing_key_id = ''ke''\<rparr>"

definition pay_callback :: mpesa_result where
  "pay_callback = \<lparr>mp_conversation_id = ''C'', mp_originator_conversation_id = ''O'', mp_transaction_id = Some ''X'', mp_result_code = 0,
     mp_result_description = [], mp_parameters = [(''TransactionAmount'', PyInt 7)]\<rparr>"

lemma pay_completed: obtains r' event where "completed demo_platform demo_keys pay_service pay_record pay_accepted 0 = Inr (r', event)"
proof -
  have k: "can_sign demo_platform demo_keys (ss_event_signing_key_id pay_service) EXECUTION_SIGNING 0"
    by (simp add: can_sign_def pay_service_def permits_signing_at_def demo_key_def from_epoch_def)
  have c: "provider_context (sv_provider_context pay_accepted) = Inr (sv_provider_context pay_accepted)"
    "require_text ''provider result code'' (sv_code pay_accepted) = Inr (sv_code pay_accepted)" by code_simp+
  have d: "plain (result_data pay_accepted (upper (sv_code pay_accepted)) (sv_provider_context pay_accepted))"
    by (simp add: pay_accepted_def result_data_def plain_obj opt_str_def)
  have st: "outcome_state pay_accepted = Inr (SUB_ACCEPTED, ''PROVIDER_SUBMISSION_ACCEPTED'')" by (simp add: outcome_state_def pay_accepted_def)
  show thesis using submission_event_ok [OF k d] that unfolding completed_def c st Let_def by (auto simp: rbind_eq_Inr Let_def)
qed

theorem mpesa_callback_matches_witness:
  "\<exists>r' event. completed demo_platform demo_keys pay_service pay_record pay_accepted 0 = Inr (r', event)
     \<and> verify_success_evidence pay_callback (submission_context r') = Inr ()"
proof -
  obtain r' event where d: "completed demo_platform demo_keys pay_service pay_record pay_accepted 0 = Inr (r', event)" by (rule pay_completed)
  have a: "sv_outcome pay_accepted = OUT_ACCEPTED" by (simp add: pay_accepted_def)
  obtain amount where m: "pr_amount_minor pay_request = PyInt (100 * amount)"
    and e: "verify_success_evidence pay_callback (submission_context r') = Inr () \<longleftrightarrow>
         (\<exists>t. mp_transaction_id pay_callback = Some t \<and> t \<noteq> [] \<and> callback_amount pay_callback = Some amount
            \<and> (dict_get (mp_parameters pay_callback) ''TransactionReceipt'' = None \<or> dict_get (mp_parameters pay_callback) ''TransactionReceipt'' = Some (PyStr t)))"
    using mpesa_callback_matches [OF pay_run a d, of pay_callback] by blast
  have "amount = 7" using m by (simp add: pay_request_def)
  then show ?thesis using d e by (auto simp: pay_callback_def callback_amount_def)
qed

end
