(* ===== verification/Institution.thy ===== *)
theory Institution
  imports Provider_Submission Projection
begin

text \<open>
  Institution adapters (\<^verbatim>\<open>railone_institutions/models.py\<close>, \<^verbatim>\<open>manifest.py\<close>): descriptors, capability manifests and
  their signatures.  An aware \<^verbatim>\<open>datetime\<close> is an instant; \<^verbatim>\<open>isoformat\<close> is written out with the calendar of
  the standard library, for the years 1 to 9999 it can represent.
\<close>

section \<open>Enumerations\<close>

datatype adapter_environment = ENV_SANDBOX | ENV_PILOT | ENV_PRODUCTION
datatype transport_kind = TR_HTTPS | TR_MESSAGE_QUEUE | TR_SFTP | TR_ISO_GATEWAY
datatype message_standard = STD_JSON | STD_ISO20022 | STD_PROPRIETARY
datatype auth_profile = AUTH_SIMULATION | AUTH_MTLS | AUTH_OAUTH2_MTLS | AUTH_OAUTH2_CLIENT_CREDENTIALS | AUTH_FAPI2_MTLS | AUTH_DPOP | AUTH_HMAC
datatype institution_operation = IOP_SUBMIT | IOP_STATUS_QUERY | IOP_RECONCILE | IOP_CALLBACK
datatype institution_outcome = ACCEPTED_FOR_PROCESSING | REJECTED_RETRYABLE | REJECTED_TERMINAL | OUTCOME_UNKNOWN | IO_PENDING
  | CONFIRMED_SUCCESS | CONFIRMED_FAILURE | RECONCILIATION_REQUIRED
datatype finality_level = FIN_NONE | FIN_PROCESSING | FIN_DEBIT_CONFIRMED | FIN_CREDIT_CONFIRMED | FIN_SETTLED
datatype certification_status = CERT_DRAFT | CERT_CONFORMANCE | CERT_CERTIFIED | CERT_SUSPENDED

fun environment_value :: "adapter_environment \<Rightarrow> string" where
  "environment_value ENV_SANDBOX = ''SANDBOX''"
| "environment_value ENV_PILOT = ''PILOT''"
| "environment_value ENV_PRODUCTION = ''PRODUCTION''"

fun transport_value :: "transport_kind \<Rightarrow> string" where
  "transport_value TR_HTTPS = ''HTTPS''"
| "transport_value TR_MESSAGE_QUEUE = ''MESSAGE_QUEUE''"
| "transport_value TR_SFTP = ''SFTP''"
| "transport_value TR_ISO_GATEWAY = ''ISO_GATEWAY''"

fun standard_value :: "message_standard \<Rightarrow> string" where
  "standard_value STD_JSON = ''JSON''"
| "standard_value STD_ISO20022 = ''ISO20022''"
| "standard_value STD_PROPRIETARY = ''PROPRIETARY''"

fun auth_value :: "auth_profile \<Rightarrow> string" where
  "auth_value AUTH_SIMULATION = ''SIMULATION''"
| "auth_value AUTH_MTLS = ''MTLS''"
| "auth_value AUTH_OAUTH2_MTLS = ''OAUTH2_MTLS''"
| "auth_value AUTH_OAUTH2_CLIENT_CREDENTIALS = ''OAUTH2_CLIENT_CREDENTIALS''"
| "auth_value AUTH_FAPI2_MTLS = ''FAPI2_MTLS''"
| "auth_value AUTH_DPOP = ''DPOP''"
| "auth_value AUTH_HMAC = ''HMAC''"

fun operation_value :: "institution_operation \<Rightarrow> string" where
  "operation_value IOP_SUBMIT = ''SUBMIT''"
| "operation_value IOP_STATUS_QUERY = ''STATUS_QUERY''"
| "operation_value IOP_RECONCILE = ''RECONCILE''"
| "operation_value IOP_CALLBACK = ''CALLBACK''"

fun finality_int :: "finality_level \<Rightarrow> int" where
  "finality_int FIN_NONE = 0"
| "finality_int FIN_PROCESSING = 1"
| "finality_int FIN_DEBIT_CONFIRMED = 2"
| "finality_int FIN_CREDIT_CONFIRMED = 3"
| "finality_int FIN_SETTLED = 4"

fun finality_name :: "finality_level \<Rightarrow> string" where
  "finality_name FIN_NONE = ''NONE''"
| "finality_name FIN_PROCESSING = ''PROCESSING''"
| "finality_name FIN_DEBIT_CONFIRMED = ''DEBIT_CONFIRMED''"
| "finality_name FIN_CREDIT_CONFIRMED = ''CREDIT_CONFIRMED''"
| "finality_name FIN_SETTLED = ''SETTLED''"

fun certification_value :: "certification_status \<Rightarrow> string" where
  "certification_value CERT_DRAFT = ''DRAFT''"
| "certification_value CERT_CONFORMANCE = ''CONFORMANCE''"
| "certification_value CERT_CERTIFIED = ''CERTIFIED''"
| "certification_value CERT_SUSPENDED = ''SUSPENDED''"

section \<open>Descriptors\<close>

definition is_alnum :: "char \<Rightarrow> bool" where
  \<comment> \<open>\<^verbatim>\<open>[A-Za-z0-9]\<close>\<close>
  "is_alnum c \<longleftrightarrow> is_letter c \<or> is_digit c"

definition identifier_form :: "string \<Rightarrow> bool" where
  \<comment> \<open>\<^verbatim>\<open>[A-Za-z0-9][A-Za-z0-9._:-]{1,127}\<close>\<close>
  "identifier_form s \<longleftrightarrow> 2 \<le> length s \<and> length s \<le> 128 \<and> is_alnum (hd s)
     \<and> list_all (\<lambda>c. is_alnum c \<or> c \<in> set ''._:-'') (tl s)"

definition semver_number :: "string \<Rightarrow> string option" where
  \<comment> \<open>what follows a number without leading zeros\<close>
  "semver_number s =
     (case takeWhile is_digit s of
        [] \<Rightarrow> None
      | d # ds \<Rightarrow> if d = CHR ''0'' \<and> ds \<noteq> [] then None else Some (dropWhile is_digit s))"

definition semver_dot :: "string \<Rightarrow> string option" where
  "semver_dot s = (case semver_number s of Some (c # r) \<Rightarrow> if c = CHR ''.'' then Some r else None | _ \<Rightarrow> None)"

definition semver_form :: "string \<Rightarrow> bool" where
  \<comment> \<open>\<^verbatim>\<open>(0|[1-9]\d*)\.(0|[1-9]\d*)\.(0|[1-9]\d*)(?:[-+][0-9A-Za-z.-]+)?\<close>\<close>
  "semver_form s \<longleftrightarrow>
     (case Option.bind (Option.bind (semver_dot s) semver_dot) semver_number of
        None \<Rightarrow> False
      | Some [] \<Rightarrow> True
      | Some (c # r) \<Rightarrow> c \<in> set ''-+'' \<and> r \<noteq> [] \<and> list_all (\<lambda>d. is_alnum d \<or> d \<in> set ''.-'') r)"

record adapter_descriptor =
  de_adapter_id :: string
  de_adapter_version :: string
  de_provider_id :: string
  de_network_id :: string
  de_environment :: adapter_environment
  de_transport :: transport_kind
  de_message_standard :: message_standard
  de_auth_profile :: auth_profile
  de_certification_status :: certification_status
  de_priority :: int

definition require_identifier :: "string \<Rightarrow> string \<Rightarrow> unit res" where
  "require_identifier name v = guard_res (\<not> identifier_form v) ValueError (name @ '' is not a valid stable identifier'')"

definition check_descriptor :: "adapter_descriptor \<Rightarrow> unit res" where
  \<comment> \<open>\<^verbatim>\<open>AdapterDescriptor.__post_init__\<close>\<close>
  "check_descriptor d =
     rbind (require_identifier ''adapter_id'' (de_adapter_id d)) (\<lambda>_.
     rbind (require_identifier ''provider_id'' (de_provider_id d)) (\<lambda>_.
     rbind (require_identifier ''network_id'' (de_network_id d)) (\<lambda>_.
     rbind (guard_res (\<not> semver_form (de_adapter_version d)) ValueError ''adapter_version must be semantic version syntax'') (\<lambda>_.
     rbind (guard_res (de_priority d < 0) ValueError ''priority cannot be negative'') (\<lambda>_.
     guard_res (de_environment d \<noteq> ENV_SANDBOX \<and> de_auth_profile d = AUTH_SIMULATION) ValueError
       ''simulation authentication is sandbox-only'')))))"

definition binding_ref :: "adapter_descriptor \<Rightarrow> string" where
  "binding_ref d = de_adapter_id d @ ''@'' @ de_adapter_version d"

definition descriptor_payload :: "adapter_descriptor \<Rightarrow> pyval" where
  "descriptor_payload d = obj
     [(''adapter_id'', PyStr (de_adapter_id d)), (''adapter_version'', PyStr (de_adapter_version d)),
      (''provider_id'', PyStr (de_provider_id d)), (''network_id'', PyStr (de_network_id d)),
      (''environment'', PyStr (environment_value (de_environment d))), (''transport'', PyStr (transport_value (de_transport d))),
      (''message_standard'', PyStr (standard_value (de_message_standard d))), (''auth_profile'', PyStr (auth_value (de_auth_profile d))),
      (''certification_status'', PyStr (certification_value (de_certification_status d))), (''priority'', PyInt (de_priority d))]"

section \<open>ISO timestamps\<close>

definition is_leap :: "int \<Rightarrow> bool" where
  "is_leap y \<longleftrightarrow> y mod 4 = 0 \<and> (y mod 100 \<noteq> 0 \<or> y mod 400 = 0)"

definition month_lengths :: "int \<Rightarrow> int list" where
  "month_lengths y = [31, if is_leap y then 29 else 28, 31, 30, 31, 30, 31, 31, 30, 31, 30, 31]"

fun month_and_day :: "int \<Rightarrow> int list \<Rightarrow> int \<Rightarrow> int \<times> int" where
  "month_and_day m [] n = (m, n + 1)"
| "month_and_day m (l # ls) n = (if n < l \<or> ls = [] then (m, n + 1) else month_and_day (m + 1) ls (n - l))"

definition year_and_day :: "int \<Rightarrow> int \<times> int" where
  \<comment> \<open>year and day of the year, from 0, of the day number since 1 January of year 1 (\<^verbatim>\<open>_ord2ymd\<close>)\<close>
  "year_and_day n =
     (let n400 = n div 146097; a = n mod 146097; n100 = a div 36524; b = a mod 36524;
          n4 = b div 1461; c = b mod 1461; n1 = c div 365; d = c mod 365;
          y = n400 * 400 + n100 * 100 + n4 * 4 + n1 + 1 in
      if n1 = 4 \<or> n100 = 4 then (y - 1, 365) else (y, d))"

definition padded :: "nat \<Rightarrow> int \<Rightarrow> string" where
  \<comment> \<open>a number with leading zeros\<close>
  "padded w n = (let t = show_int n in replicate (w - length t) (CHR ''0'') @ t)"

definition isoformat :: "instant \<Rightarrow> string" where
  \<comment> \<open>\<^verbatim>\<open>value.isoformat()\<close> in UTC\<close>
  "isoformat t =
     (let secs = t div 1000000; us = t mod 1000000; (y, yd) = year_and_day (secs div 86400 + 719162);
          (m, d) = month_and_day 1 (month_lengths y) yd; s = secs mod 86400 in
      padded 4 y @ ''-'' @ padded 2 m @ ''-'' @ padded 2 d @ ''T'' @ padded 2 (s div 3600) @ '':'' @ padded 2 (s mod 3600 div 60)
        @ '':'' @ padded 2 (s mod 60) @ (if us = 0 then [] else ''.'' @ padded 6 us) @ ''+00:00'')"

section \<open>Capability manifests\<close>

record capability_manifest =
  cm_manifest_id :: string
  cm_manifest_version :: int
  cm_descriptor :: adapter_descriptor
  cm_source_institution_ids :: "string list"
  cm_destination_institution_ids :: "string list"
  cm_source_countries :: "string list"
  cm_destination_countries :: "string list"
  cm_rails :: "string list"
  cm_currencies_from :: "string list"
  cm_currencies_to :: "string list"
  cm_operations :: "institution_operation list"
  cm_supports_idempotency :: bool
  cm_supports_callbacks :: bool
  cm_supports_active_status :: bool
  cm_supports_reconciliation :: bool
  cm_asserted_finality :: finality_level
  cm_min_amount_minor :: int
  cm_max_amount_minor :: int
  cm_request_timeout_seconds :: int
  cm_issued_at :: instant
  cm_expires_at :: instant

definition codes :: "string \<Rightarrow> string list \<Rightarrow> nat option \<Rightarrow> string list res" where
  "codes name values width =
     (let normalized = sort (remdups (map upper values)) in
      rbind (guard_res (normalized = []) ValueError (name @ '' cannot be empty'')) (\<lambda>_.
      rbind (case width of
               None \<Rightarrow> Inr ()
             | Some n \<Rightarrow> guard_res (\<exists>v\<in>set normalized. length v \<noteq> n \<or> \<not> list_all is_letter v) ValueError (name @ '' must contain '' @ show_nat n @ ''-letter codes'')) (\<lambda>_.
      Inr normalized)))"

definition manifest_flags :: "capability_manifest \<Rightarrow> unit res" where
  \<comment> \<open>the flags agree with the operations\<close>
  "manifest_flags m =
     rbind (guard_res (cm_supports_callbacks m \<noteq> (IOP_CALLBACK \<in> set (cm_operations m))) ValueError ''callback flag must agree with operations'') (\<lambda>_.
     rbind (guard_res (cm_supports_active_status m \<noteq> (IOP_STATUS_QUERY \<in> set (cm_operations m))) ValueError ''status flag must agree with operations'') (\<lambda>_.
     rbind (guard_res (cm_supports_reconciliation m \<noteq> (IOP_RECONCILE \<in> set (cm_operations m))) ValueError
              ''reconciliation flag must agree with operations'') (\<lambda>_.
     guard_res (cm_asserted_finality m = FIN_SETTLED \<and> \<not> (cm_supports_callbacks m \<or> cm_supports_active_status m \<or> cm_supports_reconciliation m))
       ValueError ''settlement finality requires an evidence retrieval operation'')))"

definition new_manifest :: "capability_manifest \<Rightarrow> datetime \<Rightarrow> datetime \<Rightarrow> capability_manifest res" where
  \<comment> \<open>\<^verbatim>\<open>InstitutionCapabilityManifest.__post_init__\<close>; the two timestamps as given replace those of \<open>m\<close>\<close>
  "new_manifest m issued_at expires_at =
     rbind (require_identifier ''manifest_id'' (cm_manifest_id m)) (\<lambda>_.
     rbind (guard_res (cm_manifest_version m < 1) ValueError ''manifest_version must be positive'') (\<lambda>_.
     rbind (codes ''source_institution_ids'' (cm_source_institution_ids m) None) (\<lambda>sources.
     rbind (codes ''destination_institution_ids'' (cm_destination_institution_ids m) None) (\<lambda>destinations.
     rbind (codes ''source_countries'' (cm_source_countries m) (Some 2)) (\<lambda>scs.
     rbind (codes ''destination_countries'' (cm_destination_countries m) (Some 2)) (\<lambda>dcs.
     rbind (codes ''rails'' (cm_rails m) None) (\<lambda>rails.
     rbind (codes ''currencies_from'' (cm_currencies_from m) (Some 3)) (\<lambda>cfs.
     rbind (codes ''currencies_to'' (cm_currencies_to m) (Some 3)) (\<lambda>cts.
     let ops = sort_key operation_value (remdups (cm_operations m)) in
     rbind (guard_res (IOP_SUBMIT \<notin> set ops) ValueError ''adapter capabilities must include SUBMIT'') (\<lambda>_.
     rbind (guard_res (cm_min_amount_minor m < 1 \<or> cm_max_amount_minor m < cm_min_amount_minor m) ValueError ''invalid amount range'') (\<lambda>_.
     rbind (guard_res (\<not> (1 \<le> cm_request_timeout_seconds m \<and> cm_request_timeout_seconds m \<le> 300)) ValueError
              ''request timeout must be between 1 and 300 seconds'') (\<lambda>_.
     rbind (require_aware ''issued_at'' issued_at) (\<lambda>issued.
     rbind (require_aware ''expires_at'' expires_at) (\<lambda>expires.
     rbind (guard_res (expires \<le> issued) ValueError ''expires_at must be after issued_at'') (\<lambda>_.
     let m' = m\<lparr>cm_source_institution_ids := sources, cm_destination_institution_ids := destinations, cm_source_countries := scs,
                cm_destination_countries := dcs, cm_rails := rails, cm_currencies_from := cfs, cm_currencies_to := cts,
                cm_operations := ops, cm_issued_at := issued, cm_expires_at := expires\<rparr> in
     rbind (manifest_flags m') (\<lambda>_. Inr m'))))))))))))))))"

definition is_active_at :: "capability_manifest \<Rightarrow> instant \<Rightarrow> bool" where
  "is_active_at m t \<longleftrightarrow> cm_issued_at m \<le> t \<and> t < cm_expires_at m \<and> de_certification_status (cm_descriptor m) \<noteq> CERT_SUSPENDED"

definition texts :: "string list \<Rightarrow> pyval" where
  "texts vs = PyList (map PyStr vs)"

definition manifest_payload :: "capability_manifest \<Rightarrow> pyval" where
  "manifest_payload m = obj
     [(''manifest_id'', PyStr (cm_manifest_id m)), (''manifest_version'', PyInt (cm_manifest_version m)),
      (''descriptor'', descriptor_payload (cm_descriptor m)),
      (''source_institution_ids'', texts (cm_source_institution_ids m)),
      (''destination_institution_ids'', texts (cm_destination_institution_ids m)),
      (''source_countries'', texts (cm_source_countries m)), (''destination_countries'', texts (cm_destination_countries m)),
      (''rails'', texts (cm_rails m)), (''currencies_from'', texts (cm_currencies_from m)), (''currencies_to'', texts (cm_currencies_to m)),
      (''operations'', texts (map operation_value (cm_operations m))), (''supports_idempotency'', PyBool (cm_supports_idempotency m)),
      (''supports_callbacks'', PyBool (cm_supports_callbacks m)), (''supports_active_status'', PyBool (cm_supports_active_status m)),
      (''supports_reconciliation'', PyBool (cm_supports_reconciliation m)), (''asserted_finality'', PyStr (finality_name (cm_asserted_finality m))),
      (''min_amount_minor'', PyInt (cm_min_amount_minor m)), (''max_amount_minor'', PyInt (cm_max_amount_minor m)),
      (''request_timeout_seconds'', PyInt (cm_request_timeout_seconds m)),
      (''issued_at'', PyStr (isoformat (cm_issued_at m))), (''expires_at'', PyStr (isoformat (cm_expires_at m)))]"

section \<open>Equality of values\<close>

text \<open>
  \<^verbatim>\<open>==\<close> of two JSON-like values: mappings regardless of order, numbers by value.  A float that is not an
  integer cannot occur in a signed payload and equals nothing.
\<close>

definition py_num :: "pyval \<Rightarrow> int option" where
  "py_num v = (case v of PyInt i \<Rightarrow> Some i | PyBool b \<Rightarrow> Some (of_bool b) | PyFloat f \<Rightarrow> f | _ \<Rightarrow> None)"

fun py_eq :: "pyval \<Rightarrow> pyval \<Rightarrow> bool"
  and py_eq_items :: "(pyval \<times> pyval) list \<Rightarrow> (pyval \<times> pyval) list \<Rightarrow> bool"
  and py_eq_seq :: "pyval list \<Rightarrow> pyval list \<Rightarrow> bool" where
  "py_eq (PyDict kvs) w = (case w of PyDict kvs' \<Rightarrow> length kvs = length kvs' \<and> py_eq_items kvs kvs' | _ \<Rightarrow> False)"
| "py_eq (PyList vs) w = (case w of PyList vs' \<Rightarrow> py_eq_seq vs vs' | _ \<Rightarrow> False)"
| "py_eq (PyTuple vs) w = (case w of PyTuple vs' \<Rightarrow> py_eq_seq vs vs' | _ \<Rightarrow> False)"
| "py_eq (PyInt i) w = (py_num w = Some i)"
| "py_eq (PyBool b) w = (py_num w = Some (of_bool b))"
| "py_eq (PyFloat f) w = (f \<noteq> None \<and> py_num w = f)"
| "py_eq v w = (v = w)"
| "py_eq_items [] kvs' = True"
| "py_eq_items ((k, v) # kvs) kvs' = ((case map_of kvs' k of Some v' \<Rightarrow> py_eq v v' | None \<Rightarrow> False) \<and> py_eq_items kvs kvs')"
| "py_eq_seq [] vs' = (vs' = [])"
| "py_eq_seq (v # vs) vs' = (case vs' of [] \<Rightarrow> False | v' # vs'' \<Rightarrow> py_eq v v' \<and> py_eq_seq vs vs'')"

section \<open>Signed manifests\<close>

record signed_manifest =
  sm_manifest :: capability_manifest
  sm_signature :: envelope

definition sign_manifest :: "platform \<Rightarrow> key_provider \<Rightarrow> string \<Rightarrow> capability_manifest \<Rightarrow> datetime \<Rightarrow> signed_manifest res" where
  "sign_manifest P ks signing_key_id m issued_at =
     rbind (sign_artifact P ks INSTITUTION_CAPABILITY_MANIFEST (manifest_payload m) signing_key_id issued_at) (\<lambda>env.
     Inr \<lparr>sm_manifest = m, sm_signature = env\<rparr>)"

definition verify_manifest :: "platform \<Rightarrow> key_provider \<Rightarrow> signed_manifest \<Rightarrow> unit res" where
  "verify_manifest P ks sman =
     rbind (verify_artifact P ks (sm_signature sman) (Some INSTITUTION_CAPABILITY_MANIFEST) False) (\<lambda>check.
     rbind (guard_res (\<not> vr_valid check) PermissionError (''capability manifest signature rejected: '' @ vr_reason check)) (\<lambda>_.
     rbind (guard_res (\<not> py_eq (thaw (env_payload (sm_signature sman))) (manifest_payload (sm_manifest sman))) PermissionError
              ''capability manifest object does not match signed payload'') (\<lambda>_.
     rbind (rbind (rbind (py_item (env_protected (sm_signature sman)) ''iat'') py_int) fromtimestamp) (\<lambda>signed_at.
     guard_res (\<not> (cm_issued_at (sm_manifest sman) \<le> signed_at \<and> signed_at < cm_expires_at (sm_manifest sman))) PermissionError
       ''capability manifest signature is outside its validity window''))))"

lemma plain_seq_map: "plain_seq (map f xs) \<longleftrightarrow> (\<forall>x\<in>set xs. plain (f x))"
  by (induction xs) auto

lemma plain_texts [simp]: "plain (texts vs)"
  by (simp add: texts_def plain_seq_map)

end
