(* ===== verification/Institution_Registry.thy ===== *)
theory Institution_Registry
  imports Institution
begin

text \<open>
  Institution adapters behind the coordinator (\<^verbatim>\<open>railone_institutions/spi.py\<close>, \<^verbatim>\<open>registry.py\<close>, \<^verbatim>\<open>legacy.py\<close> and the
  instruction and result models of \<^verbatim>\<open>models.py\<close>): the instruction an adapter receives, the bridge to the
  coordinator's adapter contract, the registry of version-pinned adapters and the plug-in for existing
  provider adapters.  An adapter is its descriptor, its manifest and two functions; what it raises is a result.
\<close>

section \<open>Instructions\<close>

record instruction =
  in_idempotency_key :: string
  in_request_sha256 :: string
  in_utt_id :: string
  in_rtt_id :: string
  in_attempt_number :: int
  in_provider_id :: string
  in_adapter_binding_ref :: string
  in_rail :: string
  in_amount_minor :: int
  in_currency_from :: string
  in_receive_amount_minor :: int
  in_currency_to :: string
  in_source_institution_id :: string
  in_destination_institution_id :: string
  in_payer_account_reference :: string
  in_beneficiary_account_reference :: string

definition bounded_text :: "string \<Rightarrow> pyval \<Rightarrow> string res" where
  "bounded_text name v =
     (case v of
        PyStr s \<Rightarrow> if strip s = [] \<or> length s > 512 then Inl (Raise ValueError (name @ '' must be a non-empty bounded string'')) else Inr s
      | _ \<Rightarrow> Inl (Raise ValueError (name @ '' must be a non-empty bounded string'')))"

definition sha256_form :: "string \<Rightarrow> bool" where
  "sha256_form s \<longleftrightarrow> length s = 64 \<and> list_all (\<lambda>c. is_digit c \<or> c \<in> set ''abcdef'') s"

definition positive_amount :: "string \<Rightarrow> pyval \<Rightarrow> int res" where
  "positive_amount name v =
     (case v of
        PyInt n \<Rightarrow> if n < 1 then Inl (Raise ValueError (name @ '' must be a positive integer'')) else Inr n
      | _ \<Rightarrow> Inl (Raise ValueError (name @ '' must be a positive integer'')))"

definition currency_code :: "string \<Rightarrow> pyval \<Rightarrow> string res" where
  "currency_code name v =
     (case v of
        PyStr s \<Rightarrow> if length s = 3 \<and> list_all (\<lambda>c. is_letter c \<and> upper_char c = c) s then Inr s
          else Inl (Raise ValueError (name @ '' must be an uppercase ISO-style currency code''))
      | _ \<Rightarrow> Inl (Raise TypeError ''expected string or bytes-like object''))"

definition from_provider_request :: "provider_request \<Rightarrow> instruction res" where
  "from_provider_request q =
     rbind (bounded_text ''idempotency_key'' (PyStr (pr_idempotency_key q))) (\<lambda>key.
     rbind (bounded_text ''utt_id'' (PyStr (pr_utt_id q))) (\<lambda>utt.
     rbind (bounded_text ''rtt_id'' (PyStr (pr_rtt_id q))) (\<lambda>rtt.
     rbind (bounded_text ''provider_id'' (PyStr (pr_provider_id q))) (\<lambda>provider.
     rbind (bounded_text ''adapter_binding_ref'' (pr_adapter_binding_ref q)) (\<lambda>bref.
     rbind (bounded_text ''rail'' (pr_rail q)) (\<lambda>rail.
     rbind (bounded_text ''source_institution_id'' (PyStr (pr_source_institution_id q))) (\<lambda>src.
     rbind (bounded_text ''destination_institution_id'' (PyStr (pr_destination_institution_id q))) (\<lambda>dst.
     rbind (bounded_text ''payer_account_reference'' (PyStr (pr_payer_account_reference q))) (\<lambda>payer.
     rbind (bounded_text ''beneficiary_account_reference'' (PyStr (pr_beneficiary_account_reference q))) (\<lambda>beneficiary.
     rbind (guard_res (\<not> sha256_form (pr_request_sha256 q)) ValueError ''request_sha256 must be a lowercase SHA-256 digest'') (\<lambda>_.
     rbind (guard_res (CHR ''@'' \<notin> set bref) ValueError ''adapter_binding_ref must pin adapter_id@version'') (\<lambda>_.
     rbind (guard_res (pr_attempt_number q < 1) ValueError ''attempt_number must be positive'') (\<lambda>_.
     rbind (positive_amount ''amount_minor'' (pr_amount_minor q)) (\<lambda>amount.
     rbind (positive_amount ''receive_amount_minor'' (pr_receive_amount_minor q)) (\<lambda>receive.
     rbind (currency_code ''currency_from'' (pr_currency_from q)) (\<lambda>cfrom.
     rbind (currency_code ''currency_to'' (pr_currency_to q)) (\<lambda>cto.
     Inr \<lparr>in_idempotency_key = key, in_request_sha256 = pr_request_sha256 q, in_utt_id = utt, in_rtt_id = rtt,
          in_attempt_number = pr_attempt_number q, in_provider_id = provider, in_adapter_binding_ref = bref, in_rail = rail,
          in_amount_minor = amount, in_currency_from = cfrom, in_receive_amount_minor = receive, in_currency_to = cto,
          in_source_institution_id = src, in_destination_institution_id = dst, in_payer_account_reference = payer,
          in_beneficiary_account_reference = beneficiary\<rparr>)))))))))))))))))"

definition to_provider_request :: "instruction \<Rightarrow> provider_request" where
  \<comment> \<open>\<^verbatim>\<open>ProviderExecutionRequest(**{...})\<close> of the plug-in\<close>
  "to_provider_request i =
     \<lparr>pr_idempotency_key = in_idempotency_key i, pr_request_sha256 = in_request_sha256 i, pr_utt_id = in_utt_id i, pr_rtt_id = in_rtt_id i,
      pr_attempt_number = in_attempt_number i, pr_provider_id = in_provider_id i, pr_adapter_binding_ref = PyStr (in_adapter_binding_ref i),
      pr_rail = PyStr (in_rail i), pr_amount_minor = PyInt (in_amount_minor i), pr_currency_from = PyStr (in_currency_from i),
      pr_receive_amount_minor = PyInt (in_receive_amount_minor i), pr_currency_to = PyStr (in_currency_to i),
      pr_source_institution_id = in_source_institution_id i, pr_destination_institution_id = in_destination_institution_id i,
      pr_payer_account_reference = in_payer_account_reference i, pr_beneficiary_account_reference = in_beneficiary_account_reference i\<rparr>"

section \<open>Adapters and the bridge\<close>

record institution_result =
  ir_outcome :: institution_outcome
  ir_code :: string
  ir_external_reference :: "string option"
  ir_finality :: finality_level

definition new_institution_result :: "institution_outcome \<Rightarrow> string \<Rightarrow> string option \<Rightarrow> finality_level \<Rightarrow> institution_result res" where
  "new_institution_result oc code reference finality =
     rbind (guard_res (oc = ACCEPTED_FOR_PROCESSING \<and> finality_int finality > finality_int FIN_PROCESSING) ValueError
              ''provider acceptance cannot assert credit or settlement finality'') (\<lambda>_.
     rbind (guard_res (oc = CONFIRMED_SUCCESS \<and> finality_int finality < finality_int FIN_CREDIT_CONFIRMED) ValueError
              ''confirmed success requires credit-confirmed or settled finality'') (\<lambda>_.
     Inr \<lparr>ir_outcome = oc, ir_code = code, ir_external_reference = reference, ir_finality = finality\<rparr>))"

record institution_adapter =
  ia_descriptor :: adapter_descriptor
  ia_capabilities :: capability_manifest
  ia_validate :: "instruction \<Rightarrow> unit res"
  ia_submit :: "instruction \<Rightarrow> institution_result res"

definition bridge_result :: "string \<Rightarrow> institution_result \<Rightarrow> submission_result" where
  "bridge_result bref r =
     (let result = (\<lambda>oc d. \<lparr>sv_outcome = oc, sv_code = ir_code r, sv_external_reference = ir_external_reference r,
            sv_rejection_disposition = d, sv_provider_context = [(''adapter_binding_ref'', bref)]\<rparr>) in
      case ir_outcome r of
        ACCEPTED_FOR_PROCESSING \<Rightarrow> result OUT_ACCEPTED None
      | REJECTED_RETRYABLE \<Rightarrow> result OUT_REJECTED (Some REJ_RETRYABLE)
      | REJECTED_TERMINAL \<Rightarrow> result OUT_REJECTED (Some REJ_TERMINAL)
      | _ \<Rightarrow> result OUT_UNKNOWN None)"

definition bridge_submit :: "institution_adapter \<Rightarrow> provider_request \<Rightarrow> submission_result res" where
  "bridge_submit a q =
     (let bref = binding_ref (ia_descriptor a) in
      rbind (guard_res (pr_adapter_binding_ref q \<noteq> PyStr bref) ValueError ''RTT adapter binding does not match dispatched adapter version'') (\<lambda>_.
      rbind (from_provider_request q) (\<lambda>i.
      rbind (ia_validate a i) (\<lambda>_.
      rbind (ia_submit a i) (\<lambda>r. Inr (bridge_result bref r))))))"

definition bridge :: "institution_adapter \<Rightarrow> provider_adapter" where
  \<comment> \<open>\<^verbatim>\<open>InstitutionAdapterBridge\<close> as the coordinator sees it: an exception is no result\<close>
  "bridge a = \<lparr>ad_provider_id = de_provider_id (ia_descriptor a), ad_supports_idempotency = cm_supports_idempotency (ia_capabilities a),
     ad_submit = (\<lambda>q. case bridge_submit a q of Inr v \<Rightarrow> Some v | Inl e \<Rightarrow> None)\<rparr>"

section \<open>The registry\<close>

record eligibility_query =
  eq_source_institution_id :: string
  eq_destination_institution_id :: string
  eq_source_country :: string
  eq_destination_country :: string
  eq_rail :: string
  eq_currency_from :: string
  eq_currency_to :: string
  eq_amount_minor :: int

type_synonym registry = "(string, institution_adapter \<times> signed_manifest) dict"

definition register :: "platform \<Rightarrow> key_provider \<Rightarrow> institution_adapter \<Rightarrow> signed_manifest \<Rightarrow> (registry, unit) st" where
  "register P ks a sman =
     sbind (slift (verify_manifest P ks sman)) (\<lambda>_.
     sbind (slift (guard_res (ia_descriptor a \<noteq> cm_descriptor (sm_manifest sman)) ValueError ''adapter descriptor does not match signed manifest'')) (\<lambda>_.
     sbind (slift (guard_res (\<not> py_eq (manifest_payload (ia_capabilities a)) (manifest_payload (sm_manifest sman))) ValueError
              ''adapter capabilities do not match signed manifest'')) (\<lambda>_. \<lambda>s.
     let bref = binding_ref (ia_descriptor a) in
     case dict_get s bref of
       Some (b, prior) \<Rightarrow>
         if env_signature (sm_signature prior) \<noteq> env_signature (sm_signature sman)
         then (Inl (Raise ValueError ''binding reference already registered with different signed capabilities''), s)
         else (Inr (), dict_set bref (a, sman) s)
     | None \<Rightarrow> (Inr (), dict_set bref (a, sman) s))))"

definition resolve_binding :: "platform \<Rightarrow> string \<Rightarrow> datetime \<Rightarrow> registry \<Rightarrow> institution_adapter res" where
  "resolve_binding P bref at s =
     (case dict_get s bref of
        None \<Rightarrow> Inl (Raise KeyError (''institution adapter binding not found: '' @ bref))
      | Some (a, sman) \<Rightarrow>
          if \<not> is_active_at (sm_manifest sman) (astimezone_utc P at)
          then Inl (Raise PermissionError ''institution adapter manifest is inactive or expired'')
          else if de_certification_status (cm_descriptor (sm_manifest sman)) = CERT_DRAFT
          then Inl (Raise PermissionError ''draft institution adapter cannot execute'')
          else Inr a)"

definition provider_bridge :: "platform \<Rightarrow> string \<Rightarrow> datetime \<Rightarrow> registry \<Rightarrow> provider_adapter res" where
  "provider_bridge P bref at s = rbind (resolve_binding P bref at s) (\<lambda>a. Inr (bridge a))"

definition matches_query :: "eligibility_query \<Rightarrow> capability_manifest \<Rightarrow> bool" where
  "matches_query q m \<longleftrightarrow> upper (eq_source_institution_id q) \<in> set (cm_source_institution_ids m)
     \<and> upper (eq_destination_institution_id q) \<in> set (cm_destination_institution_ids m)
     \<and> upper (eq_source_country q) \<in> set (cm_source_countries m) \<and> upper (eq_destination_country q) \<in> set (cm_destination_countries m)
     \<and> upper (eq_rail q) \<in> set (cm_rails m) \<and> upper (eq_currency_from q) \<in> set (cm_currencies_from m)
     \<and> upper (eq_currency_to q) \<in> set (cm_currencies_to m)
     \<and> cm_min_amount_minor m \<le> eq_amount_minor q \<and> eq_amount_minor q \<le> cm_max_amount_minor m"

definition executable_at :: "capability_manifest \<Rightarrow> instant \<Rightarrow> bool" where
  "executable_at m t \<longleftrightarrow> is_active_at m t \<and> de_certification_status (cm_descriptor m) \<noteq> CERT_DRAFT"

definition adapter_rank :: "institution_adapter \<Rightarrow> int \<times> string" where
  "adapter_rank a = (de_priority (ia_descriptor a), binding_ref (ia_descriptor a))"

definition eligible_adapters :: "platform \<Rightarrow> eligibility_query \<Rightarrow> datetime \<Rightarrow> registry \<Rightarrow> institution_adapter list" where
  "eligible_adapters P q at s =
     sort_key adapter_rank (map fst (filter (\<lambda>(a, sman). executable_at (sm_manifest sman) (astimezone_utc P at)
       \<and> matches_query q (sm_manifest sman)) (map snd s)))"

section \<open>The plug-in for provider adapters\<close>

type_synonym provider_submit = "provider_request \<Rightarrow> submission_result res"

definition plugin_validate :: "capability_manifest \<Rightarrow> instruction \<Rightarrow> unit res" where
  "plugin_validate m i =
     rbind (guard_res (in_adapter_binding_ref i \<noteq> binding_ref (cm_descriptor m)) ValueError ''RTT adapter binding does not match plug-in'') (\<lambda>_.
     rbind (guard_res (upper (in_provider_id i) \<noteq> upper (de_provider_id (cm_descriptor m))) ValueError ''provider mismatch'') (\<lambda>_.
     rbind (guard_res (upper (in_rail i) \<notin> set (cm_rails m)) ValueError ''unsupported rail'') (\<lambda>_.
     rbind (guard_res (upper (in_source_institution_id i) \<notin> set (cm_source_institution_ids m)) ValueError ''unsupported source institution'') (\<lambda>_.
     guard_res (upper (in_destination_institution_id i) \<notin> set (cm_destination_institution_ids m)) ValueError ''unsupported destination institution''))))"

definition plugin_outcome :: "submission_result \<Rightarrow> institution_outcome" where
  "plugin_outcome v =
     (case sv_outcome v of
        OUT_ACCEPTED \<Rightarrow> ACCEPTED_FOR_PROCESSING
      | OUT_REJECTED \<Rightarrow> if sv_rejection_disposition v = Some REJ_RETRYABLE then REJECTED_RETRYABLE else REJECTED_TERMINAL
      | OUT_UNKNOWN \<Rightarrow> OUTCOME_UNKNOWN)"

definition plugin_submit :: "provider_submit \<Rightarrow> capability_manifest \<Rightarrow> instruction \<Rightarrow> institution_result res" where
  "plugin_submit submit m i =
     rbind (plugin_validate m i) (\<lambda>_.
     rbind (submit (to_provider_request i)) (\<lambda>v.
     new_institution_result (plugin_outcome v) (sv_code v) (sv_external_reference v)
       (if plugin_outcome v = ACCEPTED_FOR_PROCESSING then FIN_PROCESSING else FIN_NONE)))"

definition plugin ::
  "string \<Rightarrow> bool \<Rightarrow> provider_submit \<Rightarrow> adapter_descriptor \<Rightarrow> capability_manifest \<Rightarrow> institution_adapter res" where
  \<comment> \<open>\<^verbatim>\<open>ProviderAdapterInstitutionPlugin\<close> of an adapter with this provider, idempotency and submit\<close>
  "plugin provider_id supports_idempotency submit d m =
     rbind (guard_res (d \<noteq> cm_descriptor m) ValueError ''adapter descriptor and manifest must match'') (\<lambda>_.
     rbind (guard_res (upper provider_id \<noteq> upper (de_provider_id d)) ValueError ''legacy provider id does not match adapter descriptor'') (\<lambda>_.
     rbind (guard_res (supports_idempotency \<noteq> cm_supports_idempotency m) ValueError ''legacy idempotency behavior differs from manifest'') (\<lambda>_.
     rbind (guard_res (cm_supports_callbacks m \<or> cm_supports_active_status m \<or> cm_supports_reconciliation m) ValueError
              ''submit-only migration plug-in cannot advertise evidence operations'') (\<lambda>_.
     Inr \<lparr>ia_descriptor = d, ia_capabilities = m, ia_validate = plugin_validate m, ia_submit = plugin_submit submit m\<rparr>))))"

end
