(* ===== verification/Generic_Adapter.thy ===== *)
theory Generic_Adapter
  imports Institution_Registry Json_Loads
begin

text \<open>
  The configured HTTP adapter (\<^verbatim>\<open>railone_institutions/generic.py\<close>, the JSON part of \<^verbatim>\<open>codecs.py\<close>): validation of an
  instruction against the manifest, submission, active status and callbacks, with outcomes read only from the
  configured codes.  Authentication, transport, the message codec, the verifier of callbacks and the URL of a
  status query are parameters; the transport answers a request, given the requests sent before, or raises, and the
  requests sent are the state, so that a call that raises still shows what it sent.
\<close>

section \<open>Outcome normalization\<close>

record outcome_normalizer =
  on_submission :: "(string, institution_outcome) dict"
  on_status :: "(string, institution_outcome \<times> finality_level) dict"

definition upper_keys :: "(string, 'v) dict \<Rightarrow> (string, 'v) dict" where
  \<comment> \<open>\<^verbatim>\<open>{str(key).upper(): value for key, value in codes.items()}\<close>\<close>
  "upper_keys d = fold (\<lambda>(k, v). dict_set (upper k) v) d []"

definition new_normalizer :: "(string, institution_outcome) dict \<Rightarrow> (string, institution_outcome \<times> finality_level) dict \<Rightarrow> outcome_normalizer" where
  "new_normalizer submission_codes status_codes = \<lparr>on_submission = upper_keys submission_codes, on_status = upper_keys status_codes\<rparr>"

definition submission_outcome :: "outcome_normalizer \<Rightarrow> string \<Rightarrow> institution_outcome" where
  "submission_outcome nz code = (case dict_get (on_submission nz) (upper code) of None \<Rightarrow> OUTCOME_UNKNOWN | Some v \<Rightarrow> v)"

definition status_outcome :: "outcome_normalizer \<Rightarrow> string \<Rightarrow> institution_outcome \<times> finality_level" where
  "status_outcome nz code = (case dict_get (on_status nz) (upper code) of None \<Rightarrow> (RECONCILIATION_REQUIRED, FIN_NONE) | Some v \<Rightarrow> v)"

section \<open>Messages\<close>

record institution_http_request =
  iq_method :: string
  iq_url :: string
  iq_headers :: "(string, string) dict"
  iq_body :: string
  iq_timeout_seconds :: int

record message_codec =
  co_content_type :: string
  co_encode :: "instruction \<Rightarrow> string res"

definition wire_payload :: "instruction \<Rightarrow> pyval" where
  "wire_payload i = obj
     [(''idempotency_key'', PyStr (in_idempotency_key i)), (''request_sha256'', PyStr (in_request_sha256 i)), (''utt_id'', PyStr (in_utt_id i)),
      (''rtt_id'', PyStr (in_rtt_id i)), (''attempt_number'', PyInt (in_attempt_number i)), (''provider_id'', PyStr (in_provider_id i)),
      (''adapter_binding_ref'', PyStr (in_adapter_binding_ref i)), (''rail'', PyStr (in_rail i)), (''amount_minor'', PyInt (in_amount_minor i)),
      (''currency_from'', PyStr (in_currency_from i)), (''receive_amount_minor'', PyInt (in_receive_amount_minor i)),
      (''currency_to'', PyStr (in_currency_to i)), (''source_institution_id'', PyStr (in_source_institution_id i)),
      (''destination_institution_id'', PyStr (in_destination_institution_id i)),
      (''payer_account_reference'', PyStr (in_payer_account_reference i)),
      (''beneficiary_account_reference'', PyStr (in_beneficiary_account_reference i))]"

definition canonical_json_codec :: message_codec where
  "canonical_json_codec = \<lparr>co_content_type = ''application/json'', co_encode = (\<lambda>i. canonical_json_bytes (wire_payload i))\<rparr>"

definition decode_json_object :: "string \<Rightarrow> pyval res" where
  "decode_json_object body =
     rbind (guard_res (length body > 1000000) ValueError ''provider response exceeds codec limit'') (\<lambda>_.
     rbind (json_loads body) (\<lambda>v.
     case v of PyDict _ \<Rightarrow> Inr v | _ \<Rightarrow> Inl (Raise ValueError ''provider response must be a JSON object'')))"

section \<open>The adapter\<close>

record generic_adapter =
  ga_manifest :: capability_manifest
  ga_submit_url :: string
  ga_status_url :: "string \<Rightarrow> string"
  ga_timeout_seconds :: int
  ga_outcome_field :: string
  ga_external_reference_field :: string
  ga_codec :: message_codec
  ga_authenticate :: "institution_http_request \<Rightarrow> institution_http_request res"
  ga_send :: "institution_http_request list \<Rightarrow> institution_http_request \<Rightarrow> string res"
  ga_normalizer :: outcome_normalizer
  ga_callback_verifier :: "(string \<Rightarrow> unit res) option"
  ga_reconciles :: bool

definition check_generic :: "adapter_descriptor \<Rightarrow> generic_adapter \<Rightarrow> unit res" where
  \<comment> \<open>the checks of \<^verbatim>\<open>__init__\<close>\<close>
  "check_generic d g =
     rbind (guard_res (d \<noteq> cm_descriptor (ga_manifest g)) ValueError ''adapter descriptor and manifest must match'') (\<lambda>_.
     rbind (guard_res (cm_supports_callbacks (ga_manifest g) \<and> ga_callback_verifier g = None) ValueError
              ''callback-capable adapters require an ingress authenticator'') (\<lambda>_.
     guard_res (cm_supports_reconciliation (ga_manifest g) \<and> \<not> ga_reconciles g) ValueError
       ''reconciliation-capable adapters require a reconciliation provider''))"

definition require_supported :: "string \<Rightarrow> string list \<Rightarrow> string \<Rightarrow> unit res" where
  "require_supported v supported label = guard_res (upper v \<notin> set supported) ValueError (''unsupported '' @ label)"

definition generic_validate :: "capability_manifest \<Rightarrow> instruction \<Rightarrow> unit res" where
  "generic_validate m i =
     rbind (guard_res (upper (in_provider_id i) \<noteq> upper (de_provider_id (cm_descriptor m))) ValueError ''instruction provider does not match adapter'') (\<lambda>_.
     rbind (require_supported (in_source_institution_id i) (cm_source_institution_ids m) ''source institution'') (\<lambda>_.
     rbind (require_supported (in_destination_institution_id i) (cm_destination_institution_ids m) ''destination institution'') (\<lambda>_.
     rbind (require_supported (in_rail i) (cm_rails m) ''rail'') (\<lambda>_.
     rbind (require_supported (in_currency_from i) (cm_currencies_from m) ''source currency'') (\<lambda>_.
     rbind (require_supported (in_currency_to i) (cm_currencies_to m) ''destination currency'') (\<lambda>_.
     guard_res (\<not> (cm_min_amount_minor m \<le> in_amount_minor i \<and> in_amount_minor i \<le> cm_max_amount_minor m)) ValueError
       ''amount is outside adapter capability range''))))))"

definition submission_request :: "generic_adapter \<Rightarrow> instruction \<Rightarrow> string \<Rightarrow> institution_http_request" where
  "submission_request g i body =
     \<lparr>iq_method = ''POST'', iq_url = ga_submit_url g,
      iq_headers = [(''Content-Type'', co_content_type (ga_codec g)), (''Accept'', ''application/json''),
        (''Idempotency-Key'', in_idempotency_key i), (''X-RailOne-RTT'', in_rtt_id i)],
      iq_body = body, iq_timeout_seconds = ga_timeout_seconds g\<rparr>"

definition unparseable :: "error \<Rightarrow> bool" where
  \<comment> \<open>\<^verbatim>\<open>except (ValueError, KeyError, UnicodeError)\<close>\<close>
  "unparseable e \<longleftrightarrow> exc_isa (exc_of e) ValueError \<or> exc_isa (exc_of e) KeyError"

definition outcome_code :: "generic_adapter \<Rightarrow> pyval \<Rightarrow> string res" where
  "outcome_code g payload = rbind (rbind (py_item payload (ga_outcome_field g)) py_str) (\<lambda>c. Inr (upper c))"

definition response_reference :: "generic_adapter \<Rightarrow> pyval \<Rightarrow> string option res" where
  "response_reference g payload =
     (case py_get payload (ga_external_reference_field g) of PyNone \<Rightarrow> Inr None | v \<Rightarrow> rbind (py_str v) (\<lambda>s. Inr (Some s)))"

definition read_submission :: "generic_adapter \<Rightarrow> string \<Rightarrow> (string \<times> string option) res" where
  "read_submission g body =
     rbind (decode_json_object body) (\<lambda>payload. rbind (outcome_code g payload) (\<lambda>code.
     rbind (response_reference g payload) (\<lambda>reference. Inr (code, reference))))"

definition exchange :: "generic_adapter \<Rightarrow> institution_http_request \<Rightarrow> (institution_http_request list, string) st" where
  \<comment> \<open>\<^verbatim>\<open>self._transport.send(self._auth.authenticate(request))\<close>, the body of the response\<close>
  "exchange g q = sbind (slift (ga_authenticate g q)) (\<lambda>authenticated log. (ga_send g log authenticated, log @ [authenticated]))"

definition submission_answer :: "generic_adapter \<Rightarrow> string res \<Rightarrow> institution_result res" where
  \<comment> \<open>the two \<^verbatim>\<open>try\<close> blocks and the result\<close>
  "submission_answer g response =
     (case response of
        Inl e \<Rightarrow> if exc_isa (exc_of e) InstitutionTransportError
                 then new_institution_result OUTCOME_UNKNOWN ''TRANSPORT_OUTCOME_UNKNOWN'' None FIN_NONE else Inl e
      | Inr body \<Rightarrow>
          (case read_submission g body of
             Inl e \<Rightarrow> if unparseable e then new_institution_result OUTCOME_UNKNOWN ''UNPARSEABLE_PROVIDER_RESPONSE'' None FIN_NONE else Inl e
           | Inr (code, reference) \<Rightarrow>
               let oc = submission_outcome (ga_normalizer g) code in
               new_institution_result oc code reference (if oc = ACCEPTED_FOR_PROCESSING then FIN_PROCESSING else FIN_NONE)))"

definition generic_submit :: "generic_adapter \<Rightarrow> instruction \<Rightarrow> (institution_http_request list, institution_result) st" where
  "generic_submit g i =
     sbind (slift (generic_validate (ga_manifest g) i)) (\<lambda>_.
     sbind (slift (co_encode (ga_codec g) i)) (\<lambda>body log.
     case exchange g (submission_request g i body) log of (response, log') \<Rightarrow> (submission_answer g response, log')))"

record status_result =
  sr_outcome :: institution_outcome
  sr_code :: string
  sr_external_reference :: string
  sr_finality :: finality_level
  sr_observed_at :: instant

definition status_request :: "generic_adapter \<Rightarrow> string \<Rightarrow> institution_http_request" where
  "status_request g external_reference =
     \<lparr>iq_method = ''GET'', iq_url = ga_status_url g external_reference, iq_headers = [(''Accept'', ''application/json'')], iq_body = [],
      iq_timeout_seconds = ga_timeout_seconds g\<rparr>"

definition status_answer :: "generic_adapter \<Rightarrow> string \<Rightarrow> instant \<Rightarrow> string res \<Rightarrow> status_result res" where
  "status_answer g external_reference now response =
     (let answer = (\<lambda>oc code finality. \<lparr>sr_outcome = oc, sr_code = code, sr_external_reference = external_reference,
                     sr_finality = finality, sr_observed_at = now\<rparr>) in
      case rbind response (\<lambda>body. rbind (decode_json_object body) (outcome_code g)) of
        Inr code \<Rightarrow> Inr (answer (fst (status_outcome (ga_normalizer g) code)) code (snd (status_outcome (ga_normalizer g) code)))
      | Inl e \<Rightarrow>
          if exc_isa (exc_of e) InstitutionTransportError then Inr (answer RECONCILIATION_REQUIRED ''STATUS_TRANSPORT_UNKNOWN'' FIN_NONE)
          else if unparseable e then Inr (answer RECONCILIATION_REQUIRED ''UNPARSEABLE_STATUS_RESPONSE'' FIN_NONE) else Inl e)"

definition query_status :: "generic_adapter \<Rightarrow> string \<Rightarrow> instant \<Rightarrow> (institution_http_request list, status_result) st" where
  \<comment> \<open>\<open>now\<close> is the time of the answer\<close>
  "query_status g external_reference now =
     sbind (slift (guard_res (\<not> cm_supports_active_status (ga_manifest g)) PermissionError
        ''active status is not enabled for this adapter'')) (\<lambda>_ log.
     case exchange g (status_request g external_reference) log of (response, log') \<Rightarrow> (status_answer g external_reference now response, log'))"

record institution_event =
  ie_event_id :: string
  ie_adapter_binding_ref :: string
  ie_provider_id :: string
  ie_external_reference :: string
  ie_outcome :: institution_outcome
  ie_finality :: finality_level
  ie_observed_at :: instant
  ie_evidence_sha256 :: string

definition normalize_callback :: "generic_adapter \<Rightarrow> string \<Rightarrow> instant \<Rightarrow> institution_event res" where
  "normalize_callback g body received_at =
     (case ga_callback_verifier g of
        None \<Rightarrow> Inl (Raise PermissionError ''callbacks are not enabled for this adapter'')
      | Some verify \<Rightarrow>
          rbind (verify body) (\<lambda>_.
          rbind (decode_json_object body) (\<lambda>payload.
          rbind (outcome_code g payload) (\<lambda>code.
          rbind (rbind (py_item payload (ga_external_reference_field g)) py_str) (\<lambda>reference.
          rbind (payload_digest payload) (\<lambda>digest.
          Inr \<lparr>ie_event_id = ''IAE-'' @ upper (take 32 digest), ie_adapter_binding_ref = binding_ref (cm_descriptor (ga_manifest g)),
               ie_provider_id = de_provider_id (cm_descriptor (ga_manifest g)), ie_external_reference = reference,
               ie_outcome = fst (status_outcome (ga_normalizer g) code), ie_finality = snd (status_outcome (ga_normalizer g) code),
               ie_observed_at = received_at, ie_evidence_sha256 = digest\<rparr>))))))"

definition generic_institution_adapter :: "generic_adapter \<Rightarrow> institution_http_request list \<Rightarrow> institution_adapter" where
  \<comment> \<open>after the requests \<open>log\<close>\<close>
  "generic_institution_adapter g log =
     \<lparr>ia_descriptor = cm_descriptor (ga_manifest g), ia_capabilities = ga_manifest g,
      ia_validate = generic_validate (ga_manifest g), ia_submit = (\<lambda>i. fst (generic_submit g i log))\<rparr>"

end
