(* ===== verification/Institution_Properties.thy ===== *)
theory Institution_Properties
  imports Generic_Adapter
begin

text \<open>
  What the institution boundary guarantees: the registry executes only verified and active manifests of the
  pinned version, discovery is exact, the bridge is transparent for existing adapters, and the configured
  adapter never guesses an outcome.
\<close>

lemma isoformat_samples:
  "isoformat 0 = ''1970-01-01T00:00:00+00:00''" "isoformat 1709210096000000 = ''2024-02-29T12:34:56+00:00''"
  "isoformat 4102444799000001 = ''2099-12-31T23:59:59.000001+00:00''"
  by code_simp+

section \<open>The registry\<close>

definition registered :: "platform \<Rightarrow> string \<Rightarrow> institution_adapter \<Rightarrow> signed_manifest \<Rightarrow> bool" where
  \<comment> \<open>the checks an entry passed, under the keys known when it was registered\<close>
  "registered P bref a sman \<longleftrightarrow> (\<exists>ks. verify_manifest P ks sman = Inr ()) \<and> ia_descriptor a = cm_descriptor (sm_manifest sman)
     \<and> py_eq (manifest_payload (ia_capabilities a)) (manifest_payload (sm_manifest sman)) \<and> binding_ref (ia_descriptor a) = bref"

definition registry_inv :: "platform \<Rightarrow> registry \<Rightarrow> bool" where
  "registry_inv P s \<longleftrightarrow> distinct (map fst s) \<and> (\<forall>bref a sman. dict_get s bref = Some (a, sman) \<longrightarrow> registered P bref a sman)"

inductive registry_step :: "platform \<Rightarrow> registry \<Rightarrow> registry \<Rightarrow> bool" for P where
  register_step: "register P ks a sman s = (x, s') \<Longrightarrow> registry_step P s s'"

lemma register_cases:
  assumes "register P ks a sman s = (x, s')"
  obtains (refused) "s' = s"
  | (added) "registered P (binding_ref (ia_descriptor a)) a sman" "s' = dict_set (binding_ref (ia_descriptor a)) (a, sman) s"
      "\<forall>b prior. dict_get s (binding_ref (ia_descriptor a)) = Some (b, prior) \<longrightarrow> env_signature (sm_signature prior) = env_signature (sm_signature sman)"
proof (cases "verify_manifest P ks sman = Inr () \<and> ia_descriptor a = cm_descriptor (sm_manifest sman)
    \<and> py_eq (manifest_payload (ia_capabilities a)) (manifest_payload (sm_manifest sman))")
  case True
  let ?r = "binding_ref (ia_descriptor a)"
  have eq: "register P ks a sman s = (case dict_get s ?r of
       Some (b, prior) \<Rightarrow>
         if env_signature (sm_signature prior) \<noteq> env_signature (sm_signature sman)
         then (Inl (Raise ValueError ''binding reference already registered with different signed capabilities''), s)
         else (Inr (), dict_set ?r (a, sman) s)
     | None \<Rightarrow> (Inr (), dict_set ?r (a, sman) s))"
    using True by (simp add: register_def sbind_def slift_def guard_res_def Let_def split: option.splits)
  have reg: "registered P ?r a sman" using True by (auto simp: registered_def)
  show thesis
  proof (cases "dict_get s ?r")
    case None
    then show thesis using added [OF reg] assms eq by simp
  next
    case (Some bp)
    then show thesis using refused added [OF reg] assms eq by (cases bp) (auto split: if_splits)
  qed
next
  case False
  then have "s' = s" using assms
    by (cases "verify_manifest P ks sman") (auto simp: register_def sbind_def slift_def guard_res_def split: if_splits)
  then show thesis by (rule refused)
qed

lemma registry_inv_step:
  assumes "registry_step P s s'" "registry_inv P s"
  shows "registry_inv P s'"
  using assms(1)
proof cases
  case (register_step ks a sman x)
  then show ?thesis using assms(2)
    by (cases rule: register_cases) (auto simp: registry_inv_def split: if_splits)
qed

lemma registry_inv_reach: "(registry_step P)\<^sup>*\<^sup>* s s' \<Longrightarrow> registry_inv P s \<Longrightarrow> registry_inv P s'"
  by (induction rule: rtranclp_induct) (auto intro: registry_inv_step)

lemma pinned_step:
  assumes "registry_step P s s'" "dict_get s bref = Some (a, sman)"
  shows "\<exists>a' sman'. dict_get s' bref = Some (a', sman') \<and> env_signature (sm_signature sman') = env_signature (sm_signature sman)"
  using assms(1)
proof cases
  case (register_step ks b sm x)
  then show ?thesis using assms(2) by (cases rule: register_cases) (auto split: if_splits)
qed

lemma pinned_reach:
  assumes "(registry_step P)\<^sup>*\<^sup>* s s'" "dict_get s bref = Some (a, sman)"
  shows "\<exists>a' sman'. dict_get s' bref = Some (a', sman') \<and> env_signature (sm_signature sman') = env_signature (sm_signature sman)"
  using assms(1)
proof (induction rule: rtranclp_induct)
  case base
  then show ?case using assms(2) by blast
next
  case (step y z)
  then obtain b sm where b: "dict_get y bref = Some (b, sm)" "env_signature (sm_signature sm) = env_signature (sm_signature sman)" by blast
  show ?case using pinned_step [OF step.hyps(2) b(1)] b(2) by simp
qed

text \<open>
  C29. The registry executes only what was signed.  An adapter the registry resolves for a binding reference is
  registered under exactly its own identifier and version, its descriptor and capabilities are those of a
  manifest whose signature was verified and covers them, and the manifest is active at that instant and neither
  draft nor suspended.  A registered reference keeps its signature for ever: no later registration replaces the
  signed capabilities.\<close>

theorem registry_pinned:
  assumes "(registry_step P)\<^sup>*\<^sup>* [] s"
  shows "(\<forall>bref at a. resolve_binding P bref at s = Inr a \<longrightarrow>
      (\<exists>sman. dict_get s bref = Some (a, sman) \<and> registered P bref a sman \<and> is_active_at (sm_manifest sman) (astimezone_utc P at)
        \<and> de_certification_status (ia_descriptor a) \<in> {CERT_CONFORMANCE, CERT_CERTIFIED}))
    \<and> (\<forall>bref a sman s'. dict_get s bref = Some (a, sman) \<longrightarrow> (registry_step P)\<^sup>*\<^sup>* s s' \<longrightarrow>
        (\<exists>a' sman'. dict_get s' bref = Some (a', sman') \<and> env_signature (sm_signature sman') = env_signature (sm_signature sman)))"
proof -
  have inv: "registry_inv P s" using registry_inv_reach [OF assms] by (simp add: registry_inv_def)
  have "\<exists>sman. dict_get s bref = Some (a, sman) \<and> registered P bref a sman \<and> is_active_at (sm_manifest sman) (astimezone_utc P at)
        \<and> de_certification_status (ia_descriptor a) \<in> {CERT_CONFORMANCE, CERT_CERTIFIED}" if res: "resolve_binding P bref at s = Inr a" for bref at a
  proof -
    obtain sman where s: "dict_get s bref = Some (a, sman)" "is_active_at (sm_manifest sman) (astimezone_utc P at)"
      "de_certification_status (cm_descriptor (sm_manifest sman)) \<noteq> CERT_DRAFT"
      using res by (auto simp: resolve_binding_def split: option.splits if_splits)
    have r: "registered P bref a sman" using inv s(1) by (simp add: registry_inv_def)
    then have "de_certification_status (ia_descriptor a) \<in> {CERT_CONFORMANCE, CERT_CERTIFIED}"
      using s(2,3) by (cases "de_certification_status (ia_descriptor a)") (auto simp: registered_def is_active_at_def)
    then show ?thesis using s r by blast
  qed
  then show ?thesis using pinned_reach by blast
qed

lemma eligible_mem:
  assumes "distinct (map fst s)"
  shows "a \<in> set (eligible_adapters P q at s) \<longleftrightarrow>
    (\<exists>bref sman. dict_get s bref = Some (a, sman) \<and> resolve_binding P bref at s = Inr a \<and> matches_query q (sm_manifest sman))"
proof -
  have "a \<in> set (eligible_adapters P q at s) \<longleftrightarrow>
      (\<exists>bref sman. (bref, a, sman) \<in> set s \<and> executable_at (sm_manifest sman) (astimezone_utc P at) \<and> matches_query q (sm_manifest sman))"
    by (auto simp: eligible_adapters_def image_iff) (blast, intro exI conjI, erule bexI [rotated], rule snd_conv [symmetric], assumption+)
  moreover have "executable_at (sm_manifest sman) (astimezone_utc P at) \<longleftrightarrow> resolve_binding P bref at s = Inr a" if "dict_get s bref = Some (a, sman)" for bref sman
    using that by (simp add: executable_at_def resolve_binding_def)
  ultimately show ?thesis unfolding dict_values_iff [OF assms] by metis
qed

definition asks_for :: "instruction \<Rightarrow> eligibility_query \<Rightarrow> bool" where
  \<comment> \<open>the instruction is of the kind the query asks for\<close>
  "asks_for i q \<longleftrightarrow> in_source_institution_id i = eq_source_institution_id q \<and> in_destination_institution_id i = eq_destination_institution_id q
     \<and> in_rail i = eq_rail q \<and> in_currency_from i = eq_currency_from q \<and> in_currency_to i = eq_currency_to q \<and> in_amount_minor i = eq_amount_minor q"

lemma matches_validates:
  "matches_query q m \<Longrightarrow> asks_for i q \<Longrightarrow> upper (in_provider_id i) = upper (de_provider_id (cm_descriptor m)) \<Longrightarrow> generic_validate m i = Inr ()"
  by (simp add: matches_query_def asks_for_def generic_validate_def require_supported_def guard_res_def)

text \<open>
  C36. Discovery is exact and agrees with execution.  After any registrations, the adapters eligible for a query are exactly the registered
  ones that would resolve at that instant and whose manifest covers the query, each once, ordered by priority and then by binding
  reference; and an instruction for such an adapter's provider, with the institutions, rail, currencies and amount of the query, passes
  the manifest checks of the configured adapter on the signed manifest under which the eligible adapter is registered.\<close>

theorem eligible_exact:
  assumes "(registry_step P)\<^sup>*\<^sup>* [] s"
  shows "sorted (map adapter_rank (eligible_adapters P q at s)) \<and> distinct (map (\<lambda>a. binding_ref (ia_descriptor a)) (eligible_adapters P q at s))
    \<and> (\<forall>a. a \<in> set (eligible_adapters P q at s) \<longleftrightarrow>
         (\<exists>bref sman. dict_get s bref = Some (a, sman) \<and> resolve_binding P bref at s = Inr a \<and> matches_query q (sm_manifest sman)))
    \<and> (\<forall>a bref sman i. a \<in> set (eligible_adapters P q at s) \<and> dict_get s bref = Some (a, sman) \<and> asks_for i q
         \<and> upper (in_provider_id i) = upper (de_provider_id (ia_descriptor a)) \<longrightarrow> generic_validate (sm_manifest sman) i = Inr ())"
proof -
  have inv: "registry_inv P s" using registry_inv_reach [OF assms] by (simp add: registry_inv_def)
  then have d: "distinct (map fst s)" by (simp add: registry_inv_def)
  have "binding_ref (ia_descriptor a) = bref" if "(bref, a, sman) \<in> set s" for bref a sman
    using inv dict_values_iff [OF d, THEN iffD1, OF that] unfolding registry_inv_def registered_def by blast
  then have refs: "\<forall>(bref, a, sman)\<in>set s. binding_ref (ia_descriptor a) = bref" by auto
  let ?F = "map fst (filter (\<lambda>(a, sman). executable_at (sm_manifest sman) (astimezone_utc P at) \<and> matches_query q (sm_manifest sman)) (map snd s))"
  have "map (\<lambda>a. binding_ref (ia_descriptor a)) (map fst (filter R (map snd xs))) = map fst (filter (\<lambda>e. R (snd e)) xs)"
    if "\<forall>(bref, a, sman)\<in>set xs. binding_ref (ia_descriptor a) = bref" for R and xs :: registry
    using that by (induction xs) auto
  from this [OF refs] have "distinct (map (\<lambda>a. binding_ref (ia_descriptor a)) ?F)" using d by (simp only: distinct_map_filter)
  moreover have "mset (map (\<lambda>a. binding_ref (ia_descriptor a)) (eligible_adapters P q at s)) = mset (map (\<lambda>a. binding_ref (ia_descriptor a)) ?F)"
    unfolding eligible_adapters_def mset_map mset_sort by (rule refl)
  ultimately have "distinct (map (\<lambda>a. binding_ref (ia_descriptor a)) (eligible_adapters P q at s))" using mset_eq_imp_distinct_iff by blast
  moreover have "sorted (map adapter_rank (eligible_adapters P q at s))" by (simp add: eligible_adapters_def)
  moreover note mem = eligible_mem [OF d]
  moreover have "generic_validate (sm_manifest sman) i = Inr ()"
    if e: "a \<in> set (eligible_adapters P q at s)" "dict_get s bref = Some (a, sman)" "asks_for i q"
      "upper (in_provider_id i) = upper (de_provider_id (ia_descriptor a))" for a bref sman i
  proof -
    have reg: "registered P k a sm" if "dict_get s k = Some (a, sm)" for k sm using inv that unfolding registry_inv_def by blast
    obtain bref' sman' where g: "dict_get s bref' = Some (a, sman')" "matches_query q (sm_manifest sman')" using e(1) mem by blast
    have "binding_ref (ia_descriptor a) = bref'" "binding_ref (ia_descriptor a) = bref"
      using reg [OF g(1)] reg [OF e(2)] unfolding registered_def by blast+
    then have "bref' = bref" by simp
    then have "sman' = sman" using g(1) e(2) by simp
    moreover have "ia_descriptor a = cm_descriptor (sm_manifest sman)" using reg [OF e(2)] by (simp add: registered_def)
    ultimately show ?thesis using matches_validates [OF g(2) e(3)] e(4) by simp
  qed
  ultimately show ?thesis by (intro conjI allI impI) (blast+)
qed

section \<open>The bridge\<close>

lemma field_values: "bounded_text n v = Inr t \<Longrightarrow> v = PyStr t" "positive_amount n v = Inr k \<Longrightarrow> v = PyInt k"
  "currency_code n v = Inr t \<Longrightarrow> v = PyStr t"
  by (cases v; auto simp: bounded_text_def positive_amount_def currency_code_def split: if_splits)+

lemma request_roundtrip: "from_provider_request q = Inr i \<Longrightarrow> to_provider_request i = q"
  unfolding from_provider_request_def
  apply (elim rbind_InrE)
  apply (drule field_values(1) | drule field_values(2) | drule field_values(3))+
  by (auto simp: to_provider_request_def)

definition bridged :: "string \<Rightarrow> submission_result \<Rightarrow> submission_result" where
  \<comment> \<open>a result as the bridge passes it on\<close>
  "bridged bref v = v\<lparr>sv_rejection_disposition := (if sv_outcome v = OUT_REJECTED
        then Some (if sv_rejection_disposition v = Some REJ_RETRYABLE then REJ_RETRYABLE else REJ_TERMINAL) else None),
     sv_provider_context := [(''adapter_binding_ref'', bref)]\<rparr>"

definition covered :: "adapter_descriptor \<Rightarrow> capability_manifest \<Rightarrow> provider_request \<Rightarrow> bool" where
  \<comment> \<open>pinned to the adapter, well formed and within the manifest\<close>
  "covered d m q \<longleftrightarrow> pr_adapter_binding_ref q = PyStr (binding_ref d) \<and> (\<exists>i. from_provider_request q = Inr i \<and> plugin_validate m i = Inr ())"

lemma plugin_result: "new_institution_result (plugin_outcome v) (sv_code v) (sv_external_reference v)
       (if plugin_outcome v = ACCEPTED_FOR_PROCESSING then FIN_PROCESSING else FIN_NONE) = Inr r \<Longrightarrow> bridge_result bref r = bridged bref v"
  "\<exists>r. new_institution_result (plugin_outcome v) (sv_code v) (sv_external_reference v)
       (if plugin_outcome v = ACCEPTED_FOR_PROCESSING then FIN_PROCESSING else FIN_NONE) = Inr r"
  by (cases "sv_outcome v"; auto simp: new_institution_result_def plugin_outcome_def bridge_result_def bridged_def Let_def guard_res_def)+

lemma bridged_valid:
  assumes "sv_rejection_disposition v \<noteq> None \<longleftrightarrow> sv_outcome v = OUT_REJECTED"
  shows "bridged bref v = v\<lparr>sv_provider_context := [(''adapter_binding_ref'', bref)]\<rparr>"
proof (cases "sv_rejection_disposition v")
  case (Some d)
  then show ?thesis using assms by (cases d; cases v) (simp_all add: bridged_def)
qed (use assms in \<open>cases v; simp add: bridged_def\<close>)


section \<open>The configured adapter\<close>

definition sendable :: "generic_adapter \<Rightarrow> instruction \<Rightarrow> institution_http_request \<Rightarrow> bool" where
  \<comment> \<open>the instruction is within the manifest and \<open>q\<close> is its encoded and authenticated request\<close>
  "sendable g i q \<longleftrightarrow> generic_validate (ga_manifest g) i = Inr ()
     \<and> (\<exists>body. co_encode (ga_codec g) i = Inr body \<and> ga_authenticate g (submission_request g i body) = Inr q)"

definition undecided :: "generic_adapter \<Rightarrow> string res \<Rightarrow> bool" where
  \<comment> \<open>the transport failed, or the answer is unreadable or carries a code that is not configured\<close>
  "undecided g response \<longleftrightarrow>
     (case response of
        Inl e \<Rightarrow> exc_isa (exc_of e) InstitutionTransportError
      | Inr body \<Rightarrow> (case read_submission g body of
                       Inl e \<Rightarrow> unparseable e
                     | Inr (code, _) \<Rightarrow> dict_get (on_submission (ga_normalizer g)) (upper code) = None))"

lemma new_result_Inr:
  assumes "new_institution_result oc code reference (if oc = ACCEPTED_FOR_PROCESSING then FIN_PROCESSING else FIN_NONE) = Inr r"
  shows "ir_outcome r = oc" "ir_code r = code" "ir_external_reference r = reference" "oc \<noteq> CONFIRMED_SUCCESS"
    "finality_int (ir_finality r) \<le> finality_int FIN_PROCESSING"
  using assms by (auto simp: new_institution_result_def rbind_eq_Inr guard_res_eq_Inr split: if_splits)

lemma new_result_unknown: "new_institution_result OUTCOME_UNKNOWN code reference FIN_NONE
    = Inr \<lparr>ir_outcome = OUTCOME_UNKNOWN, ir_code = code, ir_external_reference = reference, ir_finality = FIN_NONE\<rparr>"
  by (simp add: new_institution_result_def guard_res_def)

lemma submission_answer_Inr:
  assumes "submission_answer g response = Inr r"
  shows "ir_outcome r \<noteq> CONFIRMED_SUCCESS" "finality_int (ir_finality r) \<le> finality_int FIN_PROCESSING"
    "ir_outcome r \<noteq> OUTCOME_UNKNOWN \<Longrightarrow> \<exists>body. response = Inr body \<and> read_submission g body = Inr (ir_code r, ir_external_reference r)
       \<and> dict_get (on_submission (ga_normalizer g)) (upper (ir_code r)) = Some (ir_outcome r)"
proof -
  consider "ir_outcome r = OUTCOME_UNKNOWN" "ir_finality r = FIN_NONE"
    | body code reference where "response = Inr body" "read_submission g body = Inr (code, reference)"
      "new_institution_result (submission_outcome (ga_normalizer g) code) code reference
         (if submission_outcome (ga_normalizer g) code = ACCEPTED_FOR_PROCESSING then FIN_PROCESSING else FIN_NONE) = Inr r"
    using assms by (auto simp: submission_answer_def new_result_unknown Let_def split: sum.splits if_splits)
  then have "ir_outcome r \<noteq> CONFIRMED_SUCCESS \<and> finality_int (ir_finality r) \<le> finality_int FIN_PROCESSING
    \<and> (ir_outcome r \<noteq> OUTCOME_UNKNOWN \<longrightarrow> (\<exists>body. response = Inr body \<and> read_submission g body = Inr (ir_code r, ir_external_reference r)
       \<and> dict_get (on_submission (ga_normalizer g)) (upper (ir_code r)) = Some (ir_outcome r)))"
  proof cases
    case (2 body code reference)
    then show ?thesis using new_result_Inr [OF 2(3)] by (auto simp: submission_outcome_def split: option.splits)
  qed simp
  then show "ir_outcome r \<noteq> CONFIRMED_SUCCESS" "finality_int (ir_finality r) \<le> finality_int FIN_PROCESSING"
    "ir_outcome r \<noteq> OUTCOME_UNKNOWN \<Longrightarrow> \<exists>body. response = Inr body \<and> read_submission g body = Inr (ir_code r, ir_external_reference r)
       \<and> dict_get (on_submission (ga_normalizer g)) (upper (ir_code r)) = Some (ir_outcome r)" by blast+
qed

lemma submission_answer_undecided: "undecided g response \<Longrightarrow> \<exists>r. submission_answer g response = Inr r \<and> ir_outcome r = OUTCOME_UNKNOWN"
  by (auto simp: undecided_def submission_answer_def new_result_unknown submission_outcome_def Let_def split: sum.splits option.splits)

lemma generic_submit_cases:
  assumes "generic_submit g i log = (x, log')"
  obtains e where "log' = log" "\<nexists>q. sendable g i q" "generic_validate (ga_manifest g) i \<noteq> Inr () \<longrightarrow> (\<exists>e. x = Inl e)"
      "x = submission_answer g (Inl e) \<or> x = Inl e"
    | q where "sendable g i q" "log' = log @ [q]" "x = submission_answer g (ga_send g log q)"
proof (cases "generic_validate (ga_manifest g) i")
  case (Inl e)
  then show thesis using assms that(1) [of e] by (auto simp: generic_submit_def sbind_def slift_def sendable_def)
next
  case v: (Inr u)
  show thesis
  proof (cases "co_encode (ga_codec g) i")
    case (Inl e)
    then show thesis using assms v that(1) [of e] by (auto simp: generic_submit_def sbind_def slift_def sendable_def)
  next
    case b: (Inr body)
    show thesis
    proof (cases "ga_authenticate g (submission_request g i body)")
      case (Inl e)
      then show thesis using assms v b that(1) [of e] by (auto simp: generic_submit_def exchange_def sbind_def slift_def sendable_def)
    next
      case (Inr q)
      then show thesis using assms v b that(2) [of q] by (auto simp: generic_submit_def exchange_def sbind_def slift_def sendable_def)
    qed
  qed
qed

text \<open>
  C38. The configured adapter never guesses and sends nothing outside its manifest.  A submission, whether it returns or
  raises, sends at most one request, and only after the instruction passed every check against the manifest and was
  encoded and authenticated: for an instruction outside the manifest the call raises and nothing is sent.  It reports acceptance or
  rejection only when the request was sent and the institution's answer carried a code that the configuration maps to exactly that
  outcome, and it never reports a confirmed success.  After a request was sent, a transport failure, an unreadable answer and a code
  that is not configured are an unknown outcome.\<close>

theorem generic_never_guesses:
  assumes "generic_submit g i log = (x, log')"
  shows "(log' = log \<or> (\<exists>q. sendable g i q \<and> log' = log @ [q]))
    \<and> (generic_validate (ga_manifest g) i \<noteq> Inr () \<longrightarrow> log' = log \<and> (\<exists>e. x = Inl e))
    \<and> (\<forall>r. x = Inr r \<longrightarrow> ir_outcome r \<noteq> CONFIRMED_SUCCESS \<and> finality_int (ir_finality r) \<le> finality_int FIN_PROCESSING
        \<and> (ir_outcome r \<noteq> OUTCOME_UNKNOWN \<longrightarrow>
            (\<exists>q body. sendable g i q \<and> log' = log @ [q] \<and> ga_send g log q = Inr body
              \<and> read_submission g body = Inr (ir_code r, ir_external_reference r)
              \<and> dict_get (on_submission (ga_normalizer g)) (upper (ir_code r)) = Some (ir_outcome r))))
    \<and> (\<forall>q. sendable g i q \<and> undecided g (ga_send g log q) \<longrightarrow> log' = log @ [q] \<and> (\<exists>r. x = Inr r \<and> ir_outcome r = OUTCOME_UNKNOWN))"
  using assms
proof (cases rule: generic_submit_cases)
  case (1 e)
  have "ir_outcome r = OUTCOME_UNKNOWN \<and> ir_finality r = FIN_NONE" if "x = Inr r" for r
    using that 1(4) by (auto simp: submission_answer_def new_result_unknown split: if_splits)
  then show ?thesis using 1 by auto
next
  case (2 q)
  have u: "p = q" if "sendable g i p" for p using that 2(1) by (auto simp: sendable_def)
  note ans = submission_answer_Inr [of g "ga_send g log q"] and und = submission_answer_undecided [of g "ga_send g log q"]
  have v: "generic_validate (ga_manifest g) i = Inr ()" using 2(1) by (simp add: sendable_def)
  have "\<exists>p body. sendable g i p \<and> log' = log @ [p] \<and> ga_send g log p = Inr body
      \<and> read_submission g body = Inr (ir_code r, ir_external_reference r)
      \<and> dict_get (on_submission (ga_normalizer g)) (upper (ir_code r)) = Some (ir_outcome r)"
    if "x = Inr r" "ir_outcome r \<noteq> OUTCOME_UNKNOWN" for r
    using ans(3) [OF 2(3) [symmetric, unfolded that(1)] that(2)] 2(1,2) by blast
  moreover have "ir_outcome r \<noteq> CONFIRMED_SUCCESS \<and> finality_int (ir_finality r) \<le> finality_int FIN_PROCESSING" if "x = Inr r" for r
    using ans(1,2) [OF 2(3) [symmetric, unfolded that]] by blast
  moreover have "log' = log @ [p] \<and> (\<exists>r. x = Inr r \<and> ir_outcome r = OUTCOME_UNKNOWN)" if "sendable g i p" "undecided g (ga_send g log p)" for p
    using und that(2) 2(2,3) u [OF that(1)] by auto
  ultimately show ?thesis using v 2(1,2) by blast
qed

end
