(* ===== verification/Mpesa_Institution.thy ===== *)
theory Mpesa_Institution
  imports Mpesa_Run Institution_Properties
begin

text \<open>
  The M-PESA adapter as an institution plug-in (\<^verbatim>\<open>railone_providers/mpesa_institution.py\<close>), and what happens to its
  callbacks behind the bridge.
\<close>

definition mpesa_descriptor :: adapter_descriptor where
  "mpesa_descriptor =
     \<lparr>de_adapter_id = ''railone.mpesa.ke.b2c'', de_adapter_version = ''1.0.0'', de_provider_id = ''MPESA-KE'',
      de_network_id = ''SAFARICOM-DARAJA-B2C'', de_environment = ENV_SANDBOX, de_transport = TR_HTTPS, de_message_standard = STD_JSON,
      de_auth_profile = AUTH_OAUTH2_CLIENT_CREDENTIALS, de_certification_status = CERT_CONFORMANCE, de_priority = 100\<rparr>"

definition mpesa_manifest :: "string list \<Rightarrow> string list \<Rightarrow> int \<Rightarrow> instant \<Rightarrow> capability_manifest res" where
  "mpesa_manifest sources destinations timeout_seconds instant =
     new_manifest
       \<lparr>cm_manifest_id = ''manifest.railone.mpesa.ke.b2c'', cm_manifest_version = 1, cm_descriptor = mpesa_descriptor,
        cm_source_institution_ids = sources, cm_destination_institution_ids = destinations, cm_source_countries = [''KE''],
        cm_destination_countries = [''KE''], cm_rails = [''MOBILE_MONEY''], cm_currencies_from = [''KES''], cm_currencies_to = [''KES''],
        cm_operations = [IOP_SUBMIT], cm_supports_idempotency = False, cm_supports_callbacks = False, cm_supports_active_status = False,
        cm_supports_reconciliation = False, cm_asserted_finality = FIN_PROCESSING, cm_min_amount_minor = 100,
        cm_max_amount_minor = 2500000000, cm_request_timeout_seconds = timeout_seconds, cm_issued_at = instant, cm_expires_at = instant\<rparr>
       (Aware instant) (Aware (instant + usec (30 * 86400)))"

definition mpesa_plugin ::
  "platform \<Rightarrow> mpesa_config \<Rightarrow> provider_submit \<Rightarrow> string list \<Rightarrow> string list \<Rightarrow> datetime \<Rightarrow> institution_adapter res" where
  \<comment> \<open>\<open>submit\<close> is the adapter's\<close>
  "mpesa_plugin P c submit sources destinations now =
     rbind (check_descriptor mpesa_descriptor) (\<lambda>_.
     rbind (mpesa_manifest sources destinations (mf_timeout_seconds c) (astimezone_utc P now)) (\<lambda>m.
     plugin mpesa_provider False submit mpesa_descriptor m))"

lemma mpesa_pluginD:
  assumes "mpesa_plugin P c submit sources destinations now = Inr a"
  obtains m where "plugin mpesa_provider False submit mpesa_descriptor m = Inr a"
    "a = \<lparr>ia_descriptor = mpesa_descriptor, ia_capabilities = m, ia_validate = plugin_validate m, ia_submit = plugin_submit submit m\<rparr>"
  using assms unfolding mpesa_plugin_def plugin_def by (auto simp: rbind_eq_Inr guard_res_eq_Inr)

lemma bridge_plugin_result:
  assumes "bridge_submit \<lparr>ia_descriptor = d, ia_capabilities = m, ia_validate = plugin_validate m, ia_submit = plugin_submit submit m\<rparr> q = Inr v"
  obtains v0 where "submit q = Inr v0" "v = bridged (binding_ref d) v0"
proof -
  obtain i r where i: "from_provider_request q = Inr i" "plugin_submit submit m i = Inr r" "v = bridge_result (binding_ref d) r"
    using assms by (auto simp: bridge_submit_def Let_def rbind_eq_Inr)
  then obtain v0 where v0: "submit q = Inr v0" "new_institution_result (plugin_outcome v0) (sv_code v0) (sv_external_reference v0)
       (if plugin_outcome v0 = ACCEPTED_FOR_PROCESSING then FIN_PROCESSING else FIN_NONE) = Inr r"
    by (auto simp: plugin_submit_def rbind_eq_Inr request_roundtrip)
  show thesis by (rule that [OF v0(1)]) (simp add: i(3) plugin_result(1) [OF v0(2)])
qed

lemma bridged_context:
  assumes "completed P ks svc r (bridged bref v0) at = Inr (r', event)"
  shows "dict_get (submission_context r') ''originator_conversation_id'' = None"
proof -
  have "sb_provider_context r' = [(''adapter_binding_ref'', bref)]"
    using assms unfolding completed_def Let_def by (auto simp: rbind_eq_Inr provider_context_def bridged_def)
  then show ?thesis by (simp add: submission_context_def)
qed

text \<open>
  C39. An M-PESA payment made through the plug-in cannot be confirmed.  When the M-PESA adapter behind the plug-in and
  the bridge accepts a payment and the coordinator records it, every callback that names its conversation, result
  or timeout, is refused with a correlation mismatch: the bridge has replaced the context that holds the
  originator identifier and the amount.\<close>

theorem bridged_mpesa_uncorrelated:
  assumes "mpesa_plugin P0 c (\<lambda>q. fst (mpesa_submit c credentials tr now q w)) sources destinations at0 = Inr a"
    and "bridge_submit a q = Inr v" "sv_outcome v = OUT_ACCEPTED" "completed P ks svc r v at = Inr (r', event)"
    and "find_by_external_reference mpesa_provider (mp_conversation_id n) ops = Some r'"
  shows "(\<exists>v0. fst (mpesa_submit c credentials tr now q w) = Inr v0 \<and> sv_outcome v0 = OUT_ACCEPTED \<and> sv_external_reference v0 = sb_external_reference r')
    \<and> correlate ops ct n = Inl (Raise PermissionError ''M-PESA callback correlation mismatch'')"
proof -
  obtain m where a: "a = \<lparr>ia_descriptor = mpesa_descriptor, ia_capabilities = m, ia_validate = plugin_validate m,
      ia_submit = plugin_submit (\<lambda>q. fst (mpesa_submit c credentials tr now q w)) m\<rparr>" using assms(1) by (rule mpesa_pluginD)
  obtain v0 where v0: "fst (mpesa_submit c credentials tr now q w) = Inr v0" "v = bridged (binding_ref mpesa_descriptor) v0"
    using assms(2) unfolding a by (rule bridge_plugin_result)
  have "sb_external_reference r' = sv_external_reference v" using assms(4) unfolding completed_def Let_def by (auto simp: rbind_eq_Inr)
  then show ?thesis
    using v0 assms(3,5) bridged_context [OF assms(4) [unfolded v0(2)]] by (simp add: correlate_def Let_def bridged_def)
qed

section \<open>A run\<close>

definition plug_request :: provider_request where
  "plug_request = pay_request\<lparr>pr_adapter_binding_ref := PyStr ''railone.mpesa.ke.b2c@1.0.0'', pr_request_sha256 := replicate 64 (CHR ''0'')\<rparr>"

definition plug_manifest :: capability_manifest where
  "plug_manifest =
       \<lparr>cm_manifest_id = ''manifest.railone.mpesa.ke.b2c'', cm_manifest_version = 1, cm_descriptor = mpesa_descriptor,
        cm_source_institution_ids = [''A''], cm_destination_institution_ids = [''B''], cm_source_countries = [''KE''],
        cm_destination_countries = [''KE''], cm_rails = [''MOBILE_MONEY''], cm_currencies_from = [''KES''], cm_currencies_to = [''KES''],
        cm_operations = [IOP_SUBMIT], cm_supports_idempotency = False, cm_supports_callbacks = False, cm_supports_active_status = False,
        cm_supports_reconciliation = False, cm_asserted_finality = FIN_PROCESSING, cm_min_amount_minor = 100,
        cm_max_amount_minor = 2500000000, cm_request_timeout_seconds = 15, cm_issued_at = 0, cm_expires_at = usec (30 * 86400)\<rparr>"

definition plug_adapter :: institution_adapter where
  "plug_adapter = \<lparr>ia_descriptor = mpesa_descriptor, ia_capabilities = plug_manifest, ia_validate = plugin_validate plug_manifest,
     ia_submit = plugin_submit (\<lambda>q. fst (mpesa_submit pay_config (Inr pay_credentials) pay_transport 0 q pay_world)) plug_manifest\<rparr>"

lemma plug_made: "mpesa_plugin demo_platform pay_config (\<lambda>q. fst (mpesa_submit pay_config (Inr pay_credentials) pay_transport 0 q pay_world))
    [''A''] [''B''] (Aware 0) = Inr plug_adapter"
proof -
  have d: "check_descriptor mpesa_descriptor = Inr ()" by code_simp
  have m: "mpesa_manifest [''A''] [''B''] 15 0 = Inr plug_manifest" by code_simp
  show ?thesis by (simp add: mpesa_plugin_def d m pay_config_def plugin_def plug_adapter_def astimezone_utc_def)
      (simp add: plug_manifest_def mpesa_descriptor_def mpesa_provider_def)
qed

lemma plug_plugin: "plugin mpesa_provider False (\<lambda>q. fst (mpesa_submit pay_config (Inr pay_credentials) pay_transport 0 q pay_world))
    mpesa_descriptor plug_manifest = Inr plug_adapter"
  by (simp add: plugin_def plug_adapter_def) (simp add: plug_manifest_def mpesa_descriptor_def mpesa_provider_def)

lemma plug_covered: "covered mpesa_descriptor plug_manifest plug_request"
proof -
  have "case from_provider_request plug_request of Inr i \<Rightarrow> plugin_validate plug_manifest i = Inr () | Inl e \<Rightarrow> False"
    "pr_adapter_binding_ref plug_request = PyStr (binding_ref mpesa_descriptor)" by code_simp+
  then show ?thesis unfolding covered_def by (auto split: sum.splits)
qed

lemma plug_paid: "fst (mpesa_submit pay_config (Inr pay_credentials) pay_transport 0 plug_request pay_world) = Inr pay_accepted"
proof -
  have "pr_amount_minor plug_request = pr_amount_minor pay_request" by (simp add: plug_request_def)
  then have "classify_result plug_request n r = classify_result pay_request n r" for n r by (simp only: classify_result_def)
  then have c: "classify_response plug_request r = classify_response pay_request r" for r by (simp only: classify_response_def)
  have p: "precheck_request plug_request = Inr (Payable 7 ''254712345678'')" by code_simp
  have pq: "payment_request pay_config cr plug_request 7 m t = payment_request pay_config cr pay_request 7 m t" for cr m t
    by (simp add: payment_request_def payment_payload_def plug_request_def)
  have "mpesa_submit pay_config (Inr pay_credentials) pay_transport 0 plug_request pay_world = mpesa_submit pay_config (Inr pay_credentials) pay_transport 0 pay_request pay_world"
    unfolding mpesa_submit_unfold c p pay_checked by (simp only: sum.case precheck.case pq)
  then show ?thesis using pay_run by simp
qed


theorem bridged_mpesa_uncorrelated_witness:
  "\<exists>r'. correlate \<lparr>op_submissions = [(''S'', r')], op_rtt_by_idempotency = [], op_outbox = []\<rparr> RESULT_CB pay_callback
     = Inl (Raise PermissionError ''M-PESA callback correlation mismatch'')"
proof -
  let ?v = "bridged (binding_ref mpesa_descriptor) pay_accepted"
  have b: "bridge_submit plug_adapter plug_request = Inr ?v"
    using plug_covered plug_paid unfolding covered_def by (auto simp: bridge_submit_def plug_adapter_def Let_def plugin_submit_def request_roundtrip
        plugin_outcome_def new_institution_result_def guard_res_def bridge_result_def bridged_def pay_accepted_def)
  have k: "can_sign demo_platform demo_keys (ss_event_signing_key_id pay_service) EXECUTION_SIGNING 0"
    by (simp add: can_sign_def pay_service_def permits_signing_at_def demo_key_def from_epoch_def)
  have c: "provider_context (sv_provider_context ?v) = Inr (sv_provider_context ?v)"
    "require_text ''provider result code'' (sv_code ?v) = Inr (sv_code ?v)" "outcome_state ?v = Inr (SUB_ACCEPTED, ''PROVIDER_SUBMISSION_ACCEPTED'')" by code_simp+
  have d: "plain (result_data ?v (upper (sv_code ?v)) (sv_provider_context ?v))" by (simp add: pay_accepted_def bridged_def result_data_def plain_obj opt_str_def)
  obtain r' event where r': "completed demo_platform demo_keys pay_service pay_record ?v 0 = Inr (r', event)"
    using submission_event_ok [OF k d] unfolding completed_def c Let_def by (auto simp: rbind_eq_Inr Let_def)
  then have x: "sb_provider_id r' = mpesa_provider" "sb_external_reference r' = Some ''C''"
    unfolding completed_def Let_def by (auto simp: rbind_eq_Inr pay_record_def mpesa_provider_def bridged_def pay_accepted_def)
  let ?ops = "\<lparr>op_submissions = [(''S'', r')], op_rtt_by_idempotency = [], op_outbox = []\<rparr>"
  have f: "find_by_external_reference mpesa_provider (mp_conversation_id pay_callback) ?ops = Some r'"
    by (simp add: find_by_external_reference_def x pay_callback_def)
  have o: "sv_outcome ?v = OUT_ACCEPTED" by (simp add: bridged_def pay_accepted_def)
  show ?thesis using bridged_mpesa_uncorrelated [OF plug_made b o r' f, of RESULT_CB] by blast
qed

lemma plug_signed:
  obtains sman where "verify_manifest demo_platform demo_keys sman = Inr ()" "sm_manifest sman = plug_manifest"
proof -
  have plain: "plain (manifest_payload plug_manifest)"
    by (simp add: manifest_payload_def plain_obj descriptor_payload_def)
  have "can_sign demo_platform demo_keys ''ke'' (purpose_by_artifact INSTITUTION_CAPABILITY_MANIFEST) 0"
    by (simp add: can_sign_def permits_signing_at_def demo_key_def from_epoch_def)
  from can_sign_ok [OF this plain] obtain env where
    e: "sign_artifact demo_platform demo_keys INSTITUTION_CAPABILITY_MANIFEST (manifest_payload plug_manifest) ''ke'' (Aware 0) = Inr env" by blast
  have v: "verify_artifact demo_platform demo_keys env (Some INSTITUTION_CAPABILITY_MANIFEST) False =
      Inr \<lparr>vr_valid = True, vr_reason = ''VALID'', vr_key_id = Some ''ke'', vr_artifact_type = Some INSTITUTION_CAPABILITY_MANIFEST\<rparr>"
    using signed_now_verifies [OF demo_correct demo_keys_inv, where n = 0] e by (simp add: from_epoch_def)
  have p: "env_payload env = freeze (manifest_payload plug_manifest)" "py_item (env_protected env) ''iat'' = Inr (PyInt 0)"
    using e by (auto elim!: sign_artifactD simp: protected_header_def py_item_def obj_def epoch_def astimezone_utc_def)
  have q: "py_eq (thaw (freeze (manifest_payload plug_manifest))) (manifest_payload plug_manifest)" by code_simp
  have "verify_manifest demo_platform demo_keys \<lparr>sm_manifest = plug_manifest, sm_signature = env\<rparr> = Inr ()"
    by (simp add: verify_manifest_def v p q py_int_def fromtimestamp_def from_epoch_def) (simp add: plug_manifest_def usec_def)
  then show thesis by (rule that) simp
qed

lemma plug_registry:
  obtains sman where "(registry_step demo_platform)\<^sup>*\<^sup>* [] [(binding_ref mpesa_descriptor, plug_adapter, sman)]" "sm_manifest sman = plug_manifest"
proof -
  obtain sman where v: "verify_manifest demo_platform demo_keys sman = Inr ()" "sm_manifest sman = plug_manifest" by (rule plug_signed)
  have q: "py_eq (manifest_payload plug_manifest) (manifest_payload plug_manifest)" by code_simp
  have "register demo_platform demo_keys plug_adapter sman [] = (Inr (), [(binding_ref mpesa_descriptor, plug_adapter, sman)])"
    using v q by (simp add: register_def sbind_def slift_def guard_res_def plug_adapter_def Let_def) (simp add: plug_manifest_def)
  then show thesis using that v(2) by (meson r_into_rtranclp register_step)
qed

lemma plug_resolved: "sm_manifest sman = plug_manifest \<Longrightarrow>
    resolve_binding demo_platform (binding_ref mpesa_descriptor) (Aware 5) [(binding_ref mpesa_descriptor, plug_adapter, sman)] = Inr plug_adapter"
  by (simp add: resolve_binding_def is_active_at_def astimezone_utc_def) (simp add: plug_manifest_def mpesa_descriptor_def usec_def)

theorem registry_pinned_witness:
  "\<exists>s sman. (registry_step demo_platform)\<^sup>*\<^sup>* [] s
     \<and> resolve_binding demo_platform (binding_ref mpesa_descriptor) (Aware 5) s = Inr plug_adapter
     \<and> registered demo_platform (binding_ref mpesa_descriptor) plug_adapter sman"
proof -
  obtain sman where s: "(registry_step demo_platform)\<^sup>*\<^sup>* [] [(binding_ref mpesa_descriptor, plug_adapter, sman)]" "sm_manifest sman = plug_manifest"
    by (rule plug_registry)
  from registry_pinned [OF s(1), THEN conjunct1] plug_resolved [OF s(2)] s(1) show ?thesis by blast
qed

definition plug_query :: eligibility_query where
  "plug_query = \<lparr>eq_source_institution_id = ''a'', eq_destination_institution_id = ''B'', eq_source_country = ''KE'', eq_destination_country = ''ke'',
     eq_rail = ''MOBILE_MONEY'', eq_currency_from = ''KES'', eq_currency_to = ''KES'', eq_amount_minor = 700\<rparr>"

theorem eligible_exact_witness:
  "\<exists>s. (registry_step demo_platform)\<^sup>*\<^sup>* [] s \<and> plug_adapter \<in> set (eligible_adapters demo_platform plug_query (Aware 5) s)"
proof -
  obtain sman where s: "(registry_step demo_platform)\<^sup>*\<^sup>* [] [(binding_ref mpesa_descriptor, plug_adapter, sman)]" "sm_manifest sman = plug_manifest"
    by (rule plug_registry)
  have m: "matches_query plug_query plug_manifest" by code_simp
  have "dict_get [(binding_ref mpesa_descriptor, plug_adapter, sman)] (binding_ref mpesa_descriptor) = Some (plug_adapter, sman)" by simp
  then have "plug_adapter \<in> set (eligible_adapters demo_platform plug_query (Aware 5) [(binding_ref mpesa_descriptor, plug_adapter, sman)])"
    using eligible_exact [OF s(1), of plug_query "Aware 5", THEN conjunct2, THEN conjunct2, THEN conjunct1] plug_resolved [OF s(2)] m s(2) by metis
  then show ?thesis using s(1) by blast
qed

definition plug_body :: string where
  "plug_body = flat (canon (obj [(''reference'', PyStr ''X''), (''status'', PyStr ''ok'')]))"

definition plug_generic :: generic_adapter where
  "plug_generic = \<lparr>ga_manifest = plug_manifest, ga_submit_url = ''https://b'', ga_status_url = (\<lambda>r. r), ga_timeout_seconds = 15,
     ga_outcome_field = ''status'', ga_external_reference_field = ''reference'', ga_codec = canonical_json_codec, ga_authenticate = Inr,
     ga_send = (\<lambda>log q. Inr plug_body),
     ga_normalizer = new_normalizer [(''ok'', ACCEPTED_FOR_PROCESSING)] [], ga_callback_verifier = None, ga_reconciles = False\<rparr>"

definition plug_instruction :: instruction where
  "plug_instruction = \<lparr>in_idempotency_key = ''K'', in_request_sha256 = [], in_utt_id = ''U'', in_rtt_id = ''R'', in_attempt_number = 1,
     in_provider_id = ''MPESA-KE'', in_adapter_binding_ref = ''a@1'', in_rail = ''MOBILE_MONEY'', in_amount_minor = 700, in_currency_from = ''KES'',
     in_receive_amount_minor = 700, in_currency_to = ''KES'', in_source_institution_id = ''A'', in_destination_institution_id = ''B'',
     in_payer_account_reference = ''p'', in_beneficiary_account_reference = ''b''\<rparr>"

definition plug_result :: institution_result where
  "plug_result = \<lparr>ir_outcome = ACCEPTED_FOR_PROCESSING, ir_code = ''OK'', ir_external_reference = Some ''X'', ir_finality = FIN_PROCESSING\<rparr>"

definition plug_http_request :: institution_http_request where
  "plug_http_request = submission_request plug_generic plug_instruction (flat (canon (wire_payload plug_instruction)))"

lemma plug_generic_run: "generic_submit plug_generic plug_instruction [] = (Inr plug_result, [plug_http_request])"
proof -
  have v: "generic_validate plug_manifest plug_instruction = Inr ()" by code_simp
  have "plain (wire_payload plug_instruction)" by (simp add: wire_payload_def plain_obj)
  then have e: "canonical_json_bytes (wire_payload plug_instruction) = Inr (flat (canon (wire_payload plug_instruction)))" by (simp add: canonical_plain)
  have k: "keys_ok (canon (obj [(''reference'', PyStr ''X''), (''status'', PyStr ''ok'')]))" by code_simp
  have "length plug_body \<le> 100" by code_simp
  then have l: "\<not> length plug_body > 1000000" by simp
  have d: "decode_json_object plug_body = Inr (obj [(''reference'', PyStr ''X''), (''status'', PyStr ''ok'')])"
    unfolding decode_json_object_def using l loads_flat [OF k] by (simp add: plug_body_def [symmetric]) (simp add: obj_def)
  have up: "upper ''ok'' = ''OK''" "upper ''OK'' = ''OK''" by code_simp+
  have "read_submission plug_generic plug_body = Inr (''OK'', Some ''X'')"
    by (simp add: read_submission_def d outcome_code_def response_reference_def plug_generic_def obj_def py_item_def py_get_def pget_def py_str_def up)
  moreover have "submission_outcome (ga_normalizer plug_generic) ''OK'' = ACCEPTED_FOR_PROCESSING" by code_simp
  ultimately have "submission_answer plug_generic (Inr plug_body) = Inr plug_result"
    by (simp add: submission_answer_def new_institution_result_def guard_res_def plug_result_def)
  moreover have "ga_manifest plug_generic = plug_manifest" "ga_codec plug_generic = canonical_json_codec" "ga_authenticate plug_generic = Inr"
    "ga_send plug_generic = (\<lambda>log q. Inr plug_body)" by (simp_all add: plug_generic_def)
  ultimately show ?thesis using v e
    by (simp add: generic_submit_def exchange_def sbind_def slift_def canonical_json_codec_def plug_http_request_def)
qed

definition plug_foreign :: instruction where
  "plug_foreign = plug_instruction\<lparr>in_currency_to := ''USD''\<rparr>"

theorem generic_never_guesses_witness:
  "generic_submit plug_generic plug_instruction [] = (Inr plug_result, [plug_http_request])
   \<and> dict_get (on_submission (ga_normalizer plug_generic)) (upper ''OK'') = Some ACCEPTED_FOR_PROCESSING
   \<and> (\<exists>e. generic_submit plug_generic plug_foreign [] = (Inl e, []))"
proof -
  have "generic_validate (ga_manifest plug_generic) plug_foreign \<noteq> Inr ()" by code_simp
  moreover obtain x log where r: "generic_submit plug_generic plug_foreign [] = (x, log)" by fastforce
  ultimately have "\<exists>e. generic_submit plug_generic plug_foreign [] = (Inl e, [])" using generic_never_guesses [OF r] by auto
  then show ?thesis using generic_never_guesses [OF plug_generic_run] plug_generic_run by (auto simp: plug_result_def)
qed

end
