(* ===== verification/Secret_Envelope.thy ===== *)
theory Secret_Envelope
  imports Mpesa_Callback Mpesa_Adapter
begin

text \<open>
  Encryption at rest (\<^verbatim>\<open>railone_security\<close>): envelope encryption with associated data, the providers of key-encryption
  keys, the store of encrypted secrets and the vaults on it, and the vault-backed M-PESA credentials
  (\<^verbatim>\<open>railone_providers/encrypted_credentials.py\<close>).

  AES-GCM is a parameter; \<open>aesgcm_correct\<close> states what its documentation promises of encryption followed by
  decryption.  The random data key and nonces are arguments.  Text is exact for ASCII.
\<close>

section \<open>AES-GCM and key providers\<close>

record aead =
  ae_encrypt :: "string \<Rightarrow> string \<Rightarrow> string \<Rightarrow> string \<Rightarrow> string"
  ae_decrypt :: "string \<Rightarrow> string \<Rightarrow> string \<Rightarrow> string \<Rightarrow> string option"

definition aesgcm_correct :: "aead \<Rightarrow> bool" where
  \<comment> \<open>decryption under the same key, nonce and associated data; the ciphertext carries a tag of 16 bytes\<close>
  "aesgcm_correct A \<longleftrightarrow> (\<forall>k n p a. length k = 32 \<longrightarrow> length n = 12 \<longrightarrow>
     ae_decrypt A k n (ae_encrypt A k n p a) a = Some p \<and> length (ae_encrypt A k n p a) = length p + 16)"

definition aesgcm_decrypt :: "aead \<Rightarrow> string \<Rightarrow> string \<Rightarrow> string \<Rightarrow> string \<Rightarrow> string res" where
  "aesgcm_decrypt A k n c a = (case ae_decrypt A k n c a of None \<Rightarrow> Inl (Raise InvalidTag []) | Some p \<Rightarrow> Inr p)"

record key_encryption =
  ke_wrap :: "string \<Rightarrow> string \<Rightarrow> string \<Rightarrow> string \<Rightarrow> string res"
  ke_unwrap :: "string \<Rightarrow> string \<Rightarrow> string \<Rightarrow> string res"

type_synonym kek_store = "(string, string) dict"

definition register_kek :: "string \<Rightarrow> string \<Rightarrow> (kek_store, unit) st" where
  "register_kek key_id key s =
     (if strip key_id = [] \<or> length key_id > 128 then (Inl (Raise ValueError ''key_id is invalid''), s)
      else if length key \<noteq> 32 then (Inl (Raise ValueError ''AES-256 KEK must contain exactly 32 bytes''), s)
      else if dict_has s key_id then (Inl (Raise ValueError ''key_id is already registered''), s)
      else (Inr (), dict_set key_id key s))"

definition require_kek :: "kek_store \<Rightarrow> string \<Rightarrow> string res" where
  "require_kek s key_id = (case dict_get s key_id of
     None \<Rightarrow> Inl (Raise LookupError (''encryption key is unavailable: '' @ key_id)) | Some k \<Rightarrow> Inr k)"

definition wrap_context :: "string \<Rightarrow> string" where
  "wrap_context context = ''RAILONE-DEK-WRAP-V1'' @ CHR 0x00 # context"

definition in_memory_wrap :: "aead \<Rightarrow> kek_store \<Rightarrow> string \<Rightarrow> string \<Rightarrow> string \<Rightarrow> string \<Rightarrow> string res" where
  "in_memory_wrap A s nonce key_id data_key context =
     rbind (guard_res (length data_key \<noteq> 32) ValueError ''AES-256 data key must contain exactly 32 bytes'') (\<lambda>_.
     rbind (require_kek s key_id) (\<lambda>k. Inr (nonce @ ae_encrypt A k nonce data_key (wrap_context context))))"

definition in_memory_unwrap :: "aead \<Rightarrow> kek_store \<Rightarrow> string \<Rightarrow> string \<Rightarrow> string \<Rightarrow> string res" where
  "in_memory_unwrap A s key_id wrapped_key context =
     rbind (guard_res (\<not> (40 \<le> length wrapped_key \<and> length wrapped_key \<le> 512)) ValueError ''wrapped data key is outside policy'') (\<lambda>_.
     rbind (require_kek s key_id) (\<lambda>k.
     rbind (aesgcm_decrypt A k (take 12 wrapped_key) (drop 12 wrapped_key) (wrap_context context)) (\<lambda>v.
     rbind (guard_res (length v \<noteq> 32) ValueError ''unwrapped data key is invalid'') (\<lambda>_. Inr v))))"

definition in_memory_keys :: "aead \<Rightarrow> kek_store \<Rightarrow> key_encryption" where
  "in_memory_keys A s = \<lparr>ke_wrap = in_memory_wrap A s, ke_unwrap = in_memory_unwrap A s\<rparr>"

definition remote_keys :: "(string \<Rightarrow> string \<Rightarrow> string \<Rightarrow> string res) \<Rightarrow> (string \<Rightarrow> string \<Rightarrow> string \<Rightarrow> string res) \<Rightarrow> key_encryption" where
  \<comment> \<open>\<^verbatim>\<open>RemoteKeyEncryptionProvider\<close> of a key service with these two calls\<close>
  "remote_keys wrap unwrap =
     \<lparr>ke_wrap = (\<lambda>nonce key_id data_key context.
        rbind (guard_res (length data_key \<noteq> 32) ValueError ''AES-256 data key must contain 32 bytes'') (\<lambda>_. wrap key_id data_key context)),
      ke_unwrap = (\<lambda>key_id wrapped_key context.
        rbind (unwrap key_id wrapped_key context) (\<lambda>v.
        rbind (guard_res (length v \<noteq> 32) ValueError ''isolated key service returned an invalid data key'') (\<lambda>_. Inr v)))\<rparr>"

section \<open>Envelopes\<close>

datatype encryption_purpose = ACCOUNT_ENDPOINT | CONTACT_DESTINATION | PROVIDER_CREDENTIAL | NOTIFICATION_BODY

fun encryption_purpose_value :: "encryption_purpose \<Rightarrow> string" where
  "encryption_purpose_value ACCOUNT_ENDPOINT = ''ACCOUNT_ENDPOINT''"
| "encryption_purpose_value CONTACT_DESTINATION = ''CONTACT_DESTINATION''"
| "encryption_purpose_value PROVIDER_CREDENTIAL = ''PROVIDER_CREDENTIAL''"
| "encryption_purpose_value NOTIFICATION_BODY = ''NOTIFICATION_BODY''"

definition encryption_purpose_of :: "string \<Rightarrow> encryption_purpose res" where
  "encryption_purpose_of s =
     (case find (\<lambda>p. encryption_purpose_value p = s) [ACCOUNT_ENDPOINT, CONTACT_DESTINATION, PROVIDER_CREDENTIAL, NOTIFICATION_BODY] of
        None \<Rightarrow> Inl (Raise ValueError ''not a valid EncryptionPurpose'') | Some p \<Rightarrow> Inr p)"

definition b64_strict :: "string \<Rightarrow> bool" where
  \<comment> \<open>what \<^verbatim>\<open>b64decode(s, altchars=b"-_", validate=True)\<close> accepts: whole quads, the last one possibly padded\<close>
  "b64_strict s \<longleftrightarrow>
     (let body = takeWhile (\<lambda>c. b64_value c \<noteq> None) s; pad = dropWhile (\<lambda>c. b64_value c \<noteq> None) s in
      pad = replicate ((4 - length body mod 4) mod 4) (CHR ''='') \<and> length body mod 4 \<noteq> 1)"

definition decode_base64url :: "string \<Rightarrow> string \<Rightarrow> nat \<Rightarrow> nat \<Rightarrow> string res" where
  "decode_base64url name v minimum maximum =
     rbind (guard_res (v = []) ValueError (name @ '' must be non-empty base64url text'')) (\<lambda>_.
     rbind (guard_res (length v > maximum * 4 div 3 + 8) ValueError (name @ '' exceeds the encoded size policy'')) (\<lambda>_.
     rbind (guard_res (\<not> b64_strict (v @ b64_padding (length v))) ValueError (name @ '' is not valid base64url'')) (\<lambda>_.
     rbind (b64url_decode v) (\<lambda>decoded.
     rbind (guard_res (\<not> (minimum \<le> length decoded \<and> length decoded \<le> maximum)) ValueError (name @ '' is outside the byte-length policy'')) (\<lambda>_.
     Inr decoded)))))"

fun fromhex_ok :: "string \<Rightarrow> bool" where
  \<comment> \<open>\<^verbatim>\<open>bytes.fromhex\<close> reads pairs of digits with white space between them\<close>
  "fromhex_ok [] = True"
| "fromhex_ok (c # cs) =
     (if is_space c then fromhex_ok cs
      else hex_digit_value c \<noteq> None \<and> (case cs of [] \<Rightarrow> False | d # ds \<Rightarrow> hex_digit_value d \<noteq> None \<and> fromhex_ok ds))"

record encrypted_envelope =
  en_version :: int
  en_algorithm :: string
  en_key_id :: string
  en_purpose :: encryption_purpose
  en_wrapped_data_key :: string
  en_nonce :: string
  en_ciphertext :: string
  en_aad_sha256 :: string

definition validate_envelope :: "encrypted_envelope \<Rightarrow> unit res" where
  "validate_envelope e =
     rbind (guard_res (en_version e \<noteq> 1 \<or> en_algorithm e \<noteq> ''A256GCM'') ValueError ''unsupported encrypted-envelope profile'') (\<lambda>_.
     rbind (guard_res (\<not> (1 \<le> length (en_key_id e) \<and> length (en_key_id e) \<le> 128)) ValueError ''encryption key_id is invalid'') (\<lambda>_.
     rbind (decode_base64url ''wrapped_data_key'' (en_wrapped_data_key e) 29 512) (\<lambda>_.
     rbind (decode_base64url ''nonce'' (en_nonce e) 12 12) (\<lambda>_.
     rbind (decode_base64url ''ciphertext'' (en_ciphertext e) 16 1048592) (\<lambda>_.
     rbind (guard_res (length (en_aad_sha256 e) \<noteq> 64) ValueError ''aad_sha256 must be a SHA-256 hex digest'') (\<lambda>_.
     guard_res (\<not> fromhex_ok (en_aad_sha256 e)) ValueError ''aad_sha256 must be hexadecimal''))))))"

definition encrypted_to_dict :: "encrypted_envelope \<Rightarrow> pyval res" where
  "encrypted_to_dict e =
     rbind (validate_envelope e) (\<lambda>_.
     Inr (obj [(''version'', PyInt (en_version e)), (''algorithm'', PyStr (en_algorithm e)), (''key_id'', PyStr (en_key_id e)),
       (''purpose'', PyStr (encryption_purpose_value (en_purpose e))), (''wrapped_data_key'', PyStr (en_wrapped_data_key e)),
       (''nonce'', PyStr (en_nonce e)), (''ciphertext'', PyStr (en_ciphertext e)), (''aad_sha256'', PyStr (en_aad_sha256 e))]))"

definition encrypted_fields :: "string list" where
  "encrypted_fields = [''version'', ''algorithm'', ''key_id'', ''purpose'', ''wrapped_data_key'', ''nonce'', ''ciphertext'', ''aad_sha256'']"

definition encrypted_of_fields :: "pyval \<Rightarrow> encrypted_envelope res" where
  \<comment> \<open>the \<^verbatim>\<open>try\<close> block\<close>
  "encrypted_of_fields v =
     rbind (rbind (py_item v ''version'') py_int) (\<lambda>version.
     rbind (rbind (py_item v ''algorithm'') py_str) (\<lambda>algorithm.
     rbind (rbind (py_item v ''key_id'') py_str) (\<lambda>key_id.
     rbind (rbind (rbind (py_item v ''purpose'') py_str) encryption_purpose_of) (\<lambda>purpose.
     rbind (rbind (py_item v ''wrapped_data_key'') py_str) (\<lambda>wrapped.
     rbind (rbind (py_item v ''nonce'') py_str) (\<lambda>nonce.
     rbind (rbind (py_item v ''ciphertext'') py_str) (\<lambda>ciphertext.
     rbind (rbind (py_item v ''aad_sha256'') py_str) (\<lambda>aad.
     Inr \<lparr>en_version = version, en_algorithm = algorithm, en_key_id = key_id, en_purpose = purpose, en_wrapped_data_key = wrapped,
          en_nonce = nonce, en_ciphertext = ciphertext, en_aad_sha256 = aad\<rparr>))))))))"

definition encrypted_from_dict :: "pyval \<Rightarrow> encrypted_envelope res" where
  "encrypted_from_dict v =
     (case v of
        PyDict kvs \<Rightarrow>
          if set (map fst kvs) \<noteq> PyStr ` set encrypted_fields then Inl (Raise ValueError ''encrypted envelope has an unexpected shape'')
          else (case encrypted_of_fields v of
             Inl e \<Rightarrow> if exc_isa (exc_of e) TypeError \<or> exc_isa (exc_of e) ValueError
                      then Inl (Raise ValueError ''encrypted envelope fields are invalid'') else Inl e
           | Inr envelope \<Rightarrow> rbind (validate_envelope envelope) (\<lambda>_. Inr envelope))
      | _ \<Rightarrow> Inl (Raise TypeError ''object is not a mapping''))"

section \<open>Encryption\<close>

record encryption_service =
  es_aead :: aead
  es_keys :: key_encryption
  es_active_key_ids :: "(encryption_purpose, string) dict"

definition new_encryption_service :: "aead \<Rightarrow> key_encryption \<Rightarrow> (encryption_purpose, string) dict \<Rightarrow> encryption_service res" where
  "new_encryption_service A keys active =
     (if \<exists>p\<in>set [ACCOUNT_ENDPOINT, CONTACT_DESTINATION, PROVIDER_CREDENTIAL, NOTIFICATION_BODY]. \<not> dict_has active p
      then Inl (Raise ValueError ''active encryption key mapping is incomplete'')
      else Inr \<lparr>es_aead = A, es_keys = keys, es_active_key_ids = active\<rparr>)"

record secret_label =
  \<comment> \<open>what a value is encrypted for\<close>
  la_purpose :: encryption_purpose
  la_record_id :: string
  la_owner_id :: string
  la_field_name :: string

definition context_values :: "secret_label \<Rightarrow> pyval" where
  "context_values l = obj [(''domain'', PyStr ''RAILONE-ENVELOPE-AAD-V1''), (''purpose'', PyStr (encryption_purpose_value (la_purpose l))),
     (''record_id'', PyStr (la_record_id l)), (''owner_id'', PyStr (la_owner_id l)), (''field_name'', PyStr (la_field_name l))]"

definition label_part :: "string \<Rightarrow> string \<Rightarrow> unit res" where
  "label_part name v = guard_res (strip v = [] \<or> length v > 256) ValueError (name @ '' is invalid'')"

definition encryption_context :: "secret_label \<Rightarrow> string res" where
  "encryption_context l =
     rbind (label_part ''record_id'' (la_record_id l)) (\<lambda>_.
     rbind (label_part ''owner_id'' (la_owner_id l)) (\<lambda>_.
     rbind (label_part ''field_name'' (la_field_name l)) (\<lambda>_.
     canonical_json_bytes (context_values l))))"

definition sha256_digest :: "string \<Rightarrow> string" where
  \<comment> \<open>\<^verbatim>\<open>hashlib.sha256(m).digest()\<close> as a byte string\<close>
  "sha256_digest m = map char_of (sha256_bytes m)"

record fresh_bytes =
  \<comment> \<open>what \<^verbatim>\<open>secrets.token_bytes\<close> returns during one encryption\<close>
  fb_data_key :: string
  fb_nonce :: string
  fb_wrap_nonce :: string

definition encrypt :: "encryption_service \<Rightarrow> fresh_bytes \<Rightarrow> secret_label \<Rightarrow> string \<Rightarrow> encrypted_envelope res" where
  "encrypt svc fresh l plaintext =
     rbind (guard_res (\<not> (1 \<le> length plaintext \<and> length plaintext \<le> 1048576)) ValueError ''sensitive plaintext is outside the size policy'') (\<lambda>_.
     rbind (encryption_context l) (\<lambda>context.
     case dict_get (es_active_key_ids svc) (la_purpose l) of
       None \<Rightarrow> Inl (Raise KeyError (encryption_purpose_value (la_purpose l)))
     | Some key_id \<Rightarrow>
         let ciphertext = ae_encrypt (es_aead svc) (fb_data_key fresh) (fb_nonce fresh) plaintext context in
         rbind (ke_wrap (es_keys svc) (fb_wrap_nonce fresh) key_id (fb_data_key fresh) (sha256_digest context)) (\<lambda>wrapped.
         let e = \<lparr>en_version = 1, en_algorithm = ''A256GCM'', en_key_id = key_id, en_purpose = la_purpose l,
                  en_wrapped_data_key = b64url_encode wrapped, en_nonce = b64url_encode (fb_nonce fresh),
                  en_ciphertext = b64url_encode ciphertext, en_aad_sha256 = sha256_hex context\<rparr> in
         rbind (validate_envelope e) (\<lambda>_. Inr e))))"

definition encrypt_text :: "encryption_service \<Rightarrow> fresh_bytes \<Rightarrow> secret_label \<Rightarrow> string \<Rightarrow> encrypted_envelope res" where
  "encrypt_text svc fresh l plaintext =
     rbind (guard_res (plaintext = []) ValueError ''sensitive plaintext must be non-empty text'') (\<lambda>_. encrypt svc fresh l plaintext)"

definition open_envelope :: "encryption_service \<Rightarrow> encrypted_envelope \<Rightarrow> string \<Rightarrow> string res" where
  \<comment> \<open>the \<^verbatim>\<open>try\<close> block of \<^verbatim>\<open>decrypt\<close>\<close>
  "open_envelope svc e context =
     rbind (decode_base64url ''wrapped_data_key'' (en_wrapped_data_key e) 29 512) (\<lambda>wrapped.
     rbind (decode_base64url ''nonce'' (en_nonce e) 12 12) (\<lambda>nonce.
     rbind (decode_base64url ''ciphertext'' (en_ciphertext e) 16 1048592) (\<lambda>ciphertext.
     rbind (ke_unwrap (es_keys svc) (en_key_id e) wrapped (sha256_digest context)) (\<lambda>data_key.
     aesgcm_decrypt (es_aead svc) data_key nonce ciphertext context))))"

definition decrypt :: "encryption_service \<Rightarrow> encrypted_envelope \<Rightarrow> secret_label \<Rightarrow> string res" where
  "decrypt svc e l =
     rbind (validate_envelope e) (\<lambda>_.
     rbind (guard_res (en_purpose e \<noteq> la_purpose l) EnvelopeIntegrityError ''encrypted value purpose mismatch'') (\<lambda>_.
     rbind (encryption_context l) (\<lambda>context.
     rbind (compare_digest (sha256_hex context) (en_aad_sha256 e)) (\<lambda>same.
     rbind (guard_res (\<not> same) EnvelopeIntegrityError ''encrypted value context mismatch'') (\<lambda>_.
     case open_envelope svc e context of
       Inr v \<Rightarrow> Inr v
     | Inl x \<Rightarrow> if exc_isa (exc_of x) InvalidTag \<or> exc_isa (exc_of x) ValueError \<or> exc_isa (exc_of x) LookupError
                then Inl (Raise EnvelopeIntegrityError ''encrypted value failed authentication'') else Inl x)))))"

definition decrypt_text :: "encryption_service \<Rightarrow> encrypted_envelope \<Rightarrow> secret_label \<Rightarrow> string res" where
  "decrypt_text svc e l =
     rbind (decrypt svc e l) (\<lambda>v.
     if \<exists>c\<in>set v. (of_char c :: nat) \<ge> 128 then Inl (Raise OtherException ''text outside ASCII'') else Inr v)"

section \<open>The store\<close>

record secret_record =
  se_vault_name :: string
  se_record_id :: string
  se_owner_id :: string
  se_envelope :: encrypted_envelope
  se_plaintext_sha256 :: string

type_synonym secret_store = "(string \<times> string, secret_record) dict"

definition put_secret :: "secret_record \<Rightarrow> (secret_store, secret_record) st" where
  "put_secret r s =
     (let key = (se_vault_name r, se_record_id r) in
      case dict_get s key of
        Some existing \<Rightarrow> if existing \<noteq> r then (Inl (Raise RuntimeError ''encrypted secret immutability conflict''), s) else (Inr existing, s)
      | None \<Rightarrow> (Inr r, dict_set key r s))"

definition require_secret :: "string \<Rightarrow> string \<Rightarrow> secret_store \<Rightarrow> secret_record res" where
  "require_secret vault_name record_id s =
     (case dict_get s (vault_name, record_id) of None \<Rightarrow> Inl (Raise LookupError ''encrypted secret was not found'') | Some r \<Rightarrow> Inr r)"

definition keep_secret ::
  "encryption_service \<Rightarrow> fresh_bytes \<Rightarrow> string \<Rightarrow> secret_label \<Rightarrow> string \<Rightarrow> (secret_store, unit) st" where
  \<comment> \<open>what the three vaults' \<^verbatim>\<open>register\<close> share: encrypt and store\<close>
  "keep_secret svc fresh vault l plaintext =
     sbind (slift (encrypt_text svc fresh l plaintext)) (\<lambda>envelope.
     sbind (put_secret \<lparr>se_vault_name = vault, se_record_id = la_record_id l, se_owner_id = la_owner_id l, se_envelope = envelope,
              se_plaintext_sha256 = sha256_hex plaintext\<rparr>) (\<lambda>_. sret ()))"

section \<open>Vaults\<close>

definition pair_record_id :: "string \<Rightarrow> string \<Rightarrow> string \<Rightarrow> string res" where
  \<comment> \<open>\<^verbatim>\<open>_record_id\<close> of the account and the credential vault\<close>
  "pair_record_id msg a b = (if strip a = [] \<or> strip b = [] then Inl (Raise ValueError msg) else Inr (a @ '':'' @ b))"

definition endpoint_label :: "string \<Rightarrow> string \<Rightarrow> secret_label" where
  "endpoint_label record_id institution_id =
     \<lparr>la_purpose = ACCOUNT_ENDPOINT, la_record_id = record_id, la_owner_id = institution_id, la_field_name = ''provider_account_reference''\<rparr>"

definition register_account_endpoint :: "encryption_service \<Rightarrow> fresh_bytes \<Rightarrow> string \<Rightarrow> string \<Rightarrow> string \<Rightarrow> (secret_store, unit) st" where
  "register_account_endpoint svc fresh institution_id account_binding_id provider_reference =
     sbind (slift (pair_record_id ''institution and account binding identifiers are required'' institution_id account_binding_id)) (\<lambda>record_id.
     keep_secret svc fresh ''ACCOUNT_ENDPOINT'' (endpoint_label record_id institution_id) provider_reference)"

definition resolve_account_endpoint :: "encryption_service \<Rightarrow> string \<Rightarrow> string \<Rightarrow> secret_store \<Rightarrow> string res" where
  "resolve_account_endpoint svc institution_id account_binding_id s =
     rbind (pair_record_id ''institution and account binding identifiers are required'' institution_id account_binding_id) (\<lambda>record_id.
     rbind (require_secret ''ACCOUNT_ENDPOINT'' record_id s) (\<lambda>r.
     rbind (guard_res (se_owner_id r \<noteq> institution_id) PermissionError ''account endpoint owner mismatch'') (\<lambda>_.
     decrypt_text svc (se_envelope r) (endpoint_label record_id institution_id))))"

definition contact_label :: "string \<Rightarrow> string \<Rightarrow> secret_label" where
  "contact_label contact_binding_id owner_id =
     \<lparr>la_purpose = CONTACT_DESTINATION, la_record_id = contact_binding_id, la_owner_id = owner_id, la_field_name = ''sms_destination''\<rparr>"

definition register_contact :: "encryption_service \<Rightarrow> fresh_bytes \<Rightarrow> string \<Rightarrow> string \<Rightarrow> string \<Rightarrow> (secret_store, unit) st" where
  "register_contact svc fresh contact_binding_id owner_id sms_destination =
     keep_secret svc fresh ''CONTACT_DESTINATION'' (contact_label contact_binding_id owner_id) sms_destination"

definition resolve_sms_destination :: "encryption_service \<Rightarrow> string \<Rightarrow> secret_store \<Rightarrow> string res" where
  "resolve_sms_destination svc contact_binding_id s =
     rbind (require_secret ''CONTACT_DESTINATION'' contact_binding_id s) (\<lambda>r.
     decrypt_text svc (se_envelope r) (contact_label contact_binding_id (se_owner_id r)))"

definition credential_label :: "string \<Rightarrow> string \<Rightarrow> string \<Rightarrow> secret_label" where
  "credential_label record_id provider_id credential_name =
     \<lparr>la_purpose = PROVIDER_CREDENTIAL, la_record_id = record_id, la_owner_id = provider_id, la_field_name = credential_name\<rparr>"

definition register_credential :: "encryption_service \<Rightarrow> fresh_bytes \<Rightarrow> string \<Rightarrow> string \<Rightarrow> string \<Rightarrow> (secret_store, unit) st" where
  "register_credential svc fresh provider_id credential_name secret =
     sbind (slift (pair_record_id ''provider and credential identifiers are required'' provider_id credential_name)) (\<lambda>record_id.
     keep_secret svc fresh ''PROVIDER_CREDENTIAL'' (credential_label record_id provider_id credential_name) secret)"

definition resolve_credential :: "encryption_service \<Rightarrow> string \<Rightarrow> string \<Rightarrow> secret_store \<Rightarrow> string res" where
  "resolve_credential svc provider_id credential_name s =
     rbind (pair_record_id ''provider and credential identifiers are required'' provider_id credential_name) (\<lambda>record_id.
     rbind (require_secret ''PROVIDER_CREDENTIAL'' record_id s) (\<lambda>r.
     rbind (guard_res (se_owner_id r \<noteq> provider_id) PermissionError ''provider credential owner mismatch'') (\<lambda>_.
     decrypt_text svc (se_envelope r) (credential_label record_id provider_id credential_name))))"

definition body_label :: "string \<Rightarrow> string \<Rightarrow> secret_label" where
  "body_label notification_id utt_id =
     \<lparr>la_purpose = NOTIFICATION_BODY, la_record_id = notification_id, la_owner_id = utt_id, la_field_name = ''rendered_body''\<rparr>"

definition protect_body :: "encryption_service \<Rightarrow> fresh_bytes \<Rightarrow> string \<Rightarrow> string \<Rightarrow> string \<Rightarrow> encrypted_envelope res" where
  "protect_body svc fresh notification_id utt_id body = encrypt_text svc fresh (body_label notification_id utt_id) body"

definition reveal_body :: "encryption_service \<Rightarrow> string \<Rightarrow> string \<Rightarrow> encrypted_envelope \<Rightarrow> string \<Rightarrow> string res" where
  "reveal_body svc notification_id utt_id envelope expected_sha256 =
     rbind (decrypt_text svc envelope (body_label notification_id utt_id)) (\<lambda>body.
     rbind (guard_res (sha256_hex body \<noteq> expected_sha256) EnvelopeIntegrityError ''notification body fingerprint mismatch'') (\<lambda>_.
     Inr body))"

definition mpesa_references :: "(string, string) dict \<Rightarrow> (string, string) dict res" where
  \<comment> \<open>\<^verbatim>\<open>EncryptedMpesaCredentialProvider.__init__\<close>: the credential name of each field\<close>
  "mpesa_references overrides =
     (let defaults = map (\<lambda>f. (f, f)) [''consumer_key'', ''consumer_secret'', ''initiator_name'', ''security_credential'', ''business_shortcode''];
          references = fold (\<lambda>(k, v). dict_set k v) overrides defaults in
      if set (map fst references) \<noteq> set (map fst defaults) then Inl (Raise ValueError ''M-PESA credential reference mapping is invalid'')
      else Inr references)"

definition encrypted_mpesa_credentials :: "encryption_service \<Rightarrow> (string, string) dict \<Rightarrow> secret_store \<Rightarrow> mpesa_credentials res" where
  \<comment> \<open>\<^verbatim>\<open>EncryptedMpesaCredentialProvider.get\<close>\<close>
  "encrypted_mpesa_credentials svc references s =
     (let value = (\<lambda>field. case dict_get references field of
          None \<Rightarrow> Inl (Raise KeyError field) | Some name \<Rightarrow> resolve_credential svc mpesa_provider name s) in
      rbind (value ''consumer_key'') (\<lambda>key.
      rbind (value ''consumer_secret'') (\<lambda>secret.
      rbind (value ''initiator_name'') (\<lambda>initiator.
      rbind (value ''security_credential'') (\<lambda>security.
      rbind (value ''business_shortcode'') (\<lambda>shortcode.
      Inr \<lparr>mc_consumer_key = key, mc_consumer_secret = secret, mc_initiator_name = initiator, mc_security_credential = security,
           mc_business_shortcode = shortcode\<rparr>))))))"

end
