(* ===== verification/Secret_Properties.thy ===== *)
theory Secret_Properties
  imports Secret_Envelope Token_Properties
begin

text \<open>
  What encryption at rest guarantees: an envelope opens only for the record it was made for, and the vaults resolve
  exactly what was registered.
\<close>

section \<open>Encoded parts\<close>

lemma b64_digits_length: "3 * length (b64_digits bs) \<le> 4 * length bs + 2" "length (b64_digits bs) mod 4 \<noteq> 1" "bs \<noteq> [] \<Longrightarrow> b64_digits bs \<noteq> []"
proof -
  show "3 * length (b64_digits bs) \<le> 4 * length bs + 2" by (induction bs rule: b64_digits.induct) auto
  show "length (b64_digits bs) mod 4 \<noteq> 1"
  proof (induction bs rule: b64_digits.induct)
    case (4 a b c r)
    have "length (b64_digits (a # b # c # r)) mod 4 = length (b64_digits r) mod 4" by simp
    then show ?case using 4 by simp
  qed auto
  show "bs \<noteq> [] \<Longrightarrow> b64_digits bs \<noteq> []" by (cases bs rule: b64_digits.cases) auto
qed

lemma b64_encode_value: "c \<in> set (b64url_encode x) \<Longrightarrow> b64_value c \<noteq> None"
proof -
  assume "c \<in> set (b64url_encode x)"
  then obtain v where v: "v \<in> set (b64_digits (map of_char x))" "c = b64_char v" by (auto simp: b64url_encode_def)
  have "\<forall>b\<in>set (map of_char x). b < (256::nat)" by auto
  from b64_digits_bound [OF this v(1)] show ?thesis by (simp add: v(2))
qed

lemma b64_strict_encode: "b64_strict (b64url_encode x @ b64_padding (length (b64url_encode x)))"
proof -
  let ?e = "b64url_encode x"
  have p: "b64_value (CHR ''='') = None" by (simp add: b64_value_def)
  have e: "\<forall>c\<in>set ?e. b64_value c \<noteq> None" using b64_encode_value by blast
  have "takeWhile (\<lambda>c. b64_value c \<noteq> None) (?e @ b64_padding (length ?e)) = ?e"
    "dropWhile (\<lambda>c. b64_value c \<noteq> None) (?e @ b64_padding (length ?e)) = b64_padding (length ?e)"
    using e p takeWhile_append2 [of ?e "\<lambda>c. b64_value c \<noteq> None"] dropWhile_append2 [of ?e "\<lambda>c. b64_value c \<noteq> None"]
    by (simp_all add: b64_padding_def)
  moreover have "length ?e mod 4 \<noteq> 1" using b64_digits_length(2) by (simp add: b64url_encode_def)
  ultimately show ?thesis by (simp add: b64_strict_def Let_def b64_padding_def)
qed

lemma decode_encoded:
  assumes "1 \<le> lo" "lo \<le> length x" "length x \<le> hi"
  shows "decode_base64url name (b64url_encode x) lo hi = Inr x"
proof -
  have "b64url_encode x \<noteq> []" using assms(1,2) b64_digits_length(3) [of "map of_char x"] by (cases x) (auto simp: b64url_encode_def)
  moreover have "3 * length (b64url_encode x) \<le> 4 * length x + 2" using b64_digits_length(1) [of "map of_char x"] by (simp add: b64url_encode_def)
  then have "\<not> length (b64url_encode x) > hi * 4 div 3 + 8" using assms(3) by linarith
  ultimately show ?thesis using b64_strict_encode assms by (simp add: decode_base64url_def)
qed

lemma fromhex_text: "hex_text s \<Longrightarrow> even (length s) \<Longrightarrow> fromhex_ok s"
proof (induction s rule: fromhex_ok.induct)
  case (2 c cs)
  have h: "hex_digit_value d \<noteq> None \<and> \<not> is_space d" if "d \<in> set ''0123456789abcdef''" for d
    using that by (auto simp: hex_digit_value_def is_space_def)
  show ?case
  proof (cases cs)
    case Nil
    then show ?thesis using 2 by simp
  next
    case (Cons d ds)
    then show ?thesis using 2 h by (auto simp: hex_text_def)
  qed
qed simp

section \<open>Envelopes\<close>

definition key_service_correct :: "key_encryption \<Rightarrow> bool" where
  \<comment> \<open>unwrapping returns the data key that was wrapped\<close>
  "key_service_correct K \<longleftrightarrow> (\<forall>n k d c w. length n = 12 \<longrightarrow> length d = 32 \<longrightarrow> ke_wrap K n k d c = Inr w \<longrightarrow> ke_unwrap K k w c = Inr d)"

lemma in_memory_correct:
  assumes "aesgcm_correct A" "\<forall>k v. dict_get s k = Some v \<longrightarrow> length v = 32"
  shows "key_service_correct (in_memory_keys A s)"
proof -
  have "in_memory_unwrap A s k w c = Inr d" if ln: "length n = 12" and ld: "length d = 32" and wr: "in_memory_wrap A s n k d c = Inr w" for n k d c w
  proof -
    obtain kek where k: "dict_get s k = Some kek" "w = n @ ae_encrypt A kek n d (wrap_context c)"
      using wr by (auto simp: in_memory_wrap_def rbind_eq_Inr require_kek_def split: option.splits)
    have "length kek = 32" using k(1) assms(2) by blast
    then have "ae_decrypt A kek n (ae_encrypt A kek n d (wrap_context c)) (wrap_context c) = Some d" "length (ae_encrypt A kek n d (wrap_context c)) = 48"
      using assms(1) ln ld by (simp_all add: aesgcm_correct_def)
    then show ?thesis using k ln ld by (simp add: in_memory_unwrap_def require_kek_def aesgcm_decrypt_def)
  qed
  then show ?thesis by (simp add: key_service_correct_def in_memory_keys_def)
qed

lemma register_kek_ok: "\<forall>k v. dict_get s k = Some v \<longrightarrow> length v = 32 \<Longrightarrow> register_kek i key s = (x, s') \<Longrightarrow> \<forall>k v. dict_get s' k = Some v \<longrightarrow> length v = 32"
  by (auto simp: register_kek_def split: if_splits)

definition fresh_ok :: "fresh_bytes \<Rightarrow> bool" where
  "fresh_ok f \<longleftrightarrow> length (fb_data_key f) = 32 \<and> length (fb_nonce f) = 12 \<and> length (fb_wrap_nonce f) = 12"

definition service_ok :: "encryption_service \<Rightarrow> bool" where
  "service_ok svc \<longleftrightarrow> aesgcm_correct (es_aead svc) \<and> key_service_correct (es_keys svc)"

lemma encryptD:
  assumes "encrypt svc fresh l p = Inr e"
  obtains ctx key_id wrapped where "encryption_context l = Inr ctx" "1 \<le> length p" "length p \<le> 1048576"
    "ke_wrap (es_keys svc) (fb_wrap_nonce fresh) key_id (fb_data_key fresh) (sha256_digest ctx) = Inr wrapped"
    "e = \<lparr>en_version = 1, en_algorithm = ''A256GCM'', en_key_id = key_id, en_purpose = la_purpose l,
          en_wrapped_data_key = b64url_encode wrapped, en_nonce = b64url_encode (fb_nonce fresh),
          en_ciphertext = b64url_encode (ae_encrypt (es_aead svc) (fb_data_key fresh) (fb_nonce fresh) p ctx), en_aad_sha256 = sha256_hex ctx\<rparr>"
    "validate_envelope e = Inr ()"
  using assms unfolding encrypt_def Let_def by (auto simp: rbind_eq_Inr guard_res_eq_Inr split: option.splits)

lemma compare_digest_sha: "compare_digest (sha256_hex a) (sha256_hex b) = Inr (sha256_hex a = sha256_hex b)"
proof -
  have "(of_char c :: nat) < 128" if "c \<in> set (sha256_hex m)" for c m
    using that sha256_hex_text [of m] hex_char(3) unfolding hex_text_def by blast
  then have "\<not> (\<exists>c\<in>set (sha256_hex a @ sha256_hex b). (of_char c :: nat) \<ge> 128)" by (metis Un_iff not_le set_append)
  then show ?thesis by (simp add: compare_digest_def)
qed

lemma wrapped_length: "decode_base64url name (b64url_encode w) lo hi = Inr v \<Longrightarrow> v = w"
  by (auto simp: decode_base64url_def rbind_eq_Inr)

lemma decrypt_encrypted:
  assumes "service_ok svc" "fresh_ok fresh" "encrypt svc fresh l p = Inr e"
  shows "decrypt svc e l = Inr p"
proof -
  obtain ctx key_id wrapped where c: "encryption_context l = Inr ctx" "1 \<le> length p" "length p \<le> 1048576"
    "ke_wrap (es_keys svc) (fb_wrap_nonce fresh) key_id (fb_data_key fresh) (sha256_digest ctx) = Inr wrapped"
    and e: "e = \<lparr>en_version = 1, en_algorithm = ''A256GCM'', en_key_id = key_id, en_purpose = la_purpose l,
          en_wrapped_data_key = b64url_encode wrapped, en_nonce = b64url_encode (fb_nonce fresh),
          en_ciphertext = b64url_encode (ae_encrypt (es_aead svc) (fb_data_key fresh) (fb_nonce fresh) p ctx), en_aad_sha256 = sha256_hex ctx\<rparr>"
    and v: "validate_envelope e = Inr ()" using assms(3) by (rule encryptD)
  have f: "length (fb_data_key fresh) = 32" "length (fb_nonce fresh) = 12" "length (fb_wrap_nonce fresh) = 12" using assms(2) by (simp_all add: fresh_ok_def)
  have u: "ke_unwrap (es_keys svc) key_id wrapped (sha256_digest ctx) = Inr (fb_data_key fresh)"
    using assms(1) f c(4) unfolding service_ok_def key_service_correct_def by blast
  have a: "ae_decrypt (es_aead svc) (fb_data_key fresh) (fb_nonce fresh) (ae_encrypt (es_aead svc) (fb_data_key fresh) (fb_nonce fresh) p ctx) ctx = Some p"
    "length (ae_encrypt (es_aead svc) (fb_data_key fresh) (fb_nonce fresh) p ctx) = length p + 16"
    using assms(1) f unfolding service_ok_def aesgcm_correct_def by simp_all
  obtain w where w: "decode_base64url ''wrapped_data_key'' (en_wrapped_data_key e) 29 512 = Inr w"
    using v unfolding validate_envelope_def by (elim rbind_InrE)
  then have ww: "w = wrapped" using wrapped_length by (simp add: e)
  have d: "decode_base64url ''nonce'' (en_nonce e) 12 12 = Inr (fb_nonce fresh)"
    "decode_base64url ''ciphertext'' (en_ciphertext e) 16 1048592 = Inr (ae_encrypt (es_aead svc) (fb_data_key fresh) (fb_nonce fresh) p ctx)"
    unfolding e using decode_encoded f(2) a(2) c(3) by simp_all
  have "open_envelope svc e ctx = Inr p" unfolding open_envelope_def w d ww using u a(1) by (simp add: e aesgcm_decrypt_def)
  then show ?thesis using v c(1) compare_digest_sha by (simp add: decrypt_def) (simp add: e compare_digest_sha)
qed

lemma context_injective:
  assumes "encryption_context l = Inr c" "encryption_context l' = Inr c"
  shows "l = l'"
proof -
  have cb: "canonical_json_bytes (context_values l) = Inr c" "canonical_json_bytes (context_values l') = Inr c"
    using assms by (auto simp: encryption_context_def rbind_eq_Inr)
  have "norm_json (context_values l) = norm_json (context_values l')" using canonical_injective [OF cb] by simp
  then have eq: "pget (norm_json (context_values l)) k = pget (norm_json (context_values l')) k" for k by simp
  have plain: "plain (context_values x)" for x by (simp add: context_values_def plain_obj)
  have g: "pget (norm_json (context_values x)) ''purpose'' = Some (PyStr (encryption_purpose_value (la_purpose x)))"
    "pget (norm_json (context_values x)) ''record_id'' = Some (PyStr (la_record_id x))"
    "pget (norm_json (context_values x)) ''owner_id'' = Some (PyStr (la_owner_id x))"
    "pget (norm_json (context_values x)) ''field_name'' = Some (PyStr (la_field_name x))" for x
    using pget_norm [OF plain [of x, unfolded context_values_def]] by (simp_all add: context_values_def)
  have "encryption_purpose_value p = encryption_purpose_value q \<Longrightarrow> p = q" for p q by (cases p; cases q) auto
  then show ?thesis using eq [of "''purpose''"] eq [of "''record_id''"] eq [of "''owner_id''"] eq [of "''field_name''"] unfolding g by simp
qed

text \<open>
  C30. An envelope opens only for its own record.  What was encrypted for a purpose, record, owner and field decrypts
  to exactly that text under the same label; under any other label decryption raises, unless SHA-256 collides on
  the two associated-data texts.\<close>

theorem envelope_bound:
  assumes "aesgcm_correct (es_aead svc)" "key_service_correct (es_keys svc)" "fresh_ok fresh" "encrypt svc fresh l p = Inr e"
  shows "decrypt svc e l = Inr p
    \<and> (\<forall>l'. l' \<noteq> l \<longrightarrow> (\<exists>x. decrypt svc e l' = Inl x) \<or>
         (\<exists>c c'. encryption_context l = Inr c \<and> encryption_context l' = Inr c' \<and> c \<noteq> c' \<and> sha256_hex c = sha256_hex c'))"
proof -
  have ok: "service_ok svc" using assms(1,2) by (simp add: service_ok_def)
  have "(\<exists>c c'. encryption_context l = Inr c \<and> encryption_context l' = Inr c' \<and> c \<noteq> c' \<and> sha256_hex c = sha256_hex c')"
    if ne: "l' \<noteq> l" and dec: "decrypt svc e l' = Inr v" for l' v
  proof -
    obtain c where c: "encryption_context l = Inr c" "en_aad_sha256 e = sha256_hex c" using assms(4) by (auto elim!: encryptD)
    obtain c' where c': "encryption_context l' = Inr c'" "sha256_hex c' = sha256_hex c"
      using dec unfolding decrypt_def by (auto simp: rbind_eq_Inr guard_res_eq_Inr c(2) compare_digest_sha)
    have "c \<noteq> c'" using context_injective [of l c l'] c(1) c'(1) ne by auto
    then show ?thesis using c(1) c' by force
  qed
  then show ?thesis using decrypt_encrypted [OF ok assms(3,4)] by (metis sum.exhaust)
qed

section \<open>Vaults\<close>

datatype secret_entry =
    Endpoint string string string
  | Contact string string string
  | Credential string string string

fun entry_vault :: "secret_entry \<Rightarrow> string" where
  "entry_vault (Endpoint _ _ _) = ''ACCOUNT_ENDPOINT''"
| "entry_vault (Contact _ _ _) = ''CONTACT_DESTINATION''"
| "entry_vault (Credential _ _ _) = ''PROVIDER_CREDENTIAL''"

fun entry_label :: "secret_entry \<Rightarrow> secret_label" where
  "entry_label (Endpoint i b _) = endpoint_label (i @ '':'' @ b) i"
| "entry_label (Contact c w _) = contact_label c w"
| "entry_label (Credential p n _) = credential_label (p @ '':'' @ n) p n"

fun entry_text :: "secret_entry \<Rightarrow> string" where
  "entry_text (Endpoint _ _ v) = v"
| "entry_text (Contact _ _ v) = v"
| "entry_text (Credential _ _ v) = v"

fun entry_named :: "secret_entry \<Rightarrow> bool" where
  "entry_named (Endpoint i b _) \<longleftrightarrow> strip i \<noteq> [] \<and> strip b \<noteq> []"
| "entry_named (Contact _ _ _) \<longleftrightarrow> True"
| "entry_named (Credential p n _) \<longleftrightarrow> strip p \<noteq> [] \<and> strip n \<noteq> []"

inductive vault_step :: "encryption_service \<Rightarrow> secret_store \<times> secret_entry list \<Rightarrow> secret_store \<times> secret_entry list \<Rightarrow> bool" for svc where
  step_endpoint: "fresh_ok f \<Longrightarrow> register_account_endpoint svc f i b v s = (Inr (), s') \<Longrightarrow> vault_step svc (s, log) (s', Endpoint i b v # log)"
| step_contact: "fresh_ok f \<Longrightarrow> register_contact svc f c w v s = (Inr (), s') \<Longrightarrow> vault_step svc (s, log) (s', Contact c w v # log)"
| step_credential: "fresh_ok f \<Longrightarrow> register_credential svc f p n v s = (Inr (), s') \<Longrightarrow> vault_step svc (s, log) (s', Credential p n v # log)"
| step_refused: "register_account_endpoint svc f i b v s = (Inl e, s') \<or> register_contact svc f i b v s = (Inl e, s') \<or> register_credential svc f i b v s = (Inl e, s')
    \<Longrightarrow> vault_step svc (s, log) (s', log)"

lemma keep_secret_cases:
  assumes "keep_secret svc f vault l v s = (x, s')"
  obtains (raised) e where "x = Inl e" "s' = s"
  | (kept) env r where "x = Inr ()" "encrypt svc f l v = Inr env"
      "r = \<lparr>se_vault_name = vault, se_record_id = la_record_id l, se_owner_id = la_owner_id l, se_envelope = env, se_plaintext_sha256 = sha256_hex v\<rparr>"
      "dict_get s (vault, la_record_id l) = None \<and> s' = dict_set (vault, la_record_id l) r s \<or> dict_get s (vault, la_record_id l) = Some r \<and> s' = s"
proof (cases "encrypt_text svc f l v")
  case (Inl e)
  then show thesis using raised [of e] assms by (simp add: keep_secret_def sbind_def slift_def)
next
  case (Inr env)
  then have "encrypt svc f l v = Inr env" by (auto simp: encrypt_text_def rbind_eq_Inr)
  then show thesis using raised kept [of env] assms Inr
    by (cases "dict_get s (vault, la_record_id l)")
      (auto simp: keep_secret_def sbind_def slift_def put_secret_def sret_def Let_def split: if_splits)
qed

definition stored :: "encryption_service \<Rightarrow> secret_store \<Rightarrow> secret_entry \<Rightarrow> bool" where
  "stored svc s en \<longleftrightarrow> entry_named en \<and> (\<exists>r. dict_get s (entry_vault en, la_record_id (entry_label en)) = Some r
     \<and> se_owner_id r = la_owner_id (entry_label en) \<and> decrypt svc (se_envelope r) (entry_label en) = Inr (entry_text en))"

definition vault_inv :: "encryption_service \<Rightarrow> secret_store \<times> secret_entry list \<Rightarrow> bool" where
  "vault_inv svc st \<longleftrightarrow> (\<forall>en\<in>set (snd st). stored svc (fst st) en)
     \<and> (\<forall>k r. dict_get (fst st) k = Some r \<longrightarrow> (\<exists>en\<in>set (snd st). k = (entry_vault en, la_record_id (entry_label en)) \<and> stored svc (fst st) en))"

lemma register_entry:
  "register_account_endpoint svc f i b v s = (if strip i = [] \<or> strip b = [] then (Inl (Raise ValueError ''institution and account binding identifiers are required''), s)
     else keep_secret svc f (entry_vault (Endpoint i b v)) (entry_label (Endpoint i b v)) (entry_text (Endpoint i b v)) s)"
  "register_contact svc f i b v s = keep_secret svc f (entry_vault (Contact i b v)) (entry_label (Contact i b v)) (entry_text (Contact i b v)) s"
  "register_credential svc f i b v s = (if strip i = [] \<or> strip b = [] then (Inl (Raise ValueError ''provider and credential identifiers are required''), s)
     else keep_secret svc f (entry_vault (Credential i b v)) (entry_label (Credential i b v)) (entry_text (Credential i b v)) s)"
  by (simp_all add: register_account_endpoint_def register_contact_def register_credential_def pair_record_id_def sbind_def slift_def)

lemma refused_unchanged: "register_account_endpoint svc f i b v s = (Inl e, s') \<Longrightarrow> s' = s" "register_contact svc f i b v s = (Inl e, s') \<Longrightarrow> s' = s"
  "register_credential svc f i b v s = (Inl e, s') \<Longrightarrow> s' = s"
  unfolding register_entry by (auto elim!: keep_secret_cases split: if_splits)

lemma kept_inv:
  assumes "service_ok svc" "vault_inv svc (s, log)" "fresh_ok f" "entry_named en"
    and "keep_secret svc f (entry_vault en) (entry_label en) (entry_text en) s = (Inr (), s')"
  shows "vault_inv svc (s', en # log)"
  using assms(5)
proof (cases rule: keep_secret_cases)
  case (kept env r)
  have d: "decrypt svc env (entry_label en) = Inr (entry_text en)" by (rule decrypt_encrypted [OF assms(1,3) kept(2)])
  let ?k = "(entry_vault en, la_record_id (entry_label en))"
  have g: "dict_get s' ?k = Some r" "\<And>k x. dict_get s k = Some x \<Longrightarrow> dict_get s' k = Some x" "\<And>k x. dict_get s' k = Some x \<Longrightarrow> k = ?k \<or> dict_get s k = Some x"
    using kept(4) by (auto split: if_splits)
  have new: "stored svc s' en" using g(1) kept(3) d assms(4) by (simp add: stored_def)
  have old: "stored svc s x \<Longrightarrow> stored svc s' x" for x using g(2) by (auto simp: stored_def)
  have "\<exists>x\<in>set (en # log). k = (entry_vault x, la_record_id (entry_label x)) \<and> stored svc s' x" if "dict_get s' k = Some z" for k z
  proof (cases "k = ?k")
    case True
    then show ?thesis using new by simp
  next
    case False
    then have "dict_get s k = Some z" using g(3) \<open>dict_get s' k = Some z\<close> by blast
    then obtain x where "x \<in> set log" "k = (entry_vault x, la_record_id (entry_label x))" "stored svc s x"
      using assms(2) unfolding vault_inv_def fst_conv snd_conv by blast
    then show ?thesis using old by auto
  qed
  then show ?thesis using new old assms(2) unfolding vault_inv_def by auto
qed simp

lemma vault_inv_step:
  assumes "service_ok svc" "vault_step svc st st'" "vault_inv svc st"
  shows "vault_inv svc st'"
  using assms(2)
proof cases
  case (step_endpoint f i b v s s' log)
  then show ?thesis using kept_inv [OF assms(1), of s log f "Endpoint i b v" s'] assms(3) register_entry(1) [of svc f i b v s] by (auto split: if_splits)
next
  case (step_contact f c w v s s' log)
  then show ?thesis using kept_inv [OF assms(1), of s log f "Contact c w v" s'] assms(3) register_entry(2) [of svc f c w v s] by auto
next
  case (step_credential f p n v s s' log)
  then show ?thesis using kept_inv [OF assms(1), of s log f "Credential p n v" s'] assms(3) register_entry(3) [of svc f p n v s] by (auto split: if_splits)
next
  case (step_refused f i b v s e s' log)
  then have "s' = s" by (elim disjE) (rule refused_unchanged, assumption)+
  then show ?thesis using assms(3) step_refused by simp
qed

lemma vault_inv_reach: "(vault_step svc)\<^sup>*\<^sup>* ([], []) st \<Longrightarrow> service_ok svc \<Longrightarrow> vault_inv svc st"
  by (induction rule: rtranclp_induct) (simp add: vault_inv_def, blast intro: vault_inv_step)

definition ascii :: "string \<Rightarrow> bool" where
  "ascii v \<longleftrightarrow> (\<forall>c\<in>set v. (of_char c :: nat) < 128)"

lemma decrypt_text_ascii: "decrypt_text svc e l = Inr v \<longleftrightarrow> decrypt svc e l = Inr v \<and> ascii v"
  by (auto simp: decrypt_text_def rbind_eq_Inr ascii_def not_le)

text \<open>
  C31. The vaults resolve exactly what was registered.  After any registrations in the three vaults, also refused ones
  and identifiers whose concatenations coincide, an account endpoint, an SMS destination or a provider credential
  resolves to a text if and only if that text was registered for exactly those identifiers.\<close>

theorem vault_exact:
  assumes "aesgcm_correct (es_aead svc)" "key_service_correct (es_keys svc)" "(vault_step svc)\<^sup>*\<^sup>* ([], []) (s, log)" "ascii v"
  shows "(resolve_account_endpoint svc i b s = Inr v \<longleftrightarrow> Endpoint i b v \<in> set log)
    \<and> (resolve_sms_destination svc c s = Inr v \<longleftrightarrow> (\<exists>w. Contact c w v \<in> set log))
    \<and> (resolve_credential svc p n s = Inr v \<longleftrightarrow> Credential p n v \<in> set log)"
proof -
  have inv: "vault_inv svc (s, log)" using vault_inv_reach assms(1-3) by (simp add: service_ok_def)
  have st: "stored svc s en" if "en \<in> set log" for en using inv that by (simp add: vault_inv_def)
  have ex: "\<exists>en\<in>set log. k = (entry_vault en, la_record_id (entry_label en)) \<and> stored svc s en" if "dict_get s k = Some r" for k r
    using inv that unfolding vault_inv_def fst_conv snd_conv by blast
  have "Endpoint i b v \<in> set log" if res: "resolve_account_endpoint svc i b s = Inr v"
  proof -
    obtain r where r: "dict_get s (''ACCOUNT_ENDPOINT'', i @ '':'' @ b) = Some r" "se_owner_id r = i"
      "decrypt svc (se_envelope r) (endpoint_label (i @ '':'' @ b) i) = Inr v"
      using res by (auto simp: resolve_account_endpoint_def pair_record_id_def require_secret_def rbind_eq_Inr guard_res_eq_Inr decrypt_text_ascii split: if_splits option.splits)
    obtain en where en: "en \<in> set log" "(''ACCOUNT_ENDPOINT'', i @ '':'' @ b) = (entry_vault en, la_record_id (entry_label en))" "stored svc s en"
      using ex [OF r(1)] by blast
    have en': "stored svc s en" "entry_vault en = ''ACCOUNT_ENDPOINT''" "la_record_id (entry_label en) = i @ '':'' @ b" using en by auto
    show ?thesis using en' r en(1) by (cases en) (simp_all add: stored_def endpoint_label_def, (elim exE conjE, simp)?)
  qed
  moreover have "resolve_account_endpoint svc i b s = Inr v" if "Endpoint i b v \<in> set log"
    using st [OF that] assms(4) by (auto simp: stored_def resolve_account_endpoint_def pair_record_id_def require_secret_def decrypt_text_ascii endpoint_label_def)
  moreover have "\<exists>w. Contact c w v \<in> set log" if res: "resolve_sms_destination svc c s = Inr v"
  proof -
    obtain r where r: "dict_get s (''CONTACT_DESTINATION'', c) = Some r" "decrypt svc (se_envelope r) (contact_label c (se_owner_id r)) = Inr v"
      using res by (auto simp: resolve_sms_destination_def require_secret_def rbind_eq_Inr decrypt_text_ascii split: option.splits)
    obtain en where en: "en \<in> set log" "(''CONTACT_DESTINATION'', c) = (entry_vault en, la_record_id (entry_label en))" "stored svc s en"
      using ex [OF r(1)] by blast
    have en': "stored svc s en" "entry_vault en = ''CONTACT_DESTINATION''" "la_record_id (entry_label en) = c" using en by auto
    show ?thesis using en' r en(1) by (cases en) (simp_all add: stored_def contact_label_def, blast?)
  qed
  moreover have "resolve_sms_destination svc c s = Inr v" if "Contact c w v \<in> set log" for w
    using st [OF that] assms(4) by (auto simp: stored_def resolve_sms_destination_def require_secret_def decrypt_text_ascii contact_label_def)
  moreover have "Credential p n v \<in> set log" if res: "resolve_credential svc p n s = Inr v"
  proof -
    obtain r where r: "dict_get s (''PROVIDER_CREDENTIAL'', p @ '':'' @ n) = Some r" "se_owner_id r = p"
      "decrypt svc (se_envelope r) (credential_label (p @ '':'' @ n) p n) = Inr v"
      using res by (auto simp: resolve_credential_def pair_record_id_def require_secret_def rbind_eq_Inr guard_res_eq_Inr decrypt_text_ascii split: if_splits option.splits)
    obtain en where en: "en \<in> set log" "(''PROVIDER_CREDENTIAL'', p @ '':'' @ n) = (entry_vault en, la_record_id (entry_label en))" "stored svc s en"
      using ex [OF r(1)] by blast
    have en': "stored svc s en" "entry_vault en = ''PROVIDER_CREDENTIAL''" "la_record_id (entry_label en) = p @ '':'' @ n" using en by auto
    show ?thesis using en' r en(1) by (cases en) (simp_all add: stored_def credential_label_def, (elim exE conjE, simp)?)
  qed
  moreover have "resolve_credential svc p n s = Inr v" if "Credential p n v \<in> set log"
    using st [OF that] assms(4) by (auto simp: stored_def resolve_credential_def pair_record_id_def require_secret_def decrypt_text_ascii credential_label_def)
  ultimately show ?thesis by blast
qed

text \<open>
  Registering the same endpoint again raises: the envelope holds a fresh nonce, so the record the vault builds
  never equals the stored one.\<close>

lemma reregistration_conflicts:
  assumes "register_account_endpoint svc f i b v s = (Inr (), s')" "fb_nonce f' \<noteq> fb_nonce f" "register_account_endpoint svc f' i b v s' = (x, s'')"
  shows "\<exists>e. x = Inl e"
proof (rule ccontr)
  assume "\<not> (\<exists>e. x = Inl e)"
  then have x: "x = Inr ()" by (cases x) auto
  let ?l = "endpoint_label (i @ '':'' @ b) i"
  have k: "keep_secret svc f ''ACCOUNT_ENDPOINT'' ?l v s = (Inr (), s')" "keep_secret svc f' ''ACCOUNT_ENDPOINT'' ?l v s' = (Inr (), s'')"
    using assms(1,3) x unfolding register_entry by (auto split: if_splits)
  obtain env r where r: "encrypt svc f ?l v = Inr env" "dict_get s' (''ACCOUNT_ENDPOINT'', la_record_id ?l) = Some r" "se_envelope r = env"
    using k(1) by (cases rule: keep_secret_cases) auto
  obtain env' r' where r': "encrypt svc f' ?l v = Inr env'" "dict_get s' (''ACCOUNT_ENDPOINT'', la_record_id ?l) = Some r'" "se_envelope r' = env'"
    using k(2) r(2) by (cases rule: keep_secret_cases) auto
  have "en_nonce env = b64url_encode (fb_nonce f)" "en_nonce env' = b64url_encode (fb_nonce f')" using r(1) r'(1) by (auto elim!: encryptD)
  moreover have "env = env'" using r r' by simp
  ultimately have "b64url_encode (fb_nonce f) = b64url_encode (fb_nonce f')" by simp
  then have "b64url_decode (b64url_encode (fb_nonce f)) = b64url_decode (b64url_encode (fb_nonce f'))" by (rule arg_cong)
  then show False using assms(2) by simp
qed

section \<open>Envelopes as data\<close>

lemma purpose_of_value: "encryption_purpose_of (encryption_purpose_value p) = Inr p"
  by (cases p) (simp_all add: encryption_purpose_of_def)

text \<open>
  An envelope survives its storage form.  Writing a valid envelope as a mapping and reading it back returns the
  same envelope, in whatever order the mapping holds its items.\<close>

theorem envelope_dict_roundtrip:
  assumes "encrypted_to_dict e = Inr (PyDict kvs)" "set kvs' = set kvs" "distinct (map fst kvs')"
  shows "encrypted_from_dict (PyDict kvs') = Inr e"
proof -
  have v: "validate_envelope e = Inr ()" using assms(1) by (auto simp: encrypted_to_dict_def rbind_eq_Inr)
  have kvs: "PyDict kvs = obj [(''version'', PyInt (en_version e)), (''algorithm'', PyStr (en_algorithm e)), (''key_id'', PyStr (en_key_id e)),
       (''purpose'', PyStr (encryption_purpose_value (en_purpose e))), (''wrapped_data_key'', PyStr (en_wrapped_data_key e)),
       (''nonce'', PyStr (en_nonce e)), (''ciphertext'', PyStr (en_ciphertext e)), (''aad_sha256'', PyStr (en_aad_sha256 e))]"
    using assms(1) by (auto simp: encrypted_to_dict_def rbind_eq_Inr)
  have keys: "set (map fst kvs') = PyStr ` set encrypted_fields"
    using kvs assms(2) by (auto simp: obj_def encrypted_fields_def)
  have d: "distinct (map fst kvs)" using kvs by (simp add: obj_def)
  have mo: "map_of kvs' = map_of kvs" using assms(2,3) d by (simp add: map_of_inject_set)
  have i: "py_item (PyDict kvs') k = py_item (PyDict kvs) k" for k by (simp add: py_item_def mo)
  have "encrypted_of_fields (PyDict kvs') = Inr e"
    unfolding encrypted_of_fields_def i kvs by (simp add: py_item_def obj_def py_int_def py_str_def purpose_of_value)
  then show ?thesis using keys v by (simp add: encrypted_from_dict_def)
qed

end
