(* ===== verification/Secret_Run.thy ===== *)
theory Secret_Run
  imports Secret_Properties
begin

text \<open>
  Encryption at rest on concrete values: an authenticated cipher that satisfies \<open>aesgcm_correct\<close>, a registered
  key-encryption key, and an account endpoint that is encrypted, stored and resolved.
\<close>

definition demo_aead :: aead where
  "demo_aead = \<lparr>ae_encrypt = (\<lambda>k n p a. p @ replicate 16 (CHR ''t'')),
     ae_decrypt = (\<lambda>k n c a. if drop (length c - 16) c = replicate 16 (CHR ''t'') then Some (take (length c - 16) c) else None)\<rparr>"

definition demo_keks :: kek_store where
  "demo_keks = snd (register_kek ''kek-1'' (replicate 32 (CHR ''k'')) [])"

definition demo_service :: encryption_service where
  "demo_service = \<lparr>es_aead = demo_aead, es_keys = in_memory_keys demo_aead demo_keks,
     es_active_key_ids = [(ACCOUNT_ENDPOINT, ''kek-1''), (CONTACT_DESTINATION, ''kek-1''), (PROVIDER_CREDENTIAL, ''kek-1''), (NOTIFICATION_BODY, ''kek-1'')]\<rparr>"

definition demo_fresh :: fresh_bytes where
  "demo_fresh = \<lparr>fb_data_key = replicate 32 (CHR ''d''), fb_nonce = replicate 12 (CHR ''n''), fb_wrap_nonce = replicate 12 (CHR ''w'')\<rparr>"

definition demo_label :: secret_label where
  "demo_label = endpoint_label ''bank-a:ab-1'' ''bank-a''"

lemma demo_aead_correct: "aesgcm_correct demo_aead"
  by (simp add: aesgcm_correct_def demo_aead_def)

lemma demo_keks_value: "demo_keks = [(''kek-1'', replicate 32 (CHR ''k''))]"
  by code_simp

lemma demo_keys_correct: "key_service_correct (in_memory_keys demo_aead demo_keks)"
  by (rule in_memory_correct [OF demo_aead_correct]) (simp add: demo_keks_value)

lemma demo_fresh_ok: "fresh_ok demo_fresh"
  by (simp add: fresh_ok_def demo_fresh_def)

lemma demo_service_built: "new_encryption_service demo_aead (in_memory_keys demo_aead demo_keks) (es_active_key_ids demo_service) = Inr demo_service"
  by (simp add: new_encryption_service_def demo_service_def)

lemma demo_parts [simp]: "es_aead demo_service = demo_aead" "es_keys demo_service = in_memory_keys demo_aead demo_keks"
  by (simp_all add: demo_service_def)

lemma sha256_hex_valid: "length (sha256_hex m) = 64" "fromhex_ok (sha256_hex m)"
  using fromhex_text [OF sha256_hex_text [of m]] by simp_all

lemma demo_encrypts:
  assumes "encryption_context l = Inr c" "1 \<le> length p" "length p \<le> 1048576"
  shows "\<exists>e. encrypt demo_service demo_fresh l p = Inr e"
proof -
  let ?w = "replicate 12 (CHR ''w'') @ replicate 32 (CHR ''d'') @ replicate 16 (CHR ''t'')"
  have "dict_get (es_active_key_ids demo_service) (la_purpose l) = Some ''kek-1''"
    by (cases "la_purpose l") (simp_all add: demo_service_def)
  moreover have "ke_wrap (es_keys demo_service) (fb_wrap_nonce demo_fresh) ''kek-1'' (fb_data_key demo_fresh) x = Inr ?w" for x
    by (simp add: in_memory_keys_def in_memory_wrap_def demo_keks_value demo_fresh_def require_kek_def demo_aead_def)
  moreover have "decode_base64url nm (b64url_encode ?w) 29 512 = Inr ?w" for nm by (rule decode_encoded) simp_all
  moreover have "decode_base64url nm (b64url_encode (fb_nonce demo_fresh)) 12 12 = Inr (fb_nonce demo_fresh)" for nm
    by (rule decode_encoded) (simp_all add: demo_fresh_def)
  moreover have "decode_base64url nm (b64url_encode (p @ replicate 16 (CHR ''t''))) 16 1048592 = Inr (p @ replicate 16 (CHR ''t''))" for nm
    by (rule decode_encoded) (use assms in simp_all)
  ultimately show ?thesis using assms sha256_hex_valid
    by (simp add: encrypt_def Let_def validate_envelope_def demo_aead_def)
qed

lemma demo_context: "\<exists>c. encryption_context demo_label = Inr c"
proof -
  have "\<not> isl (encryption_context demo_label)" by code_simp
  then show ?thesis by (cases "encryption_context demo_label") auto
qed

lemma demo_envelope: "\<exists>e. encrypt demo_service demo_fresh demo_label ''0712345678'' = Inr e"
  using demo_context demo_encrypts by fastforce

theorem envelope_bound_witness:
  "\<exists>e. encrypt demo_service demo_fresh demo_label ''0712345678'' = Inr e \<and> decrypt demo_service e demo_label = Inr ''0712345678''"
proof -
  obtain e where e: "encrypt demo_service demo_fresh demo_label ''0712345678'' = Inr e" using demo_envelope by blast
  show ?thesis using envelope_bound [of demo_service demo_fresh demo_label "''0712345678''" e] e demo_aead_correct demo_keys_correct demo_fresh_ok by auto
qed

lemma demo_registered:
  "\<exists>s. (vault_step demo_service)\<^sup>*\<^sup>* ([], []) (s, [Endpoint ''bank-a'' ''ab-1'' ''0712345678''])"
proof -
  obtain e where e: "encrypt demo_service demo_fresh demo_label ''0712345678'' = Inr e" using demo_envelope by blast
  then have "\<exists>s. register_account_endpoint demo_service demo_fresh ''bank-a'' ''ab-1'' ''0712345678'' [] = (Inr (), s)"
    unfolding register_entry keep_secret_def
    by (simp add: strip_def is_space_def demo_label_def encrypt_text_def sbind_def slift_def put_secret_def sret_def)
  then show ?thesis using step_endpoint [OF demo_fresh_ok] by blast
qed

theorem vault_exact_witness:
  "\<exists>s. (vault_step demo_service)\<^sup>*\<^sup>* ([], []) (s, [Endpoint ''bank-a'' ''ab-1'' ''0712345678''])
     \<and> resolve_account_endpoint demo_service ''bank-a'' ''ab-1'' s = Inr ''0712345678''
     \<and> resolve_account_endpoint demo_service ''bank-a:ab-1'' ''x'' s \<noteq> Inr ''0712345678''"
proof -
  obtain s where s: "(vault_step demo_service)\<^sup>*\<^sup>* ([], []) (s, [Endpoint ''bank-a'' ''ab-1'' ''0712345678''])" using demo_registered by blast
  have a: "ascii ''0712345678''" by (simp add: ascii_def)
  have "resolve_account_endpoint demo_service i b s = Inr ''0712345678'' \<longleftrightarrow> Endpoint i b ''0712345678'' \<in> set [Endpoint ''bank-a'' ''ab-1'' ''0712345678'']" for i b
    using vault_exact [of demo_service s "[Endpoint ''bank-a'' ''ab-1'' ''0712345678'']" "''0712345678''" i b]
      demo_aead_correct demo_keys_correct s a by simp
  then show ?thesis using s by (intro exI [of _ s]) simp
qed

theorem envelope_dict_roundtrip_witness:
  "\<exists>e kvs. encrypted_to_dict e = Inr (PyDict kvs) \<and> encrypted_from_dict (PyDict (rev kvs)) = Inr e"
proof -
  obtain e where e: "encrypt demo_service demo_fresh demo_label ''0712345678'' = Inr e" using demo_envelope by blast
  then have v: "validate_envelope e = Inr ()" by (rule encryptD)
  then obtain kvs where k: "encrypted_to_dict e = Inr (PyDict kvs)" by (simp add: encrypted_to_dict_def obj_def)
  have "distinct (map fst kvs)" using k v by (auto simp: encrypted_to_dict_def obj_def)
  then show ?thesis using envelope_dict_roundtrip [OF k, of "rev kvs"] k by (auto simp: rev_map [symmetric])
qed

end
