(* ===== verification/Certification.thy ===== *)
theory Certification
  imports Institution Institution_Registry Api_Guard
begin

text \<open>
  The partner certification harness (\<^verbatim>\<open>railone_certification\<close>): trace events and traces with their content
  identifiers, case results and reports (\<^verbatim>\<open>models.py\<close>), the evaluation of a trace (\<^verbatim>\<open>evaluator.py\<close>).

  An instant is a number of microseconds.  The trace a driver returns has been constructed, so it has passed the
  checks of its constructor; \<open>new_event\<close> and \<open>new_trace\<close> are these checks.
\<close>

section \<open>Enumerations\<close>

datatype cert_scenario = P2P_SETTLED | MERCHANT_SUPPLIER_SETTLED | CROSS_BORDER_SETTLED | DUPLICATE_SUBMISSION
  | UNKNOWN_THEN_RECONCILED | TAMPERED_CALLBACK_REJECTED | DUPLICATE_CALLBACK_EXACTLY_ONCE
  | SETTLEMENT_AMOUNT_MISMATCH_REJECTED | HISTORY_ACCESS_CONTROL | SMS_FINALITY_GATE | ADAPTER_VERSION_PIN

fun scenario_value :: "cert_scenario \<Rightarrow> string" where
  "scenario_value P2P_SETTLED = ''P2P_SETTLED''"
| "scenario_value MERCHANT_SUPPLIER_SETTLED = ''MERCHANT_SUPPLIER_SETTLED''"
| "scenario_value CROSS_BORDER_SETTLED = ''CROSS_BORDER_SETTLED''"
| "scenario_value DUPLICATE_SUBMISSION = ''DUPLICATE_SUBMISSION''"
| "scenario_value UNKNOWN_THEN_RECONCILED = ''UNKNOWN_THEN_RECONCILED''"
| "scenario_value TAMPERED_CALLBACK_REJECTED = ''TAMPERED_CALLBACK_REJECTED''"
| "scenario_value DUPLICATE_CALLBACK_EXACTLY_ONCE = ''DUPLICATE_CALLBACK_EXACTLY_ONCE''"
| "scenario_value SETTLEMENT_AMOUNT_MISMATCH_REJECTED = ''SETTLEMENT_AMOUNT_MISMATCH_REJECTED''"
| "scenario_value HISTORY_ACCESS_CONTROL = ''HISTORY_ACCESS_CONTROL''"
| "scenario_value SMS_FINALITY_GATE = ''SMS_FINALITY_GATE''"
| "scenario_value ADAPTER_VERSION_PIN = ''ADAPTER_VERSION_PIN''"

datatype trace_event_type = TE_INTENT_ACCEPTED | TE_UTT_CREATED | TE_FX_QUOTE_BOUND | TE_HISTORY_INDEXED | TE_PLAN_CREATED
  | TE_RTT_CREATED | TE_ADAPTER_BINDING_VERIFIED | TE_ADAPTER_BINDING_MISMATCH_REJECTED | TE_PROVIDER_DISPATCHED
  | TE_PROVIDER_ACCEPTED | TE_IDEMPOTENT_REPLAY_RETURNED | TE_OUTCOME_UNKNOWN | TE_RECONCILIATION_REQUIRED
  | TE_CALLBACK_ACCEPTED | TE_CALLBACK_REJECTED | TE_EXTERNAL_EVIDENCE_VERIFIED | TE_EXTERNAL_EVIDENCE_REJECTED
  | TE_RTT_SUCCEEDED | TE_RTT_FAILED | TE_PLAN_FINALIZED | TE_SMS_BLOCKED_BEFORE_FINALITY | TE_SMS_PREPARED | TE_SMS_SENT
  | TE_HISTORY_READ_ALLOWED | TE_HISTORY_READ_DENIED

fun trace_event_value :: "trace_event_type \<Rightarrow> string" where
  "trace_event_value TE_INTENT_ACCEPTED = ''INTENT_ACCEPTED''"
| "trace_event_value TE_UTT_CREATED = ''UTT_CREATED''"
| "trace_event_value TE_FX_QUOTE_BOUND = ''FX_QUOTE_BOUND''"
| "trace_event_value TE_HISTORY_INDEXED = ''HISTORY_INDEXED''"
| "trace_event_value TE_PLAN_CREATED = ''PLAN_CREATED''"
| "trace_event_value TE_RTT_CREATED = ''RTT_CREATED''"
| "trace_event_value TE_ADAPTER_BINDING_VERIFIED = ''ADAPTER_BINDING_VERIFIED''"
| "trace_event_value TE_ADAPTER_BINDING_MISMATCH_REJECTED = ''ADAPTER_BINDING_MISMATCH_REJECTED''"
| "trace_event_value TE_PROVIDER_DISPATCHED = ''PROVIDER_DISPATCHED''"
| "trace_event_value TE_PROVIDER_ACCEPTED = ''PROVIDER_ACCEPTED''"
| "trace_event_value TE_IDEMPOTENT_REPLAY_RETURNED = ''IDEMPOTENT_REPLAY_RETURNED''"
| "trace_event_value TE_OUTCOME_UNKNOWN = ''OUTCOME_UNKNOWN''"
| "trace_event_value TE_RECONCILIATION_REQUIRED = ''RECONCILIATION_REQUIRED''"
| "trace_event_value TE_CALLBACK_ACCEPTED = ''CALLBACK_ACCEPTED''"
| "trace_event_value TE_CALLBACK_REJECTED = ''CALLBACK_REJECTED''"
| "trace_event_value TE_EXTERNAL_EVIDENCE_VERIFIED = ''EXTERNAL_EVIDENCE_VERIFIED''"
| "trace_event_value TE_EXTERNAL_EVIDENCE_REJECTED = ''EXTERNAL_EVIDENCE_REJECTED''"
| "trace_event_value TE_RTT_SUCCEEDED = ''RTT_SUCCEEDED''"
| "trace_event_value TE_RTT_FAILED = ''RTT_FAILED''"
| "trace_event_value TE_PLAN_FINALIZED = ''PLAN_FINALIZED''"
| "trace_event_value TE_SMS_BLOCKED_BEFORE_FINALITY = ''SMS_BLOCKED_BEFORE_FINALITY''"
| "trace_event_value TE_SMS_PREPARED = ''SMS_PREPARED''"
| "trace_event_value TE_SMS_SENT = ''SMS_SENT''"
| "trace_event_value TE_HISTORY_READ_ALLOWED = ''HISTORY_READ_ALLOWED''"
| "trace_event_value TE_HISTORY_READ_DENIED = ''HISTORY_READ_DENIED''"

datatype case_status = CASE_PASSED | CASE_FAILED | CASE_ERROR

fun case_status_value :: "case_status \<Rightarrow> string" where
  "case_status_value CASE_PASSED = ''PASSED''"
| "case_status_value CASE_FAILED = ''FAILED''"
| "case_status_value CASE_ERROR = ''ERROR''"

datatype report_status = REPORT_PASSED | REPORT_FAILED

fun report_status_value :: "report_status \<Rightarrow> string" where
  "report_status_value REPORT_PASSED = ''PASSED''"
| "report_status_value REPORT_FAILED = ''FAILED''"

datatype evidence_classification = SYNTHETIC_SELF_TEST | PARTNER_SANDBOX

fun classification_value :: "evidence_classification \<Rightarrow> string" where
  "classification_value SYNTHETIC_SELF_TEST = ''SYNTHETIC_SELF_TEST''"
| "classification_value PARTNER_SANDBOX = ''PARTNER_SANDBOX''"

section \<open>Trace events\<close>

definition digits_then :: "(string \<Rightarrow> bool) \<Rightarrow> string \<Rightarrow> bool" where
  \<comment> \<open>\<^verbatim>\<open>[0-9]+\<close> and then\<close>
  "digits_then rest s \<longleftrightarrow> takeWhile is_digit s \<noteq> [] \<and> rest (dropWhile is_digit s)"

definition dot_then :: "(string \<Rightarrow> bool) \<Rightarrow> string \<Rightarrow> bool" where
  "dot_then rest s \<longleftrightarrow> s \<noteq> [] \<and> hd s = CHR ''.'' \<and> rest (tl s)"

definition version_suffix :: "string \<Rightarrow> bool" where
  \<comment> \<open>\<^verbatim>\<open>(?:[-+][0-9A-Za-z.-]+)?\<close>\<close>
  "version_suffix s \<longleftrightarrow> s = [] \<or> hd s \<in> set ''-+'' \<and> tl s \<noteq> [] \<and> list_all (\<lambda>c. is_alnum c \<or> c \<in> set ''.-'') (tl s)"

definition binding_form :: "string \<Rightarrow> bool" where
  \<comment> \<open>\<^verbatim>\<open>[A-Za-z0-9][A-Za-z0-9._:-]{1,127}@[0-9]+\.[0-9]+\.[0-9]+(?:[-+][0-9A-Za-z.-]+)?\<close>; the first part holds no at sign\<close>
  "binding_form s \<longleftrightarrow> identifier_form (takeWhile (\<lambda>c. c \<noteq> CHR ''@'') s)
     \<and> (case dropWhile (\<lambda>c. c \<noteq> CHR ''@'') s of [] \<Rightarrow> False
        | _ # v \<Rightarrow> digits_then (dot_then (digits_then (dot_then (digits_then version_suffix)))) v)"

definition safe_metadata_keys :: "string list" where
  "safe_metadata_keys = [''actor_scope'', ''channel'', ''corridor'', ''currency_from'', ''currency_to'', ''finality'', ''outcome'',
     ''provider_code'', ''recipient_role'', ''replayed'', ''route_id'', ''transport'', ''verification'']"

record cert_event =
  ce_event_id :: string
  ce_scenario :: cert_scenario
  ce_event_type :: trace_event_type
  ce_occurred_at :: instant
  ce_sequence :: int
  ce_adapter_binding_ref :: string
  ce_utt_id :: "string option"
  ce_rtt_id :: "string option"
  ce_evidence_sha256 :: "string option"
  ce_metadata :: "(string \<times> string) list"

definition event_material :: "cert_event \<Rightarrow> (string \<times> pyval) list" where
  "event_material e =
     [(''scenario'', PyStr (scenario_value (ce_scenario e))), (''event_type'', PyStr (trace_event_value (ce_event_type e))),
      (''occurred_at'', PyInt (epoch (ce_occurred_at e))), (''sequence'', PyInt (ce_sequence e)), (''utt_id'', opt_str (ce_utt_id e)),
      (''rtt_id'', opt_str (ce_rtt_id e)), (''adapter_binding_ref'', PyStr (ce_adapter_binding_ref e)),
      (''evidence_sha256'', opt_str (ce_evidence_sha256 e)),
      (''metadata'', obj (map (\<lambda>(k, v). (k, PyStr v)) (ce_metadata e)))]"

definition event_content_id :: "cert_event \<Rightarrow> string res" where
  "event_content_id e = content_id ''CERT-EVT'' (obj (event_material e))"

definition new_event :: "cert_event \<Rightarrow> datetime \<Rightarrow> cert_event res" where
  \<comment> \<open>\<^verbatim>\<open>CertificationTraceEvent.__post_init__\<close>; the timestamp as given replaces that of \<open>e\<close>\<close>
  "new_event e occurred_at =
     rbind (require_aware ''occurred_at'' occurred_at) (\<lambda>t.
     rbind (guard_res (ce_sequence e < 1) ValueError ''certification event sequence must be positive'') (\<lambda>_.
     rbind (guard_res (\<not> binding_form (ce_adapter_binding_ref e)) ValueError ''certification event requires adapter_id@semantic-version'') (\<lambda>_.
     rbind (guard_res (case ce_evidence_sha256 e of None \<Rightarrow> False | Some h \<Rightarrow> \<not> sha256_form h) ValueError
              ''evidence_sha256 must be a lowercase SHA-256 digest'') (\<lambda>_.
     let normalized = sort (ce_metadata e) in
     rbind (guard_res (length normalized \<noteq> length (remdups (map fst normalized))) ValueError ''certification event metadata keys must be unique'') (\<lambda>_.
     rbind (guard_res (\<exists>(k, v)\<in>set normalized. k \<notin> set safe_metadata_keys) ValueError
              ''certification event metadata contains a non-canonical key'') (\<lambda>_.
     rbind (guard_res (\<exists>(k, v)\<in>set normalized. v = [] \<or> length v > 128) ValueError
              ''certification event metadata values must be non-empty and bounded'') (\<lambda>_.
     let e' = e\<lparr>ce_occurred_at := t, ce_metadata := normalized\<rparr> in
     rbind (event_content_id e') (\<lambda>expected.
     rbind (guard_res (ce_event_id e' \<noteq> expected) ValueError ''certification event content identifier mismatch'') (\<lambda>_. Inr e')))))))))"

definition create_event :: "platform \<Rightarrow> cert_event \<Rightarrow> datetime \<Rightarrow> cert_event res" where
  \<comment> \<open>\<^verbatim>\<open>create\<close>; the metadata of \<open>e\<close> are the items of the mapping, its identifier is ignored\<close>
  "create_event P e occurred_at =
     (let normalized = e\<lparr>ce_occurred_at := astimezone_utc P occurred_at, ce_metadata := sort (ce_metadata e)\<rparr> in
      rbind (event_content_id normalized) (\<lambda>event_id. new_event (normalized\<lparr>ce_event_id := event_id\<rparr>) occurred_at))"

definition event_payload :: "cert_event \<Rightarrow> pyval" where
  "event_payload e = obj ((''event_id'', PyStr (ce_event_id e)) # event_material e)"

section \<open>Traces\<close>

record cert_trace =
  tr_trace_id :: string
  tr_run_id :: string
  tr_scenario :: cert_scenario
  tr_adapter_binding_ref :: string
  tr_started_at :: instant
  tr_completed_at :: instant
  tr_events :: "cert_event list"

definition trace_core :: "cert_trace \<Rightarrow> (string \<times> pyval) list" where
  "trace_core t =
     [(''run_id'', PyStr (tr_run_id t)), (''scenario'', PyStr (scenario_value (tr_scenario t))),
      (''adapter_binding_ref'', PyStr (tr_adapter_binding_ref t)), (''started_at'', PyInt (epoch (tr_started_at t))),
      (''completed_at'', PyInt (epoch (tr_completed_at t))), (''events'', PyList (map event_payload (tr_events t)))]"

definition trace_content_id :: "cert_trace \<Rightarrow> string res" where
  "trace_content_id t = content_id ''CERT-TRACE'' (obj (trace_core t))"

definition new_trace :: "cert_trace \<Rightarrow> datetime \<Rightarrow> datetime \<Rightarrow> cert_trace res" where
  \<comment> \<open>\<^verbatim>\<open>CertificationTrace.__post_init__\<close>\<close>
  "new_trace t started_at completed_at =
     rbind (require_aware ''started_at'' started_at) (\<lambda>start.
     rbind (require_aware ''completed_at'' completed_at) (\<lambda>finish.
     rbind (guard_res (finish < start) ValueError ''certification trace cannot complete before it starts'') (\<lambda>_.
     rbind (guard_res (tr_events t = []) ValueError ''certification trace cannot be empty'') (\<lambda>_.
     rbind (guard_res (map ce_sequence (tr_events t) \<noteq> [1..int (length (tr_events t))]) ValueError
              ''certification event sequence must be contiguous and ordered'') (\<lambda>_.
     rbind (guard_res (\<exists>e\<in>set (tr_events t). ce_scenario e \<noteq> tr_scenario t) ValueError ''certification trace contains another scenario'') (\<lambda>_.
     rbind (guard_res (\<exists>e\<in>set (tr_events t). ce_adapter_binding_ref e \<noteq> tr_adapter_binding_ref t) ValueError
              ''certification trace changed adapter binding'') (\<lambda>_.
     let t' = t\<lparr>tr_started_at := start, tr_completed_at := finish\<rparr> in
     rbind (trace_content_id t') (\<lambda>expected.
     rbind (guard_res (tr_trace_id t' \<noteq> expected) ValueError ''certification trace content identifier mismatch'') (\<lambda>_. Inr t')))))))))"

definition create_trace :: "platform \<Rightarrow> cert_trace \<Rightarrow> datetime \<Rightarrow> datetime \<Rightarrow> cert_trace res" where
  "create_trace P t started_at completed_at =
     rbind (trace_content_id (t\<lparr>tr_started_at := astimezone_utc P started_at, tr_completed_at := astimezone_utc P completed_at\<rparr>)) (\<lambda>trace_id.
     new_trace (t\<lparr>tr_trace_id := trace_id\<rparr>) started_at completed_at)"

section \<open>Case results and reports\<close>

record case_result =
  cr_scenario :: cert_scenario
  cr_status :: case_status
  cr_trace_id :: "string option"
  cr_failures :: "string list"
  cr_duration_ms :: int
  cr_event_count :: int

definition new_case :: "case_result \<Rightarrow> case_result res" where
  "new_case c =
     rbind (guard_res (cr_duration_ms c < 0 \<or> cr_event_count c < 0) ValueError ''certification case metrics cannot be negative'') (\<lambda>_.
     rbind (guard_res (cr_status c = CASE_PASSED \<and> cr_failures c \<noteq> []) ValueError ''passed certification case cannot contain failures'') (\<lambda>_.
     rbind (guard_res (cr_status c \<noteq> CASE_PASSED \<and> cr_failures c = []) ValueError ''failed certification case requires a reason'') (\<lambda>_. Inr c)))"

definition case_payload :: "case_result \<Rightarrow> pyval" where
  "case_payload c = obj
     [(''scenario'', PyStr (scenario_value (cr_scenario c))), (''status'', PyStr (case_status_value (cr_status c))),
      (''trace_id'', opt_str (cr_trace_id c)), (''failures'', texts (cr_failures c)), (''duration_ms'', PyInt (cr_duration_ms c)),
      (''event_count'', PyInt (cr_event_count c))]"

record cert_report =
  rp_report_id :: string
  rp_run_id :: string
  rp_suite_id :: string
  rp_suite_version :: string
  rp_adapter_binding_ref :: string
  rp_manifest_payload_sha256 :: string
  rp_evidence_classification :: evidence_classification
  rp_status :: report_status
  rp_cases :: "case_result list"
  rp_started_at :: instant
  rp_completed_at :: instant

definition report_core :: "cert_report \<Rightarrow> (string \<times> pyval) list" where
  "report_core r =
     [(''run_id'', PyStr (rp_run_id r)), (''suite_id'', PyStr (rp_suite_id r)), (''suite_version'', PyStr (rp_suite_version r)),
      (''adapter_binding_ref'', PyStr (rp_adapter_binding_ref r)), (''manifest_payload_sha256'', PyStr (rp_manifest_payload_sha256 r)),
      (''evidence_classification'', PyStr (classification_value (rp_evidence_classification r))),
      (''status'', PyStr (report_status_value (rp_status r))), (''cases'', PyList (map case_payload (rp_cases r))),
      (''started_at'', PyInt (epoch (rp_started_at r))), (''completed_at'', PyInt (epoch (rp_completed_at r)))]"

definition report_content_id :: "cert_report \<Rightarrow> string res" where
  "report_content_id r = content_id ''CERT-REPORT'' (obj (report_core r))"

definition report_payload :: "cert_report \<Rightarrow> pyval" where
  "report_payload r = obj ((''report_id'', PyStr (rp_report_id r)) # report_core r)"

definition expected_status :: "case_result list \<Rightarrow> report_status" where
  "expected_status cases = (if list_all (\<lambda>c. cr_status c = CASE_PASSED) cases then REPORT_PASSED else REPORT_FAILED)"

definition new_report :: "cert_report \<Rightarrow> cert_report res" where
  \<comment> \<open>\<^verbatim>\<open>CertificationReport.__post_init__\<close> of aware timestamps\<close>
  "new_report r =
     rbind (guard_res (rp_completed_at r < rp_started_at r) ValueError ''certification report cannot complete before it starts'') (\<lambda>_.
     rbind (guard_res (\<not> binding_form (rp_adapter_binding_ref r)) ValueError ''certification report requires adapter_id@semantic-version'') (\<lambda>_.
     rbind (guard_res (\<not> sha256_form (rp_manifest_payload_sha256 r)) ValueError ''manifest_payload_sha256 must be a lowercase SHA-256 digest'') (\<lambda>_.
     rbind (guard_res (rp_cases r = [] \<or> \<not> distinct (map cr_scenario (rp_cases r))) ValueError ''certification report requires unique case results'') (\<lambda>_.
     rbind (guard_res (rp_status r \<noteq> expected_status (rp_cases r)) ValueError ''certification report status disagrees with case results'') (\<lambda>_.
     rbind (report_content_id r) (\<lambda>expected.
     rbind (guard_res (rp_report_id r \<noteq> expected) ValueError ''certification report content identifier mismatch'') (\<lambda>_. Inr r)))))))"

section \<open>Evaluation\<close>

record expectation =
  ex_exact :: "(trace_event_type \<times> nat) list"
  ex_minimum :: "(trace_event_type \<times> nat) list"
  ex_forbidden :: "trace_event_type list"
  ex_ordered :: "(trace_event_type \<times> trace_event_type) list"
  ex_required_scopes :: "string list"

definition happy_order :: "(trace_event_type \<times> trace_event_type) list" where
  "happy_order = [(TE_UTT_CREATED, TE_RTT_CREATED), (TE_RTT_CREATED, TE_PROVIDER_DISPATCHED), (TE_PROVIDER_DISPATCHED, TE_PROVIDER_ACCEPTED),
     (TE_PROVIDER_ACCEPTED, TE_EXTERNAL_EVIDENCE_VERIFIED), (TE_EXTERNAL_EVIDENCE_VERIFIED, TE_RTT_SUCCEEDED),
     (TE_RTT_SUCCEEDED, TE_PLAN_FINALIZED), (TE_PLAN_FINALIZED, TE_SMS_PREPARED)]"

definition happy_exact :: "(trace_event_type \<times> nat) list" where
  "happy_exact = [(TE_UTT_CREATED, 1), (TE_RTT_CREATED, 1), (TE_ADAPTER_BINDING_VERIFIED, 1), (TE_PROVIDER_DISPATCHED, 1),
     (TE_PROVIDER_ACCEPTED, 1), (TE_EXTERNAL_EVIDENCE_VERIFIED, 1), (TE_RTT_SUCCEEDED, 1), (TE_PLAN_FINALIZED, 1), (TE_SMS_PREPARED, 2)]"

definition no_expectation :: expectation where
  \<comment> \<open>the defaults of \<^verbatim>\<open>_Expectation\<close>\<close>
  "no_expectation = \<lparr>ex_exact = [], ex_minimum = [], ex_forbidden = [], ex_ordered = [], ex_required_scopes = []\<rparr>"

fun expectations :: "cert_scenario \<Rightarrow> expectation" where
  "expectations P2P_SETTLED = no_expectation\<lparr>ex_exact := happy_exact, ex_minimum := [(TE_HISTORY_READ_ALLOWED, 2)],
     ex_ordered := happy_order, ex_required_scopes := [''SENDER'', ''RECEIVER'']\<rparr>"
| "expectations MERCHANT_SUPPLIER_SETTLED = no_expectation\<lparr>ex_exact := happy_exact, ex_minimum := [(TE_HISTORY_READ_ALLOWED, 2)],
     ex_ordered := happy_order, ex_required_scopes := [''MERCHANT'', ''BRANCH'']\<rparr>"
| "expectations CROSS_BORDER_SETTLED = no_expectation\<lparr>ex_exact := happy_exact @ [(TE_FX_QUOTE_BOUND, 1)],
     ex_minimum := [(TE_HISTORY_READ_ALLOWED, 2)], ex_ordered := happy_order @ [(TE_UTT_CREATED, TE_FX_QUOTE_BOUND)],
     ex_required_scopes := [''SENDER'', ''RECEIVER'']\<rparr>"
| "expectations DUPLICATE_SUBMISSION = no_expectation\<lparr>
     ex_exact := [(TE_UTT_CREATED, 1), (TE_RTT_CREATED, 1), (TE_PROVIDER_DISPATCHED, 1), (TE_PROVIDER_ACCEPTED, 1), (TE_IDEMPOTENT_REPLAY_RETURNED, 1)],
     ex_ordered := [(TE_PROVIDER_DISPATCHED, TE_IDEMPOTENT_REPLAY_RETURNED)]\<rparr>"
| "expectations UNKNOWN_THEN_RECONCILED = no_expectation\<lparr>
     ex_exact := [(TE_UTT_CREATED, 1), (TE_RTT_CREATED, 1), (TE_PROVIDER_DISPATCHED, 1), (TE_OUTCOME_UNKNOWN, 1), (TE_RECONCILIATION_REQUIRED, 1),
       (TE_EXTERNAL_EVIDENCE_VERIFIED, 1), (TE_RTT_SUCCEEDED, 1), (TE_PLAN_FINALIZED, 1)],
     ex_ordered := [(TE_PROVIDER_DISPATCHED, TE_OUTCOME_UNKNOWN), (TE_OUTCOME_UNKNOWN, TE_RECONCILIATION_REQUIRED),
       (TE_RECONCILIATION_REQUIRED, TE_EXTERNAL_EVIDENCE_VERIFIED), (TE_EXTERNAL_EVIDENCE_VERIFIED, TE_RTT_SUCCEEDED)]\<rparr>"
| "expectations TAMPERED_CALLBACK_REJECTED = no_expectation\<lparr>ex_exact := [(TE_CALLBACK_REJECTED, 1)],
     ex_forbidden := [TE_EXTERNAL_EVIDENCE_VERIFIED, TE_RTT_SUCCEEDED, TE_PLAN_FINALIZED, TE_SMS_PREPARED]\<rparr>"
| "expectations DUPLICATE_CALLBACK_EXACTLY_ONCE = no_expectation\<lparr>
     ex_exact := [(TE_CALLBACK_ACCEPTED, 2), (TE_EXTERNAL_EVIDENCE_VERIFIED, 1), (TE_RTT_SUCCEEDED, 1), (TE_PLAN_FINALIZED, 1), (TE_SMS_PREPARED, 2)],
     ex_ordered := [(TE_CALLBACK_ACCEPTED, TE_EXTERNAL_EVIDENCE_VERIFIED)]\<rparr>"
| "expectations SETTLEMENT_AMOUNT_MISMATCH_REJECTED = no_expectation\<lparr>ex_exact := [(TE_EXTERNAL_EVIDENCE_REJECTED, 1)],
     ex_forbidden := [TE_RTT_SUCCEEDED, TE_PLAN_FINALIZED, TE_SMS_PREPARED]\<rparr>"
| "expectations HISTORY_ACCESS_CONTROL = no_expectation\<lparr>ex_minimum := [(TE_HISTORY_READ_ALLOWED, 2)],
     ex_exact := [(TE_HISTORY_READ_DENIED, 1)], ex_required_scopes := [''SENDER'', ''RECEIVER'', ''UNRELATED'']\<rparr>"
| "expectations SMS_FINALITY_GATE = no_expectation\<lparr>
     ex_exact := [(TE_SMS_BLOCKED_BEFORE_FINALITY, 1), (TE_EXTERNAL_EVIDENCE_VERIFIED, 1), (TE_RTT_SUCCEEDED, 1), (TE_PLAN_FINALIZED, 1), (TE_SMS_PREPARED, 2)],
     ex_ordered := [(TE_SMS_BLOCKED_BEFORE_FINALITY, TE_EXTERNAL_EVIDENCE_VERIFIED), (TE_PLAN_FINALIZED, TE_SMS_PREPARED)]\<rparr>"
| "expectations ADAPTER_VERSION_PIN = no_expectation\<lparr>
     ex_exact := [(TE_UTT_CREATED, 1), (TE_RTT_CREATED, 1), (TE_ADAPTER_BINDING_VERIFIED, 1), (TE_ADAPTER_BINDING_MISMATCH_REJECTED, 1), (TE_PROVIDER_DISPATCHED, 1)],
     ex_ordered := [(TE_RTT_CREATED, TE_ADAPTER_BINDING_VERIFIED), (TE_ADAPTER_BINDING_VERIFIED, TE_PROVIDER_DISPATCHED)]\<rparr>"

definition event_count :: "cert_event list \<Rightarrow> trace_event_type \<Rightarrow> nat" where
  \<comment> \<open>\<^verbatim>\<open>Counter(event.event_type for event in trace.events)[k]\<close>\<close>
  "event_count es k = length (filter (\<lambda>e. ce_event_type e = k) es)"

definition first_of :: "cert_event list \<Rightarrow> trace_event_type \<Rightarrow> int" where
  \<comment> \<open>\<^verbatim>\<open>_first\<close>, called only for a kind that occurs\<close>
  "first_of es k = (case find (\<lambda>e. ce_event_type e = k) es of Some e \<Rightarrow> ce_sequence e | None \<Rightarrow> 0)"

definition exact_failures :: "cert_event list \<Rightarrow> (trace_event_type \<times> nat) list \<Rightarrow> string list" where
  "exact_failures es ps = map (\<lambda>(k, n). trace_event_value k @ '': expected exactly '' @ show_nat n @ '', observed '' @ show_nat (event_count es k))
     (filter (\<lambda>(k, n). event_count es k \<noteq> n) ps)"

definition minimum_failures :: "cert_event list \<Rightarrow> (trace_event_type \<times> nat) list \<Rightarrow> string list" where
  "minimum_failures es ps = map (\<lambda>(k, n). trace_event_value k @ '': expected at least '' @ show_nat n @ '', observed '' @ show_nat (event_count es k))
     (filter (\<lambda>(k, n). event_count es k < n) ps)"

definition forbidden_failures :: "cert_event list \<Rightarrow> trace_event_type list \<Rightarrow> string list" where
  "forbidden_failures es ks = map (\<lambda>k. trace_event_value k @ '': forbidden event observed'') (filter (\<lambda>k. event_count es k \<noteq> 0) ks)"

definition order_failures :: "cert_event list \<Rightarrow> (trace_event_type \<times> trace_event_type) list \<Rightarrow> string list" where
  "order_failures es ps = map (\<lambda>(a, b). ''event order violated: '' @ trace_event_value a @ '' must precede '' @ trace_event_value b)
     (filter (\<lambda>(a, b). event_count es a \<noteq> 0 \<and> event_count es b \<noteq> 0 \<and> first_of es a \<ge> first_of es b) ps)"

definition read_scopes :: "cert_event list \<Rightarrow> string option list" where
  "read_scopes es = map (\<lambda>e. dict_get (ce_metadata e) ''actor_scope'')
     (filter (\<lambda>e. ce_event_type e \<in> {TE_HISTORY_READ_ALLOWED, TE_HISTORY_READ_DENIED}) es)"

definition scope_failures :: "cert_event list \<Rightarrow> string list \<Rightarrow> string list" where
  "scope_failures es scopes = map (\<lambda>s. ''history scope was not exercised: '' @ s) (filter (\<lambda>s. Some s \<notin> set (read_scopes es)) scopes)"

definition global_invariants :: "cert_trace \<Rightarrow> string list" where
  "global_invariants t =
     (let es = tr_events t; n = event_count es; fail = (\<lambda>b msg. if b then [msg] else []) in
      fail (\<not> sorted (map ce_occurred_at es)) ''event timestamps are not monotonic''
    @ fail (length (remdups (List.map_filter ce_utt_id es)) > 1) ''one certification case emitted multiple UTT identities''
    @ fail (n TE_RTT_CREATED \<noteq> 0 \<and> n TE_UTT_CREATED = 0) ''RTT exists without a preceding UTT''
    @ fail (n TE_RTT_SUCCEEDED \<noteq> 0 \<and> n TE_EXTERNAL_EVIDENCE_VERIFIED = 0) ''RTT succeeded without verified external evidence''
    @ fail (\<exists>e\<in>set es. ce_event_type e = TE_EXTERNAL_EVIDENCE_VERIFIED \<and> ce_evidence_sha256 e = None) ''verified external evidence omitted its evidence hash''
    @ fail (n TE_PLAN_FINALIZED \<noteq> 0 \<and> n TE_RTT_SUCCEEDED = 0) ''plan finalized without a successful RTT''
    @ fail (n TE_SMS_PREPARED \<noteq> 0 \<and> n TE_PLAN_FINALIZED = 0) ''settlement SMS was prepared before plan finality''
    @ fail (n TE_OUTCOME_UNKNOWN \<noteq> 0 \<and> n TE_PROVIDER_DISPATCHED > 1) ''unknown provider outcome caused a blind redispatch''
    @ fail (length (remdups (List.map_filter ce_rtt_id es)) > 1 \<and> tr_scenario t \<noteq> UNKNOWN_THEN_RECONCILED) ''case changed RTT identity without an explicit retry scenario''
    @ fail (\<not> distinct (map ce_event_id es)) ''duplicate certification event content id'')"

definition evaluate :: "cert_trace \<Rightarrow> string list" where
  "evaluate t =
     (let x = expectations (tr_scenario t); es = tr_events t in
      sort (remdups (exact_failures es (ex_exact x) @ minimum_failures es (ex_minimum x) @ forbidden_failures es (ex_forbidden x)
        @ order_failures es (ex_ordered x) @ scope_failures es (ex_required_scopes x) @ global_invariants t)))"

end
