(* ===== verification/Certification_Runner.thy ===== *)
theory Certification_Runner
  imports Certification
begin

text \<open>
  Certification runs (\<^verbatim>\<open>railone_certification/runner.py\<close>, \<^verbatim>\<open>service.py\<close>, \<^verbatim>\<open>store.py\<close>): the suite derived from a manifest,
  the execution of its cases by a driver, the recorder of runs and traces, signed reports and the coordinator.

  The driver is a parameter: for a scenario it raises an exception of some class, named, or returns a trace.  The
  milliseconds a case takes on the monotonic clock are an argument.
\<close>

section \<open>Suites\<close>

record cert_suite =
  su_suite_id :: string
  su_suite_version :: string
  su_scenarios :: "cert_scenario list"
  su_per_case_timeout_seconds :: int

definition suite_of :: "cert_scenario list \<Rightarrow> cert_suite" where
  "suite_of scenarios = \<lparr>su_suite_id = ''RAILONE-PARTNER-PILOT'', su_suite_version = ''1.0.0'', su_scenarios = scenarios,
     su_per_case_timeout_seconds = 30\<rparr>"

definition pilot_v1 :: cert_suite where
  "pilot_v1 = suite_of [P2P_SETTLED, MERCHANT_SUPPLIER_SETTLED, CROSS_BORDER_SETTLED, DUPLICATE_SUBMISSION, UNKNOWN_THEN_RECONCILED,
     TAMPERED_CALLBACK_REJECTED, DUPLICATE_CALLBACK_EXACTLY_ONCE, SETTLEMENT_AMOUNT_MISMATCH_REJECTED, HISTORY_ACCESS_CONTROL,
     SMS_FINALITY_GATE, ADAPTER_VERSION_PIN]"

definition cross_border :: "capability_manifest \<Rightarrow> bool" where
  "cross_border m \<longleftrightarrow> set (cm_source_countries m) \<noteq> set (cm_destination_countries m) \<or> set (cm_currencies_from m) \<noteq> set (cm_currencies_to m)"

definition suite_for_manifest :: "capability_manifest \<Rightarrow> cert_suite res" where
  "suite_for_manifest m =
     (if \<not> (cm_supports_callbacks m \<or> cm_supports_active_status m \<or> cm_supports_reconciliation m)
      then Inl (Raise ValueError ''pilot certification requires an external finality evidence path'')
      else Inr (suite_of ([P2P_SETTLED, MERCHANT_SUPPLIER_SETTLED, HISTORY_ACCESS_CONTROL, SMS_FINALITY_GATE, ADAPTER_VERSION_PIN, DUPLICATE_SUBMISSION]
        @ (if cross_border m then [CROSS_BORDER_SETTLED] else [])
        @ (if cm_supports_active_status m \<or> cm_supports_reconciliation m then [UNKNOWN_THEN_RECONCILED] else [])
        @ (if cm_supports_callbacks m then [TAMPERED_CALLBACK_REJECTED, DUPLICATE_CALLBACK_EXACTLY_ONCE, SETTLEMENT_AMOUNT_MISMATCH_REJECTED] else []))))"

section \<open>The recorder\<close>

record run_record =
  rr_adapter_binding_ref :: string
  rr_manifest_payload_sha256 :: string
  rr_suite_id :: string
  rr_suite_version :: string
  rr_started_at :: instant
  rr_status :: string
  rr_outcome :: "(string \<times> instant) option"

record recorder =
  rc_runs :: "(string, run_record) dict"
  rc_traces :: "(string \<times> cert_scenario, cert_trace) dict"

definition begin_run :: "string \<Rightarrow> string \<Rightarrow> string \<Rightarrow> cert_suite \<Rightarrow> instant \<Rightarrow> (recorder, unit) st" where
  "begin_run run_id bref manifest_sha suite started_at s =
     (let material = \<lparr>rr_adapter_binding_ref = bref, rr_manifest_payload_sha256 = manifest_sha, rr_suite_id = su_suite_id suite,
            rr_suite_version = su_suite_version suite, rr_started_at = started_at, rr_status = ''RUNNING'', rr_outcome = None\<rparr> in
      case dict_get (rc_runs s) run_id of
        Some existing \<Rightarrow>
          if existing \<noteq> material then (Inl (Raise RuntimeError ''certification run immutability conflict''), s)
          else (Inl (Raise RuntimeError ''certification run has already started''), s)
      | None \<Rightarrow> (Inr (), s\<lparr>rc_runs := dict_set run_id material (rc_runs s)\<rparr>))"

definition record_trace :: "cert_trace \<Rightarrow> (recorder, unit) st" where
  "record_trace t s =
     (let key = (tr_run_id t, tr_scenario t) in
      if \<not> dict_has (rc_runs s) (tr_run_id t) then (Inl (Raise RuntimeError ''certification trace has no active run''), s)
      else case dict_get (rc_traces s) key of
        Some existing \<Rightarrow>
          if existing \<noteq> t then (Inl (Raise RuntimeError ''certification trace immutability conflict''), s)
          else (Inr (), s\<lparr>rc_traces := dict_set key t (rc_traces s)\<rparr>)
      | None \<Rightarrow> (Inr (), s\<lparr>rc_traces := dict_set key t (rc_traces s)\<rparr>))"

definition complete_run :: "cert_report \<Rightarrow> (recorder, unit) st" where
  "complete_run r s =
     (case dict_get (rc_runs s) (rp_run_id r) of
        None \<Rightarrow> (Inl (Raise RuntimeError ''certification run is not active''), s)
      | Some run \<Rightarrow>
          if rr_status run \<noteq> ''RUNNING'' then (Inl (Raise RuntimeError ''certification run is not active''), s)
          else (Inr (), s\<lparr>rc_runs := dict_set (rp_run_id r) (run\<lparr>rr_status := report_status_value (rp_status r),
                  rr_outcome := Some (rp_report_id r, rp_completed_at r)\<rparr>) (rc_runs s)\<rparr>))"

section \<open>Runs\<close>

record cert_driver =
  dv_adapter_binding_ref :: string
  dv_evidence_classification :: evidence_classification
  dv_execute_case :: "string \<Rightarrow> cert_scenario \<Rightarrow> string + cert_trace"

definition case_failures :: "string \<Rightarrow> cert_driver \<Rightarrow> cert_suite \<Rightarrow> int \<Rightarrow> cert_trace \<Rightarrow> string list" where
  "case_failures run_id d suite duration t =
     evaluate t
     @ (if tr_run_id t \<noteq> run_id then [''trace run_id does not match certification run''] else [])
     @ (if tr_adapter_binding_ref t \<noteq> dv_adapter_binding_ref d then [''driver changed adapter binding''] else [])
     @ (if duration > su_per_case_timeout_seconds suite * 1000 then [''certification case exceeded its execution timeout''] else [])"

definition judged_case :: "string \<Rightarrow> cert_driver \<Rightarrow> cert_suite \<Rightarrow> int \<Rightarrow> cert_scenario \<Rightarrow> cert_trace \<Rightarrow> case_result res" where
  "judged_case run_id d suite duration sc t =
     (let failures = case_failures run_id d suite duration t in
      new_case \<lparr>cr_scenario = sc, cr_status = (if failures \<noteq> [] then CASE_FAILED else CASE_PASSED), cr_trace_id = Some (tr_trace_id t),
        cr_failures = sort (remdups failures), cr_duration_ms = duration, cr_event_count = int (length (tr_events t))\<rparr>)"

definition error_case :: "cert_scenario \<Rightarrow> int \<Rightarrow> string \<Rightarrow> case_result res" where
  "error_case sc duration name =
     new_case \<lparr>cr_scenario = sc, cr_status = CASE_ERROR, cr_trace_id = None,
       cr_failures = [name @ '': certification case execution failed''], cr_duration_ms = duration, cr_event_count = 0\<rparr>"

definition run_case ::
  "string \<Rightarrow> cert_driver \<Rightarrow> cert_suite \<Rightarrow> bool \<Rightarrow> (cert_scenario \<Rightarrow> int \<times> int) \<Rightarrow> cert_scenario \<Rightarrow> (recorder, case_result) st" where
  \<comment> \<open>one turn of the loop; \<open>recording\<close> tells that there is a recorder, \<open>duration\<close> the milliseconds read after the
      trace was recorded and those read when an exception was caught\<close>
  "run_case run_id d suite recording duration sc s =
     (case dv_execute_case d run_id sc of
        Inl name \<Rightarrow> (error_case sc (snd (duration sc)) name, s)
      | Inr t \<Rightarrow>
          (case (if recording then record_trace t s else (Inr (), s)) of
             (Inl e, s') \<Rightarrow> (error_case sc (snd (duration sc)) (exc_name (exc_of e)), s')
           | (Inr _, s') \<Rightarrow>
               (case judged_case run_id d suite (fst (duration sc)) sc t of
                  Inl e \<Rightarrow> (error_case sc (snd (duration sc)) (exc_name (exc_of e)), s')
                | Inr c \<Rightarrow> (Inr c, s'))))"

fun run_cases ::
  "string \<Rightarrow> cert_driver \<Rightarrow> cert_suite \<Rightarrow> bool \<Rightarrow> (cert_scenario \<Rightarrow> int \<times> int) \<Rightarrow> cert_scenario list \<Rightarrow> (recorder, case_result list) st" where
  "run_cases run_id d suite recording duration [] = sret []"
| "run_cases run_id d suite recording duration (sc # scs) =
     sbind (run_case run_id d suite recording duration sc) (\<lambda>c.
     sbind (run_cases run_id d suite recording duration scs) (\<lambda>cs. sret (c # cs)))"

definition whole_second :: "instant \<Rightarrow> instant" where
  \<comment> \<open>\<^verbatim>\<open>value.replace(microsecond=0)\<close>\<close>
  "whole_second t = t div 1000000 * 1000000"

definition report_for :: "string \<Rightarrow> cert_driver \<Rightarrow> string \<Rightarrow> cert_suite \<Rightarrow> case_result list \<Rightarrow> instant \<Rightarrow> instant \<Rightarrow> cert_report res" where
  "report_for run_id d manifest_sha suite cases start finish =
     (let r = \<lparr>rp_report_id = [], rp_run_id = run_id, rp_suite_id = su_suite_id suite, rp_suite_version = su_suite_version suite,
            rp_adapter_binding_ref = dv_adapter_binding_ref d, rp_manifest_payload_sha256 = manifest_sha,
            rp_evidence_classification = dv_evidence_classification d, rp_status = expected_status cases, rp_cases = cases,
            rp_started_at = start, rp_completed_at = finish\<rparr> in
      rbind (report_content_id r) (\<lambda>report_id. new_report (r\<lparr>rp_report_id := report_id\<rparr>)))"

definition run_suite ::
  "platform \<Rightarrow> string \<Rightarrow> cert_driver \<Rightarrow> string \<Rightarrow> cert_suite \<Rightarrow> datetime \<Rightarrow> bool \<Rightarrow> (cert_scenario \<Rightarrow> int \<times> int) \<Rightarrow> instant \<Rightarrow> (recorder, cert_report) st" where
  \<comment> \<open>\<^verbatim>\<open>CertificationRunner.run\<close>; \<open>now\<close> is the time read after the last case\<close>
  "run_suite P run_id d manifest_sha suite at recording duration now =
     (let start = whole_second (astimezone_utc P at) in
      sbind (if recording then begin_run run_id (dv_adapter_binding_ref d) manifest_sha suite start else sret ()) (\<lambda>_.
      sbind (run_cases run_id d suite recording duration (su_scenarios suite)) (\<lambda>cases.
      sbind (slift (report_for run_id d manifest_sha suite cases start (max (whole_second now) start))) (\<lambda>report.
      sbind (if recording then complete_run report else sret ()) (\<lambda>_. sret report)))))"

section \<open>Signed reports\<close>

record signed_report =
  sg_report :: cert_report
  sg_signature :: envelope

type_synonym report_store = "(string, signed_report) dict"

definition put_report :: "signed_report \<Rightarrow> (report_store, signed_report) st" where
  "put_report r s =
     (case dict_get s (rp_report_id (sg_report r)) of
        Some existing \<Rightarrow>
          if existing \<noteq> r then (Inl (Raise RuntimeError ''certification report immutability conflict''), s)
          else (Inr r, dict_set (rp_report_id (sg_report r)) r s)
      | None \<Rightarrow> (Inr r, dict_set (rp_report_id (sg_report r)) r s))"

definition require_report :: "string \<Rightarrow> report_store \<Rightarrow> signed_report res" where
  "require_report report_id s =
     (case dict_get s report_id of None \<Rightarrow> Inl (Raise LookupError ''certification report not found'') | Some r \<Rightarrow> Inr r)"

definition sign_and_commit :: "platform \<Rightarrow> key_provider \<Rightarrow> string \<Rightarrow> cert_report \<Rightarrow> datetime \<Rightarrow> (report_store, signed_report) st" where
  "sign_and_commit P ks key_id r at =
     sbind (slift (guard_res (rp_evidence_classification r = SYNTHETIC_SELF_TEST) PermissionError
              ''synthetic self-test reports cannot be signed as partner evidence'')) (\<lambda>_.
     sbind (slift (sign_artifact P ks PARTNER_CERTIFICATION_REPORT (report_payload r) key_id at)) (\<lambda>env.
     put_report \<lparr>sg_report = r, sg_signature = env\<rparr>))"

definition verify_report :: "platform \<Rightarrow> key_provider \<Rightarrow> signed_report \<Rightarrow> unit res" where
  "verify_report P ks r =
     rbind (verify_artifact P ks (sg_signature r) (Some PARTNER_CERTIFICATION_REPORT) False) (\<lambda>check.
     rbind (guard_res (\<not> vr_valid check) PermissionError (''certification report rejected: '' @ vr_reason check)) (\<lambda>_.
     guard_res (\<not> py_eq (thaw (env_payload (sg_signature r))) (report_payload (sg_report r))) PermissionError
       ''certification report object differs from signed payload''))"

record cert_world =
  cw_recorder :: recorder
  cw_reports :: report_store

definition certify ::
  "platform \<Rightarrow> key_provider \<Rightarrow> string \<Rightarrow> string \<Rightarrow> cert_driver \<Rightarrow> signed_manifest \<Rightarrow> datetime \<Rightarrow> (cert_scenario \<Rightarrow> int \<times> int) \<Rightarrow> instant \<Rightarrow>
    (cert_world, signed_report) st" where
  \<comment> \<open>\<^verbatim>\<open>PartnerCertificationCoordinator.certify\<close>\<close>
  "certify P ks key_id run_id d sman at duration now w =
     (let m = sm_manifest sman in
      case rbind (verify_manifest P ks sman) (\<lambda>_.
           rbind (require_aware ''instant'' at) (\<lambda>t.
           rbind (guard_res (\<not> is_active_at m t) PermissionError ''inactive adapter manifest cannot be certified'') (\<lambda>_.
           rbind (guard_res (de_certification_status (cm_descriptor m) \<notin> set [CERT_CONFORMANCE, CERT_CERTIFIED]) PermissionError
                    ''adapter manifest is not eligible for certification'') (\<lambda>_.
           rbind (guard_res (dv_adapter_binding_ref d \<noteq> binding_ref (cm_descriptor m)) PermissionError
                    ''certification driver does not match the signed adapter version'') (\<lambda>_.
           rbind (guard_res (dv_evidence_classification d \<noteq> PARTNER_SANDBOX) PermissionError
                    ''authoritative certification requires partner sandbox evidence'') (\<lambda>_.
           rbind (rbind (py_item (env_protected (sm_signature sman)) ''payload_sha256'') py_str) (\<lambda>sha.
           rbind (suite_for_manifest m) (\<lambda>suite. Inr (sha, suite))))))))) of
        Inl e \<Rightarrow> (Inl e, w)
      | Inr (sha, suite) \<Rightarrow>
          (case run_suite P run_id d sha suite at True duration now (cw_recorder w) of
             (Inl e, rec) \<Rightarrow> (Inl e, w\<lparr>cw_recorder := rec\<rparr>)
           | (Inr report, rec) \<Rightarrow>
               (case sign_and_commit P ks key_id report (Aware (rp_completed_at report)) (cw_reports w) of
                  (x, reports) \<Rightarrow> (x, w\<lparr>cw_recorder := rec, cw_reports := reports\<rparr>))))"

end
