(* ===== verification/Certification_Properties.thy ===== *)
theory Certification_Properties
  imports Certification_Runner
begin

text \<open>
  What a certification report proves: a passed report has, for every case of the suite, a recorded trace of the
  driver that meets the expectation of the scenario the trace names; and what it does not prove: that the trace names the case.
\<close>

section \<open>Evaluation\<close>

definition conforms :: "cert_trace \<Rightarrow> bool" where
  \<comment> \<open>what the evaluation of a trace demands\<close>
  "conforms t \<longleftrightarrow> (let es = tr_events t; x = expectations (tr_scenario t) in
     (\<forall>(k, n)\<in>set (ex_exact x). event_count es k = n) \<and> (\<forall>(k, n)\<in>set (ex_minimum x). n \<le> event_count es k)
   \<and> (\<forall>k\<in>set (ex_forbidden x). event_count es k = 0)
   \<and> (\<forall>(a, b)\<in>set (ex_ordered x). event_count es a \<noteq> 0 \<longrightarrow> event_count es b \<noteq> 0 \<longrightarrow> first_of es a < first_of es b)
   \<and> (\<forall>s\<in>set (ex_required_scopes x). Some s \<in> set (read_scopes es))
   \<and> sorted (map ce_occurred_at es) \<and> distinct (map ce_event_id es)
   \<and> card (set (List.map_filter ce_utt_id es)) \<le> 1
   \<and> (tr_scenario t \<noteq> UNKNOWN_THEN_RECONCILED \<longrightarrow> card (set (List.map_filter ce_rtt_id es)) \<le> 1)
   \<and> (event_count es TE_RTT_CREATED \<noteq> 0 \<longrightarrow> event_count es TE_UTT_CREATED \<noteq> 0)
   \<and> (event_count es TE_SMS_PREPARED \<noteq> 0 \<longrightarrow> event_count es TE_PLAN_FINALIZED \<noteq> 0)
   \<and> (event_count es TE_PLAN_FINALIZED \<noteq> 0 \<longrightarrow> event_count es TE_RTT_SUCCEEDED \<noteq> 0)
   \<and> (event_count es TE_RTT_SUCCEEDED \<noteq> 0 \<longrightarrow> event_count es TE_EXTERNAL_EVIDENCE_VERIFIED \<noteq> 0)
   \<and> (\<forall>e\<in>set es. ce_event_type e = TE_EXTERNAL_EVIDENCE_VERIFIED \<longrightarrow> ce_evidence_sha256 e \<noteq> None)
   \<and> (event_count es TE_OUTCOME_UNKNOWN \<noteq> 0 \<longrightarrow> event_count es TE_PROVIDER_DISPATCHED \<le> 1))"

lemma no_failures:
  "exact_failures es ps = [] \<longleftrightarrow> (\<forall>(k, n)\<in>set ps. event_count es k = n)"
  "minimum_failures es ps = [] \<longleftrightarrow> (\<forall>(k, n)\<in>set ps. n \<le> event_count es k)"
  "forbidden_failures es ks = [] \<longleftrightarrow> (\<forall>k\<in>set ks. event_count es k = 0)"
  "order_failures es qs = [] \<longleftrightarrow> (\<forall>(a, b)\<in>set qs. event_count es a \<noteq> 0 \<longrightarrow> event_count es b \<noteq> 0 \<longrightarrow> first_of es a < first_of es b)"
  "scope_failures es scopes = [] \<longleftrightarrow> (\<forall>s\<in>set scopes. Some s \<in> set (read_scopes es))"
  unfolding exact_failures_def minimum_failures_def forbidden_failures_def order_failures_def scope_failures_def
  by (auto simp: filter_empty_conv not_less not_le)

lemma no_global_failure:
  "global_invariants t = [] \<longleftrightarrow> (let es = tr_events t in
     sorted (map ce_occurred_at es) \<and> distinct (map ce_event_id es) \<and> card (set (List.map_filter ce_utt_id es)) \<le> 1
   \<and> (tr_scenario t \<noteq> UNKNOWN_THEN_RECONCILED \<longrightarrow> card (set (List.map_filter ce_rtt_id es)) \<le> 1)
   \<and> (event_count es TE_RTT_CREATED \<noteq> 0 \<longrightarrow> event_count es TE_UTT_CREATED \<noteq> 0)
   \<and> (event_count es TE_SMS_PREPARED \<noteq> 0 \<longrightarrow> event_count es TE_PLAN_FINALIZED \<noteq> 0)
   \<and> (event_count es TE_PLAN_FINALIZED \<noteq> 0 \<longrightarrow> event_count es TE_RTT_SUCCEEDED \<noteq> 0)
   \<and> (event_count es TE_RTT_SUCCEEDED \<noteq> 0 \<longrightarrow> event_count es TE_EXTERNAL_EVIDENCE_VERIFIED \<noteq> 0)
   \<and> (\<forall>e\<in>set es. ce_event_type e = TE_EXTERNAL_EVIDENCE_VERIFIED \<longrightarrow> ce_evidence_sha256 e \<noteq> None)
   \<and> (event_count es TE_OUTCOME_UNKNOWN \<noteq> 0 \<longrightarrow> event_count es TE_PROVIDER_DISPATCHED \<le> 1))"
proof -
  have f: "(if b then [m] else []) = [] \<longleftrightarrow> \<not> b" for b and m :: string by simp
  show ?thesis unfolding global_invariants_def Let_def append_is_Nil_conv f length_remdups_card_conv not_less de_Morgan_conj not_not
    by (rule iffI; elim conjE; intro conjI; (assumption | metis))
qed

lemma evaluate_conforms: "evaluate t = [] \<longleftrightarrow> conforms t"
proof -
  have "sort (remdups xs) = [] \<longleftrightarrow> xs = []" for xs :: "string list" by (metis remdups_eq_nil_iff set_empty set_sort)
  then have "evaluate t = [] \<longleftrightarrow> (let es = tr_events t; x = expectations (tr_scenario t) in
       exact_failures es (ex_exact x) = [] \<and> minimum_failures es (ex_minimum x) = [] \<and> forbidden_failures es (ex_forbidden x) = []
     \<and> order_failures es (ex_ordered x) = [] \<and> scope_failures es (ex_required_scopes x) = [] \<and> global_invariants t = [])"
    unfolding evaluate_def Let_def append_is_Nil_conv by simp
  then show ?thesis unfolding conforms_def Let_def no_failures no_global_failure .
qed

section \<open>Runs\<close>

lemma record_trace_keeps: "record_trace t s = (x, s') \<Longrightarrow> dict_get (rc_traces s) k = Some u \<Longrightarrow> dict_get (rc_traces s') k = Some u"
  by (auto simp: record_trace_def Let_def split: if_splits option.splits)

lemma record_trace_stores: "record_trace t s = (Inr (), s') \<Longrightarrow> dict_get (rc_traces s') (tr_run_id t, tr_scenario t) = Some t"
  by (auto simp: record_trace_def Let_def split: if_splits option.splits)

definition accepted_case :: "string \<Rightarrow> cert_driver \<Rightarrow> cert_suite \<Rightarrow> (cert_scenario \<Rightarrow> int \<times> int) \<Rightarrow> recorder \<Rightarrow> cert_scenario \<Rightarrow> bool" where
  \<comment> \<open>the trace conforms to the scenario that it names itself; the runner does not compare this with the case \<open>sc\<close>\<close>
  "accepted_case run_id d suite duration s sc \<longleftrightarrow> (\<exists>t. dv_execute_case d run_id sc = Inr t \<and> conforms t \<and> tr_run_id t = run_id
     \<and> tr_adapter_binding_ref t = dv_adapter_binding_ref d \<and> fst (duration sc) \<le> su_per_case_timeout_seconds suite * 1000
     \<and> dict_get (rc_traces s) (run_id, tr_scenario t) = Some t)"

lemma error_caseD: "error_case sc n name = Inr c \<Longrightarrow> cr_scenario c = sc \<and> cr_status c = CASE_ERROR"
  by (auto simp: error_case_def new_case_def rbind_eq_Inr)

lemma judged_caseD:
  assumes "judged_case run_id d suite n sc t = Inr c"
  shows "cr_scenario c = sc \<and> (cr_status c = CASE_PASSED \<longleftrightarrow> case_failures run_id d suite n t = [])"
  using assms by (auto simp: judged_case_def Let_def new_case_def rbind_eq_Inr split: if_splits)

lemma run_caseD:
  assumes "run_case run_id d suite True duration sc s = (Inr c, s')"
  shows "cr_scenario c = sc \<and> (cr_status c = CASE_PASSED \<longrightarrow> accepted_case run_id d suite duration s' sc)
    \<and> (\<forall>k u. dict_get (rc_traces s) k = Some u \<longrightarrow> dict_get (rc_traces s') k = Some u)"
proof (cases "dv_execute_case d run_id sc")
  case (Inl name)
  then show ?thesis using assms error_caseD [of sc "snd (duration sc)" name c] by (simp add: run_case_def)
next
  case (Inr t)
  obtain x s1 where rt: "record_trace t s = (x, s1)" by fastforce
  have s1: "s' = s1" using assms Inr rt by (auto simp: run_case_def split: sum.splits)
  have keeps: "\<forall>k u. dict_get (rc_traces s) k = Some u \<longrightarrow> dict_get (rc_traces s') k = Some u" using record_trace_keeps [OF rt] s1 by blast
  show ?thesis
  proof (cases x)
    case (Inl e)
    then show ?thesis using assms Inr rt keeps error_caseD [of sc "snd (duration sc)"] by (auto simp: run_case_def)
  next
    case ok: (Inr u)
    have st: "dict_get (rc_traces s') (tr_run_id t, tr_scenario t) = Some t" using record_trace_stores [of t s s1] rt ok s1 by simp
    show ?thesis
    proof (cases "judged_case run_id d suite (fst (duration sc)) sc t")
      case (Inl e)
      then show ?thesis using assms Inr rt ok keeps error_caseD [of sc "snd (duration sc)"] by (auto simp: run_case_def)
    next
      case j: (Inr c')
      then have c: "c' = c" using assms Inr rt ok by (simp add: run_case_def)
      have "accepted_case run_id d suite duration s' sc" if p: "case_failures run_id d suite (fst (duration sc)) t = []"
        using p st Inr unfolding case_failures_def accepted_case_def evaluate_conforms [symmetric] by (auto split: if_splits)
      then show ?thesis using judged_caseD [OF j] c keeps by blast
    qed
  qed
qed

lemma run_casesD:
  assumes "run_cases run_id d suite True duration scs s = (Inr cs, s')"
  shows "map cr_scenario cs = scs \<and> (expected_status cs = REPORT_PASSED \<longrightarrow> (\<forall>sc\<in>set scs. accepted_case run_id d suite duration s' sc))
    \<and> (\<forall>k u. dict_get (rc_traces s) k = Some u \<longrightarrow> dict_get (rc_traces s') k = Some u)"
  using assms
proof (induction scs arbitrary: s cs)
  case (Cons sc scs)
  obtain c s1 cs1 where r: "run_case run_id d suite True duration sc s = (Inr c, s1)" "run_cases run_id d suite True duration scs s1 = (Inr cs1, s')" "cs = c # cs1"
    using Cons.prems by (auto simp: sbind_eq_Inr sret_def)
  note one = run_caseD [OF r(1)] and rest = Cons.IH [OF r(2)]
  have "accepted_case run_id d suite duration s' sc" if "cr_status c = CASE_PASSED"
    using one that rest unfolding accepted_case_def by metis
  then show ?case using one rest r(3) by (auto simp: expected_status_def split: if_splits)
qed (simp add: sret_def)

lemma report_forD:
  assumes "report_for run_id d sha suite cs start finish = Inr r"
  shows "rp_cases r = cs \<and> rp_status r = expected_status cs \<and> rp_run_id r = run_id \<and> rp_adapter_binding_ref r = dv_adapter_binding_ref d
    \<and> rp_manifest_payload_sha256 r = sha \<and> rp_evidence_classification r = dv_evidence_classification d \<and> rp_completed_at r = finish"
  using assms by (auto simp: report_for_def Let_def new_report_def rbind_eq_Inr)

lemma complete_run_traces: "complete_run r s = (x, s') \<Longrightarrow> rc_traces s' = rc_traces s"
  by (auto simp: complete_run_def split: option.splits if_splits)

lemma run_suiteD:
  assumes "run_suite P run_id d sha suite at True duration now s = (Inr r, s')"
  shows "map cr_scenario (rp_cases r) = su_scenarios suite \<and> rp_run_id r = run_id \<and> rp_adapter_binding_ref r = dv_adapter_binding_ref d
    \<and> rp_manifest_payload_sha256 r = sha
    \<and> (rp_status r = REPORT_PASSED \<longrightarrow> (\<forall>sc\<in>set (su_scenarios suite). accepted_case run_id d suite duration s' sc))"
proof -
  obtain s1 s2 cs where r: "run_cases run_id d suite True duration (su_scenarios suite) s1 = (Inr cs, s2)"
    "report_for run_id d sha suite cs (whole_second (astimezone_utc P at)) (max (whole_second now) (whole_second (astimezone_utc P at))) = Inr r"
    "complete_run r s2 = (Inr (), s')"
    using assms unfolding run_suite_def Let_def by (auto simp: sbind_eq_Inr slift_def sret_def)
  note c = run_casesD [OF r(1)] and f = report_forD [OF r(2)]
  have "accepted_case run_id d suite duration s' sc \<longleftrightarrow> accepted_case run_id d suite duration s2 sc" for sc
    using complete_run_traces [OF r(3)] by (simp add: accepted_case_def)
  then show ?thesis using c f by simp
qed

definition names_cases :: "cert_driver \<Rightarrow> string \<Rightarrow> bool" where
  \<comment> \<open>the driver answers a case with a trace of that case\<close>
  "names_cases d run_id \<longleftrightarrow> (\<forall>sc t. dv_execute_case d run_id sc = Inr t \<longrightarrow> tr_scenario t = sc)"

lemma accepted_by_name:
  "accepted_case run_id d suite duration s sc \<Longrightarrow> names_cases d run_id \<Longrightarrow>
     \<exists>t. dict_get (rc_traces s) (run_id, sc) = Some t \<and> tr_scenario t = sc \<and> conforms t"
  by (auto simp: accepted_case_def names_cases_def)

text \<open>
  C33. What a passed certification is backed by.  When the coordinator returns a report, the manifest's signature was verified, the
  manifest is active and eligible, the driver is for exactly the signed adapter version and collects partner evidence, the report is
  stored under its identifier, and it has one case for each scenario the manifest's capabilities demand.  If the report is passed, then for
  every case the driver returned, in time, a trace of this run and binding that meets all expectations of the scenario the trace itself
  names, and the recorder still holds it under that scenario.  The runner does not check that this is the scenario of the case; only
  for a driver that answers each case with a trace naming that case does a passed report mean that every demanded scenario has a
  recorded trace that meets the scenario's expectations.\<close>

theorem certification_sound:
  assumes "certify P ks key_id run_id d sman at duration now w = (Inr sr, w')"
  shows "verify_manifest P ks sman = Inr () \<and> (\<exists>t. at = Aware t \<and> is_active_at (sm_manifest sman) t)
    \<and> de_certification_status (cm_descriptor (sm_manifest sman)) \<in> {CERT_CONFORMANCE, CERT_CERTIFIED}
    \<and> dv_adapter_binding_ref d = binding_ref (cm_descriptor (sm_manifest sman)) \<and> dv_evidence_classification d = PARTNER_SANDBOX
    \<and> rp_adapter_binding_ref (sg_report sr) = dv_adapter_binding_ref d
    \<and> dict_get (cw_reports w') (rp_report_id (sg_report sr)) = Some sr
    \<and> (\<exists>suite. suite_for_manifest (sm_manifest sman) = Inr suite \<and> map cr_scenario (rp_cases (sg_report sr)) = su_scenarios suite
        \<and> (rp_status (sg_report sr) = REPORT_PASSED \<longrightarrow>
             (\<forall>sc\<in>set (su_scenarios suite). accepted_case run_id d suite duration (cw_recorder w') sc)
             \<and> (names_cases d run_id \<longrightarrow> (\<forall>sc\<in>set (su_scenarios suite).
                  \<exists>t. dict_get (rc_traces (cw_recorder w')) (run_id, sc) = Some t \<and> tr_scenario t = sc \<and> conforms t))))"
proof -
  obtain t sha suite where v: "verify_manifest P ks sman = Inr ()" "at = Aware t" "is_active_at (sm_manifest sman) t"
    "de_certification_status (cm_descriptor (sm_manifest sman)) \<in> {CERT_CONFORMANCE, CERT_CERTIFIED}"
    "dv_adapter_binding_ref d = binding_ref (cm_descriptor (sm_manifest sman))" "dv_evidence_classification d = PARTNER_SANDBOX"
    "suite_for_manifest (sm_manifest sman) = Inr suite"
    and rest: "(case run_suite P run_id d sha suite at True duration now (cw_recorder w) of
             (Inl e, rec) \<Rightarrow> (Inl e, w\<lparr>cw_recorder := rec\<rparr>)
           | (Inr report, rec) \<Rightarrow>
               (case sign_and_commit P ks key_id report (Aware (rp_completed_at report)) (cw_reports w) of
                  (x, reports) \<Rightarrow> (x, w\<lparr>cw_recorder := rec, cw_reports := reports\<rparr>))) = (Inr sr, w')"
    using assms unfolding certify_def Let_def
    by (auto simp: rbind_eq_Inr guard_res_eq_Inr require_aware_def split: sum.splits datetime.splits)
  obtain report rec reports where r: "run_suite P run_id d sha suite at True duration now (cw_recorder w) = (Inr report, rec)"
    "sign_and_commit P ks key_id report (Aware (rp_completed_at report)) (cw_reports w) = (Inr sr, reports)"
    "cw_recorder w' = rec" "cw_reports w' = reports"
    using rest by (auto split: prod.splits sum.splits)
  have "sg_report sr = report \<and> dict_get reports (rp_report_id report) = Some sr"
    using r(2) unfolding sign_and_commit_def
    by (auto simp: sbind_eq_Inr slift_def put_report_def split: option.splits if_splits)
  then show ?thesis using v run_suiteD [OF r(1)] r(3,4) accepted_by_name by auto
qed

section \<open>What a passed report does not show\<close>

lemma plain_opt_str [simp]: "plain (opt_str v)"
  by (cases v) (simp_all add: opt_str_def)

lemma report_id_ok: "\<exists>i. report_content_id r = Inr i"
proof -
  have "plain (case_payload c)" for c by (simp add: case_payload_def plain_obj)
  then have "plain (obj (report_core r))" by (simp add: report_core_def plain_obj plain_seq_map)
  then show ?thesis unfolding report_content_id_def by (rule content_id_ok)
qed

lemma rejection_passes:
  assumes "tr_scenario t = TAMPERED_CALLBACK_REJECTED" "tr_events t = [e]" "ce_event_type e = TE_CALLBACK_REJECTED"
  shows "evaluate t = []"
proof -
  have mf: "card (set (List.map_filter f [x])) \<le> Suc 0" for f :: "cert_event \<Rightarrow> string option" and x
    by (cases "f x") (simp_all add: List.map_filter_def)
  show ?thesis unfolding evaluate_conforms conforms_def assms(1,2) by (simp add: assms(3) event_count_def no_expectation_def mf [simplified])
qed

lemma report_for_ok:
  assumes "binding_form (dv_adapter_binding_ref d)" "sha256_form sha" "cs \<noteq> []" "distinct (map cr_scenario cs)" "start \<le> finish"
  shows "\<exists>r. report_for run_id d sha suite cs start finish = Inr r"
proof -
  have "report_content_id (r\<lparr>rp_report_id := i\<rparr>) = report_content_id r" for r i by (simp add: report_content_id_def report_core_def)
  moreover obtain i where "report_content_id \<lparr>rp_report_id = [], rp_run_id = run_id, rp_suite_id = su_suite_id suite, rp_suite_version = su_suite_version suite,
      rp_adapter_binding_ref = dv_adapter_binding_ref d, rp_manifest_payload_sha256 = sha, rp_evidence_classification = dv_evidence_classification d,
      rp_status = expected_status cs, rp_cases = cs, rp_started_at = start, rp_completed_at = finish\<rparr> = Inr i" (is "report_content_id ?r = _")
    using report_id_ok by blast
  ultimately have "new_report (?r\<lparr>rp_report_id := i\<rparr>) = Inr (?r\<lparr>rp_report_id := i\<rparr>)" "report_content_id ?r = Inr i"
    using assms unfolding new_report_def by (simp_all only:) simp_all
  then show ?thesis unfolding report_for_def Let_def by simp
qed

definition passing :: "string \<Rightarrow> cert_driver \<Rightarrow> cert_suite \<Rightarrow> cert_trace \<Rightarrow> bool" where
  "passing run_id d suite t \<longleftrightarrow> evaluate t = [] \<and> tr_run_id t = run_id \<and> tr_adapter_binding_ref t = dv_adapter_binding_ref d"

definition free_for :: "cert_trace \<Rightarrow> recorder \<Rightarrow> bool" where
  \<comment> \<open>the run is open and the recorder holds nothing else under the key of the trace\<close>
  "free_for t s \<longleftrightarrow> dict_has (rc_runs s) (tr_run_id t) \<and> rc_traces s \<in> {[], [((tr_run_id t, tr_scenario t), t)]}"

lemma same_trace_case:
  assumes "dv_execute_case d run_id sc = Inr t" "passing run_id d suite t" "0 \<le> fst (duration sc)" "fst (duration sc) \<le> su_per_case_timeout_seconds suite * 1000" "free_for t s"
  shows "\<exists>c. run_case run_id d suite True duration sc s = (Inr c, s\<lparr>rc_traces := [((tr_run_id t, tr_scenario t), t)]\<rparr>)
    \<and> cr_scenario c = sc \<and> cr_status c = CASE_PASSED"
proof -
  have "record_trace t s = (Inr (), s\<lparr>rc_traces := [((tr_run_id t, tr_scenario t), t)]\<rparr>)"
    using assms(5) by (auto simp: free_for_def record_trace_def Let_def)
  moreover have "case_failures run_id d suite (fst (duration sc)) t = []" using assms(2,4) by (simp add: passing_def case_failures_def)
  ultimately show ?thesis using assms(1,3) by (simp add: run_case_def judged_case_def new_case_def)
qed

lemma same_trace_cases:
  assumes "\<forall>sc\<in>set scs. dv_execute_case d run_id sc = Inr t \<and> 0 \<le> fst (duration sc) \<and> fst (duration sc) \<le> su_per_case_timeout_seconds suite * 1000"
    and "passing run_id d suite t" "free_for t s" "scs \<noteq> []"
  shows "\<exists>cs. run_cases run_id d suite True duration scs s = (Inr cs, s\<lparr>rc_traces := [((tr_run_id t, tr_scenario t), t)]\<rparr>)
    \<and> map cr_scenario cs = scs \<and> expected_status cs = REPORT_PASSED"
  using assms
proof (induction scs arbitrary: s)
  case (Cons sc scs)
  let ?s = "s\<lparr>rc_traces := [((tr_run_id t, tr_scenario t), t)]\<rparr>"
  obtain c where c: "run_case run_id d suite True duration sc s = (Inr c, ?s)" "cr_scenario c = sc" "cr_status c = CASE_PASSED"
    using same_trace_case [of d run_id sc t suite duration s] Cons.prems by auto
  have "free_for t ?s" using Cons.prems(3) by (simp add: free_for_def)
  show ?case
  proof (cases "scs = []")
    case True
    then show ?thesis using c by (simp add: sbind_def sret_def expected_status_def)
  next
    case False
    obtain cs where "run_cases run_id d suite True duration scs ?s = (Inr cs, ?s)" "map cr_scenario cs = scs" "expected_status cs = REPORT_PASSED"
      using Cons.IH [of ?s] Cons.prems \<open>free_for t ?s\<close> False by auto
    then show ?thesis using c by (auto simp: sbind_def sret_def expected_status_def split: if_splits)
  qed
qed simp

lemma named_trace_cases:
  assumes "\<forall>sc\<in>set scs. dv_execute_case d run_id sc = Inr (tf sc) \<and> passing run_id d suite (tf sc) \<and> tr_scenario (tf sc) = sc
      \<and> 0 \<le> fst (duration sc) \<and> fst (duration sc) \<le> su_per_case_timeout_seconds suite * 1000"
    and "distinct scs" "dict_has (rc_runs s) run_id" "\<forall>sc\<in>set scs. dict_get (rc_traces s) (run_id, sc) = None"
  shows "\<exists>cs. run_cases run_id d suite True duration scs s = (Inr cs, s\<lparr>rc_traces := rc_traces s @ map (\<lambda>sc. ((run_id, sc), tf sc)) scs\<rparr>)
    \<and> map cr_scenario cs = scs \<and> (\<forall>c\<in>set cs. cr_status c = CASE_PASSED)"
  using assms
proof (induction scs arbitrary: s)
  case (Cons sc scs)
  let ?s = "s\<lparr>rc_traces := rc_traces s @ [((run_id, sc), tf sc)]\<rparr>"
  have p: "passing run_id d suite (tf sc)" "tr_scenario (tf sc) = sc" "tr_run_id (tf sc) = run_id" using Cons.prems(1) by (auto simp: passing_def)
  have "record_trace (tf sc) s = (Inr (), ?s)" using Cons.prems(3,4) p by (auto simp: record_trace_def Let_def dict_set_fresh)
  moreover have "case_failures run_id d suite (fst (duration sc)) (tf sc) = []" using Cons.prems(1) p by (simp add: passing_def case_failures_def)
  ultimately obtain c where c: "run_case run_id d suite True duration sc s = (Inr c, ?s)" "cr_scenario c = sc" "cr_status c = CASE_PASSED"
    using Cons.prems(1) by (simp add: run_case_def judged_case_def new_case_def)
  have "\<forall>x\<in>set scs. dict_get (rc_traces ?s) (run_id, x) = None" using Cons.prems(2,4) by (auto simp: map_add_def split: option.splits)
  then obtain cs where "run_cases run_id d suite True duration scs ?s = (Inr cs, ?s\<lparr>rc_traces := rc_traces ?s @ map (\<lambda>sc. ((run_id, sc), tf sc)) scs\<rparr>)"
    "map cr_scenario cs = scs" "\<forall>c\<in>set cs. cr_status c = CASE_PASSED"
    using Cons.IH [of ?s] Cons.prems by auto
  then show ?case using c by (auto simp: sbind_def sret_def)
qed (simp add: sret_def)

lemma passed_run:
  assumes "distinct (su_scenarios suite)" "su_scenarios suite \<noteq> []" "binding_form (dv_adapter_binding_ref d)" "sha256_form sha"
    and run: "\<And>s1. rc_traces s1 = [] \<Longrightarrow> dict_has (rc_runs s1) run_id \<Longrightarrow>
      \<exists>cs. run_cases run_id d suite True duration (su_scenarios suite) s1 = (Inr cs, s1\<lparr>rc_traces := ts\<rparr>)
        \<and> map cr_scenario cs = su_scenarios suite \<and> expected_status cs = REPORT_PASSED"
  shows "\<exists>r s'. run_suite P run_id d sha suite at True duration now \<lparr>rc_runs = [], rc_traces = []\<rparr> = (Inr r, s')
    \<and> rp_status r = REPORT_PASSED \<and> map cr_scenario (rp_cases r) = su_scenarios suite \<and> rc_traces s' = ts
    \<and> rp_evidence_classification r = dv_evidence_classification d \<and> rp_completed_at r = max (whole_second now) (whole_second (astimezone_utc P at))"
proof -
  let ?start = "whole_second (astimezone_utc P at)" and ?finish = "max (whole_second now) (whole_second (astimezone_utc P at))"
  obtain s1 where b: "begin_run run_id (dv_adapter_binding_ref d) sha suite ?start \<lparr>rc_runs = [], rc_traces = []\<rparr> = (Inr (), s1)"
    and s1: "rc_traces s1 = []" "\<exists>run. rc_runs s1 = [(run_id, run)] \<and> rr_status run = ''RUNNING''"
    by (simp add: begin_run_def Let_def)
  have "dict_has (rc_runs s1) run_id" using s1 by auto
  then obtain cs where c: "run_cases run_id d suite True duration (su_scenarios suite) s1 = (Inr cs, s1\<lparr>rc_traces := ts\<rparr>)"
    "map cr_scenario cs = su_scenarios suite" "expected_status cs = REPORT_PASSED"
    using run [OF s1(1)] by blast
  have "cs \<noteq> []" using c(2) assms(2) by auto
  then obtain r where r: "report_for run_id d sha suite cs ?start ?finish = Inr r"
    using report_for_ok [OF assms(3,4), of cs ?start ?finish run_id suite] assms(1) c(2) by auto
  note rf = report_forD [OF r]
  have "\<exists>s'. complete_run r (s1\<lparr>rc_traces := ts\<rparr>) = (Inr (), s') \<and> rc_traces s' = ts"
    using s1(2) rf by (auto simp: complete_run_def)
  then show ?thesis using b c r rf by (auto simp: run_suite_def Let_def sbind_def slift_def sret_def)
qed

lemma same_trace_run:
  assumes "\<forall>sc\<in>set (su_scenarios suite). dv_execute_case d run_id sc = Inr t \<and> 0 \<le> fst (duration sc) \<and> fst (duration sc) \<le> su_per_case_timeout_seconds suite * 1000"
    and "passing run_id d suite t" "distinct (su_scenarios suite)" "su_scenarios suite \<noteq> []" "binding_form (dv_adapter_binding_ref d)" "sha256_form sha"
  shows "\<exists>r s'. run_suite P run_id d sha suite at True duration now \<lparr>rc_runs = [], rc_traces = []\<rparr> = (Inr r, s')
    \<and> rp_status r = REPORT_PASSED \<and> map cr_scenario (rp_cases r) = su_scenarios suite \<and> rc_traces s' = [((run_id, tr_scenario t), t)]"
proof -
  have rid: "tr_run_id t = run_id" using assms(2) by (simp add: passing_def)
  have "\<exists>cs. run_cases run_id d suite True duration (su_scenarios suite) s1 = (Inr cs, s1\<lparr>rc_traces := [((run_id, tr_scenario t), t)]\<rparr>)
        \<and> map cr_scenario cs = su_scenarios suite \<and> expected_status cs = REPORT_PASSED"
    if "rc_traces s1 = []" "dict_has (rc_runs s1) run_id" for s1
    using same_trace_cases [OF assms(1,2) _ assms(4), of s1] that rid by (auto simp: free_for_def)
  from passed_run [OF assms(3-6) this] show ?thesis by blast
qed

lemma named_trace_run:
  assumes "\<forall>sc\<in>set (su_scenarios suite). dv_execute_case d run_id sc = Inr (tf sc) \<and> passing run_id d suite (tf sc) \<and> tr_scenario (tf sc) = sc
      \<and> 0 \<le> fst (duration sc) \<and> fst (duration sc) \<le> su_per_case_timeout_seconds suite * 1000"
    and "distinct (su_scenarios suite)" "su_scenarios suite \<noteq> []" "binding_form (dv_adapter_binding_ref d)" "sha256_form sha"
  shows "\<exists>r s'. run_suite P run_id d sha suite at True duration now \<lparr>rc_runs = [], rc_traces = []\<rparr> = (Inr r, s')
    \<and> rp_status r = REPORT_PASSED \<and> map cr_scenario (rp_cases r) = su_scenarios suite
    \<and> rp_evidence_classification r = dv_evidence_classification d \<and> rp_completed_at r = max (whole_second now) (whole_second (astimezone_utc P at))"
proof -
  have "\<exists>cs. run_cases run_id d suite True duration (su_scenarios suite) s1
          = (Inr cs, s1\<lparr>rc_traces := map (\<lambda>sc. ((run_id, sc), tf sc)) (su_scenarios suite)\<rparr>)
        \<and> map cr_scenario cs = su_scenarios suite \<and> expected_status cs = REPORT_PASSED"
    if e: "rc_traces s1 = []" "dict_has (rc_runs s1) run_id" for s1
  proof -
    obtain cs where "run_cases run_id d suite True duration (su_scenarios suite) s1
          = (Inr cs, s1\<lparr>rc_traces := map (\<lambda>sc. ((run_id, sc), tf sc)) (su_scenarios suite)\<rparr>)"
      "map cr_scenario cs = su_scenarios suite" "\<forall>c\<in>set cs. cr_status c = CASE_PASSED"
      using named_trace_cases [OF assms(1,2) e(2)] e(1) by auto
    moreover from this have "expected_status cs = REPORT_PASSED" by (simp add: expected_status_def list_all_iff)
    ultimately show ?thesis by blast
  qed
  from passed_run [OF assms(2-5) this] show ?thesis by blast
qed

text \<open>
  C40. The scenario of a trace is not compared with the case.  A driver that answers every scenario with one and the
  same trace, a single rejected callback, passes the whole suite of any manifest: the run completes, the report
  is passed with a passed case for every scenario, and that trace is all the recorder holds.\<close>

theorem one_trace_passes_suite:
  assumes "\<forall>sc. dv_execute_case d run_id sc = Inr t \<and> 0 \<le> fst (duration sc) \<and> fst (duration sc) \<le> 30000"
    and "tr_scenario t = TAMPERED_CALLBACK_REJECTED" "tr_events t = [e]" "ce_event_type e = TE_CALLBACK_REJECTED"
    and "tr_run_id t = run_id" "tr_adapter_binding_ref t = dv_adapter_binding_ref d"
    and "suite_for_manifest m = Inr suite" "binding_form (dv_adapter_binding_ref d)" "sha256_form sha"
  shows "\<exists>r s'. run_suite P run_id d sha suite at True duration now \<lparr>rc_runs = [], rc_traces = []\<rparr> = (Inr r, s')
    \<and> rp_status r = REPORT_PASSED \<and> map cr_scenario (rp_cases r) = su_scenarios suite \<and> length (su_scenarios suite) \<ge> 7
    \<and> rc_traces s' = [((run_id, TAMPERED_CALLBACK_REJECTED), t)]"
proof -
  have su: "su_per_case_timeout_seconds suite = 30" "distinct (su_scenarios suite)" "length (su_scenarios suite) \<ge> 7"
    using assms(7) by (auto simp: suite_for_manifest_def suite_of_def split: if_splits)
  have "passing run_id d suite t" using rejection_passes [OF assms(2-4)] assms(5,6) by (simp add: passing_def)
  moreover have "su_scenarios suite \<noteq> []" using su(3) by auto
  moreover have "\<forall>sc\<in>set (su_scenarios suite). dv_execute_case d run_id sc = Inr t \<and> 0 \<le> fst (duration sc) \<and> fst (duration sc) \<le> su_per_case_timeout_seconds suite * 1000"
    using assms(1) su(1) by simp
  ultimately show ?thesis using same_trace_run [of suite d run_id t duration sha P at now] su assms(2,8,9) by auto
qed

end
