(* ===== verification/Certification_Run.thy ===== *)
theory Certification_Run
  imports Certification_Properties Mpesa_Institution
begin

text \<open>
  Certification runs on a signed manifest with callbacks: a driver that answers every scenario with the trace of one rejected
  callback, and a driver that answers each scenario with a trace of that scenario (the identifiers of its events are symbolic).
  The hypotheses of the certification properties are met.
\<close>

definition cert_manifest :: capability_manifest where
  "cert_manifest = plug_manifest\<lparr>cm_operations := [IOP_CALLBACK, IOP_SUBMIT], cm_supports_callbacks := True\<rparr>"

definition cert_ref :: string where
  "cert_ref = ''railone.mpesa.ke.b2c@1.0.0''"

definition cert_durations :: "cert_scenario \<Rightarrow> int \<times> int" where
  "cert_durations sc = (12, 15)"

definition cert_driver_of :: "cert_trace \<Rightarrow> cert_driver" where
  "cert_driver_of t = \<lparr>dv_adapter_binding_ref = cert_ref, dv_evidence_classification = PARTNER_SANDBOX, dv_execute_case = (\<lambda>run_id sc. Inr t)\<rparr>"

definition cert_draft :: cert_event where
  "cert_draft = \<lparr>ce_event_id = [], ce_scenario = TAMPERED_CALLBACK_REJECTED, ce_event_type = TE_CALLBACK_REJECTED, ce_occurred_at = 0, ce_sequence = 1,
     ce_adapter_binding_ref = cert_ref, ce_utt_id = None, ce_rtt_id = None, ce_evidence_sha256 = None, ce_metadata = []\<rparr>"

definition cert_trace_of :: "cert_event \<Rightarrow> cert_trace" where
  "cert_trace_of e = \<lparr>tr_trace_id = [], tr_run_id = ''RUN-1'', tr_scenario = TAMPERED_CALLBACK_REJECTED, tr_adapter_binding_ref = cert_ref,
     tr_started_at = 0, tr_completed_at = 0, tr_events = [e]\<rparr>"

lemma cert_ref_form: "binding_form cert_ref"
  by code_simp

lemma plain_event: "plain (obj (event_material e))" "plain (event_payload e)"
  by (auto simp: event_material_def event_payload_def plain_obj)

lemma cert_trace_made:
  obtains e t where "create_event demo_platform cert_draft (Aware 0) = Inr e" "create_trace demo_platform (cert_trace_of e) (Aware 0) (Aware 0) = Inr t"
    "ce_event_type e = TE_CALLBACK_REJECTED" "tr_events t = [e]" "tr_scenario t = TAMPERED_CALLBACK_REJECTED" "tr_run_id t = ''RUN-1''"
    "tr_adapter_binding_ref t = cert_ref"
proof -
  obtain i where i: "event_content_id cert_draft = Inr i" unfolding event_content_id_def using content_id_ok plain_event(1) by blast
  let ?e = "cert_draft\<lparr>ce_event_id := i\<rparr>"
  have "event_content_id ?e = Inr i" using i by (simp add: event_content_id_def event_material_def)
  then have e: "create_event demo_platform cert_draft (Aware 0) = Inr ?e"
    using i cert_ref_form by (simp add: create_event_def new_event_def Let_def astimezone_utc_def cert_draft_def)
  have "plain (obj (trace_core (cert_trace_of ?e)))" using plain_event(2) by (simp add: trace_core_def cert_trace_of_def plain_obj)
  then obtain j where j: "trace_content_id (cert_trace_of ?e) = Inr j" unfolding trace_content_id_def using content_id_ok by blast
  let ?t = "(cert_trace_of ?e)\<lparr>tr_trace_id := j\<rparr>"
  have "trace_content_id ?t = Inr j" using j by (simp add: trace_content_id_def trace_core_def)
  then have t: "create_trace demo_platform (cert_trace_of ?e) (Aware 0) (Aware 0) = Inr ?t"
    using j by (simp add: create_trace_def new_trace_def Let_def astimezone_utc_def cert_trace_of_def cert_draft_def)
  show thesis by (rule that [OF e t]) (simp_all add: cert_draft_def cert_trace_of_def)
qed

theorem one_trace_passes_suite_witness:
  "\<exists>t suite r s'. suite_for_manifest cert_manifest = Inr suite
    \<and> run_suite demo_platform ''RUN-1'' (cert_driver_of t) (replicate 64 (CHR ''a'')) suite (Aware 5) True cert_durations 7 \<lparr>rc_runs = [], rc_traces = []\<rparr> = (Inr r, s')
    \<and> rp_status r = REPORT_PASSED"
proof -
  obtain e t where "create_event demo_platform cert_draft (Aware 0) = Inr e" "create_trace demo_platform (cert_trace_of e) (Aware 0) (Aware 0) = Inr t"
    and t: "ce_event_type e = TE_CALLBACK_REJECTED" "tr_events t = [e]" "tr_scenario t = TAMPERED_CALLBACK_REJECTED" "tr_run_id t = ''RUN-1''"
    "tr_adapter_binding_ref t = cert_ref" by (rule cert_trace_made)
  obtain suite where s: "suite_for_manifest cert_manifest = Inr suite" by (simp add: suite_for_manifest_def cert_manifest_def)
  have h: "sha256_form (replicate 64 (CHR ''a''))" by code_simp
  have d: "\<forall>sc. dv_execute_case (cert_driver_of t) ''RUN-1'' sc = Inr t \<and> 0 \<le> fst (cert_durations sc) \<and> fst (cert_durations sc) \<le> 30000"
    by (simp add: cert_driver_of_def cert_durations_def)
  have b: "tr_adapter_binding_ref t = dv_adapter_binding_ref (cert_driver_of t)" "binding_form (dv_adapter_binding_ref (cert_driver_of t))"
    using t(5) cert_ref_form by (simp_all add: cert_driver_of_def)
  show ?thesis using one_trace_passes_suite [OF d t(3,2,1,4) b(1) s b(2) h, of demo_platform "Aware 5" 7] s by blast
qed

section \<open>An authoritative certification\<close>

lemma sha256_form_hex: "sha256_form (sha256_hex m)"
proof -
  have "\<forall>c\<in>set ''0123456789abcdef''. is_digit c \<or> c \<in> set ''abcdef''" by code_simp
  then have "\<forall>c\<in>set (sha256_hex m). is_digit c \<or> c \<in> set ''abcdef''" using sha256_hex_text [of m] unfolding hex_text_def by blast
  then show ?thesis unfolding sha256_form_def list_all_iff by (simp only: length_sha256_hex simp_thms)
qed

lemma cert_signed:
  obtains sman b where "verify_manifest demo_platform demo_keys sman = Inr ()" "sm_manifest sman = cert_manifest"
    "py_item (env_protected (sm_signature sman)) ''payload_sha256'' = Inr (PyStr (sha256_hex b))"
proof -
  have plain: "plain (manifest_payload cert_manifest)"
    by (simp add: manifest_payload_def plain_obj descriptor_payload_def)
  have "can_sign demo_platform demo_keys ''ke'' (purpose_by_artifact INSTITUTION_CAPABILITY_MANIFEST) 0"
    by (simp add: can_sign_def permits_signing_at_def demo_key_def from_epoch_def)
  from can_sign_ok [OF this plain] obtain env where
    e: "sign_artifact demo_platform demo_keys INSTITUTION_CAPABILITY_MANIFEST (manifest_payload cert_manifest) ''ke'' (Aware 0) = Inr env" by blast
  have v: "verify_artifact demo_platform demo_keys env (Some INSTITUTION_CAPABILITY_MANIFEST) False =
      Inr \<lparr>vr_valid = True, vr_reason = ''VALID'', vr_key_id = Some ''ke'', vr_artifact_type = Some INSTITUTION_CAPABILITY_MANIFEST\<rparr>"
    using signed_now_verifies [OF demo_correct demo_keys_inv, where n = 0] e by (simp add: from_epoch_def)
  have p: "env_payload env = freeze (manifest_payload cert_manifest)" "py_item (env_protected env) ''iat'' = Inr (PyInt 0)"
    "\<exists>b. py_item (env_protected env) ''payload_sha256'' = Inr (PyStr (sha256_hex b))"
    using e by (auto elim!: sign_artifactD simp: protected_header_def py_item_def obj_def epoch_def astimezone_utc_def payload_digest_def rbind_eq_Inr)
  have q: "py_eq (thaw (freeze (manifest_payload cert_manifest))) (manifest_payload cert_manifest)" by code_simp
  have "verify_manifest demo_platform demo_keys \<lparr>sm_manifest = cert_manifest, sm_signature = env\<rparr> = Inr ()"
    by (simp add: verify_manifest_def v p q py_int_def fromtimestamp_def from_epoch_def) (simp add: cert_manifest_def plug_manifest_def usec_def)
  then show thesis using that p(3) by fastforce
qed

definition settled_kinds :: "trace_event_type list" where
  "settled_kinds = [TE_UTT_CREATED, TE_FX_QUOTE_BOUND, TE_RTT_CREATED, TE_ADAPTER_BINDING_VERIFIED, TE_PROVIDER_DISPATCHED, TE_PROVIDER_ACCEPTED,
     TE_EXTERNAL_EVIDENCE_VERIFIED, TE_RTT_SUCCEEDED, TE_PLAN_FINALIZED, TE_SMS_PREPARED, TE_SMS_PREPARED]"

fun partner_kinds :: "cert_scenario \<Rightarrow> (trace_event_type \<times> string) list" where
  \<comment> \<open>what a conforming partner does in each scenario, with the actor scope of a read\<close>
  "partner_kinds P2P_SETTLED = map (\<lambda>k. (k, [])) settled_kinds @ [(TE_HISTORY_READ_ALLOWED, ''SENDER''), (TE_HISTORY_READ_ALLOWED, ''RECEIVER'')]"
| "partner_kinds MERCHANT_SUPPLIER_SETTLED = map (\<lambda>k. (k, [])) settled_kinds @ [(TE_HISTORY_READ_ALLOWED, ''MERCHANT''), (TE_HISTORY_READ_ALLOWED, ''BRANCH'')]"
| "partner_kinds CROSS_BORDER_SETTLED = map (\<lambda>k. (k, [])) settled_kinds @ [(TE_HISTORY_READ_ALLOWED, ''SENDER''), (TE_HISTORY_READ_ALLOWED, ''RECEIVER'')]"
| "partner_kinds DUPLICATE_SUBMISSION = map (\<lambda>k. (k, []))
     [TE_UTT_CREATED, TE_RTT_CREATED, TE_PROVIDER_DISPATCHED, TE_PROVIDER_ACCEPTED, TE_IDEMPOTENT_REPLAY_RETURNED]"
| "partner_kinds UNKNOWN_THEN_RECONCILED = map (\<lambda>k. (k, [])) [TE_UTT_CREATED, TE_RTT_CREATED, TE_PROVIDER_DISPATCHED, TE_OUTCOME_UNKNOWN,
     TE_RECONCILIATION_REQUIRED, TE_EXTERNAL_EVIDENCE_VERIFIED, TE_RTT_SUCCEEDED, TE_PLAN_FINALIZED]"
| "partner_kinds TAMPERED_CALLBACK_REJECTED = [(TE_CALLBACK_REJECTED, [])]"
| "partner_kinds DUPLICATE_CALLBACK_EXACTLY_ONCE = map (\<lambda>k. (k, [])) [TE_CALLBACK_ACCEPTED, TE_EXTERNAL_EVIDENCE_VERIFIED, TE_RTT_SUCCEEDED,
     TE_PLAN_FINALIZED, TE_SMS_PREPARED, TE_SMS_PREPARED, TE_CALLBACK_ACCEPTED]"
| "partner_kinds SETTLEMENT_AMOUNT_MISMATCH_REJECTED = [(TE_EXTERNAL_EVIDENCE_REJECTED, [])]"
| "partner_kinds HISTORY_ACCESS_CONTROL = [(TE_HISTORY_READ_ALLOWED, ''SENDER''), (TE_HISTORY_READ_ALLOWED, ''RECEIVER''), (TE_HISTORY_READ_DENIED, ''UNRELATED'')]"
| "partner_kinds SMS_FINALITY_GATE = map (\<lambda>k. (k, [])) [TE_SMS_BLOCKED_BEFORE_FINALITY, TE_EXTERNAL_EVIDENCE_VERIFIED, TE_RTT_SUCCEEDED,
     TE_PLAN_FINALIZED, TE_SMS_PREPARED, TE_SMS_PREPARED]"
| "partner_kinds ADAPTER_VERSION_PIN = map (\<lambda>k. (k, [])) [TE_UTT_CREATED, TE_RTT_CREATED, TE_ADAPTER_BINDING_VERIFIED,
     TE_ADAPTER_BINDING_MISMATCH_REJECTED, TE_PROVIDER_DISPATCHED]"

definition partner_trace :: "cert_scenario \<Rightarrow> cert_trace" where
  "partner_trace sc = \<lparr>tr_trace_id = [], tr_run_id = ''RUN-1'', tr_scenario = sc, tr_adapter_binding_ref = cert_ref, tr_started_at = 0, tr_completed_at = 99,
     tr_events = map (\<lambda>(n, k, scope). \<lparr>ce_event_id = replicate n (CHR ''e''), ce_scenario = sc, ce_event_type = k, ce_occurred_at = int n,
       ce_sequence = int n, ce_adapter_binding_ref = cert_ref, ce_utt_id = Some ''U'', ce_rtt_id = Some ''R'', ce_evidence_sha256 = Some ''h'',
       ce_metadata = [(''actor_scope'', scope)]\<rparr>) (enumerate 1 (partner_kinds sc))\<rparr>"

definition partner_driver :: cert_driver where
  "partner_driver = \<lparr>dv_adapter_binding_ref = cert_ref, dv_evidence_classification = PARTNER_SANDBOX, dv_execute_case = (\<lambda>run_id sc. Inr (partner_trace sc))\<rparr>"

lemma partner_conforms: "conforms (partner_trace sc)"
proof -
  have "\<forall>sc\<in>set (su_scenarios pilot_v1). evaluate (partner_trace sc) = []" by code_simp
  moreover have "sc \<in> set (su_scenarios pilot_v1)" by (cases sc) (simp_all add: pilot_v1_def suite_of_def)
  ultimately show ?thesis by (simp add: evaluate_conforms)
qed

theorem certification_sound_witness:
  "\<exists>sman sr w' suite. certify demo_platform demo_keys ''ke'' ''RUN-1'' partner_driver sman (Aware 5) cert_durations 7
        \<lparr>cw_recorder = \<lparr>rc_runs = [], rc_traces = []\<rparr>, cw_reports = []\<rparr> = (Inr sr, w')
     \<and> rp_status (sg_report sr) = REPORT_PASSED \<and> suite_for_manifest cert_manifest = Inr suite
     \<and> (\<forall>sc\<in>set (su_scenarios suite). \<exists>t. dict_get (rc_traces (cw_recorder w')) (''RUN-1'', sc) = Some t \<and> tr_scenario t = sc \<and> conforms t)"
proof -
  obtain sman b where m: "verify_manifest demo_platform demo_keys sman = Inr ()" "sm_manifest sman = cert_manifest"
    "py_item (env_protected (sm_signature sman)) ''payload_sha256'' = Inr (PyStr (sha256_hex b))" by (rule cert_signed)
  obtain suite where s: "suite_for_manifest cert_manifest = Inr suite" by (simp add: suite_for_manifest_def cert_manifest_def)
  then have su: "su_per_case_timeout_seconds suite = 30" "distinct (su_scenarios suite)" "su_scenarios suite \<noteq> []"
    by (auto simp: suite_for_manifest_def suite_of_def split: if_splits)
  let ?d = partner_driver and ?s0 = "\<lparr>rc_runs = [], rc_traces = []\<rparr> :: recorder"
  have run: "\<forall>sc\<in>set (su_scenarios suite). dv_execute_case ?d ''RUN-1'' sc = Inr (partner_trace sc) \<and> passing ''RUN-1'' ?d suite (partner_trace sc)
      \<and> tr_scenario (partner_trace sc) = sc \<and> 0 \<le> fst (cert_durations sc) \<and> fst (cert_durations sc) \<le> su_per_case_timeout_seconds suite * 1000"
    using partner_conforms su(1) by (simp add: passing_def evaluate_conforms partner_driver_def partner_trace_def cert_durations_def)
  obtain r s' where r: "run_suite demo_platform ''RUN-1'' ?d (sha256_hex b) suite (Aware 5) True cert_durations 7 ?s0 = (Inr r, s')"
    "rp_status r = REPORT_PASSED" "rp_evidence_classification r = PARTNER_SANDBOX" "rp_completed_at r = 0"
    using named_trace_run [OF run su(2,3), of "sha256_hex b" demo_platform "Aware 5" 7] cert_ref_form sha256_form_hex
    by (auto simp: partner_driver_def whole_second_def astimezone_utc_def)
  have named: "names_cases ?d ''RUN-1''" by (simp add: names_cases_def partner_driver_def partner_trace_def)
  have plain: "plain (report_payload r)"
  proof -
    have "plain (case_payload c)" for c by (simp add: case_payload_def plain_obj)
    then show ?thesis by (simp add: report_payload_def report_core_def plain_obj plain_seq_map)
  qed
  have "can_sign demo_platform demo_keys ''ke'' (purpose_by_artifact PARTNER_CERTIFICATION_REPORT) 0"
    by (simp add: can_sign_def permits_signing_at_def demo_key_def from_epoch_def)
  from can_sign_ok [OF this plain] obtain env where
    g: "sign_artifact demo_platform demo_keys PARTNER_CERTIFICATION_REPORT (report_payload r) ''ke'' (Aware 0) = Inr env" by blast
  have act: "is_active_at cert_manifest 5" "de_certification_status (cm_descriptor cert_manifest) = CERT_CONFORMANCE" "binding_ref (cm_descriptor cert_manifest) = cert_ref"
    by code_simp+
  have "\<exists>sr w'. certify demo_platform demo_keys ''ke'' ''RUN-1'' ?d sman (Aware 5) cert_durations 7 \<lparr>cw_recorder = ?s0, cw_reports = []\<rparr> = (Inr sr, w') \<and> sg_report sr = r"
    using m s act r g by (simp add: certify_def Let_def partner_driver_def py_str_def sign_and_commit_def sbind_def slift_def put_report_def)
  then obtain sr w' where c: "certify demo_platform demo_keys ''ke'' ''RUN-1'' ?d sman (Aware 5) cert_durations 7 \<lparr>cw_recorder = ?s0, cw_reports = []\<rparr> = (Inr sr, w')" "sg_report sr = r"
    by blast
  show ?thesis using certification_sound [OF c(1)] c r(2) m(2) s named by auto
qed

end
