(* ===== verification/Spec2Isabelle.thy ===== *)
theory Spec2Isabelle
  imports Projection_Run Sandbox_Callback Notifications_Run Callback_Run Identity_Run History_Run Api_Run Mpesa_Institution Secret_Run
    Certification_Run
begin

text \<open>
  \<^bold>\<open>RailOne Core.\<close> RailOne orchestrates payments it never holds: an institution quotes and accepts a transfer, the
  program plans a route, submits attempts to providers, listens for their callbacks, and keeps signed evidence of
  every step.  This development models the Python packages under \<^verbatim>\<open>src/railone_*\<close> and proves the properties
  their services are built for.

  \<^bold>\<open>How the parts interact.\<close>  Every durable statement is a canonical JSON payload signed with a purpose-bound Ed25519
  key.  A quote (\<^verbatim>\<open>contracts\<close>) becomes an accepted contract, the UTT, with a sender authority (\<^verbatim>\<open>authority\<close>);
  \<^verbatim>\<open>execution\<close> ranks the routes of a UTT into a plan and runs attempts, the RTTs, one at a time; \<^verbatim>\<open>operations\<close>
  submits an attempt to a provider adapter and writes each change with a signed event to an outbox; a relay
  publishes the outbox, and \<^verbatim>\<open>projection\<close> folds the events into a read model.  Provider callbacks enter through
  \<^verbatim>\<open>callbacks\<close>, which alone may finalize an attempt, and trigger settlement evidence and notifications.  \<^verbatim>\<open>identity\<close>,
  \<^verbatim>\<open>history\<close> and \<^verbatim>\<open>api\<close> give authenticated readers a permissioned view.  \<^verbatim>\<open>providers\<close>, \<^verbatim>\<open>institutions\<close> and
  \<^verbatim>\<open>certification\<close> are the boundary to institutions, \<^verbatim>\<open>security\<close> encrypts secrets at rest, \<^verbatim>\<open>sandbox\<close> simulates providers.

  \<^bold>\<open>Conventions.\<close>  An operation that only reads returns \<open>error + 'a\<close>; one that writes takes the store and returns a
  result and the store it leaves, also when it raises (theory \<open>Prelude\<close>).  A dictionary is an association list in
  insertion order, a class a record, an enumeration a datatype with its value function.  JSON-like values are the
  datatype \<open>pyval\<close>.  Time is a number of microseconds, aware or naive; the clock and random identifiers are arguments.
  Locks make each store operation atomic, so concurrency is the interleaving of operations in a step relation.

  \<^bold>\<open>Theories and sources.\<close>

  \<^item> \<open>Canonical_Json\<close>, \<open>Base64url\<close>, \<open>Sha256\<close>, \<open>Hmac\<close>, \<open>Json_Loads\<close>, \<open>Key_Provider\<close>, \<open>Signature_Service\<close>: \<^verbatim>\<open>railone_crypto\<close> and the
    parts of the standard library it uses, written out.  Canonical text is injective and is read back by \<^verbatim>\<open>json.loads\<close>; what
    is accepted as signed was signed for that purpose by a key valid at that time.
  \<^item> \<open>Contract_Models\<close>, \<open>Partners\<close>, \<open>Quote_Service\<close>, \<open>Authority\<close>, \<open>Contract_Store\<close>, \<open>Acceptance\<close>: \<^verbatim>\<open>railone_contracts\<close>,
    \<^verbatim>\<open>railone_partners\<close>, \<^verbatim>\<open>railone_authority\<close>.  A quote is accepted at most once, under any interleaving and any
    idempotency keys, and the contract and every member of its sender authority state what the quote and the command said.
  \<^item> \<open>Route_Scoring\<close>, \<open>Execution_Store\<close>, \<open>Execution_Service\<close>, \<open>Execution_Invariant\<close>, \<open>Execution_Properties\<close>, \<open>Execution_Run\<close>:
    \<^verbatim>\<open>railone_execution\<close>.  The ranking is sound, a plan's attempts form one history in which every attempt but the last
    has failed, a settled plan stays settled, an unknown outcome blocks it.  Reachable states are those of calls that report
    failures under RTT identifiers without surrounding white space; what a padded identifier does is a theorem of its own.
  \<^item> \<open>Lease_Queue\<close>, \<open>Store_Interfaces\<close>: the contracts of leased queues, write-once and versioned stores as locales, each
    interpreted on the stores of the program.
  \<^item> \<open>Operations_Store\<close>, \<open>Provider_Submission\<close>, \<open>Outbox_Relay\<close>, \<open>Submission_Invariant\<close>, \<open>Submission_Properties\<close>,
    \<open>Submission_Run\<close>, \<open>Projection\<close>, \<open>Projection_Run\<close>: \<^verbatim>\<open>railone_operations\<close>, \<^verbatim>\<open>railone_projection\<close>.  Concurrent dispatchers never
    call a provider that is not idempotent twice, a final submission stays final, events mirror submissions, leases are
    exclusive, and the projection is independent of the order and repetition of delivery, up to the instant of projection, which
    is that of the first delivery of the event.
  \<^item> \<open>Callback_Inbox\<close>, \<open>Mpesa_Callback\<close>, \<open>Callback_Properties\<close>, \<open>Callback_Run\<close>, \<open>Notifications\<close>, \<open>Notifications_Run\<close>:
    \<^verbatim>\<open>railone_callbacks\<close>, \<^verbatim>\<open>railone_notifications\<close>.  Only an authenticated, correlated callback changes anything, a replay
    changes nothing, a callback received but not applied is still applied, and a notification is handed to the SMS provider at most once.
  \<^item> \<open>Sandbox_Store\<close>, \<open>Sandbox_Broker\<close>, \<open>Sandbox_Callback\<close>: \<^verbatim>\<open>railone_sandbox\<close>, and which of its simulated settlements
    the callback processor accepts.
  \<^item> \<open>Identity\<close>, \<open>Identity_Properties\<close>, \<open>Identity_Run\<close>, \<open>History\<close>, \<open>History_Properties\<close>, \<open>History_Run\<close>: \<^verbatim>\<open>railone_identity\<close>,
    \<^verbatim>\<open>railone_history\<close>.  Identity histories are append-only and a revocation is final; the history index is exact, queries
    are permissioned and audited, and following cursors reads everything once.
  \<^item> \<open>Access_Token\<close>, \<open>Token_Properties\<close>, \<open>Api_Guard\<close>, \<open>Rate_Limit\<close>, \<open>Api_Properties\<close>, \<open>Api_Run\<close>: \<^verbatim>\<open>railone_api\<close> without its HTTP
    framework.  Tokens are sound, stay revoked and, within the size and times the verifier accepts, round-trip; the limiter's bounds, and every API read lies within the token's scopes.
  \<^item> \<open>Mpesa_Adapter\<close>, \<open>Mpesa_Properties\<close>, \<open>Mpesa_Run\<close>, \<open>Institution\<close>, \<open>Institution_Registry\<close>, \<open>Generic_Adapter\<close>,
    \<open>Institution_Properties\<close>, \<open>Mpesa_Institution\<close>: \<^verbatim>\<open>railone_providers\<close>, \<^verbatim>\<open>railone_institutions\<close>.  A retry never follows a payment
    request, the registry resolves only verified manifests of the pinned version, what the bridge passes on and
    what it rewrites, and that the configured adapter sends nothing outside its manifest (the requests sent are its state).
  \<^item> \<open>Certification\<close>, \<open>Certification_Runner\<close>, \<open>Certification_Properties\<close>, \<open>Certification_Run\<close>: \<^verbatim>\<open>railone_certification\<close>.  What a
    passed report proves: traces that meet the scenarios they name, which are those of the cases only if the driver sees to it.
  \<^item> \<open>Secret_Envelope\<close>, \<open>Secret_Properties\<close>, \<open>Secret_Run\<close>: \<^verbatim>\<open>railone_security\<close>.  An envelope opens only for its own
    record, and the vaults resolve exactly what was registered.

  The theories named \<open>_Run\<close> hold concrete runs that meet the hypotheses of the properties.

  \<^bold>\<open>Parameters.\<close>  Ed25519 is a pair of functions of the platform (\<open>ed25519_correct\<close>: a genuine signature verifies, public
  keys have 32 bytes); AES-GCM and a remote key service are functions (\<open>aesgcm_correct\<close>, \<open>key_service_correct\<close>: decryption
  inverts encryption); provider adapters, HTTP transports, SMS senders, message consumers and certification drivers
  are functions whose results the theorems quantify over.  No theorem assumes that SHA-256 is injective: where a collision
  matters, the statement names it.

  \<^bold>\<open>Bounds and fuel.\<close>  \<^verbatim>\<open>json.loads\<close> is the only definition with fuel; twice the length of the text plus one is
  proved to be enough, so exhaustion is never its result (the interpreter's own limits are not modelled).  Every other recursion is structural or has a measure.

  \<^bold>\<open>Not modelled.\<close>  The PostgreSQL stores (behaviour of a database), the FastAPI application, urllib and TLS transports, process
  wiring, metrics and command-line tools (I/O), the ISO 20022 codec (an XML library), simulated reference adapters and
  drivers, and the \<^verbatim>\<open>step_*\<close> directories (frozen copies of earlier releases).  Of the language: text outside ASCII,
  recursion and digit limits of the interpreter, the text of floats and containers, and datetime overflow beyond the
  conversions written out.
\<close>

end
